(* ===== verification/Prelude.thy ===== *)
theory Prelude
  imports Main "HOL-Library.Signed_Division" "HOL-Library.Multiset" "HOL-Library.Code_Target_Nat"
begin

text \<open>
  Shared ground of the development: the fact collections the component theories extend, the
  model of Go's clock values and integers, and generic lemmas on lists and maps.

  A \<open>time.Time\<close> is an \<open>int\<close>, the nanoseconds since Go's zero time, so the zero value is \<open>0\<close> and
  \<open>IsZero\<close> is a comparison with it. A \<open>time.Duration\<close> is an \<open>int\<close> number of nanoseconds. An
  \<open>int64\<close> is an \<open>int\<close>; the one place where its range matters (\<open>strconv.Atoi\<close>) checks it. Go's
  integer quotient truncates towards zero, which is \<open>sdiv\<close> of the library.
\<close>

section \<open>Fact collections\<close>

named_theorems dec_simps \<open>the meaning of the decimal operations as rational arithmetic\<close>
named_theorems store_defs \<open>definitions of the store operations\<close>
named_theorems txt_simps \<open>evaluation of the text helpers\<close>

section \<open>Clock values\<close>

type_synonym time = int
type_synonym duration = int

abbreviation is_zero_time :: "time \<Rightarrow> bool" where
  "is_zero_time t \<equiv> t = 0"

definition seconds :: "int \<Rightarrow> duration" where
  "seconds n = n * 1000000000"

definition minutes :: "int \<Rightarrow> duration" where
  "minutes n = seconds (60 * n)"

definition hours :: "int \<Rightarrow> duration" where
  "hours n = minutes (60 * n)"

lemma seconds_pos [simp]: "(0 < seconds n) = (0 < n)" "(0 \<le> seconds n) = (0 \<le> n)"
  by (simp_all add: seconds_def)

section \<open>Integers\<close>

definition in_int64 :: "int \<Rightarrow> bool" where
  "in_int64 n \<longleftrightarrow> - (2 ^ 63) \<le> n \<and> n < 2 ^ 63"

lemma sdiv_pos_int: "0 \<le> (a::int) \<Longrightarrow> 0 \<le> b \<Longrightarrow> a sdiv b = a div b"
  by (cases "a = 0"; cases "b = 0") (auto simp: signed_divide_int_def sgn_if)

section \<open>Lists\<close>

text \<open>The first element that satisfies a test, as a Go loop with an early return finds it.\<close>

fun find_first :: "('a \<Rightarrow> bool) \<Rightarrow> 'a list \<Rightarrow> 'a option" where
  "find_first p [] = None"
| "find_first p (x # xs) = (if p x then Some x else find_first p xs)"

lemma find_first_Some: "find_first p xs = Some x \<Longrightarrow> x \<in> set xs \<and> p x"
  by (induction xs) (auto split: if_splits)

lemma find_first_None: "find_first p xs = None \<longleftrightarrow> (\<forall>x\<in>set xs. \<not> p x)"
  by (induction xs) auto

text \<open>
  The insertion sort the stores share: each row is moved left past the rows it comes \<open>before\<close>. The
  sorted prefix is kept reversed, so the move starts at its head.
\<close>

fun sink :: "('a \<Rightarrow> 'a \<Rightarrow> bool) \<Rightarrow> 'a \<Rightarrow> 'a list \<Rightarrow> 'a list" where
  "sink before x [] = [x]"
| "sink before x (y # ys) = (if before x y then y # sink before x ys else x # y # ys)"

definition insertion_sort :: "('a \<Rightarrow> 'a \<Rightarrow> bool) \<Rightarrow> 'a list \<Rightarrow> 'a list" where
  "insertion_sort before xs = rev (foldl (\<lambda>acc x. sink before x acc) [] xs)"

lemma mset_sink [simp]: "mset (sink before x ys) = add_mset x (mset ys)"
  by (induction ys) auto

lemma set_sink [simp]: "set (sink before x ys) = insert x (set ys)"
  by (induction ys) auto

lemma sorted_sink:
  fixes f :: "'a \<Rightarrow> int"
  shows "sorted (rev (map f ys)) \<Longrightarrow> sorted (rev (map f (sink (\<lambda>a b. f a < f b) x ys)))"
  by (induction ys) (auto simp: sorted_append)

lemma filter_sink:
  fixes f :: "'a \<Rightarrow> int"
  shows "sorted (rev (map f ys)) \<Longrightarrow>
     filter (\<lambda>z. k = f z) (sink (\<lambda>a b. f a < f b) x ys) = (if k = f x then [x] else []) @ filter (\<lambda>z. k = f z) ys"
  by (induction ys) (auto simp: sorted_append)

lemma foldl_sink:
  fixes f :: "'a \<Rightarrow> int"
  assumes "sorted (rev (map f acc))"
  shows "sorted (rev (map f (foldl (\<lambda>acc x. sink (\<lambda>a b. f a < f b) x acc) acc xs))) \<and>
     mset (foldl (\<lambda>acc x. sink (\<lambda>a b. f a < f b) x acc) acc xs) = mset acc + mset xs \<and>
     filter (\<lambda>z. k = f z) (foldl (\<lambda>acc x. sink (\<lambda>a b. f a < f b) x acc) acc xs)
       = filter (\<lambda>z. k = f z) (rev xs) @ filter (\<lambda>z. k = f z) acc"
  using assms
proof (induction xs arbitrary: acc)
  case (Cons x xs)
  show ?case
    using Cons.IH [OF sorted_sink [OF Cons.prems, of x]] filter_sink [OF Cons.prems, of k x] by simp
qed simp

lemma insertion_sort_key:
  fixes f :: "'a \<Rightarrow> int"
  shows "insertion_sort (\<lambda>a b. f a < f b) xs = sort_key f xs"
proof (rule properties_for_sort_key [symmetric])
  let ?r = "foldl (\<lambda>acc x. sink (\<lambda>a b. f a < f b) x acc) [] xs"
  have r: "sorted (rev (map f ?r)) \<and> mset ?r = mset xs \<and> filter (\<lambda>z. k = f z) ?r = filter (\<lambda>z. k = f z) (rev xs)" for k
    using foldl_sink [of f "[]" xs k] by simp
  show "mset (insertion_sort (\<lambda>a b. f a < f b) xs) = mset xs"
    using r by (simp add: insertion_sort_def)
  show "filter (\<lambda>x. f k = f x) (insertion_sort (\<lambda>a b. f a < f b) xs) = filter (\<lambda>x. f k = f x) xs" for k
    using r [of "f k"] by (simp add: insertion_sort_def rev_filter [symmetric])
  show "sorted (map f (insertion_sort (\<lambda>a b. f a < f b) xs))"
    using r by (simp add: insertion_sort_def rev_map)
qed

lemma set_insertion_sort [simp]: "set (insertion_sort before xs) = set xs"
proof -
  have "set (foldl (\<lambda>acc x. sink before x acc) acc xs) = set acc \<union> set xs" for acc
    by (induction xs arbitrary: acc) auto
  then show ?thesis by (simp add: insertion_sort_def)
qed

section \<open>Maps\<close>

lemma map_upd_other: "k \<noteq> k' \<Longrightarrow> (m(k \<mapsto> v)) k' = m k'"
  by simp

lemma finite_dom_upd: "finite (dom m) \<Longrightarrow> finite (dom (m(k \<mapsto> v)))"
  by simp

text \<open>Rows that changed only by moves a relation allows: none appears and none is lost.\<close>

definition moved :: "('r \<Rightarrow> 'r \<Rightarrow> bool) \<Rightarrow> ('k \<Rightarrow> 'r option) \<Rightarrow> ('k \<Rightarrow> 'r option) \<Rightarrow> bool" where
  "moved P m m' \<longleftrightarrow> (\<forall>k. m' k = m k \<or> (\<exists>r r'. m k = Some r \<and> m' k = Some r' \<and> P r r'))"

lemma moved_refl [simp]: "moved P m m"
  by (simp add: moved_def)

lemma moved_upd: "m k = Some r \<Longrightarrow> P r r' \<Longrightarrow> moved P m (m(k \<mapsto> r'))"
  by (auto simp: moved_def)

lemma movedE: "moved P m m' \<Longrightarrow> m k = Some r \<Longrightarrow> \<exists>r'. m' k = Some r' \<and> (r' = r \<or> P r r')"
  by (metis moved_def option.inject)

section \<open>Fallible steps\<close>

text \<open>
  A Go call that returns \<open>(value, error)\<close> is a sum with the error on the left; \<open>bindE\<close> is the
  \<open>if err != nil { return err }\<close> after it.
\<close>

fun bindE :: "'e + 'a \<Rightarrow> ('a \<Rightarrow> 'e + 'b) \<Rightarrow> 'e + 'b" where
  "bindE (Inl e) f = Inl e"
| "bindE (Inr x) f = f x"

definition ensureE :: "bool \<Rightarrow> 'e \<Rightarrow> 'e + unit" where
  "ensureE b e = (if b then Inr () else Inl e)"

lemma bindE_Inr [simp]: "(bindE m f = Inr y) = (\<exists>x. m = Inr x \<and> f x = Inr y)"
  by (cases m) auto

lemma bindE_Inl: "(bindE m f = Inl e) = (m = Inl e \<or> (\<exists>x. m = Inr x \<and> f x = Inl e))"
  by (cases m) auto

lemma ensureE_Inr [simp]: "(ensureE b e = Inr u) = b"
  by (simp add: ensureE_def)

lemma ensureE_True [simp]: "ensureE True e = Inr ()" and ensureE_False [simp]: "ensureE False e = Inl e"
  by (simp_all add: ensureE_def)

text \<open>A Go value of type \<open>error\<close>: \<open>None\<close> is \<open>nil\<close>.\<close>

definition map_err :: "('e \<Rightarrow> 'f) \<Rightarrow> 'e + 'a \<Rightarrow> 'f + 'a" where
  "map_err f r = (case r of Inl e \<Rightarrow> Inl (f e) | Inr x \<Rightarrow> Inr x)"

lemma map_err_Inr [simp]: "(map_err f r = Inr x) = (r = Inr x)"
  by (cases r) (auto simp: map_err_def)

lemma map_err_simps [simp]: "map_err f (Inr x) = Inr x" "map_err f (Inl e) = Inl (f e)"
  by (simp_all add: map_err_def)

end
