(* ===== verification/Go_Text.thy ===== *)
theory Go_Text
  imports Prelude
begin

text \<open>
  The functions of Go's \<open>strings\<close> and \<open>strconv\<close> packages that the program calls. A Go string is
  the list of its bytes; the model is exact for ASCII text, the only text the grammars of the
  program are written in (a byte above 127 is neither a space nor a digit nor a letter here).
\<close>

section \<open>Characters\<close>

definition code :: "char \<Rightarrow> nat" where
  "code c = of_char c"

definition is_space :: "char \<Rightarrow> bool" where
  "is_space c \<longleftrightarrow> (9 \<le> code c \<and> code c \<le> 13) \<or> code c = 32"

definition is_digit :: "char \<Rightarrow> bool" where
  "is_digit c \<longleftrightarrow> 48 \<le> code c \<and> code c \<le> 57"

definition is_upper :: "char \<Rightarrow> bool" where
  "is_upper c \<longleftrightarrow> 65 \<le> code c \<and> code c \<le> 90"

definition is_lower :: "char \<Rightarrow> bool" where
  "is_lower c \<longleftrightarrow> 97 \<le> code c \<and> code c \<le> 122"

definition lower_char :: "char \<Rightarrow> char" where
  "lower_char c = (if is_upper c then char_of (code c + 32) else c)"

definition upper_char :: "char \<Rightarrow> char" where
  "upper_char c = (if is_lower c then char_of (code c - 32) else c)"

definition digit_val :: "char \<Rightarrow> nat" where
  "digit_val c = code c - 48"

definition digit_char :: "nat \<Rightarrow> char" where
  "digit_char n = char_of (48 + n)"

lemma code_char_of: "n < 256 \<Longrightarrow> code (char_of n) = n"
  by (simp add: code_def)

lemma is_digit_digit_char: "n < 10 \<Longrightarrow> is_digit (digit_char n)"
  by (simp add: is_digit_def digit_char_def code_char_of)

lemma digit_val_digit_char: "n < 10 \<Longrightarrow> digit_val (digit_char n) = n"
  by (simp add: digit_val_def digit_char_def code_char_of)

lemma digit_not_space: "is_digit c \<Longrightarrow> \<not> is_space c"
  by (simp add: is_digit_def is_space_def)

lemma code_eq: "code c = code d \<longleftrightarrow> c = d"
  by (simp add: code_def)

section \<open>strings\<close>

definition trim_left :: "string \<Rightarrow> string" where
  "trim_left s = dropWhile is_space s"

definition trim_space :: "string \<Rightarrow> string" where
  "trim_space s = rev (trim_left (rev (trim_left s)))"

fun fields_acc :: "string \<Rightarrow> string \<Rightarrow> string list" where
  "fields_acc acc [] = (if acc = [] then [] else [rev acc])"
| "fields_acc acc (c # cs) =
     (if is_space c then (if acc = [] then fields_acc [] cs else rev acc # fields_acc [] cs)
      else fields_acc (c # acc) cs)"

definition str_fields :: "string \<Rightarrow> string list" where
  "str_fields s = fields_acc [] s"

definition to_lower :: "string \<Rightarrow> string" where
  "to_lower s = map lower_char s"

definition to_upper :: "string \<Rightarrow> string" where
  "to_upper s = map upper_char s"

definition equal_fold :: "string \<Rightarrow> string \<Rightarrow> bool" where
  "equal_fold a b \<longleftrightarrow> to_lower a = to_lower b"

definition has_suffix :: "string \<Rightarrow> string \<Rightarrow> bool" where
  "has_suffix s suf \<longleftrightarrow> length suf \<le> length s \<and> drop (length s - length suf) s = suf"

definition trim_suffix :: "string \<Rightarrow> string \<Rightarrow> string" where
  "trim_suffix s suf = (if has_suffix s suf then take (length s - length suf) s else s)"

definition has_prefix :: "string \<Rightarrow> string \<Rightarrow> bool" where
  "has_prefix s pre \<longleftrightarrow> take (length pre) s = pre"

definition trim_prefix :: "string \<Rightarrow> string \<Rightarrow> string" where
  "trim_prefix s pre = (if has_prefix s pre then drop (length pre) s else s)"

definition remove_char :: "char \<Rightarrow> string \<Rightarrow> string" where
  "remove_char c s = filter (\<lambda>x. x \<noteq> c) s"

fun split_on :: "char \<Rightarrow> string \<Rightarrow> string list" where
  "split_on c [] = [[]]"
| "split_on c (x # xs) =
     (if x = c then [] # split_on c xs
      else case split_on c xs of [] \<Rightarrow> [[x]] | p # ps \<Rightarrow> (x # p) # ps)"

text \<open>\<open>strings.Cut\<close> at one byte: the text before, the text after, and whether it was found.\<close>

fun cut_at :: "char \<Rightarrow> string \<Rightarrow> string \<times> string \<times> bool" where
  "cut_at c [] = ([], [], False)"
| "cut_at c (x # xs) =
     (if x = c then ([], xs, True) else case cut_at c xs of (a, b, f) \<Rightarrow> (x # a, b, f))"

definition trim_right_char :: "char \<Rightarrow> string \<Rightarrow> string" where
  "trim_right_char c s = rev (dropWhile (\<lambda>x. x = c) (rev s))"

fun join_with :: "string \<Rightarrow> string list \<Rightarrow> string" where
  "join_with sep [] = []"
| "join_with sep [s] = s"
| "join_with sep (s # t # ss) = s @ sep @ join_with sep (t # ss)"

lemma fields_acc_nonspace:
  "\<forall>c\<in>set acc. \<not> is_space c \<Longrightarrow> w \<in> set (fields_acc acc s) \<Longrightarrow> w \<noteq> [] \<and> (\<forall>c\<in>set w. \<not> is_space c)"
proof (induction s arbitrary: acc)
  case Nil
  then show ?case by (cases "acc = []") auto
next
  case (Cons x s)
  show ?case
  proof (cases "is_space x")
    case True
    with Cons.prems Cons.IH [of "[]"] show ?thesis by (cases "acc = []") auto
  next
    case False
    with Cons.prems Cons.IH [of "x # acc"] show ?thesis by simp
  qed
qed

lemma fields_nonspace: "w \<in> set (str_fields s) \<Longrightarrow> w \<noteq> [] \<and> (\<forall>c\<in>set w. \<not> is_space c)"
  unfolding str_fields_def by (rule fields_acc_nonspace) auto

definition plain_word :: "string \<Rightarrow> bool" where
  "plain_word w \<longleftrightarrow> w \<noteq> [] \<and> (\<forall>c\<in>set w. \<not> is_space c)"

lemma fields_acc_word: "\<forall>c\<in>set w. \<not> is_space c \<Longrightarrow> fields_acc acc (w @ s) = fields_acc (rev w @ acc) s"
  by (induction w arbitrary: acc) auto

lemma space_is_space [simp]: "is_space (CHR '' '')"
  by (simp add: is_space_def code_def)

lemma dropWhile_rev_split: "\<exists>v. u = rev (dropWhile p (rev u)) @ v"
  by (metis rev_append rev_rev_ident takeWhile_dropWhile_id)

lemma trim_right_append:
  assumes "dropWhile p (rev w) = rev w"
  shows "rev (dropWhile p (rev (w @ t))) = w @ rev (dropWhile p (rev t))"
proof (cases "\<exists>x\<in>set (rev t). \<not> p x")
  case True
  then obtain x where "x \<in> set (rev t)" "\<not> p x" by blast
  from dropWhile_append1 [of x "rev t" p "rev w"] this show ?thesis by simp
next
  case False
  then have "dropWhile p (rev t @ rev w) = rev w" "dropWhile p (rev t) = []"
    using assms dropWhile_append2 [of "rev t" p "rev w"] by (auto simp: dropWhile_eq_Nil_conv)
  then show ?thesis by simp
qed

text \<open>The first word of a command, whatever follows its space.\<close>

lemma first_field:
  assumes "plain_word w"
  shows "\<exists>ts. str_fields (trim_space (w @ '' '' @ s)) = w # ts"
proof -
  define u where "u = rev (dropWhile is_space (rev ('' '' @ s)))"
  have w: "w \<noteq> []" "\<forall>c\<in>set w. \<not> is_space c" using assms by (auto simp: plain_word_def)
  have l: "dropWhile is_space (w @ t) = w @ t" for t using w by (cases w) auto
  have r: "dropWhile is_space (rev w) = rev w" using w by (metis dropWhile_eq_self_iff hd_in_set set_rev)
  have "rev (dropWhile is_space (rev (w @ '' '' @ s))) = w @ u"
    unfolding u_def by (rule trim_right_append [OF r])
  then have t: "trim_space (w @ '' '' @ s) = w @ u" by (simp add: trim_space_def trim_left_def l)
  obtain v where "'' '' @ s = u @ v" using dropWhile_rev_split [of "'' '' @ s" is_space] by (auto simp: u_def)
  then have "u = [] \<or> (\<exists>u'. u = CHR '' '' # u')" by (cases u) auto
  then show ?thesis using w unfolding t str_fields_def by (auto simp: fields_acc_word)
qed

lemma trim_left_nonspace: "\<forall>c\<in>set s. \<not> is_space c \<Longrightarrow> trim_left s = s"
  by (cases s) (simp_all add: trim_left_def)

lemma trim_space_nonspace: "\<forall>c\<in>set s. \<not> is_space c \<Longrightarrow> trim_space s = s"
  by (simp add: trim_space_def trim_left_nonspace)

lemma has_suffix_append [simp]: "has_suffix (s @ suf) suf"
  by (simp add: has_suffix_def)

lemma trim_suffix_append [simp]: "trim_suffix (s @ suf) suf = s"
  by (simp add: trim_suffix_def)

lemma has_suffixE:
  assumes "has_suffix s suf"
  obtains p where "s = p @ suf"
  using assms unfolding has_suffix_def by (metis append_take_drop_id)

lemma split_on_nonempty: "split_on c s \<noteq> []"
  by (induction s) (auto split: list.splits)

lemma split_on_absent: "c \<notin> set s \<Longrightarrow> split_on c s = [s]"
  by (induction s) auto

lemma split_on_once: "c \<notin> set a \<Longrightarrow> c \<notin> set b \<Longrightarrow> split_on c (a @ c # b) = [a, b]"
  by (induction a) (auto simp: split_on_absent)

lemma to_lower_idem [simp]: "to_lower (to_lower s) = to_lower s"
  by (auto simp: to_lower_def lower_char_def is_upper_def code_char_of)

lemma equal_fold_refl [simp]: "equal_fold s s"
  by (simp add: equal_fold_def)

section \<open>strconv\<close>

definition all_digits :: "string \<Rightarrow> bool" where
  "all_digits s \<longleftrightarrow> list_all is_digit s"

definition nat_of_digits :: "string \<Rightarrow> nat" where
  "nat_of_digits s = foldl (\<lambda>a c. 10 * a + digit_val c) 0 s"

fun show_nat :: "nat \<Rightarrow> string" where
  "show_nat n = (if n < 10 then [digit_char n] else show_nat (n div 10) @ [digit_char (n mod 10)])"

declare show_nat.simps [simp del]

definition show_int :: "int \<Rightarrow> string" where
  "show_int i = (if i < 0 then CHR ''-'' # show_nat (nat (- i)) else show_nat (nat i))"

text \<open>\<open>strconv.Atoi\<close> on a 64-bit platform: \<open>None\<close> is a syntax or range error.\<close>

definition atoi :: "string \<Rightarrow> int option" where
  "atoi s =
     (let (neg, ds) = (case s of [] \<Rightarrow> (False, [])
                       | c # cs \<Rightarrow> if c = CHR ''-'' then (True, cs)
                                   else if c = CHR ''+'' then (False, cs) else (False, s))
      in if ds = [] \<or> \<not> all_digits ds then None
         else let v = (if neg then - int (nat_of_digits ds) else int (nat_of_digits ds))
              in if in_int64 v then Some v else None)"

lemma show_nat_nonempty: "show_nat n \<noteq> []"
  by (subst show_nat.simps) simp

lemma show_nat_digits: "list_all is_digit (show_nat n)"
proof (induction n rule: show_nat.induct)
  case (1 n)
  then show ?case
    by (cases "n < 10") (simp_all add: show_nat.simps [of n] is_digit_digit_char)
qed

lemma nat_of_digits_append: "nat_of_digits (s @ [c]) = 10 * nat_of_digits s + digit_val c"
  by (simp add: nat_of_digits_def)

lemma nat_of_digits_show_nat [simp]: "nat_of_digits (show_nat n) = n"
proof (induction n rule: show_nat.induct)
  case (1 n)
  then show ?case
    by (cases "n < 10")
      (simp_all add: show_nat.simps [of n] nat_of_digits_append digit_val_digit_char,
       simp add: nat_of_digits_def digit_val_digit_char)
qed

lemma nat_of_digits_zero [simp]: "nat_of_digits (CHR ''0'' # s) = nat_of_digits s"
  by (simp add: nat_of_digits_def digit_val_def code_def)

lemma nat_of_digits_zeros [simp]: "nat_of_digits (replicate k (CHR ''0'') @ s) = nat_of_digits s"
  by (induction k) simp_all

lemma minus_not_digit [simp]: "\<not> is_digit (CHR ''-'')" "\<not> is_digit (CHR ''+'')" "\<not> is_digit (CHR ''.'')"
  by (simp_all add: is_digit_def code_def)

lemma show_nat_hd: "\<exists>c cs. show_nat n = c # cs \<and> is_digit c"
  using show_nat_nonempty [of n] show_nat_digits [of n] by (cases "show_nat n") auto

lemma atoi_show_int: "in_int64 i \<Longrightarrow> atoi (show_int i) = Some i"
proof -
  assume i: "in_int64 i"
  show ?thesis
  proof (cases "i < 0")
    case True
    with i show ?thesis
      using show_nat_digits [of "nat (- i)"] show_nat_nonempty [of "nat (- i)"]
      by (simp add: atoi_def show_int_def all_digits_def)
  next
    case False
    obtain c cs where "show_nat (nat i) = c # cs" "is_digit c"
      using show_nat_hd by blast
    with False i show ?thesis
      using show_nat_digits [of "nat i"] nat_of_digits_show_nat [of "nat i"]
      by (auto simp: atoi_def show_int_def all_digits_def)
  qed
qed

text \<open>Two characters the messages use, as their UTF-8 bytes.\<close>

definition emdash :: string where
  "emdash = [CHR 0xE2, CHR 0x80, CHR 0x94]"

definition middot :: string where
  "middot = [CHR 0xC2, CHR 0xB7]"

end
