(* ===== verification/Decimal.thy ===== *)
theory Decimal
  imports Go_Text Complex_Main
begin

text \<open>
  \<open>internal/decimal\<close>: the exact base-10 number every order, journal and campaign amount is.
  A \<open>Decimal\<close> is a coefficient (\<open>nil\<close> in Go's zero value, hence an option) and a scale. The
  operations are the code's, on the coefficient and the scale; \<open>dval\<close> is the rational number a
  decimal stands for, and the lemmas collected in \<open>dec_simps\<close> say that every operation computes
  the rational operation of its name. The theorems on \<open>dec_QuoFloor\<close> and \<open>dec_FloorToStep\<close> say
  how the inexact ones round.
\<close>

section \<open>The type and its operations\<close>

record decimal =
  d_value :: "int option"
  d_scale :: nat

datatype decimal_error =
    DecimalEmpty | DecimalNoDigits | DecimalManyPoints | DecimalBadDigit
  | DecimalDivisionByZero | DecimalNegativeScale | DecimalBadStep | DecimalNegativeValue

definition dec_Zero :: decimal where
  "dec_Zero = \<lparr>d_value = Some 0, d_scale = 0\<rparr>"

definition dec_NewFromInt :: "int \<Rightarrow> decimal" where
  "dec_NewFromInt n = \<lparr>d_value = Some n, d_scale = 0\<rparr>"

text \<open>Go's zero value \<open>Decimal{}\<close>, which a struct field holds until it is assigned.\<close>

definition dec_unset :: decimal where
  "dec_unset = \<lparr>d_value = None, d_scale = 0\<rparr>"

fun strip_zeros :: "int \<Rightarrow> nat \<Rightarrow> int \<times> nat" where
  "strip_zeros v 0 = (v, 0)"
| "strip_zeros v (Suc s) =
     (if v smod 10 \<noteq> 0 then (v, Suc s) else strip_zeros (v sdiv 10) s)"

definition dec_normalize :: "decimal \<Rightarrow> decimal" where
  "dec_normalize d =
     (case d_value d of
        None \<Rightarrow> dec_Zero
      | Some v \<Rightarrow>
          if v = 0 then dec_Zero
          else let (v', s') = strip_zeros v (d_scale d) in \<lparr>d_value = Some v', d_scale = s'\<rparr>)"

definition dec_sign :: "decimal \<Rightarrow> int" where
  "dec_sign d = (case d_value d of None \<Rightarrow> 0 | Some v \<Rightarrow> sgn v)"

definition dec_pow10 :: "nat \<Rightarrow> int" where
  "dec_pow10 n = 10 ^ n"

text \<open>The coefficient the code dereferences; \<open>normalize\<close> never leaves it \<open>nil\<close>.\<close>

definition coeff :: "decimal \<Rightarrow> int" where
  "coeff d = (case d_value d of None \<Rightarrow> 0 | Some v \<Rightarrow> v)"

definition dec_align :: "decimal \<Rightarrow> decimal \<Rightarrow> int \<times> int" where
  "dec_align a b =
     (let a = dec_normalize a; b = dec_normalize b; l = coeff a; r = coeff b
      in if d_scale a > d_scale b then (l, r * dec_pow10 (d_scale a - d_scale b))
         else if d_scale b > d_scale a then (l * dec_pow10 (d_scale b - d_scale a), r)
         else (l, r))"

definition dec_commonScale :: "decimal \<Rightarrow> decimal \<Rightarrow> nat" where
  "dec_commonScale a b =
     (let a = dec_normalize a; b = dec_normalize b
      in if d_scale a > d_scale b then d_scale a else d_scale b)"

definition dec_IsZero :: "decimal \<Rightarrow> bool" where
  "dec_IsZero d \<longleftrightarrow> dec_sign d = 0"

definition dec_IsPositive :: "decimal \<Rightarrow> bool" where
  "dec_IsPositive d \<longleftrightarrow> dec_sign d > 0"

definition dec_Abs :: "decimal \<Rightarrow> decimal" where
  "dec_Abs d =
     (let d = dec_normalize d
      in if coeff d \<ge> 0 then d
         else dec_normalize \<lparr>d_value = Some \<bar>coeff d\<bar>, d_scale = d_scale d\<rparr>)"

definition dec_Neg :: "decimal \<Rightarrow> decimal" where
  "dec_Neg d =
     (let d = dec_normalize d
      in dec_normalize \<lparr>d_value = Some (- coeff d), d_scale = d_scale d\<rparr>)"

definition dec_Cmp :: "decimal \<Rightarrow> decimal \<Rightarrow> int" where
  "dec_Cmp d other = (let (l, r) = dec_align d other in sgn (l - r))"

definition dec_Equal :: "decimal \<Rightarrow> decimal \<Rightarrow> bool" where
  "dec_Equal d other \<longleftrightarrow> dec_Cmp d other = 0"

definition dec_Mul :: "decimal \<Rightarrow> decimal \<Rightarrow> decimal" where
  "dec_Mul d other =
     (let d = dec_normalize d; other = dec_normalize other
      in dec_normalize \<lparr>d_value = Some (coeff d * coeff other), d_scale = d_scale d + d_scale other\<rparr>)"

definition dec_Add :: "decimal \<Rightarrow> decimal \<Rightarrow> decimal" where
  "dec_Add d other =
     (let (l, r) = dec_align d other
      in dec_normalize \<lparr>d_value = Some (l + r), d_scale = dec_commonScale d other\<rparr>)"

definition dec_Sub :: "decimal \<Rightarrow> decimal \<Rightarrow> decimal" where
  "dec_Sub d other =
     (let (l, r) = dec_align d other
      in dec_normalize \<lparr>d_value = Some (l - r), d_scale = dec_commonScale d other\<rparr>)"

definition dec_QuoFloor :: "decimal \<Rightarrow> decimal \<Rightarrow> int \<Rightarrow> decimal_error + decimal" where
  "dec_QuoFloor d divisor scale =
     (let d = dec_normalize d; divisor = dec_normalize divisor
      in if dec_sign divisor = 0 then Inl DecimalDivisionByZero
         else if scale < 0 then Inl DecimalNegativeScale
         else let numerator = coeff d * dec_pow10 (d_scale divisor + nat scale);
                  denominator = coeff divisor * dec_pow10 (d_scale d)
              in Inr (dec_normalize \<lparr>d_value = Some (numerator sdiv denominator), d_scale = nat scale\<rparr>))"

definition dec_FloorToStep :: "decimal \<Rightarrow> decimal \<Rightarrow> decimal_error + decimal" where
  "dec_FloorToStep d step =
     (let d = dec_normalize d; step = dec_normalize step
      in if dec_sign step \<le> 0 then Inl DecimalBadStep
         else if dec_sign d < 0 then Inl DecimalNegativeValue
         else let scale = (if d_scale step > d_scale d then d_scale step else d_scale d);
                  value = (if scale > d_scale d then coeff d * dec_pow10 (scale - d_scale d) else coeff d);
                  stepValue = (if scale > d_scale step then coeff step * dec_pow10 (scale - d_scale step)
                               else coeff step);
                  quotient = value sdiv stepValue
              in Inr (dec_normalize \<lparr>d_value = Some (quotient * stepValue), d_scale = scale\<rparr>))"

definition dec_parse_parts :: "bool \<Rightarrow> string \<Rightarrow> string \<Rightarrow> decimal_error + decimal" where
  "dec_parse_parts neg whole fraction =
     (if whole = [] \<and> fraction = [] then Inl DecimalNoDigits
      else if \<not> all_digits (whole @ fraction) then Inl DecimalBadDigit
      else let v = int (nat_of_digits (whole @ fraction))
           in Inr (dec_normalize \<lparr>d_value = Some (if neg then - v else v), d_scale = length fraction\<rparr>))"

definition dec_Parse :: "string \<Rightarrow> decimal_error + decimal" where
  "dec_Parse input =
     (case trim_space input of
        [] \<Rightarrow> Inl DecimalEmpty
      | c # cs \<Rightarrow>
          let body = (if c = CHR ''+'' \<or> c = CHR ''-'' then cs else c # cs)
          in if body = [] then Inl DecimalNoDigits
             else (case split_on (CHR ''.'') body of
                     [whole] \<Rightarrow> dec_parse_parts (c = CHR ''-'') whole []
                   | [whole, fraction] \<Rightarrow> dec_parse_parts (c = CHR ''-'') whole fraction
                   | _ \<Rightarrow> Inl DecimalManyPoints))"

definition dec_String :: "decimal \<Rightarrow> string" where
  "dec_String d =
     (let d = dec_normalize d; v = coeff d; s = d_scale d
      in if v = 0 then ''0''
         else let sign = (if v < 0 then ''-'' else []);
                  digits = show_nat (nat \<bar>v\<bar>)
              in if s = 0 then sign @ digits
                 else let digits = (if length digits \<le> s
                                    then replicate (s - length digits + 1) (CHR ''0'') @ digits else digits);
                          point = length digits - s
                      in sign @ take point digits @ ''.'' @ drop point digits)"

section \<open>The number a decimal stands for\<close>

definition dval :: "decimal \<Rightarrow> rat" where
  "dval d = of_int (coeff d) / 10 ^ d_scale d"

text \<open>Canonical form: no \<open>nil\<close>, no trailing zero behind the point, zero has scale 0.\<close>

definition normalized :: "decimal \<Rightarrow> bool" where
  "normalized d \<longleftrightarrow> d_value d \<noteq> None \<and> (d_scale d > 0 \<longrightarrow> \<not> 10 dvd coeff d)"

lemma coeff_simps [simp]:
  "coeff \<lparr>d_value = Some v, d_scale = s\<rparr> = v" "coeff \<lparr>d_value = None, d_scale = s\<rparr> = 0"
  by (simp_all add: coeff_def)

lemma dval_simps [simp]: "dval \<lparr>d_value = Some v, d_scale = s\<rparr> = of_int v / 10 ^ s"
  by (simp add: dval_def)

lemma dval_Zero [simp]: "dval dec_Zero = 0"
  by (simp add: dec_Zero_def)

lemma dval_unset [simp]: "dval dec_unset = 0"
  by (simp add: dec_unset_def dval_def)

lemma dval_NewFromInt [simp]: "dval (dec_NewFromInt n) = of_int n"
  by (simp add: dec_NewFromInt_def)

lemma smod_10_dvd: "((v::int) smod 10 = 0) = (10 dvd v)"
proof -
  have "v sdiv 10 * 10 + v smod 10 = v"
    by (rule sdiv_mult_smod_eq)
  moreover have "\<bar>v smod 10\<bar> < 10"
    by (simp add: signed_modulo_int_def signed_divide_int_def sgn_if abs_if) presburger
  ultimately show ?thesis
    by presburger
qed

lemma sdiv_10_exact: "10 dvd (v::int) \<Longrightarrow> v = 10 * (v sdiv 10)"
  using sdiv_mult_smod_eq [of v 10] smod_10_dvd [of v] by simp

lemma strip_zeros_val:
  "strip_zeros v s = (v', s') \<Longrightarrow>
     (of_int v' :: rat) / 10 ^ s' = of_int v / 10 ^ s \<and> (s' > 0 \<longrightarrow> \<not> 10 dvd v')"
proof (induction v s rule: strip_zeros.induct)
  case (1 v)
  then show ?case by simp
next
  case (2 v s)
  show ?case
  proof (cases "10 dvd v")
    case False
    with "2.prems" show ?thesis by (auto simp: smod_10_dvd)
  next
    case True
    then have v: "of_int v = (10::rat) * of_int (v sdiv 10)"
      by (metis sdiv_10_exact of_int_mult of_int_numeral)
    from True 2 show ?thesis
      by (simp add: smod_10_dvd v)
  qed
qed

lemma dval_normalize [simp]: "dval (dec_normalize d) = dval d"
proof (cases "d_value d")
  case None
  then show ?thesis by (simp add: dec_normalize_def dval_def coeff_def dec_Zero_def)
next
  case (Some v)
  obtain v' s' where "strip_zeros v (d_scale d) = (v', s')" by fastforce
  with Some show ?thesis
    using strip_zeros_val [of v "d_scale d" v' s']
    by (auto simp: dec_normalize_def dval_def coeff_def dec_Zero_def)
qed

lemma normalized_normalize [simp]: "normalized (dec_normalize d)"
proof (cases "d_value d")
  case None
  then show ?thesis by (simp add: dec_normalize_def normalized_def dec_Zero_def)
next
  case (Some v)
  obtain v' s' where "strip_zeros v (d_scale d) = (v', s')" by fastforce
  with Some show ?thesis
    using strip_zeros_val [of v "d_scale d" v' s']
    by (auto simp: dec_normalize_def normalized_def dec_Zero_def)
qed

lemma normalize_id: "normalized d \<Longrightarrow> dec_normalize d = d"
  by (cases d; cases "d_scale d")
    (auto simp: normalized_def dec_normalize_def dec_Zero_def coeff_def smod_10_dvd)

lemma sgn_dval: "dec_sign d = sgn (coeff d)"
  by (simp add: dec_sign_def coeff_def split: option.split)

lemma coeff_sign: "(coeff d = 0) = (dval d = 0)" "(0 < coeff d) = (0 < dval d)"
  "(coeff d < 0) = (dval d < 0)"
  by (simp_all add: dval_def zero_less_divide_iff divide_less_0_iff)

lemma dec_sign_val: "(dec_sign d = 0) = (dval d = 0)" "(0 < dec_sign d) = (0 < dval d)"
  "(dec_sign d < 0) = (dval d < 0)" "(dec_sign d \<le> 0) = (dval d \<le> 0)"
  by (simp_all add: sgn_dval coeff_sign sgn_if)

lemma dec_IsZero_val [dec_simps]: "dec_IsZero d = (dval d = 0)"
  by (simp add: dec_IsZero_def dec_sign_val)

lemma dec_IsPositive_val [dec_simps]: "dec_IsPositive d = (0 < dval d)"
  by (simp add: dec_IsPositive_def dec_sign_val)

section \<open>The exact operations\<close>

text \<open>
  Aligning multiplies the coefficient of the smaller scale up, so both coefficients are the two
  numbers times the same power of ten.
\<close>

lemma dec_align_val:
  assumes "dec_align a b = (l, r)"
  shows "of_int l = dval a * 10 ^ dec_commonScale a b"
    and "of_int r = dval b * 10 ^ dec_commonScale a b"
proof -
  let ?a = "dec_normalize a" and ?b = "dec_normalize b"
  have pow: "(10::rat) ^ (m - n) = 10 ^ m / 10 ^ n" if "n \<le> m" for m n :: nat
    using that by (simp add: power_diff)
  have a: "of_int (coeff ?a) = dval a * 10 ^ d_scale ?a"
    using dval_normalize [of a] unfolding dval_def by (simp add: field_simps)
  have b: "of_int (coeff ?b) = dval b * 10 ^ d_scale ?b"
    using dval_normalize [of b] unfolding dval_def by (simp add: field_simps)
  show "of_int l = dval a * 10 ^ dec_commonScale a b"
    using assms a
    by (auto simp: dec_align_def dec_commonScale_def dec_pow10_def Let_def pow split: if_splits)
  show "of_int r = dval b * 10 ^ dec_commonScale a b"
    using assms b
    by (auto simp: dec_align_def dec_commonScale_def dec_pow10_def Let_def pow split: if_splits)
qed

lemma dval_Add [dec_simps]: "dval (dec_Add a b) = dval a + dval b"
proof -
  obtain l r where lr: "dec_align a b = (l, r)" by fastforce
  show ?thesis
    using dec_align_val [OF lr] by (simp add: dec_Add_def lr add_divide_distrib)
qed

lemma dval_Sub [dec_simps]: "dval (dec_Sub a b) = dval a - dval b"
proof -
  obtain l r where lr: "dec_align a b = (l, r)" by fastforce
  show ?thesis
    using dec_align_val [OF lr] by (simp add: dec_Sub_def lr diff_divide_distrib)
qed

lemma dval_folded:
  "(of_int (coeff (dec_normalize a)) :: rat) / 10 ^ d_scale (dec_normalize a) = dval a"
  using dval_normalize [of a] unfolding dval_def .

lemma dval_Mul [dec_simps]: "dval (dec_Mul a b) = dval a * dval b"
proof -
  let ?a = "dec_normalize a" and ?b = "dec_normalize b"
  have "dval (dec_Mul a b) = (of_int (coeff ?a) / 10 ^ d_scale ?a) * (of_int (coeff ?b) / 10 ^ d_scale ?b)"
    by (simp add: dec_Mul_def Let_def power_add)
  then show ?thesis by (simp only: dval_folded)
qed

lemma dval_Neg [dec_simps]: "dval (dec_Neg a) = - dval a"
  using dval_folded [of a] by (simp add: dec_Neg_def Let_def)

lemma dval_Abs [dec_simps]: "dval (dec_Abs a) = \<bar>dval a\<bar>"
proof (cases "coeff (dec_normalize a) \<ge> 0")
  case True
  then have "0 \<le> dval a"
    using dval_normalize [of a] by (metis coeff_sign(3) not_le)
  with True show ?thesis by (simp add: dec_Abs_def Let_def)
next
  case False
  then have neg: "dval a < 0" using coeff_sign(3) [of "dec_normalize a"] by simp
  from False have "dval (dec_Abs a) = - dval a"
    using dval_folded [of a] by (simp add: dec_Abs_def Let_def)
  with neg show ?thesis by simp
qed

lemma dec_Cmp_val: "dec_Cmp a b = (if dval a < dval b then - 1 else if dval a = dval b then 0 else 1)"
proof -
  obtain l r where lr: "dec_align a b = (l, r)" by fastforce
  let ?p = "(10::rat) ^ dec_commonScale a b"
  have "(l < r) = ((of_int l :: rat) < of_int r)" by simp
  also have "\<dots> = (dval a < dval b)"
    using dec_align_val [OF lr] by simp
  finally have lt: "(l < r) = (dval a < dval b)" .
  have "(l = r) = ((of_int l :: rat) = of_int r)" by simp
  also have "\<dots> = (dval a = dval b)"
    using dec_align_val [OF lr] by simp
  finally have eq: "(l = r) = (dval a = dval b)" .
  show ?thesis using lt eq by (auto simp: dec_Cmp_def lr sgn_if)
qed

lemma dec_Cmp_iff [dec_simps]:
  "(dec_Cmp a b < 0) = (dval a < dval b)" "(dec_Cmp a b \<le> 0) = (dval a \<le> dval b)"
  "(dec_Cmp a b > 0) = (dval b < dval a)" "(dec_Cmp a b \<ge> 0) = (dval b \<le> dval a)"
  "(dec_Cmp a b = 0) = (dval a = dval b)"
  by (auto simp: dec_Cmp_val)

lemma dec_Equal_val [dec_simps]: "dec_Equal a b = (dval a = dval b)"
  by (simp add: dec_Equal_def dec_simps)

text \<open>Every operation returns the canonical form, so equal numbers are equal records.\<close>

lemma normalize_twice [simp]: "dec_normalize (dec_normalize d) = dec_normalize d"
  by (rule normalize_id) simp

lemma normalized_ops [simp]:
  "normalized (dec_Add a b)" "normalized (dec_Sub a b)" "normalized (dec_Mul a b)"
  "normalized (dec_Neg a)" "normalized (dec_Abs a)"
  by (simp_all add: dec_Add_def dec_Sub_def dec_Mul_def dec_Neg_def dec_Abs_def Let_def
      split: prod.split)

lemma normalized_unique:
  assumes "normalized a" "normalized b" "dval a = dval b"
  shows "a = b"
proof -
  have scale: "d_scale x \<le> d_scale y" if "normalized x" "dval x = dval y" for x y :: decimal
  proof (rule ccontr)
    assume "\<not> d_scale x \<le> d_scale y"
    then obtain k where k: "d_scale x = Suc (d_scale y + k)"
      by (metis less_iff_Suc_add not_le)
    have "(of_int (coeff x) :: rat) = of_int (coeff y) * 10 ^ Suc k"
      using that(2) by (simp add: dval_def k power_add field_simps)
    then have "coeff x = coeff y * 10 ^ Suc k"
      by (metis of_int_eq_iff of_int_mult of_int_numeral of_int_power)
    then have "10 dvd coeff x" by simp
    with that(1) k show False by (simp add: normalized_def)
  qed
  have s: "d_scale a = d_scale b"
    using scale assms by (metis le_antisym)
  then have "coeff a = coeff b"
    using assms(3) by (simp add: dval_def)
  with s assms show ?thesis
    by (cases a; cases b) (auto simp: normalized_def coeff_def)
qed

section \<open>The rounding operations\<close>

text \<open>Rounding towards zero, what \<open>big.Int.Quo\<close> does to a quotient.\<close>

definition trunc :: "rat \<Rightarrow> int" where
  "trunc x = (if 0 \<le> x then \<lfloor>x\<rfloor> else \<lceil>x\<rceil>)"

lemma sdiv_trunc: "b \<noteq> 0 \<Longrightarrow> a sdiv b = trunc (of_int a / of_int b)"
proof -
  assume b: "b \<noteq> 0"
  define x where "x = (of_int a / of_int b :: rat)"
  have pos: "\<bar>a\<bar> div \<bar>b\<bar> = \<lfloor>\<bar>x\<bar>\<rfloor>"
    unfolding x_def by (metis floor_divide_of_int_eq of_int_abs abs_divide)
  have "a sdiv b = trunc x"
  proof (cases "0 \<le> x")
    case True
    then have "sgn a * sgn b = 1 \<or> a = 0"
      using b by (auto simp: x_def zero_le_divide_iff sgn_if)
    moreover have "a = 0 \<Longrightarrow> x = 0" by (simp add: x_def)
    ultimately show ?thesis
      using True pos by (auto simp: signed_divide_int_def trunc_def)
  next
    case False
    then have "sgn a * sgn b = - 1"
      using b by (auto simp: x_def zero_le_divide_iff sgn_if)
    with False pos show ?thesis
      by (simp add: signed_divide_int_def trunc_def ceiling_def)
  qed
  then show ?thesis by (simp add: x_def)
qed

lemma trunc_nonneg: "0 \<le> x \<Longrightarrow> trunc x = \<lfloor>x\<rfloor>"
  by (simp add: trunc_def)

lemma trunc_sign: "0 \<le> x \<Longrightarrow> 0 \<le> trunc x" "x \<le> 0 \<Longrightarrow> trunc x \<le> 0"
  by (auto simp: trunc_def)

lemma trunc_abs_le: "\<bar>of_int (trunc x)\<bar> \<le> \<bar>x\<bar>"
proof (cases "0 \<le> x")
  case True
  then have "0 \<le> \<lfloor>x\<rfloor>" "of_int \<lfloor>x\<rfloor> \<le> x" by simp_all
  with True show ?thesis by (simp add: trunc_def)
next
  case False
  then have "\<lceil>x\<rceil> \<le> 0" "x \<le> of_int \<lceil>x\<rceil>" by (simp_all add: ceiling_le_iff)
  then have "(of_int \<lceil>x\<rceil> :: rat) \<le> 0" by simp
  with False \<open>x \<le> of_int \<lceil>x\<rceil>\<close> show ?thesis by (simp add: trunc_def)
qed

lemma dec_QuoFloor_zero: "dval e = 0 \<Longrightarrow> dec_QuoFloor d e s = Inl DecimalDivisionByZero"
  by (simp add: dec_QuoFloor_def Let_def dec_sign_val)

lemma dec_QuoFloor_val:
  assumes e: "dval e \<noteq> 0" and s: "0 \<le> s"
  obtains r where "dec_QuoFloor d e s = Inr r"
    and "dval r = of_int (trunc (dval d / dval e * 10 ^ nat s)) / 10 ^ nat s" and "normalized r"
proof -
  let ?d = "dec_normalize d" and ?e = "dec_normalize e"
  let ?n = "coeff ?d * dec_pow10 (d_scale ?e + nat s)" and ?m = "coeff ?e * dec_pow10 (d_scale ?d)"
  let ?r = "dec_normalize \<lparr>d_value = Some (?n sdiv ?m), d_scale = nat s\<rparr>"
  have ce: "coeff ?e \<noteq> 0" using e by (simp add: coeff_sign)
  have "(of_int ?n / of_int ?m :: rat) = dval d / dval e * 10 ^ nat s"
    using ce unfolding dval_folded [of d, symmetric] dval_folded [of e, symmetric]
    by (simp add: dec_pow10_def power_add field_simps)
  moreover have "?m \<noteq> 0" using ce by (simp add: dec_pow10_def)
  ultimately have q: "?n sdiv ?m = trunc (dval d / dval e * 10 ^ nat s)"
    by (metis sdiv_trunc)
  have "dec_QuoFloor d e s = Inr ?r"
    using e s by (simp add: dec_QuoFloor_def Let_def dec_sign_val)
  moreover have "dval ?r = of_int (trunc (dval d / dval e * 10 ^ nat s)) / 10 ^ nat s"
    by (simp add: q)
  ultimately show thesis by (rule that) simp
qed

lemma dec_QuoFloor_Inr:
  assumes "dec_QuoFloor d e s = Inr r"
  shows "dval e \<noteq> 0" "0 \<le> s" "normalized r"
    and "dval r = of_int (trunc (dval d / dval e * 10 ^ nat s)) / 10 ^ nat s"
proof -
  show e: "dval e \<noteq> 0" and s: "0 \<le> s"
    using assms by (auto simp: dec_QuoFloor_def Let_def dec_sign_val split: if_splits)
  obtain r' where "dec_QuoFloor d e s = Inr r'"
    "dval r' = of_int (trunc (dval d / dval e * 10 ^ nat s)) / 10 ^ nat s" "normalized r'"
    using dec_QuoFloor_val [OF e s] by blast
  then show "normalized r" "dval r = of_int (trunc (dval d / dval e * 10 ^ nat s)) / 10 ^ nat s"
    using assms by simp_all
qed

text \<open>On non-negative operands the quotient is the floor to \<open>s\<close> places, as the name says.\<close>

lemma dec_QuoFloor_bounds:
  assumes "dec_QuoFloor d e s = Inr r" "0 \<le> dval d" "0 < dval e"
  shows "0 \<le> dval r" "dval r \<le> dval d / dval e" "dval d / dval e < dval r + 1 / 10 ^ nat s"
proof -
  let ?q = "dval d / dval e * 10 ^ nat s"
  have q: "0 \<le> ?q" using assms by simp
  have r: "dval r = of_int \<lfloor>?q\<rfloor> / 10 ^ nat s"
    using dec_QuoFloor_Inr(4) [OF assms(1)] q by (simp add: trunc_nonneg)
  show "0 \<le> dval r" using q by (simp add: r)
  have "of_int \<lfloor>?q\<rfloor> \<le> ?q" "?q < of_int \<lfloor>?q\<rfloor> + 1" by linarith+
  then show "dval r \<le> dval d / dval e" "dval d / dval e < dval r + 1 / 10 ^ nat s"
    by (simp_all add: r field_simps)
qed

lemma dec_FloorToStep_val:
  assumes step: "0 < dval step" and d: "0 \<le> dval d"
  obtains r where "dec_FloorToStep d step = Inr r"
    and "dval r = of_int \<lfloor>dval d / dval step\<rfloor> * dval step" and "normalized r"
proof -
  let ?d = "dec_normalize d" and ?t = "dec_normalize step"
  define sc where "sc = (if d_scale ?t > d_scale ?d then d_scale ?t else d_scale ?d)"
  define v where "v = (if sc > d_scale ?d then coeff ?d * dec_pow10 (sc - d_scale ?d) else coeff ?d)"
  define w where "w = (if sc > d_scale ?t then coeff ?t * dec_pow10 (sc - d_scale ?t) else coeff ?t)"
  let ?r = "dec_normalize \<lparr>d_value = Some (v sdiv w * w), d_scale = sc\<rparr>"
  have pow: "(10::rat) ^ (m - n) = 10 ^ m / 10 ^ n" if "n \<le> m" for m n :: nat
    using that by (simp add: power_diff)
  have v: "of_int v = dval d * 10 ^ sc"
    unfolding dval_folded [of d, symmetric] by (auto simp: v_def sc_def dec_pow10_def pow)
  have w: "of_int w = dval step * 10 ^ sc"
    unfolding dval_folded [of step, symmetric] by (auto simp: w_def sc_def dec_pow10_def pow)
  have w0: "w \<noteq> 0" using w step by (metis mult_eq_0_iff of_int_0 less_irrefl power_not_zero zero_neq_numeral)
  have "(of_int v / of_int w :: rat) = dval d / dval step"
    by (simp add: v w)
  then have q: "v sdiv w = \<lfloor>dval d / dval step\<rfloor>"
    using sdiv_trunc [OF w0, of v] step d by (simp add: trunc_nonneg)
  have "dec_FloorToStep d step = Inr ?r"
    using step d unfolding dec_FloorToStep_def Let_def v_def w_def sc_def
    by (simp add: dec_sign_val)
  moreover have "dval ?r = of_int \<lfloor>dval d / dval step\<rfloor> * dval step"
    by (simp add: q w)
  ultimately show thesis by (rule that) simp
qed

lemma dec_FloorToStep_Inr:
  assumes "dec_FloorToStep d step = Inr r"
  shows "0 < dval step" "0 \<le> dval d" "normalized r"
    and "dval r = of_int \<lfloor>dval d / dval step\<rfloor> * dval step"
proof -
  show st: "0 < dval step" and d: "0 \<le> dval d"
    using assms by (auto simp: dec_FloorToStep_def Let_def dec_sign_val split: if_splits)
  obtain r' where "dec_FloorToStep d step = Inr r'"
    "dval r' = of_int \<lfloor>dval d / dval step\<rfloor> * dval step" "normalized r'"
    using dec_FloorToStep_val [OF st d] by blast
  then show "normalized r" "dval r = of_int \<lfloor>dval d / dval step\<rfloor> * dval step"
    using assms by simp_all
qed

lemma dec_FloorToStep_bounds:
  assumes "dec_FloorToStep d step = Inr r"
  shows "0 \<le> dval r" "dval r \<le> dval d" "dval d < dval r + dval step"
proof -
  note f = dec_FloorToStep_Inr [OF assms]
  define k where "k = (of_int \<lfloor>dval d / dval step\<rfloor> :: rat)"
  have q: "k \<le> dval d / dval step" "dval d / dval step < k + 1"
    unfolding k_def by linarith+
  have r: "dval r = k * dval step" by (simp add: f(4) k_def)
  show "0 \<le> dval r" using f by simp
  show "dval r \<le> dval d" "dval d < dval r + dval step"
    using q f(1) by (simp_all add: r field_simps)
qed

lemma dec_FloorToStep_mono:
  assumes "dec_FloorToStep a step = Inr r" "dec_FloorToStep b step = Inr t" "dval a \<le> dval b"
  shows "dval r \<le> dval t"
proof -
  note fa = dec_FloorToStep_Inr [OF assms(1)] and fb = dec_FloorToStep_Inr [OF assms(2)]
  have "dval a / dval step \<le> dval b / dval step"
    using assms(3) fa(1) by (simp add: divide_right_mono)
  then have "\<lfloor>dval a / dval step\<rfloor> \<le> \<lfloor>dval b / dval step\<rfloor>" by (rule floor_mono)
  then show ?thesis using fa(1) by (simp add: fa(4) fb(4) mult_right_mono)
qed

section \<open>Text form\<close>

lemma all_digits_append [simp]: "all_digits (a @ b) = (all_digits a \<and> all_digits b)"
  by (simp add: all_digits_def)

lemma all_digits_zero [simp]: "all_digits (CHR ''0'' # s) = all_digits s"
  by (simp add: all_digits_def is_digit_def code_def)

lemma all_digits_show_nat [simp]: "all_digits (show_nat n)"
  by (simp add: all_digits_def show_nat_digits)

lemma all_digits_zeros [simp]: "all_digits (replicate k (CHR ''0''))"
  by (simp add: all_digits_def is_digit_def code_def list_all_iff)

lemma all_digits_sub: "all_digits s \<Longrightarrow> all_digits (take k s) \<and> all_digits (drop k s)"
  by (metis all_digits_append append_take_drop_id)

lemma all_digits_no_point: "all_digits s \<Longrightarrow> CHR ''.'' \<notin> set s"
  by (auto simp: all_digits_def list_all_iff)

lemma all_digits_no_space: "all_digits s \<Longrightarrow> \<forall>c\<in>set s. \<not> is_space c"
  by (auto simp: all_digits_def list_all_iff digit_not_space)

lemma not_space_punct [simp]: "\<not> is_space (CHR ''.'')" "\<not> is_space (CHR ''-'')" "\<not> is_space (CHR ''+'')"
  by (simp_all add: is_space_def code_def)

text \<open>Reading signed \<open>[-]whole\<close> or \<open>[-]whole.fraction\<close>.\<close>

lemma dec_Parse_plain:
  assumes "whole \<noteq> []" "all_digits whole"
  shows "dec_Parse ((if neg then ''-'' else []) @ whole) = dec_parse_parts neg whole []"
proof -
  obtain c cs where w: "whole = c # cs" "is_digit c"
    using assms by (cases whole) (auto simp: all_digits_def)
  then have "c \<noteq> CHR ''-''" "c \<noteq> CHR ''+''" by auto
  moreover have "trim_space ((if neg then ''-'' else []) @ whole) = (if neg then ''-'' else []) @ whole"
    using all_digits_no_space [OF assms(2)] by (intro trim_space_nonspace) auto
  ultimately show ?thesis
    using w(1) split_on_absent [OF all_digits_no_point [OF assms(2)]]
    by (cases neg) (simp_all add: dec_Parse_def)
qed

lemma dec_Parse_point:
  assumes "whole \<noteq> []" "all_digits whole" "all_digits fraction"
  shows "dec_Parse ((if neg then ''-'' else []) @ whole @ ''.'' @ fraction)
           = dec_parse_parts neg whole fraction"
proof -
  obtain c cs where w: "whole = c # cs" "is_digit c"
    using assms by (cases whole) (auto simp: all_digits_def)
  then have "c \<noteq> CHR ''-''" "c \<noteq> CHR ''+''" by auto
  moreover have "trim_space ((if neg then ''-'' else []) @ whole @ ''.'' @ fraction)
      = (if neg then ''-'' else []) @ whole @ ''.'' @ fraction"
    using all_digits_no_space [OF assms(2)] all_digits_no_space [OF assms(3)]
    by (intro trim_space_nonspace) auto
  moreover have "split_on (CHR ''.'') (whole @ CHR ''.'' # fraction) = [whole, fraction]"
    using assms all_digits_no_point by (intro split_on_once) blast+
  ultimately show ?thesis
    using w(1) by (cases neg) (simp_all add: dec_Parse_def)
qed

lemma dec_Parse_String: "dec_Parse (dec_String d) = Inr (dec_normalize d)"
proof -
  let ?n = "dec_normalize d"
  define v where "v = coeff ?n"
  define s where "s = d_scale ?n"
  have n: "?n = \<lparr>d_value = Some v, d_scale = s\<rparr>"
    using normalized_normalize [of d] by (cases ?n) (auto simp: v_def s_def coeff_def normalized_def)
  have id: "dec_normalize \<lparr>d_value = Some v, d_scale = s\<rparr> = \<lparr>d_value = Some v, d_scale = s\<rparr>"
    using normalize_id [OF normalized_normalize [of d]] unfolding n .
  let ?m = "nat \<bar>v\<bar>" and ?neg = "v < 0"
  consider "v = 0" | "v \<noteq> 0" "s = 0" | "v \<noteq> 0" "0 < s" by blast
  then show ?thesis
  proof cases
    case 1
    then have "s = 0" using id by (simp add: dec_normalize_def dec_Zero_def)
    with 1 n show ?thesis by (simp add: dec_String_def Let_def v_def [symmetric]) code_simp
  next
    case 2
    have str: "dec_String d = (if ?neg then ''-'' else []) @ show_nat ?m"
      using 2 by (simp add: dec_String_def Let_def n)
    have "dec_parse_parts ?neg (show_nat ?m) [] = Inr ?n"
      using 2 id n show_nat_nonempty [of ?m] by (auto simp: dec_parse_parts_def Let_def)
    then show ?thesis
      unfolding str using dec_Parse_plain [of "show_nat ?m" ?neg] show_nat_nonempty [of ?m] by simp
  next
    case 3
    define digits where "digits = (if length (show_nat ?m) \<le> s
        then replicate (s - length (show_nat ?m) + 1) (CHR ''0'') @ show_nat ?m else show_nat ?m)"
    define point where "point = length digits - s"
    have len: "s < length digits" by (simp add: digits_def)
    have val: "nat_of_digits digits = ?m" by (simp add: digits_def)
    have dg: "all_digits digits" by (simp add: digits_def)
    have str: "dec_String d = (if ?neg then ''-'' else []) @ take point digits @ ''.'' @ drop point digits"
      using 3 by (simp add: dec_String_def Let_def n digits_def point_def)
    have "dec_parse_parts ?neg (take point digits) (drop point digits) = Inr ?n"
      using 3 len id n val dg by (auto simp: dec_parse_parts_def point_def Let_def)
    moreover have "dec_Parse (dec_String d) = dec_parse_parts ?neg (take point digits) (drop point digits)"
      unfolding str using len all_digits_sub [OF dg] by (intro dec_Parse_point) (auto simp: point_def)
    ultimately show ?thesis by simp
  qed
qed

end
