(* ===== verification/Domain.thy ===== *)
theory Domain
  imports Decimal
begin

text \<open>
  \<open>internal/domain\<close>: the intents the parsers produce and the order service executes, and the
  positions the exchange reports. Go's typed strings that only ever hold the package's constants
  are datatypes; \<open>Side\<close> stays a string because the code lower-cases, upper-cases and compares it
  as one. A pointer field is an option.
\<close>

datatype intent_type =
    IntentUnknown | IntentOpen | IntentClose | IntentBreakeven | IntentTrail | IntentAdd
  | IntentStatus | IntentPlanStatus

type_synonym side = string

definition SideLong :: side where "SideLong = ''long''"

definition SideShort :: side where "SideShort = ''short''"

datatype size_kind = SizeUnknown | SizeUSDT | SizeQty

record order_size =
  os_Kind :: size_kind
  os_Amount :: decimal

record open_intent =
  oi_Symbol :: string
  oi_Side :: side
  oi_Leverage :: int
  oi_Entry :: decimal
  oi_StopLoss :: decimal
  oi_TakeProfits :: "decimal list"
  oi_Size :: order_size
  oi_PlanID :: string
  oi_Strategy :: string
  oi_Models :: "string list"
  oi_Reason :: string
  oi_Confidence :: int
  oi_CampaignID :: string

record close_intent =
  ci_Symbol :: string
  ci_All :: bool
  ci_Percent :: decimal
  ci_HasPercent :: bool
  ci_ResolvedPercent :: decimal
  ci_EntryConfirmationID :: string

record trail_intent =
  ti_Symbol :: string
  ti_CallbackRate :: decimal

record add_intent =
  ai_Symbol :: string
  ai_Size :: order_size

record intent =
  i_Type :: intent_type
  i_RawText :: string
  i_Open :: "open_intent option"
  i_Close :: "close_intent option"
  i_Breakeven :: "string option" \<comment> \<open>\<open>BreakevenIntent\<close> holds only the symbol\<close>
  i_Trail :: "trail_intent option"
  i_Add :: "add_intent option"
  i_PlanStatus :: "string option" \<comment> \<open>\<open>PlanStatusIntent\<close> holds only the plan id\<close>

text \<open>Go's composite literals leave the fields they do not name at their zero values.\<close>

definition no_intent :: intent where
  "no_intent = \<lparr>i_Type = IntentUnknown, i_RawText = [], i_Open = None, i_Close = None,
     i_Breakeven = None, i_Trail = None, i_Add = None, i_PlanStatus = None\<rparr>"

definition close_all_intent :: close_intent where
  "close_all_intent = \<lparr>ci_Symbol = [], ci_All = True, ci_Percent = dec_unset, ci_HasPercent = False,
     ci_ResolvedPercent = dec_NewFromInt 100, ci_EntryConfirmationID = []\<rparr>"

definition IsExchangeChanging :: "intent \<Rightarrow> bool" where
  "IsExchangeChanging i \<longleftrightarrow> i_Type i = IntentOpen \<or> i_Type i = IntentClose \<or>
     i_Type i = IntentBreakeven \<or> i_Type i = IntentTrail \<or> i_Type i = IntentAdd"

record position =
  p_Symbol :: string
  p_Side :: side
  p_Amount :: decimal
  p_EntryPrice :: decimal
  p_MarkPrice :: decimal
  p_UnrealizedProfit :: decimal
  p_Leverage :: int
  p_MarginType :: string

section \<open>Well-formed intents\<close>

text \<open>
  What the rest of the program relies on: the payload of the intent's type is there, its prices
  and sizes are positive, an open has exactly one take-profit and its levels bracket the entry.
\<close>

definition valid_symbol :: "string \<Rightarrow> bool" where
  "valid_symbol s \<longleftrightarrow> (\<forall>c\<in>set s. is_digit c \<or> is_upper c) \<and> (\<exists>base. base \<noteq> [] \<and> s = base @ ''USDT'')"

definition valid_size :: "order_size \<Rightarrow> bool" where
  "valid_size z \<longleftrightarrow> os_Kind z \<noteq> SizeUnknown \<and> 0 < dval (os_Amount z)"

definition valid_levels :: "side \<Rightarrow> decimal \<Rightarrow> decimal \<Rightarrow> decimal \<Rightarrow> bool" where
  "valid_levels sd entry sl tp \<longleftrightarrow>
     (sd = SideLong \<and> dval sl < dval entry \<and> dval entry < dval tp) \<or>
     (sd = SideShort \<and> dval tp < dval entry \<and> dval entry < dval sl)"

definition valid_open :: "int \<Rightarrow> open_intent \<Rightarrow> bool" where
  "valid_open maxlev oi \<longleftrightarrow>
     valid_symbol (oi_Symbol oi) \<and> 0 < oi_Leverage oi \<and> oi_Leverage oi \<le> maxlev \<and>
     0 < dval (oi_Entry oi) \<and> 0 < dval (oi_StopLoss oi) \<and>
     (\<exists>tp. oi_TakeProfits oi = [tp] \<and> 0 < dval tp \<and>
        valid_levels (oi_Side oi) (oi_Entry oi) (oi_StopLoss oi) tp) \<and>
     valid_size (oi_Size oi) \<and> oi_PlanID oi \<in> {[], ''1'', ''2'', ''3''}"

definition valid_close :: "close_intent \<Rightarrow> bool" where
  "valid_close ci \<longleftrightarrow>
     0 < dval (ci_ResolvedPercent ci) \<and> dval (ci_ResolvedPercent ci) \<le> 100 \<and>
     (if ci_All ci then ci_Symbol ci = [] \<and> dval (ci_ResolvedPercent ci) = 100
      else valid_symbol (ci_Symbol ci))"

definition valid_trail :: "trail_intent \<Rightarrow> bool" where
  "valid_trail ti \<longleftrightarrow> valid_symbol (ti_Symbol ti) \<and>
     0 < dval (ti_CallbackRate ti) \<and> dval (ti_CallbackRate ti) \<le> 10"

definition valid_intent :: "int \<Rightarrow> intent \<Rightarrow> bool" where
  "valid_intent maxlev i \<longleftrightarrow>
     (case i_Type i of
        IntentOpen \<Rightarrow> (\<exists>oi. i_Open i = Some oi \<and> valid_open maxlev oi)
      | IntentClose \<Rightarrow> (\<exists>ci. i_Close i = Some ci \<and> valid_close ci)
      | IntentBreakeven \<Rightarrow> (\<exists>s. i_Breakeven i = Some s \<and> valid_symbol s)
      | IntentTrail \<Rightarrow> (\<exists>ti. i_Trail i = Some ti \<and> valid_trail ti)
      | IntentAdd \<Rightarrow> (\<exists>ai. i_Add i = Some ai \<and> valid_symbol (ai_Symbol ai) \<and> valid_size (ai_Size ai))
      | IntentPlanStatus \<Rightarrow> (\<exists>p. i_PlanStatus i = Some p \<and> p \<in> {''1'', ''2'', ''3''})
      | IntentStatus \<Rightarrow> True
      | IntentUnknown \<Rightarrow> False)"

end
