(* ===== verification/Parser.thy ===== *)
theory Parser
  imports Domain
begin

text \<open>
  \<open>internal/parser\<close>: the command grammar of the bot (\<open>long BTC 3x entry ...\<close>). One definition per
  Go function; a \<open>ValidationError\<close> is a constructor of \<open>parse_error\<close>, one per message.
\<close>

datatype parse_error =
    EmptyCommand | Unrecognized | OpenFormat | SymbolRequired | SymbolChars | SymbolNoBase
  | LeverageFormat | LeverageNotPositive | LeverageExceeds int int
  | EntryMissing | StopMissing | TakeMissing | NotDecimal string | NotPositive string
  | SizeFormat | SizeMissing | PlanTagFormat | PlanInvalid
  | LongStop | LongTake | ShortStop | ShortTake | SideInvalid
  | CloseFormat | CloseAllPercent | ClosePercentFormat | ClosePercentTooBig
  | BreakevenFormat | MoveStopFormat | TrailFormat | TrailPercentFormat | TrailTooBig
  | AddFormat | PlanStatusFormat

definition parser_New :: "int \<Rightarrow> int" where
  "parser_New maxLeverage = (if maxLeverage \<le> 0 then 20 else maxLeverage)"

definition normalizeSymbol :: "string \<Rightarrow> parse_error + string" where
  "normalizeSymbol token =
     (let symbol = remove_char (CHR ''/'') (to_upper (trim_space token))
      in if symbol = [] then Inl SymbolRequired
         else if \<exists>r\<in>set symbol. \<not> is_digit r \<and> \<not> is_upper r then Inl SymbolChars
         else let symbol = (if has_suffix symbol ''USDT'' then symbol else symbol @ ''USDT'')
              in if trim_suffix symbol ''USDT'' = [] then Inl SymbolNoBase else Inr symbol)"

definition parseLeverage :: "int \<Rightarrow> string \<Rightarrow> parse_error + int" where
  "parseLeverage maxLeverage token =
     (let value = to_lower (trim_space token)
      in if \<not> has_suffix value ''x'' then Inl LeverageFormat
         else case atoi (trim_suffix value ''x'') of
                None \<Rightarrow> Inl LeverageNotPositive
              | Some leverage \<Rightarrow>
                  if leverage \<le> 0 then Inl LeverageNotPositive
                  else if leverage > maxLeverage then Inl (LeverageExceeds leverage maxLeverage)
                  else Inr leverage)"

definition parsePositiveDecimal :: "string \<Rightarrow> string \<Rightarrow> parse_error + decimal" where
  "parsePositiveDecimal label token =
     (case dec_Parse token of
        Inl _ \<Rightarrow> Inl (NotDecimal label)
      | Inr value \<Rightarrow> if \<not> dec_IsPositive value then Inl (NotPositive label) else Inr value)"

definition parseSize :: "string \<Rightarrow> string \<Rightarrow> parse_error + order_size" where
  "parseSize kindToken amountToken =
     (if to_lower kindToken = ''size'' then
        let amount = to_lower (trim_space amountToken)
        in if \<not> has_suffix amount ''usdt'' then Inl SizeFormat
           else bindE (parsePositiveDecimal ''size'' (trim_suffix amount ''usdt''))
                  (\<lambda>value. Inr \<lparr>os_Kind = SizeUSDT, os_Amount = value\<rparr>)
      else if to_lower kindToken = ''qty'' then
        bindE (parsePositiveDecimal ''qty'' amountToken)
          (\<lambda>value. Inr \<lparr>os_Kind = SizeQty, os_Amount = value\<rparr>)
      else Inl SizeMissing)"

definition parseClosePercent :: "string \<Rightarrow> parse_error + decimal" where
  "parseClosePercent token =
     (let value = trim_space token
      in if \<not> has_suffix value ''%'' then Inl ClosePercentFormat
         else bindE (parsePositiveDecimal ''close percentage'' (trim_suffix value ''%''))
                (\<lambda>percent. if dec_Cmp percent (dec_NewFromInt 100) > 0 then Inl ClosePercentTooBig
                            else Inr percent))"

definition parseTrailPercent :: "string \<Rightarrow> parse_error + decimal" where
  "parseTrailPercent token =
     (let value = trim_space token
      in if \<not> has_suffix value ''%'' then Inl TrailPercentFormat
         else bindE (parsePositiveDecimal ''trailing stop callback rate'' (trim_suffix value ''%''))
                (\<lambda>percent. if dec_Cmp percent (dec_NewFromInt 10) > 0 then Inl TrailTooBig
                            else Inr percent))"

definition parsePlanID :: "string \<Rightarrow> parse_error + string" where
  "parsePlanID token =
     (if trim_space token = ''1'' \<or> trim_space token = ''2'' \<or> trim_space token = ''3''
      then Inr (trim_space token) else Inl PlanInvalid)"

definition validateStopAndTakeProfit :: "side \<Rightarrow> decimal \<Rightarrow> decimal \<Rightarrow> decimal \<Rightarrow> parse_error option" where
  "validateStopAndTakeProfit sd entry stopLoss takeProfit =
     (if sd = SideLong then
        (if dec_Cmp stopLoss entry \<ge> 0 then Some LongStop
         else if dec_Cmp takeProfit entry \<le> 0 then Some LongTake else None)
      else if sd = SideShort then
        (if dec_Cmp stopLoss entry \<le> 0 then Some ShortStop
         else if dec_Cmp takeProfit entry \<ge> 0 then Some ShortTake else None)
      else Some SideInvalid)"

definition parseOpen :: "int \<Rightarrow> string \<Rightarrow> string list \<Rightarrow> parse_error + intent" where
  "parseOpen maxLeverage raw tokens =
     (if length tokens \<noteq> 11 \<and> length tokens \<noteq> 13 then Inl OpenFormat else
      let sd = to_lower (tokens ! 0)
      in bindE (normalizeSymbol (tokens ! 1)) (\<lambda>symbol.
         bindE (parseLeverage maxLeverage (tokens ! 2)) (\<lambda>leverage.
         bindE (ensureE (to_lower (tokens ! 3) = ''entry'') EntryMissing) (\<lambda>_.
         bindE (parsePositiveDecimal ''entry'' (tokens ! 4)) (\<lambda>entry.
         bindE (ensureE (to_lower (tokens ! 5) = ''sl'') StopMissing) (\<lambda>_.
         bindE (parsePositiveDecimal ''sl'' (tokens ! 6)) (\<lambda>stopLoss.
         bindE (ensureE (to_lower (tokens ! 7) = ''tp'') TakeMissing) (\<lambda>_.
         bindE (parsePositiveDecimal ''tp'' (tokens ! 8)) (\<lambda>takeProfit.
         bindE (parseSize (tokens ! 9) (tokens ! 10)) (\<lambda>size.
         bindE (if length tokens = 13 then
                  bindE (ensureE (to_lower (tokens ! 11) = ''plan'') PlanTagFormat)
                    (\<lambda>_. parsePlanID (tokens ! 12))
                else Inr []) (\<lambda>planID.
         case validateStopAndTakeProfit sd entry stopLoss takeProfit of
           Some e \<Rightarrow> Inl e
         | None \<Rightarrow> Inr (no_intent\<lparr>i_Type := IntentOpen, i_RawText := raw, i_Open := Some
             \<lparr>oi_Symbol = symbol, oi_Side = sd, oi_Leverage = leverage, oi_Entry = entry,
              oi_StopLoss = stopLoss, oi_TakeProfits = [takeProfit], oi_Size = size,
              oi_PlanID = planID, oi_Strategy = [], oi_Models = [], oi_Reason = [],
              oi_Confidence = 0, oi_CampaignID = []\<rparr>\<rparr>))))))))))))"

definition parseClose :: "string \<Rightarrow> string list \<Rightarrow> parse_error + intent" where
  "parseClose raw tokens =
     (if length tokens < 2 \<or> length tokens > 3 then Inl CloseFormat
      else if equal_fold (tokens ! 1) ''all'' then
        (if length tokens \<noteq> 2 then Inl CloseAllPercent
         else Inr (no_intent\<lparr>i_Type := IntentClose, i_RawText := raw, i_Close := Some close_all_intent\<rparr>))
      else bindE (normalizeSymbol (tokens ! 1)) (\<lambda>symbol.
        let c = \<lparr>ci_Symbol = symbol, ci_All = False, ci_Percent = dec_unset, ci_HasPercent = False,
                 ci_ResolvedPercent = dec_NewFromInt 100, ci_EntryConfirmationID = []\<rparr>
        in bindE (if length tokens = 3 then
                    bindE (parseClosePercent (tokens ! 2)) (\<lambda>percent.
                      Inr (c\<lparr>ci_Percent := percent, ci_HasPercent := True, ci_ResolvedPercent := percent\<rparr>))
                  else Inr c) (\<lambda>c.
             Inr (no_intent\<lparr>i_Type := IntentClose, i_RawText := raw, i_Close := Some c\<rparr>))))"

definition parseBreakeven :: "string \<Rightarrow> string list \<Rightarrow> parse_error + intent" where
  "parseBreakeven raw tokens =
     (if length tokens \<noteq> 2 then Inl BreakevenFormat
      else bindE (normalizeSymbol (tokens ! 1)) (\<lambda>symbol.
        Inr (no_intent\<lparr>i_Type := IntentBreakeven, i_RawText := raw, i_Breakeven := Some symbol\<rparr>)))"

definition parseMoveStop :: "string \<Rightarrow> string list \<Rightarrow> parse_error + intent" where
  "parseMoveStop raw tokens =
     (if length tokens \<noteq> 5 \<or> \<not> equal_fold (tokens ! 1) ''sl'' \<or> \<not> equal_fold (tokens ! 3) ''to'' \<or>
         \<not> equal_fold (tokens ! 4) ''be'' then Inl MoveStopFormat
      else bindE (normalizeSymbol (tokens ! 2)) (\<lambda>symbol.
        Inr (no_intent\<lparr>i_Type := IntentBreakeven, i_RawText := raw, i_Breakeven := Some symbol\<rparr>)))"

definition parseTrail :: "string \<Rightarrow> string list \<Rightarrow> parse_error + intent" where
  "parseTrail raw tokens =
     (if length tokens \<noteq> 3 then Inl TrailFormat
      else bindE (normalizeSymbol (tokens ! 1)) (\<lambda>symbol.
        bindE (parseTrailPercent (tokens ! 2)) (\<lambda>callbackRate.
        Inr (no_intent\<lparr>i_Type := IntentTrail, i_RawText := raw,
               i_Trail := Some \<lparr>ti_Symbol = symbol, ti_CallbackRate = callbackRate\<rparr>\<rparr>))))"

definition parseAdd :: "string \<Rightarrow> string list \<Rightarrow> parse_error + intent" where
  "parseAdd raw tokens =
     (if length tokens \<noteq> 4 then Inl AddFormat
      else bindE (normalizeSymbol (tokens ! 1)) (\<lambda>symbol.
        bindE (parseSize (tokens ! 2) (tokens ! 3)) (\<lambda>size.
        Inr (no_intent\<lparr>i_Type := IntentAdd, i_RawText := raw,
               i_Add := Some \<lparr>ai_Symbol = symbol, ai_Size = size\<rparr>\<rparr>))))"

definition parsePlanStatus :: "string \<Rightarrow> string list \<Rightarrow> parse_error + intent" where
  "parsePlanStatus raw tokens =
     (if length tokens \<noteq> 3 then Inl PlanStatusFormat
      else if to_lower (tokens ! 2) \<noteq> ''status'' then Inl PlanStatusFormat
      else bindE (parsePlanID (tokens ! 1)) (\<lambda>planID.
        Inr (no_intent\<lparr>i_Type := IntentPlanStatus, i_RawText := raw, i_PlanStatus := Some planID\<rparr>)))"

definition parser_Parse :: "int \<Rightarrow> string \<Rightarrow> parse_error + intent" where
  "parser_Parse maxLeverage text =
     (let raw = trim_space text in
      if raw = [] then Inl EmptyCommand else
      let tokens = str_fields raw in
      case tokens of
        [] \<Rightarrow> Inl EmptyCommand
      | t # _ \<Rightarrow>
          let cmd = to_lower t in
          if cmd = ''long'' \<or> cmd = ''short'' then parseOpen maxLeverage raw tokens
          else if cmd = ''close'' then parseClose raw tokens
          else if cmd = ''be'' then parseBreakeven raw tokens
          else if cmd = ''move'' then parseMoveStop raw tokens
          else if cmd = ''trail'' then parseTrail raw tokens
          else if cmd = ''add'' then parseAdd raw tokens
          else if cmd = ''status'' \<or> cmd = ''/status'' then
            Inr (no_intent\<lparr>i_Type := IntentStatus, i_RawText := raw\<rparr>)
          else if cmd = ''plan'' then parsePlanStatus raw tokens
          else Inl Unrecognized)"

text \<open>The package's \<open>Parse(text, options)\<close>: a parser of the defaulted options.\<close>

definition parse_command :: "string \<Rightarrow> int \<Rightarrow> parse_error + intent" where
  "parse_command text maxLeverage = parser_Parse (parser_New maxLeverage) text"

section \<open>What each token parser guarantees\<close>

lemma normalizeSymbol_valid: "normalizeSymbol t = Inr s \<Longrightarrow> valid_symbol s"
  unfolding normalizeSymbol_def Let_def valid_symbol_def
  by (auto simp: is_upper_def code_def split: if_splits elim!: has_suffixE)

lemma parseLeverage_range: "parseLeverage m t = Inr l \<Longrightarrow> 0 < l \<and> l \<le> m"
  by (auto simp: parseLeverage_def Let_def split: if_splits option.splits)

lemma parsePositiveDecimal_pos: "parsePositiveDecimal l t = Inr d \<Longrightarrow> 0 < dval d"
  by (auto simp: parsePositiveDecimal_def dec_simps split: if_splits sum.splits)

lemma parseSize_valid: "parseSize k a = Inr z \<Longrightarrow> valid_size z"
  by (auto simp: parseSize_def Let_def valid_size_def parsePositiveDecimal_pos split: if_splits)

lemma parseClosePercent_range: "parseClosePercent t = Inr p \<Longrightarrow> 0 < dval p \<and> dval p \<le> 100"
  by (auto simp: parseClosePercent_def Let_def dec_simps parsePositiveDecimal_pos split: if_splits)

lemma parseTrailPercent_range: "parseTrailPercent t = Inr p \<Longrightarrow> 0 < dval p \<and> dval p \<le> 10"
  by (auto simp: parseTrailPercent_def Let_def dec_simps parsePositiveDecimal_pos split: if_splits)

lemma parsePlanID_range: "parsePlanID t = Inr p \<Longrightarrow> p \<in> {''1'', ''2'', ''3''}"
  by (auto simp: parsePlanID_def split: if_splits)

lemma validateStop_levels:
  "validateStopAndTakeProfit sd e sl tp = None \<longleftrightarrow> valid_levels sd e sl tp"
  by (auto simp: validateStopAndTakeProfit_def valid_levels_def dec_simps SideLong_def SideShort_def)

lemmas token_ranges = normalizeSymbol_valid parseLeverage_range parsePositiveDecimal_pos
  parseSize_valid parseClosePercent_range parseTrailPercent_range parsePlanID_range

section \<open>What each command parser guarantees\<close>

lemma parseOpen_valid: "parseOpen m raw ts = Inr i \<Longrightarrow> valid_intent m i \<and> i_Type i = IntentOpen"
  unfolding parseOpen_def Let_def
  by (auto simp: valid_intent_def valid_open_def validateStop_levels
      split: if_splits option.splits dest: token_ranges)

lemma parseClose_valid: "parseClose raw ts = Inr i \<Longrightarrow> valid_intent m i \<and> i_Type i = IntentClose"
  unfolding parseClose_def Let_def
  by (auto simp: valid_intent_def valid_close_def close_all_intent_def
      split: if_splits dest: token_ranges)

lemma parseBreakeven_valid: "parseBreakeven raw ts = Inr i \<Longrightarrow> valid_intent m i \<and> i_Type i = IntentBreakeven"
  by (auto simp: parseBreakeven_def valid_intent_def split: if_splits dest: token_ranges)

lemma parseMoveStop_valid: "parseMoveStop raw ts = Inr i \<Longrightarrow> valid_intent m i \<and> i_Type i = IntentBreakeven"
  by (auto simp: parseMoveStop_def valid_intent_def split: if_splits dest: token_ranges)

lemma parseTrail_valid: "parseTrail raw ts = Inr i \<Longrightarrow> valid_intent m i \<and> i_Type i = IntentTrail"
  by (auto simp: parseTrail_def valid_intent_def valid_trail_def split: if_splits dest: token_ranges)

lemma parseAdd_valid: "parseAdd raw ts = Inr i \<Longrightarrow> valid_intent m i \<and> i_Type i = IntentAdd"
  by (auto simp: parseAdd_def valid_intent_def split: if_splits dest: token_ranges)

lemma parsePlanStatus_valid: "parsePlanStatus raw ts = Inr i \<Longrightarrow> valid_intent m i \<and> i_Type i = IntentPlanStatus"
  by (auto simp: parsePlanStatus_def valid_intent_def split: if_splits dest: token_ranges)

lemmas command_valid = parseOpen_valid parseClose_valid parseBreakeven_valid parseMoveStop_valid
  parseTrail_valid parseAdd_valid parsePlanStatus_valid

lemma command_raw:
  "parseOpen m raw ts = Inr i \<Longrightarrow> i_RawText i = raw" "parseClose raw ts = Inr i \<Longrightarrow> i_RawText i = raw"
  "parseBreakeven raw ts = Inr i \<Longrightarrow> i_RawText i = raw" "parseMoveStop raw ts = Inr i \<Longrightarrow> i_RawText i = raw"
  "parseTrail raw ts = Inr i \<Longrightarrow> i_RawText i = raw" "parseAdd raw ts = Inr i \<Longrightarrow> i_RawText i = raw"
  "parsePlanStatus raw ts = Inr i \<Longrightarrow> i_RawText i = raw"
  by (auto simp: parseOpen_def parseClose_def parseBreakeven_def parseMoveStop_def parseTrail_def
      parseAdd_def parsePlanStatus_def Let_def split: if_splits option.splits)

section \<open>Properties\<close>



end
