(* ===== verification/Mongo_Driver.thy ===== *)
theory Mongo_Driver
  imports Decimal
begin

text \<open>
  The MongoDB driver as the repositories under \<open>internal/storage/mongo\<close> see it. The driver and the
  server are not part of the repository, so a collection is a parameter: a state of any type with
  the driver's calls on it, and the locale \<open>mongo_driver\<close> states the documented behaviour the code
  relies on. Every single-document call is atomic; a call that reports an error may or may not have
  been applied; an insert that reports success found no document with its \<open>_id\<close> or, for a unique
  index, its key. A filter that pins \<open>_id\<close> is the id and a test of the document, an update a
  function of it. \<open>map_driver\<close> is a server that keeps its documents in a map and never fails, which
  shows the contract can be met.
\<close>

section \<open>Decimals as text\<close>

text \<open>The repositories store a decimal as its text and read it back with \<open>parseDecimal\<close>.\<close>

definition parseDecimal :: "string \<Rightarrow> decimal" where
  "parseDecimal s =
     (if trim_space s = [] then dec_Zero
      else case dec_Parse s of Inl _ \<Rightarrow> dec_Zero | Inr v \<Rightarrow> v)"

lemma parseDecimal_String [simp]: "parseDecimal (dec_String d) = dec_normalize d"
proof -
  have "trim_space (dec_String d) \<noteq> []"
  proof
    assume "trim_space (dec_String d) = []"
    then have "dec_Parse (dec_String d) = Inl DecimalEmpty" by (simp add: dec_Parse_def)
    then show False by (simp add: dec_Parse_String)
  qed
  then show ?thesis by (simp add: parseDecimal_def dec_Parse_String)
qed

lemma dec_Zero_normal [simp]: "dec_normalize dec_Zero = dec_Zero"
  by (simp add: dec_normalize_def dec_Zero_def)

lemma parse_parts_normal: "dec_parse_parts neg a b = Inr v \<Longrightarrow> dec_normalize v = v"
  by (auto simp: dec_parse_parts_def Let_def split: if_splits)

lemma dec_Parse_normal: "dec_Parse s = Inr v \<Longrightarrow> dec_normalize v = v"
  by (auto simp: dec_Parse_def Let_def dest: parse_parts_normal split: if_splits list.splits)

lemma parseDecimal_normal [simp]: "dec_normalize (parseDecimal s) = parseDecimal s"
  by (auto simp: parseDecimal_def dest: dec_Parse_normal split: sum.splits)

section \<open>Collections\<close>

text \<open>
  An upsert whose filter pins \<open>_id\<close> and tests the document: when the document is there and fails the
  test, the server tries to insert a second one and answers with a duplicate key error.
\<close>

datatype upsert_answer = UpsertDone | UpsertDuplicate | UpsertFailed string

record ('c, 'd) driver =
  dr_InsertOne :: "'d \<Rightarrow> 'c \<Rightarrow> string option \<times> 'c"
  dr_FindOne :: "string \<Rightarrow> ('d \<Rightarrow> bool) \<Rightarrow> 'c \<Rightarrow> string + 'd option"
  dr_UpdateOne :: "string \<Rightarrow> ('d \<Rightarrow> bool) \<Rightarrow> ('d \<Rightarrow> 'd) \<Rightarrow> 'c \<Rightarrow> (string + nat) \<times> 'c"
  dr_FindOneAndUpdate :: "string \<Rightarrow> ('d \<Rightarrow> bool) \<Rightarrow> ('d \<Rightarrow> 'd) \<Rightarrow> 'c \<Rightarrow> (string + 'd option) \<times> 'c"
  dr_UpsertOne :: "string \<Rightarrow> 'd \<Rightarrow> ('d \<Rightarrow> 'd) \<Rightarrow> 'c \<Rightarrow> string option \<times> 'c"
  dr_UpsertWhere :: "string \<Rightarrow> ('d \<Rightarrow> bool) \<Rightarrow> 'd \<Rightarrow> ('d \<Rightarrow> 'd) \<Rightarrow> 'c \<Rightarrow> upsert_answer \<times> 'c"
  dr_FindAnyAndUpdate :: "('d \<Rightarrow> bool) \<Rightarrow> ('d \<Rightarrow> 'd) \<Rightarrow> 'c \<Rightarrow> (string + 'd option) \<times> 'c"
  dr_UpdateMany :: "('d \<Rightarrow> bool) \<Rightarrow> ('d \<Rightarrow> 'd) \<Rightarrow> 'c \<Rightarrow> (string + nat) \<times> 'c"
  dr_DeleteOne :: "string \<Rightarrow> ('d \<Rightarrow> bool) \<Rightarrow> 'c \<Rightarrow> (string + nat) \<times> 'c"
  dr_Find :: "('d \<Rightarrow> bool) \<Rightarrow> 'c \<Rightarrow> string + 'd list"
  dr_FindSorted :: "('d \<Rightarrow> bool) \<Rightarrow> ('d \<Rightarrow> int) \<Rightarrow> nat \<Rightarrow> 'c \<Rightarrow> string + 'd list"

text \<open>
  The effect of an update on the documents: the one with this id changes when the filter accepts it.
\<close>

definition upd_where :: "string \<Rightarrow> ('d \<Rightarrow> bool) \<Rightarrow> ('d \<Rightarrow> 'd) \<Rightarrow> (string \<Rightarrow> 'd option) \<Rightarrow> string \<Rightarrow> 'd option" where
  "upd_where oid flt f m =
     (case m oid of None \<Rightarrow> m | Some d \<Rightarrow> if flt d then m(oid \<mapsto> f d) else m)"

definition hit_where :: "string \<Rightarrow> ('d \<Rightarrow> bool) \<Rightarrow> (string \<Rightarrow> 'd option) \<Rightarrow> 'd option" where
  "hit_where oid flt m = (case m oid of None \<Rightarrow> None | Some d \<Rightarrow> if flt d then Some d else None)"

text \<open>\<open>upsert\<close>: the document to insert when there is none, else the function applied to the one there.\<close>

definition upsert :: "string \<Rightarrow> 'd \<Rightarrow> ('d \<Rightarrow> 'd) \<Rightarrow> (string \<Rightarrow> 'd option) \<Rightarrow> string \<Rightarrow> 'd option" where
  "upsert oid d f m = m(oid \<mapsto> (case m oid of None \<Rightarrow> d | Some e \<Rightarrow> f e))"

definition upd_all :: "('d \<Rightarrow> bool) \<Rightarrow> ('d \<Rightarrow> 'd) \<Rightarrow> (string \<Rightarrow> 'd option) \<Rightarrow> string \<Rightarrow> 'd option" where
  "upd_all flt f m k = map_option (\<lambda>d. if flt d then f d else d) (m k)"

definition matches :: "('d \<Rightarrow> bool) \<Rightarrow> (string \<Rightarrow> 'd option) \<Rightarrow> 'd set" where
  "matches flt m = {d. \<exists>k. m k = Some d \<and> flt d}"

text \<open>Some document the filter accepts is updated, and answered.\<close>

definition upd_any :: "('d \<Rightarrow> bool) \<Rightarrow> ('d \<Rightarrow> 'd) \<Rightarrow> 'd \<Rightarrow> (string \<Rightarrow> 'd option) \<Rightarrow> (string \<Rightarrow> 'd option) \<Rightarrow> bool" where
  "upd_any flt f r m m' \<longleftrightarrow> (\<exists>k d. m k = Some d \<and> flt d \<and> r = f d \<and> m' = m(k \<mapsto> f d))"

lemma upd_where_other [simp]: "k \<noteq> oid \<Longrightarrow> upd_where oid flt f m k = m k"
  by (auto simp: upd_where_def split: option.splits)

lemma upd_where_same: "upd_where oid flt f m oid = map_option (\<lambda>d. if flt d then f d else d) (m oid)"
  by (auto simp: upd_where_def split: option.splits)

lemma hit_where_Some: "hit_where oid flt m = Some d \<longleftrightarrow> m oid = Some d \<and> flt d"
  by (auto simp: hit_where_def split: option.splits if_splits)

lemma hit_where_None: "hit_where oid flt m = None \<longleftrightarrow> (\<forall>d. m oid = Some d \<longrightarrow> \<not> flt d)"
  by (auto simp: hit_where_def split: option.splits)

lemma upd_where_miss: "hit_where oid flt m = None \<Longrightarrow> upd_where oid flt f m = m"
  by (auto simp: hit_where_def upd_where_def split: option.splits if_splits)

lemma upd_where_hit: "hit_where oid flt m = Some d \<Longrightarrow> upd_where oid flt f m = m(oid \<mapsto> f d)"
  by (auto simp: hit_where_def upd_where_def split: option.splits if_splits)

locale mongo_driver =
  fixes drv :: "('c, 'd) driver"
    and key :: "'d \<Rightarrow> string"
    and clash :: "'d \<Rightarrow> 'd \<Rightarrow> bool"
    and docs :: "'c \<Rightarrow> string \<Rightarrow> 'd option"
  assumes insert_ok: "dr_InsertOne drv d c = (None, c') \<Longrightarrow>
      docs c (key d) = None \<and> (\<forall>k e. docs c k = Some e \<longrightarrow> \<not> clash d e) \<and> docs c' = (docs c)(key d \<mapsto> d)"
    and insert_err: "dr_InsertOne drv d c = (Some e, c') \<Longrightarrow>
      docs c' = docs c \<or> docs c (key d) = None \<and> docs c' = (docs c)(key d \<mapsto> d)"
    and find_ok: "dr_FindOne drv oid flt c = Inr r \<Longrightarrow> r = hit_where oid flt (docs c)"
    and update_ok: "dr_UpdateOne drv oid flt f c = (Inr n, c') \<Longrightarrow>
      docs c' = upd_where oid flt f (docs c) \<and> n = (if hit_where oid flt (docs c) = None then 0 else 1)"
    and update_err: "dr_UpdateOne drv oid flt f c = (Inl e, c') \<Longrightarrow>
      docs c' = docs c \<or> docs c' = upd_where oid flt f (docs c)"
    and find_update_ok: "dr_FindOneAndUpdate drv oid flt f c = (Inr r, c') \<Longrightarrow>
      docs c' = upd_where oid flt f (docs c) \<and> r = map_option f (hit_where oid flt (docs c))"
    and find_update_err: "dr_FindOneAndUpdate drv oid flt f c = (Inl e, c') \<Longrightarrow>
      docs c' = docs c \<or> docs c' = upd_where oid flt f (docs c)"
    and upsert_ok: "dr_UpsertOne drv oid d f c = (None, c') \<Longrightarrow> docs c' = upsert oid d f (docs c)"
    and upsert_err: "dr_UpsertOne drv oid d f c = (Some e, c') \<Longrightarrow>
      docs c' = docs c \<or> docs c' = upsert oid d f (docs c)"
    and upsert_where_cases: "dr_UpsertWhere drv oid flt d f c = (a, c') \<Longrightarrow>
      docs c' = docs c \<or> (\<forall>e. docs c oid = Some e \<longrightarrow> flt e) \<and> docs c' = upsert oid d f (docs c)"
    and upsert_where_ok: "dr_UpsertWhere drv oid flt d f c = (UpsertDone, c') \<Longrightarrow>
      (\<forall>e. docs c oid = Some e \<longrightarrow> flt e) \<and> docs c' = upsert oid d f (docs c)"
    and upsert_where_dup: "dr_UpsertWhere drv oid flt d f c = (UpsertDuplicate, c') \<Longrightarrow> docs c' = docs c"
    and find_any_ok: "dr_FindAnyAndUpdate drv flt f c = (Inr (Some d'), c') \<Longrightarrow> upd_any flt f d' (docs c) (docs c')"
    and find_any_none: "dr_FindAnyAndUpdate drv flt f c = (Inr None, c') \<Longrightarrow>
      docs c' = docs c \<and> matches flt (docs c) = {}"
    and find_any_err: "dr_FindAnyAndUpdate drv flt f c = (Inl e, c') \<Longrightarrow>
      docs c' = docs c \<or> (\<exists>r. upd_any flt f r (docs c) (docs c'))"
    and update_many_ok: "dr_UpdateMany drv flt f c = (Inr n, c') \<Longrightarrow> docs c' = upd_all flt f (docs c)"
    and update_many_err: "dr_UpdateMany drv flt f c = (Inl e, c') \<Longrightarrow>
      docs c' k = docs c k \<or> docs c' k = upd_all flt f (docs c) k"
    and delete_cases: "dr_DeleteOne drv oid flt c = (r', c') \<Longrightarrow>
      docs c' = docs c \<or> hit_where oid flt (docs c) \<noteq> None \<and> docs c' = (docs c)(oid := None)"
    and delete_ok: "dr_DeleteOne drv oid flt c = (Inr n, c') \<Longrightarrow>
      (n = 0 \<longleftrightarrow> hit_where oid flt (docs c) = None) \<and> (n \<noteq> 0 \<longrightarrow> docs c' oid = None)"
    and find_all: "dr_Find drv flt c = Inr ds \<Longrightarrow> set ds = matches flt (docs c)"
    and find_sorted: "dr_FindSorted drv flt srt n c = Inr ds \<Longrightarrow>
      sorted (map srt ds) \<and> length ds \<le> n \<and> set ds \<subseteq> matches flt (docs c) \<and>
      (length ds < n \<longrightarrow> set ds = matches flt (docs c))"
begin

text \<open>Whatever a call reports, it changes at most the document it names.\<close>

lemma update_cases:
  assumes "dr_UpdateOne drv oid flt f c = (r, c')"
  shows "docs c' = docs c \<or> docs c' = upd_where oid flt f (docs c)"
  using assms update_ok [of oid flt f c] update_err [of oid flt f c] by (cases r) auto

lemma find_update_cases:
  assumes "dr_FindOneAndUpdate drv oid flt f c = (r, c')"
  shows "docs c' = docs c \<or> docs c' = upd_where oid flt f (docs c)"
  using assms find_update_ok [of oid flt f c] find_update_err [of oid flt f c] by (cases r) auto

lemma find_any_cases:
  assumes "dr_FindAnyAndUpdate drv flt f c = (r, c')"
  shows "docs c' = docs c \<or> (\<exists>r. upd_any flt f r (docs c) (docs c'))"
proof (cases r)
  case (Inr a)
  then show ?thesis using assms find_any_ok [of flt f c _ c'] find_any_none [of flt f c c'] by (cases a) auto
qed (use assms find_any_err in auto)

lemma update_many_cases:
  assumes "dr_UpdateMany drv flt f c = (r, c')"
  shows "docs c' k = docs c k \<or> docs c' k = upd_all flt f (docs c) k"
  using assms update_many_ok [of flt f c _ c'] update_many_err [of flt f c _ c' k] by (cases r) auto

lemma insert_cases:
  assumes "dr_InsertOne drv d c = (r, c')"
  shows "docs c' = docs c \<or> docs c (key d) = None \<and> docs c' = (docs c)(key d \<mapsto> d)"
  using assms insert_ok [of d c c'] insert_err [of d c _ c'] by (cases r) blast+

lemma upsert_cases:
  assumes "dr_UpsertOne drv oid d f c = (r, c')"
  shows "docs c' = docs c \<or> docs c' = upsert oid d f (docs c)"
  using assms upsert_ok [of oid d f c c'] upsert_err [of oid d f c _ c'] by (cases r) auto

end

subsection \<open>Transitions\<close>

text \<open>
  The stores' \<open>transition\<close> helper: one atomic update of the document a filter accepts, with a filter on
  the id or without; the answer is the updated document, or \<open>zero\<close> and \<open>False\<close> when there is none.
\<close>

fun found_answer :: "'d \<Rightarrow> (string + 'd option) \<times> 'c \<Rightarrow> (string + 'd \<times> bool) \<times> 'c" where
  "found_answer zero (Inl e, c) = (Inl e, c)"
| "found_answer zero (Inr None, c) = (Inr (zero, False), c)"
| "found_answer zero (Inr (Some r), c) = (Inr (r, True), c)"

definition doc_transition ::
    "'d \<Rightarrow> ('c, 'd) driver \<Rightarrow> string \<Rightarrow> ('d \<Rightarrow> bool) \<Rightarrow> ('d \<Rightarrow> 'd) \<Rightarrow> 'c \<Rightarrow> (string + 'd \<times> bool) \<times> 'c" where
  "doc_transition zero drv k flt f c = found_answer zero (dr_FindOneAndUpdate drv k flt f c)"

definition doc_transition_any ::
    "'d \<Rightarrow> ('c, 'd) driver \<Rightarrow> ('d \<Rightarrow> bool) \<Rightarrow> ('d \<Rightarrow> 'd) \<Rightarrow> 'c \<Rightarrow> (string + 'd \<times> bool) \<times> 'c" where
  "doc_transition_any zero drv flt f c = found_answer zero (dr_FindAnyAndUpdate drv flt f c)"

lemma found_answer_fst:
  assumes "found_answer zero x = (res, c)"
  shows "snd x = c" "res = Inr (r, True) \<Longrightarrow> fst x = Inr (Some r)" "res = Inr (r, False) \<Longrightarrow> fst x = Inr None"
  using assms by (cases "(zero, x)" rule: found_answer.cases; auto)+

context mongo_driver
begin

lemma upd_where_moved: "(\<And>r. flt r \<Longrightarrow> P r (f r)) \<Longrightarrow> moved P m (upd_where k flt f m)"
  by (auto simp: upd_where_def split: option.splits intro: moved_upd)

lemma transition_moved:
  assumes "doc_transition z drv k flt f s = (res, s')" "\<And>r. flt r \<Longrightarrow> P r (f r)"
  shows "moved P (docs s) (docs s')"
proof -
  obtain x where "dr_FindOneAndUpdate drv k flt f s = (x, s')"
    using found_answer_fst(1) [OF assms(1) [unfolded doc_transition_def]] by (metis prod.collapse)
  from find_update_cases [OF this] show ?thesis
    using upd_where_moved [of flt P f "docs s" k] assms(2) by auto
qed

lemma transition_any_moved:
  assumes "doc_transition_any z drv flt f s = (res, s')" "\<And>r. flt r \<Longrightarrow> P r (f r)"
  shows "moved P (docs s) (docs s')"
proof -
  obtain x where "dr_FindAnyAndUpdate drv flt f s = (x, s')"
    using found_answer_fst(1) [OF assms(1) [unfolded doc_transition_any_def]] by (metis prod.collapse)
  from find_any_cases [OF this] show ?thesis
    using assms(2) by (auto simp: upd_any_def intro!: moved_upd)
qed

lemma transition_won:
  assumes "doc_transition z drv k flt f s = (Inr (r, True), s')"
  shows "\<exists>r0. docs s k = Some r0 \<and> flt r0 \<and> r = f r0 \<and> docs s' = (docs s)(k \<mapsto> r)"
proof -
  have "dr_FindOneAndUpdate drv k flt f s = (Inr (Some r), s')"
    using found_answer_fst [OF assms [unfolded doc_transition_def]] by (metis prod.collapse)
  from find_update_ok [OF this] show ?thesis
    by (cases "hit_where k flt (docs s)") (auto simp: hit_where_Some upd_where_hit)
qed

lemma transition_lost:
  assumes "doc_transition z drv k flt f s = (Inr (r, False), s')"
  shows "docs s' = docs s \<and> (\<forall>r0. docs s k = Some r0 \<longrightarrow> \<not> flt r0)"
proof -
  have "dr_FindOneAndUpdate drv k flt f s = (Inr None, s')"
    using found_answer_fst [OF assms [unfolded doc_transition_def]] by (metis prod.collapse)
  from find_update_ok [OF this] show ?thesis by (auto simp: hit_where_None upd_where_miss)
qed

lemma transition_any_lost:
  assumes "doc_transition_any z drv flt f s = (Inr (r, False), s')"
  shows "docs s' = docs s"
proof -
  have "dr_FindAnyAndUpdate drv flt f s = (Inr None, s')"
    using found_answer_fst [OF assms [unfolded doc_transition_any_def]] by (metis prod.collapse)
  then show ?thesis using find_any_none by blast
qed

lemma update_many_moved:
  assumes "dr_UpdateMany drv flt f c = (r, c')" "\<And>r. flt r \<Longrightarrow> P r (f r)"
  shows "moved P (docs c) (docs c')"
  unfolding moved_def
proof
  fix k
  show "docs c' k = docs c k \<or> (\<exists>r r'. docs c k = Some r \<and> docs c' k = Some r' \<and> P r r')"
    using update_many_cases [OF assms(1), of k] assms(2) by (cases "docs c k") (auto simp: upd_all_def)
qed

end

section \<open>A server that keeps its documents in a list\<close>

type_synonym 'd coll = "(string \<times> 'd) list"

text \<open>The live entries: the first one of each id that is not deleted.\<close>

definition live :: "'d coll \<Rightarrow> (string \<times> 'd) list" where
  "live c = map (\<lambda>k. (k, the (map_of c k))) (remdups (map fst c))"

definition drop_key :: "string \<Rightarrow> 'd coll \<Rightarrow> 'd coll" where
  "drop_key k c = filter (\<lambda>(j, d). j \<noteq> k) c"

definition map_driver :: "('d \<Rightarrow> string) \<Rightarrow> ('d \<Rightarrow> 'd \<Rightarrow> bool) \<Rightarrow> ('d coll, 'd) driver" where
  "map_driver key clash =
     \<lparr>dr_InsertOne = (\<lambda>d c. if map_of c (key d) \<noteq> None \<or> list_ex (\<lambda>(k, e). clash d e) c
                            then (Some ''duplicate key'', c) else (None, (key d, d) # c)),
      dr_FindOne = (\<lambda>oid flt c. Inr (hit_where oid flt (map_of c))),
      dr_UpdateOne = (\<lambda>oid flt f c. case hit_where oid flt (map_of c) of
          None \<Rightarrow> (Inr 0, c) | Some d \<Rightarrow> (Inr 1, (oid, f d) # c)),
      dr_FindOneAndUpdate = (\<lambda>oid flt f c. case hit_where oid flt (map_of c) of
          None \<Rightarrow> (Inr None, c) | Some d \<Rightarrow> (Inr (Some (f d)), (oid, f d) # c)),
      dr_UpsertOne = (\<lambda>oid d f c. (None, (oid, case map_of c oid of None \<Rightarrow> d | Some e \<Rightarrow> f e) # c)),
      dr_UpsertWhere = (\<lambda>oid flt d f c. case map_of c oid of
          None \<Rightarrow> (UpsertDone, (oid, d) # c)
        | Some e \<Rightarrow> if flt e then (UpsertDone, (oid, f e) # c) else (UpsertDuplicate, c)),
      dr_FindAnyAndUpdate = (\<lambda>flt f c. case find_first (\<lambda>(k, d). flt d) (live c) of
          None \<Rightarrow> (Inr None, c) | Some (k, d) \<Rightarrow> (Inr (Some (f d)), (k, f d) # c)),
      dr_UpdateMany = (\<lambda>flt f c. (Inr (length (filter (\<lambda>(k, d). flt d) (live c))),
          map (\<lambda>(k, d). (k, if flt d then f d else d)) c)),
      dr_DeleteOne = (\<lambda>oid flt c. case hit_where oid flt (map_of c) of
          None \<Rightarrow> (Inr 0, c) | Some d \<Rightarrow> (Inr 1, drop_key oid c)),
      dr_Find = (\<lambda>flt c. Inr (filter flt (map snd (live c)))),
      dr_FindSorted = (\<lambda>flt srt n c. Inr (take n (sort_key srt (filter flt (map snd (live c))))))\<rparr>"

lemma live_iff: "(k, d) \<in> set (live c) \<longleftrightarrow> map_of c k = Some d"
proof -
  have "k \<in> fst ` set c \<longleftrightarrow> (\<exists>e. map_of c k = Some e)"
    using map_of_eq_None_iff [of c k] by auto
  then show ?thesis by (auto simp: live_def)
qed

lemma live_matches: "set (filter flt (map snd (live c))) = matches flt (map_of c)"
  by (force simp: matches_def live_iff [symmetric])

lemma map_of_drop_key [simp]: "map_of (drop_key k c) = (map_of c)(k := None)"
  by (induction c) (auto simp: drop_key_def fun_eq_iff)

lemma map_of_upd_all: "map_of (map (\<lambda>(k, d). (k, if flt d then f d else d)) c) = upd_all flt f (map_of c)"
  by (induction c) (auto simp: upd_all_def fun_eq_iff)

interpretation map_server: mongo_driver "map_driver key clash" key clash map_of
proof unfold_locales
  fix d :: 'a and c c' assume a: "dr_InsertOne (map_driver key clash) d c = (None, c')"
  have "\<not> clash d e" if "map_of c k = Some e" for k e
    using a map_of_SomeD [OF that] by (auto simp: map_driver_def list_ex_iff split: if_splits)
  then show "map_of c (key d) = None \<and> (\<forall>k e. map_of c k = Some e \<longrightarrow> \<not> clash d e) \<and>
      map_of c' = (map_of c)(key d \<mapsto> d)"
    using a by (auto simp: map_driver_def split: if_splits)
next
  fix flt :: "'a \<Rightarrow> bool" and f r c c'
  assume "dr_FindAnyAndUpdate (map_driver key clash) flt f c = (Inr (Some r), c')"
  then obtain k d where "find_first (\<lambda>(k, d). flt d) (live c) = Some (k, d)" "r = f d" "c' = (k, f d) # c"
    by (auto simp: map_driver_def split: option.splits)
  then show "upd_any flt f r (map_of c) (map_of c')"
    using find_first_Some [of "\<lambda>(k, d). flt d" "live c"] by (fastforce simp: upd_any_def live_iff)
next
  fix flt :: "'a \<Rightarrow> bool" and f c c'
  assume "dr_FindAnyAndUpdate (map_driver key clash) flt f c = (Inr None, c')"
  then have "find_first (\<lambda>(k, d). flt d) (live c) = None" "c' = c"
    by (auto simp: map_driver_def split: option.splits)
  then show "map_of c' = map_of c \<and> matches flt (map_of c) = {}"
    by (auto simp: find_first_None matches_def live_iff [symmetric])
next
  fix flt :: "'a \<Rightarrow> bool" and c ds assume "dr_Find (map_driver key clash) flt c = Inr ds"
  then have "ds = filter flt (map snd (live c))" by (simp add: map_driver_def)
  then show "set ds = matches flt (map_of c)" by (simp only: live_matches)
next
  fix flt :: "'a \<Rightarrow> bool" and srt :: "'a \<Rightarrow> int" and n c ds
  define L where "L = filter flt (map snd (live c))"
  assume "dr_FindSorted (map_driver key clash) flt srt n c = Inr ds"
  then have ds: "ds = take n (sort_key srt L)" by (simp add: map_driver_def L_def)
  have "set ds \<subseteq> set L" unfolding ds using set_take_subset [of n "sort_key srt L"] by simp
  moreover have "set ds = set L" if "length ds < n" using that unfolding ds by simp
  moreover have "set L = matches flt (map_of c)" unfolding L_def by (rule live_matches)
  moreover have "sorted (map srt ds)" "length ds \<le> n"
    unfolding ds by (simp_all add: take_map [symmetric] sorted_wrt_take)
  ultimately show "sorted (map srt ds) \<and> length ds \<le> n \<and> set ds \<subseteq> matches flt (map_of c) \<and>
      (length ds < n \<longrightarrow> set ds = matches flt (map_of c))" by blast
qed (auto simp: map_driver_def upd_where_miss upd_where_hit upsert_def map_of_upd_all
     split: if_splits option.splits prod.splits)

end
