(* ===== verification/Journal.thy ===== *)
theory Journal
  imports Decimal Mongo_Driver "HOL-Library.Multiset"
begin

text \<open>
  \<open>internal/journal\<close> and its MongoDB repository: the trade journal. The rows, the filter, the
  repository in memory and in a collection, the validating service over either, and the report.
  Go's map of rows is a HOL map; an iteration over it visits its keys in an order that is an argument.
\<close>

section \<open>Rows\<close>

datatype outcome =
    OutcomeUnset | OutcomeOpen | OutcomeWin | OutcomeLoss | OutcomeBreakeven | OutcomeOther string

definition outcome_valid :: "outcome \<Rightarrow> bool" where
  "outcome_valid o1 \<longleftrightarrow> o1 = OutcomeOpen \<or> o1 = OutcomeWin \<or> o1 = OutcomeLoss \<or> o1 = OutcomeBreakeven"

definition outcome_closed :: "outcome \<Rightarrow> bool" where
  "outcome_closed o1 \<longleftrightarrow> o1 = OutcomeWin \<or> o1 = OutcomeLoss \<or> o1 = OutcomeBreakeven"

record trade =
  t_ID :: string
  t_UserID :: int
  t_CampaignID :: string
  t_ConfirmationID :: string
  t_Symbol :: string
  t_Side :: string
  t_Strategy :: string
  t_Models :: "string list"
  t_Reason :: string
  t_Confidence :: int
  t_Leverage :: int
  t_Mode :: string
  t_Entry :: decimal
  t_Exit :: decimal
  t_StopLoss :: decimal
  t_TakeProfit :: decimal
  t_SizeUSDT :: decimal
  t_Quantity :: decimal
  t_PnLUSDT :: decimal
  t_Outcome :: outcome
  t_OpenedAt :: time
  t_ClosedAt :: time

text \<open>Go's zero \<open>Trade{}\<close>, from which the composite literals of the order service start.\<close>

definition no_trade :: trade where
  "no_trade = \<lparr>t_ID = [], t_UserID = 0, t_CampaignID = [], t_ConfirmationID = [], t_Symbol = [],
     t_Side = [], t_Strategy = [], t_Models = [], t_Reason = [], t_Confidence = 0, t_Leverage = 0,
     t_Mode = [], t_Entry = dec_unset, t_Exit = dec_unset, t_StopLoss = dec_unset,
     t_TakeProfit = dec_unset, t_SizeUSDT = dec_unset, t_Quantity = dec_unset,
     t_PnLUSDT = dec_unset, t_Outcome = OutcomeUnset, t_OpenedAt = 0, t_ClosedAt = 0\<rparr>"

record journal_filter =
  f_UserID :: int
  f_CampaignID :: string
  f_Symbol :: string
  f_Strategy :: string
  f_Mode :: string
  f_ClosedOnly :: bool
  f_OpenOnly :: bool

definition no_filter :: journal_filter where
  "no_filter = \<lparr>f_UserID = 0, f_CampaignID = [], f_Symbol = [], f_Strategy = [], f_Mode = [],
     f_ClosedOnly = False, f_OpenOnly = False\<rparr>"

definition filter_matches :: "journal_filter \<Rightarrow> trade \<Rightarrow> bool" where
  "filter_matches f t =
     (if f_UserID f \<noteq> 0 \<and> t_UserID t \<noteq> f_UserID f then False
      else if f_CampaignID f \<noteq> [] \<and> t_CampaignID t \<noteq> f_CampaignID f then False
      else if f_Symbol f \<noteq> [] \<and> \<not> equal_fold (t_Symbol t) (f_Symbol f) then False
      else if f_Strategy f \<noteq> [] \<and> t_Strategy t \<noteq> f_Strategy f then False
      else if f_Mode f \<noteq> [] \<and> t_Mode t \<noteq> f_Mode f then False
      else if f_ClosedOnly f \<and> \<not> outcome_closed (t_Outcome t) then False
      else if f_OpenOnly f \<and> t_Outcome t \<noteq> OutcomeOpen then False
      else True)"

record close_update =
  cu_Exit :: decimal
  cu_PnLUSDT :: decimal
  cu_Outcome :: outcome
  cu_ClosedAt :: time
  cu_Mode :: string

section \<open>The repository in memory\<close>

type_synonym mem_journal = "string \<Rightarrow> trade option"

definition mem_Save :: "trade \<Rightarrow> mem_journal \<Rightarrow> mem_journal" where
  "mem_Save t r =
     (if t_Outcome t = OutcomeOpen \<and> r (t_ID t) \<noteq> None then r else r(t_ID t \<mapsto> t))"

definition mem_Close :: "string \<Rightarrow> close_update \<Rightarrow> mem_journal \<Rightarrow> trade option \<times> mem_journal" where
  "mem_Close tid u r =
     (case r tid of
        None \<Rightarrow> (None, r)
      | Some t \<Rightarrow>
          if t_Outcome t \<noteq> OutcomeOpen then (None, r)
          else let t = t\<lparr>t_Exit := cu_Exit u, t_PnLUSDT := cu_PnLUSDT u, t_Outcome := cu_Outcome u,
                         t_ClosedAt := cu_ClosedAt u\<rparr>;
                   t = (if cu_Mode u \<noteq> [] then t\<lparr>t_Mode := cu_Mode u\<rparr> else t)
               in (Some t, r(tid \<mapsto> t)))"

definition mem_List :: "string list \<Rightarrow> journal_filter \<Rightarrow> mem_journal \<Rightarrow> trade list" where
  "mem_List order f r =
     concat (map (\<lambda>k. case r k of None \<Rightarrow> [] | Some t \<Rightarrow> if filter_matches f t then [t] else []) order)"

section \<open>The repository in a collection\<close>

record journal_doc =
  jd_ID :: string
  jd_UserID :: int
  jd_CampaignID :: string
  jd_ConfirmationID :: string
  jd_Symbol :: string
  jd_Side :: string
  jd_Strategy :: string
  jd_Models :: "string list"
  jd_Reason :: string
  jd_Confidence :: int
  jd_Leverage :: int
  jd_Mode :: string
  jd_Entry :: string
  jd_Exit :: string
  jd_StopLoss :: string
  jd_TakeProfit :: string
  jd_SizeUSDT :: string
  jd_Quantity :: string
  jd_PnLUSDT :: string
  jd_Outcome :: outcome
  jd_OpenedAt :: time
  jd_ClosedAt :: time

definition journal_doc_of :: "trade \<Rightarrow> journal_doc" where
  "journal_doc_of t =
     \<lparr>jd_ID = t_ID t, jd_UserID = t_UserID t, jd_CampaignID = t_CampaignID t,
      jd_ConfirmationID = t_ConfirmationID t, jd_Symbol = t_Symbol t, jd_Side = t_Side t,
      jd_Strategy = t_Strategy t, jd_Models = t_Models t, jd_Reason = t_Reason t,
      jd_Confidence = t_Confidence t, jd_Leverage = t_Leverage t, jd_Mode = t_Mode t,
      jd_Entry = dec_String (t_Entry t), jd_Exit = dec_String (t_Exit t),
      jd_StopLoss = dec_String (t_StopLoss t), jd_TakeProfit = dec_String (t_TakeProfit t),
      jd_SizeUSDT = dec_String (t_SizeUSDT t), jd_Quantity = dec_String (t_Quantity t),
      jd_PnLUSDT = dec_String (t_PnLUSDT t), jd_Outcome = t_Outcome t,
      jd_OpenedAt = t_OpenedAt t, jd_ClosedAt = t_ClosedAt t\<rparr>"

definition tradeFromDoc :: "journal_doc \<Rightarrow> trade" where
  "tradeFromDoc d =
     \<lparr>t_ID = jd_ID d, t_UserID = jd_UserID d, t_CampaignID = jd_CampaignID d,
      t_ConfirmationID = jd_ConfirmationID d, t_Symbol = jd_Symbol d, t_Side = jd_Side d,
      t_Strategy = jd_Strategy d, t_Models = jd_Models d, t_Reason = jd_Reason d,
      t_Confidence = jd_Confidence d, t_Leverage = jd_Leverage d, t_Mode = jd_Mode d,
      t_Entry = parseDecimal (jd_Entry d), t_Exit = parseDecimal (jd_Exit d),
      t_StopLoss = parseDecimal (jd_StopLoss d),
      t_TakeProfit = parseDecimal (jd_TakeProfit d),
      t_SizeUSDT = parseDecimal (jd_SizeUSDT d),
      t_Quantity = parseDecimal (jd_Quantity d),
      t_PnLUSDT = parseDecimal (jd_PnLUSDT d), t_Outcome = jd_Outcome d,
      t_OpenedAt = jd_OpenedAt d, t_ClosedAt = jd_ClosedAt d\<rparr>"

text \<open>An open row is inserted or left alone; a closed one replaces whatever is there.\<close>

definition mgo_Save :: "('c, journal_doc) driver \<Rightarrow> trade \<Rightarrow> 'c \<Rightarrow> string option \<times> 'c" where
  "mgo_Save drv t c =
     (let doc = journal_doc_of t in
      if t_Outcome t = OutcomeOpen then dr_UpsertOne drv (t_ID t) doc (\<lambda>e. e) c
      else dr_UpsertOne drv (t_ID t) doc (\<lambda>_. doc) c)"

definition mgo_Close ::
    "('c, journal_doc) driver \<Rightarrow> string \<Rightarrow> close_update \<Rightarrow> 'c \<Rightarrow> (string + trade option) \<times> 'c" where
  "mgo_Close drv tid u c =
     (let set_doc = (\<lambda>d. let d = d\<lparr>jd_Exit := dec_String (cu_Exit u), jd_PnLUSDT := dec_String (cu_PnLUSDT u),
                                    jd_Outcome := cu_Outcome u, jd_ClosedAt := cu_ClosedAt u\<rparr>
                         in if trim_space (cu_Mode u) \<noteq> [] then d\<lparr>jd_Mode := cu_Mode u\<rparr> else d)
      in case dr_FindOneAndUpdate drv tid (\<lambda>d. jd_Outcome d = OutcomeOpen) set_doc c of
           (Inl e, c') \<Rightarrow> (Inl e, c')
         | (Inr None, c') \<Rightarrow> (Inr None, c')
         | (Inr (Some d), c') \<Rightarrow> (Inr (Some (tradeFromDoc d)), c'))"

definition mgo_query :: "journal_filter \<Rightarrow> journal_doc \<Rightarrow> bool" where
  "mgo_query f d \<longleftrightarrow>
     (f_UserID f = 0 \<or> jd_UserID d = f_UserID f) \<and>
     (f_CampaignID f = [] \<or> jd_CampaignID d = f_CampaignID f) \<and>
     (f_Symbol f = [] \<or> jd_Symbol d = to_upper (f_Symbol f)) \<and>
     (f_Strategy f = [] \<or> jd_Strategy d = f_Strategy f) \<and>
     (f_Mode f = [] \<or> jd_Mode d = f_Mode f) \<and>
     (if f_OpenOnly f then jd_Outcome d = OutcomeOpen
      else if f_ClosedOnly f then jd_Outcome d \<noteq> OutcomeOpen else True)"

definition mgo_List :: "('c, journal_doc) driver \<Rightarrow> journal_filter \<Rightarrow> 'c \<Rightarrow> string + trade list" where
  "mgo_List drv f c =
     (case dr_Find drv (mgo_query f) c of Inl e \<Rightarrow> Inl e | Inr ds \<Rightarrow> Inr (map tradeFromDoc ds))"

section \<open>The service\<close>

text \<open>
  \<open>Service\<close> validates a row and hands it to the repository, which is an argument: its two writes on
  a state. Errors are their messages.
\<close>

type_synonym 's save_op = "trade \<Rightarrow> 's \<Rightarrow> string option \<times> 's"
type_synonym 's close_op = "string \<Rightarrow> close_update \<Rightarrow> 's \<Rightarrow> (string + trade option) \<times> 's"

definition journal_Record :: "'s save_op \<Rightarrow> 's save_op" where
  "journal_Record save t s =
     (if trim_space (t_ID t) = [] then (Some ''journal: trade id is required'', s)
      else if t_UserID t \<le> 0 then (Some ''journal: user id must be positive'', s)
      else if trim_space (t_Symbol t) = [] then (Some ''journal: symbol is required'', s)
      else let t = (if t_Outcome t = OutcomeUnset then t\<lparr>t_Outcome := OutcomeOpen\<rparr> else t)
           in if \<not> outcome_valid (t_Outcome t) then (Some ''journal: invalid outcome'', s)
              else save t s)"

definition journal_Close :: "time \<Rightarrow> 's close_op \<Rightarrow> 's close_op" where
  "journal_Close now close tid u s =
     (if trim_space tid = [] then (Inl ''journal: trade id is required'', s)
      else let u = (if cu_Outcome u = OutcomeUnset then u\<lparr>cu_Outcome := OutcomeBreakeven\<rparr> else u)
           in if \<not> outcome_closed (cu_Outcome u) then (Inl ''journal: close outcome must be final'', s)
              else let u = (if is_zero_time (cu_ClosedAt u) then u\<lparr>cu_ClosedAt := now\<rparr> else u)
                   in close tid u s)"

text \<open>The in-memory repository through the interface: it never fails.\<close>

definition mem_save_op :: "mem_journal save_op" where
  "mem_save_op t r = (None, mem_Save t r)"

definition mem_close_op :: "mem_journal close_op" where
  "mem_close_op tid u r = (case mem_Close tid u r of (t, r') \<Rightarrow> (Inr t, r'))"

section \<open>The contract of a repository\<close>

text \<open>
  A stored row is the row with its decimals in normal form: what a collection returns after the
  round trip through text. \<open>closed_row\<close> is an open row with the result of its close; whether a
  blank mode replaces the row's is the one thing the two repositories disagree on.
\<close>

definition norm_trade :: "trade \<Rightarrow> trade" where
  "norm_trade t = t\<lparr>t_Entry := dec_normalize (t_Entry t), t_Exit := dec_normalize (t_Exit t),
     t_StopLoss := dec_normalize (t_StopLoss t), t_TakeProfit := dec_normalize (t_TakeProfit t),
     t_SizeUSDT := dec_normalize (t_SizeUSDT t), t_Quantity := dec_normalize (t_Quantity t),
     t_PnLUSDT := dec_normalize (t_PnLUSDT t)\<rparr>"

definition closed_row :: "string \<Rightarrow> trade \<Rightarrow> close_update \<Rightarrow> trade" where
  "closed_row mode t u = t\<lparr>t_Exit := dec_normalize (cu_Exit u), t_PnLUSDT := dec_normalize (cu_PnLUSDT u),
     t_Outcome := cu_Outcome u, t_ClosedAt := cu_ClosedAt u, t_Mode := mode\<rparr>"

locale journal_repo =
  fixes save :: "'s save_op" and close :: "'s close_op" and row :: "'s \<Rightarrow> string \<Rightarrow> trade option"
  assumes save_other: "save t s = (e, s') \<Longrightarrow> k \<noteq> t_ID t \<Longrightarrow> row s' k = row s k"
    and save_open_keeps: "save t s = (e, s') \<Longrightarrow> t_Outcome t = OutcomeOpen \<Longrightarrow> row s k = Some r \<Longrightarrow> row s' k = Some r"
    and save_ok: "save t s = (None, s') \<Longrightarrow> row s' (t_ID t) =
          Some (if t_Outcome t = OutcomeOpen then (case row s (t_ID t) of None \<Rightarrow> norm_trade t | Some r \<Rightarrow> r)
                else norm_trade t)"
    and close_won: "close tid u s = (Inr (Some t), s') \<Longrightarrow>
          \<exists>r mode. row s tid = Some r \<and> t_Outcome r = OutcomeOpen \<and> mode \<in> {t_Mode r, cu_Mode u} \<and>
            norm_trade t = closed_row mode r u \<and> row s' = (row s)(tid \<mapsto> norm_trade t)"
    and close_lost: "close tid u s = (Inr None, s') \<Longrightarrow>
          row s' = row s \<and> (\<forall>r. row s tid = Some r \<longrightarrow> t_Outcome r \<noteq> OutcomeOpen)"
    and close_err: "close tid u s = (Inl msg, s') \<Longrightarrow> row s' = row s \<or>
          (\<exists>r mode. row s tid = Some r \<and> t_Outcome r = OutcomeOpen \<and> row s' = (row s)(tid \<mapsto> closed_row mode r u))"
begin

text \<open>A row that has its final result keeps it under every close and every open write.\<close>

lemma close_keeps:
  assumes "close tid u s = (res, s')" "row s k = Some r" "t_Outcome r \<noteq> OutcomeOpen"
  shows "row s' k = Some r"
proof (cases res)
  case (Inl e)
  then show ?thesis using close_err [of tid u s e s'] assms by auto
next
  case (Inr a)
  then show ?thesis
    using close_lost [of tid u s s'] close_won [of tid u s _ s'] assms by (cases a) auto
qed

lemma service_close_keeps:
  assumes "journal_Close now close tid u s = (res, s')" "row s k = Some r" "t_Outcome r \<noteq> OutcomeOpen"
  shows "row s' k = Some r"
  using assms by (auto simp: journal_Close_def Let_def split: if_splits dest: close_keeps)

lemma service_record_keeps:
  assumes "journal_Record save t s = (e, s')" "t_Outcome t \<in> {OutcomeUnset, OutcomeOpen} \<or> t_ID t \<noteq> k"
    "row s k = Some r"
  shows "row s' k = Some r"
  using assms save_open_keeps [of "t\<lparr>t_Outcome := OutcomeOpen\<rparr>" s e s' k r]
    save_open_keeps [of t s e s' k r] save_other [of t s e s' k]
    save_other [of "t\<lparr>t_Outcome := OutcomeOpen\<rparr>" s e s' k]
  by (auto simp: journal_Record_def Let_def split: if_splits)

text \<open>The close that reports a row has just given it the result it carries.\<close>

lemma service_close_won:
  assumes "journal_Close now close tid u s = (Inr (Some t), s')"
  shows "\<exists>r. row s tid = Some r \<and> t_Outcome r = OutcomeOpen" and "outcome_closed (t_Outcome t)"
    and "row s' tid = Some (norm_trade t)"
proof -
  obtain v where v: "close tid v s = (Inr (Some t), s')" "outcome_closed (cu_Outcome v)"
    using assms by (auto simp: journal_Close_def Let_def split: if_splits)
  obtain r mode where r: "row s tid = Some r" "t_Outcome r = OutcomeOpen"
      "norm_trade t = closed_row mode r v" "row s' = (row s)(tid \<mapsto> norm_trade t)"
    using close_won [OF v(1)] by blast
  have "t_Outcome (norm_trade t) = cu_Outcome v" by (simp add: r closed_row_def)
  then show "outcome_closed (t_Outcome t)" using v by (simp add: norm_trade_def)
  show "\<exists>r. row s tid = Some r \<and> t_Outcome r = OutcomeOpen" "row s' tid = Some (norm_trade t)"
    using r by simp_all
qed

end

text \<open>A sequence of calls of the service, each with the wall clock it reads, and the row each close reports.\<close>

datatype journal_call = JRecord trade | JClose time string close_update

fun journal_step :: "'s save_op \<Rightarrow> 's close_op \<Rightarrow> journal_call \<Rightarrow> 's \<Rightarrow> trade option \<times> 's" where
  "journal_step save close (JRecord t) s = (None, snd (journal_Record save t s))"
| "journal_step save close (JClose now tid u) s =
     (case journal_Close now close tid u s of
        (Inr (Some t), s') \<Rightarrow> (Some t, s') | (_, s') \<Rightarrow> (None, s'))"

fun journal_run :: "'s save_op \<Rightarrow> 's close_op \<Rightarrow> journal_call list \<Rightarrow> 's \<Rightarrow> trade option list \<times> 's" where
  "journal_run save close [] s = ([], s)"
| "journal_run save close (c # cs) s =
     (let (r, s1) = journal_step save close c s; (rs, s2) = journal_run save close cs s1 in (r # rs, s2))"

fun closes_row :: "string \<Rightarrow> journal_call \<Rightarrow> bool" where
  "closes_row k (JRecord t) = False"
| "closes_row k (JClose now tid u) = (tid = k)"

fun open_write :: "string \<Rightarrow> journal_call \<Rightarrow> bool" where
  "open_write k (JRecord t) = (t_Outcome t \<in> {OutcomeUnset, OutcomeOpen} \<or> t_ID t \<noteq> k)"
| "open_write k (JClose now tid u) = True"

text \<open>How many closes of row \<open>k\<close> in the sequence report that they closed it.\<close>

definition wins_for :: "string \<Rightarrow> journal_call list \<Rightarrow> trade option list \<Rightarrow> nat" where
  "wins_for k cs rs = length (filter (\<lambda>(c, r). closes_row k c \<and> r \<noteq> None) (zip cs rs))"

lemma wins_for_simps [simp]:
  "wins_for k [] rs = 0"
  "wins_for k (c # cs) (r # rs) = (if closes_row k c \<and> r \<noteq> None then 1 else 0) + wins_for k cs rs"
  by (simp_all add: wins_for_def)

context journal_repo
begin

lemma step_keeps:
  assumes "journal_step save close c s = (x, s')" "open_write k c" "row s k = Some r" "t_Outcome r \<noteq> OutcomeOpen"
  shows "row s' k = Some r"
proof (cases c)
  case (JRecord t)
  then show ?thesis using assms service_record_keeps [of t s _ s' k r] by (cases "journal_Record save t s") auto
next
  case (JClose now tid u)
  then obtain res where "journal_Close now close tid u s = (res, s')"
    using assms(1) by (auto split: prod.splits sum.splits option.splits)
  then show ?thesis using assms(3,4) by (rule service_close_keeps)
qed

lemma step_win:
  assumes "journal_step save close c s = (Some t, s')" "closes_row k c"
  shows "\<exists>r. row s k = Some r \<and> t_Outcome r = OutcomeOpen"
    and "row s' k = Some (norm_trade t)" "t_Outcome (norm_trade t) \<noteq> OutcomeOpen"
proof -
  obtain now u where c: "c = JClose now k u" using assms(2) by (cases c) auto
  with assms(1) have a: "journal_Close now close k u s = (Inr (Some t), s')"
    by (auto split: prod.splits sum.splits option.splits)
  note w = service_close_won [OF a]
  show "\<exists>r. row s k = Some r \<and> t_Outcome r = OutcomeOpen" "row s' k = Some (norm_trade t)"
    by (rule w)+
  show "t_Outcome (norm_trade t) \<noteq> OutcomeOpen"
    using w(2) by (auto simp: norm_trade_def outcome_closed_def)
qed

lemma no_wins_after_final:
  assumes "journal_run save close cs s = (rs, s')" "\<forall>c\<in>set cs. open_write k c"
    "row s k = Some r" "t_Outcome r \<noteq> OutcomeOpen"
  shows "wins_for k cs rs = 0 \<and> row s' k = Some r"
  using assms
proof (induction cs arbitrary: s rs)
  case (Cons c cs)
  obtain x s1 where st: "journal_step save close c s = (x, s1)" by (cases "journal_step save close c s")
  obtain xs where rs: "rs = x # xs" "journal_run save close cs s1 = (xs, s')"
    using Cons.prems(1) st by (auto split: prod.splits)
  have r1: "row s1 k = Some r"
    using step_keeps [OF st _ Cons.prems(3,4)] Cons.prems(2) by simp
  have "\<not> (closes_row k c \<and> x \<noteq> None)"
    using step_win(1) [of c s _ s1 k] st Cons.prems(3,4) by (cases x) auto
  moreover have "wins_for k cs xs = 0 \<and> row s' k = Some r"
    using Cons.IH [OF rs(2) _ r1 Cons.prems(4)] Cons.prems(2) by simp
  ultimately show ?case by (auto simp: rs)
qed simp

lemma single_winner:
  assumes "journal_run save close cs s = (rs, s')" "\<forall>c\<in>set cs. open_write k c"
  shows "wins_for k cs rs \<le> 1"
  using assms
proof (induction cs arbitrary: s rs)
  case (Cons c cs)
  obtain x s1 where st: "journal_step save close c s = (x, s1)" by (cases "journal_step save close c s")
  obtain xs where rs: "rs = x # xs" "journal_run save close cs s1 = (xs, s')"
    using Cons.prems(1) st by (auto split: prod.splits)
  show ?case
  proof (cases "closes_row k c \<and> x \<noteq> None")
    case True
    then obtain t where "x = Some t" by auto
    with st True have "row s1 k = Some (norm_trade t)" "t_Outcome (norm_trade t) \<noteq> OutcomeOpen"
      using step_win [of c s t s1 k] by auto
    then have "wins_for k cs xs = 0"
      using no_wins_after_final [OF rs(2), of k] Cons.prems(2) by simp
    then show ?thesis by (simp add: rs)
  next
    case False
    then show ?thesis using Cons.IH [OF rs(2)] Cons.prems(2) by (auto simp: rs)
  qed
qed simp

end

section \<open>Both repositories keep the contract\<close>

text \<open>Storing a row as text and reading it back gives the row with its decimals in normal form.\<close>

lemma tradeFromDoc_of: "tradeFromDoc (journal_doc_of t) = norm_trade t"
  by (simp add: tradeFromDoc_def journal_doc_of_def norm_trade_def)

lemma norm_trade_Outcome [simp]: "t_Outcome (norm_trade t) = t_Outcome t"
  by (simp add: norm_trade_def)

lemma tradeFromDoc_Outcome [simp]: "t_Outcome (tradeFromDoc d) = jd_Outcome d"
  by (simp add: tradeFromDoc_def)

lemma norm_tradeFromDoc [simp]: "norm_trade (tradeFromDoc d) = tradeFromDoc d"
  by (simp add: norm_trade_def tradeFromDoc_def)

interpretation mem_repo: journal_repo mem_save_op mem_close_op "\<lambda>r k. map_option norm_trade (r k)"
proof unfold_locales
  fix tid u s t s' assume "mem_close_op tid u s = (Inr (Some t), s')"
  then obtain r where r: "s tid = Some r" "t_Outcome r = OutcomeOpen"
    and t: "t = (if cu_Mode u \<noteq> [] then r\<lparr>t_Exit := cu_Exit u, t_PnLUSDT := cu_PnLUSDT u, t_Outcome := cu_Outcome u,
              t_ClosedAt := cu_ClosedAt u, t_Mode := cu_Mode u\<rparr>
            else r\<lparr>t_Exit := cu_Exit u, t_PnLUSDT := cu_PnLUSDT u, t_Outcome := cu_Outcome u,
              t_ClosedAt := cu_ClosedAt u\<rparr>)" and s': "s' = s(tid \<mapsto> t)"
    by (auto simp: mem_close_op_def mem_Close_def Let_def split: option.splits if_splits)
  have "norm_trade t = closed_row (if cu_Mode u \<noteq> [] then cu_Mode u else t_Mode r) (norm_trade r) u"
    by (simp add: t norm_trade_def closed_row_def)
  then show "\<exists>r mode. map_option norm_trade (s tid) = Some r \<and> t_Outcome r = OutcomeOpen \<and>
      mode \<in> {t_Mode r, cu_Mode u} \<and> norm_trade t = closed_row mode r u \<and>
      (\<lambda>k. map_option norm_trade (s' k)) = (\<lambda>k. map_option norm_trade (s k))(tid \<mapsto> norm_trade t)"
    using r by (intro exI [of _ "norm_trade r"] exI [of _ "if cu_Mode u \<noteq> [] then cu_Mode u else t_Mode r"])
      (auto simp: s' norm_trade_def fun_eq_iff)
qed (auto simp: mem_save_op_def mem_close_op_def mem_Save_def mem_Close_def Let_def
     split: option.splits if_splits prod.splits)

locale mongo_journal = mongo_driver drv jd_ID "\<lambda>_ _. False" docs
  for drv :: "('c, journal_doc) driver" and docs :: "'c \<Rightarrow> string \<Rightarrow> journal_doc option"
begin

definition rows :: "'c \<Rightarrow> string \<Rightarrow> trade option" where
  "rows c k = map_option tradeFromDoc (docs c k)"

definition saved :: "trade \<Rightarrow> 'c \<Rightarrow> trade" where
  "saved t s = (if t_Outcome t = OutcomeOpen
     then (case rows s (t_ID t) of None \<Rightarrow> norm_trade t | Some r \<Rightarrow> r) else norm_trade t)"

lemma rows_upsert:
  assumes "docs s' = upsert k d f (docs s)"
  shows "rows s' = (rows s)(k \<mapsto> (case docs s k of None \<Rightarrow> tradeFromDoc d | Some e \<Rightarrow> tradeFromDoc (f e)))"
  using assms by (simp add: rows_def upsert_def fun_eq_iff split: option.splits)

lemma save_rows:
  assumes "mgo_Save drv t s = (e, s')"
  shows "rows s' = rows s \<or> rows s' = (rows s)(t_ID t \<mapsto> saved t s)"
    and "e = None \<Longrightarrow> rows s' = (rows s)(t_ID t \<mapsto> saved t s)"
proof -
  define f where "f = (if t_Outcome t = OutcomeOpen then (\<lambda>e. e) else (\<lambda>_. journal_doc_of t))"
  have u: "dr_UpsertOne drv (t_ID t) (journal_doc_of t) f s = (e, s')"
    using assms by (simp add: mgo_Save_def f_def Let_def split: if_splits)
  have r: "rows s' = (rows s)(t_ID t \<mapsto> saved t s)" if "docs s' = upsert (t_ID t) (journal_doc_of t) f (docs s)"
    using rows_upsert [OF that]
    by (cases "docs s (t_ID t)") (auto simp: saved_def f_def tradeFromDoc_of rows_def split: option.splits)
  show "e = None \<Longrightarrow> rows s' = (rows s)(t_ID t \<mapsto> saved t s)"
    using upsert_ok u r by blast
  show "rows s' = rows s \<or> rows s' = (rows s)(t_ID t \<mapsto> saved t s)"
    using upsert_cases [OF u]
  proof
    assume "docs s' = docs s"
    then have "rows s' = rows s" by (simp add: rows_def fun_eq_iff)
    then show ?thesis ..
  qed (use r in blast)
qed

text \<open>The update of a close, read back as a row.\<close>

lemma close_update_row:
  fixes d :: journal_doc and u :: close_update
  defines "d' \<equiv> d\<lparr>jd_Exit := dec_String (cu_Exit u), jd_PnLUSDT := dec_String (cu_PnLUSDT u),
             jd_Outcome := cu_Outcome u, jd_ClosedAt := cu_ClosedAt u\<rparr>"
  shows "tradeFromDoc (if b then d'\<lparr>jd_Mode := cu_Mode u\<rparr> else d')
       = closed_row (if b then cu_Mode u else t_Mode (tradeFromDoc d)) (tradeFromDoc d) u"
  by (simp add: d'_def tradeFromDoc_def closed_row_def)

lemma close_result:
  assumes "mgo_Close drv tid u s = (res, s')"
  defines "won \<equiv> \<lambda>t. \<exists>r mode. rows s tid = Some r \<and> t_Outcome r = OutcomeOpen \<and>
             mode \<in> {t_Mode r, cu_Mode u} \<and> t = closed_row mode r u \<and> rows s' = (rows s)(tid \<mapsto> t)"
  shows "res = Inr (Some t) \<Longrightarrow> norm_trade t = t \<and> won t"
    and "res = Inr None \<Longrightarrow> rows s' = rows s \<and> (\<forall>r. rows s tid = Some r \<longrightarrow> t_Outcome r \<noteq> OutcomeOpen)"
    and "res = Inl msg \<Longrightarrow> rows s' = rows s \<or> (\<exists>t. won t)"
proof -
  define flt :: "journal_doc \<Rightarrow> bool" where "flt = (\<lambda>d. jd_Outcome d = OutcomeOpen)"
  define b where "b = (trim_space (cu_Mode u) \<noteq> [])"
  define g where "g = (\<lambda>d::journal_doc. let d = d\<lparr>jd_Exit := dec_String (cu_Exit u), jd_PnLUSDT := dec_String (cu_PnLUSDT u),
        jd_Outcome := cu_Outcome u, jd_ClosedAt := cu_ClosedAt u\<rparr>
      in if b then d\<lparr>jd_Mode := cu_Mode u\<rparr> else d)"
  obtain x where x: "dr_FindOneAndUpdate drv tid flt g s = (x, s')"
    and res: "res = (case x of Inl e \<Rightarrow> Inl e | Inr None \<Rightarrow> Inr None | Inr (Some d) \<Rightarrow> Inr (Some (tradeFromDoc d)))"
    using assms(1) unfolding mgo_Close_def g_def flt_def b_def
    by (auto simp: Let_def split: prod.splits sum.splits option.splits)
  have row: "tradeFromDoc (g d) = closed_row (if b then cu_Mode u else t_Mode (tradeFromDoc d)) (tradeFromDoc d) u" for d
    by (simp add: g_def Let_def close_update_row)
  have hit: "won (tradeFromDoc (g d))" if "hit_where tid flt (docs s) = Some d" "docs s' = upd_where tid flt g (docs s)" for d
    using that unfolding won_def
    by (intro exI [of _ "tradeFromDoc d"] exI [of _ "if b then cu_Mode u else t_Mode (tradeFromDoc d)"])
      (auto simp: row upd_where_hit rows_def fun_eq_iff hit_where_Some flt_def)
  note ok = find_update_ok [of tid flt g s _ s'] and cases = find_update_cases [OF x]
  show "norm_trade t = t \<and> won t" if "res = Inr (Some t)"
    using that ok hit x res by (auto split: sum.splits option.splits)
  show "rows s' = rows s \<and> (\<forall>r. rows s tid = Some r \<longrightarrow> t_Outcome r \<noteq> OutcomeOpen)" if "res = Inr None"
    using that ok x res
    by (auto simp: rows_def fun_eq_iff upd_where_miss hit_where_None flt_def split: sum.splits option.splits)
  show "rows s' = rows s \<or> (\<exists>t. won t)" if "res = Inl msg"
  proof (cases "docs s' = docs s")
    case False
    with cases hit show ?thesis by (cases "hit_where tid flt (docs s)") (auto simp: upd_where_miss)
  qed (simp add: rows_def fun_eq_iff)
qed

end

sublocale mongo_journal \<subseteq> repo: journal_repo "mgo_Save drv" "mgo_Close drv" rows
proof unfold_locales
  fix tid u s msg s' assume "mgo_Close drv tid u s = (Inl msg, s')"
  from close_result(3) [OF this refl] show "rows s' = rows s \<or>
      (\<exists>r mode. rows s tid = Some r \<and> t_Outcome r = OutcomeOpen \<and> rows s' = (rows s)(tid \<mapsto> closed_row mode r u))"
    by blast
next
  fix tid u s t s' assume "mgo_Close drv tid u s = (Inr (Some t), s')"
  from close_result(1) [OF this refl] show "\<exists>r mode. rows s tid = Some r \<and> t_Outcome r = OutcomeOpen \<and>
      mode \<in> {t_Mode r, cu_Mode u} \<and> norm_trade t = closed_row mode r u \<and> rows s' = (rows s)(tid \<mapsto> norm_trade t)"
    by metis
next
  fix tid u s s' assume "mgo_Close drv tid u s = (Inr None, s')"
  from close_result(2) [OF this refl]
  show "rows s' = rows s \<and> (\<forall>r. rows s tid = Some r \<longrightarrow> t_Outcome r \<noteq> OutcomeOpen)" .
next
  fix t s e s' and k :: string assume "mgo_Save drv t s = (e, s')" "k \<noteq> t_ID t"
  then show "rows s' k = rows s k" using save_rows(1) by fastforce
next
  fix t s e s' k r assume "mgo_Save drv t s = (e, s')" "t_Outcome t = OutcomeOpen" "rows s k = Some r"
  then show "rows s' k = Some r" using save_rows(1) [of t s e s'] by (auto simp: saved_def)
next
  fix t s s' assume "mgo_Save drv t s = (None, s')"
  then show "rows s' (t_ID t) = Some (if t_Outcome t = OutcomeOpen
      then (case rows s (t_ID t) of None \<Rightarrow> norm_trade t | Some r \<Rightarrow> r) else norm_trade t)"
    using save_rows(2) by (simp add: saved_def)
qed

context mongo_journal begin

lemmas rows_single_winner = repo.single_winner

end

interpretation map_journal: mongo_journal "map_driver jd_ID (\<lambda>_ _. False)" map_of
  by unfold_locales

section \<open>Properties\<close>


definition example_row :: trade where
  "example_row = no_trade\<lparr>t_ID := ''a1'', t_UserID := 7, t_Symbol := ''BTCUSDT''\<rparr>"

definition example_update :: close_update where
  "example_update = \<lparr>cu_Exit = dec_NewFromInt 110, cu_PnLUSDT = dec_NewFromInt 5, cu_Outcome = OutcomeWin,
     cu_ClosedAt = 0, cu_Mode = ''live''\<rparr>"

definition example_calls :: "journal_call list" where
  "example_calls = [JRecord example_row, JClose 9 ''a1'' example_update, JRecord example_row, JClose 12 ''a1'' example_update]"


end
