(* ===== verification/Journal_Report.thy ===== *)
theory Journal_Report
  imports Journal
begin

text \<open>
  \<open>internal/journal/report.go\<close>: the aggregation of journaled trades into win rate, profit and
  expectancy. The loop over the trades is a fold over the code's accumulators.
\<close>

record group_acc =
  ga_trades :: int
  ga_wins :: int
  ga_losses :: int
  ga_pnl :: decimal

record group_stat =
  gs_Trades :: int
  gs_Wins :: int
  gs_Losses :: int
  gs_WinRate :: decimal
  gs_TotalPnL :: decimal

record report =
  rp_Trades :: int
  rp_Wins :: int
  rp_Losses :: int
  rp_Breakeven :: int
  rp_Open :: int
  rp_WinRate :: decimal
  rp_TotalPnL :: decimal
  rp_AvgWin :: decimal
  rp_AvgLoss :: decimal
  rp_Expectancy :: decimal
  rp_ByStrategy :: "string \<Rightarrow> group_stat option"
  rp_ByModel :: "string \<Rightarrow> group_stat option"
  rp_BySymbol :: "string \<Rightarrow> group_stat option"

definition strategyKey :: "string \<Rightarrow> string" where
  "strategyKey s = (if s = [] then ''(none)'' else s)"

definition pct :: "int \<Rightarrow> int \<Rightarrow> decimal" where
  "pct numerator denominator =
     (if denominator = 0 then dec_Zero
      else case dec_QuoFloor (dec_NewFromInt (numerator * 100)) (dec_NewFromInt denominator) 2 of
             Inl _ \<Rightarrow> dec_Zero | Inr v \<Rightarrow> v)"

definition div_count :: "decimal \<Rightarrow> int \<Rightarrow> decimal" where
  "div_count s n =
     (if n = 0 then dec_Zero
      else case dec_QuoFloor s (dec_NewFromInt n) 8 of Inl _ \<Rightarrow> dec_Zero | Inr v \<Rightarrow> v)"

definition accumulate :: "(string \<Rightarrow> group_acc option) \<Rightarrow> string \<Rightarrow> trade \<Rightarrow> string \<Rightarrow> group_acc option" where
  "accumulate groups key t =
     (let acc = (case groups key of
                   None \<Rightarrow> \<lparr>ga_trades = 0, ga_wins = 0, ga_losses = 0, ga_pnl = dec_Zero\<rparr> | Some a \<Rightarrow> a);
          acc = acc\<lparr>ga_trades := ga_trades acc + 1\<rparr>;
          acc = acc\<lparr>ga_pnl := dec_Add (ga_pnl acc) (t_PnLUSDT t)\<rparr>;
          acc = (case t_Outcome t of
                   OutcomeWin \<Rightarrow> acc\<lparr>ga_wins := ga_wins acc + 1\<rparr>
                 | OutcomeLoss \<Rightarrow> acc\<lparr>ga_losses := ga_losses acc + 1\<rparr>
                 | _ \<Rightarrow> acc)
      in groups(key \<mapsto> acc))"

definition finalize_groups :: "(string \<Rightarrow> group_acc option) \<Rightarrow> string \<Rightarrow> group_stat option" where
  "finalize_groups groups key =
     map_option (\<lambda>acc. \<lparr>gs_Trades = ga_trades acc, gs_Wins = ga_wins acc, gs_Losses = ga_losses acc,
       gs_WinRate = pct (ga_wins acc) (ga_wins acc + ga_losses acc), gs_TotalPnL = ga_pnl acc\<rparr>) (groups key)"

text \<open>The variables of \<open>aggregate\<close>'s loop.\<close>

record report_acc =
  ra_Trades :: int
  ra_Wins :: int
  ra_Losses :: int
  ra_Breakeven :: int
  ra_Open :: int
  ra_total :: decimal
  ra_sumWins :: decimal
  ra_sumLosses :: decimal
  ra_closed :: int
  ra_byStrategy :: "string \<Rightarrow> group_acc option"
  ra_byModel :: "string \<Rightarrow> group_acc option"
  ra_bySymbol :: "string \<Rightarrow> group_acc option"

definition report_init :: report_acc where
  "report_init = \<lparr>ra_Trades = 0, ra_Wins = 0, ra_Losses = 0, ra_Breakeven = 0, ra_Open = 0,
     ra_total = dec_Zero, ra_sumWins = dec_Zero, ra_sumLosses = dec_Zero, ra_closed = 0,
     ra_byStrategy = (\<lambda>_. None), ra_byModel = (\<lambda>_. None), ra_bySymbol = (\<lambda>_. None)\<rparr>"

definition report_step :: "trade \<Rightarrow> report_acc \<Rightarrow> report_acc" where
  "report_step t r =
     (let r = r\<lparr>ra_Trades := ra_Trades r + 1\<rparr>;
          r = (case t_Outcome t of
                 OutcomeWin \<Rightarrow> r\<lparr>ra_Wins := ra_Wins r + 1, ra_sumWins := dec_Add (ra_sumWins r) (t_PnLUSDT t)\<rparr>
               | OutcomeLoss \<Rightarrow> r\<lparr>ra_Losses := ra_Losses r + 1, ra_sumLosses := dec_Add (ra_sumLosses r) (t_PnLUSDT t)\<rparr>
               | OutcomeBreakeven \<Rightarrow> r\<lparr>ra_Breakeven := ra_Breakeven r + 1\<rparr>
               | _ \<Rightarrow> r\<lparr>ra_Open := ra_Open r + 1\<rparr>)
      in if \<not> outcome_closed (t_Outcome t) then r
         else r\<lparr>ra_total := dec_Add (ra_total r) (t_PnLUSDT t), ra_closed := ra_closed r + 1,
                ra_byStrategy := accumulate (ra_byStrategy r) (strategyKey (t_Strategy t)) t,
                ra_bySymbol := accumulate (ra_bySymbol r) (t_Symbol t) t,
                ra_byModel := fold (\<lambda>m g. accumulate g m t) (t_Models t) (ra_byModel r)\<rparr>)"

definition report_finish :: "report_acc \<Rightarrow> report" where
  "report_finish r =
     \<lparr>rp_Trades = ra_Trades r, rp_Wins = ra_Wins r, rp_Losses = ra_Losses r,
      rp_Breakeven = ra_Breakeven r, rp_Open = ra_Open r,
      rp_WinRate = pct (ra_Wins r) (ra_Wins r + ra_Losses r), rp_TotalPnL = ra_total r,
      rp_AvgWin = div_count (ra_sumWins r) (ra_Wins r), rp_AvgLoss = div_count (ra_sumLosses r) (ra_Losses r),
      rp_Expectancy = div_count (ra_total r) (ra_closed r),
      rp_ByStrategy = finalize_groups (ra_byStrategy r), rp_ByModel = finalize_groups (ra_byModel r),
      rp_BySymbol = finalize_groups (ra_bySymbol r)\<rparr>"

definition aggregate :: "trade list \<Rightarrow> report" where
  "aggregate ts = report_finish (fold report_step ts report_init)"

text \<open>\<open>Service.Report\<close> over a repository's list, and over the one in memory.\<close>

definition journal_Report :: "(journal_filter \<Rightarrow> string + trade list) \<Rightarrow> journal_filter \<Rightarrow> string + report" where
  "journal_Report list_rows f = (case list_rows f of Inl e \<Rightarrow> Inl e | Inr ts \<Rightarrow> Inr (aggregate ts))"

section \<open>The order of the trades does not matter\<close>

lemma dec_Add_left_commute: "dec_Add (dec_Add x a) b = dec_Add (dec_Add x b) a"
  by (rule normalized_unique) (simp_all add: dec_simps)

definition bump :: "trade \<Rightarrow> group_acc \<Rightarrow> group_acc" where
  "bump t a = \<lparr>ga_trades = ga_trades a + 1, ga_wins = ga_wins a + (if t_Outcome t = OutcomeWin then 1 else 0),
     ga_losses = ga_losses a + (if t_Outcome t = OutcomeLoss then 1 else 0),
     ga_pnl = dec_Add (ga_pnl a) (t_PnLUSDT t)\<rparr>"

definition no_acc :: group_acc where
  "no_acc = \<lparr>ga_trades = 0, ga_wins = 0, ga_losses = 0, ga_pnl = dec_Zero\<rparr>"

lemma accumulate_bump: "accumulate g k t = g(k \<mapsto> bump t (case g k of None \<Rightarrow> no_acc | Some a \<Rightarrow> a))"
  unfolding accumulate_def Let_def no_acc_def [symmetric]
  by (intro arg_cong [of _ _ "\<lambda>a. g(k \<mapsto> a)"] group_acc.equality; cases "t_Outcome t") (simp_all add: bump_def)

lemma bump_commute: "bump t (bump u a) = bump u (bump t a)"
  by (simp add: bump_def dec_Add_left_commute)

lemma accumulate_commute:
  "accumulate (accumulate g k t) k' u = accumulate (accumulate g k' u) k t"
  by (cases "k = k'") (simp_all add: accumulate_bump bump_commute fun_upd_twist)

lemma fold_accumulate_commute:
  "fold (\<lambda>m g. accumulate g m t) ms (accumulate g k u) = accumulate (fold (\<lambda>m g. accumulate g m t) ms g) k u"
proof (induction ms arbitrary: g)
  case (Cons m ms)
  have "accumulate (accumulate g k u) m t = accumulate (accumulate g m t) k u"
    by (rule accumulate_commute)
  then show ?case using Cons.IH by simp
qed simp

lemma fold_fold_accumulate_commute:
  "fold (\<lambda>m g. accumulate g m t) ms (fold (\<lambda>m g. accumulate g m u) ns g)
     = fold (\<lambda>m g. accumulate g m u) ns (fold (\<lambda>m g. accumulate g m t) ms g)"
  by (induction ns arbitrary: g) (simp_all add: fold_accumulate_commute)

text \<open>One step of the loop as an update of every accumulator.\<close>

lemma report_step_eq:
  "report_step t r = (let c = outcome_closed (t_Outcome t) in
     r\<lparr>ra_Trades := ra_Trades r + 1,
       ra_Wins := ra_Wins r + (if t_Outcome t = OutcomeWin then 1 else 0),
       ra_Losses := ra_Losses r + (if t_Outcome t = OutcomeLoss then 1 else 0),
       ra_Breakeven := ra_Breakeven r + (if t_Outcome t = OutcomeBreakeven then 1 else 0),
       ra_Open := ra_Open r + (if c then 0 else 1),
       ra_total := (if c then dec_Add (ra_total r) (t_PnLUSDT t) else ra_total r),
       ra_sumWins := (if t_Outcome t = OutcomeWin then dec_Add (ra_sumWins r) (t_PnLUSDT t) else ra_sumWins r),
       ra_sumLosses := (if t_Outcome t = OutcomeLoss then dec_Add (ra_sumLosses r) (t_PnLUSDT t) else ra_sumLosses r),
       ra_closed := ra_closed r + (if c then 1 else 0),
       ra_byStrategy := (if c then accumulate (ra_byStrategy r) (strategyKey (t_Strategy t)) t else ra_byStrategy r),
       ra_byModel := (if c then fold (\<lambda>m g. accumulate g m t) (t_Models t) (ra_byModel r) else ra_byModel r),
       ra_bySymbol := (if c then accumulate (ra_bySymbol r) (t_Symbol t) t else ra_bySymbol r)\<rparr>)"
  by (cases "t_Outcome t") (simp_all add: report_step_def Let_def outcome_closed_def)

lemma report_step_commute: "report_step t (report_step u r) = report_step u (report_step t r)"
  unfolding report_step_eq Let_def
  by (simp add: dec_Add_left_commute [of _ "t_PnLUSDT t" "t_PnLUSDT u"]
      accumulate_commute [of _ _ t _ u] fold_fold_accumulate_commute [of t _ u])

lemma fold_report_perm: "mset ts = mset us \<Longrightarrow> fold report_step ts r = fold report_step us r"
proof -
  assume "mset ts = mset us"
  then have "fold report_step ts = fold report_step us"
    by (intro fold_multiset_equiv) (auto simp: fun_eq_iff report_step_commute)
  then show ?thesis by simp
qed

lemma aggregate_mset: "mset ts = mset us \<Longrightarrow> aggregate ts = aggregate us"
  unfolding aggregate_def by (drule fold_report_perm) (rule arg_cong)

lemma mset_concat_map: "mset (concat (map f xs)) = sum_mset (image_mset (\<lambda>x. mset (f x)) (mset xs))"
  by (induction xs) simp_all

lemma mem_List_mset: "mset ks = mset ls \<Longrightarrow> mset (mem_List ks f r) = mset (mem_List ls f r)"
  unfolding mem_List_def mset_concat_map by (rule arg_cong)

section \<open>What the numbers add up to\<close>

definition has_outcome :: "outcome \<Rightarrow> trade \<Rightarrow> bool" where
  "has_outcome o1 t \<longleftrightarrow> t_Outcome t = o1"

definition is_closed :: "trade \<Rightarrow> bool" where
  "is_closed t \<longleftrightarrow> outcome_closed (t_Outcome t)"

definition count_of :: "(trade \<Rightarrow> bool) \<Rightarrow> trade list \<Rightarrow> int" where
  "count_of p ts = int (length (filter p ts))"

definition pnl_of :: "(trade \<Rightarrow> bool) \<Rightarrow> trade list \<Rightarrow> rat" where
  "pnl_of p ts = sum_list (map (\<lambda>t. dval (t_PnLUSDT t)) (filter p ts))"

lemma count_of_simps [simp]: "count_of p [] = 0" "count_of p (t # ts) = (if p t then 1 else 0) + count_of p ts"
  by (simp_all add: count_of_def)

lemma pnl_of_simps [simp]: "pnl_of p [] = 0" "pnl_of p (t # ts) = (if p t then dval (t_PnLUSDT t) else 0) + pnl_of p ts"
  by (simp_all add: pnl_of_def)

lemma count_of_nonneg [simp]: "0 \<le> count_of p ts"
  by (simp add: count_of_def)

lemma fold_report_counts:
  "ra_Trades (fold report_step ts r) = ra_Trades r + int (length ts)"
  "ra_Wins (fold report_step ts r) = ra_Wins r + count_of (has_outcome OutcomeWin) ts"
  "ra_Losses (fold report_step ts r) = ra_Losses r + count_of (has_outcome OutcomeLoss) ts"
  "ra_Breakeven (fold report_step ts r) = ra_Breakeven r + count_of (has_outcome OutcomeBreakeven) ts"
  "ra_Open (fold report_step ts r) = ra_Open r + count_of (\<lambda>t. \<not> is_closed t) ts"
  "ra_closed (fold report_step ts r) = ra_closed r + count_of is_closed ts"
  by (induction ts arbitrary: r)
    (simp_all add: report_step_eq Let_def has_outcome_def is_closed_def)

lemma fold_report_sums:
  "dval (ra_total (fold report_step ts r)) = dval (ra_total r) + pnl_of is_closed ts"
  "dval (ra_sumWins (fold report_step ts r)) = dval (ra_sumWins r) + pnl_of (has_outcome OutcomeWin) ts"
  "dval (ra_sumLosses (fold report_step ts r)) = dval (ra_sumLosses r) + pnl_of (has_outcome OutcomeLoss) ts"
  by (induction ts arbitrary: r)
    (simp_all add: report_step_eq Let_def has_outcome_def is_closed_def dec_simps)

text \<open>A group is the accumulation of the closed trades with its key.\<close>

definition in_group :: "(trade \<Rightarrow> string) \<Rightarrow> string \<Rightarrow> trade \<Rightarrow> bool" where
  "in_group key k t \<longleftrightarrow> is_closed t \<and> key t = k"

definition bumped :: "trade list \<Rightarrow> group_acc option \<Rightarrow> group_acc option" where
  "bumped ts a = (if ts = [] then a else Some (fold bump ts (case a of None \<Rightarrow> no_acc | Some a \<Rightarrow> a)))"

lemma bumped_Cons: "bumped ts (Some (bump t (case a of None \<Rightarrow> no_acc | Some a \<Rightarrow> a))) = bumped (t # ts) a"
  by (cases ts) (simp_all add: bumped_def)

lemma fold_report_groups:
  "ra_byStrategy (fold report_step ts r) k = bumped (filter (in_group (\<lambda>t. strategyKey (t_Strategy t)) k) ts) (ra_byStrategy r k)"
  "ra_bySymbol (fold report_step ts r) k = bumped (filter (in_group t_Symbol k) ts) (ra_bySymbol r k)"
proof (induction ts arbitrary: r)
  case (Cons t ts)
  { case 1
    show ?case
      using Cons.IH(1) [of "report_step t r"]
      by (auto simp: in_group_def is_closed_def report_step_eq Let_def accumulate_bump bumped_Cons) }
  { case 2
    show ?case
      using Cons.IH(2) [of "report_step t r"]
      by (auto simp: in_group_def is_closed_def report_step_eq Let_def accumulate_bump bumped_Cons) }
qed (simp_all add: bumped_def)

lemma fold_bump:
  "ga_trades (fold bump ts a) = ga_trades a + int (length ts)"
  "ga_wins (fold bump ts a) = ga_wins a + count_of (has_outcome OutcomeWin) ts"
  "ga_losses (fold bump ts a) = ga_losses a + count_of (has_outcome OutcomeLoss) ts"
  "dval (ga_pnl (fold bump ts a)) = dval (ga_pnl a) + sum_list (map (\<lambda>t. dval (t_PnLUSDT t)) ts)"
  by (induction ts arbitrary: a) (simp_all add: bump_def has_outcome_def dec_simps)

text \<open>The win rate is the percentage rounded down to two places, so it never exceeds 100.\<close>

lemma pct_val:
  assumes "0 \<le> n" "0 < m"
  shows "dval (pct n m) = of_int \<lfloor>of_int (n * 10000) / of_int m :: rat\<rfloor> / 100"
proof -
  have m: "dval (dec_NewFromInt m) \<noteq> 0" using assms by (simp add: dec_simps)
  obtain r where r: "dec_QuoFloor (dec_NewFromInt (n * 100)) (dec_NewFromInt m) 2 = Inr r"
    "dval r = of_int (trunc (dval (dec_NewFromInt (n * 100)) / dval (dec_NewFromInt m) * 10 ^ nat 2)) / 10 ^ nat 2"
    using dec_QuoFloor_val [OF m, of 2 "dec_NewFromInt (n * 100)"] by auto
  have "(of_int (n * 100) / of_int m * 10 ^ nat 2 :: rat) = of_int (n * 10000) / of_int m" by simp
  with r assms show ?thesis by (simp add: pct_def trunc_nonneg dec_simps mult.commute)
qed

lemma pct_range:
  assumes "0 \<le> w" "0 \<le> l"
  shows "0 \<le> dval (pct w (w + l))" "dval (pct w (w + l)) \<le> 100"
proof -
  have b: "0 \<le> dval (pct w (w + l)) \<and> dval (pct w (w + l)) \<le> 100" if "0 < w + l"
  proof -
    have "(of_int (w * 10000) / of_int (w + l) :: rat) \<le> 10000"
      using that assms by (simp add: field_simps)
    then have "\<lfloor>of_int (w * 10000) / of_int (w + l) :: rat\<rfloor> \<le> 10000" by linarith
    moreover have "0 \<le> \<lfloor>of_int (w * 10000) / of_int (w + l) :: rat\<rfloor>" using assms that by simp
    ultimately show ?thesis
      unfolding pct_val [OF assms(1) that] by (simp add: divide_le_eq)
  qed
  then show "0 \<le> dval (pct w (w + l))" "dval (pct w (w + l)) \<le> 100"
    using assms by (cases "0 < w + l"; simp add: pct_def dec_simps)+
qed

section \<open>Properties\<close>

text \<open>The report over the in-memory journal is a function of its rows: Go visits a map in an order it
  does not specify, and any two orders in which it may visit the rows give the same report.\<close>

theorem report_order_independent:
  assumes "distinct ks" "distinct ls" "set ks = set ls"
  shows "journal_Report (\<lambda>f. Inr (mem_List ks f r)) f = journal_Report (\<lambda>f. Inr (mem_List ls f r)) f"
proof -
  have "mset ks = mset ls" using assms by (metis set_eq_iff_mset_eq_distinct)
  then have "aggregate (mem_List ks f r) = aggregate (mem_List ls f r)"
    by (intro aggregate_mset mem_List_mset)
  then show ?thesis by (simp add: journal_Report_def)
qed

theorem report_order_independent_witness:
  "journal_Report (\<lambda>f. Inr (mem_List [''a'', ''b''] f [''a'' \<mapsto> example_row, ''b'' \<mapsto> example_row])) no_filter
     = journal_Report (\<lambda>f. Inr (mem_List [''b'', ''a''] f [''a'' \<mapsto> example_row, ''b'' \<mapsto> example_row])) no_filter"
  by (rule report_order_independent) auto

text \<open>The report counts and sums exactly: every trade is a win, a loss, a break-even or open; the total
  profit is the exact sum over the closed trades, and a strategy's line is the number of its closed
  trades and the exact sum of their profits, and exists just when there is one; the win rate is
  the percentage of wins over decisive trades, rounded down to two places.\<close>

theorem aggregate_exact:
  "rp_Trades (aggregate ts) = int (length ts) \<and>
   rp_Wins (aggregate ts) = count_of (has_outcome OutcomeWin) ts \<and>
   rp_Losses (aggregate ts) = count_of (has_outcome OutcomeLoss) ts \<and>
   rp_Breakeven (aggregate ts) = count_of (has_outcome OutcomeBreakeven) ts \<and>
   rp_Open (aggregate ts) = count_of (\<lambda>t. \<not> is_closed t) ts \<and>
   dval (rp_TotalPnL (aggregate ts)) = pnl_of is_closed ts \<and>
   (let w = count_of (has_outcome OutcomeWin) ts; l = count_of (has_outcome OutcomeLoss) ts
    in rp_WinRate (aggregate ts) = pct w (w + l) \<and> 0 \<le> dval (pct w (w + l)) \<and> dval (pct w (w + l)) \<le> 100) \<and>
   (case rp_ByStrategy (aggregate ts) k of
      None \<Rightarrow> filter (in_group (\<lambda>t. strategyKey (t_Strategy t)) k) ts = []
    | Some g \<Rightarrow> gs_Trades g = count_of (in_group (\<lambda>t. strategyKey (t_Strategy t)) k) ts \<and>
        0 < gs_Trades g \<and> dval (gs_TotalPnL g) = pnl_of (in_group (\<lambda>t. strategyKey (t_Strategy t)) k) ts)"
proof -
  note a = aggregate_def report_finish_def report_init_def
  have group: "case rp_ByStrategy (aggregate ts) k of
      None \<Rightarrow> filter (in_group (\<lambda>t. strategyKey (t_Strategy t)) k) ts = []
    | Some g \<Rightarrow> gs_Trades g = count_of (in_group (\<lambda>t. strategyKey (t_Strategy t)) k) ts \<and>
        0 < gs_Trades g \<and> dval (gs_TotalPnL g) = pnl_of (in_group (\<lambda>t. strategyKey (t_Strategy t)) k) ts"
    by (simp add: a finalize_groups_def fold_report_groups bumped_def fold_bump no_acc_def count_of_def pnl_of_def
        split: option.splits)
  then show ?thesis
    by (simp add: a fold_report_counts fold_report_sums pct_range Let_def)
qed

end
