(* ===== verification/Order_Text.thy ===== *)
theory Order_Text
  imports Domain
begin

text \<open>
  \<open>internal/orders/summary.go\<close> and \<open>status.go\<close>: the texts the user confirms an order by and reads
  the open positions from. \<open>fmt.Sprintf\<close> is concatenation; \<open>nl\<close> is the line feed.
\<close>

definition nl :: string where
  "nl = [CHR 0x0A]"

definition size_text :: "order_size \<Rightarrow> string" where
  "size_text z =
     (case os_Kind z of
        SizeUSDT \<Rightarrow> dec_String (os_Amount z) @ '' USDT''
      | SizeQty \<Rightarrow> dec_String (os_Amount z) @ '' qty''
      | SizeUnknown \<Rightarrow> dec_String (os_Amount z))"

definition openSummary :: "open_intent option \<Rightarrow> string" where
  "openSummary intent =
     (case intent of
        None \<Rightarrow> ''Invalid open intent.''
      | Some oi \<Rightarrow>
          (case oi_TakeProfits oi of
             [] \<Rightarrow> ''Invalid open intent.''
           | tp # _ \<Rightarrow>
               let plan = (if oi_PlanID oi \<noteq> [] then nl @ ''Plan: '' @ oi_PlanID oi else [])
               in to_upper (oi_Side oi) @ '' '' @ oi_Symbol oi @ '' '' @ show_int (oi_Leverage oi) @ ''x'' @
                  nl @ ''Entry: '' @ dec_String (oi_Entry oi) @
                  nl @ ''SL: '' @ dec_String (oi_StopLoss oi) @
                  nl @ ''TP: '' @ dec_String tp @
                  nl @ ''Size: '' @ size_text (oi_Size oi) @ plan))"

definition closeSummary :: "close_intent option \<Rightarrow> string" where
  "closeSummary intent =
     (case intent of
        None \<Rightarrow> ''Invalid close intent.''
      | Some ci \<Rightarrow>
          if ci_All ci then ''CLOSE ALL'' @ nl @ ''Percent: 100%''
          else ''CLOSE '' @ ci_Symbol ci @ nl @ ''Percent: '' @ dec_String (ci_ResolvedPercent ci) @ ''%'')"

definition breakevenSummary :: "string option \<Rightarrow> string" where
  "breakevenSummary intent =
     (case intent of
        None \<Rightarrow> ''Invalid breakeven intent.''
      | Some symbol \<Rightarrow> ''MOVE SL TO BREAKEVEN'' @ nl @ ''Symbol: '' @ symbol)"

definition trailSummary :: "trail_intent option \<Rightarrow> string" where
  "trailSummary intent =
     (case intent of
        None \<Rightarrow> ''Invalid trailing-stop intent.''
      | Some ti \<Rightarrow> ''TRAIL '' @ ti_Symbol ti @ nl @ ''Callback: '' @ dec_String (ti_CallbackRate ti) @ ''%'')"

definition addSummary :: "add_intent option \<Rightarrow> string" where
  "addSummary intent =
     (case intent of
        None \<Rightarrow> ''Invalid add intent.''
      | Some ai \<Rightarrow> ''ADD '' @ ai_Symbol ai @ nl @ ''Size: '' @ size_text (ai_Size ai))"

definition Summary :: "intent \<Rightarrow> string" where
  "Summary i =
     (case i_Type i of
        IntentOpen \<Rightarrow> openSummary (i_Open i)
      | IntentClose \<Rightarrow> closeSummary (i_Close i)
      | IntentBreakeven \<Rightarrow> breakevenSummary (i_Breakeven i)
      | IntentTrail \<Rightarrow> trailSummary (i_Trail i)
      | IntentAdd \<Rightarrow> addSummary (i_Add i)
      | _ \<Rightarrow> ''Unsupported intent.'')"

definition formatPosition :: "position \<Rightarrow> string" where
  "formatPosition p =
     to_upper (p_Side p) @ '' '' @ p_Symbol p @
     nl @ ''Qty: '' @ dec_String (p_Amount p) @
     nl @ ''Entry: '' @ dec_String (p_EntryPrice p) @
     nl @ ''Mark: '' @ dec_String (p_MarkPrice p) @
     nl @ ''Unrealized PnL: '' @ dec_String (p_UnrealizedProfit p) @ '' USDT'' @
     nl @ ''Leverage: '' @ show_int (p_Leverage p) @ ''x'' @
     nl @ ''Margin: '' @ p_MarginType p"

definition formatStatusText :: "string + position list \<Rightarrow> string" where
  "formatStatusText r =
     (case r of
        Inl err \<Rightarrow> ''Status lookup failed: '' @ err
      | Inr [] \<Rightarrow> ''No open positions.''
      | Inr ps \<Rightarrow> ''Open positions:'' @ nl @ nl @ join_with nl (map formatPosition ps))"

section \<open>What a summary shows\<close>

text \<open>
  A user confirms what the summary says, so for a well-formed intent it must never be one of the
  fallback texts: those all end in a full stop, and no summary of a payload does.
\<close>

definition fallback_text :: "string \<Rightarrow> bool" where
  "fallback_text s \<longleftrightarrow> s \<in> {''Invalid open intent.'', ''Invalid close intent.'', ''Invalid breakeven intent.'',
     ''Invalid trailing-stop intent.'', ''Invalid add intent.'', ''Unsupported intent.''}"

lemma fallback_no_newline: "fallback_text s \<Longrightarrow> CHR 0x0A \<notin> set s"
  by (auto simp: fallback_text_def)

lemma Summary_proper:
  assumes "valid_intent m i" "IsExchangeChanging i"
  shows "\<not> fallback_text (Summary i)"
proof -
  have "CHR 0x0A \<in> set (Summary i)"
    using assms by (auto simp: Summary_def valid_intent_def IsExchangeChanging_def valid_open_def
        openSummary_def closeSummary_def breakevenSummary_def trailSummary_def addSummary_def nl_def Let_def)
  then show ?thesis using fallback_no_newline by blast
qed

end
