(* ===== verification/Confirmations.thy ===== *)
theory Confirmations
  imports Order_Text Mongo_Driver
begin

text \<open>
  The confirmation stores of \<open>internal/orders\<close> (in memory) and \<open>internal/storage/mongo\<close>: the records
  that decide which order is handed to the exchange. The interface \<open>ConfirmationStore\<close> is the
  record \<open>conf_store\<close>, its contract the locale \<open>confirmation_store\<close>: a confirmation that has been
  handed out for execution is never handed out again.
\<close>

section \<open>Confirmations\<close>

datatype conf_status =
    StatusUnset | StatusPending | StatusExecuting | StatusExecuted | StatusCancelled | StatusExpired | StatusFailed

datatype order_error =
    ErrConfirmationNotFound | ErrConfirmationForbidden | ErrConfirmationExpired
  | ErrConfirmationCancelled | ErrConfirmationExecuted | ErrConfirmationFailed
  | ErrConfirmationExecuting | ErrIdempotencyKeyExists | ErrUnknownStatus
  | ErrStore string | ErrNoConfirmationNeeded | ErrRandom string | ErrExecutorRequired
  | ErrExecutorLookup string | ErrNoActiveExecutor | ErrExecute string | ErrAudit string
  | ErrIntentStore string | ErrCannotReadTrades | PanicNilExecutor

record confirmation =
  c_ID :: string
  c_UserID :: int
  c_Intent :: intent
  c_Status :: conf_status
  c_CorrelationID :: string
  c_IntentHash :: string
  c_IdempotencyKey :: string
  c_CreatedAt :: time
  c_ExpiresAt :: time

record exec_result =
  er_Mode :: string
  er_ClientOrderID :: string
  er_Message :: string
  er_Quantity :: decimal
  er_Symbol :: string
  er_Side :: string
  er_ExitPrice :: decimal
  er_RealizedPnL :: decimal

definition no_result :: exec_result where
  "no_result = \<lparr>er_Mode = [], er_ClientOrderID = [], er_Message = [], er_Quantity = dec_unset,
     er_Symbol = [], er_Side = [], er_ExitPrice = dec_unset, er_RealizedPnL = dec_unset\<rparr>"

text \<open>
  \<open>TakeForExecution\<close> answers with the confirmation to execute, or with the result of an execution
  that is already done; the \<open>wall\<close> argument of the writes is the store's own \<open>time.Now()\<close>.
\<close>

datatype taken = TakenToExecute confirmation | TakenDone confirmation exec_result

record 's conf_store =
  cs_Put :: "time \<Rightarrow> confirmation \<Rightarrow> 's \<Rightarrow> order_error option \<times> 's"
  cs_Get :: "string \<Rightarrow> 's \<Rightarrow> order_error + confirmation option"
  cs_Take :: "int \<Rightarrow> string \<Rightarrow> time \<Rightarrow> 's \<Rightarrow> (order_error + taken) \<times> 's"
  cs_Complete :: "time \<Rightarrow> string \<Rightarrow> exec_result \<Rightarrow> 's \<Rightarrow> order_error option \<times> 's"
  cs_Fail :: "time \<Rightarrow> string \<Rightarrow> string \<Rightarrow> 's \<Rightarrow> order_error option \<times> 's"
  cs_Cancel :: "int \<Rightarrow> string \<Rightarrow> time \<Rightarrow> 's \<Rightarrow> order_error option \<times> 's"

section \<open>The store in memory\<close>

record conf_record =
  cr_confirmation :: confirmation
  cr_result :: exec_result

type_synonym mem_store = "string \<Rightarrow> conf_record option"

definition set_status :: "conf_status \<Rightarrow> conf_record \<Rightarrow> conf_record" where
  "set_status st r = r\<lparr>cr_confirmation := (cr_confirmation r)\<lparr>c_Status := st\<rparr>\<rparr>"

text \<open>Go loops over the items for the key; the items' ids are an argument, in the order it visits them.\<close>

definition MemoryStore_Put :: "string list \<Rightarrow> confirmation \<Rightarrow> mem_store \<Rightarrow> order_error option \<times> mem_store" where
  "MemoryStore_Put order c s =
     (if c_IdempotencyKey c \<noteq> [] \<and>
         list_ex (\<lambda>k. case s k of None \<Rightarrow> False
                      | Some r \<Rightarrow> c_IdempotencyKey (cr_confirmation r) = c_IdempotencyKey c) order
      then (Some ErrIdempotencyKeyExists, s)
      else (None, s(c_ID c \<mapsto> \<lparr>cr_confirmation = c, cr_result = no_result\<rparr>)))"

definition MemoryStore_Get :: "string \<Rightarrow> mem_store \<Rightarrow> order_error + confirmation option" where
  "MemoryStore_Get k s = Inr (map_option cr_confirmation (s k))"

definition MemoryStore_Take :: "int \<Rightarrow> string \<Rightarrow> time \<Rightarrow> mem_store \<Rightarrow> (order_error + taken) \<times> mem_store" where
  "MemoryStore_Take userID k now s =
     (case s k of
        None \<Rightarrow> (Inl ErrConfirmationNotFound, s)
      | Some r \<Rightarrow>
          let c = cr_confirmation r in
          if c_UserID c \<noteq> userID then (Inl ErrConfirmationForbidden, s)
          else if c_Status c = StatusExecuted then (Inr (TakenDone c (cr_result r)), s)
          else if c_Status c = StatusCancelled then (Inl ErrConfirmationCancelled, s)
          else if c_Status c = StatusFailed then (Inl ErrConfirmationFailed, s)
          else if c_Status c = StatusExecuting then (Inl ErrConfirmationExecuting, s)
          else if \<not> now < c_ExpiresAt c then (Inl ErrConfirmationExpired, s(k \<mapsto> set_status StatusExpired r))
          else let r = set_status StatusExecuting r
               in (Inr (TakenToExecute (cr_confirmation r)), s(k \<mapsto> r)))"

definition MemoryStore_Complete :: "string \<Rightarrow> exec_result \<Rightarrow> mem_store \<Rightarrow> order_error option \<times> mem_store" where
  "MemoryStore_Complete k result s =
     (case s k of
        None \<Rightarrow> (Some ErrConfirmationNotFound, s)
      | Some r \<Rightarrow> (None, s(k \<mapsto> (set_status StatusExecuted r)\<lparr>cr_result := result\<rparr>)))"

definition MemoryStore_Fail :: "string \<Rightarrow> string \<Rightarrow> mem_store \<Rightarrow> order_error option \<times> mem_store" where
  "MemoryStore_Fail k message s =
     (case s k of
        None \<Rightarrow> (Some ErrConfirmationNotFound, s)
      | Some r \<Rightarrow> (None, s(k \<mapsto> set_status StatusFailed r)))"

definition MemoryStore_Cancel :: "int \<Rightarrow> string \<Rightarrow> time \<Rightarrow> mem_store \<Rightarrow> order_error option \<times> mem_store" where
  "MemoryStore_Cancel userID k now s =
     (case s k of
        None \<Rightarrow> (Some ErrConfirmationNotFound, s)
      | Some r \<Rightarrow>
          let c = cr_confirmation r in
          if c_UserID c \<noteq> userID then (Some ErrConfirmationForbidden, s)
          else if c_Status c = StatusCancelled then (None, s)
          else if c_Status c = StatusExecuted then (Some ErrConfirmationExecuted, s)
          else if \<not> now < c_ExpiresAt c then (Some ErrConfirmationExpired, s(k \<mapsto> set_status StatusExpired r))
          else (None, s(k \<mapsto> set_status StatusCancelled r)))"

definition memory_conf_store :: "string list \<Rightarrow> mem_store conf_store" where
  "memory_conf_store order =
     \<lparr>cs_Put = (\<lambda>wall. MemoryStore_Put order), cs_Get = MemoryStore_Get, cs_Take = MemoryStore_Take,
      cs_Complete = (\<lambda>wall. MemoryStore_Complete), cs_Fail = (\<lambda>wall. MemoryStore_Fail),
      cs_Cancel = MemoryStore_Cancel\<rparr>"

section \<open>The store in a collection\<close>

text \<open>
  \<open>json.Marshal\<close> of an intent writes every decimal as its text (\<open>Decimal.MarshalJSON\<close>) and
  \<open>Unmarshal\<close> parses it; the JSON text is represented by the intent it decodes to.
\<close>

definition dec_json :: "decimal \<Rightarrow> decimal" where
  "dec_json d = (case dec_Parse (dec_String d) of Inl _ \<Rightarrow> dec_unset | Inr v \<Rightarrow> v)"

definition json_size :: "order_size \<Rightarrow> order_size" where
  "json_size z = z\<lparr>os_Amount := dec_json (os_Amount z)\<rparr>"

definition json_open :: "open_intent \<Rightarrow> open_intent" where
  "json_open oi = oi\<lparr>oi_Entry := dec_json (oi_Entry oi), oi_StopLoss := dec_json (oi_StopLoss oi),
     oi_TakeProfits := map dec_json (oi_TakeProfits oi), oi_Size := json_size (oi_Size oi)\<rparr>"

definition json_close :: "close_intent \<Rightarrow> close_intent" where
  "json_close ci = ci\<lparr>ci_Percent := dec_json (ci_Percent ci), ci_ResolvedPercent := dec_json (ci_ResolvedPercent ci)\<rparr>"

definition json_intent :: "intent \<Rightarrow> intent" where
  "json_intent i = i\<lparr>i_Open := map_option json_open (i_Open i), i_Close := map_option json_close (i_Close i),
     i_Trail := map_option (\<lambda>t. t\<lparr>ti_CallbackRate := dec_json (ti_CallbackRate t)\<rparr>) (i_Trail i),
     i_Add := map_option (\<lambda>a. a\<lparr>ai_Size := json_size (ai_Size a)\<rparr>) (i_Add i)\<rparr>"

record result_doc =
  rd_Mode :: string
  rd_ClientOrderID :: string
  rd_Message :: string
  rd_Quantity :: string
  rd_Symbol :: string
  rd_Side :: string
  rd_ExitPrice :: string
  rd_RealizedPnL :: string

record conf_doc =
  cd_ID :: string
  cd_UserID :: int
  cd_Intent :: intent
  cd_Status :: conf_status
  cd_CorrelationID :: string
  cd_IntentHash :: string
  cd_IdempotencyKey :: string
  cd_CreatedAt :: time
  cd_ExpiresAt :: time
  cd_UpdatedAt :: time
  cd_Result :: "result_doc option"
  cd_ErrorMessage :: string

definition parseResultDecimal :: "string \<Rightarrow> decimal" where
  "parseResultDecimal s = parseDecimal s"

definition terminalConfirmationExpiresAt :: "time \<Rightarrow> time" where
  "terminalConfirmationExpiresAt now = now + hours (90 * 24)"

definition newConfirmationDoc :: "time \<Rightarrow> confirmation \<Rightarrow> conf_doc" where
  "newConfirmationDoc wall c =
     (let status = (if c_Status c = StatusUnset then StatusPending else c_Status c);
          updatedAt = (if is_zero_time (c_CreatedAt c) then wall else c_CreatedAt c)
      in \<lparr>cd_ID = c_ID c, cd_UserID = c_UserID c, cd_Intent = json_intent (c_Intent c), cd_Status = status,
          cd_CorrelationID = c_CorrelationID c, cd_IntentHash = c_IntentHash c,
          cd_IdempotencyKey = c_IdempotencyKey c, cd_CreatedAt = c_CreatedAt c,
          cd_ExpiresAt = c_ExpiresAt c, cd_UpdatedAt = updatedAt, cd_Result = None, cd_ErrorMessage = []\<rparr>)"

definition toConfirmation :: "conf_doc \<Rightarrow> confirmation" where
  "toConfirmation d =
     \<lparr>c_ID = cd_ID d, c_UserID = cd_UserID d, c_Intent = cd_Intent d, c_Status = cd_Status d,
      c_CorrelationID = cd_CorrelationID d, c_IntentHash = cd_IntentHash d,
      c_IdempotencyKey = cd_IdempotencyKey d, c_CreatedAt = cd_CreatedAt d, c_ExpiresAt = cd_ExpiresAt d\<rparr>"

definition newExecutionResultDoc :: "exec_result \<Rightarrow> result_doc" where
  "newExecutionResultDoc r =
     \<lparr>rd_Mode = er_Mode r, rd_ClientOrderID = er_ClientOrderID r, rd_Message = er_Message r,
      rd_Quantity = dec_String (er_Quantity r), rd_Symbol = er_Symbol r, rd_Side = er_Side r,
      rd_ExitPrice = dec_String (er_ExitPrice r), rd_RealizedPnL = dec_String (er_RealizedPnL r)\<rparr>"

definition doc_result :: "conf_doc \<Rightarrow> exec_result" where
  "doc_result d =
     (case cd_Result d of
        None \<Rightarrow> no_result
      | Some r \<Rightarrow> \<lparr>er_Mode = rd_Mode r, er_ClientOrderID = rd_ClientOrderID r, er_Message = rd_Message r,
          er_Quantity = parseResultDecimal (rd_Quantity r), er_Symbol = rd_Symbol r, er_Side = rd_Side r,
          er_ExitPrice = parseResultDecimal (rd_ExitPrice r),
          er_RealizedPnL = parseResultDecimal (rd_RealizedPnL r)\<rparr>)"

type_synonym 'c conf_driver = "('c, conf_doc) driver"

definition mgo_Put :: "'c conf_driver \<Rightarrow> time \<Rightarrow> confirmation \<Rightarrow> 'c \<Rightarrow> order_error option \<times> 'c" where
  "mgo_Put drv wall c s =
     (case dr_InsertOne drv (newConfirmationDoc wall c) s of
        (Some e, s') \<Rightarrow> (Some (ErrStore (''insert confirmation: '' @ e)), s')
      | (None, s') \<Rightarrow> (None, s'))"

definition mgo_Get :: "'c conf_driver \<Rightarrow> string \<Rightarrow> 'c \<Rightarrow> order_error + confirmation option" where
  "mgo_Get drv k s =
     (case dr_FindOne drv k (\<lambda>_. True) s of
        Inl e \<Rightarrow> Inl (ErrStore e) | Inr d \<Rightarrow> Inr (map_option toConfirmation d))"

definition updateConfirmation ::
    "'c conf_driver \<Rightarrow> string \<Rightarrow> conf_status \<Rightarrow> (conf_doc \<Rightarrow> conf_doc) \<Rightarrow> 'c \<Rightarrow> (order_error + bool) \<times> 'c" where
  "updateConfirmation drv k status f s =
     (case dr_UpdateOne drv k (\<lambda>d. cd_Status d = status) f s of
        (Inl e, s') \<Rightarrow> (Inl (ErrStore (''update confirmation: '' @ e)), s')
      | (Inr n, s') \<Rightarrow> (Inr (n > 0), s'))"

definition findConfirmation :: "'c conf_driver \<Rightarrow> string \<Rightarrow> 'c \<Rightarrow> order_error + conf_doc" where
  "findConfirmation drv k s =
     (case dr_FindOne drv k (\<lambda>_. True) s of
        Inl e \<Rightarrow> Inl (ErrStore (''find confirmation: '' @ e))
      | Inr None \<Rightarrow> Inl ErrConfirmationNotFound
      | Inr (Some d) \<Rightarrow> Inr d)"

definition markExpired :: "'c conf_driver \<Rightarrow> string \<Rightarrow> time \<Rightarrow> 'c \<Rightarrow> 'c" where
  "markExpired drv k now s =
     snd (updateConfirmation drv k StatusPending (\<lambda>d. d\<lparr>cd_Status := StatusExpired, cd_UpdatedAt := now\<rparr>) s)"

definition resultForExistingConfirmation ::
    "'c conf_driver \<Rightarrow> conf_doc \<Rightarrow> int \<Rightarrow> time \<Rightarrow> 'c \<Rightarrow> (order_error + taken) \<times> 'c" where
  "resultForExistingConfirmation drv d userID now s =
     (if cd_UserID d \<noteq> userID then (Inl ErrConfirmationForbidden, s)
      else case cd_Status d of
             StatusExecuted \<Rightarrow> (Inr (TakenDone (toConfirmation d) (doc_result d)), s)
           | StatusCancelled \<Rightarrow> (Inl ErrConfirmationCancelled, s)
           | StatusFailed \<Rightarrow> (Inl ErrConfirmationFailed, s)
           | StatusExecuting \<Rightarrow> (Inl ErrConfirmationExecuting, s)
           | StatusExpired \<Rightarrow> (Inl ErrConfirmationExpired, s)
           | StatusPending \<Rightarrow>
               if \<not> now < cd_ExpiresAt d then (Inl ErrConfirmationExpired, markExpired drv (cd_ID d) now s)
               else (Inl ErrConfirmationExecuting, s)
           | StatusUnset \<Rightarrow> (Inl ErrUnknownStatus, s))"

definition mgo_Take :: "'c conf_driver \<Rightarrow> int \<Rightarrow> string \<Rightarrow> time \<Rightarrow> 'c \<Rightarrow> (order_error + taken) \<times> 'c" where
  "mgo_Take drv userID k now s =
     (case dr_FindOneAndUpdate drv k
             (\<lambda>d. cd_UserID d = userID \<and> cd_Status d = StatusPending \<and> now < cd_ExpiresAt d)
             (\<lambda>d. d\<lparr>cd_Status := StatusExecuting, cd_UpdatedAt := now\<rparr>) s of
        (Inr (Some d), s') \<Rightarrow> (Inr (TakenToExecute (toConfirmation d)), s')
      | (Inl e, s') \<Rightarrow> (Inl (ErrStore (''take confirmation: '' @ e)), s')
      | (Inr None, s') \<Rightarrow>
          (case findConfirmation drv k s' of
             Inl e \<Rightarrow> (Inl e, s')
           | Inr d \<Rightarrow> resultForExistingConfirmation drv d userID now s'))"

definition finish_update :: "(order_error + bool) \<times> 'c \<Rightarrow> order_error option \<times> 'c" where
  "finish_update r =
     (case r of (Inl e, s') \<Rightarrow> (Some e, s')
      | (Inr matched, s') \<Rightarrow> (if \<not> matched then (Some ErrConfirmationNotFound, s') else (None, s')))"

definition mgo_Complete :: "'c conf_driver \<Rightarrow> time \<Rightarrow> string \<Rightarrow> exec_result \<Rightarrow> 'c \<Rightarrow> order_error option \<times> 'c" where
  "mgo_Complete drv wall k result s =
     finish_update (updateConfirmation drv k StatusExecuting
       (\<lambda>d. d\<lparr>cd_Status := StatusExecuted, cd_Result := Some (newExecutionResultDoc result),
              cd_UpdatedAt := wall, cd_ExpiresAt := terminalConfirmationExpiresAt wall\<rparr>) s)"

definition mgo_Fail :: "'c conf_driver \<Rightarrow> time \<Rightarrow> string \<Rightarrow> string \<Rightarrow> 'c \<Rightarrow> order_error option \<times> 'c" where
  "mgo_Fail drv wall k message s =
     finish_update (updateConfirmation drv k StatusExecuting
       (\<lambda>d. d\<lparr>cd_Status := StatusFailed, cd_ErrorMessage := message,
              cd_UpdatedAt := wall, cd_ExpiresAt := terminalConfirmationExpiresAt wall\<rparr>) s)"

definition mgo_Cancel :: "'c conf_driver \<Rightarrow> int \<Rightarrow> string \<Rightarrow> time \<Rightarrow> 'c \<Rightarrow> order_error option \<times> 'c" where
  "mgo_Cancel drv userID k now s =
     (case dr_UpdateOne drv k
             (\<lambda>d. cd_UserID d = userID \<and> cd_Status d = StatusPending \<and> now < cd_ExpiresAt d)
             (\<lambda>d. d\<lparr>cd_Status := StatusCancelled, cd_UpdatedAt := now\<rparr>) s of
        (Inl e, s') \<Rightarrow> (Some (ErrStore (''cancel confirmation: '' @ e)), s')
      | (Inr n, s') \<Rightarrow>
          if n > 0 then (None, s')
          else case findConfirmation drv k s' of
                 Inl e \<Rightarrow> (Some e, s')
               | Inr d \<Rightarrow>
                   if cd_UserID d \<noteq> userID then (Some ErrConfirmationForbidden, s')
                   else (case cd_Status d of
                           StatusCancelled \<Rightarrow> (None, s')
                         | StatusExecuted \<Rightarrow> (Some ErrConfirmationExecuted, s')
                         | StatusExecuting \<Rightarrow> (Some ErrConfirmationExecuting, s')
                         | StatusFailed \<Rightarrow> (Some ErrConfirmationFailed, s')
                         | StatusExpired \<Rightarrow> (Some ErrConfirmationExpired, s')
                         | StatusPending \<Rightarrow>
                             if \<not> now < cd_ExpiresAt d then (Some ErrConfirmationExpired, markExpired drv k now s')
                             else (Some ErrConfirmationExecuting, s')
                         | StatusUnset \<Rightarrow> (Some ErrUnknownStatus, s')))"

definition mongo_conf_store :: "'c conf_driver \<Rightarrow> 'c conf_store" where
  "mongo_conf_store drv =
     \<lparr>cs_Put = mgo_Put drv, cs_Get = mgo_Get drv, cs_Take = mgo_Take drv,
      cs_Complete = mgo_Complete drv, cs_Fail = mgo_Fail drv, cs_Cancel = mgo_Cancel drv\<rparr>"

section \<open>The contract\<close>

text \<open>
  \<open>avail s k t\<close>: a take at time \<open>t\<close> may still hand confirmation \<open>k\<close> out; \<open>core s k\<close>: whose it is and
  what it orders, which no operation changes. \<open>purge\<close> is what may happen to the store by itself.
\<close>

type_synonym conf_core = "int \<times> intent"

definition core_of :: "confirmation \<Rightarrow> conf_core" where
  "core_of c = (c_UserID c, json_intent (c_Intent c))"

definition unchanged_for :: "(string \<Rightarrow> time \<Rightarrow> bool) \<Rightarrow> (string \<Rightarrow> time \<Rightarrow> bool) \<Rightarrow> time \<Rightarrow> bool" where
  "unchanged_for a a' now \<longleftrightarrow> (\<forall>k t. now \<le> t \<longrightarrow> a' k t \<longrightarrow> a k t)"

locale confirmation_store =
  fixes ops :: "'s conf_store"
    and purge :: "'s \<Rightarrow> 's \<Rightarrow> bool"
    and avail :: "'s \<Rightarrow> string \<Rightarrow> time \<Rightarrow> bool"
    and core :: "'s \<Rightarrow> string \<Rightarrow> conf_core option"
  assumes take_out: "cs_Take ops u k now s = (Inr (TakenToExecute c), s') \<Longrightarrow>
          avail s k now \<and> (\<forall>t. now \<le> t \<longrightarrow> \<not> avail s' k t) \<and> core s k = Some (core_of c) \<and>
          c_UserID c = u \<and> c_Status c = StatusExecuting \<and> now < c_ExpiresAt c"
    and take_keeps: "cs_Take ops u k now s = (r, s') \<Longrightarrow> unchanged_for (avail s) (avail s') now \<and> core s' = core s"
    and put_keeps: "cs_Put ops wall c s = (e, s') \<Longrightarrow>
          (\<forall>j t. j \<noteq> c_ID c \<longrightarrow> avail s' j t \<longrightarrow> avail s j t) \<and>
          (core s' = core s \<or> core s' = (core s)(c_ID c \<mapsto> core_of c))"
    and complete_keeps: "cs_Complete ops wall k res s = (e, s') \<Longrightarrow>
          unchanged_for (avail s) (avail s') now \<and> core s' = core s"
    and fail_keeps: "cs_Fail ops wall k msg s = (e, s') \<Longrightarrow>
          unchanged_for (avail s) (avail s') now \<and> core s' = core s"
    and cancel_keeps: "cs_Cancel ops u k now s = (e, s') \<Longrightarrow>
          unchanged_for (avail s) (avail s') now \<and> core s' = core s"
    and purge_keeps: "purge s s' \<Longrightarrow> unchanged_for (avail s) (avail s') now \<and> core s' \<subseteq>\<^sub>m core s"

section \<open>The memory store keeps it\<close>

definition open_status :: "conf_status set" where
  "open_status = {StatusUnset, StatusPending, StatusExpired}"

definition mem_avail :: "mem_store \<Rightarrow> string \<Rightarrow> time \<Rightarrow> bool" where
  "mem_avail s k t \<longleftrightarrow> (\<exists>r. s k = Some r \<and> c_Status (cr_confirmation r) \<in> open_status \<and>
     t < c_ExpiresAt (cr_confirmation r))"

definition mem_core :: "mem_store \<Rightarrow> string \<Rightarrow> conf_core option" where
  "mem_core s k = map_option (\<lambda>r. core_of (cr_confirmation r)) (s k)"

lemmas mem_conf_defs = memory_conf_store_def MemoryStore_Put_def MemoryStore_Take_def
  MemoryStore_Complete_def MemoryStore_Fail_def MemoryStore_Cancel_def Let_def

lemma core_set_status [simp]: "core_of (cr_confirmation (set_status st r)) = core_of (cr_confirmation r)"
  "c_Status (cr_confirmation (set_status st r)) = st"
  "c_ExpiresAt (cr_confirmation (set_status st r)) = c_ExpiresAt (cr_confirmation r)"
  "c_UserID (cr_confirmation (set_status st r)) = c_UserID (cr_confirmation r)"
  by (simp_all add: set_status_def core_of_def)

lemma mem_core_upd: "s k = Some r \<Longrightarrow> core_of (cr_confirmation r') = core_of (cr_confirmation r) \<Longrightarrow>
    mem_core (s(k \<mapsto> r')) = mem_core s"
  by (auto simp: mem_core_def fun_eq_iff)

lemma mem_avail_upd:
  "unchanged_for (mem_avail s) (mem_avail (s(k \<mapsto> r))) now \<longleftrightarrow>
     (c_Status (cr_confirmation r) \<in> open_status \<longrightarrow>
        (\<forall>t. now \<le> t \<longrightarrow> t < c_ExpiresAt (cr_confirmation r) \<longrightarrow> mem_avail s k t))"
  by (auto simp: unchanged_for_def mem_avail_def)

lemma unchanged_refl [simp]: "unchanged_for a a now"
  by (simp add: unchanged_for_def)

lemma mem_core_put [simp]:
  "mem_core (s(c_ID c \<mapsto> \<lparr>cr_confirmation = c, cr_result = r\<rparr>)) = (mem_core s)(c_ID c \<mapsto> core_of c)"
  by (simp add: mem_core_def fun_eq_iff)

lemma open_status_iff: "st \<in> open_status \<longleftrightarrow> st \<noteq> StatusExecuted \<and> st \<noteq> StatusCancelled \<and>
    st \<noteq> StatusFailed \<and> st \<noteq> StatusExecuting"
  by (cases st) (simp_all add: open_status_def)

interpretation mem_conf: confirmation_store "memory_conf_store order" "\<lambda>_ _. False" mem_avail mem_core
  by unfold_locales
    (auto simp: mem_conf_defs mem_core_upd mem_avail_upd open_status_iff split: option.splits if_splits,
     auto simp: mem_avail_def mem_core_def open_status_iff core_of_def set_status_def)

section \<open>The MongoDB store keeps it\<close>

text \<open>
  A collection deletes documents by itself: the TTL index on \<open>expires_at\<close> removes those that are due.
\<close>

definition conf_clash :: "conf_doc \<Rightarrow> conf_doc \<Rightarrow> bool" where
  "conf_clash d e \<longleftrightarrow> cd_IdempotencyKey d = cd_IdempotencyKey e"

lemma dec_json_normalize [simp]: "dec_json d = dec_normalize d"
  by (simp add: dec_json_def dec_Parse_String)

lemma json_parts_twice [simp]:
  "json_size (json_size z) = json_size z" "json_open (json_open oi) = json_open oi"
  "json_close (json_close ci) = json_close ci"
  by (simp_all add: json_size_def json_open_def json_close_def comp_def)

lemma json_intent_twice [simp]: "json_intent (json_intent i) = json_intent i"
  by (simp add: json_intent_def option.map_comp comp_def)

locale mongo_confs = mongo_driver drv cd_ID conf_clash docs
  for drv :: "'c conf_driver" and docs :: "'c \<Rightarrow> string \<Rightarrow> conf_doc option"
begin

definition doc_avail :: "'c \<Rightarrow> string \<Rightarrow> time \<Rightarrow> bool" where
  "doc_avail s k t \<longleftrightarrow> (\<exists>d. docs s k = Some d \<and> cd_Status d \<in> {StatusUnset, StatusPending} \<and> t < cd_ExpiresAt d)"

definition doc_core :: "'c \<Rightarrow> string \<Rightarrow> conf_core option" where
  "doc_core s k = map_option (\<lambda>d. core_of (toConfirmation d)) (docs s k)"

definition ttl_purge :: "'c \<Rightarrow> 'c \<Rightarrow> bool" where
  "ttl_purge s s' \<longleftrightarrow> (\<forall>k. docs s' k = docs s k \<or> docs s' k = None)"

text \<open>Every update of the store sets a status that is not pending and keeps owner and intent.\<close>

definition spends :: "(conf_doc \<Rightarrow> conf_doc) \<Rightarrow> bool" where
  "spends f \<longleftrightarrow> (\<forall>d. cd_Status (f d) \<notin> {StatusUnset, StatusPending} \<and>
     core_of (toConfirmation (f d)) = core_of (toConfirmation d))"

lemma spends_keeps:
  assumes "docs s' = docs s \<or> docs s' = upd_where k flt f (docs s)" "spends f"
  shows "unchanged_for (doc_avail s) (doc_avail s') now \<and> doc_core s' = doc_core s"
proof -
  have "docs s' j = docs s j \<or> (\<exists>d. docs s j = Some d \<and> docs s' j = Some (f d))" for j
    using assms(1) by (cases "j = k"; cases "docs s j") (auto simp: upd_where_same)
  then have "(doc_avail s' j t \<longrightarrow> doc_avail s j t) \<and> doc_core s' j = doc_core s j" for j t
    using assms(2) unfolding doc_avail_def doc_core_def spends_def
    by (metis (no_types, lifting) option.inject option.simps(9))
  then show ?thesis by (auto simp: unchanged_for_def fun_eq_iff)
qed

lemma update_keeps:
  assumes "updateConfirmation drv k st f s = (r, s')" "spends f"
  shows "unchanged_for (doc_avail s) (doc_avail s') now \<and> doc_core s' = doc_core s"
proof -
  obtain x where "dr_UpdateOne drv k (\<lambda>d. cd_Status d = st) f s = (x, s')"
    using assms(1) by (auto simp: updateConfirmation_def split: prod.splits sum.splits)
  from update_cases [OF this] spends_keeps assms(2) show ?thesis by blast
qed

lemma expire_keeps:
  "unchanged_for (doc_avail s) (doc_avail (markExpired drv k now s)) now \<and> doc_core (markExpired drv k now s) = doc_core s"
  unfolding markExpired_def
  by (rule update_keeps [OF surjective_pairing]) (simp add: spends_def toConfirmation_def core_of_def)

lemma spends_status [simp]:
  "spends (\<lambda>d. d\<lparr>cd_Status := StatusExecuting, cd_UpdatedAt := now\<rparr>)"
  "spends (\<lambda>d. d\<lparr>cd_Status := StatusCancelled, cd_UpdatedAt := now\<rparr>)"
  "spends (\<lambda>d. d\<lparr>cd_Status := StatusExecuted, cd_Result := r, cd_UpdatedAt := now, cd_ExpiresAt := e\<rparr>)"
  "spends (\<lambda>d. d\<lparr>cd_Status := StatusFailed, cd_ErrorMessage := m, cd_UpdatedAt := now, cd_ExpiresAt := e\<rparr>)"
  by (simp_all add: spends_def toConfirmation_def core_of_def)

lemma keeps_trans:
  assumes "unchanged_for (doc_avail s) (doc_avail s1) now \<and> doc_core s1 = doc_core s"
    and "unchanged_for (doc_avail s1) (doc_avail s') now \<and> doc_core s' = doc_core s1"
  shows "unchanged_for (doc_avail s) (doc_avail s') now \<and> doc_core s' = doc_core s"
  using assms by (auto simp: unchanged_for_def)

lemma existing_keeps:
  assumes "resultForExistingConfirmation drv d u now s = (r, s')"
  shows "unchanged_for (doc_avail s) (doc_avail s') now \<and> doc_core s' = doc_core s"
    and "r \<noteq> Inr (TakenToExecute c)"
  using assms expire_keeps [of s "cd_ID d" now]
  by (auto simp: resultForExistingConfirmation_def split: if_splits conf_status.splits)

lemma take_keeps:
  assumes "mgo_Take drv u k now s = (r, s')"
  shows "unchanged_for (doc_avail s) (doc_avail s') now \<and> doc_core s' = doc_core s"
proof -
  define flt where "flt = (\<lambda>d::conf_doc. cd_UserID d = u \<and> cd_Status d = StatusPending \<and> now < cd_ExpiresAt d)"
  define f where "f = (\<lambda>d::conf_doc. d\<lparr>cd_Status := StatusExecuting, cd_UpdatedAt := now\<rparr>)"
  obtain x s1 where x: "dr_FindOneAndUpdate drv k flt f s = (x, s1)" by fastforce
  have k1: "unchanged_for (doc_avail s) (doc_avail s1) now \<and> doc_core s1 = doc_core s"
    using spends_keeps [OF find_update_cases [OF x]] by (simp add: f_def)
  have "s' = s1 \<or> (\<exists>d. resultForExistingConfirmation drv d u now s1 = (r, s'))"
    using assms x unfolding mgo_Take_def flt_def [symmetric] f_def [symmetric]
    by (auto split: sum.splits option.splits)
  then show ?thesis using k1 existing_keeps(1) keeps_trans by blast
qed

lemma take_out:
  assumes "mgo_Take drv u k now s = (Inr (TakenToExecute c), s')"
  shows "doc_avail s k now \<and> (\<forall>t. now \<le> t \<longrightarrow> \<not> doc_avail s' k t) \<and> doc_core s k = Some (core_of c) \<and>
    c_UserID c = u \<and> c_Status c = StatusExecuting \<and> now < c_ExpiresAt c"
proof -
  define flt where "flt = (\<lambda>d::conf_doc. cd_UserID d = u \<and> cd_Status d = StatusPending \<and> now < cd_ExpiresAt d)"
  define f where "f = (\<lambda>d::conf_doc. d\<lparr>cd_Status := StatusExecuting, cd_UpdatedAt := now\<rparr>)"
  obtain x s1 where x: "dr_FindOneAndUpdate drv k flt f s = (x, s1)" by fastforce
  obtain d where d: "x = Inr (Some d)" "s1 = s'" "c = toConfirmation d"
    using assms x existing_keeps(2) [of _ u now s1 _ s' c]
    unfolding mgo_Take_def flt_def [symmetric] f_def [symmetric]
    by (auto split: sum.splits option.splits)
  obtain d0 where d0: "hit_where k flt (docs s) = Some d0" "d = f d0" "docs s' = (docs s)(k \<mapsto> d)"
    using find_update_ok [of k flt f s "Some d" s'] x d
    by (cases "hit_where k flt (docs s)") (auto simp: upd_where_hit)
  then show ?thesis
    using d(3) by (auto simp: hit_where_Some flt_def f_def doc_avail_def doc_core_def toConfirmation_def core_of_def)
qed

lemma finish_state: "snd (finish_update r) = snd r"
  by (auto simp: finish_update_def split: prod.splits sum.splits)

lemma finish_keeps:
  assumes "finish_update (updateConfirmation drv k st f s) = (e, s')" "spends f"
  shows "unchanged_for (doc_avail s) (doc_avail s') now \<and> doc_core s' = doc_core s"
  using assms update_keeps [of k st f s _ s' now] finish_state
  by (metis prod.collapse snd_conv)

lemma cancel_keeps:
  assumes "mgo_Cancel drv u k now s = (e, s')"
  shows "unchanged_for (doc_avail s) (doc_avail s') now \<and> doc_core s' = doc_core s"
proof -
  define flt where "flt = (\<lambda>d::conf_doc. cd_UserID d = u \<and> cd_Status d = StatusPending \<and> now < cd_ExpiresAt d)"
  define f where "f = (\<lambda>d::conf_doc. d\<lparr>cd_Status := StatusCancelled, cd_UpdatedAt := now\<rparr>)"
  obtain x s1 where x: "dr_UpdateOne drv k flt f s = (x, s1)" by fastforce
  have k1: "unchanged_for (doc_avail s) (doc_avail s1) now \<and> doc_core s1 = doc_core s"
    using spends_keeps [OF update_cases [OF x]] by (simp add: f_def)
  have "s' = s1 \<or> s' = markExpired drv k now s1"
    using assms x unfolding mgo_Cancel_def flt_def [symmetric] f_def [symmetric]
    by (auto split: sum.splits if_splits conf_status.splits)
  then show ?thesis using k1 keeps_trans [OF k1 expire_keeps] by blast
qed

lemma put_keeps:
  assumes "mgo_Put drv wall c s = (e, s')"
  shows "(\<forall>j t. j \<noteq> c_ID c \<longrightarrow> doc_avail s' j t \<longrightarrow> doc_avail s j t) \<and>
    (doc_core s' = doc_core s \<or> doc_core s' = (doc_core s)(c_ID c \<mapsto> core_of c))"
proof -
  define d where "d = newConfirmationDoc wall c"
  obtain x where x: "dr_InsertOne drv d s = (x, s')"
    using assms by (auto simp: mgo_Put_def d_def split: prod.splits option.splits)
  have d: "cd_ID d = c_ID c" "core_of (toConfirmation d) = core_of c"
    by (simp_all add: d_def newConfirmationDoc_def Let_def toConfirmation_def core_of_def)
  from insert_cases [OF x] show ?thesis
  proof
    assume "docs s' = docs s"
    then show ?thesis by (simp add: doc_avail_def doc_core_def fun_eq_iff)
  next
    assume "docs s (cd_ID d) = None \<and> docs s' = (docs s)(cd_ID d \<mapsto> d)"
    then have "docs s' = (docs s)(c_ID c \<mapsto> d)" by (simp add: d)
    then show ?thesis by (auto simp: doc_avail_def doc_core_def fun_eq_iff d)
  qed
qed

lemma ttl_keeps: "ttl_purge s s' \<Longrightarrow> unchanged_for (doc_avail s) (doc_avail s') now \<and> doc_core s' \<subseteq>\<^sub>m doc_core s"
  unfolding ttl_purge_def unchanged_for_def doc_avail_def doc_core_def map_le_def
  by (metis domIff option.simps(3) option.simps(8))

end

sublocale mongo_confs \<subseteq> store: confirmation_store "mongo_conf_store drv" ttl_purge doc_avail doc_core
  by unfold_locales
    (simp_all add: mongo_conf_store_def take_out take_keeps put_keeps cancel_keeps ttl_keeps
      mgo_Complete_def mgo_Fail_def finish_keeps)

interpretation map_confs: mongo_confs "map_driver cd_ID conf_clash" map_of
  by unfold_locales

end
