(* ===== verification/Orders.thy ===== *)
theory Orders
  imports Confirmations Journal
begin

text \<open>
  \<open>internal/orders/service.go\<close>: the service every exchange-changing intent goes through. It prepares
  a confirmation, hands it to the user's executor when the user confirms, and records the outcome
  in the intent store, the audit trail and the journal. The repositories, the executors and the
  random ids are interfaces of the code and arguments here; \<open>clk n\<close> is the \<open>n\<close>-th reading of the
  clock in a call.
\<close>

section \<open>Records and interfaces\<close>

datatype intent_status =
    IntentStatusAwaitingConfirmation | IntentStatusExecuting | IntentStatusExecuted
  | IntentStatusCancelled | IntentStatusExpired | IntentStatusFailed

record intent_record =
  ir_ID :: string
  ir_UserID :: int
  ir_Intent :: intent
  ir_IntentHash :: string
  ir_CorrelationID :: string
  ir_ConfirmationID :: string
  ir_Status :: intent_status
  ir_ErrorMessage :: string
  ir_CreatedAt :: time
  ir_UpdatedAt :: time

record audit_event =
  ae_Type :: string
  ae_Source :: string
  ae_UserID :: int
  ae_CorrelationID :: string
  ae_Metadata :: "(string \<times> string) list"
  ae_CreatedAt :: time

record realized_trade =
  rt_Symbol :: string
  rt_Side :: string
  rt_ExitPrice :: decimal
  rt_RealizedPnL :: decimal
  rt_ClosedAt :: time

text \<open>An executor may also read positions and realized trades; Go asks with a type assertion.\<close>

record 'x executor =
  ex_Execute :: "confirmation \<Rightarrow> 'x \<Rightarrow> (string + exec_result) \<times> 'x"
  ex_Positions :: "('x \<Rightarrow> string + position list) option"
  ex_RealizedTrade :: "(string \<Rightarrow> string \<Rightarrow> time \<Rightarrow> decimal \<Rightarrow> 'x \<Rightarrow> string + realized_trade option) option"

type_synonym 'x executor_provider = "string \<Rightarrow> string + 'x executor option \<times> bool"

record ('s, 'i, 'j, 'x) service =
  sv_ttl :: duration
  sv_store :: "'s conf_store"
  sv_putIntent :: "intent_record \<Rightarrow> 'i \<Rightarrow> string option \<times> 'i"
  sv_updateIntent :: "string \<Rightarrow> intent_status \<Rightarrow> string \<Rightarrow> time \<Rightarrow> 'i \<Rightarrow> string option \<times> 'i"
  sv_audit :: "audit_event \<Rightarrow> string option"
  sv_executor :: "'x executor"
  sv_executorFor :: "'x executor_provider option"
  sv_journal :: "('j save_op \<times> 'j close_op) option"

record ('s, 'i, 'j, 'x) world =
  w_store :: 's
  w_intents :: 'i
  w_journal :: 'j
  w_exch :: 'x
  w_audit :: "audit_event list"

definition intent_type_text :: "intent_type \<Rightarrow> string" where
  "intent_type_text t =
     (case t of IntentUnknown \<Rightarrow> [] | IntentOpen \<Rightarrow> ''open'' | IntentClose \<Rightarrow> ''close''
      | IntentBreakeven \<Rightarrow> ''breakeven'' | IntentTrail \<Rightarrow> ''trail'' | IntentAdd \<Rightarrow> ''add''
      | IntentStatus \<Rightarrow> ''status'' | IntentPlanStatus \<Rightarrow> ''plan_status'')"

definition order_error_text :: "order_error \<Rightarrow> string" where
  "order_error_text e =
     (case e of
        ErrConfirmationNotFound \<Rightarrow> ''confirmation not found''
      | ErrConfirmationForbidden \<Rightarrow> ''confirmation belongs to another user''
      | ErrConfirmationExpired \<Rightarrow> ''confirmation expired''
      | ErrConfirmationCancelled \<Rightarrow> ''confirmation cancelled''
      | ErrConfirmationExecuted \<Rightarrow> ''confirmation already executed''
      | ErrConfirmationFailed \<Rightarrow> ''confirmation failed''
      | ErrConfirmationExecuting \<Rightarrow> ''confirmation already executing''
      | ErrIdempotencyKeyExists \<Rightarrow> ''confirmation idempotency key already exists''
      | ErrExecutorRequired \<Rightarrow> ''per-user executor is required''
      | ErrExecutorLookup m \<Rightarrow> ''per-user executor lookup: '' @ m
      | ErrNoActiveExecutor \<Rightarrow> ''active per-user executor is required''
      | ErrCannotReadTrades \<Rightarrow> ''per-user executor cannot read realized trades''
      | ErrStore m \<Rightarrow> m | ErrRandom m \<Rightarrow> m | ErrExecute m \<Rightarrow> m | ErrAudit m \<Rightarrow> m | ErrIntentStore m \<Rightarrow> m
      | ErrNoConfirmationNeeded \<Rightarrow> ''intent does not require confirmation''
      | ErrUnknownStatus \<Rightarrow> ''confirmation has unknown status''
      | PanicNilExecutor \<Rightarrow> ''nil pointer dereference'')"

section \<open>Small operations\<close>

definition shortID :: "string \<Rightarrow> string" where
  "shortID k = (if length k \<le> 12 then k else take 12 k)"

definition clientOrderID :: "string \<Rightarrow> string" where
  "clientOrderID k = ''tb_'' @ shortID k"

definition TraderKey :: "int \<Rightarrow> string" where
  "TraderKey userID = ''tg:'' @ show_int userID"

definition default_ttl :: "duration \<Rightarrow> duration" where
  "default_ttl ttl = (if ttl \<le> 0 then minutes 5 else ttl)"

text \<open>The dry-run executor; \<open>cancelled\<close> is whether the call's context is already done.\<close>

definition DryRun_Execute :: "bool \<Rightarrow> bool \<Rightarrow> confirmation \<Rightarrow> 'x \<Rightarrow> (string + exec_result) \<times> 'x" where
  "DryRun_Execute cancelled dryRun c x =
     (if cancelled then (Inl ''context canceled'', x)
      else if \<not> dryRun then
        (Inl ''exchange executor is not connected yet; keep DRY_RUN=true until the Binance adapter is wired'', x)
      else (Inr (no_result\<lparr>er_Mode := ''dry_run'', er_ClientOrderID := clientOrderID (c_ID c),
                  er_Message := ''DRY-RUN accepted. No order was sent to Binance.'' @ nl @ nl @ Summary (c_Intent c)\<rparr>), x))"

definition DryRunExecutor :: "bool \<Rightarrow> 'x executor" where
  "DryRunExecutor dryRun =
     \<lparr>ex_Execute = DryRun_Execute False dryRun, ex_Positions = None, ex_RealizedTrade = None\<rparr>"

text \<open>\<open>NewServiceWithRepositories\<close>: the defaults for what the caller leaves \<open>nil\<close>.\<close>

definition NewServiceWithRepositories ::
    "duration \<Rightarrow> 'x executor option \<Rightarrow> 's conf_store \<Rightarrow>
     ((intent_record \<Rightarrow> 'i \<Rightarrow> string option \<times> 'i) \<times> (string \<Rightarrow> intent_status \<Rightarrow> string \<Rightarrow> time \<Rightarrow> 'i \<Rightarrow> string option \<times> 'i)) option \<Rightarrow>
     (audit_event \<Rightarrow> string option) option \<Rightarrow> 'x executor_provider option \<Rightarrow> ('j save_op \<times> 'j close_op) option \<Rightarrow>
     ('s, 'i, 'j, 'x) service" where
  "NewServiceWithRepositories ttl executor store intents auditor provider jnl =
     \<lparr>sv_ttl = default_ttl ttl, sv_store = store,
      sv_putIntent = (case intents of None \<Rightarrow> (\<lambda>r i. (None, i)) | Some (p, u) \<Rightarrow> p),
      sv_updateIntent = (case intents of None \<Rightarrow> (\<lambda>k st m t i. (None, i)) | Some (p, u) \<Rightarrow> u),
      sv_audit = (case auditor of None \<Rightarrow> (\<lambda>_. None) | Some a \<Rightarrow> a),
      sv_executor = (case executor of None \<Rightarrow> DryRunExecutor True | Some e \<Rightarrow> e),
      sv_executorFor = provider, sv_journal = jnl\<rparr>"

definition executorForUser :: "('s, 'i, 'j, 'x) service \<Rightarrow> int \<Rightarrow> 'x executor option" where
  "executorForUser sv userID =
     (case sv_executorFor sv of
        None \<Rightarrow> Some (sv_executor sv)
      | Some provider \<Rightarrow>
          (case provider (TraderKey userID) of
             Inl _ \<Rightarrow> Some (sv_executor sv)
           | Inr (executor, ok) \<Rightarrow> if ok then executor else Some (sv_executor sv)))"

definition requiredExecutorForUser :: "('s, 'i, 'j, 'x) service \<Rightarrow> int \<Rightarrow> order_error + 'x executor" where
  "requiredExecutorForUser sv userID =
     (case sv_executorFor sv of
        None \<Rightarrow> Inl ErrExecutorRequired
      | Some provider \<Rightarrow>
          (case provider (TraderKey userID) of
             Inl e \<Rightarrow> Inl (ErrExecutorLookup e)
           | Inr (executor, ok) \<Rightarrow>
               if \<not> ok then Inl ErrNoActiveExecutor
               else case executor of None \<Rightarrow> Inl ErrNoActiveExecutor | Some e \<Rightarrow> Inr e))"

text \<open>Reading positions and realized trades; \<open>None\<close> positions of an executor that cannot is Go's \<open>nil, nil\<close>.\<close>

definition service_Positions :: "('s, 'i, 'j, 'x) service \<Rightarrow> int \<Rightarrow> 'x \<Rightarrow> order_error + position list" where
  "service_Positions sv userID x =
     (case executorForUser sv userID of
        None \<Rightarrow> Inr []
      | Some e \<Rightarrow> (case ex_Positions e of None \<Rightarrow> Inr [] | Some p \<Rightarrow> map_err ErrExecute (p x)))"

definition PositionsWithRequiredUserExecutor ::
    "('s, 'i, 'j, 'x) service \<Rightarrow> int \<Rightarrow> 'x \<Rightarrow> order_error + position list" where
  "PositionsWithRequiredUserExecutor sv userID x =
     (case requiredExecutorForUser sv userID of
        Inl e \<Rightarrow> Inl e
      | Inr e \<Rightarrow> (case ex_Positions e of None \<Rightarrow> Inr [] | Some p \<Rightarrow> map_err ErrExecute (p x)))"

definition RealizedTradeWithRequiredUserExecutor ::
    "('s, 'i, 'j, 'x) service \<Rightarrow> int \<Rightarrow> string \<Rightarrow> string \<Rightarrow> time \<Rightarrow> decimal \<Rightarrow> 'x \<Rightarrow> order_error + realized_trade option" where
  "RealizedTradeWithRequiredUserExecutor sv userID symbol sd since entryQty x =
     (case requiredExecutorForUser sv userID of
        Inl e \<Rightarrow> Inl e
      | Inr e \<Rightarrow>
          (case ex_RealizedTrade e of
             None \<Rightarrow> Inl ErrCannotReadTrades
           | Some f \<Rightarrow> map_err ErrExecute (f symbol sd since entryQty x)))"

text \<open>Both swallow the error of the repository; it is only logged.\<close>

definition updateIntentStatus ::
    "('s, 'i, 'j, 'x) service \<Rightarrow> time \<Rightarrow> string \<Rightarrow> intent_status \<Rightarrow> string \<Rightarrow> ('s, 'i, 'j, 'x) world \<Rightarrow> ('s, 'i, 'j, 'x) world" where
  "updateIntentStatus sv now k status message w =
     w\<lparr>w_intents := snd (sv_updateIntent sv k status message now (w_intents w))\<rparr>"

definition recordAudit ::
    "('s, 'i, 'j, 'x) service \<Rightarrow> time \<Rightarrow> audit_event \<Rightarrow> ('s, 'i, 'j, 'x) world \<Rightarrow> ('s, 'i, 'j, 'x) world" where
  "recordAudit sv now e w =
     (let e = (if is_zero_time (ae_CreatedAt e) then e\<lparr>ae_CreatedAt := now\<rparr> else e)
      in case sv_audit sv e of Some _ \<Rightarrow> w | None \<Rightarrow> w\<lparr>w_audit := w_audit w @ [e]\<rparr>)"

section \<open>Preparing\<close>

text \<open>
  \<open>rnd1\<close> and \<open>rnd2\<close> are the two random ids \<open>newConfirmationID\<close> returns, \<open>hash\<close> the SHA-256 of the
  intent's JSON (\<open>IntentHash\<close>), both from Go's standard library.
\<close>

definition prepare ::
    "('s, 'i, 'j, 'x) service \<Rightarrow> (intent \<Rightarrow> string + string) \<Rightarrow> string + string \<Rightarrow> string + string \<Rightarrow> (nat \<Rightarrow> time) \<Rightarrow>
     int \<Rightarrow> intent \<Rightarrow> string \<Rightarrow> ('s, 'i, 'j, 'x) world \<Rightarrow> (order_error + confirmation) \<times> ('s, 'i, 'j, 'x) world" where
  "prepare sv hash rnd1 rnd2 clk userID intent key w =
     (if \<not> IsExchangeChanging intent then (Inl ErrNoConfirmationNeeded, w)
      else case rnd1 of Inl e \<Rightarrow> (Inl (ErrRandom e), w) | Inr cid \<Rightarrow>
      case rnd2 of Inl e \<Rightarrow> (Inl (ErrRandom e), w) | Inr correlationID \<Rightarrow>
      case hash intent of Inl e \<Rightarrow> (Inl (ErrRandom e), w) | Inr intentHash \<Rightarrow>
      let key = trim_space key;
          key = (if key = [] then ''confirm:'' @ cid else key);
          now = clk 0;
          c = \<lparr>c_ID = cid, c_UserID = userID, c_Intent = intent, c_Status = StatusPending,
               c_CorrelationID = correlationID, c_IntentHash = intentHash, c_IdempotencyKey = key,
               c_CreatedAt = now, c_ExpiresAt = now + sv_ttl sv\<rparr>;
          r = \<lparr>ir_ID = cid, ir_UserID = userID, ir_Intent = intent, ir_IntentHash = intentHash,
               ir_CorrelationID = correlationID, ir_ConfirmationID = cid,
               ir_Status = IntentStatusAwaitingConfirmation, ir_ErrorMessage = [],
               ir_CreatedAt = now, ir_UpdatedAt = now\<rparr>
      in case sv_putIntent sv r (w_intents w) of
           (Some e, i') \<Rightarrow> (Inl (ErrIntentStore e), w\<lparr>w_intents := i'\<rparr>)
         | (None, i') \<Rightarrow>
             (case cs_Put (sv_store sv) now c (w_store w) of
                (Some e, s') \<Rightarrow> (Inl e, w\<lparr>w_intents := i', w_store := s'\<rparr>)
              | (None, s') \<Rightarrow>
                  let ev = \<lparr>ae_Type = ''confirmation_created'', ae_Source = ''orders'', ae_UserID = userID,
                           ae_CorrelationID = correlationID,
                           ae_Metadata = [(''confirmation_id'', shortID cid), (''intent_hash'', intentHash),
                                          (''intent_type'', intent_type_text (i_Type intent))],
                           ae_CreatedAt = now\<rparr>;
                      w1 = w\<lparr>w_intents := i', w_store := s'\<rparr>
                  in case sv_audit sv ev of
                       Some e \<Rightarrow> (Inl (ErrAudit e), w1)
                     | None \<Rightarrow> (Inr c, w1\<lparr>w_audit := w_audit w1 @ [ev]\<rparr>)))"

definition service_ConfirmationStatus ::
    "('s, 'i, 'j, 'x) service \<Rightarrow> string \<Rightarrow> 's \<Rightarrow> order_error + conf_status option" where
  "service_ConfirmationStatus sv k s =
     (case cs_Get (sv_store sv) k s of
        Inl e \<Rightarrow> Inl e | Inr None \<Rightarrow> Inr None | Inr (Some c) \<Rightarrow> Inr (Some (c_Status c)))"

section \<open>Confirming\<close>

definition failExecutingConfirmation ::
    "('s, 'i, 'j, 'x) service \<Rightarrow> (nat \<Rightarrow> time) \<Rightarrow> string \<Rightarrow> confirmation \<Rightarrow> string \<Rightarrow>
     ('s, 'i, 'j, 'x) world \<Rightarrow> ('s, 'i, 'j, 'x) world" where
  "failExecutingConfirmation sv clk k c message w =
     (let w = w\<lparr>w_store := snd (cs_Fail (sv_store sv) (clk 2) k message (w_store w))\<rparr>;
          w = updateIntentStatus sv (clk 3) (c_ID c) IntentStatusFailed message w
      in recordAudit sv (clk 4)
           \<lparr>ae_Type = ''confirmation_failed'', ae_Source = ''orders'', ae_UserID = c_UserID c,
            ae_CorrelationID = c_CorrelationID c,
            ae_Metadata = [(''confirmation_id'', shortID k), (''intent_hash'', c_IntentHash c),
                           (''intent_type'', intent_type_text (i_Type (c_Intent c))), (''error'', message)],
            ae_CreatedAt = 0\<rparr> w)"

definition open_trade_row :: "time \<Rightarrow> int \<Rightarrow> confirmation \<Rightarrow> open_intent \<Rightarrow> exec_result \<Rightarrow> trade" where
  "open_trade_row now userID c oi result =
     (let tp = (case oi_TakeProfits oi of [] \<Rightarrow> dec_Zero | t # _ \<Rightarrow> t);
          t = no_trade\<lparr>t_ID := c_ID c, t_UserID := userID, t_CampaignID := trim_space (oi_CampaignID oi),
                t_ConfirmationID := c_ID c, t_Symbol := oi_Symbol oi, t_Side := oi_Side oi,
                t_Strategy := trim_space (oi_Strategy oi), t_Models := oi_Models oi,
                t_Reason := trim_space (oi_Reason oi), t_Confidence := oi_Confidence oi,
                t_Leverage := oi_Leverage oi, t_Mode := er_Mode result, t_Entry := oi_Entry oi,
                t_StopLoss := oi_StopLoss oi, t_TakeProfit := tp, t_Outcome := OutcomeOpen, t_OpenedAt := now\<rparr>;
          t = (case os_Kind (oi_Size oi) of
                 SizeUSDT \<Rightarrow> t\<lparr>t_SizeUSDT := os_Amount (oi_Size oi)\<rparr>
               | SizeQty \<Rightarrow> t\<lparr>t_Quantity := os_Amount (oi_Size oi)\<rparr>
               | SizeUnknown \<Rightarrow> t)
      in if dec_IsPositive (er_Quantity result) then t\<lparr>t_Quantity := er_Quantity result\<rparr> else t)"

definition recordOpenTrade ::
    "('s, 'i, 'j, 'x) service \<Rightarrow> time \<Rightarrow> int \<Rightarrow> confirmation \<Rightarrow> exec_result \<Rightarrow>
     ('s, 'i, 'j, 'x) world \<Rightarrow> ('s, 'i, 'j, 'x) world" where
  "recordOpenTrade sv now userID c result w =
     (case sv_journal sv of
        None \<Rightarrow> w
      | Some (rec_op, close_op) \<Rightarrow>
          if i_Type (c_Intent c) \<noteq> IntentOpen then w
          else case i_Open (c_Intent c) of
                 None \<Rightarrow> w
               | Some oi \<Rightarrow>
                   if equal_fold (trim_space (er_Mode result)) ''dry_run'' then w
                   else w\<lparr>w_journal := snd (rec_op (open_trade_row now userID c oi result) (w_journal w))\<rparr>)"

definition recordClosedTrade ::
    "('s, 'i, 'j, 'x) service \<Rightarrow> time \<Rightarrow> int \<Rightarrow> confirmation \<Rightarrow> exec_result \<Rightarrow>
     ('s, 'i, 'j, 'x) world \<Rightarrow> ('s, 'i, 'j, 'x) world" where
  "recordClosedTrade sv now userID c result w =
     (case sv_journal sv of
        None \<Rightarrow> w
      | Some (rec_op, close_op) \<Rightarrow>
          if i_Type (c_Intent c) \<noteq> IntentClose then w
          else let oc = (if dec_IsPositive (er_RealizedPnL result) then OutcomeWin
                         else if dec_Cmp (er_RealizedPnL result) dec_Zero < 0 then OutcomeLoss
                         else OutcomeBreakeven);
                   entryID = (case i_Close (c_Intent c) of None \<Rightarrow> [] | Some ci \<Rightarrow> trim_space (ci_EntryConfirmationID ci))
               in if entryID \<noteq> [] then
                    w\<lparr>w_journal := snd (close_op entryID
                        \<lparr>cu_Exit = er_ExitPrice result, cu_PnLUSDT = er_RealizedPnL result, cu_Outcome = oc,
                         cu_ClosedAt = now, cu_Mode = er_Mode result\<rparr> (w_journal w))\<rparr>
                  else
                    w\<lparr>w_journal := snd (rec_op (no_trade\<lparr>t_ID := c_ID c, t_UserID := userID,
                        t_ConfirmationID := c_ID c, t_Symbol := er_Symbol result, t_Side := er_Side result,
                        t_Mode := er_Mode result, t_PnLUSDT := er_RealizedPnL result, t_Outcome := oc,
                        t_ClosedAt := now\<rparr>) (w_journal w))\<rparr>)"

text \<open>The order that is handed out: execute, then complete, then record; or fail.\<close>

definition execute_taken ::
    "('s, 'i, 'j, 'x) service \<Rightarrow> (nat \<Rightarrow> time) \<Rightarrow> int \<Rightarrow> string \<Rightarrow> confirmation \<Rightarrow> 'x executor \<Rightarrow>
     ('s, 'i, 'j, 'x) world \<Rightarrow> (order_error + exec_result) \<times> ('s, 'i, 'j, 'x) world" where
  "execute_taken sv clk userID k c ex w =
     (case ex_Execute ex c (w_exch w) of
        (Inl m, x') \<Rightarrow> (Inl (ErrExecute m), failExecutingConfirmation sv clk k c m (w\<lparr>w_exch := x'\<rparr>))
      | (Inr result, x') \<Rightarrow>
          let w = w\<lparr>w_exch := x'\<rparr>
          in case cs_Complete (sv_store sv) (clk 2) k result (w_store w) of
               (Some e, s') \<Rightarrow> (Inl e, w\<lparr>w_store := s'\<rparr>)
             | (None, s') \<Rightarrow>
                 let w = updateIntentStatus sv (clk 3) (c_ID c) IntentStatusExecuted [] (w\<lparr>w_store := s'\<rparr>);
                     w = recordAudit sv (clk 4)
                       \<lparr>ae_Type = ''confirmation_executed'', ae_Source = ''orders'', ae_UserID = userID,
                        ae_CorrelationID = c_CorrelationID c,
                        ae_Metadata = [(''confirmation_id'', shortID k), (''intent_hash'', c_IntentHash c),
                          (''intent_type'', intent_type_text (i_Type (c_Intent c))), (''mode'', er_Mode result),
                          (''client_order_id'', er_ClientOrderID result)],
                        ae_CreatedAt = 0\<rparr> w;
                     w = recordOpenTrade sv (clk 5) userID c result w
                 in (Inr result, recordClosedTrade sv (clk 6) userID c result w))"

definition confirm ::
    "('s, 'i, 'j, 'x) service \<Rightarrow> (nat \<Rightarrow> time) \<Rightarrow> int \<Rightarrow> string \<Rightarrow> bool \<Rightarrow>
     ('s, 'i, 'j, 'x) world \<Rightarrow> (order_error + exec_result) \<times> ('s, 'i, 'j, 'x) world" where
  "confirm sv clk userID k requireUserExecutor w =
     (case cs_Take (sv_store sv) userID k (clk 0) (w_store w) of
        (Inl e, s') \<Rightarrow> (Inl e, w\<lparr>w_store := s'\<rparr>)
      | (Inr (TakenDone c result), s') \<Rightarrow> (Inr result, w\<lparr>w_store := s'\<rparr>)
      | (Inr (TakenToExecute c), s') \<Rightarrow>
          let w = updateIntentStatus sv (clk 1) (c_ID c) IntentStatusExecuting [] (w\<lparr>w_store := s'\<rparr>)
          in if requireUserExecutor then
               (case requiredExecutorForUser sv userID of
                  Inl e \<Rightarrow> (Inl e, failExecutingConfirmation sv clk k c (order_error_text e) w)
                | Inr ex \<Rightarrow> execute_taken sv clk userID k c ex w)
             else
               (case executorForUser sv userID of
                  None \<Rightarrow> (Inl PanicNilExecutor, w)
                | Some ex \<Rightarrow> execute_taken sv clk userID k c ex w))"

definition service_Cancel ::
    "('s, 'i, 'j, 'x) service \<Rightarrow> (nat \<Rightarrow> time) \<Rightarrow> int \<Rightarrow> string \<Rightarrow>
     ('s, 'i, 'j, 'x) world \<Rightarrow> order_error option \<times> ('s, 'i, 'j, 'x) world" where
  "service_Cancel sv clk userID k w =
     (case cs_Cancel (sv_store sv) userID k (clk 0) (w_store w) of
        (err, s') \<Rightarrow>
          let w = w\<lparr>w_store := s'\<rparr>;
              w = (if err = None then
                     recordAudit sv (clk 2)
                       \<lparr>ae_Type = ''confirmation_cancelled'', ae_Source = ''orders'', ae_UserID = userID,
                        ae_CorrelationID = [], ae_Metadata = [(''confirmation_id'', shortID k)], ae_CreatedAt = 0\<rparr>
                       (updateIntentStatus sv (clk 1) k IntentStatusCancelled [] w)
                   else w);
              w = (if err = Some ErrConfirmationExpired then
                     updateIntentStatus sv (clk 1) k IntentStatusExpired (order_error_text ErrConfirmationExpired) w
                   else w)
          in (err, w))"

lemma prepare_exch [simp]: "w_exch (snd (prepare sv h r1 r2 clk u i key w)) = w_exch w"
  by (auto simp: prepare_def Let_def split: sum.splits option.splits prod.splits)

lemma prepare_exch': "prepare sv h r1 r2 clk u i key w = (res, w') \<Longrightarrow> w_exch w' = w_exch w"
  using prepare_exch [of sv h r1 r2 clk u i key w] by simp

end
