(* ===== verification/Order_System.thy ===== *)
theory Order_System
  imports Orders
begin

text \<open>
  The service under concurrency: any number of callers prepare, confirm and cancel, their store
  operations interleave, a caller may die between taking a confirmation and executing it, and the
  store may purge expired documents. Every store operation is one atomic step at the clock it reads
  (the code holds a mutex, or sends one single-document command). Ids come from 128 random bits, so
  a prepared id is one never issued before. The log is the sequence of orders given to an executor.
\<close>

record 's sys =
  sy_store :: 's
  sy_clock :: time
  sy_issued :: "(string \<times> conf_core) list"
  sy_running :: "(string \<times> confirmation) list"
  sy_log :: "(string \<times> confirmation) list"

inductive sys_step :: "'s conf_store \<Rightarrow> ('s \<Rightarrow> 's \<Rightarrow> bool) \<Rightarrow> 's sys \<Rightarrow> 's sys \<Rightarrow> bool"
  for ops :: "'s conf_store" and purge :: "'s \<Rightarrow> 's \<Rightarrow> bool"
where
  prepare: "c_ID c \<notin> fst ` set (sy_issued S) \<Longrightarrow> cs_Put ops wall c (sy_store S) = (e, s') \<Longrightarrow>
      sys_step ops purge S (S\<lparr>sy_store := s', sy_issued := sy_issued S @ [(c_ID c, core_of c)]\<rparr>)"
| take: "cs_Take ops u k (sy_clock S) (sy_store S) = (Inr (TakenToExecute c), s') \<Longrightarrow>
      sys_step ops purge S (S\<lparr>sy_store := s', sy_running := sy_running S @ [(k, c)]\<rparr>)"
| refuse: "cs_Take ops u k (sy_clock S) (sy_store S) = (r, s') \<Longrightarrow> \<forall>c. r \<noteq> Inr (TakenToExecute c) \<Longrightarrow>
      sys_step ops purge S (S\<lparr>sy_store := s'\<rparr>)"
| execute: "sy_running S = xs @ (k, c) # ys \<Longrightarrow>
      sys_step ops purge S (S\<lparr>sy_running := xs @ ys, sy_log := sy_log S @ [(k, c)]\<rparr>)"
| die: "sy_running S = xs @ (k, c) # ys \<Longrightarrow> sys_step ops purge S (S\<lparr>sy_running := xs @ ys\<rparr>)"
| complete: "cs_Complete ops wall k res (sy_store S) = (e, s') \<Longrightarrow> sys_step ops purge S (S\<lparr>sy_store := s'\<rparr>)"
| fail: "cs_Fail ops wall k msg (sy_store S) = (e, s') \<Longrightarrow> sys_step ops purge S (S\<lparr>sy_store := s'\<rparr>)"
| cancel: "cs_Cancel ops u k (sy_clock S) (sy_store S) = (e, s') \<Longrightarrow> sys_step ops purge S (S\<lparr>sy_store := s'\<rparr>)"
| tick: "sy_clock S \<le> t \<Longrightarrow> sys_step ops purge S (S\<lparr>sy_clock := t\<rparr>)"
| purge: "purge (sy_store S) s' \<Longrightarrow> sys_step ops purge S (S\<lparr>sy_store := s'\<rparr>)"

inductive_cases sys_stepE: "sys_step ops purge S S'"

definition sys_start :: "'s \<Rightarrow> time \<Rightarrow> 's sys" where
  "sys_start s t = \<lparr>sy_store = s, sy_clock = t, sy_issued = [], sy_running = [], sy_log = []\<rparr>"

definition handed_out :: "'s sys \<Rightarrow> (string \<times> confirmation) list" where
  "handed_out S = sy_running S @ sy_log S"

context confirmation_store
begin

text \<open>
  The invariant: what was handed out is handed out once, can never be again, and is what was
  prepared under its id.
\<close>

definition spent :: "'s sys \<Rightarrow> string \<Rightarrow> bool" where
  "spent S k \<longleftrightarrow> (\<forall>t. sy_clock S \<le> t \<longrightarrow> \<not> avail (sy_store S) k t)"

definition sys_inv :: "'s sys \<Rightarrow> bool" where
  "sys_inv S \<longleftrightarrow>
     distinct (map fst (handed_out S)) \<and> distinct (map fst (sy_issued S)) \<and>
     (\<forall>k c. (k, c) \<in> set (handed_out S) \<longrightarrow> (k, core_of c) \<in> set (sy_issued S) \<and> spent S k) \<and>
     (\<forall>k x. core (sy_store S) k = Some x \<longrightarrow> (k, x) \<in> set (sy_issued S))"

lemma inv_store_change:
  assumes inv: "sys_inv S" and a: "unchanged_for (avail (sy_store S)) (avail s') (sy_clock S)"
    and c: "core s' \<subseteq>\<^sub>m core (sy_store S)"
  shows "sys_inv (S\<lparr>sy_store := s'\<rparr>)"
proof -
  have "core (sy_store S) k = Some x" if "core s' k = Some x" for k x
    using c that by (metis domI map_le_def)
  moreover have "spent (S\<lparr>sy_store := s'\<rparr>) k" if "spent S k" for k
    using a that unfolding spent_def unchanged_for_def by fastforce
  ultimately show ?thesis using inv by (auto simp: sys_inv_def handed_out_def)
qed

lemma inv_take:
  assumes inv: "sys_inv S" and t: "cs_Take ops u k (sy_clock S) (sy_store S) = (Inr (TakenToExecute c), s')"
  shows "sys_inv (S\<lparr>sy_store := s', sy_running := sy_running S @ [(k, c)]\<rparr>)"
proof -
  let ?S = "S\<lparr>sy_store := s', sy_running := sy_running S @ [(k, c)]\<rparr>"
  have o1: "avail (sy_store S) k (sy_clock S)" "core (sy_store S) k = Some (core_of c)" "spent ?S k"
    using take_out [OF t] by (simp_all add: spent_def)
  have keeps: "core s' = core (sy_store S)" "unchanged_for (avail (sy_store S)) (avail s') (sy_clock S)"
    using take_keeps [OF t] by simp_all
  have sp: "spent ?S j" if "spent S j" for j
    using keeps(2) that unfolding spent_def unchanged_for_def by fastforce
  have "\<not> spent S k" using o1 by (auto simp: spent_def)
  then have "k \<notin> fst ` set (handed_out S)"
    using inv unfolding sys_inv_def by fastforce
  moreover have "set (handed_out ?S) = insert (k, c) (set (handed_out S))"
    "map fst (handed_out ?S) = map fst (sy_running S) @ [k] @ map fst (sy_log S)"
    "map fst (handed_out S) = map fst (sy_running S) @ map fst (sy_log S)"
    by (auto simp: handed_out_def)
  moreover have "k \<notin> fst ` set (sy_running S)" "k \<notin> fst ` set (sy_log S)"
    using calculation(1) by (auto simp: handed_out_def)
  moreover have "(k, core_of c) \<in> set (sy_issued S)"
    using inv o1 unfolding sys_inv_def by blast
  ultimately show ?thesis
    using inv sp o1(3) keeps(1) unfolding sys_inv_def by (simp add: Int_commute)
qed

lemma inv_prepare:
  assumes inv: "sys_inv S" and fresh: "c_ID c \<notin> fst ` set (sy_issued S)"
    and p: "cs_Put ops wall c (sy_store S) = (e, s')"
  shows "sys_inv (S\<lparr>sy_store := s', sy_issued := sy_issued S @ [(c_ID c, core_of c)]\<rparr>)"
proof -
  let ?S = "S\<lparr>sy_store := s', sy_issued := sy_issued S @ [(c_ID c, core_of c)]\<rparr>"
  note keeps = put_keeps [OF p]
  have ne: "k \<noteq> c_ID c" if "(k, d) \<in> set (handed_out S)" for k d
    using inv fresh that unfolding sys_inv_def by (metis fst_conv imageI)
  have sp: "spent ?S k" if "spent S k" "k \<noteq> c_ID c" for k
    using that keeps by (auto simp: spent_def)
  have co: "core (sy_store S) k = Some x \<or> (k, x) = (c_ID c, core_of c)" if "core s' k = Some x" for k x
    using that keeps by (auto split: if_splits)
  show ?thesis
    using inv ne sp co fresh unfolding sys_inv_def by (simp add: handed_out_def) blast
qed

lemma inv_running:
  assumes "sys_inv S" "sy_running S = xs @ (k, c) # ys"
  shows "sys_inv (S\<lparr>sy_running := xs @ ys, sy_log := sy_log S @ [(k, c)]\<rparr>)" "sys_inv (S\<lparr>sy_running := xs @ ys\<rparr>)"
  using assms by (auto simp: sys_inv_def handed_out_def spent_def)

lemma inv_step:
  assumes "sys_step ops purge S S'" "sys_inv S"
  shows "sys_inv S'"
  using assms
proof (cases rule: sys_step.cases)
  case (tick t)
  then show ?thesis using assms by (auto simp: sys_inv_def handed_out_def spent_def)
qed (use assms inv_running inv_take inv_prepare inv_store_change take_keeps complete_keeps fail_keeps
      cancel_keeps purge_keeps in \<open>metis map_le_refl\<close>)+

lemma inv_start: "(\<And>k. core s k = None) \<Longrightarrow> sys_inv (sys_start s t)"
  by (simp add: sys_inv_def sys_start_def handed_out_def)

lemma inv_reachable: "(sys_step ops purge)\<^sup>*\<^sup>* S S' \<Longrightarrow> sys_inv S \<Longrightarrow> sys_inv S'"
  by (induction rule: rtranclp_induct) (auto intro: inv_step)

text \<open>Whatever the interleaving, an order reaches an executor at most once, and it is the order prepared.\<close>

lemma executes_once:
  assumes "(sys_step ops purge)\<^sup>*\<^sup>* (sys_start s t) S" "\<And>k. core s k = None"
  shows "distinct (map fst (sy_log S))" "distinct (map fst (sy_issued S))"
    "(k, c) \<in> set (sy_log S) \<Longrightarrow> (k, core_of c) \<in> set (sy_issued S)"
  using inv_reachable [OF assms(1) inv_start [OF assms(2)]]
  by (auto simp: sys_inv_def handed_out_def)

end

section \<open>The service's calls are runs of the system\<close>

text \<open>
  An executor that records what it is asked to execute; the log of the system is then what the
  executors saw.
\<close>

definition recording :: "confirmation list executor \<Rightarrow> bool" where
  "recording ex \<longleftrightarrow> (\<forall>c x. snd (ex_Execute ex c x) = x @ [c])"

definition recording_service :: "('s, 'i, 'j, confirmation list) service \<Rightarrow> bool" where
  "recording_service sv \<longleftrightarrow> recording (sv_executor sv) \<and>
     (\<forall>p key ex ok. sv_executorFor sv = Some p \<longrightarrow> p key = Inr (Some ex, ok) \<longrightarrow> recording ex)"

definition shows_log :: "'s sys \<Rightarrow> ('s, 'i, 'j, confirmation list) world \<Rightarrow> bool" where
  "shows_log S w \<longleftrightarrow> w_store w = sy_store S \<and> w_exch w = map snd (sy_log S)"

lemma updateIntentStatus_frame [simp]:
  "w_store (updateIntentStatus sv now k st m w) = w_store w" "w_exch (updateIntentStatus sv now k st m w) = w_exch w"
  "w_journal (updateIntentStatus sv now k st m w) = w_journal w" "w_audit (updateIntentStatus sv now k st m w) = w_audit w"
  by (simp_all add: updateIntentStatus_def)

lemma recordAudit_frame [simp]:
  "w_store (recordAudit sv now e w) = w_store w" "w_exch (recordAudit sv now e w) = w_exch w"
  "w_journal (recordAudit sv now e w) = w_journal w"
  by (simp_all add: recordAudit_def Let_def split: option.splits)

lemma recordTrades_frame [simp]:
  "w_store (recordOpenTrade sv now u c r w) = w_store w" "w_exch (recordOpenTrade sv now u c r w) = w_exch w"
  "w_store (recordClosedTrade sv now u c r w) = w_store w" "w_exch (recordClosedTrade sv now u c r w) = w_exch w"
  by (simp_all add: recordOpenTrade_def recordClosedTrade_def Let_def split: option.splits prod.splits)

lemma fail_frame [simp]:
  "w_exch (failExecutingConfirmation sv clk k c m w) = w_exch w"
  "w_store (failExecutingConfirmation sv clk k c m w) = snd (cs_Fail (sv_store sv) (clk 2) k m (w_store w))"
  by (simp_all add: failExecutingConfirmation_def Let_def)

text \<open>A confirm changes the exchange only by executing the confirmation it took, on the user's executor.\<close>

lemma confirm_took:
  assumes "w_exch (snd (confirm sv clk u k req w)) \<noteq> w_exch w"
  shows "\<exists>c s' ex. cs_Take (sv_store sv) u k (clk 0) (w_store w) = (Inr (TakenToExecute c), s') \<and>
    (if req then requiredExecutorForUser sv u = Inr ex else executorForUser sv u = Some ex) \<and>
    w_exch (snd (confirm sv clk u k req w)) = snd (ex_Execute ex c (w_exch w))"
proof -
  have run: "w_exch (snd (execute_taken sv clk u k c ex w1)) = snd (ex_Execute ex c (w_exch w1))" for c ex w1
    unfolding execute_taken_def Let_def by (auto split: prod.splits sum.splits option.splits)
  show ?thesis
    using assms by (fastforce simp: confirm_def Let_def run split: prod.splits sum.splits taken.splits option.splits if_splits)
qed

lemma requiredExecutor_recording:
  "recording_service sv \<Longrightarrow> requiredExecutorForUser sv u = Inr ex \<Longrightarrow> recording ex"
  by (auto simp: recording_service_def requiredExecutorForUser_def
      split: option.splits sum.splits prod.splits if_splits)

lemma executorForUser_recording:
  "recording_service sv \<Longrightarrow> executorForUser sv u = Some ex \<Longrightarrow> recording ex"
  by (auto simp: recording_service_def executorForUser_def split: option.splits sum.splits prod.splits if_splits)

lemma execute_taken_steps:
  assumes rec: "recording ex" and S: "shows_log S w" and k: "sy_running S = rs @ [(k, c)]"
    and run: "execute_taken sv clk u k c ex w = (r, w')"
  shows "\<exists>S'. (sys_step (sv_store sv) purge)\<^sup>*\<^sup>* S S' \<and> shows_log S' w' \<and>
     sy_issued S' = sy_issued S \<and> sy_running S' = rs \<and> sy_log S' = sy_log S @ [(k, c)]"
proof -
  let ?E = "S\<lparr>sy_running := rs @ [], sy_log := sy_log S @ [(k, c)]\<rparr>"
  have e: "sys_step (sv_store sv) purge S ?E" by (rule sys_step.execute) (use k in simp)
  obtain er x' where x: "ex_Execute ex c (w_exch w) = (er, x')" by fastforce
  have x': "x' = w_exch w @ [c]" using rec x by (metis recording_def snd_conv)
  have "\<exists>s'. sys_step (sv_store sv) purge ?E (?E\<lparr>sy_store := s'\<rparr>) \<and> w_store w' = s' \<and> w_exch w' = x'"
  proof (cases er)
    case (Inl m)
    then have w': "w' = failExecutingConfirmation sv clk k c m (w\<lparr>w_exch := x'\<rparr>)"
      using run x by (simp add: execute_taken_def)
    obtain e1 s' where f: "cs_Fail (sv_store sv) (clk 2) k m (sy_store ?E) = (e1, s')" by fastforce
    show ?thesis
      using sys_step.fail [OF f] f S by (auto simp: w' shows_log_def)
  next
    case (Inr res)
    obtain e1 s' where f: "cs_Complete (sv_store sv) (clk 2) k res (sy_store ?E) = (e1, s')" by fastforce
    have "w_store w' = s' \<and> w_exch w' = x'"
      using run x Inr f S by (auto simp: execute_taken_def shows_log_def Let_def split: option.splits)
    then show ?thesis using sys_step.complete [OF f] by blast
  qed
  then obtain s' where s': "sys_step (sv_store sv) purge ?E (?E\<lparr>sy_store := s'\<rparr>)" "w_store w' = s'" "w_exch w' = x'"
    by blast
  have "(sys_step (sv_store sv) purge)\<^sup>*\<^sup>* S (?E\<lparr>sy_store := s'\<rparr>)"
    using e s'(1) by (meson converse_rtranclp_into_rtranclp r_into_rtranclp)
  moreover have "shows_log (?E\<lparr>sy_store := s'\<rparr>) w'"
    using S s' x' by (simp add: shows_log_def)
  ultimately show ?thesis by (intro exI [of _ "?E\<lparr>sy_store := s'\<rparr>"]) simp
qed

lemma confirm_steps:
  assumes rec: "recording_service sv" and S: "shows_log S w" "sy_clock S = clk 0"
    and run: "confirm sv clk u k req w = (r, w')"
  shows "\<exists>S'. (sys_step (sv_store sv) purge)\<^sup>*\<^sup>* S S' \<and> shows_log S' w' \<and> sy_running S' = sy_running S"
proof -
  obtain tk s1 where t: "cs_Take (sv_store sv) u k (sy_clock S) (sy_store S) = (tk, s1)" by fastforce
  have tw: "cs_Take (sv_store sv) u k (clk 0) (w_store w) = (tk, s1)"
    using t S by (simp add: shows_log_def)
  show ?thesis
  proof (cases "\<exists>c. tk = Inr (TakenToExecute c)")
    case False
    then have "w' = w\<lparr>w_store := s1\<rparr>"
      using run tw by (auto simp: confirm_def split: sum.splits taken.splits)
    moreover have "sys_step (sv_store sv) purge S (S\<lparr>sy_store := s1\<rparr>)"
      by (rule sys_step.refuse [OF t]) (use False in blast)
    ultimately show ?thesis
      using S by (intro exI [of _ "S\<lparr>sy_store := s1\<rparr>"]) (auto simp: shows_log_def)
  next
    case True
    then obtain c where c: "tk = Inr (TakenToExecute c)" by blast
    let ?T = "S\<lparr>sy_store := s1, sy_running := sy_running S @ [(k, c)]\<rparr>"
    define w1 where "w1 = updateIntentStatus sv (clk 1) (c_ID c) IntentStatusExecuting [] (w\<lparr>w_store := s1\<rparr>)"
    have st: "sys_step (sv_store sv) purge S ?T" using t unfolding c by (rule sys_step.take)
    have log: "shows_log ?T w1" using S by (simp add: shows_log_def w1_def)
    have dies: "sys_step (sv_store sv) purge ?T S1" if "S1 = ?T\<lparr>sy_running := sy_running S @ []\<rparr>" for S1
      unfolding that by (rule sys_step.die) simp
    have run1: "if req then (case requiredExecutorForUser sv u of
            Inl e \<Rightarrow> (r, w') = (Inl e, failExecutingConfirmation sv clk k c (order_error_text e) w1)
          | Inr ex \<Rightarrow> execute_taken sv clk u k c ex w1 = (r, w'))
        else (case executorForUser sv u of None \<Rightarrow> (r, w') = (Inl PanicNilExecutor, w1)
          | Some ex \<Rightarrow> execute_taken sv clk u k c ex w1 = (r, w'))"
      using run tw c unfolding confirm_def w1_def by (auto simp: Let_def split: option.splits sum.splits)
    consider (exec) ex where "recording ex" "execute_taken sv clk u k c ex w1 = (r, w')"
      | (failed) m where "w' = failExecutingConfirmation sv clk k c m w1" | (panic) "w' = w1"
      using run1 requiredExecutor_recording [OF rec, of u] executorForUser_recording [OF rec, of u]
      by (auto split: if_splits option.splits sum.splits)
    then show ?thesis
    proof cases
      case exec
      obtain S' where "(sys_step (sv_store sv) purge)\<^sup>*\<^sup>* ?T S'" "shows_log S' w'" "sy_running S' = sy_running S"
        using execute_taken_steps [OF exec(1) log _ exec(2), of "sy_running S" purge] by auto
      then show ?thesis using st by (meson converse_rtranclp_into_rtranclp)
    next
      case failed
      let ?D = "?T\<lparr>sy_running := sy_running S @ []\<rparr>"
      obtain e1 s' where f: "cs_Fail (sv_store sv) (clk 2) k m (sy_store ?D) = (e1, s')" by fastforce
      have "(sys_step (sv_store sv) purge)\<^sup>*\<^sup>* S (?D\<lparr>sy_store := s'\<rparr>)"
        using st dies [OF refl] sys_step.fail [OF f]
        by (meson converse_rtranclp_into_rtranclp r_into_rtranclp)
      moreover have "shows_log (?D\<lparr>sy_store := s'\<rparr>) w'"
        using log f by (simp add: shows_log_def failed)
      ultimately show ?thesis by (intro exI [of _ "?D\<lparr>sy_store := s'\<rparr>"]) simp
    next
      case panic
      let ?D = "?T\<lparr>sy_running := sy_running S @ []\<rparr>"
      have "(sys_step (sv_store sv) purge)\<^sup>*\<^sup>* S ?D"
        using st dies [OF refl] by (meson converse_rtranclp_into_rtranclp r_into_rtranclp)
      moreover have "shows_log ?D w'" using log by (simp add: shows_log_def panic)
      ultimately show ?thesis by (intro exI [of _ ?D]) simp
    qed
  qed
qed

context mongo_confs begin

lemma mongo_executes_once:
  assumes "(sys_step (mongo_conf_store drv) ttl_purge)\<^sup>*\<^sup>* (sys_start s t) S" "\<And>k. docs s k = None"
  shows "distinct (map fst (sy_log S))" "distinct (map fst (sy_issued S))"
    "(k, c) \<in> set (sy_log S) \<Longrightarrow> (k, core_of c) \<in> set (sy_issued S)"
  using store.executes_once [OF assms(1)] assms(2) by (simp_all add: doc_core_def)

end

definition purge_of :: "('c \<Rightarrow> string \<Rightarrow> conf_doc option) \<Rightarrow> 'c \<Rightarrow> 'c \<Rightarrow> bool" where
  "purge_of docs s s' \<longleftrightarrow> (\<forall>k. docs s' k = docs s k \<or> docs s' k = None)"

end
