(* ===== verification/Order_Properties.thy ===== *)
theory Order_Properties
  imports Order_System
begin

text \<open>
  What the order service guarantees: single execution with either store, the service as a
  refinement of the system of interleaved steps, and the behaviour of its calls.
\<close>

section \<open>An example\<close>

definition example_conf :: confirmation where
  "example_conf = \<lparr>c_ID = ''k1'', c_UserID = 7,
     c_Intent = no_intent\<lparr>i_Type := IntentClose, i_Close := Some close_all_intent\<rparr>, c_Status = StatusPending,
     c_CorrelationID = ''r1'', c_IntentHash = ''h'', c_IdempotencyKey = ''confirm:k1'',
     c_CreatedAt = 5, c_ExpiresAt = 100\<rparr>"

lemma example_conf_fields [simp]:
  "c_ID example_conf = ''k1''" "c_UserID example_conf = 7" "c_Status example_conf = StatusPending"
  "c_ExpiresAt example_conf = 100" "c_CreatedAt example_conf = 5" "i_Type (c_Intent example_conf) = IntentClose"
  by (simp_all add: example_conf_def)

definition example_record :: conf_record where
  "example_record = \<lparr>cr_confirmation = example_conf, cr_result = no_result\<rparr>"

lemma example_record_conf [simp]: "cr_confirmation example_record = example_conf"
  by (simp add: example_record_def)

lemma example_mem_put:
  "cs_Put (memory_conf_store []) 5 example_conf (\<lambda>_. None) = (None, [''k1'' \<mapsto> example_record])"
  by (simp add: memory_conf_store_def MemoryStore_Put_def example_record_def)

lemma example_mem_take:
  "cs_Take (memory_conf_store []) 7 ''k1'' 5 [''k1'' \<mapsto> example_record] =
     (Inr (TakenToExecute (cr_confirmation (set_status StatusExecuting example_record))),
      [''k1'' \<mapsto> set_status StatusExecuting example_record])"
  by (simp add: memory_conf_store_def MemoryStore_Take_def Let_def)

definition example_doc :: conf_doc where
  "example_doc = newConfirmationDoc 5 example_conf"

lemma example_doc_fields [simp]:
  "cd_ID example_doc = ''k1''" "cd_UserID example_doc = 7" "cd_Status example_doc = StatusPending"
  "cd_ExpiresAt example_doc = 100"
  by (simp_all add: example_doc_def newConfirmationDoc_def Let_def)

abbreviation example_store :: "conf_doc coll conf_store" where
  "example_store \<equiv> mongo_conf_store (map_driver cd_ID conf_clash)"

lemma example_mongo_put: "cs_Put example_store 5 example_conf [] = (None, [(''k1'', example_doc)])"
  by (simp add: mongo_conf_store_def mgo_Put_def map_driver_def flip: example_doc_def)

lemma example_mongo_take:
  "\<exists>c s'. cs_Take example_store 7 ''k1'' 5 [(''k1'', example_doc)] = (Inr (TakenToExecute c), s')"
  by (simp add: mongo_conf_store_def mgo_Take_def map_driver_def hit_where_def)

text \<open>A prepare, a take and an execution, as a run of the system.\<close>

lemma three_steps:
  assumes "cs_Put ops wall c0 s0 = (e, s1)" "cs_Take ops u (c_ID c0) t s1 = (Inr (TakenToExecute c), s2)"
  shows "\<exists>S. (sys_step ops purge)\<^sup>*\<^sup>* (sys_start s0 t) S \<and> sy_log S = [(c_ID c0, c)]"
proof -
  let ?S1 = "(sys_start s0 t)\<lparr>sy_store := s1, sy_issued := [] @ [(c_ID c0, core_of c0)]\<rparr>"
  let ?S2 = "?S1\<lparr>sy_store := s2, sy_running := [] @ [(c_ID c0, c)]\<rparr>"
  let ?S3 = "?S2\<lparr>sy_running := [] @ [], sy_log := [] @ [(c_ID c0, c)]\<rparr>"
  have 1: "sys_step ops purge (sys_start s0 t) ?S1"
    using sys_step.prepare [of c0 "sys_start s0 t" ops wall e s1 purge] assms(1) by (simp add: sys_start_def)
  have 2: "sys_step ops purge ?S1 ?S2"
    using sys_step.take [of ops u "c_ID c0" ?S1 c s2 purge] assms(2) by (simp add: sys_start_def)
  have 3: "sys_step ops purge ?S2 ?S3"
    using sys_step.execute [of ?S2 "[]" "c_ID c0" c "[]" ops purge] by (simp add: sys_start_def)
  have "(sys_step ops purge)\<^sup>*\<^sup>* (sys_start s0 t) ?S3"
    using 1 2 3 by (meson converse_rtranclp_into_rtranclp r_into_rtranclp)
  then show ?thesis by (intro exI [of _ ?S3]) simp
qed

section \<open>Properties\<close>

text \<open>C1. An order is executed at most once, and only as it was prepared, with the MongoDB store: in every
  interleaving of any number of prepares, confirms, cancels, completions, failures and crashes, with
  driver errors and TTL deletions anywhere, no confirmation id reaches an executor twice, and what
  reaches it has the owner and the intent that were prepared under that id.\<close>

theorem mongo_orders_execute_once:
  assumes "mongo_driver drv cd_ID conf_clash docs"
    and "(sys_step (mongo_conf_store drv) (purge_of docs))\<^sup>*\<^sup>* (sys_start s t) S" and "\<And>k. docs s k = None"
  shows "distinct (map fst (sy_log S)) \<and> distinct (map fst (sy_issued S)) \<and>
    (\<forall>(k, c)\<in>set (sy_log S). (k, core_of c) \<in> set (sy_issued S))"
proof -
  have m: "mongo_confs drv docs" using assms(1) by (rule mongo_confs.intro)
  have "purge_of docs = mongo_confs.ttl_purge docs"
    by (simp add: fun_eq_iff purge_of_def mongo_confs.ttl_purge_def [OF m])
  then show ?thesis
    using mongo_confs.mongo_executes_once [OF m, of s t S] assms(2,3) by fastforce
qed

theorem mongo_orders_execute_once_witness:
  "\<exists>S. (sys_step example_store (purge_of map_of))\<^sup>*\<^sup>* (sys_start [] 5) S \<and>
     map fst (sy_log S) = [''k1''] \<and> distinct (map fst (sy_log S))"
proof -
  obtain c s2 where t: "cs_Take example_store 7 ''k1'' 5 [(''k1'', example_doc)] = (Inr (TakenToExecute c), s2)"
    using example_mongo_take by blast
  obtain S where S: "(sys_step example_store (purge_of map_of))\<^sup>*\<^sup>* (sys_start [] 5) S" "sy_log S = [(''k1'', c)]"
    using three_steps [of example_store 5 example_conf "[]" None "[(''k1'', example_doc)]" 7 5 c s2 "purge_of map_of"]
      example_mongo_put t by auto
  have "distinct (map fst (sy_log S))"
    using mongo_orders_execute_once [OF map_server.mongo_driver_axioms S(1)] by simp
  with S show ?thesis by auto
qed

text \<open>The same holds with the store in memory.\<close>

theorem memory_orders_execute_once:
  assumes "(sys_step (memory_conf_store order) (\<lambda>_ _. False))\<^sup>*\<^sup>* (sys_start (\<lambda>_. None) t) S"
  shows "distinct (map fst (sy_log S)) \<and> distinct (map fst (sy_issued S)) \<and>
    (\<forall>(k, c)\<in>set (sy_log S). (k, core_of c) \<in> set (sy_issued S))"
  using mem_conf.executes_once [OF assms] by (auto simp: mem_core_def)

theorem memory_orders_execute_once_witness:
  "\<exists>S. (sys_step (memory_conf_store []) (\<lambda>_ _. False))\<^sup>*\<^sup>* (sys_start (\<lambda>_. None) 5) S \<and>
     map fst (sy_log S) = [''k1''] \<and> distinct (map fst (sy_log S))"
proof -
  obtain S c where S: "(sys_step (memory_conf_store []) (\<lambda>_ _. False))\<^sup>*\<^sup>* (sys_start (\<lambda>_. None) 5) S" "sy_log S = [(''k1'', c)]"
    using three_steps [OF example_mem_put, of 7 5 _ _ "\<lambda>_ _. False"] example_mem_take by fastforce
  have "distinct (map fst (sy_log S))"
    using memory_orders_execute_once [OF S(1)] by simp
  with S show ?thesis by auto
qed

text \<open>C6. The service refines the system: whatever its store, every call of \<open>Confirm\<close> is a run of the
  system's steps that starts at the call's clock, ends in the store the call leaves, and whose log
  grows by exactly the confirmations the call gave to an executor.\<close>

theorem confirm_refines_system:
  assumes "recording_service sv" and "shows_log S w" and "sy_clock S = clk 0"
    and "confirm sv clk u k req w = (r, w')"
  shows "\<exists>S'. (sys_step (sv_store sv) purge)\<^sup>*\<^sup>* S S' \<and> shows_log S' w' \<and> sy_running S' = sy_running S"
  using confirm_steps [OF assms] .

definition recorder :: "confirmation list executor" where
  "recorder = \<lparr>ex_Execute = (\<lambda>c x. (Inr (no_result\<lparr>er_Mode := ''live''\<rparr>), x @ [c])), ex_Positions = None, ex_RealizedTrade = None\<rparr>"

definition example_service :: "(mem_store, unit, mem_journal, confirmation list) service" where
  "example_service = NewServiceWithRepositories 0 (Some recorder) (memory_conf_store []) None None None
     (Some (mem_save_op, mem_close_op))"

definition example_world :: "(mem_store, unit, mem_journal, confirmation list) world" where
  "example_world = \<lparr>w_store = [''k1'' \<mapsto> example_record],
     w_intents = (), w_journal = (\<lambda>_. None), w_exch = [], w_audit = []\<rparr>"

lemma example_service_fields [simp]:
  "sv_store example_service = memory_conf_store []" "executorForUser example_service u = Some recorder"
  by (simp_all add: example_service_def NewServiceWithRepositories_def executorForUser_def)

lemma execute_taken_exch: "recording ex \<Longrightarrow> w_exch (snd (execute_taken sv clk u k c ex w)) = w_exch w @ [c]"
  unfolding recording_def execute_taken_def Let_def
  by (auto split: prod.splits sum.splits option.splits) (metis snd_conv)+

lemma recorder_records: "recording recorder"
  by (simp add: recording_def recorder_def)

lemma example_world_fields [simp]: "w_store example_world = [''k1'' \<mapsto> example_record]" "w_exch example_world = []"
  by (simp_all add: example_world_def)

lemma example_confirm_exch:
  "length (w_exch (snd (confirm example_service (\<lambda>_. 5) 7 ''k1'' False example_world))) = 1"
  using example_mem_take
  unfolding confirm_def Let_def example_service_fields by (simp add: execute_taken_exch recorder_records)

lemma example_recording: "recording_service example_service"
  by (simp add: recording_service_def example_service_def NewServiceWithRepositories_def recorder_records)

lemma example_shows_log: "shows_log (sys_start (w_store example_world) 5) example_world"
  by (simp add: shows_log_def sys_start_def)

theorem confirm_refines_system_witness:
  "\<exists>S'. (sys_step (sv_store example_service) (\<lambda>_ _. False))\<^sup>*\<^sup>* (sys_start (w_store example_world) 5) S' \<and>
     length (sy_log S') = 1"
proof -
  define w' where "w' = snd (confirm example_service (\<lambda>_. 5) 7 ''k1'' False example_world)"
  define r where "r = fst (confirm example_service (\<lambda>_. 5) 7 ''k1'' False example_world)"
  have "confirm example_service (\<lambda>_. 5) 7 ''k1'' False example_world = (r, w')"
    by (simp add: w'_def r_def)
  then obtain S' where S': "(sys_step (sv_store example_service) (\<lambda>_ _. False))\<^sup>*\<^sup>* (sys_start (w_store example_world) 5) S'"
      "shows_log S' w'"
    using confirm_refines_system [OF example_recording example_shows_log, of "\<lambda>_. 5" 7 "''k1''" False r w' "\<lambda>_ _. False"]
    by (auto simp: sys_start_def)
  then have "length (sy_log S') = length (w_exch w')" by (simp add: shows_log_def)
  with S'(1) show ?thesis unfolding w'_def example_confirm_exch by blast
qed

text \<open>Automation never trades on a shared account: a confirm that requires the user's own executor is
  the same function whatever the service's default executor is, and when the user has no executor
  of his own it touches no exchange and no journal and fails, unless the order was already executed.\<close>

theorem required_executor_isolated:
  "confirm sv clk u k True w = confirm (sv\<lparr>sv_executor := ex\<rparr>) clk u k True w \<and>
   (case requiredExecutorForUser sv u of
      Inr _ \<Rightarrow> True
    | Inl _ \<Rightarrow> (case confirm sv clk u k True w of (r, w') \<Rightarrow>
        w_exch w' = w_exch w \<and> w_journal w' = w_journal w \<and>
        (case cs_Take (sv_store sv) u k (clk 0) (w_store w) of
           (Inr (TakenDone c res), _) \<Rightarrow> r = Inr res | _ \<Rightarrow> isl r)))"
proof -
  have req: "requiredExecutorForUser (sv\<lparr>sv_executor := ex\<rparr>) u = requiredExecutorForUser sv u"
    by (simp add: requiredExecutorForUser_def)
  have upd: "updateIntentStatus (sv\<lparr>sv_executor := ex\<rparr>) = updateIntentStatus sv"
    "recordAudit (sv\<lparr>sv_executor := ex\<rparr>) = recordAudit sv"
    by (simp_all add: fun_eq_iff updateIntentStatus_def recordAudit_def)
  have fl: "failExecutingConfirmation (sv\<lparr>sv_executor := ex\<rparr>) = failExecutingConfirmation sv"
    "recordOpenTrade (sv\<lparr>sv_executor := ex\<rparr>) = recordOpenTrade sv"
    "recordClosedTrade (sv\<lparr>sv_executor := ex\<rparr>) = recordClosedTrade sv"
    by (simp_all add: fun_eq_iff failExecutingConfirmation_def recordOpenTrade_def recordClosedTrade_def upd)
  have fld: "sv_store (sv\<lparr>sv_executor := ex\<rparr>) = sv_store sv" by simp
  have ex: "execute_taken (sv\<lparr>sv_executor := ex\<rparr>) = execute_taken sv"
    by (intro ext) (unfold execute_taken_def upd fl fld, rule refl)
  have same: "confirm sv clk u k True w = confirm (sv\<lparr>sv_executor := ex\<rparr>) clk u k True w"
    unfolding confirm_def req upd fl ex fld if_True ..
  have jnl: "w_journal (failExecutingConfirmation sv clk k c m w1) = w_journal w1" for c m w1
    by (simp add: failExecutingConfirmation_def Let_def)
  show ?thesis
    by (intro conjI same) (auto simp: confirm_def Let_def jnl split: sum.splits prod.splits taken.splits)
qed

text \<open>An order being executed cannot be cancelled in the MongoDB store: the cancel is refused with an
  error and the collection is unchanged, whatever the driver reports.\<close>

theorem mongo_cancel_executing_refused:
  assumes "mongo_driver drv cd_ID conf_clash docs"
    and "docs s k = Some d" "cd_Status d = StatusExecuting" and "mgo_Cancel drv u k now s = (e, s')"
  shows "e \<noteq> None \<and> docs s' = docs s"
proof -
  define flt where "flt = (\<lambda>d::conf_doc. cd_UserID d = u \<and> cd_Status d = StatusPending \<and> now < cd_ExpiresAt d)"
  define f where "f = (\<lambda>d::conf_doc. d\<lparr>cd_Status := StatusCancelled, cd_UpdatedAt := now\<rparr>)"
  obtain x s1 where x: "dr_UpdateOne drv k flt f s = (x, s1)" by fastforce
  have miss: "hit_where k flt (docs s) = None" using assms(2,3) by (simp add: hit_where_def flt_def)
  have same: "docs s1 = docs s"
    using mongo_driver.update_cases [OF assms(1) x] upd_where_miss [OF miss] by auto
  have zero: "n = 0" if "x = Inr n" for n
    using mongo_driver.update_ok [OF assms(1), of k flt f s n s1] x that miss by simp
  have fd: "findConfirmation drv k s1 = Inr d'  \<Longrightarrow> d' = d" for d'
    using mongo_driver.find_ok [OF assms(1), of k "\<lambda>_. True" s1] same assms(2)
    by (fastforce simp: findConfirmation_def hit_where_def split: sum.splits option.splits)
  show ?thesis
    using assms(4) x same zero fd assms(3)
    unfolding mgo_Cancel_def flt_def [symmetric] f_def [symmetric]
    by (auto split: sum.splits if_splits conf_status.splits)
qed

theorem mongo_cancel_executing_refused_witness:
  "fst (mgo_Cancel (map_driver cd_ID conf_clash) 7 ''k1'' 5 [(''k1'', example_doc\<lparr>cd_Status := StatusExecuting\<rparr>)]) \<noteq> None"
  using mongo_cancel_executing_refused [OF map_server.mongo_driver_axioms _ _ surjective_pairing,
      of "[(''k1'', example_doc\<lparr>cd_Status := StatusExecuting\<rparr>)]" "''k1''" "example_doc\<lparr>cd_Status := StatusExecuting\<rparr>"]
  by simp

text \<open>In the store in memory it can be: a cancel of an order an executor is working on reports success
  and marks the order cancelled, and the completion that follows marks it executed.\<close>

theorem memory_cancel_while_executing:
  assumes "s k = Some r" "c_Status (cr_confirmation r) = StatusExecuting"
    and "c_UserID (cr_confirmation r) = u" "now < c_ExpiresAt (cr_confirmation r)"
  shows "MemoryStore_Cancel u k now s = (None, s(k \<mapsto> set_status StatusCancelled r)) \<and>
    MemoryStore_Complete k res (s(k \<mapsto> set_status StatusCancelled r)) =
      (None, s(k \<mapsto> (set_status StatusExecuted r)\<lparr>cr_result := res\<rparr>))"
  using assms by (simp add: MemoryStore_Cancel_def MemoryStore_Complete_def set_status_def)

theorem memory_cancel_while_executing_witness:
  "fst (MemoryStore_Cancel 7 ''k1'' 5 [''k1'' \<mapsto> set_status StatusExecuting example_record]) = None"
  using memory_cancel_while_executing [of "[''k1'' \<mapsto> set_status StatusExecuting example_record]" "''k1''"
      "set_status StatusExecuting example_record" 7 5]
  by simp

end
