(* ===== verification/Scheduled_Close.thy ===== *)
theory Scheduled_Close
  imports Order_System
begin

text \<open>
  \<open>internal/api/scheduled_close.go\<close> and its MongoDB store \<open>internal/app/scheduled_closes.go\<close>: the
  durable jobs that close a mission's position at the end of its plan. The two stores, the contract
  they share (which transitions of a row an operation may make), and their interpretations.
\<close>

section \<open>Rows\<close>

datatype close_status =
    CloseAwaitingEntry | ClosePending | CloseExecuting | CloseDone | CloseCancelled | CloseSkipped

record sclose =
  sc_ID :: string
  sc_UserKey :: string
  sc_UserID :: int
  sc_Symbol :: string
  sc_Side :: string
  sc_DueAt :: time
  sc_WindowSeconds :: int
  sc_EntryConfirmationID :: string
  sc_Status :: close_status
  sc_ConfirmationID :: string
  sc_Reason :: string
  sc_CreatedAt :: time
  sc_UpdatedAt :: time
  sc_PurgeAt :: "time option"

definition no_sclose :: sclose where
  "no_sclose = \<lparr>sc_ID = [], sc_UserKey = [], sc_UserID = 0, sc_Symbol = [], sc_Side = [], sc_DueAt = 0,
     sc_WindowSeconds = 0, sc_EntryConfirmationID = [], sc_Status = CloseAwaitingEntry,
     sc_ConfirmationID = [], sc_Reason = [], sc_CreatedAt = 0, sc_UpdatedAt = 0, sc_PurgeAt = None\<rparr>"

definition scheduledClosePollInterval :: duration where
  "scheduledClosePollInterval = seconds 30"

definition scheduledCloseAwaitingTTL :: duration where
  "scheduledCloseAwaitingTTL = minutes 30"

definition ScheduledCloseClaimTimeout :: duration where
  "ScheduledCloseClaimTimeout = minutes 5"

definition armedMissionRetention :: duration where
  "armedMissionRetention = hours (90 * 24)"

definition scheduledClosePurgeAt :: "time \<Rightarrow> time option" where
  "scheduledClosePurgeAt now = (if is_zero_time now then None else Some (now + armedMissionRetention))"

definition sortScheduledCloses :: "sclose list \<Rightarrow> sclose list" where
  "sortScheduledCloses rows = insertion_sort (\<lambda>a b. sc_DueAt a < sc_DueAt b) rows"

text \<open>\<open>ScheduledCloseStore\<close>; a row and \<open>False\<close> is a transition that did not happen.\<close>

type_synonym 's close_result = "(string + sclose \<times> bool) \<times> 's"

record 's close_store =
  st_Save :: "sclose \<Rightarrow> 's \<Rightarrow> string option \<times> 's"
  st_ListDue :: "time \<Rightarrow> int \<Rightarrow> 's \<Rightarrow> string + sclose list"
  st_ClaimDue :: "string \<Rightarrow> time \<Rightarrow> 's \<Rightarrow> 's close_result"
  st_MarkDone :: "string \<Rightarrow> string \<Rightarrow> string \<Rightarrow> time \<Rightarrow> 's \<Rightarrow> 's close_result"
  st_MarkSkipped :: "string \<Rightarrow> string \<Rightarrow> string \<Rightarrow> time \<Rightarrow> 's \<Rightarrow> 's close_result"
  st_MarkCancelled :: "string \<Rightarrow> string \<Rightarrow> time \<Rightarrow> 's \<Rightarrow> 's close_result"
  st_Activate :: "string \<Rightarrow> time \<Rightarrow> 's \<Rightarrow> 's close_result"
  st_CancelByEntry :: "string \<Rightarrow> string \<Rightarrow> time \<Rightarrow> 's \<Rightarrow> 's close_result"
  st_ListAwaiting :: "int \<Rightarrow> 's \<Rightarrow> string + sclose list"

section \<open>The store in memory\<close>

type_synonym mem_closes = "string \<Rightarrow> sclose option"

definition mcl_Save :: "sclose \<Rightarrow> mem_closes \<Rightarrow> string option \<times> mem_closes" where
  "mcl_Save c s = (None, s(sc_ID c \<mapsto> c))"

definition close_is_stale :: "time \<Rightarrow> sclose \<Rightarrow> bool" where
  "close_is_stale now r \<longleftrightarrow> sc_Status r = CloseExecuting \<and> sc_UpdatedAt r \<le> now - ScheduledCloseClaimTimeout"

definition visit :: "string list \<Rightarrow> ('r \<Rightarrow> bool) \<Rightarrow> (string \<Rightarrow> 'r option) \<Rightarrow> 'r list" where
  "visit order p s = concat (map (\<lambda>k. case s k of None \<Rightarrow> [] | Some r \<Rightarrow> if p r then [r] else []) order)"

definition mcl_ListDue :: "string list \<Rightarrow> time \<Rightarrow> int \<Rightarrow> mem_closes \<Rightarrow> sclose list" where
  "mcl_ListDue order now limit s =
     (let limit = (if limit \<le> 0 then 100 else limit)
      in take (nat limit) (sortScheduledCloses
           (visit order (\<lambda>r. sc_DueAt r \<le> now \<and> (sc_Status r = ClosePending \<or> close_is_stale now r)) s)))"

definition mcl_ClaimDue :: "string \<Rightarrow> time \<Rightarrow> mem_closes \<Rightarrow> mem_closes close_result" where
  "mcl_ClaimDue k now s =
     (case s k of
        None \<Rightarrow> (Inr (no_sclose, False), s)
      | Some r \<Rightarrow>
          if now < sc_DueAt r \<or> (sc_Status r \<noteq> ClosePending \<and> \<not> close_is_stale now r) then (Inr (r, False), s)
          else let r = r\<lparr>sc_Status := CloseExecuting, sc_UpdatedAt := now\<rparr> in (Inr (r, True), s(k \<mapsto> r)))"

definition mcl_markTerminal ::
    "string \<Rightarrow> close_status \<Rightarrow> string \<Rightarrow> string \<Rightarrow> time \<Rightarrow> mem_closes \<Rightarrow> mem_closes close_result" where
  "mcl_markTerminal k status confirmationID reason now s =
     (case s k of
        None \<Rightarrow> (Inr (no_sclose, False), s)
      | Some r \<Rightarrow>
          if sc_Status r \<noteq> CloseExecuting then (Inr (r, False), s)
          else let r = r\<lparr>sc_Status := status, sc_ConfirmationID := confirmationID, sc_Reason := trim_space reason,
                         sc_UpdatedAt := now, sc_PurgeAt := scheduledClosePurgeAt now\<rparr>
               in (Inr (r, True), s(k \<mapsto> r)))"

definition mcl_MarkCancelled :: "string \<Rightarrow> string \<Rightarrow> time \<Rightarrow> mem_closes \<Rightarrow> mem_closes close_result" where
  "mcl_MarkCancelled k reason now s =
     (case s k of
        None \<Rightarrow> (Inr (no_sclose, False), s)
      | Some r \<Rightarrow>
          if sc_Status r \<noteq> ClosePending \<and> sc_Status r \<noteq> CloseExecuting then (Inr (r, False), s)
          else let r = r\<lparr>sc_Status := CloseCancelled, sc_Reason := trim_space reason, sc_UpdatedAt := now,
                         sc_PurgeAt := scheduledClosePurgeAt now\<rparr>
               in (Inr (r, True), s(k \<mapsto> r)))"

text \<open>Both searches take the first row, in the order Go visits them, that fits.\<close>

definition first_row :: "string list \<Rightarrow> ('r \<Rightarrow> bool) \<Rightarrow> (string \<Rightarrow> 'r option) \<Rightarrow> (string \<times> 'r) option" where
  "first_row order p s =
     map_option (\<lambda>k. (k, the (s k))) (find_first (\<lambda>k. case s k of None \<Rightarrow> False | Some r \<Rightarrow> p r) order)"

definition mcl_Activate :: "string list \<Rightarrow> string \<Rightarrow> time \<Rightarrow> mem_closes \<Rightarrow> mem_closes close_result" where
  "mcl_Activate order entryID now s =
     (case first_row order (\<lambda>r. sc_EntryConfirmationID r = entryID \<and> sc_Status r = CloseAwaitingEntry) s of
        None \<Rightarrow> (Inr (no_sclose, False), s)
      | Some (k, r) \<Rightarrow>
          let r = r\<lparr>sc_Status := ClosePending, sc_DueAt := now + seconds (sc_WindowSeconds r), sc_UpdatedAt := now\<rparr>
          in (Inr (r, True), s(k \<mapsto> r)))"

definition mcl_CancelByEntry :: "string list \<Rightarrow> string \<Rightarrow> string \<Rightarrow> time \<Rightarrow> mem_closes \<Rightarrow> mem_closes close_result" where
  "mcl_CancelByEntry order entryID reason now s =
     (case first_row order (\<lambda>r. sc_EntryConfirmationID r = entryID \<and>
              (sc_Status r = CloseAwaitingEntry \<or> sc_Status r = ClosePending)) s of
        None \<Rightarrow> (Inr (no_sclose, False), s)
      | Some (k, r) \<Rightarrow>
          let r = r\<lparr>sc_Status := CloseCancelled, sc_Reason := trim_space reason, sc_UpdatedAt := now,
                    sc_PurgeAt := scheduledClosePurgeAt now\<rparr>
          in (Inr (r, True), s(k \<mapsto> r)))"

definition mcl_ListAwaiting :: "string list \<Rightarrow> int \<Rightarrow> mem_closes \<Rightarrow> sclose list" where
  "mcl_ListAwaiting order limit s =
     (let limit = (if limit \<le> 0 then 100 else limit)
      in take (nat limit) (sortScheduledCloses (visit order (\<lambda>r. sc_Status r = CloseAwaitingEntry) s)))"

definition memory_close_store :: "string list \<Rightarrow> mem_closes close_store" where
  "memory_close_store order =
     \<lparr>st_Save = mcl_Save, st_ListDue = (\<lambda>now limit s. Inr (mcl_ListDue order now limit s)), st_ClaimDue = mcl_ClaimDue,
      st_MarkDone = (\<lambda>k. mcl_markTerminal k CloseDone), st_MarkSkipped = (\<lambda>k. mcl_markTerminal k CloseSkipped),
      st_MarkCancelled = mcl_MarkCancelled, st_Activate = mcl_Activate order,
      st_CancelByEntry = mcl_CancelByEntry order, st_ListAwaiting = (\<lambda>limit s. Inr (mcl_ListAwaiting order limit s))\<rparr>"

section \<open>The store in a collection\<close>

type_synonym 'c close_driver = "('c, sclose) driver"

definition claim_filter :: "time \<Rightarrow> sclose \<Rightarrow> bool" where
  "claim_filter now r \<longleftrightarrow>
     (let staleBefore = now - ScheduledCloseClaimTimeout
      in (sc_Status r = ClosePending \<and> sc_DueAt r \<le> now) \<or>
         (sc_Status r = CloseExecuting \<and> sc_DueAt r \<le> now \<and> sc_UpdatedAt r \<le> staleBefore))"

text \<open>\<open>transition\<close> with a filter on the id, and without.\<close>

definition close_transition ::
    "'c close_driver \<Rightarrow> string \<Rightarrow> (sclose \<Rightarrow> bool) \<Rightarrow> (sclose \<Rightarrow> sclose) \<Rightarrow> 'c \<Rightarrow> 'c close_result" where
  "close_transition = doc_transition no_sclose"

definition close_transition_any ::
    "'c close_driver \<Rightarrow> (sclose \<Rightarrow> bool) \<Rightarrow> (sclose \<Rightarrow> sclose) \<Rightarrow> 'c \<Rightarrow> 'c close_result" where
  "close_transition_any = doc_transition_any no_sclose"

definition terminalScheduledClosePurgeAt :: "time \<Rightarrow> time" where
  "terminalScheduledClosePurgeAt now = now + hours (90 * 24)"

definition gcl_Save :: "'c close_driver \<Rightarrow> sclose \<Rightarrow> 'c \<Rightarrow> string option \<times> 'c" where
  "gcl_Save drv c s = dr_InsertOne drv c s"

definition gcl_ListDue :: "'c close_driver \<Rightarrow> time \<Rightarrow> int \<Rightarrow> 'c \<Rightarrow> string + sclose list" where
  "gcl_ListDue drv now limit s =
     (let limit = (if limit \<le> 0 then 100 else limit)
      in dr_FindSorted drv (claim_filter now) sc_DueAt (nat limit) s)"

definition gcl_ClaimDue :: "'c close_driver \<Rightarrow> string \<Rightarrow> time \<Rightarrow> 'c \<Rightarrow> 'c close_result" where
  "gcl_ClaimDue drv k now s =
     (let f = (\<lambda>r. r\<lparr>sc_Status := CloseExecuting, sc_UpdatedAt := now\<rparr>)
      in if k = [] then close_transition_any drv (claim_filter now) f s
         else close_transition drv k (claim_filter now) f s)"

definition gcl_markTerminal ::
    "'c close_driver \<Rightarrow> string \<Rightarrow> close_status \<Rightarrow> string \<Rightarrow> string \<Rightarrow> time \<Rightarrow> 'c \<Rightarrow> 'c close_result" where
  "gcl_markTerminal drv k status confirmationID reason now s =
     close_transition drv k (\<lambda>r. sc_Status r = CloseExecuting)
       (\<lambda>r. r\<lparr>sc_Status := status, sc_ConfirmationID := confirmationID, sc_Reason := reason,
              sc_UpdatedAt := now, sc_PurgeAt := Some (terminalScheduledClosePurgeAt now)\<rparr>) s"

definition gcl_MarkCancelled :: "'c close_driver \<Rightarrow> string \<Rightarrow> string \<Rightarrow> time \<Rightarrow> 'c \<Rightarrow> 'c close_result" where
  "gcl_MarkCancelled drv k reason now s =
     close_transition drv k (\<lambda>r. sc_Status r = ClosePending \<or> sc_Status r = CloseExecuting)
       (\<lambda>r. r\<lparr>sc_Status := CloseCancelled, sc_Reason := reason, sc_UpdatedAt := now,
              sc_PurgeAt := Some (terminalScheduledClosePurgeAt now)\<rparr>) s"

definition gcl_Activate :: "'c close_driver \<Rightarrow> string \<Rightarrow> time \<Rightarrow> 'c \<Rightarrow> 'c close_result" where
  "gcl_Activate drv entryID now s =
     close_transition_any drv (\<lambda>r. sc_EntryConfirmationID r = entryID \<and> sc_Status r = CloseAwaitingEntry)
       (\<lambda>r. r\<lparr>sc_Status := ClosePending, sc_UpdatedAt := now, sc_DueAt := now + seconds (sc_WindowSeconds r)\<rparr>) s"

definition gcl_CancelByEntry :: "'c close_driver \<Rightarrow> string \<Rightarrow> string \<Rightarrow> time \<Rightarrow> 'c \<Rightarrow> 'c close_result" where
  "gcl_CancelByEntry drv entryID reason now s =
     close_transition_any drv (\<lambda>r. sc_EntryConfirmationID r = entryID \<and>
           (sc_Status r = CloseAwaitingEntry \<or> sc_Status r = ClosePending))
       (\<lambda>r. r\<lparr>sc_Status := CloseCancelled, sc_Reason := reason, sc_UpdatedAt := now,
              sc_PurgeAt := Some (terminalScheduledClosePurgeAt now)\<rparr>) s"

definition gcl_ListAwaiting :: "'c close_driver \<Rightarrow> int \<Rightarrow> 'c \<Rightarrow> string + sclose list" where
  "gcl_ListAwaiting drv limit s =
     (let limit = (if limit \<le> 0 then 100 else limit)
      in dr_FindSorted drv (\<lambda>r. sc_Status r = CloseAwaitingEntry) sc_CreatedAt (nat limit) s)"

definition mongo_close_store :: "'c close_driver \<Rightarrow> 'c close_store" where
  "mongo_close_store drv =
     \<lparr>st_Save = gcl_Save drv, st_ListDue = gcl_ListDue drv, st_ClaimDue = gcl_ClaimDue drv,
      st_MarkDone = (\<lambda>k. gcl_markTerminal drv k CloseDone), st_MarkSkipped = (\<lambda>k. gcl_markTerminal drv k CloseSkipped),
      st_MarkCancelled = gcl_MarkCancelled drv, st_Activate = gcl_Activate drv,
      st_CancelByEntry = gcl_CancelByEntry drv, st_ListAwaiting = gcl_ListAwaiting drv\<rparr>"

section \<open>The contract\<close>

definition claimable :: "time \<Rightarrow> sclose \<Rightarrow> bool" where
  "claimable now r \<longleftrightarrow> sc_DueAt r \<le> now \<and> (sc_Status r = ClosePending \<or> close_is_stale now r)"

definition claimed_by :: "time \<Rightarrow> sclose \<Rightarrow> sclose" where
  "claimed_by now r = r\<lparr>sc_Status := CloseExecuting, sc_UpdatedAt := now\<rparr>"

definition activated_at :: "time \<Rightarrow> sclose \<Rightarrow> sclose" where
  "activated_at now r = r\<lparr>sc_Status := ClosePending, sc_DueAt := now + seconds (sc_WindowSeconds r), sc_UpdatedAt := now\<rparr>"

text \<open>The moves a row can make at a time: the state machine of a scheduled close.\<close>

inductive close_move :: "time \<Rightarrow> sclose \<Rightarrow> sclose \<Rightarrow> bool" where
  activate: "sc_Status r = CloseAwaitingEntry \<Longrightarrow> close_move now r (activated_at now r)"
| claim: "claimable now r \<Longrightarrow> close_move now r (claimed_by now r)"
| finish: "sc_Status r = CloseExecuting \<Longrightarrow> st \<in> {CloseDone, CloseSkipped} \<Longrightarrow>
    close_move now r (r\<lparr>sc_Status := st, sc_ConfirmationID := cid, sc_Reason := rs, sc_UpdatedAt := now, sc_PurgeAt := p\<rparr>)"
| cancel: "sc_Status r \<in> {CloseAwaitingEntry, ClosePending, CloseExecuting} \<Longrightarrow>
    close_move now r (r\<lparr>sc_Status := CloseCancelled, sc_Reason := rs, sc_UpdatedAt := now, sc_PurgeAt := p\<rparr>)"

inductive_cases close_moveE: "close_move now r r'"

definition close_terminal :: "sclose \<Rightarrow> bool" where
  "close_terminal r \<longleftrightarrow> sc_Status r \<in> {CloseDone, CloseCancelled, CloseSkipped}"

text \<open>What a job is for never changes.\<close>

definition job_of :: "sclose \<Rightarrow> string \<times> string \<times> int \<times> string \<times> string \<times> int \<times> string" where
  "job_of r = (sc_ID r, sc_UserKey r, sc_UserID r, sc_Symbol r, sc_Side r, sc_WindowSeconds r, sc_EntryConfirmationID r)"

lemma close_move_job: "close_move now r r' \<Longrightarrow> job_of r' = job_of r"
  by (cases rule: close_move.cases) (auto simp: job_of_def activated_at_def claimed_by_def)

lemma close_move_not_terminal: "close_move now r r' \<Longrightarrow> \<not> close_terminal r"
  by (cases rule: close_move.cases) (auto simp: close_terminal_def claimable_def close_is_stale_def)

abbreviation rows_moved :: "time \<Rightarrow> (string \<Rightarrow> sclose option) \<Rightarrow> (string \<Rightarrow> sclose option) \<Rightarrow> bool" where
  "rows_moved now \<equiv> moved (close_move now)"

locale scheduled_closes =
  fixes ops :: "'s close_store" and row :: "'s \<Rightarrow> string \<Rightarrow> sclose option"
  assumes claim_moves: "st_ClaimDue ops k now s = (res, s') \<Longrightarrow> rows_moved now (row s) (row s')"
    and claim_won: "st_ClaimDue ops k now s = (Inr (r, True), s') \<Longrightarrow> k \<noteq> [] \<Longrightarrow>
          \<exists>r0. row s k = Some r0 \<and> claimable now r0 \<and> r = claimed_by now r0 \<and> row s' = (row s)(k \<mapsto> r)"
    and claim_lost: "st_ClaimDue ops k now s = (Inr (r, False), s') \<Longrightarrow> row s' = row s"
    and done_moves: "st_MarkDone ops k cid rs now s = (res, s') \<Longrightarrow> rows_moved now (row s) (row s')"
    and done_ok: "st_MarkDone ops k cid rs now s = (Inr (r, b), s') \<Longrightarrow> row s k = Some r0 \<Longrightarrow>
          sc_Status r0 = CloseExecuting \<Longrightarrow> \<exists>r1. row s' k = Some r1 \<and> sc_Status r1 = CloseDone"
    and skip_moves: "st_MarkSkipped ops k cid rs now s = (res, s') \<Longrightarrow> rows_moved now (row s) (row s')"
    and skip_ok: "st_MarkSkipped ops k cid rs now s = (Inr (r, b), s') \<Longrightarrow> row s k = Some r0 \<Longrightarrow>
          sc_Status r0 = CloseExecuting \<Longrightarrow> \<exists>r1. row s' k = Some r1 \<and> sc_Status r1 = CloseSkipped"
    and cancelled_moves: "st_MarkCancelled ops k rs now s = (res, s') \<Longrightarrow> rows_moved now (row s) (row s')"
    and activate_moves: "st_Activate ops eid now s = (res, s') \<Longrightarrow> rows_moved now (row s) (row s')"
    and cancel_entry_moves: "st_CancelByEntry ops eid rs now s = (res, s') \<Longrightarrow> rows_moved now (row s) (row s')"
begin

text \<open>Two successful claims of a row are at least the claim timeout apart.\<close>

definition store_call :: "time \<Rightarrow> 's \<Rightarrow> 's \<Rightarrow> bool" where
  "store_call t s s' \<longleftrightarrow> (\<exists>now\<ge>t. rows_moved now (row s) (row s'))"

lemma after_claim:
  assumes "(store_call t)\<^sup>*\<^sup>* s s'" "row s k = Some r" "sc_Status r = CloseExecuting \<and> t \<le> sc_UpdatedAt r \<or> close_terminal r"
  shows "\<exists>r'. row s' k = Some r' \<and> (sc_Status r' = CloseExecuting \<and> t \<le> sc_UpdatedAt r' \<or> close_terminal r')"
  using assms(1)
proof (induction rule: rtranclp_induct)
  case base
  then show ?case using assms(2,3) by blast
next
  case (step y z)
  from step(3) obtain ry where ry: "row y k = Some ry"
    "sc_Status ry = CloseExecuting \<and> t \<le> sc_UpdatedAt ry \<or> close_terminal ry" by blast
  obtain now where now: "t \<le> now" "rows_moved now (row y) (row z)"
    using step(2) by (auto simp: store_call_def)
  then have "row z k = row y k \<or> (\<exists>rz. row z k = Some rz \<and> close_move now ry rz)"
    using ry(1) movedE [OF now(2) ry(1)] by auto
  then consider "row z k = row y k" | rz where "row z k = Some rz" "close_move now ry rz" by blast
  then show ?case
  proof cases
    case 2
    from 2(2) show ?thesis
      by (cases rule: close_move.cases)
        (use 2(1) ry(2) now(1) in \<open>auto simp: close_terminal_def activated_at_def claimed_by_def claimable_def\<close>)
  qed (use ry in auto)
qed

lemma claims_apart:
  assumes "st_ClaimDue ops k t1 s = (Inr (r, True), s1)" "k \<noteq> []" "(store_call t1)\<^sup>*\<^sup>* s1 s2"
    "st_ClaimDue ops k t2 s2 = (Inr (r', True), s3)"
  shows "t1 + ScheduledCloseClaimTimeout \<le> t2"
proof -
  have "row s1 k = Some r" "sc_Status r = CloseExecuting" "sc_UpdatedAt r = t1"
    using claim_won [OF assms(1,2)] by (auto simp: claimed_by_def)
  then obtain r2 where r2: "row s2 k = Some r2" "sc_Status r2 = CloseExecuting \<and> t1 \<le> sc_UpdatedAt r2 \<or> close_terminal r2"
    using after_claim [OF assms(3)] by auto
  obtain r0 where "row s2 k = Some r0" "claimable t2 r0"
    using claim_won [OF assms(4,2)] by blast
  with r2 show ?thesis
    by (auto simp: claimable_def close_is_stale_def close_terminal_def)
qed

end

section \<open>Both stores keep it\<close>

lemma first_row_Some: "first_row order p s = Some (k, r) \<Longrightarrow> k \<in> set order \<and> s k = Some r \<and> p r"
  by (auto simp: first_row_def dest!: find_first_Some split: option.splits)

lemmas mcl_defs = memory_close_store_def mcl_Save_def mcl_ClaimDue_def mcl_markTerminal_def
  mcl_MarkCancelled_def mcl_Activate_def mcl_CancelByEntry_def Let_def

lemma mem_cancelled_moves: "mcl_MarkCancelled k rs now s = (res, s') \<Longrightarrow> rows_moved now s s'"
  by (auto simp: mcl_MarkCancelled_def Let_def split: option.splits if_splits
      intro!: moved_upd close_move.cancel)

lemma mem_terminal_moves: "mcl_markTerminal k st cid rs now s = (res, s') \<Longrightarrow> st \<in> {CloseDone, CloseSkipped} \<Longrightarrow> rows_moved now s s'"
  by (auto simp: mcl_markTerminal_def Let_def split: option.splits if_splits
      intro!: moved_upd close_move.finish)

lemma mem_claim_moves: "mcl_ClaimDue k now s = (res, s') \<Longrightarrow> rows_moved now s s'"
  by (auto simp: mcl_ClaimDue_def Let_def claimable_def claimed_by_def [symmetric] split: option.splits if_splits
      intro!: moved_upd close_move.claim)

lemma mem_activate_moves: "mcl_Activate order e now s = (res, s') \<Longrightarrow> rows_moved now s s'"
  by (auto simp: mcl_Activate_def Let_def activated_at_def [symmetric] dest!: first_row_Some split: option.splits
      intro!: moved_upd close_move.activate)

lemma mem_cancel_entry_moves: "mcl_CancelByEntry order e rs now s = (res, s') \<Longrightarrow> rows_moved now s s'"
  by (auto simp: mcl_CancelByEntry_def Let_def dest!: first_row_Some split: option.splits
      intro!: moved_upd close_move.cancel)

lemmas mem_close_moves = mem_cancelled_moves mem_terminal_moves mem_claim_moves mem_activate_moves mem_cancel_entry_moves

interpretation mem_closes: scheduled_closes "memory_close_store order" "\<lambda>s. s"
  by unfold_locales
    (auto simp: memory_close_store_def intro: mem_close_moves,
     auto simp: mcl_defs claimable_def claimed_by_def split: option.splits if_splits)

locale mongo_closes = mongo_driver drv sc_ID "\<lambda>_ _. False" docs
  for drv :: "'c close_driver" and docs :: "'c \<Rightarrow> string \<Rightarrow> sclose option"
begin

lemmas close_moved = transition_moved [of no_sclose, folded close_transition_def]
  transition_any_moved [of no_sclose, folded close_transition_any_def]

lemmas close_won = transition_won [of no_sclose, folded close_transition_def]
lemmas close_lost = transition_lost [of no_sclose, folded close_transition_def]
lemmas close_any_lost = transition_any_lost [of no_sclose, folded close_transition_any_def]

lemma claim_filter_claimable [simp]: "claim_filter now r = claimable now r"
  by (auto simp: claim_filter_def claimable_def close_is_stale_def Let_def)

lemma claim_rows_moved: "gcl_ClaimDue drv k now s = (res, s') \<Longrightarrow> rows_moved now (docs s) (docs s')"
  unfolding gcl_ClaimDue_def Let_def claimed_by_def [symmetric]
  by (auto split: if_splits intro: close_move.claim elim!: close_moved)

lemma claim_outcome:
  "gcl_ClaimDue drv k now s = (Inr (r, True), s') \<Longrightarrow> k \<noteq> [] \<Longrightarrow>
     \<exists>r0. docs s k = Some r0 \<and> claimable now r0 \<and> r = claimed_by now r0 \<and> docs s' = (docs s)(k \<mapsto> r)"
  unfolding gcl_ClaimDue_def Let_def by (auto simp: claimed_by_def dest: close_won)

lemma claim_lost_same: "gcl_ClaimDue drv k now s = (Inr (r, False), s') \<Longrightarrow> docs s' = docs s"
  unfolding gcl_ClaimDue_def Let_def
  by (cases "k = []") (auto dest: close_any_lost close_lost)

lemma activated_at_eq:
  "r\<lparr>sc_Status := ClosePending, sc_UpdatedAt := now, sc_DueAt := now + seconds (sc_WindowSeconds r)\<rparr> = activated_at now r"
  by (simp add: activated_at_def)

lemma terminal_ok:
  assumes "gcl_markTerminal drv k st cid rs now s = (Inr (r, b), s')" "docs s k = Some r0" "sc_Status r0 = CloseExecuting"
  shows "\<exists>r1. docs s' k = Some r1 \<and> sc_Status r1 = st"
  using close_won [of k _ _ s r s'] close_lost [of k _ _ s r s'] assms unfolding gcl_markTerminal_def by (cases b) fastforce+

end

sublocale mongo_closes \<subseteq> store: scheduled_closes "mongo_close_store drv" docs
  by unfold_locales
    (simp_all add: mongo_close_store_def claim_rows_moved claim_outcome claim_lost_same terminal_ok,
     auto simp: gcl_markTerminal_def gcl_MarkCancelled_def gcl_Activate_def gcl_CancelByEntry_def activated_at_eq
       intro: close_move.intros elim!: close_moved)

interpretation map_closes: mongo_closes "map_driver sc_ID (\<lambda>_ _. False)" map_of
  by unfold_locales

end
