(* ===== verification/Armed_Store.thy ===== *)
theory Armed_Store
  imports Scheduled_Close
begin

text \<open>
  The stores of \<open>internal/api/armed_mission.go\<close> and \<open>internal/app/armed_missions.go\<close>: missions that wait for
  one setup and may place one entry. A mission's life is the state machine \<open>arm_move\<close>; both stores meet
  the contract \<open>armed_missions\<close>, from which a mission is triggered at most once whatever calls are made.
\<close>

section \<open>Rows\<close>

datatype armed_status = MissionArmed | MissionTriggered | MissionExpired | MissionDisarmed

record armed =
  am_ID :: string
  am_UserKey :: string
  am_UserID :: int
  am_Symbol :: string
  am_Strategy :: string
  am_Side :: string
  am_CapitalUSDT :: string
  am_CapitalRiskPct :: int
  am_LeverageUsePct :: int
  am_Duration :: string
  am_DurationWindowSeconds :: int
  am_UseAI :: bool
  am_Status :: armed_status
  am_ArmReason :: string
  am_TriggerReason :: string
  am_IdempotencyKey :: string
  am_TriggeredConfirmationID :: string
  am_ArmedAt :: time
  am_TriggeredAt :: "time option"
  am_ExpiresAt :: time
  am_PurgeAt :: "time option"
  am_CreatedAt :: time
  am_UpdatedAt :: time

definition no_armed :: armed where
  "no_armed = \<lparr>am_ID = [], am_UserKey = [], am_UserID = 0, am_Symbol = [], am_Strategy = [], am_Side = [],
     am_CapitalUSDT = [], am_CapitalRiskPct = 0, am_LeverageUsePct = 0, am_Duration = [], am_DurationWindowSeconds = 0,
     am_UseAI = False, am_Status = MissionArmed, am_ArmReason = [], am_TriggerReason = [], am_IdempotencyKey = [],
     am_TriggeredConfirmationID = [], am_ArmedAt = 0, am_TriggeredAt = None, am_ExpiresAt = 0, am_PurgeAt = None,
     am_CreatedAt = 0, am_UpdatedAt = 0\<rparr>"

definition armedMissionPurgeAt :: "time \<Rightarrow> time option" where
  "armedMissionPurgeAt expiresAt = (if is_zero_time expiresAt then None else Some (expiresAt + armedMissionRetention))"

definition sortArmedMissions :: "armed list \<Rightarrow> armed list" where
  "sortArmedMissions rows = insertion_sort (\<lambda>a b. am_CreatedAt a > am_CreatedAt b) rows"

type_synonym 's armed_result = "(string + armed \<times> bool) \<times> 's"

record 's armed_store =
  ar_Save :: "armed \<Rightarrow> 's \<Rightarrow> string option \<times> 's"
  ar_Get :: "string \<Rightarrow> 's \<Rightarrow> string + armed option"
  ar_ListActive :: "time \<Rightarrow> 's \<Rightarrow> string + armed list"
  ar_ListUser :: "string \<Rightarrow> int \<Rightarrow> 's \<Rightarrow> string + armed list"
  ar_Disarm :: "string \<Rightarrow> string \<Rightarrow> time \<Rightarrow> 's \<Rightarrow> 's armed_result"
  ar_MarkExpired :: "string \<Rightarrow> time \<Rightarrow> 's \<Rightarrow> 's armed_result"
  ar_MarkTriggered :: "string \<Rightarrow> string \<Rightarrow> string \<Rightarrow> string \<Rightarrow> time \<Rightarrow> 's \<Rightarrow> 's armed_result"
  ar_SetTriggeredConfirmation :: "string \<Rightarrow> string \<Rightarrow> time \<Rightarrow> 's \<Rightarrow> 's armed_result"
  ar_ExtendWindow :: "string \<Rightarrow> string \<Rightarrow> int \<Rightarrow> time \<Rightarrow> time option \<Rightarrow> time \<Rightarrow> 's \<Rightarrow> 's armed_result"
  ar_ExpireStale :: "time \<Rightarrow> 's \<Rightarrow> (string + int) \<times> 's"

section \<open>The store in memory\<close>

type_synonym mem_missions = "string \<Rightarrow> armed option"

definition zero_armed :: "armed option \<Rightarrow> armed" where
  "zero_armed r = (case r of None \<Rightarrow> no_armed | Some r \<Rightarrow> r)"

definition mar_Save :: "armed \<Rightarrow> mem_missions \<Rightarrow> string option \<times> mem_missions" where
  "mar_Save m s = (None, s(am_ID m \<mapsto> m))"

definition mar_ListActive :: "string list \<Rightarrow> time \<Rightarrow> mem_missions \<Rightarrow> string + armed list" where
  "mar_ListActive order now s = Inr (visit order (\<lambda>r. am_Status r = MissionArmed \<and> now < am_ExpiresAt r) s)"

definition mar_ListUser :: "string list \<Rightarrow> string \<Rightarrow> int \<Rightarrow> mem_missions \<Rightarrow> string + armed list" where
  "mar_ListUser order userKey limit s =
     (let limit = (if limit \<le> 0 then 20 else limit)
      in Inr (take (nat limit) (sortArmedMissions (visit order (\<lambda>r. am_UserKey r = userKey) s))))"

definition mar_Disarm :: "string \<Rightarrow> string \<Rightarrow> time \<Rightarrow> mem_missions \<Rightarrow> mem_missions armed_result" where
  "mar_Disarm userKey k now s =
     (case s k of
        None \<Rightarrow> (Inr (no_armed, False), s)
      | Some r \<Rightarrow>
          if am_UserKey r \<noteq> userKey then (Inr (no_armed, False), s)
          else if am_Status r = MissionArmed then
            let r = r\<lparr>am_Status := MissionDisarmed, am_UpdatedAt := now,
                      am_PurgeAt := (if am_PurgeAt r = None then armedMissionPurgeAt (am_ExpiresAt r) else am_PurgeAt r)\<rparr>
            in (Inr (r, True), s(k \<mapsto> r))
          else (Inr (r, True), s))"

definition mar_MarkExpired :: "string \<Rightarrow> time \<Rightarrow> mem_missions \<Rightarrow> mem_missions armed_result" where
  "mar_MarkExpired k now s =
     (case s k of
        None \<Rightarrow> (Inr (no_armed, False), s)
      | Some r \<Rightarrow>
          if am_Status r \<noteq> MissionArmed then (Inr (r, False), s)
          else let r = r\<lparr>am_Status := MissionExpired, am_UpdatedAt := now,
                 am_PurgeAt := (if am_PurgeAt r = None then armedMissionPurgeAt (am_ExpiresAt r) else am_PurgeAt r)\<rparr>
               in (Inr (r, True), s(k \<mapsto> r)))"

definition mar_MarkTriggered ::
    "string \<Rightarrow> string \<Rightarrow> string \<Rightarrow> string \<Rightarrow> time \<Rightarrow> mem_missions \<Rightarrow> mem_missions armed_result" where
  "mar_MarkTriggered k sd reason confirmationID now s =
     (case s k of
        None \<Rightarrow> (Inr (no_armed, False), s)
      | Some r \<Rightarrow>
          if am_Status r \<noteq> MissionArmed \<or> \<not> now < am_ExpiresAt r then (Inr (r, False), s)
          else let r = r\<lparr>am_Status := MissionTriggered, am_Side := sd, am_TriggerReason := reason,
                 am_TriggeredConfirmationID := confirmationID, am_TriggeredAt := Some now, am_PurgeAt := None,
                 am_UpdatedAt := now\<rparr>
               in (Inr (r, True), s(k \<mapsto> r)))"

definition mar_SetTriggeredConfirmation :: "string \<Rightarrow> string \<Rightarrow> time \<Rightarrow> mem_missions \<Rightarrow> mem_missions armed_result" where
  "mar_SetTriggeredConfirmation k confirmationID now s =
     (case s k of
        None \<Rightarrow> (Inr (no_armed, False), s)
      | Some r \<Rightarrow>
          if am_Status r \<noteq> MissionTriggered then (Inr (r, False), s)
          else if am_TriggeredConfirmationID r \<noteq> [] \<and> am_TriggeredConfirmationID r \<noteq> confirmationID then (Inr (r, False), s)
          else let r = r\<lparr>am_TriggeredConfirmationID := confirmationID, am_UpdatedAt := now\<rparr>
               in (Inr (r, True), s(k \<mapsto> r)))"

definition mar_ExtendWindow ::
    "string \<Rightarrow> string \<Rightarrow> int \<Rightarrow> time \<Rightarrow> time option \<Rightarrow> time \<Rightarrow> mem_missions \<Rightarrow> mem_missions armed_result" where
  "mar_ExtendWindow k durationKey windowSeconds expiresAt purgeAt now s =
     (case s k of
        None \<Rightarrow> (Inr (no_armed, False), s)
      | Some r \<Rightarrow>
          if am_Status r \<noteq> MissionArmed then (Inr (r, False), s)
          else let r = r\<lparr>am_Duration := durationKey, am_DurationWindowSeconds := windowSeconds,
                         am_ExpiresAt := expiresAt, am_PurgeAt := purgeAt, am_UpdatedAt := now\<rparr>
               in (Inr (r, True), s(k \<mapsto> r)))"

definition stale_mission :: "time \<Rightarrow> armed \<Rightarrow> bool" where
  "stale_mission now r \<longleftrightarrow> am_Status r = MissionArmed \<and> \<not> now < am_ExpiresAt r"

definition mar_ExpireStale :: "string list \<Rightarrow> time \<Rightarrow> mem_missions \<Rightarrow> (string + int) \<times> mem_missions" where
  "mar_ExpireStale order now s =
     (Inr (int (length (visit order (stale_mission now) s))),
      upd_all (stale_mission now) (\<lambda>r. r\<lparr>am_Status := MissionExpired, am_UpdatedAt := now\<rparr>) s)"

definition memory_armed_store :: "string list \<Rightarrow> mem_missions armed_store" where
  "memory_armed_store order =
     \<lparr>ar_Save = mar_Save, ar_Get = (\<lambda>k s. Inr (s k)), ar_ListActive = mar_ListActive order,
      ar_ListUser = mar_ListUser order, ar_Disarm = mar_Disarm, ar_MarkExpired = mar_MarkExpired,
      ar_MarkTriggered = mar_MarkTriggered, ar_SetTriggeredConfirmation = mar_SetTriggeredConfirmation,
      ar_ExtendWindow = mar_ExtendWindow, ar_ExpireStale = mar_ExpireStale order\<rparr>"

section \<open>The store in a collection\<close>

type_synonym 'c armed_driver = "('c, armed) driver"

definition gar_Get :: "'c armed_driver \<Rightarrow> string \<Rightarrow> 'c \<Rightarrow> string + armed option" where
  "gar_Get drv k s = dr_FindOne drv k (\<lambda>_. True) s"

definition armed_transition ::
    "'c armed_driver \<Rightarrow> string \<Rightarrow> (armed \<Rightarrow> bool) \<Rightarrow> (armed \<Rightarrow> armed) \<Rightarrow> 'c \<Rightarrow> 'c armed_result" where
  "armed_transition = doc_transition no_armed"

definition gar_ListActive :: "'c armed_driver \<Rightarrow> time \<Rightarrow> 'c \<Rightarrow> string + armed list" where
  "gar_ListActive drv now s =
     dr_FindSorted drv (\<lambda>r. am_Status r = MissionArmed \<and> now < am_ExpiresAt r) am_ExpiresAt 1000 s"

definition gar_ListUser :: "'c armed_driver \<Rightarrow> string \<Rightarrow> int \<Rightarrow> 'c \<Rightarrow> string + armed list" where
  "gar_ListUser drv userKey limit s =
     (let limit = (if limit \<le> 0 then 20 else limit)
      in dr_FindSorted drv (\<lambda>r. am_UserKey r = userKey) (\<lambda>r. - am_CreatedAt r) (nat limit) s)"

definition gar_Disarm :: "'c armed_driver \<Rightarrow> string \<Rightarrow> string \<Rightarrow> time \<Rightarrow> 'c \<Rightarrow> 'c armed_result" where
  "gar_Disarm drv userKey k now s =
     (case armed_transition drv k (\<lambda>r. am_UserKey r = userKey \<and> am_Status r = MissionArmed)
             (\<lambda>r. r\<lparr>am_Status := MissionDisarmed, am_UpdatedAt := now\<rparr>) s of
        (Inl e, s) \<Rightarrow> (Inl e, s)
      | (Inr (r, True), s) \<Rightarrow> (Inr (r, True), s)
      | (Inr (r, False), s) \<Rightarrow>
          (case gar_Get drv k s of
             Inl e \<Rightarrow> (Inl e, s)
           | Inr None \<Rightarrow> (Inr (no_armed, False), s)
           | Inr (Some r) \<Rightarrow> if am_UserKey r \<noteq> userKey then (Inr (no_armed, False), s) else (Inr (r, True), s)))"

definition gar_MarkExpired :: "'c armed_driver \<Rightarrow> string \<Rightarrow> time \<Rightarrow> 'c \<Rightarrow> 'c armed_result" where
  "gar_MarkExpired drv k now =
     armed_transition drv k (\<lambda>r. am_Status r = MissionArmed) (\<lambda>r. r\<lparr>am_Status := MissionExpired, am_UpdatedAt := now\<rparr>)"

definition gar_MarkTriggered ::
    "'c armed_driver \<Rightarrow> string \<Rightarrow> string \<Rightarrow> string \<Rightarrow> string \<Rightarrow> time \<Rightarrow> 'c \<Rightarrow> 'c armed_result" where
  "gar_MarkTriggered drv k sd reason confirmationID now =
     armed_transition drv k (\<lambda>r. am_Status r = MissionArmed \<and> now < am_ExpiresAt r)
       (\<lambda>r. r\<lparr>am_Status := MissionTriggered, am_Side := sd, am_TriggerReason := reason,
              am_TriggeredConfirmationID := confirmationID, am_TriggeredAt := Some now, am_UpdatedAt := now,
              am_PurgeAt := None\<rparr>)"

definition gar_SetTriggeredConfirmation :: "'c armed_driver \<Rightarrow> string \<Rightarrow> string \<Rightarrow> time \<Rightarrow> 'c \<Rightarrow> 'c armed_result" where
  "gar_SetTriggeredConfirmation drv k confirmationID now =
     armed_transition drv k
       (\<lambda>r. am_Status r = MissionTriggered \<and>
            (am_TriggeredConfirmationID r = [] \<or> am_TriggeredConfirmationID r = confirmationID))
       (\<lambda>r. r\<lparr>am_TriggeredConfirmationID := confirmationID, am_UpdatedAt := now\<rparr>)"

definition gar_ExtendWindow ::
    "'c armed_driver \<Rightarrow> string \<Rightarrow> string \<Rightarrow> int \<Rightarrow> time \<Rightarrow> time option \<Rightarrow> time \<Rightarrow> 'c \<Rightarrow> 'c armed_result" where
  "gar_ExtendWindow drv k durationKey windowSeconds expiresAt purgeAt now =
     armed_transition drv k (\<lambda>r. am_Status r = MissionArmed)
       (\<lambda>r. r\<lparr>am_Duration := durationKey, am_DurationWindowSeconds := windowSeconds, am_ExpiresAt := expiresAt,
              am_UpdatedAt := now, am_PurgeAt := (if purgeAt = None then am_PurgeAt r else purgeAt)\<rparr>)"

definition gar_ExpireStale :: "'c armed_driver \<Rightarrow> time \<Rightarrow> 'c \<Rightarrow> (string + int) \<times> 'c" where
  "gar_ExpireStale drv now s =
     (case dr_UpdateMany drv (\<lambda>r. am_Status r = MissionArmed \<and> am_ExpiresAt r \<le> now)
             (\<lambda>r. r\<lparr>am_Status := MissionExpired, am_UpdatedAt := now\<rparr>) s of
        (Inl e, s) \<Rightarrow> (Inl e, s) | (Inr n, s) \<Rightarrow> (Inr (int n), s))"

definition mongo_armed_store :: "'c armed_driver \<Rightarrow> 'c armed_store" where
  "mongo_armed_store drv =
     \<lparr>ar_Save = dr_InsertOne drv, ar_Get = gar_Get drv, ar_ListActive = gar_ListActive drv,
      ar_ListUser = gar_ListUser drv, ar_Disarm = gar_Disarm drv, ar_MarkExpired = gar_MarkExpired drv,
      ar_MarkTriggered = gar_MarkTriggered drv, ar_SetTriggeredConfirmation = gar_SetTriggeredConfirmation drv,
      ar_ExtendWindow = gar_ExtendWindow drv, ar_ExpireStale = gar_ExpireStale drv\<rparr>"

section \<open>The contract\<close>

definition triggered_by :: "string \<Rightarrow> string \<Rightarrow> string \<Rightarrow> time \<Rightarrow> armed \<Rightarrow> armed" where
  "triggered_by sd reason cid now r =
     r\<lparr>am_Status := MissionTriggered, am_Side := sd, am_TriggerReason := reason, am_TriggeredConfirmationID := cid,
       am_TriggeredAt := Some now, am_PurgeAt := None, am_UpdatedAt := now\<rparr>"

text \<open>The moves a mission can make at a time.\<close>

inductive arm_move :: "time \<Rightarrow> armed \<Rightarrow> armed \<Rightarrow> bool" where
  trigger: "am_Status r = MissionArmed \<Longrightarrow> now < am_ExpiresAt r \<Longrightarrow> arm_move now r (triggered_by sd reason cid now r)"
| confirm: "am_Status r = MissionTriggered \<Longrightarrow> am_TriggeredConfirmationID r \<in> {[], cid} \<Longrightarrow>
    arm_move now r (r\<lparr>am_TriggeredConfirmationID := cid, am_UpdatedAt := now\<rparr>)"
| expire: "am_Status r = MissionArmed \<Longrightarrow> arm_move now r (r\<lparr>am_Status := MissionExpired, am_UpdatedAt := now, am_PurgeAt := p\<rparr>)"
| disarm: "am_Status r = MissionArmed \<Longrightarrow> arm_move now r (r\<lparr>am_Status := MissionDisarmed, am_UpdatedAt := now, am_PurgeAt := p\<rparr>)"
| extend: "am_Status r = MissionArmed \<Longrightarrow> arm_move now r (r\<lparr>am_Duration := d, am_DurationWindowSeconds := w,
      am_ExpiresAt := e, am_PurgeAt := p, am_UpdatedAt := now\<rparr>)"

inductive_cases arm_moveE: "arm_move now r r'"

lemma arm_move_final: "arm_move now r r' \<Longrightarrow> am_Status r \<noteq> MissionArmed \<Longrightarrow> am_Status r' = am_Status r"
  by (cases rule: arm_move.cases) (auto simp: triggered_by_def)

lemma expire_plain: "am_Status r = MissionArmed \<Longrightarrow> arm_move now r (r\<lparr>am_Status := MissionExpired, am_UpdatedAt := now\<rparr>)"
  using arm_move.expire [of r now "am_PurgeAt r"] by simp

lemma disarm_plain: "am_Status r = MissionArmed \<Longrightarrow> arm_move now r (r\<lparr>am_Status := MissionDisarmed, am_UpdatedAt := now\<rparr>)"
  using arm_move.disarm [of r now "am_PurgeAt r"] by simp

text \<open>A call of the store that may write.\<close>

datatype armed_call =
    CallSave armed
  | CallDisarm string string time
  | CallMarkExpired string time
  | CallMarkTriggered string string string string time
  | CallSetConfirmation string string time
  | CallExtend string string int time "time option" time
  | CallExpireStale time

fun armed_effect :: "'s armed_store \<Rightarrow> armed_call \<Rightarrow> 's \<Rightarrow> 's" where
  "armed_effect ops (CallSave m) s = snd (ar_Save ops m s)"
| "armed_effect ops (CallDisarm u k t) s = snd (ar_Disarm ops u k t s)"
| "armed_effect ops (CallMarkExpired k t) s = snd (ar_MarkExpired ops k t s)"
| "armed_effect ops (CallMarkTriggered k sd rs cid t) s = snd (ar_MarkTriggered ops k sd rs cid t s)"
| "armed_effect ops (CallSetConfirmation k cid t) s = snd (ar_SetTriggeredConfirmation ops k cid t s)"
| "armed_effect ops (CallExtend k d w e p t) s = snd (ar_ExtendWindow ops k d w e p t s)"
| "armed_effect ops (CallExpireStale t) s = snd (ar_ExpireStale ops t s)"

text \<open>
  What may happen to the store while one watches mission \<open>k\<close>: any call but saving a mission of that
  (random) id, and the TTL deletion of rows that carry a purge date.
\<close>

inductive armed_env :: "'s armed_store \<Rightarrow> ('s \<Rightarrow> string \<Rightarrow> armed option) \<Rightarrow> string \<Rightarrow> 's \<Rightarrow> 's \<Rightarrow> bool"
  for ops row k where
  call: "\<forall>m. c = CallSave m \<longrightarrow> am_ID m \<noteq> k \<Longrightarrow> armed_env ops row k s (armed_effect ops c s)"
| ttl: "\<forall>j. row s' j = row s j \<or> (\<exists>r p. row s j = Some r \<and> am_PurgeAt r = Some p \<and> row s' j = None) \<Longrightarrow>
    armed_env ops row k s s'"

locale armed_missions =
  fixes ops :: "'s armed_store" and row :: "'s \<Rightarrow> string \<Rightarrow> armed option"
  assumes save_other: "k \<noteq> am_ID m \<Longrightarrow> row (snd (ar_Save ops m s)) k = row s k"
    and get_ok: "ar_Get ops k s = Inr q \<Longrightarrow> q = row s k"
    and trigger_won: "ar_MarkTriggered ops k sd rs cid now s = (Inr (r, True), s') \<Longrightarrow>
          \<exists>r0. row s k = Some r0 \<and> am_Status r0 = MissionArmed \<and> now < am_ExpiresAt r0 \<and>
               r = triggered_by sd rs cid now r0 \<and> row s' = (row s)(k \<mapsto> r)"
    and trigger_moves: "moved (arm_move now) (row s) (row (snd (ar_MarkTriggered ops k sd rs cid now s)))"
    and disarm_moves: "moved (arm_move now) (row s) (row (snd (ar_Disarm ops u k now s)))"
    and disarm_answer: "ar_Disarm ops u k now s = (Inr (r, True), s') \<Longrightarrow>
          row s' k = Some r \<and> am_UserKey r = u \<and> am_Status r \<noteq> MissionArmed"
    and expired_moves: "moved (arm_move now) (row s) (row (snd (ar_MarkExpired ops k now s)))"
    and confirm_moves: "moved (arm_move now) (row s) (row (snd (ar_SetTriggeredConfirmation ops k cid now s)))"
    and extend_moves: "moved (arm_move now) (row s) (row (snd (ar_ExtendWindow ops k d w e p now s)))"
    and stale_moves: "moved (arm_move now) (row s) (row (snd (ar_ExpireStale ops now s)))"
begin

definition retired :: "string \<Rightarrow> 's \<Rightarrow> bool" where
  "retired k s \<longleftrightarrow> (\<forall>r. row s k = Some r \<longrightarrow> am_Status r \<noteq> MissionArmed)"

lemma retired_moved: "moved (arm_move now) (row s) (row s') \<Longrightarrow> retired k s \<Longrightarrow> retired k s'"
  unfolding retired_def moved_def using arm_move_final by (metis option.inject)

lemma retired_env: "armed_env ops row k s s' \<Longrightarrow> retired k s \<Longrightarrow> retired k s'"
proof (induction rule: armed_env.induct)
  case (call c s)
  then show ?case
  proof (cases c)
    case (CallSave m)
    then show ?thesis using call save_other [of k m s] by (auto simp: retired_def)
  qed (auto intro: retired_moved trigger_moves disarm_moves expired_moves confirm_moves extend_moves stale_moves)
next
  case (ttl s' s)
  then show ?case by (metis (no_types, lifting) not_Some_eq retired_def)
qed

lemma retired_env_rtrancl: "(armed_env ops row k)\<^sup>*\<^sup>* s s' \<Longrightarrow> retired k s \<Longrightarrow> retired k s'"
  by (induction rule: rtranclp_induct) (auto intro: retired_env)

lemma never_again:
  assumes "retired k s" "(armed_env ops row k)\<^sup>*\<^sup>* s s'"
  shows "ar_MarkTriggered ops k sd rs cid now s' \<noteq> (Inr (r, True), s'')"
  using retired_env_rtrancl [OF assms(2,1)] trigger_won [of k sd rs cid now s' r s''] by (auto simp: retired_def)

lemma trigger_retires: "ar_MarkTriggered ops k sd rs cid now s = (Inr (r, True), s') \<Longrightarrow> retired k s'"
  using trigger_won [of k sd rs cid now s r s'] by (auto simp: retired_def triggered_by_def)

lemma disarm_retires: "ar_Disarm ops u k now s = (Inr (r, True), s') \<Longrightarrow> retired k s'"
  using disarm_answer [of u k now s r s'] by (auto simp: retired_def)

end

section \<open>Both stores keep it\<close>

lemmas mar_defs = memory_armed_store_def mar_Save_def mar_Disarm_def mar_MarkExpired_def mar_MarkTriggered_def
  mar_SetTriggeredConfirmation_def mar_ExtendWindow_def mar_ExpireStale_def Let_def

lemma moved_upd_all: "(\<And>r. flt r \<Longrightarrow> P r (f r)) \<Longrightarrow> moved P m (upd_all flt f m)"
  by (auto simp: moved_def upd_all_def map_option_case split: option.splits)

lemma mem_trigger_moves: "moved (arm_move now) s (snd (mar_MarkTriggered k sd rs cid now s))"
  by (auto simp: mar_MarkTriggered_def Let_def triggered_by_def [symmetric] split: option.splits
      intro!: moved_upd arm_move.trigger)

lemma mem_disarm_moves: "moved (arm_move now) s (snd (mar_Disarm u k now s))"
  by (auto simp: mar_Disarm_def Let_def split: option.splits intro!: moved_upd arm_move.disarm disarm_plain)

lemma mem_expired_moves: "moved (arm_move now) s (snd (mar_MarkExpired k now s))"
  by (auto simp: mar_MarkExpired_def Let_def split: option.splits intro!: moved_upd arm_move.expire expire_plain)

lemma mem_confirm_moves: "moved (arm_move now) s (snd (mar_SetTriggeredConfirmation k cid now s))"
  by (auto simp: mar_SetTriggeredConfirmation_def Let_def split: option.splits intro!: moved_upd arm_move.confirm)

lemma mem_extend_moves: "moved (arm_move now) s (snd (mar_ExtendWindow k d w e p now s))"
  by (auto simp: mar_ExtendWindow_def Let_def split: option.splits intro!: moved_upd arm_move.extend)

lemma mem_stale_moves: "moved (arm_move now) s (snd (mar_ExpireStale order now s))"
  by (auto simp: mar_ExpireStale_def stale_mission_def intro!: moved_upd_all expire_plain)

lemmas mem_arm_moves = mem_trigger_moves mem_disarm_moves mem_expired_moves mem_confirm_moves mem_extend_moves mem_stale_moves

interpretation mem_armed: armed_missions "memory_armed_store order" "\<lambda>s. s"
  by unfold_locales
    (simp_all add: memory_armed_store_def mem_arm_moves,
     auto simp: mar_defs triggered_by_def split: option.splits if_splits)

locale mongo_armed = mongo_driver drv am_ID "\<lambda>_ _. False" docs
  for drv :: "'c armed_driver" and docs :: "'c \<Rightarrow> string \<Rightarrow> armed option"
begin

lemmas armed_moved = transition_moved [of no_armed, folded armed_transition_def]
lemmas armed_won = transition_won [of no_armed, folded armed_transition_def]
lemmas armed_lost = transition_lost [of no_armed, folded armed_transition_def]

lemma armed_moved_snd: "(\<And>r. flt r \<Longrightarrow> P r (f r)) \<Longrightarrow> moved P (docs s) (docs (snd (armed_transition drv k flt f s)))"
  by (metis armed_moved surjective_pairing)

lemma disarm_shape: "\<exists>s1. armed_transition drv k (\<lambda>r. am_UserKey r = u \<and> am_Status r = MissionArmed)
     (\<lambda>r. r\<lparr>am_Status := MissionDisarmed, am_UpdatedAt := now\<rparr>) s = (q, s1) \<and> snd (gar_Disarm drv u k now s) = s1"
  if "q = fst (armed_transition drv k (\<lambda>r. am_UserKey r = u \<and> am_Status r = MissionArmed)
     (\<lambda>r. r\<lparr>am_Status := MissionDisarmed, am_UpdatedAt := now\<rparr>) s)"
  using that by (auto simp: gar_Disarm_def split: prod.splits sum.splits bool.splits option.splits)

lemma disarm_docs_moves: "moved (arm_move now) (docs s) (docs (snd (gar_Disarm drv u k now s)))"
  using disarm_shape [OF refl, of k u now s]
  by (auto intro: disarm_plain elim!: armed_moved)

lemma disarm_docs_answer:
  assumes "gar_Disarm drv u k now s = (Inr (r, True), s')"
  shows "docs s' k = Some r \<and> am_UserKey r = u \<and> am_Status r \<noteq> MissionArmed"
proof -
  obtain q s1 where t: "armed_transition drv k (\<lambda>r. am_UserKey r = u \<and> am_Status r = MissionArmed)
     (\<lambda>r. r\<lparr>am_Status := MissionDisarmed, am_UpdatedAt := now\<rparr>) s = (q, s1)" by (meson surj_pair)
  consider x where "q = Inr (x, True)" | x where "q = Inr (x, False)"
    using assms t by (cases q) (auto simp: gar_Disarm_def)
  then show ?thesis
  proof cases
    case 1
    then show ?thesis using armed_won [of k _ _ s x s1] t assms by (fastforce simp: gar_Disarm_def)
  next
    case 2
    have lost: "docs s1 = docs s" "\<forall>r0. docs s k = Some r0 \<longrightarrow> \<not> (am_UserKey r0 = u \<and> am_Status r0 = MissionArmed)"
      using armed_lost [of k _ _ s x s1] t 2 by blast+
    have g: "gar_Get drv k s1 = Inr (Some r)" "am_UserKey r = u" "s' = s1"
      using assms t 2 by (auto simp: gar_Disarm_def split: sum.splits option.splits if_splits)
    then have "docs s1 k = Some r"
      by (auto simp: gar_Get_def hit_where_def dest!: find_ok split: option.splits)
    then show ?thesis using lost g by auto
  qed
qed

lemma stale_docs_moves: "moved (arm_move now) (docs s) (docs (snd (gar_ExpireStale drv now s)))"
proof -
  obtain q s1 where t: "dr_UpdateMany drv (\<lambda>r. am_Status r = MissionArmed \<and> am_ExpiresAt r \<le> now)
             (\<lambda>r. r\<lparr>am_Status := MissionExpired, am_UpdatedAt := now\<rparr>) s = (q, s1)" by (meson surj_pair)
  then have "snd (gar_ExpireStale drv now s) = s1" by (auto simp: gar_ExpireStale_def split: sum.splits)
  then show ?thesis using update_many_moved [OF t, of "arm_move now"] expire_plain by auto
qed

lemma extend_upd: "am_Status r = MissionArmed \<Longrightarrow> arm_move now r (r\<lparr>am_Duration := d, am_DurationWindowSeconds := w,
     am_ExpiresAt := e, am_UpdatedAt := now, am_PurgeAt := p\<rparr>)"
  using arm_move.extend [of r now p e w d] by (cases r) simp

lemma trigger_upd: "am_Status r = MissionArmed \<Longrightarrow> now < am_ExpiresAt r \<Longrightarrow>
    r\<lparr>am_Status := MissionTriggered, am_Side := sd, am_TriggerReason := rs, am_TriggeredConfirmationID := cid,
      am_TriggeredAt := Some now, am_UpdatedAt := now, am_PurgeAt := None\<rparr> = triggered_by sd rs cid now r"
  by (cases r) (simp add: triggered_by_def)

lemma save_docs_other: "k \<noteq> am_ID m \<Longrightarrow> docs (snd (dr_InsertOne drv m s)) k = docs s k"
  using insert_cases [of m s] by (metis fun_upd_other surjective_pairing)

lemma get_docs: "gar_Get drv k s = Inr q \<Longrightarrow> q = docs s k"
  by (auto simp: gar_Get_def hit_where_def dest!: find_ok split: option.splits)

lemma trigger_docs_won: "gar_MarkTriggered drv k sd rs cid now s = (Inr (r, True), s') \<Longrightarrow>
    \<exists>r0. docs s k = Some r0 \<and> am_Status r0 = MissionArmed \<and> now < am_ExpiresAt r0 \<and>
         r = triggered_by sd rs cid now r0 \<and> docs s' = (docs s)(k \<mapsto> r)"
  unfolding gar_MarkTriggered_def by (auto dest!: armed_won simp: trigger_upd)

end

sublocale mongo_armed \<subseteq> store: armed_missions "mongo_armed_store drv" docs
  by unfold_locales
    (simp_all add: mongo_armed_store_def save_docs_other get_docs trigger_docs_won disarm_docs_moves disarm_docs_answer
      stale_docs_moves,
     auto simp: gar_MarkTriggered_def gar_MarkExpired_def gar_SetTriggeredConfirmation_def gar_ExtendWindow_def trigger_upd
      intro!: armed_moved_snd arm_move.intros extend_upd expire_plain)

context mongo_armed
begin

lemmas mongo_never_again = store.never_again
lemmas mongo_trigger_retires = store.trigger_retires
lemmas mongo_disarm_retires = store.disarm_retires

end

interpretation map_armed: mongo_armed "map_driver am_ID (\<lambda>_ _. False)" map_of
  by unfold_locales

end
