(* ===== verification/Mission_Close.thy ===== *)
theory Mission_Close
  imports Scheduled_Close
begin

text \<open>
  The server's side of \<open>internal/api/scheduled_close.go\<close> and the gates of \<open>armed_mission.go\<close>: scheduling,
  activating, cancelling and reconciling a timed close, and the poller that closes the position.
  The stores and the order service are the interfaces of their theories. What the handlers read
  from outside is a \<open>call_env\<close>: the \<open>n\<close>-th look at the credentials, at the clock and at the random
  ids of one call.
\<close>

section \<open>Gates\<close>

record gate_config =
  gc_CampaignLiveEnabled :: bool
  gc_Testnet :: bool
  gc_RealTradingEnabled :: bool
  gc_DryRun :: bool

definition armedMissionRuntimeAllowed :: "gate_config \<Rightarrow> bool" where
  "armedMissionRuntimeAllowed g \<longleftrightarrow>
     gc_CampaignLiveEnabled g \<and> gc_Testnet g \<and> \<not> gc_RealTradingEnabled g \<and> \<not> gc_DryRun g"

record key_profile =
  kp_Name :: string
  kp_Testnet :: bool
  kp_Active :: bool

type_synonym credential_reader = "(string \<Rightarrow> string + key_profile list) option"

definition hasActiveKeyForSubject :: "credential_reader \<Rightarrow> string \<Rightarrow> bool" where
  "hasActiveKeyForSubject creds subject =
     (case creds of
        None \<Rightarrow> False
      | Some profiles \<Rightarrow>
          (case profiles subject of Inl _ \<Rightarrow> False | Inr ps \<Rightarrow> list_ex (\<lambda>p. kp_Active p \<and> kp_Testnet p) ps))"

definition api_normalizeSymbol :: "string \<Rightarrow> string" where
  "api_normalizeSymbol arg =
     (let v = remove_char (CHR ''/'') (to_upper (trim_space arg));
          v = (case cut_at (CHR '' '') v of (first, _, found) \<Rightarrow> if found then first else v)
      in if v = [] then ''BTCUSDT'' else if \<not> has_suffix v ''USDT'' then v @ ''USDT'' else v)"

definition planDuration :: "string \<Rightarrow> duration" where
  "planDuration v =
     (if v = ''15m'' then minutes 15 else if v = ''1h'' then hours 1 else if v = ''2h'' then hours 2
      else if v = ''4h'' then hours 4 else if v = ''8h'' then hours 8 else if v = ''12h'' then hours 12
      else if v = ''24h'' then hours 24 else if v = ''48h'' then hours 48
      else if v = ''1w'' then hours (7 * 24) else hours 1)"

section \<open>The server and its world\<close>

record ('c, 's, 'i, 'j, 'x) server =
  srv_gate :: gate_config
  srv_closes :: "'c close_store option"
  srv_orders :: "('s, 'i, 'j, 'x) service option"

record call_env =
  en_creds :: "nat \<Rightarrow> credential_reader"
  en_now :: "nat \<Rightarrow> time"
  en_rnd :: "nat \<Rightarrow> string + string"
  en_hash :: "intent \<Rightarrow> string + string"
  en_clk :: "nat \<Rightarrow> nat \<Rightarrow> time"

record ('c, 's, 'i, 'j, 'x) sworld =
  sw_closes :: 'c
  sw_orders :: "('s, 'i, 'j, 'x) world"

type_synonym ('c, 's, 'i, 'j, 'x) handled = "(sclose \<times> bool \<times> string option) \<times> ('c, 's, 'i, 'j, 'x) sworld"

definition scheduledCloseHasOpenPosition :: "position list \<Rightarrow> string \<Rightarrow> string \<Rightarrow> bool" where
  "scheduledCloseHasOpenPosition ps symbol sd =
     list_ex (\<lambda>p. \<not> (\<not> equal_fold (p_Symbol p) symbol \<or> dec_IsZero (p_Amount p)) \<and>
                  \<not> (sd \<noteq> [] \<and> \<not> equal_fold (p_Side p) sd)) ps"

record timed_mission =
  tm_UserID :: int
  tm_Symbol :: string
  tm_Side :: string
  tm_Duration :: duration

definition scheduleTimedMissionClose ::
    "('c, 's, 'i, 'j, 'x) server \<Rightarrow> time \<Rightarrow> string + string \<Rightarrow> timed_mission \<Rightarrow> string \<Rightarrow> 'c \<Rightarrow> (string + sclose) \<times> 'c" where
  "scheduleTimedMissionClose srv now rnd m entryID c =
     (if \<not> armedMissionRuntimeAllowed (srv_gate srv) \<or> tm_Duration m \<le> 0 \<or> trim_space entryID = [] then (Inr no_sclose, c)
      else case srv_closes srv of
             None \<Rightarrow> (Inl ''scheduled close store is not configured'', c)
           | Some st \<Rightarrow>
               (case rnd of
                  Inl e \<Rightarrow> (Inl e, c)
                | Inr k \<Rightarrow>
                    let job = \<lparr>sc_ID = ''close_'' @ k, sc_UserKey = TraderKey (tm_UserID m), sc_UserID = tm_UserID m,
                               sc_Symbol = api_normalizeSymbol (tm_Symbol m), sc_Side = to_lower (trim_space (tm_Side m)),
                               sc_DueAt = 0, sc_WindowSeconds = tm_Duration m sdiv seconds 1,
                               sc_EntryConfirmationID = entryID, sc_Status = CloseAwaitingEntry,
                               sc_ConfirmationID = [], sc_Reason = ''mission timed close'', sc_CreatedAt = now,
                               sc_UpdatedAt = now, sc_PurgeAt = None\<rparr>
                    in case st_Save st job c of (Some e, c') \<Rightarrow> (Inl e, c') | (None, c') \<Rightarrow> (Inr job, c')))"

definition activateScheduledClose :: "('c, 's, 'i, 'j, 'x) server \<Rightarrow> time \<Rightarrow> string \<Rightarrow> 'c \<Rightarrow> 'c" where
  "activateScheduledClose srv now entryID c =
     (case srv_closes srv of
        None \<Rightarrow> c
      | Some st \<Rightarrow> if trim_space entryID = [] then c else snd (st_Activate st entryID now c))"

definition cancelAwaitingScheduledClose :: "('c, 's, 'i, 'j, 'x) server \<Rightarrow> time \<Rightarrow> string \<Rightarrow> string \<Rightarrow> 'c \<Rightarrow> 'c" where
  "cancelAwaitingScheduledClose srv now entryID reason c =
     (case srv_closes srv of
        None \<Rightarrow> c
      | Some st \<Rightarrow> if trim_space entryID = [] then c else snd (st_CancelByEntry st entryID reason now c))"

section \<open>Reconciling\<close>

definition conf_status_text :: "conf_status \<Rightarrow> string" where
  "conf_status_text st =
     (case st of StatusUnset \<Rightarrow> [] | StatusPending \<Rightarrow> ''pending'' | StatusExecuting \<Rightarrow> ''executing''
      | StatusExecuted \<Rightarrow> ''executed'' | StatusCancelled \<Rightarrow> ''cancelled'' | StatusExpired \<Rightarrow> ''expired''
      | StatusFailed \<Rightarrow> ''failed'')"

text \<open>One row; \<open>wall\<close> is the \<open>time.Now()\<close> of the store operation it makes.\<close>

definition reconcileRow ::
    "('c, 's, 'i, 'j, 'x) server \<Rightarrow> ('s, 'i, 'j, 'x) service \<Rightarrow> 's \<Rightarrow> time \<Rightarrow> time \<Rightarrow> sclose \<Rightarrow> 'c \<Rightarrow> 'c" where
  "reconcileRow srv sv s now wall r c =
     (let staleBefore = now - scheduledCloseAwaitingTTL in
      case service_ConfirmationStatus sv (sc_EntryConfirmationID r) s of
        Inl _ \<Rightarrow> c
      | Inr st \<Rightarrow>
          if st = Some StatusExecuted then activateScheduledClose srv wall (sc_EntryConfirmationID r) c
          else if st = Some StatusFailed \<or> st = Some StatusCancelled \<or> st = Some StatusExpired then
            cancelAwaitingScheduledClose srv wall (sc_EntryConfirmationID r) (''entry '' @ conf_status_text (the st)) c
          else if sc_CreatedAt r < staleBefore then
            cancelAwaitingScheduledClose srv wall (sc_EntryConfirmationID r) ''entry never confirmed'' c
          else c)"

definition reconcileAwaitingCloses ::
    "('c, 's, 'i, 'j, 'x) server \<Rightarrow> 's \<Rightarrow> time \<Rightarrow> (sclose \<Rightarrow> time) \<Rightarrow> 'c \<Rightarrow> 'c" where
  "reconcileAwaitingCloses srv s now wall c =
     (case (srv_closes srv, srv_orders srv) of
        (Some st, Some sv) \<Rightarrow>
          (case st_ListAwaiting st 200 c of
             Inl _ \<Rightarrow> c
           | Inr rows \<Rightarrow> fold (\<lambda>r. reconcileRow srv sv s now (wall r) r) rows c)
      | _ \<Rightarrow> c)"

section \<open>The poller\<close>

text \<open>\<open>MarkSkipped\<close> and \<open>MarkDone\<close> as the handler uses them: the store's error first, else the given one.\<close>

definition close_marked :: "'c close_result \<Rightarrow> string option \<Rightarrow> (sclose \<times> bool \<times> string option) \<times> 'c" where
  "close_marked res err =
     (case res of
        (Inl e, c) \<Rightarrow> ((no_sclose, True, Some e), c)
      | (Inr (r, _), c) \<Rightarrow> ((r, True, err), c))"

definition in_closes ::
    "((sclose \<times> bool \<times> string option) \<times> 'c) \<Rightarrow> ('c, 's, 'i, 'j, 'x) sworld \<Rightarrow> ('c, 's, 'i, 'j, 'x) handled" where
  "in_closes r w = (fst r, w\<lparr>sw_closes := snd r\<rparr>)"

definition timed_close_intent :: "sclose \<Rightarrow> intent" where
  "timed_close_intent r =
     no_intent\<lparr>i_Type := IntentClose, i_Close := Some \<lparr>ci_Symbol = sc_Symbol r, ci_All = True, ci_Percent = dec_unset,
       ci_HasPercent = False, ci_ResolvedPercent = dec_NewFromInt 100,
       ci_EntryConfirmationID = sc_EntryConfirmationID r\<rparr>\<rparr>"

definition handleScheduledClose ::
    "('c, 's, 'i, 'j, 'x) server \<Rightarrow> 'c close_store \<Rightarrow> call_env \<Rightarrow> string \<Rightarrow> time \<Rightarrow>
     ('c, 's, 'i, 'j, 'x) sworld \<Rightarrow> ('c, 's, 'i, 'j, 'x) handled" where
  "handleScheduledClose srv st env k now w =
     (case st_ClaimDue st k now (sw_closes w) of
        (Inl e, c) \<Rightarrow> ((no_sclose, False, Some e), w\<lparr>sw_closes := c\<rparr>)
      | (Inr (r, False), c) \<Rightarrow> ((r, False, None), w\<lparr>sw_closes := c\<rparr>)
      | (Inr (r, True), c) \<Rightarrow>
          let w = w\<lparr>sw_closes := c\<rparr>;
              skip = (\<lambda>cid reason err t w. in_closes (close_marked (st_MarkSkipped st (sc_ID r) cid reason t (sw_closes w)) err) w)
          in if \<not> armedMissionRuntimeAllowed (srv_gate srv) then skip [] ''gate closed before timed close'' None now w
             else if \<not> hasActiveKeyForSubject (en_creds env 0) (sc_UserKey r) then
               skip [] ''active testnet key missing'' None now w
             else case srv_orders srv of
               None \<Rightarrow> skip [] ''orders service unavailable'' None now w
             | Some sv \<Rightarrow>
               (case PositionsWithRequiredUserExecutor sv (sc_UserID r) (w_exch (sw_orders w)) of
                  Inl e \<Rightarrow> skip [] (''positions failed: '' @ order_error_text e) (Some (order_error_text e)) now w
                | Inr ps \<Rightarrow>
                  if \<not> scheduledCloseHasOpenPosition ps (sc_Symbol r) (sc_Side r) then
                    in_closes (close_marked (st_MarkDone st (sc_ID r) [] ''no matching open position'' now (sw_closes w)) None) w
                  else
                  (case prepare sv (en_hash env) (en_rnd env 0) (en_rnd env 1) (en_clk env 0) (sc_UserID r)
                          (timed_close_intent r) [] (sw_orders w) of
                     (Inl e, ow) \<Rightarrow> skip [] (''prepare close failed: '' @ order_error_text e) (Some (order_error_text e)) now
                                     (w\<lparr>sw_orders := ow\<rparr>)
                   | (Inr conf, ow) \<Rightarrow>
                     let w = w\<lparr>sw_orders := ow\<rparr> in
                     if \<not> armedMissionRuntimeAllowed (srv_gate srv) \<or> \<not> hasActiveKeyForSubject (en_creds env 1) (sc_UserKey r) then
                       let w = w\<lparr>sw_orders := snd (service_Cancel sv (en_clk env 1) (sc_UserID r) (c_ID conf) (sw_orders w))\<rparr>
                       in skip (c_ID conf) ''gate closed before timed close confirm'' None (en_now env 0) w
                     else
                     (case confirm sv (en_clk env 2) (sc_UserID r) (c_ID conf) True (sw_orders w) of
                        (Inl e, ow) \<Rightarrow> skip (c_ID conf) (''confirm close failed: '' @ order_error_text e)
                                        (Some (order_error_text e)) (en_now env 1) (w\<lparr>sw_orders := ow\<rparr>)
                      | (Inr _, ow) \<Rightarrow>
                        in_closes (close_marked (st_MarkDone st (sc_ID r) (c_ID conf) ''closed at plan deadline'' (en_now env 2)
                          (sw_closes w)) None) (w\<lparr>sw_orders := ow\<rparr>)))))"

text \<open>The due rows one after the other, counting the handled ones.\<close>

fun handle_rows ::
    "('c, 's, 'i, 'j, 'x) server \<Rightarrow> 'c close_store \<Rightarrow> (sclose \<Rightarrow> call_env) \<Rightarrow> time \<Rightarrow> sclose list \<Rightarrow>
     ('c, 's, 'i, 'j, 'x) sworld \<Rightarrow> int \<times> ('c, 's, 'i, 'j, 'x) sworld" where
  "handle_rows srv st envs now [] w = (0, w)"
| "handle_rows srv st envs now (r # rs) w =
     (case handleScheduledClose srv st (envs r) (sc_ID r) now w of
        ((_, ok, err), w1) \<Rightarrow>
          (case handle_rows srv st envs now rs w1 of
             (n, w2) \<Rightarrow> (if err = None \<and> ok then n + 1 else n, w2)))"

definition runDueScheduledCloses ::
    "('c, 's, 'i, 'j, 'x) server \<Rightarrow> (sclose \<Rightarrow> call_env) \<Rightarrow> (sclose \<Rightarrow> time) \<Rightarrow> time \<Rightarrow>
     ('c, 's, 'i, 'j, 'x) sworld \<Rightarrow> (string + int) \<times> ('c, 's, 'i, 'j, 'x) sworld" where
  "runDueScheduledCloses srv envs wall now w =
     (case srv_closes srv of
        None \<Rightarrow> (Inr 0, w)
      | Some st \<Rightarrow>
          let w = w\<lparr>sw_closes := reconcileAwaitingCloses srv (w_store (sw_orders w)) now wall (sw_closes w)\<rparr>
          in case st_ListDue st now 100 (sw_closes w) of
               Inl e \<Rightarrow> (Inl e, w)
             | Inr rows \<Rightarrow> (case handle_rows srv st envs now rows w of (n, w') \<Rightarrow> (Inr n, w')))"

section \<open>What the handler touches\<close>

lemma cancel_exch [simp]: "w_exch (snd (service_Cancel sv clk u k w)) = w_exch w"
  by (auto simp: service_Cancel_def Let_def split: prod.splits)

lemma in_closes_orders [simp]: "sw_orders (snd (in_closes r w)) = sw_orders w" "sw_closes (snd (in_closes r w)) = snd r"
  "fst (in_closes r w) = fst r"
  by (simp_all add: in_closes_def)

lemma handle_guarded:
  assumes "w_exch (sw_orders (snd (handleScheduledClose srv st env k now w))) \<noteq> w_exch (sw_orders w)"
  shows "\<exists>r c sv ps. st_ClaimDue st k now (sw_closes w) = (Inr (r, True), c) \<and>
    armedMissionRuntimeAllowed (srv_gate srv) \<and> hasActiveKeyForSubject (en_creds env 0) (sc_UserKey r) \<and>
    hasActiveKeyForSubject (en_creds env 1) (sc_UserKey r) \<and> srv_orders srv = Some sv \<and>
    PositionsWithRequiredUserExecutor sv (sc_UserID r) (w_exch (sw_orders w)) = Inr ps \<and>
    scheduledCloseHasOpenPosition ps (sc_Symbol r) (sc_Side r)"
  using assms unfolding handleScheduledClose_def Let_def
  by (auto split: prod.splits sum.splits if_splits option.splits bool.splits dest!: prepare_exch')

lemma handle_unclaimed:
  assumes "\<And>r c. st_ClaimDue st k now (sw_closes w) \<noteq> (Inr (r, True), c)"
  shows "sw_orders (snd (handleScheduledClose srv st env k now w)) = sw_orders w \<and>
    \<not> fst (snd (fst (handleScheduledClose srv st env k now w)))"
  using assms unfolding handleScheduledClose_def
  by (auto split: prod.splits sum.splits bool.splits)

text \<open>Every branch after a claim ends in \<open>MarkDone\<close> or \<open>MarkSkipped\<close> of the claimed row.\<close>

lemma handle_ends:
  assumes "st_ClaimDue st k now (sw_closes w) = (Inr (r, True), c)"
  shows "\<exists>cid reason t. sw_closes (snd (handleScheduledClose srv st env k now w)) = snd (st_MarkDone st (sc_ID r) cid reason t c) \<or>
    sw_closes (snd (handleScheduledClose srv st env k now w)) = snd (st_MarkSkipped st (sc_ID r) cid reason t c)"
proof -
  have cm: "snd (close_marked res e) = snd res" for res :: "'a close_result" and e
    by (auto simp: close_marked_def split: prod.splits sum.splits)
  show ?thesis
    using assms unfolding handleScheduledClose_def Let_def
    by (auto simp: cm split: prod.splits sum.splits if_splits option.splits)
qed

context scheduled_closes
begin

lemma awaiting_never_closes:
  assumes "row (sw_closes w) k = Some r" "\<not> claimable now r" "k \<noteq> []"
  shows "sw_orders (snd (handleScheduledClose srv ops env k now w)) = sw_orders w"
proof -
  have "st_ClaimDue ops k now (sw_closes w) \<noteq> (Inr (r', True), c)" for r' c
    using claim_won [of k now "sw_closes w" r' c] assms by auto
  then show ?thesis using handle_unclaimed by blast
qed

end

context mongo_closes
begin

lemmas mongo_awaiting_never_closes = store.awaiting_never_closes
lemmas mongo_claims_apart = store.claims_apart
lemmas mongo_store_call = store.store_call_def

end

section \<open>An example\<close>

text \<open>A live testnet server, a user with a key and an open position, and a close that is due.\<close>

definition ex_gate :: gate_config where
  "ex_gate = \<lparr>gc_CampaignLiveEnabled = True, gc_Testnet = True, gc_RealTradingEnabled = False, gc_DryRun = False\<rparr>"

definition ex_position :: position where
  "ex_position = \<lparr>p_Symbol = ''BTCUSDT'', p_Side = ''long'', p_Amount = dec_NewFromInt 2, p_EntryPrice = dec_NewFromInt 100,
     p_MarkPrice = dec_NewFromInt 101, p_UnrealizedProfit = dec_NewFromInt 2, p_Leverage = 3, p_MarginType = ''isolated''\<rparr>"

definition ex_executor :: "confirmation list executor" where
  "ex_executor = \<lparr>ex_Execute = (\<lambda>c x. (Inr (no_result\<lparr>er_Mode := ''live''\<rparr>), x @ [c])),
     ex_Positions = Some (\<lambda>x. Inr [ex_position]), ex_RealizedTrade = None\<rparr>"

definition ex_server :: "(mem_closes, mem_store, unit, mem_journal, confirmation list) server" where
  "ex_server = \<lparr>srv_gate = ex_gate, srv_closes = Some (memory_close_store []),
     srv_orders = Some (NewServiceWithRepositories 0 None (memory_conf_store []) None None
       (Some (\<lambda>_. Inr (Some ex_executor, True))) None)\<rparr>"

definition ex_env :: call_env where
  "ex_env = \<lparr>en_creds = (\<lambda>_. Some (\<lambda>_. Inr [\<lparr>kp_Name = ''main'', kp_Testnet = True, kp_Active = True\<rparr>])),
     en_now = (\<lambda>_. 900), en_rnd = (\<lambda>n. Inr (if n = 0 then ''k1'' else ''k2'')), en_hash = (\<lambda>_. Inr ''h''),
     en_clk = (\<lambda>_ _. 900)\<rparr>"

definition ex_close :: sclose where
  "ex_close = no_sclose\<lparr>sc_ID := ''j1'', sc_UserKey := ''tg:7'', sc_UserID := 7, sc_Symbol := ''BTCUSDT'',
     sc_Side := ''long'', sc_DueAt := 800, sc_EntryConfirmationID := ''e1'', sc_Status := ClosePending\<rparr>"

definition ex_sworld :: "(mem_closes, mem_store, unit, mem_journal, confirmation list) sworld" where
  "ex_sworld = \<lparr>sw_closes = [''j1'' \<mapsto> ex_close], sw_orders = \<lparr>w_store = (\<lambda>_. None), w_intents = (),
     w_journal = (\<lambda>_. None), w_exch = [], w_audit = []\<rparr>\<rparr>"

lemma ex_close_executes:
  "length (w_exch (sw_orders (snd (handleScheduledClose ex_server (memory_close_store []) ex_env ''j1'' 900 ex_sworld)))) = 1"
  by code_simp

definition ex_waiting :: "(sclose coll, mem_store, unit, mem_journal, confirmation list) sworld" where
  "ex_waiting = \<lparr>sw_closes = [(''j1'', ex_close\<lparr>sc_Status := CloseAwaitingEntry\<rparr>)], sw_orders = sw_orders ex_sworld\<rparr>"

section \<open>Properties\<close>

text \<open>C14. A timed close acts on the exchange only with every gate open: it has claimed the job, the server
  runs live on testnet, the user has an active testnet key at both checks, and the user's own executor
  reports an open position of the job's symbol and side.\<close>

theorem timed_close_guarded:
  assumes "handleScheduledClose srv st env k now w = (res, w')" and "w_exch (sw_orders w') \<noteq> w_exch (sw_orders w)"
  shows "\<exists>r c sv ps p. st_ClaimDue st k now (sw_closes w) = (Inr (r, True), c) \<and>
    armedMissionRuntimeAllowed (srv_gate srv) \<and> hasActiveKeyForSubject (en_creds env 0) (sc_UserKey r) \<and>
    hasActiveKeyForSubject (en_creds env 1) (sc_UserKey r) \<and> srv_orders srv = Some sv \<and>
    PositionsWithRequiredUserExecutor sv (sc_UserID r) (w_exch (sw_orders w)) = Inr ps \<and>
    p \<in> set ps \<and> equal_fold (p_Symbol p) (sc_Symbol r) \<and> dval (p_Amount p) \<noteq> 0 \<and>
    (sc_Side r = [] \<or> equal_fold (p_Side p) (sc_Side r))"
  using handle_guarded [of srv st env k now w] assms
  by (fastforce simp: scheduledCloseHasOpenPosition_def list_ex_iff dec_simps)

theorem timed_close_guarded_witness:
  "\<exists>(r::sclose) (p::position). armedMissionRuntimeAllowed (srv_gate ex_server) \<and> equal_fold (p_Symbol p) (sc_Symbol r) \<and> dval (p_Amount p) \<noteq> 0"
proof -
  define w' where "w' = snd (handleScheduledClose ex_server (memory_close_store []) ex_env ''j1'' 900 ex_sworld)"
  have ne: "w_exch (sw_orders w') \<noteq> w_exch (sw_orders ex_sworld)"
    using ex_close_executes unfolding w'_def by (auto simp: ex_sworld_def)
  have run: "handleScheduledClose ex_server (memory_close_store []) ex_env ''j1'' 900 ex_sworld =
      (fst (handleScheduledClose ex_server (memory_close_store []) ex_env ''j1'' 900 ex_sworld), w')"
    unfolding w'_def by (rule surjective_pairing)
  show ?thesis using timed_close_guarded [OF run ne] by blast
qed

text \<open>A timed close that is not due is left alone, with the MongoDB store: while its entry is unconfirmed
  (or before its due time, or after it ended) the poller's handler changes nothing in the order
  service or on the exchange, whatever the driver reports.\<close>

theorem mongo_timed_close_waits:
  assumes "mongo_driver drv sc_ID (\<lambda>_ _. False) docs"
    and "docs (sw_closes w) k = Some r" "\<not> claimable now r" "k \<noteq> []"
  shows "sw_orders (snd (handleScheduledClose srv (mongo_close_store drv) env k now w)) = sw_orders w"
  using mongo_closes.mongo_awaiting_never_closes [OF mongo_closes.intro [OF assms(1)] assms(2-4)] .

theorem mongo_timed_close_waits_witness:
  "sw_orders (snd (handleScheduledClose 
     \<lparr>srv_gate = ex_gate, srv_closes = None, srv_orders = srv_orders ex_server\<rparr>
     (mongo_close_store (map_driver sc_ID (\<lambda>_ _. False))) ex_env ''j1'' 900 ex_waiting)) = sw_orders ex_waiting"
  by (rule mongo_timed_close_waits [OF map_server.mongo_driver_axioms, where r = "ex_close\<lparr>sc_Status := CloseAwaitingEntry\<rparr>"])
    (simp_all add: ex_waiting_def claimable_def close_is_stale_def)





end
