(* ===== verification/Signals.thy ===== *)
theory Signals
  imports Parser Order_System
begin

text \<open>
  \<open>internal/signals\<close> and \<open>internal/campaignexec/placer.go\<close>: from a market signal and an advisor's
  decision to an order. A decision is turned into a command of the parser's grammar and parsed; the
  processor prepares it and, when automatic trading is on, confirms it. The advisor and the signal
  store are arguments.
\<close>

section \<open>Signals and decisions\<close>

record market_signal =
  ms_Source :: string
  ms_Symbol :: string
  ms_Interval :: string
  ms_Price :: string
  ms_Strategy :: string
  ms_ActionHint :: string
  ms_SideHint :: string
  ms_Message :: string
  ms_Indicators :: "(string \<Rightarrow> string option) option"
  ms_ReceivedAt :: time

record decision =
  dn_Action :: string
  dn_Symbol :: string
  dn_Strategy :: string
  dn_Side :: string
  dn_Leverage :: int
  dn_Entry :: string
  dn_StopLoss :: string
  dn_TakeProfit :: string
  dn_SizeUSDT :: string
  dn_Qty :: string
  dn_ClosePercent :: string
  dn_ConfidencePercent :: int
  dn_Reason :: string
  dn_Models :: "string list"

definition no_decision :: decision where
  "no_decision = \<lparr>dn_Action = [], dn_Symbol = [], dn_Strategy = [], dn_Side = [], dn_Leverage = 0, dn_Entry = [],
     dn_StopLoss = [], dn_TakeProfit = [], dn_SizeUSDT = [], dn_Qty = [], dn_ClosePercent = [],
     dn_ConfidencePercent = 0, dn_Reason = [], dn_Models = []\<rparr>"

datatype decision_error =
    DecisionAction | DecisionSide | DecisionLeverage | DecisionSize | DecisionParse parse_error
  | SignalSymbolRequired | SignalPrice | AdvisorFailed string | DecisionOrder order_error | DecisionNoOrder

definition signals_normalizeSymbol :: "string \<Rightarrow> string" where
  "signals_normalizeSymbol symbol =
     (let v = remove_char (CHR ''/'') (to_upper (trim_space symbol))
      in if v \<noteq> [] \<and> \<not> has_suffix v ''USDT'' then v @ ''USDT'' else v)"

definition Sanitized :: "time \<Rightarrow> market_signal \<Rightarrow> market_signal" where
  "Sanitized now s =
     (let s = s\<lparr>ms_Source := trim_space (ms_Source s)\<rparr>;
          s = (if ms_Source s = [] then s\<lparr>ms_Source := ''tradingview''\<rparr> else s);
          s = s\<lparr>ms_Symbol := signals_normalizeSymbol (ms_Symbol s), ms_Interval := trim_space (ms_Interval s),
                ms_Price := trim_space (ms_Price s), ms_Strategy := trim_space (ms_Strategy s),
                ms_ActionHint := to_lower (trim_space (ms_ActionHint s)),
                ms_SideHint := to_lower (trim_space (ms_SideHint s)), ms_Message := trim_space (ms_Message s)\<rparr>;
          s = (if ms_Indicators s = None then s\<lparr>ms_Indicators := Some (\<lambda>_. None)\<rparr> else s)
      in if is_zero_time (ms_ReceivedAt s) then s\<lparr>ms_ReceivedAt := now\<rparr> else s)"

definition signal_Validate :: "market_signal \<Rightarrow> decision_error option" where
  "signal_Validate s =
     (if trim_space (ms_Symbol s) = [] then Some SignalSymbolRequired
      else if trim_space (ms_Price s) \<noteq> [] then
        (case dec_Parse (ms_Price s) of
           Inl _ \<Rightarrow> Some SignalPrice | Inr p \<Rightarrow> if \<not> dec_IsPositive p then Some SignalPrice else None)
      else None)"

definition open_command :: "string \<Rightarrow> decision \<Rightarrow> string \<Rightarrow> string" where
  "open_command sd d sz =
     sd @ '' '' @ dn_Symbol d @ '' '' @ show_int (dn_Leverage d) @ ''x entry '' @ trim_space (dn_Entry d) @
     '' sl '' @ trim_space (dn_StopLoss d) @ '' tp '' @ trim_space (dn_TakeProfit d) @ '' '' @ sz"

definition openDecisionToIntent :: "decision \<Rightarrow> int \<Rightarrow> decision_error + intent" where
  "openDecisionToIntent d maxLeverage =
     (let sd = to_lower (trim_space (dn_Side d))
      in if sd \<noteq> ''long'' \<and> sd \<noteq> ''short'' then Inl DecisionSide
         else if dn_Leverage d \<le> 0 then Inl DecisionLeverage
         else bindE (if trim_space (dn_SizeUSDT d) \<noteq> [] then Inr (''size '' @ trim_space (dn_SizeUSDT d) @ ''usdt'')
                     else if trim_space (dn_Qty d) \<noteq> [] then Inr (''qty '' @ trim_space (dn_Qty d))
                     else Inl DecisionSize) (\<lambda>size.
              bindE (map_err DecisionParse (parse_command (open_command sd d size) maxLeverage)) (\<lambda>i.
                Inr (case i_Open i of
                       None \<Rightarrow> i
                     | Some oi \<Rightarrow> i\<lparr>i_Open := Some (oi\<lparr>oi_Strategy := trim_space (dn_Strategy d), oi_Models := dn_Models d,
                         oi_Reason := trim_space (dn_Reason d), oi_Confidence := dn_ConfidencePercent d\<rparr>)\<rparr>))))"

definition closeDecisionToIntent :: "decision \<Rightarrow> decision_error + intent" where
  "closeDecisionToIntent d =
     (if equal_fold (trim_space (dn_Symbol d)) ''all'' then map_err DecisionParse (parse_command ''close all'' 0)
      else let command = ''close '' @ trim_space (dn_Symbol d);
               command = (if trim_space (dn_ClosePercent d) \<noteq> [] then command @ '' '' @ trim_space (dn_ClosePercent d) @ ''%''
                          else command)
           in map_err DecisionParse (parse_command command 0))"

definition DecisionToIntent :: "decision \<Rightarrow> int \<Rightarrow> decision_error + intent" where
  "DecisionToIntent d maxLeverage =
     (let action = to_lower (trim_space (dn_Action d))
      in if action = ''hold'' then Inr (no_intent\<lparr>i_Type := IntentStatus, i_RawText := ''status''\<rparr>)
         else if action = ''open'' then openDecisionToIntent d maxLeverage
         else if action = ''close'' then closeDecisionToIntent d
         else Inl DecisionAction)"

section \<open>The processor\<close>

datatype signal_status =
    SignalStatusAccepted | SignalStatusHeld | SignalStatusRejected | SignalStatusConfirmationRequired
  | SignalStatusExecuted | SignalStatusFailed

record signal_record =
  sr_Signal :: market_signal
  sr_Decision :: decision
  sr_Status :: signal_status
  sr_Message :: string
  sr_ConfirmationID :: string
  sr_ExecutionMode :: string
  sr_ClientOrderID :: string
  sr_CreatedAt :: time
  sr_UpdatedAt :: time

record process_result =
  pr_Signal :: market_signal
  pr_Decision :: decision
  pr_Accepted :: bool
  pr_Executed :: bool
  pr_Execution :: "exec_result option"
  pr_ConfirmationID :: string
  pr_ConfirmationNeeded :: bool
  pr_Message :: string

record ('s, 'i, 'j, 'x) processor =
  ps_advisor :: "(market_signal \<Rightarrow> string + decision) option"
  ps_orders :: "('s, 'i, 'j, 'x) service option"
  ps_storeFails :: "signal_record \<Rightarrow> bool"
  ps_adminUserID :: int
  ps_maxLeverage :: int
  ps_minConfidence :: int
  ps_autoTrade :: bool

definition NewProcessor ::
    "(market_signal \<Rightarrow> string + decision) option \<Rightarrow> ('s, 'i, 'j, 'x) service option \<Rightarrow> (signal_record \<Rightarrow> bool) option \<Rightarrow>
     int \<Rightarrow> int \<Rightarrow> int \<Rightarrow> bool \<Rightarrow> ('s, 'i, 'j, 'x) processor" where
  "NewProcessor advisor sv store admin maxLeverage minConfidence auto1 =
     \<lparr>ps_advisor = advisor, ps_orders = sv, ps_storeFails = (case store of None \<Rightarrow> (\<lambda>_. False) | Some f \<Rightarrow> f),
      ps_adminUserID = admin, ps_maxLeverage = (if maxLeverage \<le> 0 then 20 else maxLeverage),
      ps_minConfidence = (let m = (if minConfidence < 0 then 0 else minConfidence) in if m > 100 then 100 else m),
      ps_autoTrade = auto1\<rparr>"

definition signal_record_of :: "time \<Rightarrow> process_result \<Rightarrow> signal_status \<Rightarrow> signal_record" where
  "signal_record_of now r status =
     (let ts = (if is_zero_time (ms_ReceivedAt (pr_Signal r)) then now else ms_ReceivedAt (pr_Signal r))
      in \<lparr>sr_Signal = pr_Signal r, sr_Decision = pr_Decision r, sr_Status = status, sr_Message = pr_Message r,
          sr_ConfirmationID = pr_ConfirmationID r,
          sr_ExecutionMode = (case pr_Execution r of None \<Rightarrow> [] | Some e \<Rightarrow> er_Mode e),
          sr_ClientOrderID = (case pr_Execution r of None \<Rightarrow> [] | Some e \<Rightarrow> er_ClientOrderID e),
          sr_CreatedAt = ts, sr_UpdatedAt = ts\<rparr>)"

definition recordSignal ::
    "('s, 'i, 'j, 'x) processor \<Rightarrow> time \<Rightarrow> process_result \<Rightarrow> signal_status \<Rightarrow> signal_record list \<Rightarrow> signal_record list" where
  "recordSignal p now r status recs =
     (let rec = signal_record_of now r status in if ps_storeFails p rec then recs else recs @ [rec])"

definition no_process_result :: "market_signal \<Rightarrow> decision \<Rightarrow> process_result" where
  "no_process_result s d = \<lparr>pr_Signal = s, pr_Decision = d, pr_Accepted = False, pr_Executed = False,
     pr_Execution = None, pr_ConfirmationID = [], pr_ConfirmationNeeded = False, pr_Message = []\<rparr>"

record process_env =
  pe_now :: time
  pe_hash :: "intent \<Rightarrow> string + string"
  pe_rnd :: "nat \<Rightarrow> string + string"
  pe_clk :: "nat \<Rightarrow> nat \<Rightarrow> time"
  pe_errText :: "decision_error \<Rightarrow> string"

text \<open>\<open>Process\<close>, in three parts: normalising the advice, acting on a parsed intent, and the whole.\<close>

definition advised :: "market_signal \<Rightarrow> decision \<Rightarrow> decision" where
  "advised s d =
     (let y = signals_normalizeSymbol (dn_Symbol d)
      in d\<lparr>dn_Action := to_lower (trim_space (dn_Action d)), dn_Symbol := if y = [] then ms_Symbol s else y\<rparr>)"

definition process_intent ::
    "('s, 'i, 'j, 'x) processor \<Rightarrow> process_env \<Rightarrow> process_result \<Rightarrow> intent \<Rightarrow>
     signal_record list \<times> ('s, 'i, 'j, 'x) world \<Rightarrow>
     (decision_error + process_result) \<times> signal_record list \<times> ('s, 'i, 'j, 'x) world" where
  "process_intent p env r i st =
     (let (recs, w) = st; record1 = (\<lambda>r status. recordSignal p (pe_now env) r status recs) in
      case ps_orders p of
        None \<Rightarrow> let r = r\<lparr>pr_Message := ''Signal accepted. Order service is not connected.''\<rparr>
                in (Inr r, record1 r SignalStatusAccepted, w)
      | Some sv \<Rightarrow>
        (case prepare sv (pe_hash env) (pe_rnd env 0) (pe_rnd env 1) (pe_clk env 0) (ps_adminUserID p) i [] w of
           (Inl e, w) \<Rightarrow> (Inl (DecisionOrder e), record1 (r\<lparr>pr_Message := order_error_text e\<rparr>) SignalStatusFailed, w)
         | (Inr c, w) \<Rightarrow>
           let r = r\<lparr>pr_ConfirmationID := c_ID c\<rparr>
           in if \<not> ps_autoTrade p then
                let r = r\<lparr>pr_ConfirmationNeeded := True,
                          pr_Message := ''Signal accepted. Confirmation is required before execution.''\<rparr>
                in (Inr r, record1 r SignalStatusConfirmationRequired, w)
              else case confirm sv (pe_clk env 1) (ps_adminUserID p) (c_ID c) False w of
                (Inl e, w) \<Rightarrow> (Inl (DecisionOrder e), record1 (r\<lparr>pr_Message := order_error_text e\<rparr>) SignalStatusFailed, w)
              | (Inr x, w) \<Rightarrow>
                  let r = r\<lparr>pr_Executed := True, pr_Execution := Some x,
                            pr_Message := ''Signal accepted and executed by autonomous testnet/dry-run flow.''\<rparr>
                  in (Inr r, record1 r SignalStatusExecuted, w)))"

definition Process ::
    "('s, 'i, 'j, 'x) processor \<Rightarrow> process_env \<Rightarrow> market_signal \<Rightarrow> signal_record list \<times> ('s, 'i, 'j, 'x) world \<Rightarrow>
     (decision_error + process_result) \<times> signal_record list \<times> ('s, 'i, 'j, 'x) world" where
  "Process p env sig st =
     (let (recs, w) = st; now = pe_now env; s = Sanitized now sig; record1 = (\<lambda>r status. recordSignal p now r status recs) in
      case signal_Validate s of Some e \<Rightarrow> (Inl e, recs, w) | None \<Rightarrow>
      case ps_advisor p of
        None \<Rightarrow>
          let r = (no_process_result s (no_decision\<lparr>dn_Action := ''hold'', dn_Symbol := ms_Symbol s, dn_Reason := ''AI advisor is disabled.''\<rparr>))
                    \<lparr>pr_Accepted := True, pr_Message := ''Signal accepted. AI advisor is disabled.''\<rparr>
          in (Inr r, record1 r SignalStatusHeld, w)
      | Some advise \<Rightarrow>
      case advise s of
        Inl m \<Rightarrow> (Inl (AdvisorFailed m), record1 ((no_process_result s no_decision)\<lparr>pr_Message := m\<rparr>) SignalStatusFailed, w)
      | Inr d0 \<Rightarrow>
        let d = advised s d0; r = (no_process_result s d)\<lparr>pr_Accepted := True\<rparr>
        in if dn_Action d = ''hold'' then
             let r = r\<lparr>pr_Message := ''Signal accepted. AI decision is hold.''\<rparr> in (Inr r, record1 r SignalStatusHeld, w)
           else if dn_ConfidencePercent d < ps_minConfidence p then
             let r = r\<lparr>pr_Message := ''Signal accepted. AI confidence '' @ show_int (dn_ConfidencePercent d) @
                        ''% is below minimum '' @ show_int (ps_minConfidence p) @ ''%.''\<rparr>
             in (Inr r, record1 r SignalStatusRejected, w)
           else case DecisionToIntent d (ps_maxLeverage p) of
             Inl e \<Rightarrow> (Inl e, record1 (r\<lparr>pr_Message := pe_errText env e\<rparr>) SignalStatusFailed, w)
           | Inr i \<Rightarrow> process_intent p env r i st)"

section \<open>The campaign's placer\<close>

definition NewServicePlacer :: "int \<Rightarrow> int" where
  "NewServicePlacer maxLeverage = (if maxLeverage \<le> 0 then 20 else maxLeverage)"

definition Place ::
    "('s, 'i, 'j, 'x) service \<Rightarrow> int \<Rightarrow> process_env \<Rightarrow> int \<Rightarrow> decision \<Rightarrow> ('s, 'i, 'j, 'x) world \<Rightarrow>
     (decision_error + string) \<times> ('s, 'i, 'j, 'x) world" where
  "Place sv maxLeverage env userID d w =
     (case DecisionToIntent d maxLeverage of
        Inl e \<Rightarrow> (Inl e, w)
      | Inr i \<Rightarrow>
          if \<not> IsExchangeChanging i then (Inl DecisionNoOrder, w)
          else case prepare sv (pe_hash env) (pe_rnd env 0) (pe_rnd env 1) (pe_clk env 0) userID i [] w of
                 (Inl e, w) \<Rightarrow> (Inl (DecisionOrder e), w)
               | (Inr c, w) \<Rightarrow>
                   (case confirm sv (pe_clk env 1) userID (c_ID c) False w of
                      (Inl e, w) \<Rightarrow> (Inl (DecisionOrder e), w)
                    | (Inr r, w) \<Rightarrow> (Inr (er_ClientOrderID r), w)))"

section \<open>What decisions may become\<close>

lemma parse_command_valid_intent:
  assumes "parse_command text m = Inr i"
  shows "valid_intent (parser_New m) i \<and> i_RawText i = trim_space text"
  using assms unfolding parse_command_def parser_Parse_def Let_def
  by (auto split: if_splits list.splits dest: command_valid command_raw
      simp: valid_intent_def no_intent_def)

text \<open>Filling in the strategy of an open intent keeps it well formed.\<close>

lemma valid_intent_annotate:
  assumes "valid_intent m i" "i_Open i = Some oi"
  shows "valid_intent m (i\<lparr>i_Open := Some (oi\<lparr>oi_Strategy := a, oi_Models := b, oi_Reason := c, oi_Confidence := d\<rparr>)\<rparr>)"
  using assms by (auto simp: valid_intent_def valid_open_def split: intent_type.splits)

lemma openDecision_valid:
  assumes "openDecisionToIntent d m = Inr i"
  shows "valid_intent (parser_New m) i"
  using assms parse_command_valid_intent valid_intent_annotate
  by (fastforce simp: openDecisionToIntent_def Let_def split: if_splits option.splits)

lemma closeDecision_valid: "closeDecisionToIntent d = Inr i \<Longrightarrow> valid_intent 20 i"
  using parse_command_valid_intent [of _ 0 i]
  by (auto simp: closeDecisionToIntent_def Let_def parser_New_def split: if_splits)

lemma DecisionToIntent_valid:
  assumes "DecisionToIntent d m = Inr i"
  shows "valid_intent (if to_lower (trim_space (dn_Action d)) = ''close'' then 20 else parser_New m) i"
  using assms openDecision_valid closeDecision_valid
  by (auto simp: DecisionToIntent_def Let_def valid_intent_def no_intent_def split: if_splits)

section \<open>When the processor acts\<close>

lemma process_intent_acts:
  assumes "w_exch (snd (snd (process_intent p env r i (recs, w)))) \<noteq> w_exch w"
  shows "ps_autoTrade p"
proof (rule ccontr)
  assume "\<not> ps_autoTrade p"
  then have "w_exch (snd (snd (process_intent p env r i (recs, w)))) = w_exch w"
    unfolding process_intent_def
    by (auto simp: Let_def split: option.splits prod.splits sum.splits dest!: prepare_exch')
  with assms show False by simp
qed


text \<open>An autonomous processor whose advisor opens a long position.\<close>

definition ex_processor :: "(mem_store, unit, unit, confirmation list) processor" where
  "ex_processor = NewProcessor
     (Some (\<lambda>_. Inr (no_decision\<lparr>dn_Action := ''OPEN'', dn_Side := ''long'', dn_Symbol := ''btc'', dn_Leverage := 3,
        dn_Entry := ''100'', dn_StopLoss := ''95'', dn_TakeProfit := ''110'', dn_SizeUSDT := ''50'', dn_ConfidencePercent := 80\<rparr>)))
     (Some (NewServiceWithRepositories 0
        (Some \<lparr>ex_Execute = (\<lambda>c x. (Inr (no_result\<lparr>er_Mode := ''live''\<rparr>), x @ [c])), ex_Positions = None, ex_RealizedTrade = None\<rparr>)
        (memory_conf_store []) None None None None)) None 7 0 70 True"

definition ex_signal :: market_signal where
  "ex_signal = \<lparr>ms_Source = [], ms_Symbol = ''btc/usdt'', ms_Interval = ''4h'', ms_Price = '' 100.5 '', ms_Strategy = [],
     ms_ActionHint = [], ms_SideHint = [], ms_Message = [], ms_Indicators = None, ms_ReceivedAt = 0\<rparr>"

definition ex_process_env :: process_env where
  "ex_process_env = \<lparr>pe_now = 900, pe_hash = (\<lambda>_. Inr ''h''), pe_rnd = (\<lambda>n. Inr (if n = 0 then ''k1'' else ''k2'')),
     pe_clk = (\<lambda>_ _. 900), pe_errText = (\<lambda>_. ''error'')\<rparr>"

definition ex_pworld :: "(mem_store, unit, unit, confirmation list) world" where
  "ex_pworld = \<lparr>w_store = (\<lambda>_. None), w_intents = (), w_journal = (), w_exch = [], w_audit = []\<rparr>"


end
