(* ===== verification/Access.thy ===== *)
theory Access
  imports Mongo_Driver
begin

text \<open>
  \<open>internal/api/access.go\<close> and \<open>tiers.go\<close> with the MongoDB store of \<open>internal/app/access.go\<close>: who may use
  the application, who is an admin, which founders were minted and how much of the daily allowance
  is left. The two stores meet the contract \<open>access_control\<close>, and the handlers' guarantees are proved once
  from it. A handler's reply is its HTTP status and what the JSON body says.
\<close>

section \<open>Records and limits\<close>

record access_record =
  ac_Subject :: string
  ac_Name :: string
  ac_Status :: string
  ac_Tier :: string
  ac_Role :: string
  ac_FounderNumber :: int
  ac_RequestedAt :: time
  ac_ApprovedAt :: time

definition no_access :: access_record where
  "no_access = \<lparr>ac_Subject = [], ac_Name = [], ac_Status = [], ac_Tier = [], ac_Role = [], ac_FounderNumber = 0,
     ac_RequestedAt = 0, ac_ApprovedAt = 0\<rparr>"

definition accessRequested :: string where "accessRequested = ''requested''"
definition accessApproved :: string where "accessApproved = ''approved''"
definition accessRevoked :: string where "accessRevoked = ''revoked''"
definition roleAdmin :: string where "roleAdmin = ''admin''"
definition MissionZeroCap :: int where "MissionZeroCap = 32"

definition TierFree :: string where "TierFree = ''free''"
definition TierCaptain :: string where "TierCaptain = ''captain''"
definition TierCommander :: string where "TierCommander = ''commander''"

lemmas access_names = accessRequested_def accessApproved_def accessRevoked_def roleAdmin_def
  TierFree_def TierCaptain_def TierCommander_def

record tier_limits =
  tl_AIPerDay :: int
  tl_MissionsPerDay :: int

definition tierLimits :: "string \<Rightarrow> tier_limits option" where
  "tierLimits t =
     (if t = TierFree then Some \<lparr>tl_AIPerDay = 10, tl_MissionsPerDay = 5\<rparr>
      else if t = TierCaptain then Some \<lparr>tl_AIPerDay = 200, tl_MissionsPerDay = 50\<rparr>
      else if t = TierCommander then Some \<lparr>tl_AIPerDay = - 1, tl_MissionsPerDay = - 1\<rparr>
      else None)"

definition limitsFor :: "string \<Rightarrow> tier_limits" where
  "limitsFor t = (case tierLimits t of Some l \<Rightarrow> l | None \<Rightarrow> the (tierLimits TierFree))"

definition tierTitle :: "string \<Rightarrow> string" where
  "tierTitle t = (if t = TierCaptain then ''Captain'' else if t = TierCommander then ''Commander'' else ''Crew (free)'')"

definition validTier :: "string \<Rightarrow> bool" where
  "validTier t \<longleftrightarrow> tierLimits t \<noteq> None"

text \<open>The in-process usage counters, by subject, day and kind; \<open>day\<close> is \<open>today()\<close>.\<close>

type_synonym usage = "string \<Rightarrow> int"

definition usageKey :: "string \<Rightarrow> string \<Rightarrow> string \<Rightarrow> string" where
  "usageKey day subject kind = subject @ ''|'' @ day @ ''|'' @ kind"

definition usage_Get :: "string \<Rightarrow> usage \<Rightarrow> string \<Rightarrow> string \<Rightarrow> int" where
  "usage_Get day m subject kind = m (usageKey day subject kind)"

definition usage_Incr :: "string \<Rightarrow> usage \<Rightarrow> string \<Rightarrow> string \<Rightarrow> usage" where
  "usage_Incr day m subject kind = (let k = usageKey day subject kind in m(k := m k + 1))"

section \<open>The store\<close>

record 's access_store =
  acs_Get :: "string \<Rightarrow> 's \<Rightarrow> string + access_record option"
  acs_Request :: "string \<Rightarrow> string \<Rightarrow> time \<Rightarrow> 's \<Rightarrow> string option \<times> 's"
  acs_Approve :: "string \<Rightarrow> time \<Rightarrow> 's \<Rightarrow> string option \<times> 's"
  acs_Revoke :: "string \<Rightarrow> 's \<Rightarrow> string option \<times> 's"
  acs_SetTier :: "string \<Rightarrow> string \<Rightarrow> 's \<Rightarrow> string option \<times> 's"
  acs_SetRole :: "string \<Rightarrow> string \<Rightarrow> 's \<Rightarrow> string option \<times> 's"
  acs_Pending :: "'s \<Rightarrow> string + access_record list"
  acs_All :: "'s \<Rightarrow> string + access_record list"
  acs_AssignFounder :: "string \<Rightarrow> int \<Rightarrow> 's \<Rightarrow> (string + int) \<times> 's"

text \<open>A lookup in a Go map of records: the zero record where there is none.\<close>

definition rec_at :: "(string \<Rightarrow> access_record option) \<Rightarrow> string \<Rightarrow> access_record" where
  "rec_at m k = (case m k of None \<Rightarrow> no_access | Some r \<Rightarrow> r)"

lemma rec_at_simps [simp]: "m k = Some r \<Longrightarrow> rec_at m k = r" "m k = None \<Longrightarrow> rec_at m k = no_access"
  "rec_at (m(k \<mapsto> r)) k = r" "k \<noteq> j \<Longrightarrow> rec_at (m(k \<mapsto> r)) j = rec_at m j"
  by (simp_all add: rec_at_def)

subsection \<open>In memory\<close>

type_synonym mem_access = "string \<Rightarrow> access_record option"

definition mac_Request :: "string \<Rightarrow> string \<Rightarrow> time \<Rightarrow> mem_access \<Rightarrow> string option \<times> mem_access" where
  "mac_Request subject nm now s =
     (if s subject \<noteq> None \<and> ac_Status (rec_at s subject) = accessApproved then (None, s)
      else (None, s(subject \<mapsto> no_access\<lparr>ac_Subject := subject, ac_Name := nm, ac_Status := accessRequested,
                                        ac_RequestedAt := now\<rparr>)))"

definition mac_Approve :: "string \<Rightarrow> time \<Rightarrow> mem_access \<Rightarrow> string option \<times> mem_access" where
  "mac_Approve subject now s =
     (let r = (rec_at s subject)\<lparr>ac_Subject := subject, ac_Status := accessApproved\<rparr>;
          r = (if ac_Tier r = [] then r\<lparr>ac_Tier := TierFree\<rparr> else r)
      in (None, s(subject \<mapsto> r\<lparr>ac_ApprovedAt := now\<rparr>)))"

definition mac_Revoke :: "string \<Rightarrow> mem_access \<Rightarrow> string option \<times> mem_access" where
  "mac_Revoke subject s = (None, s(subject \<mapsto> (rec_at s subject)\<lparr>ac_Subject := subject, ac_Status := accessRevoked\<rparr>))"

definition mac_SetTier :: "string \<Rightarrow> string \<Rightarrow> mem_access \<Rightarrow> string option \<times> mem_access" where
  "mac_SetTier subject tier s =
     (let r = (rec_at s subject)\<lparr>ac_Subject := subject\<rparr>;
          r = (if ac_Status r = [] then r\<lparr>ac_Status := accessApproved\<rparr> else r)
      in (None, s(subject \<mapsto> r\<lparr>ac_Tier := tier\<rparr>)))"

definition mac_SetRole :: "string \<Rightarrow> string \<Rightarrow> mem_access \<Rightarrow> string option \<times> mem_access" where
  "mac_SetRole subject role s =
     (let r = (rec_at s subject)\<lparr>ac_Subject := subject\<rparr>;
          r = (if ac_Status r = [] then r\<lparr>ac_Status := accessApproved\<rparr> else r)
      in (None, s(subject \<mapsto> r\<lparr>ac_Role := role\<rparr>)))"

text \<open>
  The map is visited in an unspecified order, \<open>order\<close>, so the unspecified order of \<open>sort.Slice\<close> on equal
  times needs no argument of its own.
\<close>

definition rows_in :: "string list \<Rightarrow> mem_access \<Rightarrow> access_record list" where
  "rows_in order s = concat (map (\<lambda>k. case s k of None \<Rightarrow> [] | Some r \<Rightarrow> [r]) order)"

definition mac_Pending :: "string list \<Rightarrow> mem_access \<Rightarrow> string + access_record list" where
  "mac_Pending order s =
     Inr (sort_key ac_RequestedAt (filter (\<lambda>r. ac_Status r = accessRequested) (rows_in order s)))"

definition mac_All :: "string list \<Rightarrow> mem_access \<Rightarrow> string + access_record list" where
  "mac_All order s = Inr (sort_key (\<lambda>r. - ac_RequestedAt r) (rows_in order s))"

definition max_founder :: "access_record list \<Rightarrow> int" where
  "max_founder rs = foldl (\<lambda>m r. if ac_FounderNumber r > m then ac_FounderNumber r else m) 0 rs"

definition mac_AssignFounder :: "string list \<Rightarrow> string \<Rightarrow> int \<Rightarrow> mem_access \<Rightarrow> (string + int) \<times> mem_access" where
  "mac_AssignFounder order subject limit s =
     (let r = rec_at s subject in
      if ac_FounderNumber r > 0 then (Inr (ac_FounderNumber r), s)
      else let mx = max_founder (rows_in order s) in
           if mx \<ge> limit then (Inr 0, s)
           else let r = r\<lparr>ac_Subject := subject, ac_FounderNumber := mx + 1\<rparr>
                in (Inr (ac_FounderNumber r), s(subject \<mapsto> r)))"

definition memory_access :: "string list \<Rightarrow> mem_access access_store" where
  "memory_access order =
     \<lparr>acs_Get = (\<lambda>k s. Inr (s k)), acs_Request = mac_Request, acs_Approve = mac_Approve, acs_Revoke = mac_Revoke,
      acs_SetTier = mac_SetTier, acs_SetRole = mac_SetRole, acs_Pending = mac_Pending order,
      acs_All = mac_All order, acs_AssignFounder = mac_AssignFounder order\<rparr>"

subsection \<open>In MongoDB\<close>

type_synonym 'c access_driver = "('c, access_record) driver"

definition gac_Request :: "'c access_driver \<Rightarrow> string \<Rightarrow> string \<Rightarrow> time \<Rightarrow> 'c \<Rightarrow> string option \<times> 'c" where
  "gac_Request drv subject nm now c =
     (let set = (\<lambda>r. r\<lparr>ac_Name := nm, ac_Status := accessRequested, ac_RequestedAt := now\<rparr>)
      in case dr_UpsertWhere drv subject (\<lambda>r. ac_Status r \<noteq> accessApproved)
                (set (no_access\<lparr>ac_Subject := subject\<rparr>)) set c of
           (UpsertDone, c) \<Rightarrow> (None, c) | (UpsertDuplicate, c) \<Rightarrow> (None, c) | (UpsertFailed e, c) \<Rightarrow> (Some e, c))"

definition gac_Approve :: "'c access_driver \<Rightarrow> string \<Rightarrow> time \<Rightarrow> 'c \<Rightarrow> string option \<times> 'c" where
  "gac_Approve drv subject now =
     (let set = (\<lambda>r. r\<lparr>ac_Status := accessApproved, ac_ApprovedAt := now\<rparr>)
      in dr_UpsertOne drv subject (set (no_access\<lparr>ac_Subject := subject, ac_Tier := TierFree\<rparr>)) set)"

definition gac_Revoke :: "'c access_driver \<Rightarrow> string \<Rightarrow> 'c \<Rightarrow> string option \<times> 'c" where
  "gac_Revoke drv subject =
     (let set = (\<lambda>r. r\<lparr>ac_Status := accessRevoked\<rparr>)
      in dr_UpsertOne drv subject (set (no_access\<lparr>ac_Subject := subject\<rparr>)) set)"

definition gac_SetRole :: "'c access_driver \<Rightarrow> string \<Rightarrow> string \<Rightarrow> 'c \<Rightarrow> string option \<times> 'c" where
  "gac_SetRole drv subject role =
     (let set = (\<lambda>r. r\<lparr>ac_Role := role, ac_Status := accessApproved\<rparr>)
      in dr_UpsertOne drv subject (set (no_access\<lparr>ac_Subject := subject\<rparr>)) set)"

definition gac_SetTier :: "'c access_driver \<Rightarrow> string \<Rightarrow> string \<Rightarrow> 'c \<Rightarrow> string option \<times> 'c" where
  "gac_SetTier drv subject tier =
     (let set = (\<lambda>r. r\<lparr>ac_Tier := tier, ac_Status := accessApproved\<rparr>)
      in dr_UpsertOne drv subject (set (no_access\<lparr>ac_Subject := subject\<rparr>)) set)"

text \<open>
  \<open>AssignFounder\<close> first reads: the founder's own number, else the next one; \<open>FounderKept n\<close> writes nothing.
  The error of the first read is swallowed.
\<close>

datatype founder_plan = FounderKept int | FounderNext int

definition gac_founder_plan :: "'c access_driver \<Rightarrow> string \<Rightarrow> int \<Rightarrow> 'c \<Rightarrow> string + founder_plan" where
  "gac_founder_plan drv subject limit c =
     (let own = (case dr_FindOne drv subject (\<lambda>_. True) c of
                   Inr (Some r) \<Rightarrow> if ac_FounderNumber r > 0 then ac_FounderNumber r else 0 | _ \<Rightarrow> 0)
      in if own > 0 then Inr (FounderKept own)
         else case dr_FindSorted drv (\<lambda>r. ac_FounderNumber r > 0) (\<lambda>r. - ac_FounderNumber r) 1 c of
           Inl e \<Rightarrow> Inl e
         | Inr rs \<Rightarrow>
             let mx = (case rs of [] \<Rightarrow> 0 | r # _ \<Rightarrow> ac_FounderNumber r)
             in if mx \<ge> limit then Inr (FounderKept 0) else Inr (FounderNext (mx + 1)))"

definition gac_founder_write :: "'c access_driver \<Rightarrow> string \<Rightarrow> int \<Rightarrow> 'c \<Rightarrow> (string + int) \<times> 'c" where
  "gac_founder_write drv subject n c =
     (case dr_UpsertOne drv subject (no_access\<lparr>ac_Subject := subject, ac_FounderNumber := n\<rparr>)
             (\<lambda>r. r\<lparr>ac_FounderNumber := n\<rparr>) c of
        (Some e, c) \<Rightarrow> (Inl e, c) | (None, c) \<Rightarrow> (Inr n, c))"

definition gac_AssignFounder :: "'c access_driver \<Rightarrow> string \<Rightarrow> int \<Rightarrow> 'c \<Rightarrow> (string + int) \<times> 'c" where
  "gac_AssignFounder drv subject limit c =
     (case gac_founder_plan drv subject limit c of
        Inl e \<Rightarrow> (Inl e, c)
      | Inr (FounderKept n) \<Rightarrow> (Inr n, c)
      | Inr (FounderNext n) \<Rightarrow> gac_founder_write drv subject n c)"

definition mongo_access :: "'c access_driver \<Rightarrow> 'c access_store" where
  "mongo_access drv =
     \<lparr>acs_Get = (\<lambda>k. dr_FindOne drv k (\<lambda>_. True)), acs_Request = gac_Request drv, acs_Approve = gac_Approve drv,
      acs_Revoke = gac_Revoke drv, acs_SetTier = gac_SetTier drv, acs_SetRole = gac_SetRole drv,
      acs_Pending = dr_FindSorted drv (\<lambda>r. ac_Status r = accessRequested) ac_RequestedAt 200,
      acs_All = dr_FindSorted drv (\<lambda>_. True) (\<lambda>r. - ac_RequestedAt r) 1000,
      acs_AssignFounder = gac_AssignFounder drv\<rparr>"

section \<open>Who is admitted\<close>

record access_config =
  cf_AdminUserID :: int
  cf_PrivateBeta :: bool
  cf_AccessOpen :: bool

definition isAdminSubject :: "access_config \<Rightarrow> string \<Rightarrow> bool" where
  "isAdminSubject cfg subject \<longleftrightarrow>
     cf_AdminUserID cfg \<noteq> 0 \<and> subject = ''tg:'' @ show_int (cf_AdminUserID cfg)"

definition isAdmin :: "access_config \<Rightarrow> 's access_store option \<Rightarrow> string \<Rightarrow> 's \<Rightarrow> bool" where
  "isAdmin cfg access subject s \<longleftrightarrow>
     isAdminSubject cfg subject \<or>
     (case access of
        None \<Rightarrow> False
      | Some ops \<Rightarrow> (case acs_Get ops subject s of Inr (Some r) \<Rightarrow> ac_Role r = roleAdmin | _ \<Rightarrow> False))"

definition approved :: "access_config \<Rightarrow> 's access_store \<Rightarrow> string \<Rightarrow> 's \<Rightarrow> bool" where
  "approved cfg ops subject s \<longleftrightarrow>
     cf_AccessOpen cfg \<or> isAdmin cfg (Some ops) subject s \<or>
     (case acs_Get ops subject s of Inr (Some r) \<Rightarrow> ac_Status r = accessApproved | _ \<Rightarrow> False)"

definition aiFreeForSubject :: "access_config \<Rightarrow> 's access_store \<Rightarrow> string \<Rightarrow> 's \<Rightarrow> bool" where
  "aiFreeForSubject cfg ops subject s \<longleftrightarrow>
     isAdminSubject cfg subject \<or>
     cf_PrivateBeta cfg \<and>
       (case acs_Get ops subject s of Inr (Some r) \<Rightarrow> ac_Status r = accessApproved | _ \<Rightarrow> False)"

definition tierOfSubject :: "access_config \<Rightarrow> 's access_store option \<Rightarrow> string \<Rightarrow> 's \<Rightarrow> string" where
  "tierOfSubject cfg access subject s =
     (if isAdminSubject cfg subject then TierCommander
      else case access of
             None \<Rightarrow> TierFree
           | Some ops \<Rightarrow>
               (case acs_Get ops subject s of
                  Inr (Some r) \<Rightarrow>
                    if ac_Tier r = TierCaptain \<or> ac_Tier r = TierCommander then ac_Tier r
                    else if cf_PrivateBeta cfg \<and> ac_Status r = accessApproved then TierCommander
                    else if ac_FounderNumber r > 0 then TierCaptain
                    else if ac_Tier r \<noteq> [] then ac_Tier r else TierFree
                | _ \<Rightarrow> TierFree))"

definition allow ::
    "access_config \<Rightarrow> 's access_store option \<Rightarrow> string \<Rightarrow> usage \<Rightarrow> string \<Rightarrow> string \<Rightarrow> 's \<Rightarrow> bool \<times> string" where
  "allow cfg access day usage subject kind s =
     (let tier = tierOfSubject cfg access subject s; lim = limitsFor tier;
          limit = (if kind = ''mission'' then tl_MissionsPerDay lim else tl_AIPerDay lim)
      in if limit < 0 then (True, [])
         else if usage_Get day usage subject kind \<ge> limit then
           (False, ''Daily '' @ (if kind = ''mission'' then ''live missions'' else ''AI runs'') @ '' limit ('' @ show_int limit @
              '') reached on the '' @ tierTitle tier @ '' plan '' @ emdash @ '' upgrade to Captain for more.'')
         else (True, []))"

section \<open>Handlers\<close>

datatype access_reply =
    AccessError int string
  | AccessRoleSet string string | AccessTierSet string string | AccessStatus string
  | AccessApproval string int | AccessRevocation string | AccessList "access_record list"

definition maybeAssignFounder :: "access_config \<Rightarrow> 's access_store option \<Rightarrow> string \<Rightarrow> 's \<Rightarrow> int \<times> 's" where
  "maybeAssignFounder cfg access subject s =
     (case access of
        None \<Rightarrow> (0, s)
      | Some ops \<Rightarrow>
          if \<not> cf_PrivateBeta cfg then (0, s)
          else case acs_AssignFounder ops subject MissionZeroCap s of (Inl _, s') \<Rightarrow> (0, s') | (Inr n, s') \<Rightarrow> (n, s'))"

text \<open>\<open>body\<close> is the decoded request, \<open>None\<close> when \<open>json.Unmarshal\<close> fails; \<open>caller\<close> the claims' subject.\<close>

definition handleAdminMakeAdmin ::
    "access_config \<Rightarrow> 's access_store \<Rightarrow> string \<Rightarrow> (string \<times> bool) option \<Rightarrow> 's \<Rightarrow> access_reply \<times> 's" where
  "handleAdminMakeAdmin cfg ops caller body s =
     (if \<not> isAdmin cfg (Some ops) caller s then (AccessError 403 ''admin only'', s)
      else case body of
        None \<Rightarrow> (AccessError 400 ''subject is required'', s)
      | Some (subject, demote) \<Rightarrow>
          if subject = [] then (AccessError 400 ''subject is required'', s)
          else if demote \<and> isAdminSubject cfg subject then (AccessError 400 ''cannot demote the root admin'', s)
          else let role = (if demote then [] else roleAdmin)
               in case acs_SetRole ops subject role s of
                    (Some _, s) \<Rightarrow> (AccessError 500 ''could not set role'', s)
                  | (None, s) \<Rightarrow> (AccessRoleSet subject role, s))"

definition handleAdminTier ::
    "access_config \<Rightarrow> 's access_store \<Rightarrow> string \<Rightarrow> (string \<times> string) option \<Rightarrow> 's \<Rightarrow> access_reply \<times> 's" where
  "handleAdminTier cfg ops caller body s =
     (if \<not> isAdmin cfg (Some ops) caller s then (AccessError 403 ''admin only'', s)
      else case body of
        None \<Rightarrow> (AccessError 400 ''subject and a valid tier (free|captain|commander) are required'', s)
      | Some (subject, tier) \<Rightarrow>
          if subject = [] \<or> \<not> validTier tier then
            (AccessError 400 ''subject and a valid tier (free|captain|commander) are required'', s)
          else case acs_SetTier ops subject tier s of
                 (Some _, s) \<Rightarrow> (AccessError 500 ''could not set tier'', s)
               | (None, s) \<Rightarrow> (AccessTierSet subject tier, s))"

definition handleAccessRequest ::
    "access_config \<Rightarrow> 's access_store \<Rightarrow> time \<Rightarrow> string \<Rightarrow> string \<Rightarrow> 's \<Rightarrow> access_reply \<times> 's" where
  "handleAccessRequest cfg ops now caller username s =
     (if approved cfg ops caller s then (AccessStatus accessApproved, s)
      else case acs_Request ops caller username now s of
             (Some _, s) \<Rightarrow> (AccessError 500 ''could not record request'', s)
           | (None, s) \<Rightarrow> (AccessStatus accessRequested, s))"

definition handleAdminMembers :: "access_config \<Rightarrow> 's access_store \<Rightarrow> string \<Rightarrow> 's \<Rightarrow> access_reply" where
  "handleAdminMembers cfg ops caller s =
     (if \<not> isAdmin cfg (Some ops) caller s then AccessError 403 ''admin only''
      else case acs_All ops s of Inl _ \<Rightarrow> AccessError 500 ''could not load members'' | Inr rs \<Rightarrow> AccessList rs)"

definition handleAdminPending :: "access_config \<Rightarrow> 's access_store \<Rightarrow> string \<Rightarrow> 's \<Rightarrow> access_reply" where
  "handleAdminPending cfg ops caller s =
     (if \<not> isAdmin cfg (Some ops) caller s then AccessError 403 ''admin only''
      else case acs_Pending ops s of Inl _ \<Rightarrow> AccessError 500 ''could not load requests'' | Inr rs \<Rightarrow> AccessList rs)"

definition handleAdminApprove ::
    "access_config \<Rightarrow> 's access_store \<Rightarrow> time \<Rightarrow> string \<Rightarrow> string option \<Rightarrow> 's \<Rightarrow> access_reply \<times> 's" where
  "handleAdminApprove cfg ops now caller body s =
     (if \<not> isAdmin cfg (Some ops) caller s then (AccessError 403 ''admin only'', s)
      else case body of
        None \<Rightarrow> (AccessError 400 ''subject is required'', s)
      | Some subject \<Rightarrow>
          if subject = [] then (AccessError 400 ''subject is required'', s)
          else case acs_Approve ops subject now s of
                 (Some _, s) \<Rightarrow> (AccessError 500 ''could not approve'', s)
               | (None, s) \<Rightarrow>
                   (case maybeAssignFounder cfg (Some ops) subject s of (n, s) \<Rightarrow> (AccessApproval subject n, s)))"

definition handleAdminRevoke ::
    "access_config \<Rightarrow> 's access_store \<Rightarrow> string \<Rightarrow> string option \<Rightarrow> 's \<Rightarrow> access_reply \<times> 's" where
  "handleAdminRevoke cfg ops caller body s =
     (if \<not> isAdmin cfg (Some ops) caller s then (AccessError 403 ''admin only'', s)
      else case body of
        None \<Rightarrow> (AccessError 400 ''subject is required'', s)
      | Some subject \<Rightarrow>
          if subject = [] then (AccessError 400 ''subject is required'', s)
          else if isAdminSubject cfg subject then (AccessError 400 ''cannot revoke the admin'', s)
          else case acs_Revoke ops subject s of
                 (Some _, s) \<Rightarrow> (AccessError 500 ''could not revoke'', s)
               | (None, s) \<Rightarrow> (AccessRevocation subject, s))"

text \<open>The Telegram side of the approvals: \<open>crewAdmin\<close> of \<open>internal/app/access.go\<close>.\<close>

definition crew_Approve :: "'s access_store \<Rightarrow> bool \<Rightarrow> string \<Rightarrow> time \<Rightarrow> 's \<Rightarrow> string option \<times> 's" where
  "crew_Approve ops privateBeta subject now s =
     (case acs_Approve ops subject now s of
        (Some e, s) \<Rightarrow> (Some e, s)
      | (None, s) \<Rightarrow> (None, if privateBeta then snd (acs_AssignFounder ops subject MissionZeroCap s) else s))"

text \<open>What the dashboard is told about the caller.\<close>

record me_view =
  me_Admin :: bool
  me_RootAdmin :: bool
  me_Founder :: bool
  me_FounderNumber :: int
  me_Approved :: bool
  me_Status :: string
  me_Tier :: string
  me_AILimit :: int
  me_AIUsed :: int
  me_MissionLimit :: int
  me_MissionUsed :: int

definition handleMe :: "access_config \<Rightarrow> 's access_store \<Rightarrow> string \<Rightarrow> usage \<Rightarrow> string \<Rightarrow> 's \<Rightarrow> me_view" where
  "handleMe cfg ops day usage subject s =
     (let admin = isAdmin cfg (Some ops) subject s;
          early = (admin \<or> cf_AccessOpen cfg);
          rec = (case acs_Get ops subject s of Inr (Some r) \<Rightarrow> Some r | _ \<Rightarrow> None);
          status = (if early then [] else case rec of None \<Rightarrow> [] | Some r \<Rightarrow> ac_Status r);
          tier = tierOfSubject cfg (Some ops) subject s; lim = limitsFor tier;
          n = (case rec of None \<Rightarrow> 0 | Some r \<Rightarrow> ac_FounderNumber r)
      in \<lparr>me_Admin = admin, me_RootAdmin = isAdminSubject cfg subject, me_Founder = (n > 0), me_FounderNumber = n,
          me_Approved = (early \<or> status = accessApproved), me_Status = status, me_Tier = tier,
          me_AILimit = (if aiFreeForSubject cfg ops subject s then - 1 else tl_AIPerDay lim),
          me_AIUsed = usage_Get day usage subject ''ai'', me_MissionLimit = tl_MissionsPerDay lim,
          me_MissionUsed = usage_Get day usage subject ''mission''\<rparr>)"

section \<open>Calls\<close>

text \<open>A call of a handler that may write: who calls, and with which body.\<close>

datatype access_call =
    CallMakeAdmin string "(string \<times> bool) option"
  | CallTier string "(string \<times> string) option"
  | CallRequest string string time
  | CallApprove string "string option" time
  | CallRevoke string "string option"

fun caller_of :: "access_call \<Rightarrow> string" where
  "caller_of (CallMakeAdmin c b) = c"
| "caller_of (CallTier c b) = c"
| "caller_of (CallRequest c n t) = c"
| "caller_of (CallApprove c b t) = c"
| "caller_of (CallRevoke c b) = c"

fun access_step :: "access_config \<Rightarrow> 's access_store \<Rightarrow> access_call \<Rightarrow> 's \<Rightarrow> access_reply \<times> 's" where
  "access_step cfg ops (CallMakeAdmin c b) s = handleAdminMakeAdmin cfg ops c b s"
| "access_step cfg ops (CallTier c b) s = handleAdminTier cfg ops c b s"
| "access_step cfg ops (CallRequest c n t) s = handleAccessRequest cfg ops t c n s"
| "access_step cfg ops (CallApprove c b t) s = handleAdminApprove cfg ops t c b s"
| "access_step cfg ops (CallRevoke c b) s = handleAdminRevoke cfg ops c b s"

definition access_calls :: "access_config \<Rightarrow> 's access_store \<Rightarrow> access_call list \<Rightarrow> 's \<Rightarrow> 's" where
  "access_calls cfg ops cs s = fold (\<lambda>c s. snd (access_step cfg ops c s)) cs s"

section \<open>The contract of the stores\<close>

text \<open>One record grants no more than another.\<close>

definition no_gain :: "access_record \<Rightarrow> access_record \<Rightarrow> bool" where
  "no_gain r r' \<longleftrightarrow>
     (ac_Status r' = accessApproved \<longrightarrow> ac_Status r = accessApproved) \<and> ac_Role r' \<in> {ac_Role r, []} \<and>
     ac_Tier r' \<in> {ac_Tier r, []} \<and> ac_FounderNumber r' \<in> {ac_FounderNumber r, 0}"

lemma no_gain_refl [simp]: "no_gain r r"
  by (simp add: no_gain_def)

lemma no_gain_trans: "no_gain a b \<Longrightarrow> no_gain b c \<Longrightarrow> no_gain a c"
  by (auto simp: no_gain_def)

locale access_control =
  fixes ops :: "'s access_store" and recs :: "'s \<Rightarrow> string \<Rightarrow> access_record option"
  assumes get_ok: "acs_Get ops k s = Inr r \<Longrightarrow> r = recs s k"
    and request_self: "no_gain (rec_at (recs s) subj) (rec_at (recs (snd (acs_Request ops subj nm t s))) subj)"
    and request_other: "k \<noteq> subj \<Longrightarrow> recs (snd (acs_Request ops subj nm t s)) k = recs s k"
    and revoke_ok: "acs_Revoke ops subj s = (None, s') \<Longrightarrow> ac_Status (rec_at (recs s') subj) = accessRevoked \<and>
      ac_Role (rec_at (recs s') subj) = ac_Role (rec_at (recs s) subj)"
begin

definition outsider :: "access_config \<Rightarrow> string \<Rightarrow> 's \<Rightarrow> bool" where
  "outsider cfg k s \<longleftrightarrow> \<not> isAdminSubject cfg k \<and> ac_Role (rec_at (recs s) k) \<noteq> roleAdmin"

lemma outsider_not_admin: "outsider cfg k s \<Longrightarrow> \<not> isAdmin cfg (Some ops) k s"
  using get_ok by (fastforce simp: outsider_def isAdmin_def rec_at_def split: sum.splits option.splits)

lemma step_no_gain:
  assumes "outsider cfg (caller_of c) s"
  shows "no_gain (rec_at (recs s) k) (rec_at (recs (snd (access_step cfg ops c s))) k)"
proof (cases c)
  case (CallRequest subj nm t)
  then show ?thesis
    using request_self [of s subj nm t] request_other [of k subj nm t s]
    by (cases "k = subj") (auto simp: handleAccessRequest_def rec_at_def [of _ k] split: prod.splits option.splits)
qed (use outsider_not_admin [OF assms] in \<open>auto simp: handleAdminMakeAdmin_def handleAdminTier_def
      handleAdminApprove_def handleAdminRevoke_def\<close>)

lemma no_gain_outsider:
  assumes "no_gain (rec_at (recs s) k) (rec_at (recs s') k)" "outsider cfg k s"
  shows "outsider cfg k s'"
  using assms by (auto simp: outsider_def no_gain_def roleAdmin_def)

theorem calls_no_gain:
  assumes "\<forall>c\<in>set cs. outsider cfg (caller_of c) s"
  shows "no_gain (rec_at (recs s) k) (rec_at (recs (access_calls cfg ops cs s)) k)"
  using assms
proof (induction cs arbitrary: s)
  case (Cons c cs)
  let ?s = "snd (access_step cfg ops c s)"
  have step: "no_gain (rec_at (recs s) j) (rec_at (recs ?s) j)" for j
    using Cons.prems by (intro step_no_gain) simp
  then have "\<forall>d\<in>set cs. outsider cfg (caller_of d) ?s"
    using Cons.prems no_gain_outsider by (metis list.set_intros(2))
  from no_gain_trans [OF step Cons.IH [OF this]] show ?case
    by (simp add: access_calls_def)
qed (simp add: access_calls_def)

end

interpretation memory_acl: access_control "memory_access order" "\<lambda>s. s"
  by unfold_locales (auto simp: memory_access_def mac_Request_def mac_Revoke_def no_gain_def access_names no_access_def rec_at_def
      split: option.splits)

locale mongo_acl = mongo_driver drv ac_Subject "\<lambda>_ _. False" docs
  for drv :: "'c access_driver" and docs :: "'c \<Rightarrow> string \<Rightarrow> access_record option"
begin

lemma request_docs:
  "docs (snd (gac_Request drv subj nm t s)) = docs s \<or>
   (\<forall>r. docs s subj = Some r \<longrightarrow> ac_Status r \<noteq> accessApproved) \<and>
   docs (snd (gac_Request drv subj nm t s)) = (docs s)(subj \<mapsto> (case docs s subj of None \<Rightarrow> no_access\<lparr>ac_Subject := subj\<rparr> | Some r \<Rightarrow> r)
     \<lparr>ac_Name := nm, ac_Status := accessRequested, ac_RequestedAt := t\<rparr>)"
proof -
  define set where "set = (\<lambda>r::access_record. r\<lparr>ac_Name := nm, ac_Status := accessRequested, ac_RequestedAt := t\<rparr>)"
  obtain a c where w: "dr_UpsertWhere drv subj (\<lambda>r. ac_Status r \<noteq> accessApproved)
      (set (no_access\<lparr>ac_Subject := subj\<rparr>)) set s = (a, c)" by (meson surj_pair)
  have d: "docs (snd (gac_Request drv subj nm t s)) = docs c"
    using w by (cases a) (simp_all add: gac_Request_def Let_def set_def)
  show ?thesis using upsert_where_cases [OF w] unfolding d
    by (cases "docs s subj") (auto simp: upsert_def set_def)
qed

lemma revoke_docs:
  assumes "gac_Revoke drv subj s = (None, s')"
  shows "docs s' = (docs s)(subj \<mapsto> (case docs s subj of None \<Rightarrow> no_access\<lparr>ac_Subject := subj\<rparr> | Some r \<Rightarrow> r)
     \<lparr>ac_Status := accessRevoked\<rparr>)"
  using assms by (auto simp: gac_Revoke_def Let_def upsert_def dest!: upsert_ok split: option.splits)

end

sublocale mongo_acl \<subseteq> acl: access_control "mongo_access drv" docs
proof
  fix k s r assume "acs_Get (mongo_access drv) k s = Inr r"
  then show "r = docs s k"
    by (auto simp: mongo_access_def hit_where_def dest!: find_ok split: option.splits)
next
  fix s subj nm t
  show "no_gain (rec_at (docs s) subj) (rec_at (docs (snd (acs_Request (mongo_access drv) subj nm t s))) subj)"
    using request_docs [of subj nm t s]
    by (auto simp: mongo_access_def no_gain_def rec_at_def access_names no_access_def split: option.splits)
next
  fix k subj :: string and nm t s assume "k \<noteq> subj"
  then show "docs (snd (acs_Request (mongo_access drv) subj nm t s)) k = docs s k"
    using request_docs [of subj nm t s] by (auto simp: mongo_access_def)
next
  fix subj s s' assume "acs_Revoke (mongo_access drv) subj s = (None, s')"
  then show "ac_Status (rec_at (docs s') subj) = accessRevoked \<and> ac_Role (rec_at (docs s') subj) = ac_Role (rec_at (docs s) subj)"
    using revoke_docs [of subj s s'] by (auto simp: mongo_access_def rec_at_def no_access_def split: option.splits)
qed

context mongo_acl
begin

lemmas mongo_calls_no_gain = acl.calls_no_gain
lemmas mongo_outsider = acl.outsider_def

lemma founder_write_docs:
  assumes "gac_founder_write drv k n d = (Inr x, d')"
  shows "docs d' = (docs d)(k \<mapsto> (case docs d k of None \<Rightarrow> no_access\<lparr>ac_Subject := k, ac_FounderNumber := n\<rparr>
    | Some r \<Rightarrow> r\<lparr>ac_FounderNumber := n\<rparr>))"
  using assms by (auto simp: gac_founder_write_def upsert_def dest!: upsert_ok split: prod.splits option.splits)

end

interpretation map_acl: mongo_acl "map_driver ac_Subject (\<lambda>_ _. False)" map_of
  by unfold_locales

section \<open>Founders\<close>

text \<open>Every founder number is within the cap and held once.\<close>

definition founders_ok :: "mem_access \<Rightarrow> bool" where
  "founders_ok s \<longleftrightarrow>
     (\<forall>k. 0 \<le> ac_FounderNumber (rec_at s k) \<and> ac_FounderNumber (rec_at s k) \<le> MissionZeroCap) \<and>
     inj_on (\<lambda>k. ac_FounderNumber (rec_at s k)) {k. 0 < ac_FounderNumber (rec_at s k)}"

lemma founders_ok_upd:
  assumes "founders_ok s" "ac_FounderNumber r = ac_FounderNumber (rec_at s k) \<or> ac_FounderNumber r = 0"
  shows "founders_ok (s(k \<mapsto> r))"
proof -
  have "ac_FounderNumber (rec_at (s(k \<mapsto> r)) j) \<in> {ac_FounderNumber (rec_at s j), 0}" for j
    using assms(2) by (cases "j = k") auto
  then have n: "ac_FounderNumber (rec_at (s(k \<mapsto> r)) j) = ac_FounderNumber (rec_at s j) \<or>
      ac_FounderNumber (rec_at (s(k \<mapsto> r)) j) = 0" for j by blast
  have "0 \<le> ac_FounderNumber (rec_at (s(k \<mapsto> r)) j) \<and> ac_FounderNumber (rec_at (s(k \<mapsto> r)) j) \<le> MissionZeroCap" for j
    using n [of j] assms(1) by (auto simp: founders_ok_def MissionZeroCap_def)
  moreover have "i = j" if "0 < ac_FounderNumber (rec_at (s(k \<mapsto> r)) i)" "0 < ac_FounderNumber (rec_at (s(k \<mapsto> r)) j)"
      "ac_FounderNumber (rec_at (s(k \<mapsto> r)) i) = ac_FounderNumber (rec_at (s(k \<mapsto> r)) j)" for i j
    using n [of i] n [of j] that assms(1) by (auto simp: founders_ok_def inj_on_def)
  ultimately show ?thesis unfolding founders_ok_def inj_on_def by blast
qed

lemma max_founder_ge: "0 \<le> max_founder rs \<and> (\<forall>r\<in>set rs. ac_FounderNumber r \<le> max_founder rs)"
proof -
  have "m \<le> foldl (\<lambda>m r. if ac_FounderNumber r > m then ac_FounderNumber r else m) m rs \<and>
      (\<forall>r\<in>set rs. ac_FounderNumber r \<le> foldl (\<lambda>m r. if ac_FounderNumber r > m then ac_FounderNumber r else m) m rs)" for m
  proof (induction rs arbitrary: m)
    case (Cons a rs)
    show ?case using Cons.IH [of "if m < ac_FounderNumber a then ac_FounderNumber a else m"] by (auto split: if_splits)
  qed simp
  then show ?thesis unfolding max_founder_def by blast
qed

lemma set_rows_in: "set (rows_in order s) = {r. \<exists>k\<in>set order. s k = Some r}"
  by (force simp: rows_in_def split: option.splits)

lemma founders_ok_assign:
  assumes "founders_ok s" "dom s \<subseteq> set order"
  shows "founders_ok (snd (mac_AssignFounder order k MissionZeroCap s))"
proof -
  let ?mx = "max_founder (rows_in order s)"
  have le: "ac_FounderNumber (rec_at s j) \<le> ?mx" for j
    using max_founder_ge [of "rows_in order s"] assms(2)
    by (cases "s j") (auto simp: set_rows_in no_access_def)
  have "founders_ok (s(k \<mapsto> (rec_at s k)\<lparr>ac_Subject := k, ac_FounderNumber := ?mx + 1\<rparr>))"
    if "\<not> MissionZeroCap \<le> ?mx"
  proof -
    let ?s = "s(k \<mapsto> (rec_at s k)\<lparr>ac_Subject := k, ac_FounderNumber := ?mx + 1\<rparr>)"
    have n: "ac_FounderNumber (rec_at ?s j) = (if j = k then ?mx + 1 else ac_FounderNumber (rec_at s j))" for j
      by simp
    have "0 \<le> ?mx" using max_founder_ge by blast
    moreover have "?mx + 1 \<noteq> ac_FounderNumber (rec_at s j)" for j using le [of j] by simp
    ultimately show ?thesis
      using assms(1) that unfolding founders_ok_def inj_on_def n by (auto split: if_splits) metis
  qed
  then show ?thesis using assms(1) by (simp add: mac_AssignFounder_def Let_def)
qed

text \<open>The subject a call may write.\<close>

fun target_of :: "access_call \<Rightarrow> string option" where
  "target_of (CallMakeAdmin c b) = map_option fst b"
| "target_of (CallTier c b) = map_option fst b"
| "target_of (CallRequest c n t) = Some c"
| "target_of (CallApprove c b t) = b"
| "target_of (CallRevoke c b) = b"

definition founders_inv :: "string list \<Rightarrow> mem_access \<Rightarrow> bool" where
  "founders_inv order s \<longleftrightarrow> founders_ok s \<and> dom s \<subseteq> set order"

lemma founders_inv_upd:
  "founders_inv order s \<Longrightarrow> k \<in> set order \<Longrightarrow>
   ac_FounderNumber r = ac_FounderNumber (rec_at s k) \<or> ac_FounderNumber r = 0 \<Longrightarrow> founders_inv order (s(k \<mapsto> r))"
  by (auto simp: founders_inv_def intro: founders_ok_upd)

lemma founders_inv_assign:
  "founders_inv order s \<Longrightarrow> k \<in> set order \<Longrightarrow> founders_inv order (snd (mac_AssignFounder order k MissionZeroCap s))"
  using founders_ok_assign [of s order k]
  by (auto simp: founders_inv_def mac_AssignFounder_def Let_def split: if_splits)

lemma founders_inv_step:
  assumes "founders_inv order s" "set_option (target_of c) \<subseteq> set order"
  shows "founders_inv order (snd (access_step cfg (memory_access order) c s))"
proof (cases c)
  case (CallApprove d b t)
  have "founders_inv order (snd (mac_Approve k t s))" if "k \<in> set order" for k
    using assms(1) that by (simp add: mac_Approve_def Let_def founders_inv_upd)
  then show ?thesis
    using CallApprove assms founders_inv_assign
    by (fastforce simp: handleAdminApprove_def maybeAssignFounder_def memory_access_def
        split: option.splits prod.splits sum.splits)
qed (use assms in \<open>auto simp: handleAdminMakeAdmin_def handleAdminTier_def handleAccessRequest_def handleAdminRevoke_def
      memory_access_def mac_SetRole_def mac_SetTier_def mac_Request_def mac_Revoke_def Let_def no_access_def
      intro!: founders_inv_upd split: option.splits prod.splits\<close>)

lemma founders_inv_calls:
  "founders_inv order s \<Longrightarrow> \<forall>c\<in>set cs. set_option (target_of c) \<subseteq> set order \<Longrightarrow>
   founders_inv order (access_calls cfg (memory_access order) cs s)"
  by (induction cs arbitrary: s) (simp_all add: access_calls_def founders_inv_step)

section \<open>Properties\<close>

text \<open>C18. Nobody promotes themselves: over the MongoDB store, whatever the driver reports, a sequence of calls of
  the access handlers by users none of whom is an admin at the start leaves every user's record with no
  more than it had: nobody becomes approved or admin, gains a tier or a founder number.\<close>

theorem mongo_no_self_promotion:
  assumes "mongo_driver drv ac_Subject (\<lambda>_ _. False) docs"
    and "\<forall>c\<in>set cs. \<not> isAdminSubject cfg (caller_of c) \<and> ac_Role (rec_at (docs s) (caller_of c)) \<noteq> roleAdmin"
  shows "no_gain (rec_at (docs s) k) (rec_at (docs (access_calls cfg (mongo_access drv) cs s)) k)"
proof -
  have m: "mongo_acl drv docs" using assms(1) by (rule mongo_acl.intro)
  show ?thesis using assms(2)
    by (intro mongo_acl.mongo_calls_no_gain [OF m]) (simp add: mongo_acl.mongo_outsider [OF m])
qed

theorem mongo_no_self_promotion_witness:
  "no_gain no_access (rec_at (map_of (access_calls \<lparr>cf_AdminUserID = 1, cf_PrivateBeta = True, cf_AccessOpen = False\<rparr>
     (mongo_access (map_driver ac_Subject (\<lambda>_ _. False)))
     [CallMakeAdmin ''tg:7'' (Some (''tg:7'', False)), CallRequest ''tg:7'' ''eve'' 5, CallApprove ''tg:7'' (Some ''tg:7'') 6] [])) ''tg:7'')"
proof -
  have "\<not> isAdminSubject \<lparr>cf_AdminUserID = 1, cf_PrivateBeta = True, cf_AccessOpen = False\<rparr> ''tg:7''"
    by code_simp
  then show ?thesis
    using mongo_no_self_promotion [OF map_server.mongo_driver_axioms, where k = "''tg:7''" and s = "[]"
        and cfg = "\<lparr>cf_AdminUserID = 1, cf_PrivateBeta = True, cf_AccessOpen = False\<rparr>"
        and cs = "[CallMakeAdmin ''tg:7'' (Some (''tg:7'', False)), CallRequest ''tg:7'' ''eve'' 5, CallApprove ''tg:7'' (Some ''tg:7'') 6]"]
    by (simp add: no_access_def roleAdmin_def)
qed

text \<open>With the store in memory at most 32 founders are ever minted and no two share a number, after any
  sequence of calls of the access handlers from an empty store.\<close>

theorem founders_capped:
  fixes cs order cfg
  assumes "\<forall>c\<in>set cs. set_option (target_of c) \<subseteq> set order"
  defines "s \<equiv> access_calls cfg (memory_access order) cs (\<lambda>_. None)"
  shows "card {k. 0 < ac_FounderNumber (rec_at s k)} \<le> 32 \<and>
    (\<forall>i j. 0 < ac_FounderNumber (rec_at s i) \<and> ac_FounderNumber (rec_at s i) = ac_FounderNumber (rec_at s j) \<longrightarrow> i = j)"
proof -
  have "founders_inv order (\<lambda>_. None)"
    by (simp add: founders_inv_def founders_ok_def no_access_def MissionZeroCap_def)
  from founders_inv_calls [OF this assms(1), of cfg] have ok: "founders_ok s"
    unfolding s_def by (simp add: founders_inv_def)
  then have "(\<lambda>k. ac_FounderNumber (rec_at s k)) ` {k. 0 < ac_FounderNumber (rec_at s k)} \<subseteq> {1..32}"
    by (auto simp: founders_ok_def MissionZeroCap_def)
  then have "card {k. 0 < ac_FounderNumber (rec_at s k)} \<le> card {1..32::int}"
    using ok card_inj_on_le [of "\<lambda>k. ac_FounderNumber (rec_at s k)" "{k. 0 < ac_FounderNumber (rec_at s k)}" "{1..32}"]
    unfolding founders_ok_def by blast
  then show ?thesis using ok by (fastforce simp: founders_ok_def inj_on_def)
qed

theorem founders_capped_witness:
  "card {k. 0 < ac_FounderNumber (rec_at (access_calls \<lparr>cf_AdminUserID = 1, cf_PrivateBeta = True, cf_AccessOpen = False\<rparr>
     (memory_access [''tg:7'', ''tg:8'']) [CallApprove ''tg:1'' (Some ''tg:7'') 5, CallApprove ''tg:1'' (Some ''tg:8'') 6]
     (\<lambda>_. None)) k)} \<le> 32"
  using founders_capped [of "[CallApprove ''tg:1'' (Some ''tg:7'') 5, CallApprove ''tg:1'' (Some ''tg:8'') 6]" "[''tg:7'', ''tg:8'']"
      "\<lparr>cf_AdminUserID = 1, cf_PrivateBeta = True, cf_AccessOpen = False\<rparr>"] by simp

text \<open>Over MongoDB two approvals that both read before either writes mint the same founder number twice.\<close>

theorem mongo_founder_race:
  assumes "mongo_driver drv ac_Subject (\<lambda>_ _. False) docs" and "i \<noteq> j"
    and "gac_founder_plan drv i MissionZeroCap c = Inr (FounderNext n)"
    and "gac_founder_plan drv j MissionZeroCap c = Inr (FounderNext m)"
    and "gac_founder_write drv i n c = (Inr n', c1)" and "gac_founder_write drv j m c1 = (Inr m', c2)"
    and "dr_FindSorted drv (\<lambda>r. ac_FounderNumber r > 0) (\<lambda>r. - ac_FounderNumber r) 1 c = Inr rs"
  shows "ac_FounderNumber (rec_at (docs c2) i) = ac_FounderNumber (rec_at (docs c2) j)"
proof -
  note w = mongo_acl.founder_write_docs [OF mongo_acl.intro [OF assms(1)]]
  have "n = m" using assms(3,4,7) by (auto simp: gac_founder_plan_def Let_def split: sum.splits option.splits if_splits)
  then show ?thesis
    using w [OF assms(5)] w [OF assms(6)] assms(2) by (auto simp: rec_at_def split: option.splits)
qed

theorem mongo_founder_race_witness:
  "\<exists>c1 c2. gac_founder_write (map_driver ac_Subject (\<lambda>_ _. False)) ''tg:7'' 1 [] = (Inr 1, c1) \<and>
     gac_founder_write (map_driver ac_Subject (\<lambda>_ _. False)) ''tg:8'' 1 c1 = (Inr 1, c2) \<and>
     ac_FounderNumber (rec_at (map_of c2) ''tg:7'') = ac_FounderNumber (rec_at (map_of c2) ''tg:8'')"
proof -
  let ?d = "map_driver ac_Subject (\<lambda>_ _. False)"
  obtain c1 c2 where c: "gac_founder_write ?d ''tg:7'' 1 [] = (Inr 1, c1)" "gac_founder_write ?d ''tg:8'' 1 c1 = (Inr 1, c2)"
    by (simp add: gac_founder_write_def map_driver_def)
  have p: "gac_founder_plan ?d ''tg:7'' MissionZeroCap [] = Inr (FounderNext 1)"
      "gac_founder_plan ?d ''tg:8'' MissionZeroCap [] = Inr (FounderNext 1)"
      "dr_FindSorted ?d (\<lambda>r. ac_FounderNumber r > 0) (\<lambda>r. - ac_FounderNumber r) 1 [] = Inr []"
    by (simp_all add: gac_founder_plan_def map_driver_def hit_where_def live_def MissionZeroCap_def)
  from mongo_founder_race [OF map_server.mongo_driver_axioms _ p(1,2) c p(3)] show ?thesis using c by auto
qed

text \<open>Revoking a promoted admin does not lock them out: the handler reports the revocation, and the user is
  still an admin and still admitted.\<close>

theorem revoked_admin_keeps_access:
  assumes "ac_Role (rec_at s k) = roleAdmin"
    and "handleAdminRevoke cfg (memory_access order) caller (Some k) s = (AccessRevocation j, s')"
  shows "ac_Status (rec_at s' k) = accessRevoked \<and> isAdmin cfg (Some (memory_access order)) k s' \<and>
    approved cfg (memory_access order) k s'"
proof -
  have "acs_Revoke (memory_access order) k s = (None, s')"
    using assms(2) unfolding handleAdminRevoke_def by (simp split: if_splits prod.splits option.splits)
  from memory_acl.revoke_ok [OF this] have r: "ac_Status (rec_at s' k) = accessRevoked" "ac_Role (rec_at s' k) = roleAdmin"
    using assms(1) by auto
  have "s' k \<noteq> None"
  proof
    assume "s' k = None"
    then have "ac_Role (rec_at s' k) = []" by (simp add: no_access_def)
    then show False using r(2) by (simp add: roleAdmin_def)
  qed
  then have "isAdmin cfg (Some (memory_access order)) k s'"
    using r(2) by (auto simp: isAdmin_def memory_access_def)
  then show ?thesis using r by (simp add: approved_def)
qed

definition ex_admins :: mem_access where
  "ex_admins = [''tg:7'' \<mapsto> no_access\<lparr>ac_Subject := ''tg:7'', ac_Status := ''approved'', ac_Role := ''admin''\<rparr>]"

theorem revoked_admin_keeps_access_witness:
  "approved \<lparr>cf_AdminUserID = 1, cf_PrivateBeta = False, cf_AccessOpen = False\<rparr> (memory_access []) ''tg:7''
     (snd (handleAdminRevoke \<lparr>cf_AdminUserID = 1, cf_PrivateBeta = False, cf_AccessOpen = False\<rparr> (memory_access [])
        ''tg:1'' (Some ''tg:7'') ex_admins))"
proof -
  let ?cfg = "\<lparr>cf_AdminUserID = 1, cf_PrivateBeta = False, cf_AccessOpen = False\<rparr>"
  have f: "fst (handleAdminRevoke ?cfg (memory_access []) ''tg:1'' (Some ''tg:7'') ex_admins) = AccessRevocation ''tg:7''"
    by code_simp
  have "ac_Role (rec_at ex_admins ''tg:7'') = roleAdmin" by (simp add: ex_admins_def roleAdmin_def)
  from revoked_admin_keeps_access [OF this, of ?cfg "[]" "''tg:1''" "''tg:7''"] show ?thesis
    by (metis f prod.collapse)
qed

text \<open>What the dashboard shows is what the server enforces: the approval of the view is the gate's answer.\<close>

theorem me_view_consistent:
  "me_Approved (handleMe cfg ops day usage subject s) = approved cfg ops subject s \<and>
   (0 \<le> me_MissionLimit (handleMe cfg ops day usage subject s) \<and>
      me_MissionLimit (handleMe cfg ops day usage subject s) \<le> me_MissionUsed (handleMe cfg ops day usage subject s)
    \<longleftrightarrow> \<not> fst (allow cfg (Some ops) day usage subject ''mission'' s))"
  by (auto simp: handleMe_def approved_def allow_def Let_def accessApproved_def split: sum.splits option.splits)

end
