(* ===== verification/Anny_Basic.thy ===== *)
theory Anny_Basic
  imports Decimal
begin

text \<open>
  \<open>internal/strategy/annybasic/model.go\<close> and \<open>rescue.go\<close>: the policy of the ANNY Basic model. From an
  observation of the market and the state of the campaign it decides a side, a leverage ceiling
  and whether the campaign stops. The indicator readings \<open>QQEValue\<close> are floats that the policy
  only compares with 50, so they are rationals here.
\<close>

section \<open>The decision\<close>

datatype anny_side = SideNone | SideLong | SideShort
text \<open>\<open>PhaseUnset\<close> is the empty string, the phase of a decision made without an observation.\<close>

datatype anny_phase = PhaseUnset | PhaseFast | PhaseNormal | PhaseDefensive
datatype cdc_zone = CDCNeutral | CDCGreen | CDCRed
datatype qqe_cross = QQENone | QQECrossUp | QQECrossDown

record observation =
  ob_CDC15m :: cdc_zone
  ob_QQEValue :: rat
  ob_QQECross :: qqe_cross
  ob_ExecutionAligned :: bool
  ob_MomentumConfirmed :: bool
  ob_EntryExtended :: bool
  ob_AbnormalVolatility :: bool
  ob_Sideways :: bool

record anny_state =
  as_TradesClosed :: int
  as_ConsecutiveLosses :: int
  as_RealizedPnLUSDT :: decimal

record anny_decision =
  ad_Side :: anny_side
  ad_Phase :: anny_phase
  ad_MaxLeverage :: int
  ad_Reason :: string
  ad_Stop :: bool

definition noTradeReason :: "observation \<Rightarrow> string option" where
  "noTradeReason obs =
     (if ob_AbnormalVolatility obs then Some ''abnormal volatility''
      else if ob_Sideways obs then Some ''sideways market''
      else if ob_EntryExtended obs then Some ''entry extended from trend''
      else if \<not> ob_ExecutionAligned obs then Some ''execution not aligned''
      else None)"

definition phaseFor :: "int \<Rightarrow> anny_phase" where
  "phaseFor n = (if n < 3 then PhaseFast else if n < 10 then PhaseNormal else PhaseDefensive)"

definition clampLeverage :: "int \<Rightarrow> int \<Rightarrow> int" where
  "clampLeverage modelCap platformCap =
     (let platformCap = (if platformCap \<le> 0 then 20 else platformCap)
      in if platformCap < modelCap then platformCap else modelCap)"

definition no_anny_decision :: "anny_phase \<Rightarrow> string \<Rightarrow> anny_decision" where
  "no_anny_decision ph reason =
     \<lparr>ad_Side = SideNone, ad_Phase = ph, ad_MaxLeverage = 0, ad_Reason = reason, ad_Stop = False\<rparr>"

definition anny_Evaluate :: "observation \<Rightarrow> anny_state \<Rightarrow> int \<Rightarrow> anny_decision" where
  "anny_Evaluate obs state maxLeverage =
     (let phase = phaseFor (as_TradesClosed state) in
      if 0 \<le> dec_Cmp (as_RealizedPnLUSDT state) (dec_NewFromInt 10) then
        (no_anny_decision phase ''profit target reached'')\<lparr>ad_Stop := True\<rparr>
      else if 15 \<le> as_TradesClosed state then
        (no_anny_decision PhaseDefensive ''15-trade hard stop'')\<lparr>ad_Stop := True\<rparr>
      else if 2 \<le> as_ConsecutiveLosses state then
        (no_anny_decision phase ''two consecutive losses'')\<lparr>ad_Stop := True\<rparr>
      else case noTradeReason obs of
        Some reason \<Rightarrow> no_anny_decision phase reason
      | None \<Rightarrow>
          let sd = (if ob_CDC15m obs = CDCGreen \<and> 50 < ob_QQEValue obs \<and> ob_QQECross obs = QQECrossUp then SideLong
                    else if ob_CDC15m obs = CDCRed \<and> ob_QQEValue obs < 50 \<and> ob_QQECross obs = QQECrossDown then SideShort
                    else SideNone)
          in if sd = SideNone then no_anny_decision phase ''CDC and QQE are not aligned''
             else let modelCap = (if ob_MomentumConfirmed obs \<and> phase \<noteq> PhaseDefensive then 100 else 50);
                      modelCap = (if phase = PhaseDefensive then 50 else modelCap)
                  in \<lparr>ad_Side = sd, ad_Phase = phase, ad_MaxLeverage = clampLeverage modelCap maxLeverage,
                      ad_Reason = ''CDC and QQE aligned'', ad_Stop = False\<rparr>)"

section \<open>Rescue\<close>

record rescue_request =
  rq_SetupValid :: bool
  rq_WickOnly :: bool
  rq_QQEReversed :: bool
  rq_AdditionsMade :: int
  rq_AmountUSDT :: decimal
  rq_CapitalAfterUSDT :: decimal

definition AllowRescue :: "rescue_request \<Rightarrow> bool \<times> string" where
  "AllowRescue req =
     (if \<not> rq_SetupValid req \<or> rq_QQEReversed req then (False, ''setup is invalid'')
      else if \<not> rq_WickOnly req then (False, ''adverse move is not a wick'')
      else if 2 \<le> rq_AdditionsMade req then (False, ''rescue limit reached'')
      else if \<not> dec_IsPositive (rq_AmountUSDT req) \<or> 0 < dec_Cmp (rq_AmountUSDT req) (dec_NewFromInt 10) then
        (False, ''rescue amount must be between 0 and 10 USDT'')
      else if dec_Cmp (rq_CapitalAfterUSDT req) (dec_NewFromInt 20) < 0 then
        (False, ''minimum 20 USDT reserve would be violated'')
      else (True, ''rescue policy passed''))"

section \<open>Properties\<close>

lemma clampLeverage_bounds:
  "0 < modelCap \<Longrightarrow> 0 < clampLeverage modelCap p \<and> clampLeverage modelCap p \<le> modelCap \<and>
     clampLeverage modelCap p \<le> (if p \<le> 0 then 20 else p)"
  by (simp add: clampLeverage_def Let_def)

text \<open>ANNY Basic enters only inside its policy: a side is chosen exactly when no campaign stop and no market
  gate applies and CDC and QQE agree, with a leverage of at least one, at most the platform's ceiling, and
  at most 50 in the defensive phase.\<close>

theorem anny_entry_policy:
  "ad_Side (anny_Evaluate obs st maxLev) \<noteq> SideNone \<longleftrightarrow>
     dval (as_RealizedPnLUSDT st) < 10 \<and> as_TradesClosed st < 15 \<and> as_ConsecutiveLosses st < 2 \<and>
     \<not> ob_AbnormalVolatility obs \<and> \<not> ob_Sideways obs \<and> \<not> ob_EntryExtended obs \<and> ob_ExecutionAligned obs \<and>
     (ob_CDC15m obs = CDCGreen \<and> 50 < ob_QQEValue obs \<and> ob_QQECross obs = QQECrossUp \<or>
      ob_CDC15m obs = CDCRed \<and> ob_QQEValue obs < 50 \<and> ob_QQECross obs = QQECrossDown) \<and>
     0 < ad_MaxLeverage (anny_Evaluate obs st maxLev) \<and>
     ad_MaxLeverage (anny_Evaluate obs st maxLev) \<le> min (if maxLev \<le> 0 then 20 else maxLev)
       (if as_TradesClosed st < 10 \<and> ob_MomentumConfirmed obs then 100 else 50) \<and>
     \<not> ad_Stop (anny_Evaluate obs st maxLev)"
  by (auto simp: anny_Evaluate_def no_anny_decision_def noTradeReason_def phaseFor_def clampLeverage_def
      Let_def dec_simps)

text \<open>The rescue policy allows an addition exactly inside its limits.\<close>

theorem rescue_limits:
  "fst (AllowRescue req) \<longleftrightarrow>
     rq_SetupValid req \<and> \<not> rq_QQEReversed req \<and> rq_WickOnly req \<and> rq_AdditionsMade req < 2 \<and>
     0 < dval (rq_AmountUSDT req) \<and> dval (rq_AmountUSDT req) \<le> 10 \<and> 20 \<le> dval (rq_CapitalAfterUSDT req)"
  by (auto simp: AllowRescue_def dec_simps)

end
