(* ===== verification/Floats.thy ===== *)
theory Floats
  imports Decimal
begin

text \<open>
  Go's \<open>float64\<close>. A finite value is the rational it stands for, and each arithmetic operation is the
  exact one followed by rounding to the nearest binary64 value, ties to even (\<open>f64\<close>), as IEEE 754
  and the Go specification prescribe (without fused operations, as the compiler does for amd64).
  Infinities, NaN and the sign of zero are not represented, and no operation overflows: prices,
  volumes and percentages stay far below \<open>2 ^ 1024\<close>. Also the decimal formats of \<open>strconv\<close> that the
  code uses.
\<close>

section \<open>Exponents\<close>

fun ilog :: "nat \<Rightarrow> nat \<Rightarrow> nat" where
  "ilog b n = (if b < 2 \<or> n < b then 0 else Suc (ilog b (n div b)))"

declare ilog.simps [simp del]

text \<open>The \<open>e\<close> with \<open>b ^ e \<le> v < b ^ (e + 1)\<close>, for positive \<open>v\<close>.\<close>

definition iexp :: "nat \<Rightarrow> rat \<Rightarrow> int" where
  "iexp b v = (if 1 \<le> v then int (ilog b (nat \<lfloor>v\<rfloor>)) else - int (Suc (ilog b (nat (\<lceil>1 / v\<rceil> - 1)))))"

definition pow_rat :: "nat \<Rightarrow> int \<Rightarrow> rat" where
  "pow_rat b e = (if 0 \<le> e then of_nat b ^ nat e else 1 / of_nat b ^ nat (- e))"

definition round_half_even :: "rat \<Rightarrow> int" where
  "round_half_even x =
     (let n = \<lfloor>x\<rfloor>; r = x - of_int n
      in if r < 1 / 2 then n else if r > 1 / 2 then n + 1 else if even n then n else n + 1)"

definition f64 :: "rat \<Rightarrow> rat" where
  "f64 v =
     (if v = 0 then 0
      else let u = pow_rat 2 (max (iexp 2 \<bar>v\<bar> - 52) (- 1074)) in of_int (round_half_even (v / u)) * u)"

text \<open>Below the overflow threshold.\<close>

definition finite_f64 :: "rat \<Rightarrow> bool" where "finite_f64 v \<longleftrightarrow> \<bar>v\<bar> < 2 ^ 1024"

definition fadd :: "rat \<Rightarrow> rat \<Rightarrow> rat" where "fadd a b = f64 (a + b)"
definition fsub :: "rat \<Rightarrow> rat \<Rightarrow> rat" where "fsub a b = f64 (a - b)"
definition fmul :: "rat \<Rightarrow> rat \<Rightarrow> rat" where "fmul a b = f64 (a * b)"
definition fdiv :: "rat \<Rightarrow> rat \<Rightarrow> rat" where "fdiv a b = f64 (a / b)"

lemma ilog_bounds: "2 \<le> b \<Longrightarrow> 0 < n \<Longrightarrow> b ^ ilog b n \<le> n \<and> n < b ^ Suc (ilog b n)"
proof (induction n rule: less_induct)
  case (less n)
  show ?case
  proof (cases "n < b")
    case True
    then show ?thesis using less.prems by (simp add: ilog.simps)
  next
    case False
    then have d: "n div b < n" "0 < n div b" using less.prems by (auto simp: div_greater_zero_iff)
    from less.IH [OF d(1) less.prems(1) d(2)]
    have "b ^ ilog b (n div b) * b \<le> n div b * b" "n div b + 1 \<le> b ^ Suc (ilog b (n div b))" by auto
    moreover have "b ^ ilog b (n div b) * b \<le> n"
      using calculation(1) by (rule order_trans) simp
    moreover have "n < (n div b + 1) * b" using less.prems by (simp add: dividend_less_div_times)
    moreover have "(n div b + 1) * b \<le> b ^ Suc (ilog b (n div b)) * b" using calculation(2) by (rule mult_le_mono1)
    moreover have "ilog b n = Suc (ilog b (n div b))" using False less.prems(1) by (subst ilog.simps) simp
    ultimately show ?thesis unfolding power_Suc2 [of b "ilog b (n div b)"] by (auto simp: mult.commute)
  qed
qed

lemma pow_rat_pos: "0 < b \<Longrightarrow> 0 < pow_rat b e"
  by (simp add: pow_rat_def)

lemma pow_rat_Suc: "0 < b \<Longrightarrow> pow_rat b (e + 1) = of_nat b * pow_rat b e"
proof (cases "0 \<le> e")
  case True
  then have "nat (e + 1) = Suc (nat e)" by simp
  then show ?thesis using True by (simp add: pow_rat_def)
next
  case False
  then have "nat (- e) = Suc (nat (- (e + 1)))" by simp
  then show "0 < b \<Longrightarrow> ?thesis" using False by (cases "e = - 1") (auto simp: pow_rat_def)
qed

lemma nat_int_add_one [simp]: "nat (int k + 1) = Suc k"
  by simp

lemma pow_rat_mono: "1 \<le> b \<Longrightarrow> a \<le> c \<Longrightarrow> pow_rat b a \<le> pow_rat b c"
proof (induction "nat (c - a)" arbitrary: c)
  case (Suc k)
  then have "pow_rat b a \<le> pow_rat b (c - 1)" by simp
  also have "\<dots> \<le> pow_rat b c"
    using pow_rat_Suc [of b "c - 1"] pow_rat_pos [of b "c - 1"] Suc.prems(1) by simp
  finally show ?case .
qed simp

lemma pow_rat_shift: "0 < b \<Longrightarrow> pow_rat b (c - int k) * of_nat b ^ k = pow_rat b c"
proof (induction k)
  case (Suc k)
  have "pow_rat b (c - int k) = of_nat b * pow_rat b (c - int (Suc k))"
    using pow_rat_Suc [of b "c - int (Suc k)"] Suc.prems by simp
  then show ?case using Suc by (simp add: mult_ac)
qed simp

lemma iexp_bounds:
  assumes "2 \<le> b" "0 < v"
  shows "pow_rat b (iexp b v) \<le> v \<and> v < pow_rat b (iexp b v + 1)"
proof (cases "1 \<le> v")
  case True
  define n where "n = nat \<lfloor>v\<rfloor>"
  have n: "0 < n" "of_nat n \<le> v" "v < of_nat n + 1"
    using True by (auto simp: n_def le_floor_iff) linarith+
  have "b ^ ilog b n \<le> n" "n + 1 \<le> b ^ Suc (ilog b n)" using ilog_bounds [OF assms(1) n(1)] by auto
  then have "(of_nat b :: rat) ^ ilog b n \<le> of_nat n" "of_nat n + 1 \<le> (of_nat b :: rat) ^ Suc (ilog b n)"
    by (metis of_nat_le_iff of_nat_power, metis of_nat_le_iff of_nat_power of_nat_Suc Suc_eq_plus1 add.commute)
  then have "of_nat b ^ ilog b n \<le> v" "v < of_nat b ^ Suc (ilog b n)" using n by linarith+
  then show ?thesis
    using True by (simp add: iexp_def pow_rat_def n_def [symmetric] nat_int_add_one)
next
  case False
  define n where "n = nat (\<lceil>1 / v\<rceil> - 1)"
  have "1 < 1 / v" using False assms(2) by (simp add: less_divide_eq)
  then have n: "0 < n" "of_nat n < 1 / v" "1 / v \<le> of_nat n + 1"
    by (auto simp: n_def) linarith+
  have "b ^ ilog b n \<le> n" "n + 1 \<le> b ^ Suc (ilog b n)" using ilog_bounds [OF assms(1) n(1)] by auto
  then have "(of_nat b :: rat) ^ ilog b n \<le> of_nat n" "of_nat n + 1 \<le> (of_nat b :: rat) ^ Suc (ilog b n)"
    by (metis of_nat_le_iff of_nat_power, metis of_nat_le_iff of_nat_power of_nat_Suc Suc_eq_plus1 add.commute)
  then have b: "of_nat b ^ ilog b n < 1 / v" "1 / v \<le> of_nat b ^ Suc (ilog b n)"
    using n by linarith+
  have p: "(0::rat) < of_nat b ^ k" for k using assms(1) by simp
  have e: "iexp b v = - int (Suc (ilog b n))" using False by (simp add: iexp_def n_def)
  have "1 / of_nat b ^ Suc (ilog b n) \<le> v" "v < 1 / of_nat b ^ ilog b n"
    using b assms(2) p [of "ilog b n"] p [of "Suc (ilog b n)"]
    by (simp_all add: field_simps)
  moreover have "pow_rat b (iexp b v + 1) = 1 / of_nat b ^ ilog b n"
    unfolding e by (cases "ilog b n = 0") (auto simp: pow_rat_def)
  moreover have "pow_rat b (iexp b v) = 1 / of_nat b ^ Suc (ilog b n)"
    unfolding e pow_rat_def by simp
  ultimately show ?thesis by simp
qed

lemma round_half_even_error: "\<bar>of_int (round_half_even x) - x\<bar> \<le> 1 / 2"
proof -
  have "0 \<le> x - of_int \<lfloor>x\<rfloor>" "x - of_int \<lfloor>x\<rfloor> < 1" by linarith+
  then show ?thesis unfolding round_half_even_def Let_def by (auto simp: abs_le_iff)
qed

text \<open>The rounding of a value in the normal range is off by at most half a unit in the last place.\<close>

lemma f64_error:
  assumes "pow_rat 2 (- 1022) \<le> \<bar>v\<bar>"
  shows "\<bar>f64 v - v\<bar> \<le> \<bar>v\<bar> / 2 ^ 53"
proof -
  have v: "v \<noteq> 0" using assms pow_rat_pos [of 2 "- 1022"] by auto
  let ?e = "iexp 2 \<bar>v\<bar>" and ?u = "pow_rat 2 (max (iexp 2 \<bar>v\<bar> - 52) (- 1074))"
  have b: "pow_rat 2 ?e \<le> \<bar>v\<bar>" "\<bar>v\<bar> < pow_rat 2 (?e + 1)" using iexp_bounds [of 2 "\<bar>v\<bar>"] v by auto
  have "- 1022 \<le> ?e"
  proof (rule ccontr)
    assume "\<not> - 1022 \<le> ?e"
    then have "pow_rat 2 (?e + 1) \<le> pow_rat 2 (- 1022)" by (intro pow_rat_mono) simp_all
    then show False using b assms by linarith
  qed
  then have m: "max (?e - 52) (- 1074) = ?e - 52" by simp
  have u: "?u * 2 ^ 52 \<le> \<bar>v\<bar>" "0 < ?u" unfolding m using pow_rat_shift [of 2 ?e 52] b(1) pow_rat_pos [of 2] by simp_all
  have "f64 v - v = (of_int (round_half_even (v / ?u)) - v / ?u) * ?u"
    using v u(2) by (simp add: f64_def Let_def left_diff_distrib)
  then have "\<bar>f64 v - v\<bar> = \<bar>of_int (round_half_even (v / ?u)) - v / ?u\<bar> * ?u"
    using u(2) by (simp add: abs_mult)
  also have "\<dots> \<le> 1 / 2 * ?u" using round_half_even_error [of "v / ?u"] u(2) by (intro mult_right_mono) auto
  also have "\<dots> \<le> \<bar>v\<bar> / 2 ^ 53" using u(1) by (simp add: field_simps)
  finally show ?thesis .
qed

lemma f64_zero [simp]: "f64 0 = 0"
  by (simp add: f64_def)

lemma round_half_even_mono: "x \<le> y \<Longrightarrow> round_half_even x \<le> round_half_even y"
proof -
  assume xy: "x \<le> y"
  have f: "\<lfloor>x\<rfloor> \<le> round_half_even x" "round_half_even x \<le> \<lfloor>x\<rfloor> + 1" for x
    by (auto simp: round_half_even_def Let_def)
  consider "\<lfloor>x\<rfloor> = \<lfloor>y\<rfloor>" | "\<lfloor>x\<rfloor> + 1 \<le> \<lfloor>y\<rfloor>" using floor_mono [OF xy] by linarith
  then show ?thesis
  proof cases
    case 1
    then show ?thesis using xy unfolding round_half_even_def Let_def by auto
  qed (use f(2) [of x] f(1) [of y] in linarith)
qed

lemma round_half_even_int [simp]: "round_half_even (of_int n) = n"
  by (simp add: round_half_even_def)

lemma iexp_mono: "0 < x \<Longrightarrow> x \<le> y \<Longrightarrow> iexp 2 x \<le> iexp 2 y"
proof (rule ccontr)
  assume x: "0 < x" "x \<le> y" and "\<not> iexp 2 x \<le> iexp 2 y"
  then have "pow_rat 2 (iexp 2 y + 1) \<le> pow_rat 2 (iexp 2 x)" by (intro pow_rat_mono) auto
  then show False using iexp_bounds [of 2 x] iexp_bounds [of 2 y] x by auto
qed

lemma f64_nonneg: "0 \<le> v \<Longrightarrow> 0 \<le> f64 v"
  using round_half_even_mono [of 0 "v / pow_rat 2 (max (iexp 2 \<bar>v\<bar> - 52) (- 1074))"]
    round_half_even_int [of 0] pow_rat_pos [of 2 "max (iexp 2 \<bar>v\<bar> - 52) (- 1074)"]
  by (auto simp: f64_def Let_def)

text \<open>Rounding is monotone on nonnegative values.\<close>

lemma f64_mono:
  assumes "0 \<le> x" "x \<le> y"
  shows "f64 x \<le> f64 y"
proof (cases "x = 0")
  case False
  then have x: "0 < x" "0 < y" using assms by auto
  define a c where "a = max (iexp 2 x - 52) (- 1074)" and "c = max (iexp 2 y - 52) (- 1074)"
  have fx: "f64 x = of_int (round_half_even (x / pow_rat 2 a)) * pow_rat 2 a"
    and fy: "f64 y = of_int (round_half_even (y / pow_rat 2 c)) * pow_rat 2 c"
    using x by (auto simp: f64_def Let_def a_def c_def)
  have p: "0 < pow_rat 2 k" for k by (rule pow_rat_pos) simp
  have "a \<le> c" using iexp_mono [OF x(1) assms(2)] by (auto simp: a_def c_def)
  show ?thesis
  proof (cases "a = c")
    case True
    then have "round_half_even (x / pow_rat 2 a) \<le> round_half_even (y / pow_rat 2 c)"
      using assms(2) p [of c] by (intro round_half_even_mono) (simp add: divide_right_mono)
    then show ?thesis unfolding fx fy using True p [of c] by simp
  next
    case False
    then have lt: "a < c" "c = iexp 2 y - 52" "iexp 2 x + 1 \<le> iexp 2 y" "a \<le> iexp 2 y"
      using \<open>a \<le> c\<close> by (auto simp: a_def c_def)
    define q where "q = pow_rat 2 (iexp 2 y)"
    have xq: "x \<le> q"
      using iexp_bounds [of 2 x] x pow_rat_mono [of 2 "iexp 2 x + 1" "iexp 2 y"] lt(3) unfolding q_def by auto
    have qy: "q \<le> y" using iexp_bounds [of 2 y] x unfolding q_def by auto
    have up: "q = of_int (2 ^ nat (iexp 2 y - a)) * pow_rat 2 a" "q = of_int (2 ^ 52) * pow_rat 2 c"
      using pow_rat_shift [of 2 "iexp 2 y" "nat (iexp 2 y - a)"] pow_rat_shift [of 2 "iexp 2 y" 52] lt
      by (simp_all add: q_def mult.commute)
    have "round_half_even (x / pow_rat 2 a) \<le> round_half_even (of_int (2 ^ nat (iexp 2 y - a)))"
      using xq up(1) p [of a] by (intro round_half_even_mono) (simp add: divide_le_eq)
    then have "f64 x \<le> q" unfolding fx up(1) round_half_even_int using p [of a] by (intro mult_right_mono) (auto simp del: of_int_power)
    have "round_half_even (of_int (2 ^ 52)) \<le> round_half_even (y / pow_rat 2 c)"
      using qy up(2) p [of c] by (intro round_half_even_mono) (simp add: le_divide_eq)
    then have "q \<le> f64 y" unfolding fy up(2) round_half_even_int using p [of c] by (intro mult_right_mono) (auto simp del: of_int_power)
    with \<open>f64 x \<le> q\<close> show ?thesis by simp
  qed
qed (use assms f64_nonneg in simp)

lemma f64_exact [simp]: "f64 1 = 1" "f64 100 = 100" "f64 50 = 50" "f64 5 = 5" "f64 200 = 200"
  by code_simp+

section \<open>Evaluation\<close>

text \<open>The same functions on integers, for the evaluation of concrete values.\<close>

function ilog_int :: "int \<Rightarrow> int \<Rightarrow> int" where
  "ilog_int b n = (if b < 2 \<or> n < b then 0 else ilog_int b (n div b) + 1)"
  by pat_completeness auto
termination
  by (relation "measure (\<lambda>(b, n). nat n)") (auto simp: int_div_less_self)

declare ilog_int.simps [simp del]

lemma ilog_int: "int (ilog b n) = ilog_int (int b) (int n)"
proof (induction b n rule: ilog.induct)
  case (1 b n)
  then show ?case by (subst ilog.simps, subst ilog_int.simps) (auto simp: of_nat_div)
qed

lemma ilog_nat: "int (ilog b (nat k)) = ilog_int (int b) k"
proof (cases "0 \<le> k")
  case False
  then show ?thesis by (cases "b < 2") (auto simp: ilog.simps [of b 0] ilog_int.simps [of "int b" k])
qed (simp add: ilog_int)

lemma iexp_code [code]: "iexp b v = (if 1 \<le> v then ilog_int (int b) \<lfloor>v\<rfloor> else - (ilog_int (int b) (\<lceil>1 / v\<rceil> - 1) + 1))"
  by (simp add: iexp_def ilog_nat)

lemma pow_rat_code [code]: "pow_rat b e = (if 0 \<le> e then of_int (int b ^ nat e) else 1 / of_int (int b ^ nat (- e)))"
  by (simp add: pow_rat_def)

lemma round_half_even_code [code]:
  "round_half_even x = (let (n, d) = quotient_of x; q = n div d; r = 2 * (n mod d)
     in if r < d then q else if r > d then q + 1 else if even q then q else q + 1)"
proof -
  obtain n d where q: "quotient_of x = (n, d)" by fastforce
  have d: "0 < d" and x: "x = of_int n / of_int d" using quotient_of_denom_pos [OF q] quotient_of_div [OF q] by auto
  have f: "\<lfloor>x\<rfloor> = n div d" unfolding x by (rule floor_divide_of_int_eq)
  have "of_int n = (of_int (d * (n div d) + n mod d) :: rat)" by simp
  then have "of_int n = of_int d * of_int (n div d) + (of_int (n mod d) :: rat)" by (simp only: of_int_add of_int_mult)
  then have r: "x - of_int (n div d) = of_int (n mod d) / of_int d" using d unfolding x by (simp add: field_simps)
  define a where "a = n mod d"
  have "(of_int a / of_int d < (1 / 2 :: rat)) = (of_int (2 * a) < (of_int d :: rat))"
    "((1 / 2 :: rat) < of_int a / of_int d) = (of_int d < (of_int (2 * a) :: rat))"
    using d by (simp_all add: divide_less_eq less_divide_eq mult.commute)
  then have "(of_int a / of_int d < (1 / 2 :: rat)) = (2 * a < d)" "((1 / 2 :: rat) < of_int a / of_int d) = (d < 2 * a)"
    by (simp_all only: of_int_less_iff)
  then show ?thesis unfolding round_half_even_def q f Let_def r prod.case a_def [symmetric] by simp
qed

lemma finite_f64_code [code]: "finite_f64 v \<longleftrightarrow> v = 0 \<or> iexp 2 \<bar>v\<bar> < 1024"
proof (cases "v = 0")
  case False
  have b: "pow_rat 2 (iexp 2 \<bar>v\<bar>) \<le> \<bar>v\<bar>" "\<bar>v\<bar> < pow_rat 2 (iexp 2 \<bar>v\<bar> + 1)" using iexp_bounds [of 2 "\<bar>v\<bar>"] False by auto
  have "\<bar>v\<bar> < pow_rat 2 1024 \<longleftrightarrow> iexp 2 \<bar>v\<bar> < 1024"
  proof
    assume "\<bar>v\<bar> < pow_rat 2 1024"
    then have "\<not> pow_rat 2 1024 \<le> pow_rat 2 (iexp 2 \<bar>v\<bar>)" using b(1) by linarith
    then show "iexp 2 \<bar>v\<bar> < 1024" using pow_rat_mono [of 2 1024 "iexp 2 \<bar>v\<bar>"] by linarith
  next
    assume "iexp 2 \<bar>v\<bar> < 1024"
    then show "\<bar>v\<bar> < pow_rat 2 1024" using b(2) pow_rat_mono [of 2 "iexp 2 \<bar>v\<bar> + 1" 1024] by linarith
  qed
  then show ?thesis using False by (simp add: finite_f64_def pow_rat_def)
qed (simp add: finite_f64_def)

section \<open>Decimal formats\<close>

text \<open>
  \<open>sig_round n v\<close>: \<open>v\<close> to \<open>n\<close> significant digits, as \<open>strconv.FormatFloat(v, 'g', n, 64)\<close> rounds the exact
  value. Reading such a text back and printing it with the shortest digits (\<open>'f', -1\<close>) gives the same
  digits, because binary64 distinguishes any two decimals of at most 15 digits.
\<close>

definition sig_round :: "nat \<Rightarrow> rat \<Rightarrow> decimal" where
  "sig_round n v =
     (if v = 0 then dec_Zero
      else let q = int n - 1 - iexp 10 \<bar>v\<bar>
           in if 0 \<le> q then \<lparr>d_value = Some (round_half_even (v * pow_rat 10 q)), d_scale = nat q\<rparr>
              else \<lparr>d_value = Some (round_half_even (v * pow_rat 10 q) * 10 ^ nat (- q)), d_scale = 0\<rparr>)"

definition format_sig :: "nat \<Rightarrow> rat \<Rightarrow> string" where
  "format_sig n v = dec_String (dec_normalize (sig_round n v))"

text \<open>\<open>FormatFloat(v, 'f', k, 64)\<close>: exactly \<open>k\<close> digits after the point.\<close>

definition fixed_digits :: "nat \<Rightarrow> nat \<Rightarrow> string" where
  "fixed_digits k m = (let s = show_nat m in replicate (k - length s) (CHR ''0'') @ s)"

definition format_fixed :: "nat \<Rightarrow> rat \<Rightarrow> string" where
  "format_fixed k v =
     (let m = nat (round_half_even (\<bar>v\<bar> * 10 ^ k)); body = show_nat (m div 10 ^ k)
      in (if v < 0 then ''-'' else []) @ body @ (if k = 0 then [] else ''.'' @ fixed_digits k (m mod 10 ^ k)))"

lemma sig_round_error:
  assumes "v \<noteq> 0" "0 < n"
  shows "\<bar>dval (sig_round n v) - v\<bar> \<le> \<bar>v\<bar> * (5 / 10 ^ n)"
proof -
  let ?e = "iexp 10 \<bar>v\<bar>"
  define q where "q = int n - 1 - ?e"
  define p where "p = pow_rat 10 q"
  have p: "0 < p" unfolding p_def by (rule pow_rat_pos) simp
  have val: "dval (sig_round n v) = of_int (round_half_even (v * p)) / p"
    using assms by (auto simp: sig_round_def q_def [symmetric] Let_def p_def pow_rat_def dval_def coeff_def)
  have "pow_rat 10 ?e \<le> \<bar>v\<bar>" using iexp_bounds [of 10 "\<bar>v\<bar>"] assms(1) by simp
  then have big: "pow_rat 10 ?e * p \<le> \<bar>v\<bar> * p" using p by simp
  have "pow_rat 10 c * pow_rat 10 (int k - c) = 10 ^ k" for c k
  proof (induction k)
    case 0
    show ?case by (cases "0 \<le> c"; cases "c = 0") (auto simp: pow_rat_def)
  next
    case (Suc k)
    have "pow_rat 10 (int (Suc k) - c) = 10 * pow_rat 10 (int k - c)"
      using pow_rat_Suc [of 10 "int k - c"] by (simp add: algebra_simps)
    then show ?case using Suc by simp
  qed
  from this [of ?e "n - 1"] have "pow_rat 10 ?e * p = 10 ^ (n - 1)"
    using assms(2) by (simp add: p_def q_def of_nat_diff algebra_simps)
  then have "10 ^ n \<le> 10 * (\<bar>v\<bar> * p)" using big assms(2) by (cases n) auto
  then have "1 / 2 \<le> \<bar>v\<bar> * (5 / 10 ^ n) * p" by (simp add: field_simps)
  then have "\<bar>of_int (round_half_even (v * p)) - v * p\<bar> \<le> \<bar>v\<bar> * (5 / 10 ^ n) * p"
    using round_half_even_error [of "v * p"] by linarith
  moreover have "dval (sig_round n v) - v = (of_int (round_half_even (v * p)) - v * p) / p"
    using p val by (simp add: field_simps)
  ultimately show ?thesis using p by (simp add: abs_div pos_divide_le_eq)
qed

text \<open>What the code prints with six digits, another decimal reader gets back exactly.\<close>

lemma parse_format_sig: "dec_Parse (format_sig n v) = Inr (dec_normalize (sig_round n v))"
  by (simp add: format_sig_def dec_Parse_String)

end
