(* ===== verification/Indicators.thy ===== *)
theory Indicators
  imports Anny_Basic Floats
begin

text \<open>
  \<open>internal/indicators/indicators.go\<close> (EMA, RSI, MACD), and \<open>indicators.go\<close> and \<open>adapter.go\<close> of
  \<open>internal/strategy/annybasic\<close>, which turn candles into the observation the ANNY Basic policy judges. The
  arithmetic is Go's \<open>float64\<close> of theory \<open>Floats\<close>. A slice is a list, and the loops over indices are
  recursions over it.
\<close>

section \<open>The indicators package\<close>

datatype indicator_error = IndicatorPeriod | IndicatorData | IndicatorFastSlow

definition fsum :: "rat list \<Rightarrow> rat" where
  "fsum xs = foldl fadd 0 xs"

definition ema_next :: "rat \<Rightarrow> rat \<Rightarrow> rat \<Rightarrow> rat" where
  "ema_next k e v = fadd (fmul v k) (fmul e (fsub 1 k))"

fun ema_tail :: "rat \<Rightarrow> rat \<Rightarrow> rat list \<Rightarrow> rat list" where
  "ema_tail k e [] = []"
| "ema_tail k e (v # vs) = (let e = ema_next k e v in e # ema_tail k e vs)"

definition EMASeries :: "rat list \<Rightarrow> int \<Rightarrow> indicator_error + rat list" where
  "EMASeries values period =
     (if period \<le> 0 then Inl IndicatorPeriod
      else if int (length values) < period then Inl IndicatorData
      else let k = fdiv 2 (of_int (period + 1)); p = nat period;
               ema = fdiv (fsum (take p values)) (of_int period)
           in Inr (ema # ema_tail k ema (drop p values)))"

definition EMA :: "rat list \<Rightarrow> int \<Rightarrow> indicator_error + rat" where
  "EMA values period = (case EMASeries values period of Inl e \<Rightarrow> Inl e | Inr xs \<Rightarrow> Inr (last xs))"

text \<open>The price changes, and Wilder's averages of gains and losses.\<close>

definition changes :: "rat list \<Rightarrow> rat list" where
  "changes values = map2 fsub (tl values) values"

definition gain_loss :: "rat list \<Rightarrow> rat \<times> rat" where
  "gain_loss cs = foldl (\<lambda>(g, l) c. if 0 \<le> c then (fadd g c, l) else (g, fsub l c)) (0, 0) cs"

definition wilder_next :: "int \<Rightarrow> rat \<times> rat \<Rightarrow> rat \<Rightarrow> rat \<times> rat" where
  "wilder_next period a c =
     (case a of (avgGain, avgLoss) \<Rightarrow>
        let g = (if 0 \<le> c then c else 0); l = (if 0 \<le> c then 0 else - c)
        in (fdiv (fadd (fmul avgGain (of_int (period - 1))) g) (of_int period),
            fdiv (fadd (fmul avgLoss (of_int (period - 1))) l) (of_int period)))"

definition wilder_seed :: "int \<Rightarrow> rat list \<Rightarrow> rat \<times> rat" where
  "wilder_seed period cs =
     (case gain_loss (take (nat period) cs) of (g, l) \<Rightarrow> (fdiv g (of_int period), fdiv l (of_int period)))"

definition RSI :: "rat list \<Rightarrow> int \<Rightarrow> indicator_error + rat" where
  "RSI values period =
     (if period \<le> 0 then Inl IndicatorPeriod
      else if int (length values) < period + 1 then Inl IndicatorData
      else case foldl (wilder_next period) (wilder_seed period (changes values)) (drop (nat period) (changes values)) of
             (avgGain, avgLoss) \<Rightarrow>
               Inr (if avgLoss = 0 then 100 else fsub 100 (fdiv 100 (fadd 1 (fdiv avgGain avgLoss)))))"

definition MACD :: "rat list \<Rightarrow> int \<Rightarrow> int \<Rightarrow> int \<Rightarrow> indicator_error + rat \<times> rat \<times> rat" where
  "MACD values fast slow signalPeriod =
     (if fast \<le> 0 \<or> slow \<le> 0 \<or> signalPeriod \<le> 0 then Inl IndicatorPeriod
      else if slow \<le> fast then Inl IndicatorFastSlow
      else if int (length values) < slow + signalPeriod then Inl IndicatorData
      else bindE (EMASeries values fast) (\<lambda>fastSeries.
           bindE (EMASeries values slow) (\<lambda>slowSeries.
             let offset = length fastSeries - length slowSeries;
                 macdLine = map2 fsub (drop offset fastSeries) slowSeries
             in bindE (EMASeries macdLine signalPeriod) (\<lambda>signalSeries.
                  let macd = last macdLine; sig = last signalSeries
                  in Inr (macd, sig, fsub macd sig)))))"

section \<open>Indicators of ANNY Basic\<close>

definition emaSeries :: "rat list \<Rightarrow> int \<Rightarrow> rat list option" where
  "emaSeries values period =
     (if period \<le> 0 \<or> int (length values) < period then None
      else let p = nat period; v = fdiv (fsum (take p values)) (of_int period); k = fdiv 2 (of_int (period + 1))
           in Some (v # ema_tail k v (drop p values)))"

definition rsiValue :: "rat \<Rightarrow> rat \<Rightarrow> rat" where
  "rsiValue gain loss =
     (if loss = 0 then if gain = 0 then 50 else 100 else fsub 100 (fdiv 100 (fadd 1 (fdiv gain loss))))"

fun rsi_tail :: "int \<Rightarrow> rat \<times> rat \<Rightarrow> rat list \<Rightarrow> rat list" where
  "rsi_tail period a [] = []"
| "rsi_tail period a (c # cs) =
     (let a = wilder_next period a c in rsiValue (fst a) (snd a) # rsi_tail period a cs)"

definition rsiSeries :: "rat list \<Rightarrow> int \<Rightarrow> rat list option" where
  "rsiSeries values period =
     (if period \<le> 0 \<or> int (length values) < period + 1 then None
      else let a = wilder_seed period (changes values)
           in Some (rsiValue (fst a) (snd a) # rsi_tail period a (drop (nat period) (changes values))))"

definition cdcZone :: "rat list \<Rightarrow> cdc_zone option" where
  "cdcZone closes =
     (case emaSeries closes 12 of None \<Rightarrow> None | Some fast \<Rightarrow>
      case emaSeries closes 26 of None \<Rightarrow> None | Some slow \<Rightarrow>
        Some (if last fast > last slow then CDCGreen else if last fast < last slow then CDCRed else CDCNeutral))"

definition qqeFactor :: rat where
  "qqeFactor = f64 (4236 / 1000)"

text \<open>The trailing bands; a pair is a smoothed RSI value and the smoothed range beside it.\<close>

fun qqe_walk :: "rat \<Rightarrow> rat \<Rightarrow> int \<Rightarrow> rat \<Rightarrow> (rat \<times> rat) list \<Rightarrow> rat list" where
  "qqe_walk longBand shortBand trend prevR [] = []"
| "qqe_walk longBand shortBand trend prevR ((r, rng) # xs) =
     (let dar = fmul rng qqeFactor; newLong = fsub r dar; newShort = fadd r dar;
          lb = (if prevR > longBand \<and> r > longBand then max longBand newLong else newLong);
          sb = (if prevR < shortBand \<and> r < shortBand then min shortBand newShort else newShort);
          trend = (if r > shortBand then 1 else if r < longBand then - 1 else trend)
      in (if trend = 1 then lb else sb) # qqe_walk lb sb trend r xs)"

fun qqe_trailing :: "(rat \<times> rat) list \<Rightarrow> rat list" where
  "qqe_trailing [] = []"
| "qqe_trailing ((r, rng) # xs) =
     (let dar = fmul rng qqeFactor
      in fsub r dar # qqe_walk (fsub r dar) (fadd r dar) 1 r xs)"

text \<open>The last two points (RSI, signal): the current one first.\<close>

definition qqe :: "rat list \<Rightarrow> ((rat \<times> rat) \<times> (rat \<times> rat)) option" where
  "qqe closes =
     (case rsiSeries closes 14 of None \<Rightarrow> None | Some rsi \<Rightarrow>
      case emaSeries rsi 5 of None \<Rightarrow> None | Some smoothed \<Rightarrow>
      let wilders = 14 * 2 - 1; deltas = map abs (changes smoothed) in
      case emaSeries deltas wilders of None \<Rightarrow> None | Some atrRsi \<Rightarrow>
      case emaSeries atrRsi wilders of None \<Rightarrow> None | Some smoothedAtr \<Rightarrow>
      let offset = length smoothed - length smoothedAtr;
          tail = drop offset smoothed;
          trailing = qqe_trailing (zip tail smoothedAtr);
          n = length trailing
      in if n < 2 then None
         else Some ((tail ! (n - 1), trailing ! (n - 1)), (tail ! (n - 2), trailing ! (n - 2))))"

section \<open>The adapter\<close>

record candle =
  k_OpenTime :: time
  k_Open :: rat
  k_High :: rat
  k_Low :: rat
  k_Close :: rat
  k_Volume :: rat

datatype observe_error = ObserveIndex | ObserveData

definition mainInterval :: duration where
  "mainInterval = minutes 15"

definition signalFreshMainBars :: int where
  "signalFreshMainBars = 4"

definition closedBefore :: "candle list \<Rightarrow> time \<Rightarrow> candle list" where
  "closedBefore candles t = takeWhile (\<lambda>c. \<not> k_OpenTime c + mainInterval > t) candles"

definition candleCloses :: "candle list \<Rightarrow> rat list" where
  "candleCloses = map k_Close"

definition cdcSpread :: "rat list \<Rightarrow> rat" where
  "cdcSpread closes =
     (case (emaSeries closes 12, emaSeries closes 26) of
        (Some fast, Some slow) \<Rightarrow> \<bar>fsub (last fast) (last slow)\<bar> | _ \<Rightarrow> 0)"

definition trueRange :: "candle list \<Rightarrow> nat \<Rightarrow> rat" where
  "trueRange cs i =
     (let v = fsub (k_High (cs ! i)) (k_Low (cs ! i))
      in if i = 0 then v
         else max (max v \<bar>fsub (k_High (cs ! i)) (k_Close (cs ! (i - 1)))\<bar>)
                  \<bar>fsub (k_Low (cs ! i)) (k_Close (cs ! (i - 1)))\<bar>)"

definition averageTrueRange :: "candle list \<Rightarrow> nat \<Rightarrow> int \<Rightarrow> rat" where
  "averageTrueRange cs i period =
     (let start = int i - period + 1; start = (if start < 1 then 1 else start);
          js = map nat [start .. int i]
      in if js = [] then 0 else fdiv (fsum (map (trueRange cs) js)) (of_nat (length js)))"

definition averageVolume :: "candle list \<Rightarrow> nat \<Rightarrow> int \<Rightarrow> rat" where
  "averageVolume cs i period =
     (let start = int i - period; start = (if start < 0 then 0 else start)
      in if start = int i then 0
         else fdiv (fsum (map k_Volume (drop (nat start) (take i cs)))) (of_int (int i - start)))"

fun fresh_scan :: "rat list \<Rightarrow> cdc_zone \<Rightarrow> nat \<Rightarrow> nat \<Rightarrow> bool" where
  "fresh_scan closes current barsAgo 0 = False"
| "fresh_scan closes current barsAgo (Suc n) =
     (case cdcZone (take (length closes - barsAgo) closes) of
        None \<Rightarrow> False
      | Some previous \<Rightarrow> if previous \<noteq> current then True else fresh_scan closes current (barsAgo + 1) n)"

definition cdcTransitionFresh :: "rat list \<Rightarrow> cdc_zone \<Rightarrow> int \<Rightarrow> bool" where
  "cdcTransitionFresh closes current maxBars =
     (if current = CDCNeutral \<or> maxBars \<le> 0 then False
      else if length closes < 2 then False
      else let limit = (if int (length closes) - 1 < maxBars then int (length closes) - 1 else maxBars)
           in fresh_scan closes current 1 (nat limit))"

fun cross_scan :: "rat list \<Rightarrow> nat \<Rightarrow> nat \<Rightarrow> qqe_cross" where
  "cross_scan closes barsAgo 0 = QQENone"
| "cross_scan closes barsAgo (Suc n) =
     (case qqe (take (length closes - barsAgo) closes) of
        None \<Rightarrow> QQENone
      | Some ((curR, curS), (prevR, prevS)) \<Rightarrow>
          if prevR \<le> prevS \<and> curR > curS then QQECrossUp
          else if prevR \<ge> prevS \<and> curR < curS then QQECrossDown
          else cross_scan closes (barsAgo + 1) n)"

definition recentQQECross :: "rat list \<Rightarrow> int \<Rightarrow> qqe_cross" where
  "recentQQECross closes maxBars =
     (if maxBars \<le> 0 then QQENone
      else let limit = (if int (length closes) < maxBars + 1 then int (length closes) - 1 else maxBars)
           in cross_scan closes 0 (nat limit))"

definition ObserveAt :: "candle list \<Rightarrow> candle list \<Rightarrow> int \<Rightarrow> observe_error + observation" where
  "ObserveAt main15m execution1m index =
     (if index < 0 \<or> index \<ge> int (length execution1m) then Inl ObserveIndex
      else let i = nat index; t0 = k_OpenTime (execution1m ! i); mains = closedBefore main15m t0 in
      if mains = [] then Inl ObserveData else
      let mainCloses = candleCloses mains in
      case cdcZone mainCloses of None \<Rightarrow> Inl ObserveData | Some zone \<Rightarrow>
      let zone = (if cdcTransitionFresh mainCloses zone signalFreshMainBars then zone else CDCNeutral) in
      case qqe mainCloses of None \<Rightarrow> Inl ObserveData | Some ((curR, curS), _) \<Rightarrow>
      let cross = recentQQECross mainCloses signalFreshMainBars;
          exec = take (i + 1) execution1m; execCloses = candleCloses exec in
      case emaSeries execCloses 5 of None \<Rightarrow> Inl ObserveData | Some fast \<Rightarrow>
      case emaSeries execCloses 13 of None \<Rightarrow> Inl ObserveData | Some slow \<Rightarrow>
      if length exec < 20 + 1 then Inl ObserveData else
      let aligned = (zone = CDCGreen \<and> last fast > last slow \<or> zone = CDCRed \<and> last fast < last slow);
          atr = averageTrueRange exec i 14;
          lst = exec ! i;
          avgVolume = averageVolume exec i 20;
          body = \<bar>fsub (k_Close lst) (k_Open lst)\<bar>;
          mainFast = (case emaSeries mainCloses 12 of None \<Rightarrow> [] | Some xs \<Rightarrow> xs);
          mainATR = averageTrueRange mains (length mains - 1) 14;
          extended = (mainATR > 0 \<and> \<bar>fsub (k_Close lst) (last mainFast)\<bar> > fmul (3 / 2) mainATR);
          abnormal = (atr > 0 \<and> trueRange exec i > fmul 3 atr);
          sideways = (k_Close lst > 0 \<and> fdiv (cdcSpread mainCloses) (k_Close lst) < f64 (1 / 1000))
      in Inr \<lparr>ob_CDC15m = zone, ob_QQEValue = curR, ob_QQECross = cross, ob_ExecutionAligned = aligned,
              ob_MomentumConfirmed = (avgVolume > 0 \<and> k_Volume lst > avgVolume \<and> body \<ge> atr),
              ob_EntryExtended = extended, ob_AbnormalVolatility = abnormal, ob_Sideways = sideways\<rparr>)"

section \<open>No look-ahead\<close>

lemma closedBefore_append:
  assumes "\<forall>c\<in>set later. t < k_OpenTime c + mainInterval"
  shows "closedBefore (xs @ later) t = closedBefore xs t"
proof -
  have "takeWhile (\<lambda>c. \<not> t < k_OpenTime c + mainInterval) later = []"
    using assms by (cases later) auto
  then show ?thesis unfolding closedBefore_def by (induction xs) auto
qed

text \<open>C19. ANNY Basic cannot look ahead: the observation at a bar is unchanged by anything that happens after the
  bar, later execution candles and main candles not yet closed when the bar opens.\<close>

theorem observe_no_lookahead:
  assumes "0 \<le> i" "i < int (length execution)"
    and "\<forall>c\<in>set later. k_OpenTime (execution ! nat i) < k_OpenTime c + mainInterval"
  shows "ObserveAt (mains @ later) (execution @ rest) i = ObserveAt mains execution i"
proof -
  have n: "nat i < length execution" using assms(1,2) by simp
  then have e: "(execution @ rest) ! nat i = execution ! nat i" "take (nat i + 1) (execution @ rest) = take (nat i + 1) execution"
      "i < int (length (execution @ rest))"
    using assms(2) by (simp_all add: nth_append)
  show ?thesis
    using assms(1,2) e(3)
    unfolding ObserveAt_def Let_def e(1,2) closedBefore_append [OF assms(3), of mains] by simp
qed

definition ex_candle :: "int \<Rightarrow> candle" where
  "ex_candle n = \<lparr>k_OpenTime = minutes n, k_Open = 100, k_High = 102, k_Low = 99, k_Close = 101, k_Volume = 10\<rparr>"

theorem observe_no_lookahead_witness:
  "ObserveAt (map ex_candle [0, 15, 30] @ [ex_candle 45]) (map ex_candle [45, 46] @ [ex_candle 47]) 1
     = ObserveAt (map ex_candle [0, 15, 30]) (map ex_candle [45, 46]) 1"
  by (rule observe_no_lookahead) (simp_all add: ex_candle_def mainInterval_def minutes_def seconds_def)

section \<open>RSI stays in its range\<close>

lemma gain_loss_nonneg:
  "0 \<le> fst a \<and> 0 \<le> snd a \<Longrightarrow>
   0 \<le> fst (foldl (\<lambda>(g, l) c. if 0 \<le> c then (fadd g c, l) else (g, fsub l c)) a cs) \<and>
   0 \<le> snd (foldl (\<lambda>(g, l) c. if 0 \<le> c then (fadd g c, l) else (g, fsub l c)) a cs)"
proof (induction cs arbitrary: a)
  case (Cons c cs)
  have "0 \<le> fst (case a of (g, l) \<Rightarrow> if 0 \<le> c then (fadd g c, l) else (g, fsub l c)) \<and>
        0 \<le> snd (case a of (g, l) \<Rightarrow> if 0 \<le> c then (fadd g c, l) else (g, fsub l c))"
    using Cons.prems by (auto simp: fadd_def fsub_def split: prod.splits intro!: f64_nonneg)
  from Cons.IH [OF this] show ?case by (cases a) simp
qed simp

lemma wilder_nonneg:
  assumes "1 \<le> period" "0 \<le> fst a \<and> 0 \<le> snd a"
  shows "0 \<le> fst (wilder_next period a c) \<and> 0 \<le> snd (wilder_next period a c)"
proof -
  obtain g l where a: "a = (g, l)" "0 \<le> g" "0 \<le> l" using assms(2) by (cases a) auto
  have "0 \<le> fmul g (of_int (period - 1))" "0 \<le> fmul l (of_int (period - 1))"
    unfolding fmul_def using a(2,3) assms(1) by (auto intro!: f64_nonneg mult_nonneg_nonneg)
  then have "0 \<le> fadd (fmul g (of_int (period - 1))) (if 0 \<le> c then c else 0)"
      "0 \<le> fadd (fmul l (of_int (period - 1))) (if 0 \<le> c then 0 else - c)"
    unfolding fadd_def by (auto intro!: f64_nonneg)
  then show ?thesis
    unfolding a(1) wilder_next_def Let_def fdiv_def using assms(1)
    by (simp add: f64_nonneg divide_nonneg_nonneg)
qed

lemma wilder_seed_nonneg: "1 \<le> period \<Longrightarrow> 0 \<le> fst (wilder_seed period cs) \<and> 0 \<le> snd (wilder_seed period cs)"
  using gain_loss_nonneg [of "(0, 0)" "take (nat period) cs"]
  by (auto simp: wilder_seed_def gain_loss_def fdiv_def split: prod.splits intro!: f64_nonneg divide_nonneg_nonneg)

lemma rsiValue_range:
  assumes "0 \<le> g" "0 \<le> l"
  shows "0 \<le> rsiValue g l \<and> rsiValue g l \<le> 100"
proof -
  have x: "1 \<le> fadd 1 (fdiv g l)"
    using f64_mono [of 1 "1 + fdiv g l"] f64_nonneg [of "g / l"] assms by (simp add: fadd_def fdiv_def)
  then have z: "0 \<le> fdiv 100 (fadd 1 (fdiv g l)) \<and> fdiv 100 (fadd 1 (fdiv g l)) \<le> 100"
    using f64_nonneg [of "100 / fadd 1 (fdiv g l)"] f64_mono [of "100 / fadd 1 (fdiv g l)" 100]
    by (simp add: fdiv_def [of 100] divide_le_eq)
  then have "0 \<le> fsub 100 (fdiv 100 (fadd 1 (fdiv g l))) \<and> fsub 100 (fdiv 100 (fadd 1 (fdiv g l))) \<le> 100"
    using f64_nonneg [of "100 - fdiv 100 (fadd 1 (fdiv g l))"] f64_mono [of "100 - fdiv 100 (fadd 1 (fdiv g l))" 100]
    by (simp add: fsub_def)
  then show ?thesis by (simp add: rsiValue_def)
qed

lemma rsi_tail_range:
  "1 \<le> period \<Longrightarrow> 0 \<le> fst a \<and> 0 \<le> snd a \<Longrightarrow> r \<in> set (rsi_tail period a cs) \<Longrightarrow> 0 \<le> r \<and> r \<le> 100"
proof (induction cs arbitrary: a)
  case (Cons c cs)
  note w = wilder_nonneg [OF Cons.prems(1,2), of c]
  then show ?case
    using Cons.IH [OF Cons.prems(1) w] Cons.prems(3) rsiValue_range by (auto simp: Let_def)
qed simp

lemma foldl_wilder_nonneg:
  "1 \<le> period \<Longrightarrow> 0 \<le> fst a \<and> 0 \<le> snd a \<Longrightarrow>
   0 \<le> fst (foldl (wilder_next period) a cs) \<and> 0 \<le> snd (foldl (wilder_next period) a cs)"
  by (induction cs arbitrary: a) (simp_all add: wilder_nonneg)

text \<open>The value at the end of the model's series is the wilder average of all changes.\<close>

lemma last_rsi_tail:
  "last (rsiValue (fst a) (snd a) # rsi_tail period a cs) =
     rsiValue (fst (foldl (wilder_next period) a cs)) (snd (foldl (wilder_next period) a cs))"
  by (induction cs arbitrary: a) (auto simp: Let_def)

text \<open>Every RSI value lies between 0 and 100, with the rounding of \<open>float64\<close>, in both packages.\<close>

theorem rsi_range:
  "(case RSI values period of Inl _ \<Rightarrow> True | Inr r \<Rightarrow> 0 \<le> r \<and> r \<le> 100) \<and>
   (case rsiSeries values period of None \<Rightarrow> True | Some rs \<Rightarrow> list_all (\<lambda>r. 0 \<le> r \<and> r \<le> 100) rs)"
proof (cases "1 \<le> period")
  case True
  note seed = wilder_seed_nonneg [OF True, of "changes values"]
  note avg = foldl_wilder_nonneg [OF True seed, of "drop (nat period) (changes values)"]
  have "case RSI values period of Inl _ \<Rightarrow> True | Inr r \<Rightarrow> 0 \<le> r \<and> r \<le> 100"
  proof -
    obtain g l where gl: "foldl (wilder_next period) (wilder_seed period (changes values)) (drop (nat period) (changes values)) = (g, l)"
      by (meson surj_pair)
    then have "0 \<le> g" "0 \<le> l" using avg by simp_all
    then show ?thesis using rsiValue_range [of g l] gl by (cases "l = 0") (simp_all add: RSI_def rsiValue_def)
  qed
  moreover have "case rsiSeries values period of None \<Rightarrow> True | Some rs \<Rightarrow> list_all (\<lambda>r. 0 \<le> r \<and> r \<le> 100) rs"
    using rsi_tail_range [OF True seed] rsiValue_range seed by (auto simp: rsiSeries_def Let_def list_all_iff)
  ultimately show ?thesis by simp
qed (simp add: RSI_def rsiSeries_def)

text \<open>The two packages agree: the model's EMA series is the indicator package's, and its last RSI value is the
  package's RSI, except on a series without any change, where the package says 100 and the model 50.\<close>

theorem packages_agree:
  "emaSeries values period = (case EMASeries values period of Inl _ \<Rightarrow> None | Inr xs \<Rightarrow> Some xs) \<and>
   (case rsiSeries values period of
      None \<Rightarrow> RSI values period \<in> {Inl IndicatorPeriod, Inl IndicatorData}
    | Some rs \<Rightarrow> RSI values period = Inr (last rs) \<or> RSI values period = Inr 100 \<and> last rs = 50)"
proof -
  obtain g l where gl: "foldl (wilder_next period) (wilder_seed period (changes values)) (drop (nat period) (changes values)) = (g, l)"
    by (meson surj_pair)
  have "rsiSeries values period = Some rs \<Longrightarrow> last rs = rsiValue g l" for rs
    using gl last_rsi_tail [of "wilder_seed period (changes values)"] by (auto simp: rsiSeries_def Let_def split: if_splits)
  then show ?thesis
    using gl by (auto simp: emaSeries_def EMASeries_def RSI_def rsiSeries_def rsiValue_def Let_def)
qed

end
