(* ===== verification/Armed_Mission.thy ===== *)
theory Armed_Mission
  imports Armed_Store Mission_Close Signals Access Indicators
begin

text \<open>
  The server side of \<open>internal/api/armed_mission.go\<close> with the helpers of \<open>mission.go\<close>: arming a mission,
  checking it against the market at every tick, triggering its one entry through the order service
  with a timed close attached, and disarming. What a call reads from outside is an \<open>arm_env\<close>: the
  \<open>n\<close>-th look at the credentials, the access store, the day, the clock and the random ids.
\<close>

section \<open>Missions and money\<close>

definition missionMaxLeverage :: int where "missionMaxLeverage = 100"
definition maxActiveArmedMissionsPerUser :: int where "maxActiveArmedMissionsPerUser = 3"

definition missionLeverageFor :: "int \<Rightarrow> int \<Rightarrow> int" where
  "missionLeverageFor usePct maxLeverage =
     (let usePct = (if usePct \<le> 0 then 25 else usePct); usePct = (if usePct > 100 then 100 else usePct);
          maxLeverage = (if maxLeverage \<le> 0 \<or> maxLeverage > missionMaxLeverage then missionMaxLeverage else maxLeverage);
          lev = (maxLeverage * usePct + 99) sdiv 100
      in if lev < 1 then 1 else lev)"

definition minPositive :: "int \<Rightarrow> int \<Rightarrow> int" where
  "minPositive a b = (if a \<le> 0 then b else if b \<le> 0 then a else if a < b then a else b)"

definition missionStrategyID :: "string \<Rightarrow> string" where
  "missionStrategyID strategy = (if strategy = ''anny_basic'' then ''anny_basic'' @ ''_v'' @ ''1.2'' else trim_space strategy)"

text \<open>The constants of the bracket are exact in Go and converted to \<open>float64\<close> when they meet a price.\<close>

definition missionBracket :: "string \<Rightarrow> rat \<Rightarrow> rat \<times> rat" where
  "missionBracket sd entry =
     (if sd = ''long'' then (fmul entry (f64 (1 - 1 / 100)), fmul entry (f64 (1 + 1 / 100 * 2)))
      else (fmul entry (f64 (1 + 1 / 100)), fmul entry (f64 (1 - 1 / 100 * 2))))"

text \<open>
  \<open>strconv.ParseFloat\<close> on a JSON number: an optional sign, digits, a fraction and an exponent. The other
  texts it accepts (hexadecimal, infinities, NaN) are not JSON numbers and cannot reach it. A value
  of at least \<open>2 ^ 1024\<close> is a range error.
\<close>

definition parse_float :: "string \<Rightarrow> rat option" where
  "parse_float s =
     (let low = to_lower s;
          (m, x) = (if CHR ''e'' \<in> set low then case cut_at (CHR ''e'') low of (a, b, _) \<Rightarrow> (a, b) else (low, ''0''))
      in case (dec_Parse m, atoi x) of
           (Inr d, Some n) \<Rightarrow>
             let v = f64 (dval d * pow_rat 10 n) in if finite_f64 v then Some v else None
         | _ \<Rightarrow> None)"

definition missionSize :: "string \<Rightarrow> rat" where
  "missionSize capital =
     (let v = (case parse_float (trim_space capital) of None \<Rightarrow> 50 | Some v \<Rightarrow> if v \<le> 0 then 50 else v);
          v = (if v > 200 then 200 else v)
      in if v < 5 then 5 else v)"

definition trimPrice :: "rat \<Rightarrow> string" where
  "trimPrice v = format_sig 6 v"

definition capitalString :: "string \<Rightarrow> string" where
  "capitalString n = (let v = trim_space n in if v = [] then ''100'' else v)"

definition infinity_sign :: string where
  "infinity_sign = [CHR 0xE2, CHR 0x88, CHR 0x9E]"

definition allowedDuration :: "string \<Rightarrow> bool" where
  "allowedDuration k \<longleftrightarrow> k \<in> {''15m'', ''1h'', ''2h'', ''4h'', ''8h'', ''12h'', ''24h'', ''48h'', ''1w''}"

definition missionDurationKey :: "string \<Rightarrow> string" where
  "missionDurationKey value =
     (let key = to_lower (trim_space value)
      in if key = ''unlimited'' \<or> key = infinity_sign then ''24h'' else if allowedDuration key then key else ''1h'')"

definition mission_fallback :: "string \<Rightarrow> string \<Rightarrow> string" where
  "mission_fallback value other = (if trim_space value = [] then other else trim_space value)"

section \<open>The server\<close>

record ('m, 'a, 'c, 's, 'i, 'j, 'x) mission_server =
  msv_base :: "('c, 's, 'i, 'j, 'x) server"
  msv_missions :: "'m armed_store option"
  msv_acl :: access_config
  msv_access :: "'a access_store option"
  msv_maxLeverage :: int
  msv_decider :: "(string \<Rightarrow> candle list \<Rightarrow> string + anny_decision) option"

record 'a arm_env =
  av_call :: call_env
  av_access :: "nat \<Rightarrow> 'a"
  av_day :: "nat \<Rightarrow> string"
  av_candles :: "string \<Rightarrow> string \<Rightarrow> int \<Rightarrow> string + candle list"

record ('m, 'c, 's, 'i, 'j, 'x) mission_world =
  mw_missions :: 'm
  mw_server :: "('c, 's, 'i, 'j, 'x) sworld"
  mw_usage :: usage

abbreviation mw_exch :: "('m, 'c, 's, 'i, 'j, 'x) mission_world \<Rightarrow> 'x" where
  "mw_exch w \<equiv> w_exch (sw_orders (mw_server w))"

datatype mission_error =
    MissionStore string | MissionIntent decision_error | MissionOrder order_error | MissionNotRecorded
  | MissionGateClosed | MissionCloseError string | MissionMarket string | MissionNoCandles | MissionPanic

type_synonym ('m, 'c, 's, 'i, 'j, 'x) mission_result =
  "(armed \<times> bool \<times> mission_error option) \<times> ('m, 'c, 's, 'i, 'j, 'x) mission_world"

definition set_orders ::
    "('s, 'i, 'j, 'x) world \<Rightarrow> ('m, 'c, 's, 'i, 'j, 'x) mission_world \<Rightarrow> ('m, 'c, 's, 'i, 'j, 'x) mission_world" where
  "set_orders ow w = w\<lparr>mw_server := (mw_server w)\<lparr>sw_orders := ow\<rparr>\<rparr>"

definition set_closes ::
    "'c \<Rightarrow> ('m, 'c, 's, 'i, 'j, 'x) mission_world \<Rightarrow> ('m, 'c, 's, 'i, 'j, 'x) mission_world" where
  "set_closes c w = w\<lparr>mw_server := (mw_server w)\<lparr>sw_closes := c\<rparr>\<rparr>"

definition annyBasicLiveDecision ::
    "('m, 'a, 'c, 's, 'i, 'j, 'x) mission_server \<Rightarrow> 'a arm_env \<Rightarrow> string \<Rightarrow> candle list \<Rightarrow> string + anny_decision" where
  "annyBasicLiveDecision sv env symbol execution =
     (case msv_decider sv of
        Some decide \<Rightarrow> decide symbol execution
      | None \<Rightarrow>
          (case av_candles env symbol ''15m'' 200 of
             Inl e \<Rightarrow> Inl e
           | Inr mains \<Rightarrow>
               if execution = [] then Inr (no_anny_decision PhaseUnset ''no execution candles'')
               else case ObserveAt mains execution (int (length execution) - 1) of
                 Inl ObserveIndex \<Rightarrow> Inr (no_anny_decision PhaseUnset ''anny basic: execution index out of range'')
               | Inl ObserveData \<Rightarrow> Inr (no_anny_decision PhaseUnset ''anny basic: insufficient indicator data'')
               | Inr obs \<Rightarrow> Inr (anny_Evaluate obs
                   \<lparr>as_TradesClosed = 0, as_ConsecutiveLosses = 0, as_RealizedPnLUSDT = dec_Zero\<rparr> missionMaxLeverage)))"

definition side_text :: "anny_side \<Rightarrow> string" where
  "side_text sd = (case sd of SideNone \<Rightarrow> [] | SideLong \<Rightarrow> ''long'' | SideShort \<Rightarrow> ''short'')"

definition armedMissionTriggerAllowed ::
    "('m, 'a, 'c, 's, 'i, 'j, 'x) mission_server \<Rightarrow> 'a arm_env \<Rightarrow> nat \<Rightarrow> usage \<Rightarrow> armed \<Rightarrow> bool" where
  "armedMissionTriggerAllowed sv env n usage mission \<longleftrightarrow>
     srv_orders (msv_base sv) \<noteq> None \<and> hasActiveKeyForSubject (en_creds (av_call env) n) (am_UserKey mission) \<and>
     fst (allow (msv_acl sv) (msv_access sv) (av_day env n) usage (am_UserKey mission) ''mission'' (av_access env n))"

definition mission_decision :: "int \<Rightarrow> armed \<Rightarrow> string \<Rightarrow> rat \<Rightarrow> int \<Rightarrow> string \<Rightarrow> decision" where
  "mission_decision maxLeverage mission sd entry modelLeverageCap reason =
     (let (sl, tp) = missionBracket sd entry; size = missionSize (am_CapitalUSDT mission);
          leverage = missionLeverageFor (am_LeverageUsePct mission) (minPositive maxLeverage modelLeverageCap)
      in no_decision\<lparr>dn_Action := ''open'', dn_Symbol := am_Symbol mission,
           dn_Strategy := missionStrategyID ''anny_basic'', dn_Side := sd, dn_Leverage := leverage,
           dn_Entry := trimPrice entry, dn_StopLoss := trimPrice sl, dn_TakeProfit := trimPrice tp,
           dn_SizeUSDT := format_fixed 2 size, dn_Reason := reason\<rparr>)"

definition intentForArmedMission ::
    "int \<Rightarrow> armed \<Rightarrow> string \<Rightarrow> rat \<Rightarrow> int \<Rightarrow> string \<Rightarrow> decision_error + intent" where
  "intentForArmedMission maxLeverage mission sd entry modelLeverageCap reason =
     bindE (DecisionToIntent (mission_decision maxLeverage mission sd entry modelLeverageCap reason) missionMaxLeverage) (\<lambda>i.
       Inr (case i_Open i of None \<Rightarrow> i | Some oi \<Rightarrow> i\<lparr>i_Open := Some (oi\<lparr>oi_CampaignID := ''mission''\<rparr>)\<rparr>))"

section \<open>Triggering\<close>

text \<open>\<open>_ = s.orders.Cancel(...)\<close>; its \<open>n\<close>-th clock.\<close>

definition drop_confirmation ::
    "('s, 'i, 'j, 'x) service \<Rightarrow> (nat \<Rightarrow> time) \<Rightarrow> int \<Rightarrow> string \<Rightarrow>
     ('m, 'c, 's, 'i, 'j, 'x) mission_world \<Rightarrow> ('m, 'c, 's, 'i, 'j, 'x) mission_world" where
  "drop_confirmation svc clk userID k w = set_orders (snd (service_Cancel svc clk userID k (sw_orders (mw_server w)))) w"

text \<open>
  \<open>triggerArmedMission\<close> from the prepared confirmation on: record it, check the gates, persist the
  timed close, check the gates again, confirm, arm the close.
\<close>

definition confirm_mission_entry ::
    "('m, 'a, 'c, 's, 'i, 'j, 'x) mission_server \<Rightarrow> 'm armed_store \<Rightarrow> ('s, 'i, 'j, 'x) service \<Rightarrow> 'a arm_env \<Rightarrow> armed \<Rightarrow>
     string \<Rightarrow> string \<Rightarrow> ('m, 'c, 's, 'i, 'j, 'x) mission_world \<Rightarrow> ('m, 'c, 's, 'i, 'j, 'x) mission_result" where
  "confirm_mission_entry sv ms svc env mission sd cid w =
     (let base = msv_base sv; call = av_call env; userID = am_UserID mission; cancel = drop_confirmation svc (en_clk call 3) userID cid in
      case ar_SetTriggeredConfirmation ms (am_ID mission) cid (en_now call 0) (mw_missions w) of
        (Inl e, m) \<Rightarrow> ((no_armed, True, Some (MissionStore e)), cancel (w\<lparr>mw_missions := m\<rparr>))
      | (Inr (updated, False), m) \<Rightarrow> ((updated, True, Some MissionNotRecorded), cancel (w\<lparr>mw_missions := m\<rparr>))
      | (Inr (updated, True), m) \<Rightarrow>
        let w = w\<lparr>mw_missions := m\<rparr> in
        if \<not> armedMissionRuntimeAllowed (srv_gate base) \<or> \<not> armedMissionTriggerAllowed sv env 1 (mw_usage w) updated then
          ((updated, True, Some MissionGateClosed), cancel w)
        else case scheduleTimedMissionClose base (en_now call 1) (en_rnd call 2)
               \<lparr>tm_UserID = userID, tm_Symbol = am_Symbol mission, tm_Side = sd, tm_Duration = planDuration (am_Duration mission)\<rparr>
               cid (sw_closes (mw_server w)) of
          (Inl e, c) \<Rightarrow> ((updated, True, Some (MissionCloseError e)), cancel (set_closes c w))
        | (Inr _, c) \<Rightarrow>
          let w = set_closes c w in
          if \<not> armedMissionRuntimeAllowed (srv_gate base) \<or> \<not> armedMissionTriggerAllowed sv env 2 (mw_usage w) updated then
            let w = cancel w
            in ((updated, True, Some MissionGateClosed),
                set_closes (cancelAwaitingScheduledClose base (en_now call 2) cid
                  ''armed mission gate closed before entry confirm'' (sw_closes (mw_server w))) w)
          else case confirm svc (en_clk call 1) userID cid True (sw_orders (mw_server w)) of
            (Inl e, ow) \<Rightarrow>
              let w = set_orders ow w
              in ((updated, True, Some (MissionOrder e)),
                  set_closes (cancelAwaitingScheduledClose base (en_now call 3) cid
                    (''entry confirm failed: '' @ order_error_text e) (sw_closes (mw_server w))) w)
          | (Inr _, ow) \<Rightarrow>
              let w = set_orders ow w
              in ((updated, True, None),
                  set_closes (activateScheduledClose base (en_now call 4) cid (sw_closes (mw_server w))) w))"

definition trigger_reason :: "anny_decision \<Rightarrow> string" where
  "trigger_reason d = ''anny_basic'' @ '' v'' @ ''1.2'' @ '' '' @ middot @ '' '' @ ad_Reason d"

definition triggerArmedMission ::
    "('m, 'a, 'c, 's, 'i, 'j, 'x) mission_server \<Rightarrow> 'm armed_store \<Rightarrow> 'a arm_env \<Rightarrow> armed \<Rightarrow> rat \<Rightarrow> anny_decision \<Rightarrow> time \<Rightarrow>
     ('m, 'c, 's, 'i, 'j, 'x) mission_world \<Rightarrow> ('m, 'c, 's, 'i, 'j, 'x) mission_result" where
  "triggerArmedMission sv ms env mission entry d now w =
     (let sd = side_text (ad_Side d); call = av_call env;
          reason = trigger_reason d in
      case ar_MarkTriggered ms (am_ID mission) sd reason [] now (mw_missions w) of
        (Inl e, m) \<Rightarrow> ((no_armed, True, Some (MissionStore e)), w\<lparr>mw_missions := m\<rparr>)
      | (Inr (claimed, False), m) \<Rightarrow> ((claimed, True, None), w\<lparr>mw_missions := m\<rparr>)
      | (Inr (claimed, True), m) \<Rightarrow>
        let w = w\<lparr>mw_missions := m, mw_usage := usage_Incr (av_day env 3) (mw_usage w) (am_UserKey mission) ''mission''\<rparr> in
        case intentForArmedMission (msv_maxLeverage sv) claimed sd entry (ad_MaxLeverage d) reason of
          Inl e \<Rightarrow> ((claimed, True, Some (MissionIntent e)), w)
        | Inr i \<Rightarrow>
          (case srv_orders (msv_base sv) of
             None \<Rightarrow> ((claimed, True, Some MissionPanic), w)
           | Some svc \<Rightarrow>
             (case prepare svc (en_hash call) (en_rnd call 0) (en_rnd call 1) (en_clk call 0) (am_UserID mission) i
                     (am_IdempotencyKey mission) (sw_orders (mw_server w)) of
                (Inl e, ow) \<Rightarrow> ((claimed, True, Some (MissionOrder e)), set_orders ow w)
              | (Inr conf, ow) \<Rightarrow>
                  confirm_mission_entry sv ms svc env mission sd (c_ID conf) (set_orders ow w))))"

definition checkArmedMission ::
    "('m, 'a, 'c, 's, 'i, 'j, 'x) mission_server \<Rightarrow> 'm armed_store \<Rightarrow> 'a arm_env \<Rightarrow> string \<Rightarrow> time \<Rightarrow>
     ('m, 'c, 's, 'i, 'j, 'x) mission_world \<Rightarrow> ('m, 'c, 's, 'i, 'j, 'x) mission_result" where
  "checkArmedMission sv ms env k now w =
     (case ar_Get ms k (mw_missions w) of
        Inl e \<Rightarrow> ((no_armed, True, Some (MissionStore e)), w)
      | Inr None \<Rightarrow> ((no_armed, True, None), w)
      | Inr (Some mission) \<Rightarrow>
        if am_Status mission \<noteq> MissionArmed then ((mission, True, None), w)
        else if \<not> now < am_ExpiresAt mission then
          (case ar_MarkExpired ms k now (mw_missions w) of
             (Inl e, m) \<Rightarrow> ((no_armed, True, Some (MissionStore e)), w\<lparr>mw_missions := m\<rparr>)
           | (Inr (r, _), m) \<Rightarrow> ((r, True, None), w\<lparr>mw_missions := m\<rparr>))
        else if \<not> armedMissionRuntimeAllowed (srv_gate (msv_base sv)) \<or> \<not> armedMissionTriggerAllowed sv env 0 (mw_usage w) mission then
          ((mission, False, None), w)
        else case av_candles env (am_Symbol mission) ''1m'' 120 of
          Inl e \<Rightarrow> ((mission, False, Some (MissionMarket e)), w)
        | Inr candles \<Rightarrow>
            if candles = [] then ((mission, False, Some MissionNoCandles), w)
            else case annyBasicLiveDecision sv env (am_Symbol mission) candles of
              Inl e \<Rightarrow> ((mission, False, Some (MissionMarket e)), w)
            | Inr d \<Rightarrow>
                if ad_Stop d \<or> ad_Side d = SideNone then ((mission, False, None), w)
                else triggerArmedMission sv ms env mission (k_Close (last candles)) d now w)"

text \<open>The watcher of a mission: one check at every tick until a check is done.\<close>

fun watch_ticks ::
    "('m, 'a, 'c, 's, 'i, 'j, 'x) mission_server \<Rightarrow> 'm armed_store \<Rightarrow> string \<Rightarrow> (time \<times> 'a arm_env) list \<Rightarrow>
     ('m, 'c, 's, 'i, 'j, 'x) mission_world \<Rightarrow> ('m, 'c, 's, 'i, 'j, 'x) mission_world" where
  "watch_ticks sv ms k [] w = w"
| "watch_ticks sv ms k ((now, env) # ticks) w =
     (case checkArmedMission sv ms env k now w of
        ((_, done1, _), w1) \<Rightarrow> if done1 then w1 else watch_ticks sv ms k ticks w1)"

section \<open>Arming and disarming\<close>

record arm_request =
  rqm_Capital :: string
  rqm_Risk :: int
  rqm_CapitalRiskPct :: int
  rqm_LeverageUsePct :: int
  rqm_Duration :: string
  rqm_UseAI :: bool

datatype arm_reply = ArmDisabled | ArmGateClosed | ArmNeedKey | ArmFailed | ArmAlready armed | ArmFull | ArmDone armed

text \<open>The scan of the active missions: the user's mission on the symbol, or how many others there are.\<close>

fun arm_scan :: "string \<Rightarrow> string \<Rightarrow> armed list \<Rightarrow> int \<Rightarrow> armed + int" where
  "arm_scan userKey symbol [] n = Inr n"
| "arm_scan userKey symbol (r # rs) n =
     (if am_UserKey r \<noteq> userKey then arm_scan userKey symbol rs n
      else if am_Symbol r = symbol \<and> am_Strategy r = ''anny_basic'' then Inl r
      else arm_scan userKey symbol rs (n + 1))"

definition new_mission ::
    "string \<Rightarrow> string \<Rightarrow> int \<Rightarrow> string \<Rightarrow> string \<Rightarrow> arm_request \<Rightarrow> time \<Rightarrow> armed" where
  "new_mission k userKey userID symbol reason req now =
     (let durationKey = missionDurationKey (rqm_Duration req); window = planDuration durationKey;
          risk = (if rqm_CapitalRiskPct req = 0 then rqm_Risk req else rqm_CapitalRiskPct req);
          risk = (if risk \<le> 0 then 30 else risk); risk = (if risk > 100 then 100 else risk);
          leverageUse = (if rqm_LeverageUsePct req \<le> 0 then 25 else rqm_LeverageUsePct req);
          leverageUse = (if leverageUse > 100 then 100 else leverageUse);
          expiresAt = now + window
      in no_armed\<lparr>am_ID := k, am_UserKey := userKey, am_UserID := userID, am_Symbol := symbol,
           am_Strategy := ''anny_basic'', am_CapitalUSDT := capitalString (rqm_Capital req), am_CapitalRiskPct := risk,
           am_LeverageUsePct := leverageUse, am_Duration := durationKey, am_DurationWindowSeconds := window sdiv seconds 1,
           am_UseAI := rqm_UseAI req, am_Status := MissionArmed, am_ArmReason := trim_space reason,
           am_IdempotencyKey := ''armed:'' @ k, am_ArmedAt := now, am_ExpiresAt := expiresAt,
           am_PurgeAt := armedMissionPurgeAt expiresAt, am_CreatedAt := now, am_UpdatedAt := now\<rparr>)"

definition armANNYBasicMission ::
    "('m, 'a, 'c, 's, 'i, 'j, 'x) mission_server \<Rightarrow> 'a arm_env \<Rightarrow> string \<Rightarrow> int \<Rightarrow> arm_request \<Rightarrow> string \<Rightarrow> string \<Rightarrow> time \<Rightarrow>
     'm \<Rightarrow> arm_reply \<times> 'm" where
  "armANNYBasicMission sv env userKey userID req symbol reason now m =
     (case msv_missions sv of
        None \<Rightarrow> (ArmDisabled, m)
      | Some ms \<Rightarrow>
        if \<not> armedMissionRuntimeAllowed (srv_gate (msv_base sv)) then (ArmGateClosed, m)
        else if \<not> hasActiveKeyForSubject (en_creds (av_call env) 0) userKey then (ArmNeedKey, m)
        else let durationKey = missionDurationKey (rqm_Duration req); window = planDuration durationKey in
        case ar_ListActive ms now m of
          Inl _ \<Rightarrow> (ArmFailed, m)
        | Inr active \<Rightarrow>
          (case arm_scan userKey symbol active 0 of
             Inl row \<Rightarrow>
               let newExpiry = now + window in
               if newExpiry > am_ExpiresAt row then
                 (case ar_ExtendWindow ms (am_ID row) durationKey (window sdiv seconds 1) newExpiry
                         (armedMissionPurgeAt newExpiry) now m of
                    (Inr (extended, True), m) \<Rightarrow> (ArmAlready extended, m)
                  | (_, m) \<Rightarrow> (ArmAlready row, m))
               else (ArmAlready row, m)
           | Inr n \<Rightarrow>
               if n \<ge> maxActiveArmedMissionsPerUser then (ArmFull, m)
               else case en_rnd (av_call env) 0 of
                 Inl _ \<Rightarrow> (ArmFailed, m)
               | Inr r \<Rightarrow>
                   let mission = new_mission (''arm_'' @ r) userKey userID symbol reason req now
                   in case ar_Save ms mission m of
                        (Some _, m) \<Rightarrow> (ArmFailed, m) | (None, m) \<Rightarrow> (ArmDone mission, m)))"

datatype disarm_reply = DisarmError int string | DisarmOutput string armed

definition handleDisarmMission ::
    "'m armed_store option \<Rightarrow> string \<Rightarrow> string option \<Rightarrow> time \<Rightarrow> 'm \<Rightarrow> disarm_reply \<times> 'm" where
  "handleDisarmMission missions userKey body now m =
     (case missions of
        None \<Rightarrow> (DisarmError 501 ''armed missions are not enabled'', m)
      | Some ms \<Rightarrow>
          (case body of
             None \<Rightarrow> (DisarmError 400 ''missing armed mission id'', m)
           | Some k \<Rightarrow>
               if trim_space k = [] then (DisarmError 400 ''missing armed mission id'', m)
               else case ar_Disarm ms userKey (trim_space k) now m of
                 (Inl _, m) \<Rightarrow> (DisarmError 500 ''could not disarm mission'', m)
               | (Inr (_, False), m) \<Rightarrow> (DisarmError 404 ''armed mission not found'', m)
               | (Inr (mission, True), m) \<Rightarrow>
                   (DisarmOutput (case am_Status mission of
                        MissionTriggered \<Rightarrow> ''Already triggered. This mission has passed the point of no return; check the Live monitor for the testnet entry.''
                      | MissionExpired \<Rightarrow> ''Already expired. No order was placed.''
                      | _ \<Rightarrow> ''Disarmed. No order will be placed.'') mission, m)))"

definition handleArmedMissions :: "'m armed_store option \<Rightarrow> string \<Rightarrow> 'm \<Rightarrow> string + armed list" where
  "handleArmedMissions missions userKey m =
     (case missions of None \<Rightarrow> Inr []
      | Some ms \<Rightarrow> (case ar_ListUser ms userKey 20 m of Inl _ \<Rightarrow> Inl ''could not load armed missions'' | Inr rows \<Rightarrow> Inr rows))"

text \<open>
  Watchers are goroutines; \<open>watched\<close> is the registry \<open>armedWatchers\<close> of the missions that have one.
\<close>

definition startArmedMissionWatcher :: "time \<Rightarrow> armed \<Rightarrow> string list \<Rightarrow> string list" where
  "startArmedMissionWatcher now mission watched =
     (if am_ID mission = [] \<or> am_Status mission \<noteq> MissionArmed \<or> \<not> now < am_ExpiresAt mission then watched
      else if am_ID mission \<in> set watched then watched else am_ID mission # watched)"

definition startArmedMissionWatchers ::
    "'m armed_store option \<Rightarrow> time \<Rightarrow> 'm \<Rightarrow> string list \<Rightarrow> int \<times> 'm \<times> string list" where
  "startArmedMissionWatchers missions now m watched =
     (case missions of
        None \<Rightarrow> (0, m, watched)
      | Some ms \<Rightarrow>
          let m = snd (ar_ExpireStale ms now m)
          in case ar_ListActive ms now m of
               Inl _ \<Rightarrow> (0, m, watched)
             | Inr rows \<Rightarrow> (int (length rows), m, fold (startArmedMissionWatcher now) rows watched))"

section \<open>What a check may do\<close>

lemma set_orders_simps [simp]:
  "sw_orders (mw_server (set_orders ow w)) = ow" "sw_closes (mw_server (set_orders ow w)) = sw_closes (mw_server w)"
  "mw_missions (set_orders ow w) = mw_missions w" "mw_usage (set_orders ow w) = mw_usage w"
  by (simp_all add: set_orders_def)

lemma set_closes_simps [simp]:
  "sw_orders (mw_server (set_closes c w)) = sw_orders (mw_server w)" "sw_closes (mw_server (set_closes c w)) = c"
  "mw_missions (set_closes c w) = mw_missions w" "mw_usage (set_closes c w) = mw_usage w"
  by (simp_all add: set_closes_def)

lemma drop_confirmation_simps [simp]:
  "mw_exch (drop_confirmation svc clk u k w) = mw_exch w" "mw_usage (drop_confirmation svc clk u k w) = mw_usage w"
  "mw_missions (drop_confirmation svc clk u k w) = mw_missions w"
  by (simp_all add: drop_confirmation_def)

text \<open>The entry is confirmed only behind both gates and with a persisted close.\<close>

lemma confirm_entry_acts:
  assumes "mw_exch (snd (confirm_mission_entry sv ms svc env mission sd cid w)) \<noteq> mw_exch w"
  shows "\<exists>(updated::armed) m (job::sclose) c. ar_SetTriggeredConfirmation ms (am_ID mission) cid (en_now (av_call env) 0) (mw_missions w) = (Inr (updated, True), m) \<and>
    armedMissionRuntimeAllowed (srv_gate (msv_base sv)) \<and>
    armedMissionTriggerAllowed sv env 1 (mw_usage w) updated \<and> armedMissionTriggerAllowed sv env 2 (mw_usage w) updated \<and>
    scheduleTimedMissionClose (msv_base sv) (en_now (av_call env) 1) (en_rnd (av_call env) 2)
      \<lparr>tm_UserID = am_UserID mission, tm_Symbol = am_Symbol mission, tm_Side = sd, tm_Duration = planDuration (am_Duration mission)\<rparr>
      cid (sw_closes (mw_server w)) = (Inr job, c)"
proof -
  note d = confirm_mission_entry_def Let_def
  obtain q m where q: "ar_SetTriggeredConfirmation ms (am_ID mission) cid (en_now (av_call env) 0) (mw_missions w) = (q, m)"
    by (meson surj_pair)
  obtain updated where u: "q = Inr (updated, True)"
  proof (cases q)
    case (Inr p)
    then show thesis using assms q that by (cases p; cases "snd p") (auto simp: d)
  qed (use assms q in \<open>simp add: d\<close>)
  have g: "armedMissionRuntimeAllowed (srv_gate (msv_base sv))" "armedMissionTriggerAllowed sv env 1 (mw_usage w) updated"
    using assms q u by (auto simp: d split: if_splits)
  obtain x c where c: "scheduleTimedMissionClose (msv_base sv) (en_now (av_call env) 1) (en_rnd (av_call env) 2)
      \<lparr>tm_UserID = am_UserID mission, tm_Symbol = am_Symbol mission, tm_Side = sd, tm_Duration = planDuration (am_Duration mission)\<rparr>
      cid (sw_closes (mw_server w)) = (x, c)" by (meson surj_pair)
  obtain job where j: "x = Inr job" using assms q u g c by (cases x) (auto simp: d)
  have "armedMissionTriggerAllowed sv env 2 (mw_usage w) updated"
    using assms q u g c j by (auto simp: d split: if_splits)
  then show ?thesis using q u g c j by blast
qed

lemma trigger_acts:
  assumes "mw_exch (snd (triggerArmedMission sv ms env mission entry d now w)) \<noteq> mw_exch w"
  shows "\<exists>reason (claimed::armed) m (i::intent) svc (conf::confirmation) ow.
    ar_MarkTriggered ms (am_ID mission) (side_text (ad_Side d)) reason [] now (mw_missions w) = (Inr (claimed, True), m) \<and>
    intentForArmedMission (msv_maxLeverage sv) claimed (side_text (ad_Side d)) entry (ad_MaxLeverage d) reason = Inr i \<and>
    srv_orders (msv_base sv) = Some svc \<and>
    (let w1 = w\<lparr>mw_missions := m, mw_usage := usage_Incr (av_day env 3) (mw_usage w) (am_UserKey mission) ''mission''\<rparr>
     in mw_exch (snd (confirm_mission_entry sv ms svc env mission (side_text (ad_Side d)) (c_ID conf) (set_orders ow w1))) \<noteq> mw_exch (set_orders ow w1))"
proof -
  define reason where "reason = trigger_reason d"
  note df = triggerArmedMission_def Let_def reason_def [symmetric]
  obtain q m where q: "ar_MarkTriggered ms (am_ID mission) (side_text (ad_Side d)) reason [] now (mw_missions w) = (q, m)"
    by (meson surj_pair)
  obtain claimed where c: "q = Inr (claimed, True)"
  proof (cases q)
    case (Inr p)
    then show thesis using assms q that by (cases p; cases "snd p") (auto simp: df)
  qed (use assms q in \<open>simp add: df\<close>)
  define w1 where "w1 = w\<lparr>mw_missions := m, mw_usage := usage_Incr (av_day env 3) (mw_usage w) (am_UserKey mission) ''mission''\<rparr>"
  obtain i where i: "intentForArmedMission (msv_maxLeverage sv) claimed (side_text (ad_Side d)) entry (ad_MaxLeverage d) reason = Inr i"
    using assms q c by (cases "intentForArmedMission (msv_maxLeverage sv) claimed (side_text (ad_Side d)) entry (ad_MaxLeverage d) reason")
      (auto simp: df)
  obtain svc where s: "srv_orders (msv_base sv) = Some svc"
    using assms q c i by (cases "srv_orders (msv_base sv)") (auto simp: df)
  obtain p ow where p: "prepare svc (en_hash (av_call env)) (en_rnd (av_call env) 0) (en_rnd (av_call env) 1) (en_clk (av_call env) 0)
      (am_UserID mission) i (am_IdempotencyKey mission) (sw_orders (mw_server w)) = (p, ow)" by (meson surj_pair)
  then have x: "w_exch ow = mw_exch w" by (rule prepare_exch')
  obtain conf where f: "p = Inr conf" using assms q c i s p x by (cases p) (auto simp: df)
  have "mw_exch (snd (confirm_mission_entry sv ms svc env mission (side_text (ad_Side d)) (c_ID conf) (set_orders ow w1)))
      \<noteq> mw_exch (set_orders ow w1)"
    using assms q c i s p f x by (simp add: df w1_def)
  then show ?thesis using q c i s unfolding w1_def Let_def by blast
qed

lemma check_acts:
  assumes "mw_exch (snd (checkArmedMission sv ms env k now w)) \<noteq> mw_exch w"
  shows "\<exists>(mission::armed) candles (d::anny_decision). ar_Get ms k (mw_missions w) = Inr (Some mission) \<and> am_Status mission = MissionArmed \<and>
    now < am_ExpiresAt mission \<and> armedMissionTriggerAllowed sv env 0 (mw_usage w) mission \<and>
    annyBasicLiveDecision sv env (am_Symbol mission) candles = Inr d \<and> \<not> ad_Stop d \<and> ad_Side d \<noteq> SideNone \<and>
    mw_exch (snd (triggerArmedMission sv ms env mission (k_Close (last candles)) d now w)) \<noteq> mw_exch w"
proof -
  note df = checkArmedMission_def
  obtain mission where m: "ar_Get ms k (mw_missions w) = Inr (Some mission)"
    using assms by (cases "ar_Get ms k (mw_missions w)") (auto simp: df split: option.splits)
  have a: "am_Status mission = MissionArmed" "now < am_ExpiresAt mission"
    using assms m by (auto simp: df split: if_splits prod.splits sum.splits)
  have g: "armedMissionTriggerAllowed sv env 0 (mw_usage w) mission" "armedMissionRuntimeAllowed (srv_gate (msv_base sv))"
    using assms m a by (auto simp: df split: if_splits)
  obtain candles where c: "av_candles env (am_Symbol mission) ''1m'' 120 = Inr candles" "candles \<noteq> []"
    using assms m a g by (cases "av_candles env (am_Symbol mission) ''1m'' 120") (auto simp: df split: if_splits)
  obtain d where d: "annyBasicLiveDecision sv env (am_Symbol mission) candles = Inr d"
    using assms m a g c by (cases "annyBasicLiveDecision sv env (am_Symbol mission) candles") (auto simp: df)
  show ?thesis using assms m a g c d by (auto simp: df split: if_splits)
qed

text \<open>What the timed close store accepted when scheduling went on.\<close>

lemma scheduled_saved:
  assumes "scheduleTimedMissionClose base t rnd m cid c = (Inr job, c')"
    and "armedMissionRuntimeAllowed (srv_gate base)" "0 < tm_Duration m" "trim_space cid \<noteq> []"
  shows "\<exists>st. srv_closes base = Some st \<and> st_Save st job c = (None, c') \<and> sc_EntryConfirmationID job = cid \<and>
    sc_Status job = CloseAwaitingEntry"
proof -
  obtain st where st: "srv_closes base = Some st"
    using assms by (cases "srv_closes base") (auto simp: scheduleTimedMissionClose_def)
  obtain k where k: "rnd = Inr k" using assms st by (cases rnd) (auto simp: scheduleTimedMissionClose_def)
  show ?thesis using assms st k by (auto simp: scheduleTimedMissionClose_def Let_def split: prod.splits option.splits)
qed

lemma planDuration_pos: "0 < planDuration v"
  by (simp add: planDuration_def minutes_def hours_def)

section \<open>Arming stays within the cap\<close>

definition active_for :: "string \<Rightarrow> time \<Rightarrow> mem_missions \<Rightarrow> string set" where
  "active_for u t m = {k. \<exists>r. m k = Some r \<and> am_UserKey r = u \<and> am_Status r = MissionArmed \<and> t < am_ExpiresAt r}"

lemma arm_scan_count:
  "arm_scan u symb rs n = Inr c \<Longrightarrow> c = n + int (length (filter (\<lambda>r. am_UserKey r = u) rs))"
  by (induction rs arbitrary: n) (fastforce split: if_splits)+

lemma arm_scan_row: "arm_scan u symb rs n = Inl r \<Longrightarrow> r \<in> set rs \<and> am_UserKey r = u"
  by (induction rs arbitrary: n) (auto split: if_splits)

lemma set_visit: "set (visit order p m) = {r. \<exists>k\<in>set order. m k = Some r \<and> p r}"
  by (force simp: visit_def split: option.splits if_splits)

text \<open>Visiting every key once, the filtered rows are as many as the keys that have such a row.\<close>

lemma visit_card:
  assumes "distinct order"
  shows "length (filter q (visit order p m)) = card {k \<in> set order. \<exists>r. m k = Some r \<and> p r \<and> q r}"
  using assms
proof (induction order)
  case (Cons k ks)
  have v: "visit (k # ks) p m = (case m k of None \<Rightarrow> [] | Some r \<Rightarrow> if p r then [r] else []) @ visit ks p m"
    by (simp add: visit_def)
  have "{j \<in> set (k # ks). \<exists>r. m j = Some r \<and> p r \<and> q r} =
      (if \<exists>r. m k = Some r \<and> p r \<and> q r then insert k {j \<in> set ks. \<exists>r. m j = Some r \<and> p r \<and> q r}
       else {j \<in> set ks. \<exists>r. m j = Some r \<and> p r \<and> q r})" by auto
  then show ?case using Cons by (auto simp: v split: option.splits)
qed (simp add: visit_def)

lemma active_for_finite: "dom m \<subseteq> set order \<Longrightarrow> finite (active_for u t m)"
  by (rule finite_subset [OF _ finite_set [of order]]) (auto simp: active_for_def)

lemma active_count:
  assumes "distinct order" "dom m \<subseteq> set order"
  shows "int (length (filter (\<lambda>r. am_UserKey r = u) (visit order (\<lambda>r. am_Status r = MissionArmed \<and> now < am_ExpiresAt r) m)))
    = int (card (active_for u now m))"
proof -
  have "{k \<in> set order. \<exists>r. m k = Some r \<and> (am_Status r = MissionArmed \<and> now < am_ExpiresAt r) \<and> am_UserKey r = u}
      = active_for u now m"
    using assms(2) by (auto simp: active_for_def)
  then show ?thesis by (simp only: visit_card [OF assms(1)])
qed

lemma active_shrinks: "now \<le> t \<Longrightarrow> active_for u t m \<subseteq> active_for u now m"
  by (auto simp: active_for_def)

lemma valid_intent_campaign:
  assumes "valid_intent m i" "i_Open i = Some oi"
  shows "valid_intent m (i\<lparr>i_Open := Some (oi\<lparr>oi_CampaignID := c\<rparr>)\<rparr>)"
  using assms by (auto simp: valid_intent_def valid_open_def split: intent_type.splits)

lemma armed_intent_valid:
  assumes "intentForArmedMission maxLev mission sd entry cap reason = Inr i"
  shows "valid_intent 100 i"
proof -
  obtain j where j: "DecisionToIntent (mission_decision maxLev mission sd entry cap reason) missionMaxLeverage = Inr j"
      "i = (case i_Open j of None \<Rightarrow> j | Some oi \<Rightarrow> j\<lparr>i_Open := Some (oi\<lparr>oi_CampaignID := ''mission''\<rparr>)\<rparr>)"
    using assms by (auto simp: intentForArmedMission_def)
  have "to_lower (trim_space (dn_Action (mission_decision maxLev mission sd entry cap reason))) \<noteq> ''close''"
    by (auto simp: mission_decision_def Let_def split: prod.splits) (code_simp)
  then have "valid_intent 100 j"
    using DecisionToIntent_valid [OF j(1)] by (simp add: missionMaxLeverage_def parser_New_def)
  then show ?thesis using j(2) valid_intent_campaign by (auto split: option.splits)
qed

end
