(* ===== verification/Armed_Properties.thy ===== *)
theory Armed_Properties
  imports Armed_Mission
begin

text \<open>
  The properties of the armed missions (\<open>Armed_Mission\<close>), with the example that exercises them: a mission on
  \<open>BTCUSDT\<close> whose check at 900 finds the model deciding for a long entry.
\<close>

section \<open>An example\<close>

definition ex_mission :: armed where
  "ex_mission = no_armed\<lparr>am_ID := ''arm_1'', am_UserKey := ''tg:7'', am_UserID := 7, am_Symbol := ''BTCUSDT'',
     am_Strategy := ''anny_basic'', am_CapitalUSDT := ''5'', am_LeverageUsePct := 25, am_Duration := ''1h'',
     am_IdempotencyKey := ''armed:arm_1'', am_ExpiresAt := 5000\<rparr>"

definition ex_acl :: access_config where
  "ex_acl = \<lparr>cf_AdminUserID = 1, cf_PrivateBeta = False, cf_AccessOpen = False\<rparr>"

definition ex_live_decision :: anny_decision where
  "ex_live_decision = \<lparr>ad_Side = SideLong, ad_Phase = PhaseFast, ad_MaxLeverage = 50, ad_Reason = ''CDC and QQE aligned'', ad_Stop = False\<rparr>"

definition ex_msv ::
    "(mem_missions, mem_access, mem_closes, mem_store, unit, mem_journal, confirmation list) mission_server" where
  "ex_msv = \<lparr>msv_base = ex_server, msv_missions = Some (memory_armed_store [''arm_1'']), msv_acl = ex_acl,
     msv_access = Some (memory_access []), msv_maxLeverage = 20,
     msv_decider = Some (\<lambda>_ _. Inr ex_live_decision)\<rparr>"

definition ex_arm_env :: "mem_access arm_env" where
  "ex_arm_env = \<lparr>av_call = ex_env\<lparr>en_rnd := (\<lambda>n. Inr (if n = 0 then ''k1'' else if n = 1 then ''k2'' else ''k3''))\<rparr>,
     av_access = (\<lambda>_ _. None), av_day = (\<lambda>_. ''2026-01-01''), av_candles = (\<lambda>_ _ _. Inr [(ex_candle 0)\<lparr>k_Open := 49, k_High := 51, k_Low := 48, k_Close := 50\<rparr>])\<rparr>"

definition ex_mworld :: "(mem_missions, mem_closes, mem_store, unit, mem_journal, confirmation list) mission_world" where
  "ex_mworld = \<lparr>mw_missions = [''arm_1'' \<mapsto> ex_mission], mw_server = ex_sworld\<lparr>sw_closes := (\<lambda>_. None)\<rparr>, mw_usage = (\<lambda>_. 0)\<rparr>"

lemma ex_size: "missionSize ''5'' = 5" by code_simp
lemma ex_size_text: "format_fixed 2 5 = ''5.00''" by code_simp
lemma ex_bracket: "missionBracket ''long'' 50 = (f64 (50 * f64 (99 / 100)), f64 (50 * f64 (51 / 50)))"
  by (simp add: missionBracket_def fmul_def)
lemma ex_entry_text: "trimPrice 50 = ''50''" by code_simp
lemma ex_stop_text: "trimPrice (f64 (50 * f64 (99 / 100))) = ''49.5''" by code_simp
lemma ex_take_text: "trimPrice (f64 (50 * f64 (51 / 50))) = ''51''" by code_simp
lemma ex_leverage: "missionLeverageFor 25 (minPositive 20 50) = 5" by code_simp
lemma ex_strategy: "missionStrategyID ''anny_basic'' = ''anny_basic_v1.2''" by code_simp
lemmas ex_texts = ex_size ex_size_text ex_bracket ex_entry_text ex_stop_text ex_take_text ex_leverage ex_strategy

definition ex_reason :: string where
  "ex_reason = ''anny_basic v1.2 '' @ middot @ '' CDC and QQE aligned''"

definition ex_intent :: intent where
  "ex_intent = no_intent\<lparr>i_Type := IntentOpen, i_RawText := ''long BTCUSDT 5x entry 50 sl 49.5 tp 51 size 5.00usdt'',
     i_Open := Some \<lparr>oi_Symbol = ''BTCUSDT'', oi_Side = ''long'', oi_Leverage = 5, oi_Entry = \<lparr>d_value = Some 50, d_scale = 0\<rparr>,
       oi_StopLoss = \<lparr>d_value = Some 495, d_scale = 1\<rparr>, oi_TakeProfits = [\<lparr>d_value = Some 51, d_scale = 0\<rparr>],
       oi_Size = \<lparr>os_Kind = SizeUSDT, os_Amount = \<lparr>d_value = Some 5, d_scale = 0\<rparr>\<rparr>, oi_PlanID = [],
       oi_Strategy = ''anny_basic_v1.2'', oi_Models = [], oi_Reason = ex_reason, oi_Confidence = 0, oi_CampaignID = ''mission''\<rparr>\<rparr>"

lemma ex_mission_decision:
  assumes "am_CapitalUSDT m = ''5''" "am_LeverageUsePct m = 25" "am_Symbol m = ''BTCUSDT''"
  shows "mission_decision 20 m ''long'' 50 50 reason = no_decision\<lparr>dn_Action := ''open'', dn_Symbol := ''BTCUSDT'',
     dn_Strategy := ''anny_basic_v1.2'', dn_Side := ''long'', dn_Leverage := 5, dn_Entry := ''50'', dn_StopLoss := ''49.5'',
     dn_TakeProfit := ''51'', dn_SizeUSDT := ''5.00'', dn_Reason := reason\<rparr>"
  by (simp add: mission_decision_def assms ex_texts)

lemma ex_decision_intent:
  "bindE (DecisionToIntent (no_decision\<lparr>dn_Action := ''open'', dn_Symbol := ''BTCUSDT'',
     dn_Strategy := ''anny_basic_v1.2'', dn_Side := ''long'', dn_Leverage := 5, dn_Entry := ''50'', dn_StopLoss := ''49.5'',
     dn_TakeProfit := ''51'', dn_SizeUSDT := ''5.00'', dn_Reason := ex_reason\<rparr>) 100) (\<lambda>i.
       Inr (case i_Open i of None \<Rightarrow> i | Some oi \<Rightarrow> i\<lparr>i_Open := Some (oi\<lparr>oi_CampaignID := ''mission''\<rparr>)\<rparr>)) = Inr ex_intent"
  by code_simp

lemma ex_intent_for:
  assumes "am_CapitalUSDT m = ''5''" "am_LeverageUsePct m = 25" "am_Symbol m = ''BTCUSDT''"
  shows "intentForArmedMission 20 m ''long'' 50 50 ex_reason = Inr ex_intent"
  using ex_decision_intent by (simp add: intentForArmedMission_def ex_mission_decision [OF assms] missionMaxLeverage_def)

text \<open>The mission once claimed, the state of the missions then, and the world its entry is prepared in.\<close>

definition ex_claim :: "armed \<times> mem_missions" where
  "ex_claim = (case ar_MarkTriggered (memory_armed_store []) ''arm_1'' ''long'' ex_reason [] 900 (mw_missions ex_mworld) of
     (Inr (r, _), m) \<Rightarrow> (r, m) | (_, m) \<Rightarrow> (no_armed, m))"

lemma ex_mark: "ar_MarkTriggered (memory_armed_store []) ''arm_1'' ''long'' ex_reason [] 900 (mw_missions ex_mworld) = (Inr (fst ex_claim, True), snd ex_claim)"
  by (simp add: ex_claim_def memory_armed_store_def mar_MarkTriggered_def Let_def ex_mworld_def ex_mission_def no_armed_def)

definition ex_claimed_world :: "(mem_missions, mem_closes, mem_store, unit, mem_journal, confirmation list) mission_world" where
  "ex_claimed_world = ex_mworld\<lparr>mw_missions := snd ex_claim, mw_usage := usage_Incr ''2026-01-01'' (\<lambda>_. 0) ''tg:7'' ''mission''\<rparr>"

lemma ex_confirm:
  "case srv_orders (msv_base ex_msv) of None \<Rightarrow> False | Some svc \<Rightarrow>
    (case prepare svc (en_hash (av_call ex_arm_env)) (en_rnd (av_call ex_arm_env) 0) (en_rnd (av_call ex_arm_env) 1)
      (en_clk (av_call ex_arm_env) 0) 7 ex_intent ''armed:arm_1'' (sw_orders (mw_server ex_mworld)) of
       (Inl _, _) \<Rightarrow> False
     | (Inr conf, ow) \<Rightarrow> length (mw_exch (snd (confirm_mission_entry ex_msv (memory_armed_store []) svc ex_arm_env ex_mission ''long''
          (c_ID conf) (set_orders ow ex_claimed_world)))) = 1)"
  by code_simp

lemma ex_claimed: "am_CapitalUSDT (fst ex_claim) = ''5''" "am_LeverageUsePct (fst ex_claim) = 25" "am_Symbol (fst ex_claim) = ''BTCUSDT''"
  by (simp_all add: ex_claim_def memory_armed_store_def mar_MarkTriggered_def Let_def ex_mworld_def ex_mission_def no_armed_def)

lemma ex_gates: "armedMissionRuntimeAllowed (srv_gate (msv_base ex_msv))" "armedMissionTriggerAllowed ex_msv ex_arm_env 0 (\<lambda>_. 0) ex_mission"
  by code_simp+

lemma ex_trigger:
  "length (mw_exch (snd (triggerArmedMission ex_msv (memory_armed_store []) ex_arm_env ex_mission 50 ex_live_decision 900 ex_mworld))) = 1"
proof -
  have r: "trigger_reason ex_live_decision = ex_reason" by code_simp
  have s: "msv_maxLeverage ex_msv = 20" "side_text (ad_Side ex_live_decision) = ''long''" "ad_MaxLeverage ex_live_decision = 50"
    "am_ID ex_mission = ''arm_1''" "am_UserID ex_mission = 7" "am_UserKey ex_mission = ''tg:7''" "am_IdempotencyKey ex_mission = ''armed:arm_1''"
    "av_day ex_arm_env 3 = ''2026-01-01''" "mw_usage ex_mworld = (\<lambda>_. 0)" "mw_server ex_claimed_world = mw_server ex_mworld"
    by (simp_all add: ex_msv_def ex_live_decision_def ex_mission_def ex_arm_env_def ex_mworld_def ex_claimed_world_def side_text_def)
  show ?thesis
    using ex_confirm
    by (simp add: triggerArmedMission_def Let_def r s ex_mark ex_intent_for [OF ex_claimed] ex_claimed_world_def [symmetric]
        split: option.splits prod.splits sum.splits)
qed

lemma ex_mission_enters:
  "length (mw_exch (snd (checkArmedMission ex_msv (memory_armed_store []) ex_arm_env ''arm_1'' 900 ex_mworld))) = 1"
proof -
  have s: "ar_Get (memory_armed_store []) ''arm_1'' (mw_missions ex_mworld) = Inr (Some ex_mission)" "am_Status ex_mission = MissionArmed"
    "900 < am_ExpiresAt ex_mission" "mw_usage ex_mworld = (\<lambda>_. 0)"
    "av_candles ex_arm_env sy iv n = Inr [(ex_candle 0)\<lparr>k_Open := 49, k_High := 51, k_Low := 48, k_Close := 50\<rparr>]" "annyBasicLiveDecision ex_msv ex_arm_env sy cs = Inr ex_live_decision" 
    "\<not> ad_Stop ex_live_decision" "ad_Side ex_live_decision \<noteq> SideNone" for sy iv n cs
    by (simp_all add: ex_mission_def ex_mworld_def ex_arm_env_def memory_armed_store_def no_armed_def annyBasicLiveDecision_def ex_msv_def
        ex_live_decision_def ex_candle_def)
  show ?thesis using ex_trigger ex_gates by (simp add: checkArmedMission_def s)
qed

section \<open>The cap and the allowance\<close>

lemma active_upd:
  assumes "finite (active_for v t m)"
  shows "card (active_for v t (m(k \<mapsto> r))) \<le> card (active_for v t m) + (if am_UserKey r = v then 1 else 0)"
proof (cases "am_UserKey r = v")
  case True
  have "active_for v t (m(k \<mapsto> r)) \<subseteq> insert k (active_for v t m)" by (auto simp: active_for_def split: if_splits)
  then have "card (active_for v t (m(k \<mapsto> r))) \<le> card (insert k (active_for v t m))" using assms by (intro card_mono) auto
  then show ?thesis using True card_insert_le_m1 [of "Suc (card (active_for v t m))" "active_for v t m" k] by simp
next
  case False
  then have "active_for v t (m(k \<mapsto> r)) \<subseteq> active_for v t m" by (auto simp: active_for_def split: if_splits)
  then show ?thesis using False assms by (simp add: card_mono)
qed

lemma active_update_same:
  assumes "k \<in> active_for u now m" "am_UserKey r = u" "now \<le> t" "finite (active_for v now m)"
  shows "card (active_for v t (m(k \<mapsto> r))) \<le> card (active_for v now m)"
proof (rule card_mono [OF assms(4)])
  show "active_for v t (m(k \<mapsto> r)) \<subseteq> active_for v now m"
    using assms(1-3) by (auto simp: active_for_def split: if_splits)
qed

text \<open>What arming does to the missions in memory.\<close>

lemma arm_effect:
  assumes "armANNYBasicMission sv env u uid req symb reason now m = (reply, m')"
    and "msv_missions sv = Some (memory_armed_store order)" "\<forall>k r. m k = Some r \<longrightarrow> am_ID r = k"
    and "distinct order" "dom m \<subseteq> set order"
  shows "m' = m \<or> (\<exists>k (r::armed). k \<in> active_for u now m \<and> am_UserKey r = u \<and> m' = m(k \<mapsto> r)) \<or>
    (\<exists>k (r::armed). card (active_for u now m) < 3 \<and> am_UserKey r = u \<and> m' = m(k \<mapsto> r))"
proof -
  let ?rows = "visit order (\<lambda>r. am_Status r = MissionArmed \<and> now < am_ExpiresAt r) m"
  note d = armANNYBasicMission_def Let_def assms(2) memory_armed_store_def mar_ListActive_def
  consider "m' = m" | row where "arm_scan u symb ?rows 0 = Inl row"
    | n k where "arm_scan u symb ?rows 0 = Inr n" "n < 3" "m' = m(k \<mapsto> new_mission k u uid symb reason req now)"
    using assms(1) by (cases "arm_scan u symb ?rows 0")
      (auto simp: d mar_Save_def maxActiveArmedMissionsPerUser_def new_mission_def split: if_splits sum.splits)
  then show ?thesis
  proof cases
    case (2 row)
    have row: "m (am_ID row) = Some row" "am_ID row \<in> active_for u now m"
      using arm_scan_row [OF 2] assms(3) by (auto simp: set_visit active_for_def)
    then have u: "am_UserKey row = u" by (auto simp: active_for_def)
    define w where "w = planDuration (missionDurationKey (rqm_Duration req))"
    define r where "r = row\<lparr>am_Duration := missionDurationKey (rqm_Duration req), am_DurationWindowSeconds := w sdiv seconds 1,
      am_ExpiresAt := now + w, am_PurgeAt := armedMissionPurgeAt (now + w), am_UpdatedAt := now\<rparr>"
    have "m' = m \<or> m' = m(am_ID row \<mapsto> r)" using row assms(1) 2
      by (auto simp: d mar_ExtendWindow_def r_def w_def split: if_splits sum.splits)
    moreover have "am_UserKey r = u" using u by (simp add: r_def)
    ultimately show ?thesis using row(2) by blast
  next
    case (3 n k)
    then have "card (active_for u now m) < 3" using arm_scan_count [OF 3(1)] active_count [OF assms(4,5)] by simp
    moreover have "am_UserKey (new_mission k u uid symb reason req now) = u" by (simp add: new_mission_def Let_def)
    ultimately show ?thesis using 3(3) by blast
  qed simp
qed

section \<open>Properties\<close>



text \<open>C20. A mission is triggered at most once: over the MongoDB store, after a won trigger, whatever calls and TTL
  deletions follow, no trigger of the mission is won again.\<close>

theorem mongo_triggered_once:
  assumes "mongo_driver drv am_ID (\<lambda>_ _. False) docs"
    and "gar_MarkTriggered drv k sd rs cid t s = (Inr (r, True), s1)"
    and "(armed_env (mongo_armed_store drv) docs k)\<^sup>*\<^sup>* s1 s2"
  shows "gar_MarkTriggered drv k sd' rs' cid' t' s2 \<noteq> (Inr (r', True), s3)"
proof -
  have m: "mongo_armed drv docs" using assms(1) by (rule mongo_armed.intro)
  show ?thesis
    using mongo_armed.mongo_never_again [OF m mongo_armed.mongo_trigger_retires [OF m] assms(3)] assms(2)
    by (simp add: mongo_armed_store_def)
qed

theorem mongo_triggered_once_witness:
  "\<exists>r s1. gar_MarkTriggered (map_driver am_ID (\<lambda>_ _. False)) ''arm_1'' ''long'' [] [] 900 [(''arm_1'', ex_mission)] = (Inr (r, True), s1) \<and>
     (\<forall>r' s3. gar_MarkTriggered (map_driver am_ID (\<lambda>_ _. False)) ''arm_1'' ''short'' [] [] 950 s1 \<noteq> (Inr (r', True), s3))"
proof -
  obtain r s1 where t: "gar_MarkTriggered (map_driver am_ID (\<lambda>_ _. False)) ''arm_1'' ''long'' [] [] 900 [(''arm_1'', ex_mission)] = (Inr (r, True), s1)"
    by (simp add: gar_MarkTriggered_def armed_transition_def doc_transition_def map_driver_def hit_where_def ex_mission_def no_armed_def)
  from mongo_triggered_once [OF map_server.mongo_driver_axioms t rtranclp.rtrancl_refl] t show ?thesis by blast
qed

text \<open>A disarm that is answered is final: over the MongoDB store, once the handler has answered a disarm with
  the mission, no later trigger of it is won, whatever else happens to the store.\<close>

theorem mongo_disarm_final:
  assumes "mongo_driver drv am_ID (\<lambda>_ _. False) docs"
    and "handleDisarmMission (Some (mongo_armed_store drv)) u (Some k) t s = (DisarmOutput out r, s1)"
    and "(armed_env (mongo_armed_store drv) docs (trim_space k))\<^sup>*\<^sup>* s1 s2"
  shows "gar_MarkTriggered drv (trim_space k) sd rs cid t' s2 \<noteq> (Inr (r', True), s3)"
proof -
  have m: "mongo_armed drv docs" using assms(1) by (rule mongo_armed.intro)
  have "ar_Disarm (mongo_armed_store drv) u (trim_space k) t s = (Inr (r, True), s1)"
    using assms(2) unfolding handleDisarmMission_def
    by (auto split: if_splits prod.splits sum.splits bool.splits)
  from mongo_armed.mongo_never_again [OF m mongo_armed.mongo_disarm_retires [OF m this] assms(3)] show ?thesis
    by (simp add: mongo_armed_store_def)
qed

theorem mongo_disarm_final_witness:
  "\<exists>out r s1. handleDisarmMission (Some (mongo_armed_store (map_driver am_ID (\<lambda>_ _. False)))) ''tg:7'' (Some ''arm_1'') 900
       [(''arm_1'', ex_mission)] = (DisarmOutput out r, s1) \<and>
     (\<forall>r' s3. gar_MarkTriggered (map_driver am_ID (\<lambda>_ _. False)) ''arm_1'' ''short'' [] [] 950 s1 \<noteq> (Inr (r', True), s3))"
proof -
  have k: "trim_space ''arm_1'' = ''arm_1''" by code_simp
  obtain out r s1 where t: "handleDisarmMission (Some (mongo_armed_store (map_driver am_ID (\<lambda>_ _. False)))) ''tg:7'' (Some ''arm_1'') 900
       [(''arm_1'', ex_mission)] = (DisarmOutput out r, s1)"
    by (simp add: handleDisarmMission_def k mongo_armed_store_def gar_Disarm_def armed_transition_def doc_transition_def map_driver_def
        hit_where_def ex_mission_def no_armed_def)
  from mongo_disarm_final [OF map_server.mongo_driver_axioms t rtranclp.rtrancl_refl] t k show ?thesis by metis
qed


definition ex_request :: arm_request where
  "ex_request = \<lparr>rqm_Capital = ''50'', rqm_Risk = 10, rqm_CapitalRiskPct = 0, rqm_LeverageUsePct = 25, rqm_Duration = ''2h'', rqm_UseAI = False\<rparr>"


text \<open>The last mission of a day's allowance never reaches the exchange. The trigger counts the claimed mission
  as used before it looks at the allowance again, so for a user with a finite limit who has one
  mission left the check never sends an order (over the memory store, with the user's plan and the day
  unchanged during the check).\<close>

theorem last_allowance_lost:
  assumes "checkArmedMission sv (memory_armed_store order) env k now w = (res, w')"
    and "\<forall>k r. mw_missions w k = Some r \<longrightarrow> am_ID r = k"
    and "\<And>n. av_access env n = acc" "\<And>n. av_day env n = day"
    and "mw_missions w k = Some mission"
    and "tl_MissionsPerDay (limitsFor (tierOfSubject (msv_acl sv) (msv_access sv) (am_UserKey mission) acc)) = limit" "0 \<le> limit"
    and "usage_Get day (mw_usage w) (am_UserKey mission) ''mission'' = limit - 1"
  shows "mw_exch w' = mw_exch w"
proof (rule ccontr)
  assume "mw_exch w' \<noteq> mw_exch w"
  then have "mw_exch (snd (checkArmedMission sv (memory_armed_store order) env k now w)) \<noteq> mw_exch w" using assms(1) by simp
  from check_acts [OF this] obtain candles :: "candle list" and d where 1:
    "mw_exch (snd (triggerArmedMission sv (memory_armed_store order) env mission (k_Close (last candles)) d now w)) \<noteq> mw_exch w"
    using assms(5) by (auto simp: memory_armed_store_def)
  have key: "am_ID mission = k" using assms(2,5) by blast
  from trigger_acts [OF 1] obtain reason claimed m svc conf ow w1 where 2:
    "ar_MarkTriggered (memory_armed_store order) (am_ID mission) (side_text (ad_Side d)) reason [] now (mw_missions w) = (Inr (claimed, True), m)"
    "w1 = w\<lparr>mw_missions := m, mw_usage := usage_Incr (av_day env 3) (mw_usage w) (am_UserKey mission) ''mission''\<rparr>"
    "mw_exch (snd (confirm_mission_entry sv (memory_armed_store order) svc env mission (side_text (ad_Side d)) (c_ID (conf::confirmation)) (set_orders ow w1)))
       \<noteq> mw_exch (set_orders ow w1)" unfolding Let_def by blast
  from confirm_entry_acts [OF 2(3)] obtain updated m2 where 3:
    "ar_SetTriggeredConfirmation (memory_armed_store order) (am_ID mission) (c_ID conf) (en_now (av_call env) 0) (mw_missions (set_orders ow w1)) = (Inr (updated, True), m2)"
    "armedMissionTriggerAllowed sv env 1 (mw_usage (set_orders ow w1)) updated" by blast
  have "am_UserKey updated = am_UserKey mission"
    using 2(1) 3(1) assms(5) key unfolding 2(2)
    by (auto simp: memory_armed_store_def mar_MarkTriggered_def mar_SetTriggeredConfirmation_def Let_def split: option.splits if_splits)
  moreover have "\<not> fst (allow (msv_acl sv) (msv_access sv) day (usage_Incr day (mw_usage w) (am_UserKey mission) ''mission'')
      (am_UserKey mission) ''mission'' acc)"
    using assms(6-8) by (simp add: allow_def usage_Get_def usage_Incr_def Let_def)
  ultimately show False
    using 3(2) unfolding 2(2) by (simp add: armedMissionTriggerAllowed_def assms(3,4))
qed

theorem last_allowance_lost_witness:
  "mw_exch (snd (checkArmedMission ex_msv (memory_armed_store []) ex_arm_env ''arm_1'' 900
     (ex_mworld\<lparr>mw_usage := (\<lambda>_. 4)\<rparr>))) = mw_exch ex_mworld"
proof -
  let ?w = "ex_mworld\<lparr>mw_usage := (\<lambda>_. 4)\<rparr>"
  let ?c = "checkArmedMission ex_msv (memory_armed_store []) ex_arm_env ''arm_1'' 900 ?w"
  have r: "?c = (fst ?c, snd ?c)" by simp
  have l: "tl_MissionsPerDay (limitsFor (tierOfSubject (msv_acl ex_msv) (msv_access ex_msv) (am_UserKey ex_mission) (\<lambda>_. None))) = 5"
    by code_simp
  have "mw_exch (snd ?c) = mw_exch ?w"
    by (rule last_allowance_lost [OF r _ _ _ _ l]) (auto simp: ex_arm_env_def ex_mworld_def ex_mission_def usage_Get_def split: if_splits)
  then show ?thesis by simp
qed

end
