(* ===== verification/Trailing.thy ===== *)
theory Trailing
  imports Domain
begin

text \<open>
  \<open>internal/monitor\<close>: the trailing stop. \<open>ComputeStop\<close> decides; the runner of the platform account and the
  trailer of every user's own account apply it to the open positions at each tick. An exchange is a
  record of the calls the trailer makes, acting on a world \<open>'w\<close>.
\<close>

section \<open>The decision\<close>

record trail_policy =
  tp_ActivatePct :: decimal
  tp_TrailGapPct :: decimal

definition policy_Valid :: "trail_policy \<Rightarrow> bool" where
  "policy_Valid p \<longleftrightarrow> dec_IsPositive (tp_ActivatePct p) \<and> dec_IsPositive (tp_TrailGapPct p)"

definition monitor_percentOf :: "decimal \<Rightarrow> decimal \<Rightarrow> decimal" where
  "monitor_percentOf value pct =
     (case dec_QuoFloor (dec_Mul value pct) (dec_NewFromInt 100) 8 of Inl _ \<Rightarrow> dec_Zero | Inr r \<Rightarrow> r)"

definition ComputeStop :: "side \<Rightarrow> decimal \<Rightarrow> decimal \<Rightarrow> decimal \<Rightarrow> trail_policy \<Rightarrow> decimal \<times> bool" where
  "ComputeStop sd entry currentStop mark policy =
     (if \<not> policy_Valid policy then (currentStop, False)
      else let activate = monitor_percentOf entry (tp_ActivatePct policy); gap = monitor_percentOf entry (tp_TrailGapPct policy)
      in if sd = SideLong then
           (if dec_Cmp (dec_Sub mark entry) activate < 0 then (currentStop, False)
            else let candidate = dec_Sub mark gap; candidate = (if dec_Cmp candidate entry < 0 then entry else candidate)
                 in if dec_Cmp candidate currentStop > 0 then (candidate, True) else (currentStop, False))
         else if sd = SideShort then
           (if dec_Cmp (dec_Sub entry mark) activate < 0 then (currentStop, False)
            else let candidate = dec_Add mark gap; candidate = (if dec_Cmp candidate entry > 0 then entry else candidate)
                 in if dec_Cmp candidate currentStop < 0 then (candidate, True) else (currentStop, False))
         else (currentStop, False))"

section \<open>The tick\<close>

record stop_state =
  ss_Price :: decimal
  ss_ClientAlgoID :: string

record 'w trail_exchange =
  tx_Positions :: "'w \<Rightarrow> (string + position list) \<times> 'w"
  tx_CurrentStop :: "string \<Rightarrow> 'w \<Rightarrow> (string + stop_state option) \<times> 'w"
  tx_MoveStopLoss :: "string \<Rightarrow> side \<Rightarrow> decimal \<Rightarrow> string \<Rightarrow> string \<Rightarrow> 'w \<Rightarrow> string option \<times> 'w"

text \<open>One position of a pass; \<open>newID\<close> names the new stop order from the symbol and the sequence number.\<close>

definition trail_position ::
    "trail_policy \<Rightarrow> (string \<Rightarrow> int \<Rightarrow> string) \<Rightarrow> 'w trail_exchange \<Rightarrow> position \<Rightarrow> int \<times> 'w \<Rightarrow> int \<times> 'w" where
  "trail_position policy newID ex p x =
     (case x of (seq, w) \<Rightarrow>
        if dec_IsZero (p_Amount p) then (seq, w)
        else case tx_CurrentStop ex (p_Symbol p) w of
          (Inl _, w) \<Rightarrow> (seq, w)
        | (Inr None, w) \<Rightarrow> (seq, w)
        | (Inr (Some stop), w) \<Rightarrow>
            (case ComputeStop (p_Side p) (p_EntryPrice p) (ss_Price stop) (p_MarkPrice p) policy of
               (_, False) \<Rightarrow> (seq, w)
             | (newStop, True) \<Rightarrow>
                 (seq + 1, snd (tx_MoveStopLoss ex (p_Symbol p) (p_Side p) newStop (ss_ClientAlgoID stop)
                                  (newID (p_Symbol p) (seq + 1)) w))))"

definition trail_pass ::
    "trail_policy \<Rightarrow> (string \<Rightarrow> int \<Rightarrow> string) \<Rightarrow> 'w trail_exchange \<Rightarrow> int \<times> 'w \<Rightarrow> string option \<times> int \<times> 'w" where
  "trail_pass policy newID ex x =
     (case x of (seq, w) \<Rightarrow>
        (case tx_Positions ex w of
           (Inl e, w) \<Rightarrow> (Some e, seq, w)
         | (Inr ps, w) \<Rightarrow> (None, fold (trail_position policy newID ex) ps (seq, w))))"

definition defaultStopID :: "string \<Rightarrow> int \<Rightarrow> string" where
  "defaultStopID symbol seq = ''tb_trail_'' @ symbol @ ''_'' @ show_int seq"

definition Runner_Tick :: "trail_policy \<Rightarrow> 'w trail_exchange \<Rightarrow> int \<times> 'w \<Rightarrow> string option \<times> int \<times> 'w" where
  "Runner_Tick policy ex x = trail_pass policy defaultStopID ex x"

definition trailUser :: "trail_policy \<Rightarrow> string \<Rightarrow> 'w trail_exchange \<Rightarrow> int \<times> 'w \<Rightarrow> int \<times> 'w" where
  "trailUser policy nonce ex x =
     snd (trail_pass policy (\<lambda>symbol seq. ''tb_trail_'' @ nonce @ ''_'' @ symbol @ ''_'' @ show_int seq) ex x)"

definition Multi_user ::
    "trail_policy \<Rightarrow> string \<Rightarrow> (string \<Rightarrow> 'w \<Rightarrow> (string + 'w trail_exchange option) \<times> 'w) \<Rightarrow> string \<Rightarrow> int \<times> 'w \<Rightarrow> int \<times> 'w" where
  "Multi_user policy nonce exchangeFor key x =
     (case x of (seq, w) \<Rightarrow>
        (case exchangeFor key w of
           (Inr (Some ex), w) \<Rightarrow> trailUser policy nonce ex (seq, w)
         | (_, w) \<Rightarrow> (seq, w)))"

definition Multi_Tick ::
    "trail_policy \<Rightarrow> string \<Rightarrow> ('w \<Rightarrow> (string + string list) \<times> 'w) \<Rightarrow> (string \<Rightarrow> 'w \<Rightarrow> (string + 'w trail_exchange option) \<times> 'w) \<Rightarrow>
     int \<times> 'w \<Rightarrow> string option \<times> int \<times> 'w" where
  "Multi_Tick policy nonce keys exchangeFor x =
     (case x of (seq, w) \<Rightarrow>
        (case keys w of
           (Inl e, w) \<Rightarrow> (Some e, seq, w)
         | (Inr ks, w) \<Rightarrow> (None, fold (Multi_user policy nonce exchangeFor) ks (seq, w))))"

text \<open>\<open>Run\<close> ticks when the policy is valid; \<open>n\<close> ticks before the context is cancelled.\<close>

definition Multi_Run ::
    "trail_policy \<Rightarrow> string \<Rightarrow> ('w \<Rightarrow> (string + string list) \<times> 'w) option \<Rightarrow> (string \<Rightarrow> 'w \<Rightarrow> (string + 'w trail_exchange option) \<times> 'w) option \<Rightarrow>
     nat \<Rightarrow> int \<times> 'w \<Rightarrow> int \<times> 'w" where
  "Multi_Run policy nonce users provider n x =
     (case (users, provider) of
        (Some keys, Some exchangeFor) \<Rightarrow>
          if policy_Valid policy then ((\<lambda>x. snd (Multi_Tick policy nonce keys exchangeFor x)) ^^ n) x else x
      | _ \<Rightarrow> x)"

section \<open>The stop only tightens\<close>

lemma percentOf_val:
  "dval (monitor_percentOf v p) = of_int (trunc (dval v * dval p / 100 * 10 ^ 8)) / 10 ^ 8"
  by (rule dec_QuoFloor_val [of "dec_NewFromInt 100" 8 "dec_Mul v p"]) (auto simp: monitor_percentOf_def dec_simps)

lemma percentOf_nonneg: "0 \<le> dval v \<Longrightarrow> 0 \<le> dval p \<Longrightarrow> 0 \<le> dval (monitor_percentOf v p)"
  by (simp add: percentOf_val trunc_sign)

text \<open>What a long's stop becomes: the mark less the gap but not below the entry, once the profit activates it.\<close>

definition long_target :: "decimal \<Rightarrow> trail_policy \<Rightarrow> decimal \<Rightarrow> rat option" where
  "long_target entry policy mark =
     (if dval mark - dval entry < dval (monitor_percentOf entry (tp_ActivatePct policy)) then None
      else Some (max (dval entry) (dval mark - dval (monitor_percentOf entry (tp_TrailGapPct policy)))))"

definition short_target :: "decimal \<Rightarrow> trail_policy \<Rightarrow> decimal \<Rightarrow> rat option" where
  "short_target entry policy mark =
     (if dval entry - dval mark < dval (monitor_percentOf entry (tp_ActivatePct policy)) then None
      else Some (min (dval entry) (dval mark + dval (monitor_percentOf entry (tp_TrailGapPct policy)))))"

lemma ComputeStop_long:
  assumes "policy_Valid policy"
  shows "dval (fst (ComputeStop SideLong entry stop mark policy)) =
    (case long_target entry policy mark of None \<Rightarrow> dval stop | Some t \<Rightarrow> max (dval stop) t)"
  using assms by (auto simp: ComputeStop_def long_target_def Let_def dec_simps max_def)

lemma ComputeStop_short:
  assumes "policy_Valid policy"
  shows "dval (fst (ComputeStop SideShort entry stop mark policy)) =
    (case short_target entry policy mark of None \<Rightarrow> dval stop | Some t \<Rightarrow> min (dval stop) t)"
  using assms by (auto simp: ComputeStop_def short_target_def Let_def dec_simps min_def SideLong_def SideShort_def)


lemma fold_max:
  assumes "\<And>m s. v (f m s) = (case t m of None \<Rightarrow> v s | Some x \<Rightarrow> max (v s) x)"
  shows "v (fold f ms s) = Max (insert (v s) {x. \<exists>m\<in>set ms. t m = Some x})"
    and "finite {x. \<exists>m\<in>set ms. t m = Some x}"
proof -
  have fin: "finite {x. \<exists>m\<in>set ms. t m = Some x}" for ms
    by (rule finite_subset [of _ "(the \<circ> t) ` set ms"]) (force simp: image_iff)+
  show "finite {x. \<exists>m\<in>set ms. t m = Some x}" by (rule fin)
  show "v (fold f ms s) = Max (insert (v s) {x. \<exists>m\<in>set ms. t m = Some x})"
  proof (induction ms arbitrary: s)
    case (Cons m ms)
    let ?T = "{x. \<exists>m\<in>set ms. t m = Some x}"
    have "{x. \<exists>k\<in>set (m # ms). t k = Some x} = (case t m of None \<Rightarrow> ?T | Some y \<Rightarrow> insert y ?T)"
      by (auto split: option.splits)
    then show ?case using Cons [of "f m s"] fin [of ms]
      by (cases "?T = {}") (auto simp: assms max.assoc max.commute max.left_commute split: option.splits)
  qed simp
qed

section \<open>Properties\<close>

text \<open>The trailing stop is a high-water mark: after any sequence of marks a long's stop is the largest of the stop
  it began with and the targets of the marks that activated it, whatever their order, so it never
  loosens and, once active, never lies below the entry; a short's is the mirror image.\<close>

theorem trail_high_water:
  assumes "policy_Valid policy"
  shows "dval (fold (\<lambda>mark stop. fst (ComputeStop SideLong entry stop mark policy)) marks stop) =
      Max (insert (dval stop) {t. \<exists>m\<in>set marks. long_target entry policy m = Some t}) \<and>
    dval (fold (\<lambda>mark stop. fst (ComputeStop SideShort entry stop mark policy)) marks stop) =
      Min (insert (dval stop) {t. \<exists>m\<in>set marks. short_target entry policy m = Some t})"
proof
  show "dval (fold (\<lambda>mark stop. fst (ComputeStop SideLong entry stop mark policy)) marks stop) =
      Max (insert (dval stop) {t. \<exists>m\<in>set marks. long_target entry policy m = Some t})"
    by (rule fold_max(1)) (rule ComputeStop_long [OF assms])
  let ?t = "\<lambda>m. map_option uminus (short_target entry policy m)"
  let ?S = "{t. \<exists>m\<in>set marks. short_target entry policy m = Some t}"
  have neg: "- dval (fst (ComputeStop SideShort entry s m policy)) = (case ?t m of None \<Rightarrow> - dval s | Some x \<Rightarrow> max (- dval s) x)" for m s
    by (simp add: ComputeStop_short [OF assms] minus_min_eq_max split: option.splits)
  have im: "insert (- dval stop) {x. \<exists>m\<in>set marks. ?t m = Some x} = uminus ` insert (dval stop) ?S" by force
  have "finite (uminus ` insert (dval stop) ?S)"
    unfolding im [symmetric] using fold_max(2) [of "\<lambda>s. - dval s", OF neg] by simp
  then have fin: "finite (insert (dval stop) ?S)" by (rule finite_imageD) (simp add: inj_on_def)
  have "- dval (fold (\<lambda>mark stop. fst (ComputeStop SideShort entry stop mark policy)) marks stop) = Max (uminus ` insert (dval stop) ?S)"
    unfolding im [symmetric] by (rule fold_max(1)) (rule neg)
  also have "\<dots> = - Min (insert (dval stop) ?S)" using fin minus_Min_eq_Max [of "insert (dval stop) ?S"] by simp
  finally show "dval (fold (\<lambda>mark stop. fst (ComputeStop SideShort entry stop mark policy)) marks stop) = Min (insert (dval stop) ?S)"
    by simp
qed

definition ex_trail :: trail_policy where
  "ex_trail = \<lparr>tp_ActivatePct = dec_NewFromInt 1, tp_TrailGapPct = dec_NewFromInt 2\<rparr>"

theorem trail_high_water_witness:
  "dval (fold (\<lambda>mark stop. fst (ComputeStop SideLong (dec_NewFromInt 100) stop mark ex_trail))
     (map dec_NewFromInt [110, 120, 105]) (dec_NewFromInt 95)) = 118"
proof -
  have t: "long_target (dec_NewFromInt 100) ex_trail (dec_NewFromInt 110) = Some 108"
    "long_target (dec_NewFromInt 100) ex_trail (dec_NewFromInt 120) = Some 118"
    "long_target (dec_NewFromInt 100) ex_trail (dec_NewFromInt 105) = Some 103"
    by (simp_all add: long_target_def percentOf_val ex_trail_def trunc_def)
  then have s: "{t. \<exists>m\<in>set (map dec_NewFromInt [110, 120, 105]). long_target (dec_NewFromInt 100) ex_trail m = Some t} = {108, 118, 103}"
    by auto
  have "policy_Valid ex_trail" by (simp add: policy_Valid_def ex_trail_def dec_simps)
  from trail_high_water [OF this, of "dec_NewFromInt 100" "map dec_NewFromInt [110, 120, 105]" "dec_NewFromInt 95"]
  show ?thesis unfolding s by simp
qed

end
