(* ===== verification/Trail_Contract.thy ===== *)
theory Trail_Contract
  imports Trailing
begin

text \<open>
  What the trailing monitor of \<open>internal/monitor\<close> relies on: an exchange whose three calls only move the
  world along a relation \<open>safe\<close>. A pass, a tick, a user's pass and a whole run are then safe as well,
  whatever stops the policy computes. The Binance executor provides the contract.
\<close>

locale stop_exchange =
  fixes ex :: "'w trail_exchange" and safe :: "'w \<Rightarrow> 'w \<Rightarrow> bool"
  assumes safe_refl: "safe w w"
    and safe_trans: "safe w w1 \<Longrightarrow> safe w1 w2 \<Longrightarrow> safe w w2"
    and positions_safe: "safe w (snd (tx_Positions ex w))"
    and current_safe: "safe w (snd (tx_CurrentStop ex symbol w))"
    and move_safe: "safe w (snd (tx_MoveStopLoss ex symbol sd stop old new w))"
begin

lemma position_safe: "safe w (snd (trail_position policy newID ex p (seq, w)))"
proof (cases "dec_IsZero (p_Amount p)")
  case True
  then show ?thesis by (simp add: trail_position_def safe_refl)
next
  case False
  obtain r w1 where c: "tx_CurrentStop ex (p_Symbol p) w = (r, w1)" by fastforce
  then have w1: "safe w w1" using current_safe [of w "p_Symbol p"] by simp
  have "snd (trail_position policy newID ex p (seq, w)) = w1 \<or>
    (\<exists>stop new old. snd (trail_position policy newID ex p (seq, w)) = snd (tx_MoveStopLoss ex (p_Symbol p) (p_Side p) stop old new w1))"
    using False c by (auto simp: trail_position_def split: sum.splits option.splits prod.splits bool.splits)
  then show ?thesis using w1 safe_trans move_safe by metis
qed

lemma positions_fold_safe: "safe (snd x) (snd (fold (trail_position policy newID ex) ps x))"
proof (induction ps arbitrary: x)
  case Nil
  show ?case by (simp add: safe_refl)
next
  case (Cons p ps)
  have "safe (snd x) (snd (trail_position policy newID ex p x))"
    using position_safe [of "snd x" policy newID p "fst x"] by simp
  from safe_trans [OF this Cons.IH] show ?case by simp
qed

lemma pass_safe: "trail_pass policy newID ex (seq, w) = (e, seq', w') \<Longrightarrow> safe w w'"
proof -
  assume pass: "trail_pass policy newID ex (seq, w) = (e, seq', w')"
  obtain r w1 where p: "tx_Positions ex w = (r, w1)" by fastforce
  then have w1: "safe w w1" using positions_safe [of w] by simp
  show ?thesis
  proof (cases r)
    case (Inl m)
    with pass p w1 show ?thesis by (simp add: trail_pass_def)
  next
    case (Inr ps)
    then have "w' = snd (fold (trail_position policy newID ex) ps (seq, w1))"
      using pass p by (simp add: trail_pass_def)
    then show ?thesis using safe_trans [OF w1] positions_fold_safe [of "(seq, w1)"] by simp
  qed
qed

lemma tick_safe: "Runner_Tick policy ex (seq, w) = (e, seq', w') \<Longrightarrow> safe w w'"
  by (auto simp: Runner_Tick_def intro: pass_safe)

lemma user_safe: "trailUser policy nonce ex (seq, w) = (seq', w') \<Longrightarrow> safe w w'"
  unfolding trailUser_def by (metis pass_safe prod.collapse snd_conv)

end

text \<open>The monitor of all users is safe when every exchange it is given is.\<close>

lemma multi_tick_safe:
  assumes ex: "\<forall>ex \<in> exs. stop_exchange ex safe"
    and provider: "\<forall>key w. safe w (snd (exchangeFor key w)) \<and> (\<forall>ex. fst (exchangeFor key w) = Inr (Some ex) \<longrightarrow> ex \<in> exs)"
    and keys: "\<forall>w. safe w (snd (ks w))" and "exs \<noteq> {}"
    and tick: "Multi_Tick policy nonce ks exchangeFor (seq, w) = (e, seq', w')"
  shows "safe w w'"
proof -
  obtain ex0 where ex0: "stop_exchange ex0 safe" using assms(1,4) by blast
  note refl = stop_exchange.safe_refl [OF ex0] and trans = stop_exchange.safe_trans [OF ex0]
  have user: "safe (snd x) (snd (Multi_user policy nonce exchangeFor key x))" for key x
  proof -
    obtain s v where x: "x = (s, v)" by fastforce
    obtain r w1 where f: "exchangeFor key v = (r, w1)" by fastforce
    have w1: "safe v w1" using provider f by (metis snd_conv)
    show ?thesis
    proof (cases "\<exists>ex. r = Inr (Some ex)")
      case True
      then obtain ex where r: "r = Inr (Some ex)" by blast
      then have c: "stop_exchange ex safe" using provider f assms(1) by (metis fst_conv)
      obtain s2 w2 where u: "trailUser policy nonce ex (s, w1) = (s2, w2)" by fastforce
      from trans [OF w1 stop_exchange.user_safe [OF c u]] show ?thesis
        using x f r u by (simp add: Multi_user_def)
    next
      case False
      with x f w1 show ?thesis by (auto simp: Multi_user_def split: sum.splits option.splits)
    qed
  qed
  have fold: "safe (snd x) (snd (fold (Multi_user policy nonce exchangeFor) us x))" for us x
  proof (induction us arbitrary: x)
    case (Cons u us)
    from trans [OF user [of x u] Cons.IH] show ?case by simp
  qed (simp add: refl)
  obtain r w1 where k: "ks w = (r, w1)" by fastforce
  have "safe w w1" using keys k by (metis snd_conv)
  with fold [of "(seq, w1)"] trans tick k show ?thesis
    by (auto simp: Multi_Tick_def split: sum.splits dest!: arg_cong [of _ _ snd])
qed

end
