(* ===== verification/Transparency.thy ===== *)
theory Transparency
  imports Go_Text
begin

text \<open>
  \<open>internal/transparency\<close>: the content hash of a record and the daily Merkle root. \<open>sha\<close> stands for
  \<open>sha256.Sum256\<close>, any function from bytes to bytes: the theorems name the collision a forgery would
  need, and assume nothing of it.
\<close>

section \<open>Labels\<close>

definition LabelForMode :: "string \<Rightarrow> string" where
  "LabelForMode mode =
     (let m = to_lower (trim_space mode)
      in if m = ''binance_testnet'' \<or> m = ''testnet'' then ''testnet''
         else if m = ''binance_live'' \<or> m = ''live'' \<or> m = ''real'' then ''live''
         else ''paper'')"

definition IsReal :: "string \<Rightarrow> bool" where
  "IsReal label \<longleftrightarrow> label = ''testnet'' \<or> label = ''live''"

section \<open>Hashes\<close>

definition unit_separator :: string where
  "unit_separator = [CHR 0x1F]"

definition hex_char :: "nat \<Rightarrow> char" where
  "hex_char n = (if n < 10 then digit_char n else char_of (87 + n))"

definition hex_encode :: "string \<Rightarrow> string" where
  "hex_encode s = concat (map (\<lambda>c. [hex_char (code c div 16), hex_char (code c mod 16)]) s)"

definition content_Hash :: "(string \<Rightarrow> string) \<Rightarrow> string list \<Rightarrow> string" where
  "content_Hash sha parts = hex_encode (sha (join_with unit_separator parts))"

text \<open>One level of the tree: neighbours are hashed together, an odd last node with itself.\<close>

fun merkle_level :: "(string \<Rightarrow> string) \<Rightarrow> string list \<Rightarrow> string list" where
  "merkle_level sha [] = []"
| "merkle_level sha [l] = [content_Hash sha [l, l]]"
| "merkle_level sha (l # r # xs) = content_Hash sha [l, r] # merkle_level sha xs"

lemma merkle_level_length [simp]: "length (merkle_level sha xs) = (length xs + 1) div 2"
  by (induction sha xs rule: merkle_level.induct) auto

text \<open>The loop over the levels, until one node is left.\<close>

function merkle_fold :: "(string \<Rightarrow> string) \<Rightarrow> string list \<Rightarrow> string" where
  "merkle_fold sha level = (if length level \<le> 1 then hd level else merkle_fold sha (merkle_level sha level))"
  by pat_completeness auto
termination by (relation "measure (\<lambda>(sha, level). length level)") auto

declare merkle_fold.simps [simp del]

definition MerkleRoot :: "(string \<Rightarrow> string) \<Rightarrow> string list \<Rightarrow> string" where
  "MerkleRoot sha leaves = (if leaves = [] then [] else merkle_fold sha leaves)"

section \<open>What the root binds\<close>

lemma hex_char_inj: "m < 16 \<Longrightarrow> n < 16 \<Longrightarrow> hex_char m = hex_char n \<Longrightarrow> m = n"
  by (auto simp: hex_char_def digit_char_def split: if_splits dest!: arg_cong [of _ _ code] simp: code_char_of)

lemma hex_encode_Cons: "hex_encode (c # s) = hex_char (code c div 16) # hex_char (code c mod 16) # hex_encode s"
  by (simp add: hex_encode_def)

lemma code_less: "code c < 256"
  by (simp add: code_def)

lemma hex_encode_inj: "hex_encode s = hex_encode t \<Longrightarrow> s = t"
proof (induction s arbitrary: t)
  case Nil
  then show ?case by (cases t) (simp_all add: hex_encode_def)
next
  case (Cons c s)
  then obtain d t' where t: "t = d # t'" by (cases t) (simp_all add: hex_encode_def)
  have "code c div 16 = code d div 16" "code c mod 16 = code d mod 16"
    using Cons.prems code_less [of c] code_less [of d] unfolding t hex_encode_Cons by (auto intro!: hex_char_inj)
  then have "code c = code d" by (metis div_mult_mod_eq)
  then show ?case using Cons code_eq unfolding t hex_encode_Cons by auto
qed

lemma hex_char_plain: "n < 16 \<Longrightarrow> hex_char n \<noteq> CHR 0x1F"
  by (auto simp: hex_char_def digit_char_def code_char_of dest!: arg_cong [of _ _ code]) (auto simp: code_def)

definition plain :: "string \<Rightarrow> bool" where
  "plain s \<longleftrightarrow> CHR 0x1F \<notin> set s"

lemma plain_hash: "plain (content_Hash sha ps)"
proof -
  have "CHR 0x1F \<notin> set (hex_encode s)" for s
  proof (induction s)
    case (Cons c s)
    have "hex_char (code c div 16) \<noteq> CHR 0x1F" "hex_char (code c mod 16) \<noteq> CHR 0x1F"
      using code_less [of c] by (auto intro!: hex_char_plain)
    then show ?case using Cons by (simp add: hex_encode_Cons)
  qed (simp add: hex_encode_def)
  then show ?thesis by (simp add: plain_def content_Hash_def)
qed

lemma cut_inj: "l @ c # r = l' @ c # r' \<Longrightarrow> c \<notin> set l \<Longrightarrow> c \<notin> set l' \<Longrightarrow> l = l' \<and> r = r'"
proof (induction l arbitrary: l')
  case Nil
  then show ?case by (cases l') auto
next
  case (Cons x l)
  then show ?case by (cases l') auto
qed

lemma join_pair_inj:
  assumes "join_with unit_separator [l, r] = join_with unit_separator [l', r']" "plain l" "plain l'"
  shows "l = l' \<and> r = r'"
proof -
  have "l @ CHR 0x1F # r = l' @ CHR 0x1F # r'" using assms(1) by (simp add: unit_separator_def)
  then show ?thesis using assms(2,3) unfolding plain_def by (rule cut_inj)
qed

text \<open>The texts that are hashed on the way to the root.\<close>

fun level_inputs :: "string list \<Rightarrow> string list" where
  "level_inputs [] = []"
| "level_inputs [l] = [join_with unit_separator [l, l]]"
| "level_inputs (l # r # xs) = join_with unit_separator [l, r] # level_inputs xs"

function merkle_inputs :: "(string \<Rightarrow> string) \<Rightarrow> string list \<Rightarrow> string list" where
  "merkle_inputs sha level = (if length level \<le> 1 then [] else level_inputs level @ merkle_inputs sha (merkle_level sha level))"
  by pat_completeness auto
termination by (relation "measure (\<lambda>(sha, level). length level)") auto

declare merkle_inputs.simps [simp del]

definition collides :: "(string \<Rightarrow> string) \<Rightarrow> string list \<Rightarrow> string list \<Rightarrow> bool" where
  "collides sha xs ys \<longleftrightarrow> (\<exists>a\<in>set xs. \<exists>b\<in>set ys. a \<noteq> b \<and> sha a = sha b)"

lemma level_binds:
  assumes "merkle_level sha xs = merkle_level sha ys" "length xs = length ys" "\<forall>x\<in>set (xs @ ys). plain x"
    and "\<not> collides sha (level_inputs xs) (level_inputs ys)"
  shows "xs = ys"
  using assms
proof (induction sha xs arbitrary: ys rule: merkle_level.induct)
  case (2 sha l)
  then obtain l' where y: "ys = [l']" by (cases ys) auto
  have "sha (join_with unit_separator [l, l]) = sha (join_with unit_separator [l', l'])"
    using 2 by (auto simp: y content_Hash_def dest: hex_encode_inj)
  then have "join_with unit_separator [l, l] = join_with unit_separator [l', l']" using 2 by (auto simp: y collides_def)
  from join_pair_inj [OF this] show ?case using 2 by (simp add: y)
next
  case (3 sha l r xs)
  then obtain l' r' ys' where y: "ys = l' # r' # ys'" by (cases ys; cases "tl ys") auto
  have "sha (join_with unit_separator [l, r]) = sha (join_with unit_separator [l', r'])"
    using 3(2) by (auto simp: y content_Hash_def dest: hex_encode_inj)
  then have "join_with unit_separator [l, r] = join_with unit_separator [l', r']" using 3(5) by (auto simp: y collides_def)
  from join_pair_inj [OF this] have "l = l' \<and> r = r'" using 3(4) by (simp add: y)
  moreover have "xs = ys'" using 3(2-5) by (intro 3(1)) (auto simp: y collides_def)
  ultimately show ?case by (simp add: y)
qed simp

section \<open>Properties\<close>


definition ex_sha :: "string \<Rightarrow> string" where
  "ex_sha s = s"


text \<open>The root does not bind the number of records: repeating the last record of an odd day gives the same root,
  for every hash function.\<close>

theorem merkle_duplicate_last:
  assumes "length xs = 2 * n + 1" "0 < n"
  shows "MerkleRoot sha (xs @ [last xs]) = MerkleRoot sha xs"
proof -
  have "merkle_level sha (ys @ [last ys]) = merkle_level sha ys" if "odd (length ys)" for ys
    using that by (induction sha ys rule: merkle_level.induct) auto
  then show ?thesis using assms
    by (auto simp: MerkleRoot_def merkle_fold.simps [of sha xs] merkle_fold.simps [of sha "xs @ [last xs]"])
qed

theorem merkle_duplicate_last_witness:
  "MerkleRoot ex_sha [''a'', ''b'', ''c'', ''c''] = MerkleRoot ex_sha [''a'', ''b'', ''c'']"
  using merkle_duplicate_last [of "[''a'', ''b'', ''c'']" 1 ex_sha] by simp

end
