(* ===== verification/Binance_Net.thy ===== *)
theory Binance_Net
  imports Orders Transparency "HOL-Library.AList" "HOL-Library.List_Lexorder" "HOL-Library.Char_ord"
begin

text \<open>
  The lower half of \<open>internal/exchange/binance/executor.go\<close>: the configuration and its gates, the
  signed and public HTTP requests, the symbol filters and their cache, the reads and the single
  orders. The exchange is not under \<open>src/\<close>: \<open>net\<close> is what the code sees of it and of the clock, a
  request transport, the time and the pause between two polls. A response body is known by what
  \<open>encoding/json\<close> makes of it for each Go type the code decodes it into.
\<close>

section \<open>Configuration\<close>

record executor_config =
  xc_APIKey :: string
  xc_APISecret :: string
  xc_BaseURL :: string
  xc_Testnet :: bool
  xc_RealTradingEnabled :: bool
  xc_RequestTimeout :: duration
  xc_ExchangeInfoCacheTTL :: duration
  xc_MakerEntryTimeout :: duration

definition executor_defaults :: "executor_config \<Rightarrow> executor_config" where
  "executor_defaults cfg =
     (let cfg = (if xc_RequestTimeout cfg \<le> 0 then cfg\<lparr>xc_RequestTimeout := seconds 10\<rparr> else cfg);
          cfg = (if xc_ExchangeInfoCacheTTL cfg \<le> 0 then cfg\<lparr>xc_ExchangeInfoCacheTTL := minutes 15\<rparr> else cfg)
      in if xc_MakerEntryTimeout cfg \<le> 0 then cfg\<lparr>xc_MakerEntryTimeout := seconds 2\<rparr> else cfg)"

definition validateConfig :: "executor_config \<Rightarrow> string option" where
  "validateConfig cfg =
     (if trim_space (xc_APIKey cfg) = [] \<or> trim_space (xc_APISecret cfg) = [] then
        Some ''BINANCE_API_KEY and BINANCE_API_SECRET are required for Binance execution''
      else if trim_space (xc_BaseURL cfg) = [] then Some ''BINANCE_FUTURES_BASE_URL is required for Binance execution''
      else if xc_RealTradingEnabled cfg then
        Some ''live Binance execution is not wired in this phase; keep REAL_TRADING_ENABLED=false''
      else if \<not> xc_Testnet cfg then Some ''refusing Binance execution when BINANCE_TESTNET=false''
      else None)"

definition executor_mode :: "executor_config \<Rightarrow> string" where
  "executor_mode cfg = (if xc_Testnet cfg then ''binance_testnet'' else ''binance_live'')"

definition binance_clientOrderID :: "string \<Rightarrow> string \<Rightarrow> string" where
  "binance_clientOrderID confirmationID leg =
     (let confirmationID = (if length confirmationID > 18 then take 18 confirmationID else confirmationID)
      in ''tb_'' @ confirmationID @ ''_'' @ leg)"

section \<open>Requests\<close>

text \<open>
  Every \<open>url.Values\<close> of the package has one value per key; \<open>Encode\<close> sorts by key and escapes as
  \<open>url.QueryEscape\<close> does.
\<close>

type_synonym url_values = "(string \<times> string) list"

definition unreserved :: "char \<Rightarrow> bool" where
  "unreserved c \<longleftrightarrow> is_digit c \<or> is_upper c \<or> is_lower c \<or> c \<in> set ''-_.~''"

definition upper_hex :: "nat \<Rightarrow> char" where
  "upper_hex n = (if n < 10 then digit_char n else char_of (55 + n))"

definition query_escape :: "string \<Rightarrow> string" where
  "query_escape s = concat (map (\<lambda>c. if unreserved c then [c] else if c = CHR '' '' then ''+''
     else [CHR ''%'', upper_hex (code c div 16), upper_hex (code c mod 16)]) s)"

definition values_Encode :: "url_values \<Rightarrow> string" where
  "values_Encode vs =
     join_with ''&'' (map (\<lambda>(k, v). query_escape k @ ''='' @ query_escape v) (insertion_sort (\<lambda>a b. fst a < fst b) vs))"

definition unix_epoch :: time where
  "unix_epoch = seconds 62135596800"

definition unix_milli :: "time \<Rightarrow> int" where
  "unix_milli t = (t - unix_epoch) div 1000000"

definition unixMillis :: "int \<Rightarrow> time" where
  "unixMillis n = (if n \<le> 0 then 0 else unix_epoch + n * 1000000)"

text \<open>The request the HTTP client sends; the API key travels in the header of a signed one.\<close>

record http_request =
  hq_Method :: string
  hq_Base :: string
  hq_Path :: string
  hq_Query :: url_values
  hq_Signature :: "string option"
  hq_Key :: "string option"

definition request_url :: "http_request \<Rightarrow> string" where
  "request_url q =
     (let base = trim_right_char (CHR ''/'') (hq_Base q) @ hq_Path q in
      case hq_Signature q of
        None \<Rightarrow> (if hq_Query q = [] then base else base @ ''?'' @ values_Encode (hq_Query q))
      | Some sig \<Rightarrow> base @ ''?'' @ values_Encode (hq_Query q) @ ''&signature='' @ sig)"

record order_response =
  or_ClientOrderID :: string
  or_OrderID :: int
  or_Symbol :: string
  or_Status :: string
  or_Type :: string
  or_ExecutedQty :: string
  or_AvgPrice :: string

definition no_order :: order_response where
  "no_order = \<lparr>or_ClientOrderID = [], or_OrderID = 0, or_Symbol = [], or_Status = [], or_Type = [],
     or_ExecutedQty = [], or_AvgPrice = []\<rparr>"

record algo_response =
  al_ClientAlgoID :: string
  al_AlgoID :: int
  al_Symbol :: string
  al_AlgoStatus :: string
  al_Type :: string

record algo_open_order =
  ao_ClientAlgoID :: string
  ao_OrderType :: string
  ao_Symbol :: string
  ao_TriggerPrice :: string

record position_risk =
  pr_Symbol :: string
  pr_PositionAmt :: string
  pr_EntryPrice :: string
  pr_MarkPrice :: string
  pr_UnrealizedProfit :: string
  pr_Leverage :: string
  pr_MarginType :: string
  pr_PositionSide :: string

record user_trade =
  ut_Symbol :: string
  ut_Side :: string
  ut_Price :: string
  ut_Qty :: string
  ut_RealizedPnL :: string
  ut_Commission :: string
  ut_Time :: int

record exchange_filter =
  ef_FilterType :: string
  ef_TickSize :: string
  ef_StepSize :: string
  ef_MinQty :: string
  ef_Notional :: string

record symbol_info =
  sy_Symbol :: string
  sy_Filters :: "exchange_filter list"

text \<open>A body as \<open>json.Unmarshal\<close> reads it for each target type; \<open>Inl\<close> is its error.\<close>

record http_body =
  hb_Text :: string
  hb_Error :: "int \<times> string"
  hb_Any :: "string option"
  hb_Order :: "string + order_response"
  hb_Algo :: "string + algo_response"
  hb_Stops :: "string + algo_open_order list"
  hb_Risks :: "string + position_risk list"
  hb_Trades :: "string + user_trade list"
  hb_Info :: "string + symbol_info list"

record 'n net =
  nt_Do :: "http_request \<Rightarrow> 'n \<Rightarrow> (string + int \<times> http_body) \<times> 'n"
  nt_Now :: "'n \<Rightarrow> time"
  nt_Pause :: "'n \<Rightarrow> string option \<times> 'n" \<comment> \<open>200 ms pass, or the context is done with this error\<close>
  nt_HMAC :: "string \<Rightarrow> string \<Rightarrow> string"

datatype xerror = XApi int int string | XErr string

definition xerror_text :: "xerror \<Rightarrow> string" where
  "xerror_text e =
     (case e of
        XErr m \<Rightarrow> m
      | XApi status errcode m \<Rightarrow>
          if errcode \<noteq> 0 then ''binance api error '' @ show_int errcode @ '': '' @ m
          else ''binance http error '' @ show_int status @ '': '' @ m)"

definition wrap_err :: "string \<Rightarrow> xerror \<Rightarrow> xerror" where
  "wrap_err what e = XErr (what @ '': '' @ xerror_text e)"

text \<open>The executor holds the filters of the last \<open>exchangeInfo\<close> answer and its time.\<close>

record symbol_filters =
  sf_TickSize :: decimal
  sf_StepSize :: decimal
  sf_MinQty :: decimal
  sf_MinNotional :: decimal

record 'n xworld =
  xw_Filters :: "string \<Rightarrow> symbol_filters option"
  xw_Refreshed :: time
  xw_Net :: 'n

type_synonym ('n, 'a) action = "'n xworld \<Rightarrow> (xerror + 'a) \<times> 'n xworld"

definition andThen :: "('n, 'a) action \<Rightarrow> ('a \<Rightarrow> ('n, 'b) action) \<Rightarrow> ('n, 'b) action" where
  "andThen m f w = (case m w of (Inl e, w) \<Rightarrow> (Inl e, w) | (Inr x, w) \<Rightarrow> f x w)"

definition http_do :: "'n net \<Rightarrow> http_request \<Rightarrow> (http_body \<Rightarrow> string + 'a) \<Rightarrow> ('n, 'a) action" where
  "http_do nt q decode w =
     (case nt_Do nt q (xw_Net w) of
        (Inl e, n) \<Rightarrow> (Inl (XErr e), w\<lparr>xw_Net := n\<rparr>)
      | (Inr (status, body), n) \<Rightarrow>
          (if status \<ge> 400 then
             (let (errcode, message) = hb_Error body
              in Inl (XApi status errcode (if message = [] then hb_Text body else message)))
           else case decode body of
             Inl e \<Rightarrow> Inl (XErr (''decode Binance response: '' @ e)) | Inr x \<Rightarrow> Inr x,
           w\<lparr>xw_Net := n\<rparr>))"

definition publicRequest ::
    "'n net \<Rightarrow> executor_config \<Rightarrow> string \<Rightarrow> string \<Rightarrow> url_values \<Rightarrow> (http_body \<Rightarrow> string + 'a) \<Rightarrow> ('n, 'a) action" where
  "publicRequest nt cfg verb path params decode =
     http_do nt \<lparr>hq_Method = verb, hq_Base = xc_BaseURL cfg, hq_Path = path, hq_Query = params,
       hq_Signature = None, hq_Key = None\<rparr> decode"

definition binance_sign :: "'n net \<Rightarrow> executor_config \<Rightarrow> string \<Rightarrow> string" where
  "binance_sign nt cfg payload = hex_encode (nt_HMAC nt (xc_APISecret cfg) payload)"

definition signed_params :: "'n net \<Rightarrow> url_values \<Rightarrow> 'n xworld \<Rightarrow> url_values" where
  "signed_params nt params w =
     AList.update ''recvWindow'' ''5000'' (AList.update ''timestamp'' (show_int (unix_milli (nt_Now nt (xw_Net w)))) params)"

definition signedRequest ::
    "'n net \<Rightarrow> executor_config \<Rightarrow> string \<Rightarrow> string \<Rightarrow> url_values \<Rightarrow> (http_body \<Rightarrow> string + 'a) \<Rightarrow> ('n, 'a) action" where
  "signedRequest nt cfg verb path params decode w =
     (let params = signed_params nt params w; query = values_Encode params
      in http_do nt \<lparr>hq_Method = verb, hq_Base = xc_BaseURL cfg, hq_Path = path, hq_Query = params,
           hq_Signature = Some (binance_sign nt cfg query), hq_Key = Some (xc_APIKey cfg)\<rparr> decode w)"

section \<open>Single calls\<close>

definition any_body :: "http_body \<Rightarrow> string + unit" where
  "any_body b = (case hb_Any b of None \<Rightarrow> Inr () | Some e \<Rightarrow> Inl e)"

definition changeMarginType :: "'n net \<Rightarrow> executor_config \<Rightarrow> string \<Rightarrow> string \<Rightarrow> ('n, unit) action" where
  "changeMarginType nt cfg symbol marginType w =
     (case signedRequest nt cfg ''POST'' ''/fapi/v1/marginType'' [(''symbol'', symbol), (''marginType'', marginType)] any_body w of
        (Inl (XApi status errcode m), w) \<Rightarrow> (if errcode = - 4046 then Inr () else Inl (XApi status errcode m), w)
      | r \<Rightarrow> r)"

definition changeLeverage :: "'n net \<Rightarrow> executor_config \<Rightarrow> string \<Rightarrow> int \<Rightarrow> ('n, unit) action" where
  "changeLeverage nt cfg symbol leverage =
     signedRequest nt cfg ''POST'' ''/fapi/v1/leverage'' [(''symbol'', symbol), (''leverage'', show_int leverage)] any_body"

definition newOrder :: "'n net \<Rightarrow> executor_config \<Rightarrow> url_values \<Rightarrow> ('n, order_response) action" where
  "newOrder nt cfg params = signedRequest nt cfg ''POST'' ''/fapi/v1/order'' params hb_Order"

definition queryOrder :: "'n net \<Rightarrow> executor_config \<Rightarrow> string \<Rightarrow> string \<Rightarrow> ('n, order_response) action" where
  "queryOrder nt cfg symbol k =
     signedRequest nt cfg ''GET'' ''/fapi/v1/order'' [(''symbol'', symbol), (''origClientOrderId'', k)] hb_Order"

definition cancelOrderStatus :: "'n net \<Rightarrow> executor_config \<Rightarrow> string \<Rightarrow> string \<Rightarrow> ('n, order_response) action" where
  "cancelOrderStatus nt cfg symbol k =
     signedRequest nt cfg ''DELETE'' ''/fapi/v1/order'' [(''symbol'', symbol), (''origClientOrderId'', k)] hb_Order"

definition newAlgoOrder :: "'n net \<Rightarrow> executor_config \<Rightarrow> url_values \<Rightarrow> ('n, algo_response) action" where
  "newAlgoOrder nt cfg params = signedRequest nt cfg ''POST'' ''/fapi/v1/algoOrder'' params hb_Algo"

definition cancelAlgoOrder :: "'n net \<Rightarrow> executor_config \<Rightarrow> string \<Rightarrow> ('n, unit) action" where
  "cancelAlgoOrder nt cfg k = signedRequest nt cfg ''DELETE'' ''/fapi/v1/algoOrder'' [(''clientAlgoId'', k)] any_body"

definition positionRisk :: "'n net \<Rightarrow> executor_config \<Rightarrow> string \<Rightarrow> ('n, position_risk list) action" where
  "positionRisk nt cfg symbol =
     signedRequest nt cfg ''GET'' ''/fapi/v3/positionRisk'' (if symbol \<noteq> [] then [(''symbol'', symbol)] else []) hb_Risks"

definition userTrades :: "'n net \<Rightarrow> executor_config \<Rightarrow> string \<Rightarrow> time \<Rightarrow> ('n, user_trade list) action" where
  "userTrades nt cfg symbol since =
     signedRequest nt cfg ''GET'' ''/fapi/v1/userTrades''
       ([(''symbol'', symbol), (''limit'', ''1000'')] @ (if \<not> is_zero_time since then [(''startTime'', show_int (unix_milli since))] else []))
       hb_Trades"

section \<open>Symbol filters\<close>

definition no_filters :: symbol_filters where
  "no_filters = \<lparr>sf_TickSize = dec_unset, sf_StepSize = dec_unset, sf_MinQty = dec_unset, sf_MinNotional = dec_unset\<rparr>"

fun filter_scan :: "exchange_filter list \<Rightarrow> symbol_filters \<Rightarrow> decimal_error + symbol_filters" where
  "filter_scan [] r = Inr r"
| "filter_scan (f # fs) r =
     (if ef_FilterType f = ''PRICE_FILTER'' then
        bindE (dec_Parse (ef_TickSize f)) (\<lambda>t. filter_scan fs (r\<lparr>sf_TickSize := t\<rparr>))
      else if ef_FilterType f = ''LOT_SIZE'' then
        bindE (dec_Parse (ef_StepSize f)) (\<lambda>s. bindE (dec_Parse (ef_MinQty f)) (\<lambda>m.
          filter_scan fs (r\<lparr>sf_StepSize := s, sf_MinQty := m\<rparr>)))
      else if ef_FilterType f = ''MIN_NOTIONAL'' then
        bindE (dec_Parse (ef_Notional f)) (\<lambda>m. filter_scan fs (r\<lparr>sf_MinNotional := m\<rparr>))
      else filter_scan fs r)"

definition parseSymbolFilters :: "symbol_info \<Rightarrow> symbol_filters option" where
  "parseSymbolFilters sy =
     (case filter_scan (sy_Filters sy) no_filters of
        Inl _ \<Rightarrow> None
      | Inr r \<Rightarrow>
          if \<not> dec_IsPositive (sf_TickSize r) \<or> \<not> dec_IsPositive (sf_StepSize r) \<or> \<not> dec_IsPositive (sf_MinQty r) then None
          else Some r)"

definition filters_of_info :: "symbol_info list \<Rightarrow> string \<Rightarrow> symbol_filters option" where
  "filters_of_info infos =
     fold (\<lambda>sy m. case parseSymbolFilters sy of None \<Rightarrow> m | Some r \<Rightarrow> m(sy_Symbol sy \<mapsto> r)) infos (\<lambda>_. None)"

definition symbolFilters :: "'n net \<Rightarrow> executor_config \<Rightarrow> string \<Rightarrow> ('n, symbol_filters) action" where
  "symbolFilters nt cfg symbol w =
     (let fresh = nt_Now nt (xw_Net w) - xw_Refreshed w < xc_ExchangeInfoCacheTTL cfg in
      case (if fresh then xw_Filters w symbol else None) of
        Some f \<Rightarrow> (Inr f, w)
      | None \<Rightarrow>
          (case publicRequest nt cfg ''GET'' ''/fapi/v1/exchangeInfo'' [] hb_Info w of
             (Inl e, w) \<Rightarrow> (Inl e, w)
           | (Inr infos, w) \<Rightarrow>
               let w = w\<lparr>xw_Filters := filters_of_info infos, xw_Refreshed := nt_Now nt (xw_Net w)\<rparr>
               in (case xw_Filters w symbol of
                     None \<Rightarrow> Inl (XErr (''symbol filters unavailable for '' @ symbol)) | Some f \<Rightarrow> Inr f, w)))"

end
