(* ===== verification/Binance_Executor.thy ===== *)
theory Binance_Executor
  imports Binance_Net Order_Text Trailing
begin

text \<open>
  The upper half of \<open>internal/exchange/binance/executor.go\<close>: opening a position (a post-only limit
  entry that falls back to a market order, then the stop loss and the take profit, with a rollback),
  closing, reading positions and realized trades, and moving a stop. The only unbounded loop, the poll
  of the resting entry, is a partial function: \<open>None\<close> is a call that never returns.
\<close>

section \<open>Rounding and validation\<close>

text \<open>The messages of the decimal package; the model's error does not carry the offending rune.\<close>

definition dec_text :: "decimal_error \<Rightarrow> string" where
  "dec_text e =
     (case e of
        DecimalEmpty \<Rightarrow> ''decimal is empty'' | DecimalNoDigits \<Rightarrow> ''decimal has no digits''
      | DecimalManyPoints \<Rightarrow> ''decimal has more than one point'' | DecimalBadDigit \<Rightarrow> ''decimal contains non-digit''
      | DecimalDivisionByZero \<Rightarrow> ''decimal division by zero'' | DecimalNegativeScale \<Rightarrow> ''decimal scale must be non-negative''
      | DecimalBadStep \<Rightarrow> ''decimal step must be greater than zero''
      | DecimalNegativeValue \<Rightarrow> ''decimal floor to step requires a non-negative value'')"

definition or_fail :: "string \<Rightarrow> decimal_error + 'a \<Rightarrow> xerror + 'a" where
  "or_fail what r = map_err (\<lambda>e. XErr (what @ dec_text e)) r"

definition defaultDecimalString :: "string \<Rightarrow> string" where
  "defaultDecimalString v = (let v = trim_space v in if v = [] then ''0'' else v)"

definition openQuantity :: "open_intent \<Rightarrow> decimal \<Rightarrow> symbol_filters \<Rightarrow> xerror + decimal" where
  "openQuantity oi entry f =
     bindE (case os_Kind (oi_Size oi) of
              SizeQty \<Rightarrow> Inr (os_Amount (oi_Size oi))
            | SizeUSDT \<Rightarrow> or_fail ''calculate quantity from USDT size: '' (dec_QuoFloor (os_Amount (oi_Size oi)) entry 16)
            | SizeUnknown \<Rightarrow> Inl (XErr ''open size must be size USDT or qty''))
       (\<lambda>q. or_fail ''round quantity: '' (dec_FloorToStep q (sf_StepSize f)))"

definition validateQuantityAndNotional :: "decimal \<Rightarrow> decimal \<Rightarrow> symbol_filters \<Rightarrow> xerror option" where
  "validateQuantityAndNotional quantity price f =
     (if dec_IsZero quantity \<or> dec_Cmp quantity (sf_MinQty f) < 0 then
        Some (XErr (''quantity '' @ dec_String quantity @ '' is below min qty '' @ dec_String (sf_MinQty f)))
      else let notional = dec_Mul quantity price
      in if dec_IsPositive (sf_MinNotional f) \<and> dec_Cmp notional (sf_MinNotional f) < 0 then
        Some (XErr (''notional '' @ dec_String notional @ '' is below min notional '' @ dec_String (sf_MinNotional f)))
      else None)"

definition orderSides :: "side \<Rightarrow> string \<times> string" where
  "orderSides sd = (if sd = SideShort then (''SELL'', ''BUY'') else (''BUY'', ''SELL''))"

definition closeOrderSide :: "string \<Rightarrow> xerror + string" where
  "closeOrderSide sd =
     (let sd = to_lower (trim_space sd) in
      if sd = ''long'' then Inr ''SELL'' else if sd = ''short'' then Inr ''BUY''
      else Inl (XErr ''realized trade side must be long or short''))"

section \<open>The entry\<close>

definition limit_params :: "string \<Rightarrow> string \<Rightarrow> decimal \<Rightarrow> decimal \<Rightarrow> string \<Rightarrow> url_values" where
  "limit_params symbol sd price quantity k =
     [(''symbol'', symbol), (''side'', sd), (''type'', ''LIMIT''), (''timeInForce'', ''GTX''), (''price'', dec_String price),
      (''quantity'', dec_String quantity), (''newClientOrderId'', k)]"

definition market_params :: "string \<Rightarrow> string \<Rightarrow> decimal \<Rightarrow> string \<Rightarrow> url_values" where
  "market_params symbol sd quantity k =
     [(''symbol'', symbol), (''side'', sd), (''type'', ''MARKET''), (''quantity'', dec_String quantity), (''newClientOrderId'', k)]"

datatype poll_end = EntryFilled order_response | EntryUnfilled order_response

partial_function (option) poll_entry ::
    "'n net \<Rightarrow> executor_config \<Rightarrow> string \<Rightarrow> string \<Rightarrow> time \<Rightarrow> 'n xworld \<Rightarrow> ((xerror + poll_end) \<times> 'n xworld) option" where
  "poll_entry nt cfg symbol limitID deadline w =
     (case queryOrder nt cfg symbol limitID w of
        (Inl e, w) \<Rightarrow> Some (Inl e, snd (cancelOrderStatus nt cfg symbol limitID w))
      | (Inr status, w) \<Rightarrow>
          if or_Status status = ''FILLED'' then Some (Inr (EntryFilled status), w)
          else if nt_Now nt (xw_Net w) > deadline then Some (Inr (EntryUnfilled status), w)
          else case nt_Pause nt (xw_Net w) of
            (Some e, n) \<Rightarrow> Some (Inl (XErr e), snd (cancelOrderStatus nt cfg symbol limitID (w\<lparr>xw_Net := n\<rparr>)))
          | (None, n) \<Rightarrow> poll_entry nt cfg symbol limitID deadline (w\<lparr>xw_Net := n\<rparr>))"

declare poll_entry.simps [code]

definition entry_executed :: "order_response \<Rightarrow> decimal" where
  "entry_executed limit =
     (if trim_space (or_ExecutedQty limit) \<noteq> [] then
        (case dec_Parse (or_ExecutedQty limit) of Inr d \<Rightarrow> d | Inl _ \<Rightarrow> dec_Zero)
      else dec_Zero)"

text \<open>The market order for what the limit order has not filled.\<close>

definition market_rest ::
    "'n net \<Rightarrow> executor_config \<Rightarrow> string \<Rightarrow> string \<Rightarrow> decimal \<Rightarrow> string \<Rightarrow> order_response \<Rightarrow> ('n, order_response) action" where
  "market_rest nt cfg symbol sd quantity confirmationID limit w =
     (let remaining = dec_Sub quantity (entry_executed limit) in
      if \<not> dec_IsPositive remaining then (Inr limit, w)
      else newOrder nt cfg (market_params symbol sd remaining (binance_clientOrderID confirmationID ''entrym'')) w)"

definition makerFirstEntry ::
    "'n net \<Rightarrow> executor_config \<Rightarrow> string \<Rightarrow> string \<Rightarrow> decimal \<Rightarrow> decimal \<Rightarrow> string \<Rightarrow> 'n xworld \<Rightarrow>
     ((xerror + order_response) \<times> 'n xworld) option" where
  "makerFirstEntry nt cfg symbol sd price quantity confirmationID w =
     (let limitID = binance_clientOrderID confirmationID ''entry''; market = market_rest nt cfg symbol sd quantity confirmationID in
      case newOrder nt cfg (limit_params symbol sd price quantity limitID) w of
        (Inl (XErr e), w) \<Rightarrow> Some (Inl (XErr e), w)
      | (Inl (XApi _ _ _), w) \<Rightarrow> Some (market no_order w)
      | (Inr _, w) \<Rightarrow>
          (case poll_entry nt cfg symbol limitID (nt_Now nt (xw_Net w) + xc_MakerEntryTimeout cfg) w of
             None \<Rightarrow> None
           | Some (Inl e, w) \<Rightarrow> Some (Inl e, w)
           | Some (Inr (EntryFilled status), w) \<Rightarrow> Some (Inr status, w)
           | Some (Inr (EntryUnfilled status), w) \<Rightarrow>
               Some (case cancelOrderStatus nt cfg symbol limitID w of
                 (Inl e, w) \<Rightarrow> (Inl (wrap_err ''cancel unfilled maker entry'' e), w)
               | (Inr cancelled, w) \<Rightarrow> market (if or_ExecutedQty cancelled \<noteq> [] then cancelled else status) w)))"

section \<open>Rollback\<close>

definition close_params :: "string \<Rightarrow> string \<Rightarrow> decimal \<Rightarrow> string \<Rightarrow> url_values" where
  "close_params symbol sd quantity k =
     [(''symbol'', symbol), (''side'', sd), (''type'', ''MARKET''), (''quantity'', dec_String quantity), (''reduceOnly'', ''true''),
      (''newClientOrderId'', k)]"

definition exit_of_amount :: "decimal \<Rightarrow> string" where
  "exit_of_amount amount = (if dec_Cmp amount dec_Zero < 0 then ''BUY'' else ''SELL'')"

fun flatten_loop :: "'n net \<Rightarrow> executor_config \<Rightarrow> string \<Rightarrow> string \<Rightarrow> position_risk list \<Rightarrow> ('n, unit) action" where
  "flatten_loop nt cfg symbol k [] w = (Inr (), w)"
| "flatten_loop nt cfg symbol k (p # ps) w =
     (if pr_Symbol p \<noteq> symbol then flatten_loop nt cfg symbol k ps w
      else case dec_Parse (pr_PositionAmt p) of
        Inl _ \<Rightarrow> flatten_loop nt cfg symbol k ps w
      | Inr amount \<Rightarrow>
          if dec_IsZero amount then flatten_loop nt cfg symbol k ps w
          else case symbolFilters nt cfg symbol w of
            (Inl e, w) \<Rightarrow> (Inl e, w)
          | (Inr f, w) \<Rightarrow>
              (case dec_FloorToStep (dec_Abs amount) (sf_StepSize f) of
                 Inl _ \<Rightarrow> flatten_loop nt cfg symbol k ps w
               | Inr quantity \<Rightarrow>
                   if dec_IsZero quantity then flatten_loop nt cfg symbol k ps w
                   else case newOrder nt cfg (close_params symbol (exit_of_amount amount) quantity k) w of
                     (Inl e, w) \<Rightarrow> (Inl e, w)
                   | (Inr _, w) \<Rightarrow> flatten_loop nt cfg symbol k ps w))"

definition flattenPosition :: "'n net \<Rightarrow> executor_config \<Rightarrow> string \<Rightarrow> string \<Rightarrow> ('n, unit) action" where
  "flattenPosition nt cfg symbol k = andThen (positionRisk nt cfg symbol) (flatten_loop nt cfg symbol k)"

definition rollbackOpen :: "'n net \<Rightarrow> executor_config \<Rightarrow> string \<Rightarrow> string \<Rightarrow> bool \<Rightarrow> 'n xworld \<Rightarrow> 'n xworld" where
  "rollbackOpen nt cfg symbol confirmationID stopPlaced w =
     (let w = (if stopPlaced then snd (cancelAlgoOrder nt cfg (binance_clientOrderID confirmationID ''sl'') w) else w);
          w = snd (cancelOrderStatus nt cfg symbol (binance_clientOrderID confirmationID ''entry'') w)
      in snd (flattenPosition nt cfg symbol (binance_clientOrderID confirmationID ''rb'') w))"

section \<open>Open\<close>

definition stop_params :: "string \<Rightarrow> string \<Rightarrow> string \<Rightarrow> decimal \<Rightarrow> string \<Rightarrow> url_values" where
  "stop_params symbol exitSide kind trigger k =
     [(''symbol'', symbol), (''side'', exitSide), (''algoType'', ''CONDITIONAL''), (''type'', kind), (''triggerPrice'', dec_String trigger),
      (''closePosition'', ''true''), (''workingType'', ''MARK_PRICE''), (''clientAlgoId'', k)]"

definition open_message :: "executor_config \<Rightarrow> intent \<Rightarrow> decimal \<Rightarrow> order_response \<Rightarrow> algo_response \<Rightarrow> algo_response \<Rightarrow> string" where
  "open_message cfg i quantity entryOrder stopOrder tpOrder =
     to_upper (executor_mode cfg) @ '' order submitted.'' @ nl @ nl @ Summary i @ nl @ nl @
     ''Rounded quantity: '' @ dec_String quantity @ nl @
     ''Entry order: '' @ or_ClientOrderID entryOrder @ '' #'' @ show_int (or_OrderID entryOrder) @ nl @
     ''SL order: '' @ al_ClientAlgoID stopOrder @ '' #'' @ show_int (al_AlgoID stopOrder) @ nl @
     ''TP order: '' @ al_ClientAlgoID tpOrder @ '' #'' @ show_int (al_AlgoID tpOrder)"

text \<open>The part after the entry: both protective orders, or the rollback.\<close>

definition protect_open ::
    "'n net \<Rightarrow> executor_config \<Rightarrow> confirmation \<Rightarrow> open_intent \<Rightarrow> decimal \<Rightarrow> decimal \<Rightarrow> decimal \<Rightarrow> order_response \<Rightarrow> ('n, exec_result) action" where
  "protect_open nt cfg c oi stopLoss takeProfit quantity entryOrder w =
     (let exitSide = snd (orderSides (oi_Side oi)); symbol = oi_Symbol oi in
      case newAlgoOrder nt cfg (stop_params symbol exitSide ''STOP_MARKET'' stopLoss (binance_clientOrderID (c_ID c) ''sl'')) w of
        (Inl e, w) \<Rightarrow> (Inl (wrap_err ''place stop loss order'' e), rollbackOpen nt cfg symbol (c_ID c) False w)
      | (Inr stopOrder, w) \<Rightarrow>
          (case newAlgoOrder nt cfg (stop_params symbol exitSide ''TAKE_PROFIT_MARKET'' takeProfit (binance_clientOrderID (c_ID c) ''tp'')) w of
             (Inl e, w) \<Rightarrow> (Inl (wrap_err ''place take profit order'' e), rollbackOpen nt cfg symbol (c_ID c) True w)
           | (Inr tpOrder, w) \<Rightarrow>
               (Inr (no_result\<lparr>er_Mode := executor_mode cfg, er_ClientOrderID := or_ClientOrderID entryOrder, er_Quantity := quantity,
                  er_Message := open_message cfg (c_Intent c) quantity entryOrder stopOrder tpOrder\<rparr>), w)))"

text \<open>The part before it: the rounded levels and the quantity, or an error, from the intent and the filters.\<close>

record open_plan =
  op_Entry :: decimal
  op_StopLoss :: decimal
  op_TakeProfit :: decimal
  op_Quantity :: decimal

definition plan_open :: "open_intent \<Rightarrow> symbol_filters \<Rightarrow> xerror + open_plan" where
  "plan_open oi f =
     bindE (or_fail ''round entry price: '' (dec_FloorToStep (oi_Entry oi) (sf_TickSize f))) (\<lambda>entry.
     bindE (or_fail ''round stop loss: '' (dec_FloorToStep (oi_StopLoss oi) (sf_TickSize f))) (\<lambda>stopLoss.
     bindE (or_fail ''round take profit: '' (dec_FloorToStep (hd (oi_TakeProfits oi)) (sf_TickSize f))) (\<lambda>takeProfit.
     bindE (openQuantity oi entry f) (\<lambda>quantity.
     case validateQuantityAndNotional quantity entry f of
       Some e \<Rightarrow> Inl e
     | None \<Rightarrow> Inr \<lparr>op_Entry = entry, op_StopLoss = stopLoss, op_TakeProfit = takeProfit, op_Quantity = quantity\<rparr>))))"

definition open_setup ::
    "'n net \<Rightarrow> executor_config \<Rightarrow> open_intent \<Rightarrow> ('n, open_plan) action" where
  "open_setup nt cfg oi =
     andThen (symbolFilters nt cfg (oi_Symbol oi)) (\<lambda>f w.
       case plan_open oi f of
         Inl e \<Rightarrow> (Inl e, w)
       | Inr p \<Rightarrow> andThen (changeMarginType nt cfg (oi_Symbol oi) ''ISOLATED'')
           (\<lambda>_. andThen (changeLeverage nt cfg (oi_Symbol oi) (oi_Leverage oi)) (\<lambda>_ w. (Inr p, w))) w)"

definition executeOpen ::
    "'n net \<Rightarrow> executor_config \<Rightarrow> confirmation \<Rightarrow> 'n xworld \<Rightarrow> ((xerror + exec_result) \<times> 'n xworld) option" where
  "executeOpen nt cfg c w =
     (case i_Open (c_Intent c) of
        None \<Rightarrow> Some (Inl (XErr ''open intent is incomplete''), w)
      | Some oi \<Rightarrow>
          if oi_TakeProfits oi = [] then Some (Inl (XErr ''open intent is incomplete''), w)
          else case open_setup nt cfg oi w of
            (Inl e, w) \<Rightarrow> Some (Inl e, w)
          | (Inr p, w) \<Rightarrow>
              (case makerFirstEntry nt cfg (oi_Symbol oi) (fst (orderSides (oi_Side oi))) (op_Entry p) (op_Quantity p) (c_ID c) w of
                 None \<Rightarrow> None
               | Some (Inl e, w) \<Rightarrow> Some (Inl (wrap_err ''place entry order'' e), w)
               | Some (Inr entryOrder, w) \<Rightarrow>
                   Some (protect_open nt cfg c oi (op_StopLoss p) (op_TakeProfit p) (op_Quantity p) entryOrder w)))"

section \<open>Close\<close>

record close_state =
  cx_Responses :: "order_response list"
  cx_Realized :: decimal
  cx_ExitPrice :: decimal
  cx_Symbol :: string
  cx_Side :: string

definition close_quantity :: "decimal \<Rightarrow> decimal \<Rightarrow> symbol_filters \<Rightarrow> string \<Rightarrow> xerror + decimal" where
  "close_quantity amount percent f symbol =
     bindE (if \<not> dec_Equal percent (dec_NewFromInt 100)
            then or_fail [] (dec_QuoFloor (dec_Mul (dec_Abs amount) percent) (dec_NewFromInt 100) 16) else Inr (dec_Abs amount))
       (\<lambda>q. bindE (or_fail [] (dec_FloorToStep q (sf_StepSize f))) (\<lambda>quantity.
          if dec_IsZero quantity \<or> dec_Cmp quantity (sf_MinQty f) < 0 then
            Inl (XErr (''close quantity '' @ dec_String quantity @ '' is below min qty '' @ dec_String (sf_MinQty f) @ '' for '' @ symbol))
          else Inr quantity))"

definition parsed_or :: "decimal \<Rightarrow> string \<Rightarrow> decimal" where
  "parsed_or d s = (case dec_Parse (defaultDecimalString s) of Inr v \<Rightarrow> v | Inl _ \<Rightarrow> d)"

fun close_loop ::
    "'n net \<Rightarrow> executor_config \<Rightarrow> close_intent \<Rightarrow> string \<Rightarrow> position_risk list \<Rightarrow> close_state \<Rightarrow> ('n, close_state) action" where
  "close_loop nt cfg ci k [] st w = (Inr st, w)"
| "close_loop nt cfg ci k (p # ps) st w =
     (if ci_Symbol ci \<noteq> [] \<and> pr_Symbol p \<noteq> ci_Symbol ci then close_loop nt cfg ci k ps st w
      else case dec_Parse (pr_PositionAmt p) of
        Inl e \<Rightarrow> (Inl (XErr (''parse position amount for '' @ pr_Symbol p @ '': '' @ dec_text e)), w)
      | Inr amount \<Rightarrow>
          if dec_IsZero amount then close_loop nt cfg ci k ps st w
          else case symbolFilters nt cfg (pr_Symbol p) w of
            (Inl e, w) \<Rightarrow> (Inl e, w)
          | (Inr f, w) \<Rightarrow>
              (case close_quantity amount (ci_ResolvedPercent ci) f (pr_Symbol p) of
                 Inl e \<Rightarrow> (Inl e, w)
               | Inr quantity \<Rightarrow>
                   let st = st\<lparr>cx_Side := (if dec_Cmp amount dec_Zero < 0 then ''short'' else ''long''), cx_Symbol := pr_Symbol p,
                               cx_Realized := (case dec_Parse (defaultDecimalString (pr_UnrealizedProfit p)) of
                                                 Inr profit \<Rightarrow> dec_Add (cx_Realized st) profit | Inl _ \<Rightarrow> cx_Realized st),
                               cx_ExitPrice := parsed_or (cx_ExitPrice st) (pr_MarkPrice p)\<rparr> in
                   case newOrder nt cfg (close_params (pr_Symbol p) (exit_of_amount amount) quantity k) w of
                     (Inl e, w) \<Rightarrow> (Inl (wrap_err (''place close order for '' @ pr_Symbol p) e), w)
                   | (Inr r, w) \<Rightarrow>
                       close_loop nt cfg ci k ps
                         (st\<lparr>cx_ExitPrice := (case dec_Parse (defaultDecimalString (or_AvgPrice r)) of
                               Inr v \<Rightarrow> if dec_IsPositive v then v else cx_ExitPrice st | Inl _ \<Rightarrow> cx_ExitPrice st),
                             cx_Responses := cx_Responses st @ [r]\<rparr>) w))"

definition no_close :: close_state where
  "no_close = \<lparr>cx_Responses = [], cx_Realized = dec_Zero, cx_ExitPrice = dec_Zero, cx_Symbol = [], cx_Side = []\<rparr>"

definition executeClose :: "'n net \<Rightarrow> executor_config \<Rightarrow> confirmation \<Rightarrow> ('n, exec_result) action" where
  "executeClose nt cfg c w =
     (case i_Close (c_Intent c) of
        None \<Rightarrow> (Inl (XErr ''close intent is incomplete''), w)
      | Some ci \<Rightarrow>
          andThen (positionRisk nt cfg (ci_Symbol ci)) (\<lambda>ps.
          andThen (close_loop nt cfg ci (binance_clientOrderID (c_ID c) ''close'') ps no_close) (\<lambda>st w.
            (case cx_Responses st of
               [] \<Rightarrow> Inl (XErr ''no open position found to close'')
             | r # _ \<Rightarrow>
                 Inr (no_result\<lparr>er_Mode := executor_mode cfg, er_ClientOrderID := or_ClientOrderID r, er_Symbol := cx_Symbol st,
                   er_Side := cx_Side st, er_ExitPrice := cx_ExitPrice st, er_RealizedPnL := cx_Realized st,
                   er_Message := to_upper (executor_mode cfg) @ '' close submitted.'' @ nl @ nl @ Summary (c_Intent c) @ nl @ nl @
                     ''Orders:'' @ nl @ join_with nl (map (\<lambda>r. or_ClientOrderID r @ '' #'' @ show_int (or_OrderID r)) (cx_Responses st))\<rparr>),
             w))) w)"

definition type_text_quoted :: "intent \<Rightarrow> string" where
  "type_text_quoted i = [CHR 0x22] @ intent_type_text (i_Type i) @ [CHR 0x22]"

definition executor_Execute ::
    "'n net \<Rightarrow> executor_config \<Rightarrow> confirmation \<Rightarrow> 'n xworld \<Rightarrow> ((xerror + exec_result) \<times> 'n xworld) option" where
  "executor_Execute nt cfg c w =
     (case validateConfig cfg of
        Some e \<Rightarrow> Some (Inl (XErr e), w)
      | None \<Rightarrow>
          (case i_Type (c_Intent c) of
             IntentOpen \<Rightarrow> executeOpen nt cfg c w
           | IntentClose \<Rightarrow> Some (executeClose nt cfg c w)
           | _ \<Rightarrow> Some (Inl (XErr (''unsupported Binance intent '' @ type_text_quoted (c_Intent c))), w)))"

section \<open>Positions and realized trades\<close>

definition risk_decimal :: "string \<Rightarrow> string \<Rightarrow> string \<Rightarrow> xerror + decimal" where
  "risk_decimal what symbol v = or_fail (''parse '' @ what @ '' for '' @ symbol @ '': '') (dec_Parse (defaultDecimalString v))"

definition positionFromRisk :: "position_risk \<Rightarrow> xerror + position option" where
  "positionFromRisk r =
     bindE (or_fail (''parse position amount for '' @ pr_Symbol r @ '': '') (dec_Parse (pr_PositionAmt r))) (\<lambda>amount.
     if dec_IsZero amount then Inr None
     else
     bindE (risk_decimal ''entry price'' (pr_Symbol r) (pr_EntryPrice r)) (\<lambda>entry.
     bindE (risk_decimal ''mark price'' (pr_Symbol r) (pr_MarkPrice r)) (\<lambda>mark.
     bindE (risk_decimal ''unrealized profit'' (pr_Symbol r) (pr_UnrealizedProfit r)) (\<lambda>profit.
     bindE (let t = trim_space (pr_Leverage r) in
            if t = [] then Inr 0
            else case atoi t of None \<Rightarrow> Inl (XErr (''parse leverage for '' @ pr_Symbol r)) | Some n \<Rightarrow> Inr n) (\<lambda>leverage.
     Inr (Some \<lparr>p_Symbol = pr_Symbol r,
       p_Side = (if dec_Cmp amount dec_Zero < 0 \<or> equal_fold (pr_PositionSide r) ''SHORT'' then SideShort else SideLong),
       p_Amount = dec_Abs amount, p_EntryPrice = entry, p_MarkPrice = mark, p_UnrealizedProfit = profit,
       p_Leverage = leverage, p_MarginType = to_lower (trim_space (pr_MarginType r))\<rparr>))))))"

fun positions_of :: "position_risk list \<Rightarrow> xerror + position list" where
  "positions_of [] = Inr []"
| "positions_of (r # rs) =
     bindE (positionFromRisk r) (\<lambda>p. bindE (positions_of rs) (\<lambda>ps. Inr (case p of None \<Rightarrow> ps | Some p \<Rightarrow> p # ps)))"

definition executor_Positions :: "'n net \<Rightarrow> executor_config \<Rightarrow> ('n, position list) action" where
  "executor_Positions nt cfg w =
     (case validateConfig cfg of
        Some e \<Rightarrow> (Inl (XErr e), w)
      | None \<Rightarrow> andThen (positionRisk nt cfg []) (\<lambda>rs w. (positions_of rs, w)) w)"

text \<open>The fills of the exit side, oldest first, until they cover the entry quantity.\<close>

record realized_state =
  rs_Net :: decimal
  rs_Qty :: decimal
  rs_Notional :: decimal
  rs_Remaining :: decimal
  rs_ClosedAt :: time

definition exit_fill :: "string \<Rightarrow> user_trade \<Rightarrow> xerror + (decimal \<times> decimal \<times> decimal \<times> decimal) option" where
  "exit_fill symbol t =
     bindE (or_fail (''parse exit quantity for '' @ symbol @ '': '') (dec_Parse (defaultDecimalString (ut_Qty t)))) (\<lambda>qty.
     if \<not> dec_IsPositive qty then Inr None
     else
     bindE (or_fail (''parse exit price for '' @ symbol @ '': '') (dec_Parse (defaultDecimalString (ut_Price t)))) (\<lambda>price.
     if \<not> dec_IsPositive price then Inr None
     else
     bindE (or_fail (''parse exit realized pnl for '' @ symbol @ '': '') (dec_Parse (defaultDecimalString (ut_RealizedPnL t)))) (\<lambda>pnl.
     bindE (or_fail (''parse exit commission for '' @ symbol @ '': '') (dec_Parse (defaultDecimalString (ut_Commission t)))) (\<lambda>commission.
     Inr (Some (qty, price, pnl, dec_Abs commission))))))"

definition take_fill :: "string \<Rightarrow> user_trade \<Rightarrow> decimal \<times> decimal \<times> decimal \<times> decimal \<Rightarrow> realized_state \<Rightarrow> xerror + realized_state" where
  "take_fill symbol t x st =
     (case x of (qty, price, pnl, commission) \<Rightarrow>
        bindE (if dec_Cmp qty (rs_Remaining st) > 0 then
                 bindE (or_fail (''prorate exit fill for '' @ symbol @ '': '') (dec_QuoFloor (rs_Remaining st) qty 16))
                   (\<lambda>ratio. Inr (rs_Remaining st, dec_Mul pnl ratio, dec_Mul commission ratio))
               else Inr (qty, pnl, commission)) (\<lambda>(q, p, c).
        Inr \<lparr>rs_Net = dec_Sub (dec_Add (rs_Net st) p) c, rs_Qty = dec_Add (rs_Qty st) q,
             rs_Notional = dec_Add (rs_Notional st) (dec_Mul price q), rs_Remaining = dec_Sub (rs_Remaining st) q,
             rs_ClosedAt = unixMillis (ut_Time t)\<rparr>))"

fun realized_loop :: "string \<Rightarrow> string \<Rightarrow> user_trade list \<Rightarrow> realized_state \<Rightarrow> xerror + realized_state" where
  "realized_loop symbol exitSide [] st = Inr st"
| "realized_loop symbol exitSide (t # ts) st =
     (if \<not> equal_fold (ut_Symbol t) symbol \<or> \<not> equal_fold (ut_Side t) exitSide then realized_loop symbol exitSide ts st
      else bindE (exit_fill symbol t) (\<lambda>x. case x of
        None \<Rightarrow> realized_loop symbol exitSide ts st
      | Some x \<Rightarrow> bindE (take_fill symbol t x st) (\<lambda>st.
          if \<not> dec_IsPositive (rs_Remaining st) then Inr st else realized_loop symbol exitSide ts st)))"

definition realized_start :: "decimal \<Rightarrow> realized_state" where
  "realized_start entryQty = \<lparr>rs_Net = dec_Zero, rs_Qty = dec_Zero, rs_Notional = dec_Zero, rs_Remaining = entryQty, rs_ClosedAt = 0\<rparr>"

definition realized_result :: "string \<Rightarrow> string \<Rightarrow> time \<Rightarrow> realized_state \<Rightarrow> realized_trade option" where
  "realized_result symbol sd now st =
     (if dec_IsPositive (rs_Remaining st) then None
      else Some \<lparr>rt_Symbol = symbol, rt_Side = sd,
        rt_ExitPrice = (if dec_IsPositive (rs_Qty st)
                        then (case dec_QuoFloor (rs_Notional st) (rs_Qty st) 8 of Inr avg \<Rightarrow> avg | Inl _ \<Rightarrow> dec_Zero) else dec_Zero),
        rt_RealizedPnL = rs_Net st, rt_ClosedAt = (if is_zero_time (rs_ClosedAt st) then now else rs_ClosedAt st)\<rparr>)"

definition executor_RealizedTrade ::
    "'n net \<Rightarrow> executor_config \<Rightarrow> string \<Rightarrow> string \<Rightarrow> time \<Rightarrow> decimal \<Rightarrow> ('n, realized_trade option) action" where
  "executor_RealizedTrade nt cfg symbol sd since entryQty w =
     (case validateConfig cfg of
        Some e \<Rightarrow> (Inl (XErr e), w)
      | None \<Rightarrow>
        let symbol = to_upper (trim_space symbol); sd = to_lower (trim_space sd) in
        if symbol = [] then (Inl (XErr ''realized trade symbol is required''), w)
        else case closeOrderSide sd of
          Inl e \<Rightarrow> (Inl e, w)
        | Inr exitSide \<Rightarrow>
            if \<not> dec_IsPositive entryQty then (Inl (XErr ''realized trade entry quantity is required''), w)
            else andThen (userTrades nt cfg symbol since) (\<lambda>trades w.
              (bindE (realized_loop symbol exitSide (insertion_sort (\<lambda>a b. ut_Time a < ut_Time b) trades) (realized_start entryQty))
                 (\<lambda>st. Inr (realized_result symbol sd (nt_Now nt (xw_Net w)) st)), w)) w)"

section \<open>Stops\<close>

fun stop_scan :: "string \<Rightarrow> algo_open_order list \<Rightarrow> xerror + stop_state option" where
  "stop_scan symbol [] = Inr None"
| "stop_scan symbol (a # as) =
     (if ao_OrderType a \<noteq> ''STOP_MARKET'' then stop_scan symbol as
      else bindE (or_fail (''parse stop trigger price for '' @ symbol @ '': '') (dec_Parse (defaultDecimalString (ao_TriggerPrice a))))
        (\<lambda>price. Inr (Some \<lparr>ss_Price = price, ss_ClientAlgoID = ao_ClientAlgoID a\<rparr>)))"

definition executor_CurrentStop :: "'n net \<Rightarrow> executor_config \<Rightarrow> string \<Rightarrow> ('n, stop_state option) action" where
  "executor_CurrentStop nt cfg symbol w =
     (case validateConfig cfg of
        Some e \<Rightarrow> (Inl (XErr e), w)
      | None \<Rightarrow> andThen (signedRequest nt cfg ''GET'' ''/fapi/v1/openAlgoOrders'' [(''symbol'', symbol)] hb_Stops)
          (\<lambda>as w. (stop_scan symbol as, w)) w)"

definition executor_MoveStopLoss ::
    "'n net \<Rightarrow> executor_config \<Rightarrow> string \<Rightarrow> side \<Rightarrow> decimal \<Rightarrow> string \<Rightarrow> string \<Rightarrow> ('n, unit) action" where
  "executor_MoveStopLoss nt cfg symbol sd newStop oldID newID w =
     (case validateConfig cfg of
        Some e \<Rightarrow> (Inl (XErr e), w)
      | None \<Rightarrow> andThen (symbolFilters nt cfg symbol) (\<lambda>f w.
          case or_fail ''round stop loss: '' (dec_FloorToStep newStop (sf_TickSize f)) of
            Inl e \<Rightarrow> (Inl e, w)
          | Inr stop \<Rightarrow>
              (case newAlgoOrder nt cfg (stop_params symbol (if sd = SideShort then ''BUY'' else ''SELL'') ''STOP_MARKET'' stop newID) w of
                 (Inl e, w) \<Rightarrow> (Inl (wrap_err ''place new stop loss'' e), w)
               | (Inr _, w) \<Rightarrow> (Inr (), snd (cancelAlgoOrder nt cfg oldID w)))) w)"

section \<open>The executor behind the program's interfaces\<close>

definition outcome_text :: "(xerror + 'a) \<times> 'w \<Rightarrow> (string + 'a) \<times> 'w" where
  "outcome_text x = (map_err xerror_text (fst x), snd x)"

definition binance_trail :: "'n net \<Rightarrow> executor_config \<Rightarrow> 'n xworld trail_exchange" where
  "binance_trail nt cfg =
     \<lparr>tx_Positions = (\<lambda>w. outcome_text (executor_Positions nt cfg w)),
      tx_CurrentStop = (\<lambda>symbol w. outcome_text (executor_CurrentStop nt cfg symbol w)),
      tx_MoveStopLoss = (\<lambda>symbol sd stop old new w.
        (case executor_MoveStopLoss nt cfg symbol sd stop old new w of
           (Inl e, w) \<Rightarrow> (Some (xerror_text e), w) | (Inr _, w) \<Rightarrow> (None, w)))\<rparr>"

text \<open>
  \<open>provider.go\<close>: one executor per user and key, cached. An executor is its configuration here; its own
  filter cache is in the world of the calls.
\<close>

type_synonym executor_cache = "string \<Rightarrow> executor_config option"

datatype 'a load_result = Loaded 'a | LoadNoCredential | LoadFailed string

definition ExecutorFor ::
    "executor_config \<Rightarrow> (string \<Rightarrow> (string \<times> string) load_result) \<Rightarrow> string \<Rightarrow> executor_cache \<Rightarrow>
     (string + executor_config option) \<times> executor_cache" where
  "ExecutorFor base loader userKey cache =
     (case loader userKey of
        LoadNoCredential \<Rightarrow> (Inr None, cache)
      | LoadFailed e \<Rightarrow> (Inl e, cache)
      | Loaded (key, secret) \<Rightarrow>
          let cacheKey = userKey @ ''|'' @ key in
          (case cache cacheKey of
             Some executor \<Rightarrow> (Inr (Some executor), cache)
           | None \<Rightarrow>
               let cfg = executor_defaults (base\<lparr>xc_APIKey := key, xc_APISecret := secret\<rparr>)
               in (Inr (Some cfg), cache(cacheKey \<mapsto> cfg))))"

definition ExchangeFor ::
    "'n net \<Rightarrow> executor_config \<Rightarrow> (string \<Rightarrow> (string \<times> string) load_result) \<Rightarrow> string \<Rightarrow> executor_cache \<Rightarrow>
     (string + 'n xworld trail_exchange option) \<times> executor_cache" where
  "ExchangeFor nt base loader userKey cache =
     (case ExecutorFor base loader userKey cache of
        (Inl e, cache) \<Rightarrow> (Inl e, cache)
      | (Inr None, cache) \<Rightarrow> (Inr None, cache)
      | (Inr (Some cfg), cache) \<Rightarrow> (Inr (Some (binance_trail nt cfg)), cache))"

end
