(* ===== verification/Binance_Trace.thy ===== *)
theory Binance_Trace
  imports Binance_Executor
begin

text \<open>
  What the Binance executor sends. \<open>logged\<close> puts any exchange behind a recorder, so a statement about
  the executor on a logged exchange is a statement about its requests and the answers it got, whatever
  the exchange does. The lemmas give the log of each call; the theorems say how an entry is placed and
  protected, that a close only reduces, and that nothing is sent while a gate is shut.
\<close>

section \<open>The log\<close>

type_synonym exchange_log = "(http_request \<times> (string + int \<times> http_body)) list"

definition logged :: "'n net \<Rightarrow> ('n \<times> exchange_log) net" where
  "logged nt =
     \<lparr>nt_Do = (\<lambda>q (n, l). case nt_Do nt q n of (r, n) \<Rightarrow> (r, (n, l @ [(q, r)]))),
      nt_Now = (\<lambda>(n, l). nt_Now nt n),
      nt_Pause = (\<lambda>(n, l). case nt_Pause nt n of (r, n) \<Rightarrow> (r, (n, l))),
      nt_HMAC = nt_HMAC nt\<rparr>"

definition xlog :: "('n \<times> exchange_log) xworld \<Rightarrow> exchange_log" where
  "xlog w = snd (xw_Net w)"

definition result_of :: "(http_body \<Rightarrow> string + 'a) \<Rightarrow> (string + int \<times> http_body) \<Rightarrow> xerror + 'a" where
  "result_of decode rep =
     (case rep of
        Inl e \<Rightarrow> Inl (XErr e)
      | Inr (status, body) \<Rightarrow>
          if status \<ge> 400 then
            (let (errcode, message) = hb_Error body in Inl (XApi status errcode (if message = [] then hb_Text body else message)))
          else case decode body of
            Inl e \<Rightarrow> Inl (XErr (''decode Binance response: '' @ e)) | Inr x \<Rightarrow> Inr x)"

definition answered :: "string + int \<times> http_body \<Rightarrow> bool" where
  "answered rep \<longleftrightarrow> (\<exists>status body. rep = Inr (status, body) \<and> status < 400)"

definition rejected :: "string + int \<times> http_body \<Rightarrow> bool" where
  "rejected rep \<longleftrightarrow> (\<exists>status body. rep = Inr (status, body) \<and> 400 \<le> status)"

text \<open>A call of a path with these parameters; the signature's own parameters are left out.\<close>

definition called :: "http_request \<Rightarrow> string \<Rightarrow> string \<Rightarrow> url_values \<Rightarrow> bool" where
  "called q verb path params \<longleftrightarrow> hq_Method q = verb \<and> hq_Path q = path \<and>
     (\<forall>k. k \<noteq> ''timestamp'' \<longrightarrow> k \<noteq> ''recvWindow'' \<longrightarrow> map_of (hq_Query q) k = map_of params k)"

definition is_order :: "http_request \<Rightarrow> bool" where
  "is_order q \<longleftrightarrow> hq_Method q = ''POST'' \<and> hq_Path q = ''/fapi/v1/order''"

definition order_log :: "exchange_log \<Rightarrow> exchange_log" where
  "order_log l = filter (\<lambda>x. is_order (fst x)) l"

definition is_algo :: "http_request \<Rightarrow> bool" where
  "is_algo q \<longleftrightarrow> hq_Method q = ''POST'' \<and> hq_Path q = ''/fapi/v1/algoOrder''"

text \<open>No order is placed, neither a plain nor a conditional one.\<close>

definition quiet :: "exchange_log \<Rightarrow> bool" where
  "quiet l \<longleftrightarrow> (\<forall>x\<in>set l. \<not> is_order (fst x) \<and> \<not> is_algo (fst x))"

lemma quiet_simps [simp]:
  "quiet []" "quiet (a @ b) = (quiet a \<and> quiet b)" "quiet (x # l) = (\<not> is_order (fst x) \<and> \<not> is_algo (fst x) \<and> quiet l)"
  by (auto simp: quiet_def)

lemma order_log_simps [simp]:
  "order_log [] = []" "order_log (a @ b) = order_log a @ order_log b"
  "order_log (x # l) = (if is_order (fst x) then x # order_log l else order_log l)"
  by (simp_all add: order_log_def)

lemma quiet_order_log: "quiet l \<Longrightarrow> order_log l = []"
  by (induction l) auto

lemma is_algo_called: "called q verb path params \<Longrightarrow> is_algo q = (verb = ''POST'' \<and> path = ''/fapi/v1/algoOrder'')"
  by (auto simp: called_def is_algo_def)

lemma is_order_called: "called q verb path params \<Longrightarrow> is_order q = (verb = ''POST'' \<and> path = ''/fapi/v1/order'')"
  by (auto simp: called_def is_order_def)

lemma result_of_Inr: "result_of decode rep = Inr x \<Longrightarrow> answered rep \<and> (\<exists>status body. rep = Inr (status, body) \<and> decode body = Inr x)"
  by (auto simp: result_of_def answered_def Let_def split: sum.splits prod.splits if_splits)

lemma result_of_XApi: "result_of decode rep = Inl (XApi s c m) \<Longrightarrow> rejected rep"
  by (auto simp: result_of_def rejected_def Let_def split: sum.splits prod.splits if_splits)

lemma result_of_XErr: "result_of decode rep = Inl (XErr e) \<Longrightarrow> \<not> rejected rep"
  by (auto simp: result_of_def rejected_def Let_def split: sum.splits prod.splits if_splits)

text \<open>One request extends the log by one entry.\<close>

lemma http_do_result:
  "nt_Do nt q (xw_Net w) = (rep, n) \<Longrightarrow> http_do nt q decode w = (result_of decode rep, w\<lparr>xw_Net := n\<rparr>)"
  by (cases rep) (auto simp: http_do_def result_of_def)

lemma http_do_logged:
  assumes "http_do (logged nt) q decode w = (r, w')"
  shows "\<exists>rep. xlog w' = xlog w @ [(q, rep)] \<and> r = result_of decode rep \<and> xw_Filters w' = xw_Filters w"
proof -
  obtain rep n where d: "nt_Do nt q (fst (xw_Net w)) = (rep, n)" by (metis surj_pair)
  then have "nt_Do (logged nt) q (xw_Net w) = (rep, (n, xlog w @ [(q, rep)]))"
    by (cases "xw_Net w") (simp add: logged_def xlog_def)
  from http_do_result [OF this, of decode] assms show ?thesis
    by (auto simp: xlog_def)
qed

lemma signed_logged:
  assumes "signedRequest (logged nt) cfg verb path params decode w = (r, w')"
  obtains q rep where "xlog w' = xlog w @ [(q, rep)]" "called q verb path params" "r = result_of decode rep"
    "xw_Filters w' = xw_Filters w"
proof -
  from assms http_do_logged [of nt _ decode w r w'] obtain q rep where
    "xlog w' = xlog w @ [(q, rep)]" "r = result_of decode rep" "xw_Filters w' = xw_Filters w"
    "hq_Method q = verb" "hq_Path q = path" "hq_Query q = signed_params (logged nt) params w"
    by (fastforce simp: signedRequest_def Let_def)
  then show thesis
    by (intro that) (auto simp: called_def signed_params_def update_conv')
qed

lemma public_logged:
  assumes "publicRequest (logged nt) cfg verb path params decode w = (r, w')"
  obtains q rep where "xlog w' = xlog w @ [(q, rep)]" "called q verb path params" "r = result_of decode rep"
    "xw_Filters w' = xw_Filters w"
  using http_do_logged [OF assms [unfolded publicRequest_def]] by (force simp: called_def intro: that)

text \<open>The reads and the bookkeeping calls send no order.\<close>

lemma quiet_called:
  "called q verb path params \<Longrightarrow> verb \<noteq> ''POST'' \<or> path \<noteq> ''/fapi/v1/order'' \<and> path \<noteq> ''/fapi/v1/algoOrder'' \<Longrightarrow> quiet [(q, rep)]"
  by (auto simp: is_order_called is_algo_called)

lemma quiet_logged:
  assumes "signedRequest (logged nt) cfg verb path params decode w = (r, w')" "verb \<noteq> ''POST'' \<or> path \<noteq> ''/fapi/v1/order'' \<and> path \<noteq> ''/fapi/v1/algoOrder''"
  obtains new where "xlog w' = xlog w @ new" "quiet new"
  using signed_logged [OF assms(1)] quiet_called [OF _ assms(2)] by metis

lemma cancel_logged: "\<exists>new. xlog (snd (cancelOrderStatus (logged nt) cfg s k v)) = xlog v @ new \<and> quiet new"
proof -
  obtain r v' where "cancelOrderStatus (logged nt) cfg s k v = (r, v')" by fastforce
  then show ?thesis
    unfolding cancelOrderStatus_def by (auto elim: quiet_logged)
qed

lemma query_logged:
  assumes "queryOrder (logged nt) cfg s k w = (r, w')"
  obtains q rep where "xlog w' = xlog w @ [(q, rep)]" "quiet [(q, rep)]" "r = result_of hb_Order rep"
proof -
  from signed_logged [OF assms [unfolded queryOrder_def]] obtain q rep where
    *: "xlog w' = xlog w @ [(q, rep)]" "called q ''GET'' ''/fapi/v1/order'' [(''symbol'', s), (''origClientOrderId'', k)]"
      "r = result_of hb_Order rep" .
  show thesis
    by (rule that [OF *(1) quiet_called [OF *(2)] *(3)]) simp
qed

lemma symbolFilters_logged:
  assumes "symbolFilters (logged nt) cfg symbol w = (r, w')"
  obtains new where "xlog w' = xlog w @ new" "quiet new"
proof -
  consider "xlog w' = xlog w"
    | w1 r1 where "publicRequest (logged nt) cfg ''GET'' ''/fapi/v1/exchangeInfo'' [] hb_Info w = (r1, w1)" "xlog w' = xlog w1"
    using assms unfolding symbolFilters_def Let_def
    by (auto split: option.splits prod.splits sum.splits if_splits simp: xlog_def)
  then show thesis
  proof cases
    case 1
    then show ?thesis using that [of "[]"] by simp
  next
    case 2
    from public_logged [OF 2(1)] obtain q rep
      where "xlog w1 = xlog w @ [(q, rep)]" "called q ''GET'' ''/fapi/v1/exchangeInfo'' []" by metis
    with 2(2) is_order_called is_algo_called show ?thesis using that [of "[(q, rep)]"] by auto
  qed
qed

text \<open>The poll only reads and cancels; what it leaves unfilled is the last status it read.\<close>

definition poll_post ::
    "('n \<times> exchange_log) xworld \<Rightarrow> (xerror + poll_end) \<times> ('n \<times> exchange_log) xworld \<Rightarrow> bool" where
  "poll_post w x \<longleftrightarrow> (\<exists>new. xlog (snd x) = xlog w @ new \<and> quiet new \<and>
     (\<forall>st. fst x = Inr (EntryUnfilled st) \<longrightarrow>
       (\<exists>q status body. new \<noteq> [] \<and> last new = (q, Inr (status, body)) \<and> hb_Order body = Inr st)))"

lemma poll_logged:
  assumes "poll_entry (logged nt) cfg symbol k deadline w = Some x"
  shows "poll_post w x"
proof -
  have step: "net1 = logged nt \<longrightarrow> poll_post w y"
    if run: "\<And>net1 cfg s k d w y. f net1 cfg s k d w = Some y \<Longrightarrow> net1 = logged nt \<longrightarrow> poll_post w y"
      and body: "(case queryOrder net1 cfg s k w of
        (Inl e, w) \<Rightarrow> Some (Inl e, snd (cancelOrderStatus net1 cfg s k w))
      | (Inr status, w) \<Rightarrow>
          if or_Status status = ''FILLED'' then Some (Inr (EntryFilled status), w)
          else if nt_Now net1 (xw_Net w) > d then Some (Inr (EntryUnfilled status), w)
          else case nt_Pause net1 (xw_Net w) of
            (Some e, n) \<Rightarrow> Some (Inl (XErr e), snd (cancelOrderStatus net1 cfg s k (w\<lparr>xw_Net := n\<rparr>)))
          | (None, n) \<Rightarrow> f net1 cfg s k d (w\<lparr>xw_Net := n\<rparr>)) = Some y" for f net1 cfg s k d w y
  proof
    assume net1: "net1 = logged nt"
    note cancel = cancel_logged [of nt cfg s k, folded net1]
    have paused: "xlog (v\<lparr>xw_Net := n\<rparr>) = xlog v" if "nt_Pause net1 (xw_Net v) = (e, n)" for v n e
      using that by (auto simp: net1 logged_def xlog_def split: prod.splits)
    obtain r w1 where q: "queryOrder net1 cfg s k w = (r, w1)" by fastforce
    from query_logged [OF q [unfolded net1]] obtain req rep where
      w1: "xlog w1 = xlog w @ [(req, rep)]" and calm: "quiet [(req, rep)]" and r: "r = result_of hb_Order rep" .
    show "poll_post w y"
    proof (cases r)
      case (Inl e)
      with body q cancel [of w1] w1 calm show ?thesis by (fastforce simp: poll_post_def)
    next
      case (Inr st)
      then obtain status bd where rep: "rep = Inr (status, bd)" "hb_Order bd = Inr st"
        using result_of_Inr [of hb_Order rep st] r by auto
      consider "y = (Inr (EntryFilled st), w1)" | "y = (Inr (EntryUnfilled st), w1)"
        | e n where "nt_Pause net1 (xw_Net w1) = (Some e, n)" "y = (Inl (XErr e), snd (cancelOrderStatus net1 cfg s k (w1\<lparr>xw_Net := n\<rparr>)))"
        | n where "nt_Pause net1 (xw_Net w1) = (None, n)" "f net1 cfg s k d (w1\<lparr>xw_Net := n\<rparr>) = Some y"
        using body q Inr by (auto split: if_splits prod.splits option.splits)
      then show ?thesis
      proof cases
        case 3
        with paused [OF 3(1)] cancel [of "w1\<lparr>xw_Net := n\<rparr>"] w1 calm show ?thesis
          by (fastforce simp: poll_post_def)
      next
        case 4
        from run [OF 4(2)] net1 have "poll_post (w1\<lparr>xw_Net := n\<rparr>) y" by simp
        with paused [OF 4(1)] w1 calm show ?thesis
          by (fastforce simp: poll_post_def)
      qed (use w1 calm rep in \<open>auto simp: poll_post_def\<close>)
    qed
  qed
  have "logged nt = logged nt \<longrightarrow> poll_post w x"
    by (rule poll_entry.raw_induct [of "\<lambda>net1 cfg s k d w y. net1 = logged nt \<longrightarrow> poll_post w y", OF step assms])
  then show ?thesis by simp
qed

section \<open>An exchange that answers from a script\<close>

definition plain_body :: http_body where
  "plain_body = \<lparr>hb_Text = [], hb_Error = (0, []), hb_Any = None, hb_Order = Inr no_order,
     hb_Algo = Inr \<lparr>al_ClientAlgoID = [], al_AlgoID = 0, al_Symbol = [], al_AlgoStatus = [], al_Type = []\<rparr>,
     hb_Stops = Inr [], hb_Risks = Inr [], hb_Trades = Inr [], hb_Info = Inr []\<rparr>"

definition ok_reply :: "http_body \<Rightarrow> string + int \<times> http_body" where
  "ok_reply b = Inr (200, b)"

definition script_net :: "(int \<times> (string + int \<times> http_body) list) net" where
  "script_net =
     \<lparr>nt_Do = (\<lambda>q (t, rs). case rs of [] \<Rightarrow> (Inl ''EOF'', (t, [])) | r # rs \<Rightarrow> (r, (t, rs))),
      nt_Now = (\<lambda>(t, rs). unix_epoch + t), nt_Pause = (\<lambda>(t, rs). (None, (t + seconds 3, rs))), nt_HMAC = (\<lambda>k m. [])\<rparr>"

definition script_world :: "(string + int \<times> http_body) list \<Rightarrow> ((int \<times> (string + int \<times> http_body) list) \<times> exchange_log) xworld" where
  "script_world rs = \<lparr>xw_Filters = (\<lambda>_. None), xw_Refreshed = 0, xw_Net = ((0, rs), [])\<rparr>"

definition script_config :: executor_config where
  "script_config = executor_defaults \<lparr>xc_APIKey = ''k'', xc_APISecret = ''s'', xc_BaseURL = ''https://x/'', xc_Testnet = True,
     xc_RealTradingEnabled = False, xc_RequestTimeout = 0, xc_ExchangeInfoCacheTTL = 0, xc_MakerEntryTimeout = 0\<rparr>"

definition order_reply :: "string \<Rightarrow> string \<Rightarrow> string + int \<times> http_body" where
  "order_reply status executed = ok_reply (plain_body\<lparr>hb_Order := Inr (no_order\<lparr>or_Status := status, or_ExecutedQty := executed\<rparr>)\<rparr>)"

section \<open>The entry is never doubled\<close>

lemma newOrder_logged:
  assumes "newOrder (logged nt) cfg params w = (r, w')"
  obtains q rep where "xlog w' = xlog w @ [(q, rep)]" "called q ''POST'' ''/fapi/v1/order'' params" "r = result_of hb_Order rep"
    "order_log [(q, rep)] = [(q, rep)]"
proof -
  from signed_logged [OF assms [unfolded newOrder_def]] obtain q rep where
    *: "xlog w' = xlog w @ [(q, rep)]" "called q ''POST'' ''/fapi/v1/order'' params" "r = result_of hb_Order rep" .
  show thesis
    by (rule that [OF *]) (use is_order_called [OF *(2)] in simp)
qed

lemma market_rest_logged:
  assumes "market_rest (logged nt) cfg symbol sd quantity cid limit w = (r, w')"
  shows "xlog w' = xlog w \<or> (\<exists>m mrep. xlog w' = xlog w @ [(m, mrep)] \<and>
    called m ''POST'' ''/fapi/v1/order'' (market_params symbol sd (dec_Sub quantity (entry_executed limit)) (binance_clientOrderID cid ''entrym'')) \<and>
    dval (entry_executed limit) < dval quantity)"
proof (cases "dec_IsPositive (dec_Sub quantity (entry_executed limit))")
  case True
  then have "newOrder (logged nt) cfg (market_params symbol sd (dec_Sub quantity (entry_executed limit)) (binance_clientOrderID cid ''entrym'')) w = (r, w')"
    using assms by (simp add: market_rest_def Let_def)
  with True show ?thesis by (auto elim!: newOrder_logged simp: dec_simps)
next
  case False
  with assms show ?thesis by (simp add: market_rest_def Let_def)
qed

definition market_sent :: "string \<Rightarrow> string \<Rightarrow> decimal \<Rightarrow> string \<Rightarrow> order_response \<Rightarrow> http_request \<Rightarrow> bool" where
  "market_sent symbol sd quantity cid limit m \<longleftrightarrow>
     called m ''POST'' ''/fapi/v1/order'' (market_params symbol sd (dec_Sub quantity (entry_executed limit)) (binance_clientOrderID cid ''entrym'')) \<and>
     dval (entry_executed limit) < dval quantity"

text \<open>The limit order has been cancelled, and this is what it had executed: the cancel says so, or the last poll.\<close>

definition cancelled_with :: "string \<Rightarrow> string \<Rightarrow> order_response \<Rightarrow> exchange_log \<Rightarrow> bool" where
  "cancelled_with symbol cid limit mid \<longleftrightarrow>
     (\<exists>pre g prep c status body answer. mid = pre @ [(g, prep), (c, Inr (status, body))] \<and> status < 400 \<and>
        called c ''DELETE'' ''/fapi/v1/order'' [(''symbol'', symbol), (''origClientOrderId'', binance_clientOrderID cid ''entry'')] \<and>
        hb_Order body = Inr answer \<and>
        (if or_ExecutedQty answer \<noteq> [] then limit = answer else \<exists>s b. prep = Inr (s, b) \<and> hb_Order b = Inr limit))"

lemma maker_entry_log:
  assumes "makerFirstEntry (logged nt) cfg symbol sd price quantity cid w = Some (r, w')"
  shows "\<exists>q rep rest. xlog w' = xlog w @ (q, rep) # rest \<and>
    called q ''POST'' ''/fapi/v1/order'' (limit_params symbol sd price quantity (binance_clientOrderID cid ''entry'')) \<and>
    (quiet rest \<or>
     (\<exists>mid m mrep limit. rest = mid @ [(m, mrep)] \<and> quiet mid \<and> market_sent symbol sd quantity cid limit m \<and>
        (rejected rep \<and> mid = [] \<and> limit = no_order \<or> answered rep \<and> cancelled_with symbol cid limit mid)))"
proof -
  let ?k = "binance_clientOrderID cid ''entry''"
  let ?lim = "limit_params symbol sd price quantity ?k"
  obtain r1 w1 where lim: "newOrder (logged nt) cfg ?lim w = (r1, w1)" by fastforce
  from newOrder_logged [OF lim] obtain q rep where
    w1: "xlog w1 = xlog w @ [(q, rep)]" and q: "called q ''POST'' ''/fapi/v1/order'' ?lim" and r1: "r1 = result_of hb_Order rep" .
  have rest: ?thesis if "xlog w' = xlog w1 @ rest" "quiet rest \<or>
     (\<exists>mid m mrep limit. rest = mid @ [(m, mrep)] \<and> quiet mid \<and> market_sent symbol sd quantity cid limit m \<and>
        (rejected rep \<and> mid = [] \<and> limit = no_order \<or> answered rep \<and> cancelled_with symbol cid limit mid))" for rest
    using that w1 q by auto
  have market: ?thesis if "market_rest (logged nt) cfg symbol sd quantity cid limit v = (r, w')" "xlog v = xlog w1 @ mid" "quiet mid"
    "rejected rep \<and> mid = [] \<and> limit = no_order \<or> answered rep \<and> cancelled_with symbol cid limit mid" for limit v mid
  proof -
    from market_rest_logged [OF that(1)] consider "xlog w' = xlog v"
      | m mrep where "xlog w' = xlog v @ [(m, mrep)]" "market_sent symbol sd quantity cid limit m"
      unfolding market_sent_def by blast
    then show ?thesis
    proof cases
      case 1
      with that rest [of mid] show ?thesis by simp
    next
      case 2
      have "xlog w' = xlog w1 @ (mid @ [(m, mrep)])" using 2 that by simp
      then show ?thesis by (rule rest) (use 2 that in blast)
    qed
  qed
  show ?thesis
  proof (cases r1)
    case (Inl e)
    show ?thesis
    proof (cases e)
      case (XErr t)
      with assms lim Inl rest [of "[]"] show ?thesis by (simp add: makerFirstEntry_def Let_def)
    next
      case (XApi s c t)
      have "market_rest (logged nt) cfg symbol sd quantity cid no_order w1 = (r, w')"
        using assms lim Inl XApi by (simp add: makerFirstEntry_def Let_def)
      then show ?thesis
        by (rule market [of _ _ "[]"]) (use result_of_XApi [of hb_Order rep s c t] r1 Inl XApi in auto)
    qed
  next
    case (Inr resp)
    have ans: "answered rep" using result_of_Inr [of hb_Order rep resp] r1 Inr by simp
    obtain x where poll: "poll_entry (logged nt) cfg symbol ?k (nt_Now (logged nt) (xw_Net w1) + xc_MakerEntryTimeout cfg) w1 = Some x"
      using assms lim Inr by (auto simp: makerFirstEntry_def Let_def split: option.splits)
    obtain pr w2 where x: "x = (pr, w2)" by fastforce
    from poll_logged [OF poll] x obtain new where new: "xlog w2 = xlog w1 @ new" "quiet new"
      "\<And>st. pr = Inr (EntryUnfilled st) \<Longrightarrow> \<exists>q s b. new \<noteq> [] \<and> last new = (q, Inr (s, b)) \<and> hb_Order b = Inr st"
      by (auto simp: poll_post_def)
    consider "w' = w2" | st where "pr = Inr (EntryUnfilled st)"
      using assms lim Inr poll x by (auto simp: makerFirstEntry_def Let_def split: sum.splits poll_end.splits)
    then show ?thesis
    proof cases
      case 1
      with new rest [of new] show ?thesis by simp
    next
      case 2
      obtain cr w3 where c: "cancelOrderStatus (logged nt) cfg symbol ?k w2 = (cr, w3)" by fastforce
      from signed_logged [OF c [unfolded cancelOrderStatus_def]] obtain cq crep where
        w3: "xlog w3 = xlog w2 @ [(cq, crep)]" and cq: "called cq ''DELETE'' ''/fapi/v1/order'' [(''symbol'', symbol), (''origClientOrderId'', ?k)]"
        and cr: "cr = result_of hb_Order crep" .
      have calm: "quiet (new @ [(cq, crep)])"
        using new(2) quiet_called [OF cq, of crep] by simp
      show ?thesis
      proof (cases cr)
        case (Inl e)
        with assms lim Inr poll x 2 c have "w' = w3" by (simp add: makerFirstEntry_def Let_def)
        with w3 new(1) calm rest [of "new @ [(cq, crep)]"] show ?thesis by simp
      next
        case (Inr answer)
        then obtain s b where crep: "crep = Inr (s, b)" "s < 400" "hb_Order b = Inr answer"
          using result_of_Inr [of hb_Order crep answer] cr by (auto simp: answered_def)
        from new(3) [OF 2] obtain pre g s2 b2 where last: "new = pre @ [(g, Inr (s2, b2))]" "hb_Order b2 = Inr st"
          by (metis append_butlast_last_id)
        have "market_rest (logged nt) cfg symbol sd quantity cid (if or_ExecutedQty answer \<noteq> [] then answer else st) w3 = (r, w')"
          using assms lim \<open>r1 = Inr resp\<close> poll x 2 c Inr by (simp add: makerFirstEntry_def Let_def)
        then show ?thesis
        proof (rule market [of _ _ "new @ [(cq, crep)]"])
          show "rejected rep \<and> new @ [(cq, crep)] = [] \<and> (if or_ExecutedQty answer \<noteq> [] then answer else st) = no_order \<or>
            answered rep \<and> cancelled_with symbol cid (if or_ExecutedQty answer \<noteq> [] then answer else st) (new @ [(cq, crep)])"
            using ans last crep cq by (auto simp: cancelled_with_def)
        qed (use w3 new(1) calm in auto)
      qed
    qed
  qed
qed

text \<open>C5. A position is entered with one post-only limit order and at most one market order. The market
  order is sent only when the exchange refused the limit order with an HTTP error, or acknowledged its
  cancellation, and then for exactly the quantity the limit order is known not to have filled; after a
  lost answer nothing more is bought or sold.\<close>
theorem maker_entry_never_doubles:
  assumes "makerFirstEntry (logged nt) cfg symbol sd price quantity cid w = Some (r, w')"
  shows "\<exists>q rep rest. xlog w' = xlog w @ (q, rep) # rest \<and>
    called q ''POST'' ''/fapi/v1/order'' (limit_params symbol sd price quantity (binance_clientOrderID cid ''entry'')) \<and>
    (quiet rest \<or>
     (\<exists>mid m mrep limit. rest = mid @ [(m, mrep)] \<and> quiet mid \<and> market_sent symbol sd quantity cid limit m \<and>
        (rejected rep \<and> mid = [] \<and> limit = no_order \<or> answered rep \<and> cancelled_with symbol cid limit mid)))"
  using assms by (rule maker_entry_log)

definition maker_script :: "(string + int \<times> http_body) list" where
  "maker_script = [order_reply ''NEW'' [], order_reply ''NEW'' [], order_reply ''NEW'' [], order_reply ''CANCELED'' ''0.4'', order_reply ''FILLED'' ''0.6'']"

lemma maker_script_runs:
  "case makerFirstEntry (logged script_net) script_config ''BTCUSDT'' ''BUY'' (dec_NewFromInt 100) (dec_NewFromInt 1) ''c1'' (script_world maker_script) of
     Some (Inr _, w) \<Rightarrow> length (xlog w) = 5 | _ \<Rightarrow> False"
  by code_simp

theorem maker_entry_never_doubles_witness:
  "\<exists>r w' q rep rest. makerFirstEntry (logged script_net) script_config ''BTCUSDT'' ''BUY'' (dec_NewFromInt 100) (dec_NewFromInt 1) ''c1''
       (script_world maker_script) = Some (r, w') \<and> length (xlog w') = 5 \<and> xlog w' = (q, rep) # rest \<and>
     (quiet rest \<or> (\<exists>mid m mrep limit. rest = mid @ [(m, mrep)] \<and> quiet mid \<and>
        market_sent ''BTCUSDT'' ''BUY'' (dec_NewFromInt 1) ''c1'' limit m))"
proof -
  obtain r w' where run: "makerFirstEntry (logged script_net) script_config ''BTCUSDT'' ''BUY'' (dec_NewFromInt 100) (dec_NewFromInt 1) ''c1''
      (script_world maker_script) = Some (r, w')" "length (xlog w') = 5"
    using maker_script_runs by (auto split: option.splits prod.splits sum.splits)
  have "xlog (script_world maker_script) = []" by (simp add: xlog_def script_world_def)
  with maker_entry_never_doubles [OF run(1)] run show ?thesis by auto
qed

section \<open>A close only reduces\<close>

text \<open>The request sells or buys back at most one of the reported positions, and only reduces it.\<close>

definition reduces :: "position_risk list \<Rightarrow> http_request \<Rightarrow> bool" where
  "reduces ps q \<longleftrightarrow> (\<exists>p\<in>set ps. \<exists>amount quantity k.
     dec_Parse (pr_PositionAmt p) = Inr amount \<and> 0 < dval quantity \<and> dval quantity \<le> \<bar>dval amount\<bar> \<and>
     called q ''POST'' ''/fapi/v1/order''
       (close_params (pr_Symbol p) (if dval amount < 0 then ''BUY'' else ''SELL'') quantity k))"

lemma reduces_mono: "reduces ps q \<Longrightarrow> set ps \<subseteq> set ps' \<Longrightarrow> reduces ps' q"
  unfolding reduces_def by blast

lemma exit_of_amount_val: "exit_of_amount amount = (if dval amount < 0 then ''BUY'' else ''SELL'')"
  by (simp add: exit_of_amount_def dec_simps)

lemma floor_positive:
  assumes "dec_FloorToStep d step = Inr q" "\<not> dec_IsZero q"
  shows "0 < dval q" "dval q \<le> dval d"
  using dec_FloorToStep_bounds [OF assms(1)] assms(2) by (simp_all add: dec_simps)

lemma close_quantity_bounds:
  assumes "close_quantity amount percent f symbol = Inr q" "0 \<le> dval percent" "dval percent \<le> 100"
  shows "0 < dval q" "dval q \<le> \<bar>dval amount\<bar>"
proof -
  obtain d where d: "dec_FloorToStep d (sf_StepSize f) = Inr q" "\<not> dec_IsZero q" "dval d \<le> \<bar>dval amount\<bar>"
  proof (cases "dec_Equal percent (dec_NewFromInt 100)")
    case True
    with assms(1) that [of "dec_Abs amount"] show ?thesis
      by (auto simp: close_quantity_def or_fail_def dec_simps split: if_splits)
  next
    case False
    with assms(1) obtain x where x: "dec_QuoFloor (dec_Mul (dec_Abs amount) percent) (dec_NewFromInt 100) 16 = Inr x"
      "dec_FloorToStep x (sf_StepSize f) = Inr q" "\<not> dec_IsZero q"
      by (auto simp: close_quantity_def or_fail_def split: if_splits)
    have "dval x \<le> \<bar>dval amount\<bar> * dval percent / 100"
      using dec_QuoFloor_bounds(2) [OF x(1)] assms(2) by (simp add: dec_simps)
    also have "\<dots> \<le> \<bar>dval amount\<bar>"
      using mult_left_mono [OF assms(3), of "\<bar>dval amount\<bar>"] by (simp add: field_simps)
    finally show ?thesis using that x by blast
  qed
  then show "0 < dval q" "dval q \<le> \<bar>dval amount\<bar>" using floor_positive by force+
qed

lemma newOrder_reduces:
  assumes "newOrder (logged nt) cfg (close_params (pr_Symbol p) (exit_of_amount amount) quantity k) w = (r, w')"
    "dec_Parse (pr_PositionAmt p) = Inr amount" "0 < dval quantity" "dval quantity \<le> \<bar>dval amount\<bar>"
  shows "\<exists>new. xlog w' = xlog w @ new \<and> (\<forall>x\<in>set (order_log new). reduces (p # ps) (fst x))"
proof -
  from newOrder_logged [OF assms(1)] obtain q rep where
    "xlog w' = xlog w @ [(q, rep)]" "called q ''POST'' ''/fapi/v1/order'' (close_params (pr_Symbol p) (exit_of_amount amount) quantity k)" .
  moreover have "reduces (p # ps) q"
    using calculation(2) assms(2-4) by (auto simp: reduces_def exit_of_amount_val)
  ultimately show ?thesis by auto
qed

text \<open>What a loop over the rows sends, from what a row and the rest of the loop send.\<close>

definition only_reduces :: "position_risk list \<Rightarrow> ('n \<times> exchange_log) xworld \<Rightarrow> ('n \<times> exchange_log) xworld \<Rightarrow> bool" where
  "only_reduces ps w w' \<longleftrightarrow> (\<exists>new. xlog w' = xlog w @ new \<and> (\<forall>x\<in>set (order_log new). reduces ps (fst x)))"

lemma only_reduces_refl [simp]: "only_reduces ps w w"
  by (simp add: only_reduces_def)

lemma only_reduces_trans: "only_reduces ps w w1 \<Longrightarrow> only_reduces ps w1 w2 \<Longrightarrow> only_reduces ps w w2"
  unfolding only_reduces_def by fastforce

lemma only_reduces_Cons: "only_reduces ps w w' \<Longrightarrow> only_reduces (p # ps) w w'"
  unfolding only_reduces_def by (meson reduces_mono set_subset_Cons)

lemma only_reduces_filters: "symbolFilters (logged nt) cfg symbol w = (r, w') \<Longrightarrow> only_reduces ps w w'"
  unfolding only_reduces_def by (erule symbolFilters_logged) (auto dest: quiet_order_log)

lemma flatten_loop_reduces:
  "flatten_loop (logged nt) cfg symbol k ps w = (r, w') \<Longrightarrow> only_reduces ps w w'"
proof (induction ps arbitrary: w)
  case (Cons p ps)
  show ?case
  proof (cases "\<exists>amount f w1 quantity. pr_Symbol p = symbol \<and> dec_Parse (pr_PositionAmt p) = Inr amount \<and> \<not> dec_IsZero amount \<and>
      symbolFilters (logged nt) cfg symbol w = (Inr f, w1) \<and> dec_FloorToStep (dec_Abs amount) (sf_StepSize f) = Inr quantity \<and> \<not> dec_IsZero quantity")
    case True
    then obtain amount f w1 quantity where c: "pr_Symbol p = symbol" "dec_Parse (pr_PositionAmt p) = Inr amount" "\<not> dec_IsZero amount"
      "symbolFilters (logged nt) cfg symbol w = (Inr f, w1)" "dec_FloorToStep (dec_Abs amount) (sf_StepSize f) = Inr quantity" "\<not> dec_IsZero quantity"
      by blast
    obtain r2 w2 where o2: "newOrder (logged nt) cfg (close_params symbol (exit_of_amount amount) quantity k) w1 = (r2, w2)" by fastforce
    have "only_reduces (p # ps) w1 w2"
      using newOrder_reduces [of nt cfg p amount quantity k w1 r2 w2 ps] o2 c floor_positive [OF c(5,6)]
      by (simp add: only_reduces_def dec_simps)
    moreover have "only_reduces (p # ps) w2 w'"
    proof (cases r2)
      case (Inl e)
      with Cons.prems c o2 show ?thesis by simp
    next
      case (Inr o2')
      then have "flatten_loop (logged nt) cfg symbol k ps w2 = (r, w')" using Cons.prems c o2 by simp
      then show ?thesis by (rule only_reduces_Cons [OF Cons.IH])
    qed
    ultimately show ?thesis
      using only_reduces_filters [OF c(4)] only_reduces_trans by blast
  next
    case False
    consider "flatten_loop (logged nt) cfg symbol k ps w = (r, w')"
      | f w1 where "symbolFilters (logged nt) cfg symbol w = (f, w1)" "flatten_loop (logged nt) cfg symbol k ps w1 = (r, w') \<or> w' = w1"
      using Cons.prems False by (auto split: if_splits sum.splits prod.splits)
    then show ?thesis
    proof cases
      case 1
      then show ?thesis by (rule only_reduces_Cons [OF Cons.IH])
    next
      case 2
      then show ?thesis
        using only_reduces_Cons [OF Cons.IH] only_reduces_filters only_reduces_trans by metis
    qed
  qed
qed simp

lemma close_loop_reduces:
  assumes "0 \<le> dval (ci_ResolvedPercent ci)" "dval (ci_ResolvedPercent ci) \<le> 100"
  shows "close_loop (logged nt) cfg ci k ps st w = (r, w') \<Longrightarrow> only_reduces ps w w'"
proof (induction ps arbitrary: w st)
  case (Cons p ps)
  show ?case
  proof (cases "\<exists>amount f w1 quantity. dec_Parse (pr_PositionAmt p) = Inr amount \<and> \<not> dec_IsZero amount \<and> \<not> (ci_Symbol ci \<noteq> [] \<and> pr_Symbol p \<noteq> ci_Symbol ci) \<and>
      symbolFilters (logged nt) cfg (pr_Symbol p) w = (Inr f, w1) \<and> close_quantity amount (ci_ResolvedPercent ci) f (pr_Symbol p) = Inr quantity")
    case True
    then obtain amount f w1 quantity where c: "dec_Parse (pr_PositionAmt p) = Inr amount" "\<not> dec_IsZero amount"
      "\<not> (ci_Symbol ci \<noteq> [] \<and> pr_Symbol p \<noteq> ci_Symbol ci)" "symbolFilters (logged nt) cfg (pr_Symbol p) w = (Inr f, w1)"
      "close_quantity amount (ci_ResolvedPercent ci) f (pr_Symbol p) = Inr quantity"
      by blast
    obtain r2 w2 where o2: "newOrder (logged nt) cfg (close_params (pr_Symbol p) (exit_of_amount amount) quantity k) w1 = (r2, w2)" by fastforce
    have "only_reduces (p # ps) w1 w2"
      using newOrder_reduces [OF o2 c(1) close_quantity_bounds [OF c(5) assms], of ps] by (simp add: only_reduces_def)
    moreover have "only_reduces (p # ps) w2 w'"
    proof (cases r2)
      case (Inl e)
      with Cons.prems c o2 show ?thesis by (simp add: Let_def)
    next
      case (Inr o2')
      then obtain st2 where "close_loop (logged nt) cfg ci k ps st2 w2 = (r, w')"
        using Cons.prems c o2 by (auto simp: Let_def)
      then show ?thesis by (rule only_reduces_Cons [OF Cons.IH])
    qed
    ultimately show ?thesis
      using only_reduces_filters [OF c(4)] only_reduces_trans by blast
  next
    case False
    consider "w' = w" | st where "close_loop (logged nt) cfg ci k ps st w = (r, w')"
      | f where "symbolFilters (logged nt) cfg (pr_Symbol p) w = (f, w')"
      using Cons.prems False by (auto split: if_splits sum.splits prod.splits)
    then show ?thesis
      using only_reduces_Cons [OF Cons.IH] only_reduces_filters by cases auto
  qed
qed simp

lemma risk_logged:
  assumes "positionRisk (logged nt) cfg symbol w = (r, w')"
  obtains q rep where "xlog w' = xlog w @ [(q, rep)]" "hq_Method q = ''GET''" "hq_Path q = ''/fapi/v3/positionRisk''"
    "r = result_of hb_Risks rep"
  using signed_logged [OF assms [unfolded positionRisk_def]] unfolding called_def by metis

lemma called_path: "called q verb path params \<Longrightarrow> hq_Method q = verb \<and> hq_Path q = path"
  by (simp add: called_def)

text \<open>C26. Closing never opens or turns a position: every order a close sends is a reduce-only market order on a
  symbol for which the exchange has just reported a position, on the opposite side of that position and
  for no more than its amount, whatever the exchange answers.\<close>
theorem close_only_reduces:
  assumes "executeClose (logged nt) cfg c w = (r, w')" "i_Close (c_Intent c) = Some ci"
    and "0 \<le> dval (ci_ResolvedPercent ci)" "dval (ci_ResolvedPercent ci) \<le> 100"
  shows "\<exists>q rep rest. xlog w' = xlog w @ (q, rep) # rest \<and> hq_Path q = ''/fapi/v3/positionRisk'' \<and> hq_Method q = ''GET'' \<and>
    (order_log rest \<noteq> [] \<longrightarrow> (\<exists>status body ps. rep = Inr (status, body) \<and> hb_Risks body = Inr ps \<and>
       (\<forall>x\<in>set (order_log rest). reduces ps (fst x))))"
proof -
  obtain r1 w1 where risk: "positionRisk (logged nt) cfg (ci_Symbol ci) w = (r1, w1)" by fastforce
  from risk_logged [OF risk] obtain q rep where
    w1: "xlog w1 = xlog w @ [(q, rep)]" "hq_Method q = ''GET''" "hq_Path q = ''/fapi/v3/positionRisk''" "r1 = result_of hb_Risks rep" .
  show ?thesis
  proof (cases r1)
    case (Inl e)
    with assms(1,2) risk have "w' = w1" by (simp add: executeClose_def andThen_def)
    with w1 show ?thesis by auto
  next
    case (Inr ps)
    obtain r2 w2 where loop: "close_loop (logged nt) cfg ci (binance_clientOrderID (c_ID c) ''close'') ps no_close w1 = (r2, w2)" by fastforce
    have "w' = w2" using assms(1,2) risk Inr loop by (auto simp: executeClose_def andThen_def split: sum.splits)
    moreover obtain rest where "xlog w2 = xlog w1 @ rest" "\<forall>x\<in>set (order_log rest). reduces ps (fst x)"
      using close_loop_reduces [OF assms(3,4) loop] unfolding only_reduces_def by blast
    moreover obtain status body where "rep = Inr (status, body)" "hb_Risks body = Inr ps"
      using result_of_Inr [of hb_Risks rep ps] w1(4) Inr by auto
    ultimately show ?thesis using w1 by auto
  qed
qed

definition script_info :: "string + int \<times> http_body" where
  "script_info = ok_reply (plain_body\<lparr>hb_Info := Inr [\<lparr>sy_Symbol = ''BTCUSDT'', sy_Filters =
     [\<lparr>ef_FilterType = ''PRICE_FILTER'', ef_TickSize = ''0.1'', ef_StepSize = [], ef_MinQty = [], ef_Notional = []\<rparr>,
      \<lparr>ef_FilterType = ''LOT_SIZE'', ef_TickSize = [], ef_StepSize = ''0.01'', ef_MinQty = ''0.01'', ef_Notional = []\<rparr>]\<rparr>]\<rparr>)"

definition script_risk :: "string \<Rightarrow> string + int \<times> http_body" where
  "script_risk amount = ok_reply (plain_body\<lparr>hb_Risks := Inr [\<lparr>pr_Symbol = ''BTCUSDT'', pr_PositionAmt = amount, pr_EntryPrice = ''100'',
     pr_MarkPrice = ''101'', pr_UnrealizedProfit = ''1'', pr_Leverage = ''5'', pr_MarginType = [], pr_PositionSide = []\<rparr>]\<rparr>)"

definition script_close :: close_intent where
  "script_close = \<lparr>ci_Symbol = ''BTCUSDT'', ci_All = False, ci_Percent = dec_NewFromInt 50, ci_HasPercent = True,
     ci_ResolvedPercent = dec_NewFromInt 50, ci_EntryConfirmationID = []\<rparr>"

definition script_confirmation :: "intent \<Rightarrow> confirmation" where
  "script_confirmation i = \<lparr>c_ID = ''c1'', c_UserID = 7, c_Intent = i, c_Status = StatusExecuting, c_CorrelationID = [],
     c_IntentHash = [], c_IdempotencyKey = [], c_CreatedAt = 0, c_ExpiresAt = 9\<rparr>"

definition script_closing :: confirmation where
  "script_closing = script_confirmation (no_intent\<lparr>i_Type := IntentClose, i_Close := Some script_close\<rparr>)"

definition close_script :: "(string + int \<times> http_body) list" where
  "close_script = [script_risk ''-0.5'', script_info, order_reply ''FILLED'' ''0.25'']"

lemma close_script_runs:
  "case executeClose (logged script_net) script_config script_closing (script_world close_script) of
     (Inr _, w) \<Rightarrow> length (order_log (xlog w)) = 1 | _ \<Rightarrow> False"
  by code_simp

theorem close_only_reduces_witness:
  "\<exists>r w' q rep rest. executeClose (logged script_net) script_config script_closing (script_world close_script) = (r, w') \<and>
     length (order_log (xlog w')) = 1 \<and> xlog w' = (q, rep) # rest \<and>
     (order_log rest \<noteq> [] \<longrightarrow> (\<exists>status body ps. rep = Inr (status, body) \<and> hb_Risks body = Inr ps \<and>
        (\<forall>x\<in>set (order_log rest). reduces ps (fst x))))"
proof -
  obtain r w' where run: "executeClose (logged script_net) script_config script_closing (script_world close_script) = (r, w')"
    "length (order_log (xlog w')) = 1"
    using close_script_runs by (auto split: prod.splits sum.splits)
  have "xlog (script_world close_script) = []" by (simp add: xlog_def script_world_def)
  moreover have "i_Close (c_Intent script_closing) = Some script_close"
    by (simp add: script_closing_def script_confirmation_def)
  ultimately show ?thesis
    using close_only_reduces [OF run(1), of script_close] run by (simp add: script_close_def) blast
qed

section \<open>A position is protected or undone\<close>

definition stop_called :: "open_intent \<Rightarrow> string \<Rightarrow> string \<Rightarrow> decimal \<Rightarrow> string \<Rightarrow> http_request \<Rightarrow> bool" where
  "stop_called oi cid kind trigger leg q \<longleftrightarrow> called q ''POST'' ''/fapi/v1/algoOrder''
     (stop_params (oi_Symbol oi) (snd (orderSides (oi_Side oi))) kind trigger (binance_clientOrderID cid leg))"

text \<open>The log of a rollback: the entry order is cancelled, the position is read, and what the exchange
  reports of the symbol is closed with reduce-only orders.\<close>

definition undone :: "string \<Rightarrow> string \<Rightarrow> exchange_log \<Rightarrow> bool" where
  "undone symbol cid l \<longleftrightarrow> (\<exists>c crep g grep rest. l = (c, crep) # (g, grep) # rest \<and>
     called c ''DELETE'' ''/fapi/v1/order'' [(''symbol'', symbol), (''origClientOrderId'', binance_clientOrderID cid ''entry'')] \<and>
     hq_Method g = ''GET'' \<and> hq_Path g = ''/fapi/v3/positionRisk'' \<and>
     (order_log rest \<noteq> [] \<longrightarrow> (\<exists>status body ps. grep = Inr (status, body) \<and> hb_Risks body = Inr ps \<and>
        (\<forall>x\<in>set (order_log rest). reduces ps (fst x)))))"

lemma rollback_logged:
  obtains l where "xlog (rollbackOpen (logged nt) cfg symbol cid False w) = xlog w @ l" "undone symbol cid l"
proof -
  obtain r1 w1 where c: "cancelOrderStatus (logged nt) cfg symbol (binance_clientOrderID cid ''entry'') w = (r1, w1)" by fastforce
  from signed_logged [OF c [unfolded cancelOrderStatus_def]] obtain q rep where
    w1: "xlog w1 = xlog w @ [(q, rep)]"
    and q: "called q ''DELETE'' ''/fapi/v1/order'' [(''symbol'', symbol), (''origClientOrderId'', binance_clientOrderID cid ''entry'')]" .
  obtain r2 w2 where risk: "positionRisk (logged nt) cfg symbol w1 = (r2, w2)" by fastforce
  from risk_logged [OF risk] obtain g grep where
    w2: "xlog w2 = xlog w1 @ [(g, grep)]" "hq_Method g = ''GET''" "hq_Path g = ''/fapi/v3/positionRisk''" "r2 = result_of hb_Risks grep" .
  let ?w = "rollbackOpen (logged nt) cfg symbol cid False w"
  have "\<exists>rest. xlog ?w = xlog w2 @ rest \<and> (order_log rest \<noteq> [] \<longrightarrow> (\<exists>status body ps. grep = Inr (status, body) \<and> hb_Risks body = Inr ps \<and>
        (\<forall>x\<in>set (order_log rest). reduces ps (fst x))))"
  proof (cases r2)
    case (Inl e)
    then have "?w = w2" using c risk by (simp add: rollbackOpen_def flattenPosition_def andThen_def Let_def)
    then show ?thesis by auto
  next
    case (Inr ps)
    obtain r3 w3 where loop: "flatten_loop (logged nt) cfg symbol (binance_clientOrderID cid ''rb'') ps w2 = (r3, w3)" by fastforce
    with c risk Inr have "?w = w3" by (simp add: rollbackOpen_def flattenPosition_def andThen_def Let_def)
    moreover obtain status body where "grep = Inr (status, body)" "hb_Risks body = Inr ps"
      using result_of_Inr [of hb_Risks grep ps] w2(4) Inr by auto
    ultimately show ?thesis using flatten_loop_reduces [OF loop] unfolding only_reduces_def by auto
  qed
  then obtain rest where "xlog ?w = xlog w @ (q, rep) # (g, grep) # rest"
    and "order_log rest \<noteq> [] \<longrightarrow> (\<exists>status body ps. grep = Inr (status, body) \<and> hb_Risks body = Inr ps \<and>
        (\<forall>x\<in>set (order_log rest). reduces ps (fst x)))"
    using w1 w2(1) by auto
  with q w2(2,3) show thesis by (intro that) (auto simp: undone_def)
qed

lemma rollback_stop_logged:
  obtains a arep l where "xlog (rollbackOpen (logged nt) cfg symbol cid True w) = xlog w @ (a, arep) # l"
    "called a ''DELETE'' ''/fapi/v1/algoOrder'' [(''clientAlgoId'', binance_clientOrderID cid ''sl'')]" "undone symbol cid l"
proof -
  obtain r1 w1 where c: "cancelAlgoOrder (logged nt) cfg (binance_clientOrderID cid ''sl'') w = (r1, w1)" by fastforce
  from signed_logged [OF c [unfolded cancelAlgoOrder_def]] obtain a arep where
    a: "xlog w1 = xlog w @ [(a, arep)]" "called a ''DELETE'' ''/fapi/v1/algoOrder'' [(''clientAlgoId'', binance_clientOrderID cid ''sl'')]" .
  have "rollbackOpen (logged nt) cfg symbol cid True w = rollbackOpen (logged nt) cfg symbol cid False w1"
    using c by (simp add: rollbackOpen_def Let_def)
  moreover obtain l where "xlog (rollbackOpen (logged nt) cfg symbol cid False w1) = xlog w1 @ l" "undone symbol cid l"
    using rollback_logged [of nt cfg symbol cid w1] .
  ultimately show thesis using a that by simp
qed

lemma newAlgo_logged:
  assumes "newAlgoOrder (logged nt) cfg params w = (r, w')"
  obtains q rep where "xlog w' = xlog w @ [(q, rep)]" "called q ''POST'' ''/fapi/v1/algoOrder'' params" "r = result_of hb_Algo rep"
  using signed_logged [OF assms [unfolded newAlgoOrder_def]] by metis

text \<open>Neither the setup nor the entry places a stop.\<close>

definition stopless :: "('n \<times> exchange_log) xworld \<Rightarrow> ('n \<times> exchange_log) xworld \<Rightarrow> bool" where
  "stopless w w' \<longleftrightarrow> (\<exists>new. xlog w' = xlog w @ new \<and> (\<forall>x\<in>set new. \<not> is_algo (fst x)))"

lemma stopless_refl [simp]: "stopless w w"
  by (simp add: stopless_def)

lemma stopless_trans: "stopless w w1 \<Longrightarrow> stopless w1 w2 \<Longrightarrow> stopless w w2"
  unfolding stopless_def by fastforce

lemma stopless_quiet: "xlog w' = xlog w @ new \<Longrightarrow> quiet new \<Longrightarrow> stopless w w'"
  by (auto simp: stopless_def quiet_def)

lemma stopless_signed:
  "signedRequest (logged nt) cfg verb path params decode w = (r, w') \<Longrightarrow> path \<noteq> ''/fapi/v1/algoOrder'' \<Longrightarrow> stopless w w'"
  by (erule signed_logged) (auto simp: stopless_def is_algo_called)

lemma stopless_setup:
  assumes "open_setup (logged nt) cfg oi w = (r, w')"
  shows "stopless w w' \<and> (\<forall>p. r = Inr p \<longrightarrow> (\<exists>f. plan_open oi f = Inr p))"
proof -
  obtain rf w1 where f: "symbolFilters (logged nt) cfg (oi_Symbol oi) w = (rf, w1)" by fastforce
  have s1: "stopless w w1" using f by (rule symbolFilters_logged) (rule stopless_quiet)
  obtain rm w2 where m: "changeMarginType (logged nt) cfg (oi_Symbol oi) ''ISOLATED'' w1 = (rm, w2)" by fastforce
  obtain rm' where m': "signedRequest (logged nt) cfg ''POST'' ''/fapi/v1/marginType''
      [(''symbol'', oi_Symbol oi), (''marginType'', ''ISOLATED'')] any_body w1 = (rm', w2)"
    using m unfolding changeMarginType_def by (auto split: sum.splits xerror.splits prod.splits)
  have s2: "stopless w1 w2" using m' by (rule stopless_signed) simp
  obtain rl w3 where l: "changeLeverage (logged nt) cfg (oi_Symbol oi) (oi_Leverage oi) w2 = (rl, w3)" by fastforce
  have s3: "stopless w2 w3" using l unfolding changeLeverage_def by (rule stopless_signed) simp
  have "w' = w1 \<or> w' = w2 \<or> w' = w3"
    using assms f m l by (auto simp: open_setup_def andThen_def split: sum.splits)
  moreover have "\<forall>p. r = Inr p \<longrightarrow> (\<exists>f. plan_open oi f = Inr p)"
    using assms f m l by (auto simp: open_setup_def andThen_def split: sum.splits)
  ultimately show ?thesis using s1 s2 s3 stopless_trans by blast
qed

lemma stopless_entry:
  assumes "makerFirstEntry (logged nt) cfg symbol sd price quantity cid w = Some (r, w')"
  shows "stopless w w'"
proof -
  from maker_entry_log [OF assms] obtain q rep rest where l: "xlog w' = xlog w @ (q, rep) # rest"
    "called q ''POST'' ''/fapi/v1/order'' (limit_params symbol sd price quantity (binance_clientOrderID cid ''entry''))"
    "quiet rest \<or> (\<exists>mid m mrep limit. rest = mid @ [(m, mrep)] \<and> quiet mid \<and> market_sent symbol sd quantity cid limit m)"
    by blast
  have "\<not> is_algo q" using l(2) by (simp add: is_algo_called)
  moreover have "\<forall>x\<in>set rest. \<not> is_algo (fst x)"
    using l(3) by (auto simp: quiet_def market_sent_def is_algo_called)
  ultimately show ?thesis using l(1) by (auto simp: stopless_def)
qed

text \<open>The end of an open: both stops answered, or the rollback after the one that failed.\<close>

definition protected_end :: "open_intent \<Rightarrow> string \<Rightarrow> open_plan \<Rightarrow> (xerror + exec_result) \<Rightarrow> exchange_log \<Rightarrow> bool" where
  "protected_end oi cid p r l \<longleftrightarrow> (\<exists>s srep. stop_called oi cid ''STOP_MARKET'' (op_StopLoss p) ''sl'' s \<and>
     (\<not> isl r \<and> answered srep \<and> (\<exists>t trep. l = [(s, srep), (t, trep)] \<and> answered trep \<and>
        stop_called oi cid ''TAKE_PROFIT_MARKET'' (op_TakeProfit p) ''tp'' t) \<or>
      isl r \<and> (\<exists>undo. l = (s, srep) # undo \<and> undone (oi_Symbol oi) cid undo) \<or>
      isl r \<and> answered srep \<and> (\<exists>t trep a arep undo. l = (s, srep) # (t, trep) # (a, arep) # undo \<and>
        stop_called oi cid ''TAKE_PROFIT_MARKET'' (op_TakeProfit p) ''tp'' t \<and>
        called a ''DELETE'' ''/fapi/v1/algoOrder'' [(''clientAlgoId'', binance_clientOrderID cid ''sl'')] \<and>
        undone (oi_Symbol oi) cid undo)))"

lemma protect_logged:
  assumes "protect_open (logged nt) cfg c oi (op_StopLoss p) (op_TakeProfit p) (op_Quantity p) entryOrder w = (r, w')"
  shows "\<exists>l. xlog w' = xlog w @ l \<and> protected_end oi (c_ID c) p r l"
proof -
  let ?sp = "stop_params (oi_Symbol oi) (snd (orderSides (oi_Side oi)))"
  obtain r1 w1 where sl: "newAlgoOrder (logged nt) cfg (?sp ''STOP_MARKET'' (op_StopLoss p) (binance_clientOrderID (c_ID c) ''sl'')) w = (r1, w1)"
    by fastforce
  from newAlgo_logged [OF sl] obtain s srep where
    w1: "xlog w1 = xlog w @ [(s, srep)]" and s: "stop_called oi (c_ID c) ''STOP_MARKET'' (op_StopLoss p) ''sl'' s"
    and r1: "r1 = result_of hb_Algo srep" unfolding stop_called_def .
  show ?thesis
  proof (cases r1)
    case (Inl e)
    obtain l where "xlog (rollbackOpen (logged nt) cfg (oi_Symbol oi) (c_ID c) False w1) = xlog w1 @ l" "undone (oi_Symbol oi) (c_ID c) l"
      using rollback_logged .
    moreover have "isl r" "w' = rollbackOpen (logged nt) cfg (oi_Symbol oi) (c_ID c) False w1"
      using assms sl Inl by (auto simp: protect_open_def Let_def)
    ultimately show ?thesis using w1 s by (auto simp: protected_end_def)
  next
    case (Inr stopOrder)
    have ans: "answered srep" using result_of_Inr [of hb_Algo srep stopOrder] r1 Inr by simp
    obtain r2 w2 where tp: "newAlgoOrder (logged nt) cfg (?sp ''TAKE_PROFIT_MARKET'' (op_TakeProfit p) (binance_clientOrderID (c_ID c) ''tp'')) w1 = (r2, w2)"
      by fastforce
    from newAlgo_logged [OF tp] obtain t trep where
      w2: "xlog w2 = xlog w1 @ [(t, trep)]" and t: "stop_called oi (c_ID c) ''TAKE_PROFIT_MARKET'' (op_TakeProfit p) ''tp'' t"
      and r2: "r2 = result_of hb_Algo trep" unfolding stop_called_def .
    show ?thesis
    proof (cases r2)
      case (Inl e)
      obtain a arep l where "xlog (rollbackOpen (logged nt) cfg (oi_Symbol oi) (c_ID c) True w2) = xlog w2 @ (a, arep) # l"
        "called a ''DELETE'' ''/fapi/v1/algoOrder'' [(''clientAlgoId'', binance_clientOrderID (c_ID c) ''sl'')]" "undone (oi_Symbol oi) (c_ID c) l"
        using rollback_stop_logged .
      moreover have "isl r" "w' = rollbackOpen (logged nt) cfg (oi_Symbol oi) (c_ID c) True w2"
        using assms sl Inr tp Inl by (auto simp: protect_open_def Let_def)
      ultimately show ?thesis using w1 w2 s t ans by (auto simp: protected_end_def)
    next
      case (Inr tpOrder)
      have "answered trep" using result_of_Inr [of hb_Algo trep tpOrder] r2 Inr by simp
      moreover have "\<not> isl r" "w' = w2"
        using assms sl \<open>r1 = Inr stopOrder\<close> tp Inr by (auto simp: protect_open_def Let_def)
      ultimately show ?thesis using w1 w2 s t ans by (auto simp: protected_end_def)
    qed
  qed
qed


definition script_open :: open_intent where
  "script_open = \<lparr>oi_Symbol = ''BTCUSDT'', oi_Side = SideLong, oi_Leverage = 5, oi_Entry = dec_NewFromInt 100, oi_StopLoss = dec_NewFromInt 90,
     oi_TakeProfits = [dec_NewFromInt 120], oi_Size = \<lparr>os_Kind = SizeQty, os_Amount = dec_NewFromInt 1\<rparr>, oi_PlanID = [], oi_Strategy = [],
     oi_Models = [], oi_Reason = [], oi_Confidence = 0, oi_CampaignID = []\<rparr>"

definition script_opening :: confirmation where
  "script_opening = script_confirmation (no_intent\<lparr>i_Type := IntentOpen, i_Open := Some script_open\<rparr>)"

text \<open>The take profit is refused; the rollback finds the filled entry and closes it.\<close>

definition open_script :: "(string + int \<times> http_body) list" where
  "open_script = [script_info, ok_reply plain_body, ok_reply plain_body, order_reply ''NEW'' [], order_reply ''FILLED'' ''1'',
     ok_reply plain_body, Inr (400, plain_body), ok_reply plain_body, ok_reply plain_body, script_risk ''1'', order_reply ''FILLED'' ''1'']"

lemma open_script_runs:
  "case executeOpen (logged script_net) script_config script_opening (script_world open_script) of
     Some (Inl _, w) \<Rightarrow> length (xlog w) = 11 \<and> length (order_log (xlog w)) = 2 | _ \<Rightarrow> False"
  by code_simp


section \<open>An entry that is given up\<close>

text \<open>C25. When the exchange has accepted the resting entry but the first look at its status fails, the open is given up
  with a single cancellation: whatever part of the order was filled stays open, without a stop, and the
  position is neither read nor closed.\<close>
theorem failed_poll_leaves_entry:
  assumes "i_Open (c_Intent c) = Some oi" "oi_TakeProfits oi \<noteq> []" "open_setup (logged nt) cfg oi w = (Inr p, w1)"
    and "newOrder (logged nt) cfg (limit_params (oi_Symbol oi) (fst (orderSides (oi_Side oi))) (op_Entry p) (op_Quantity p)
           (binance_clientOrderID (c_ID c) ''entry'')) w1 = (Inr resp, w2)"
    and "queryOrder (logged nt) cfg (oi_Symbol oi) (binance_clientOrderID (c_ID c) ''entry'') w2 = (Inl e, w3)"
  shows "\<exists>w' a arep. executeOpen (logged nt) cfg c w = Some (Inl (wrap_err ''place entry order'' e), w') \<and>
    xlog w' = xlog w3 @ [(a, arep)] \<and> hq_Method a = ''DELETE'' \<and> hq_Path a = ''/fapi/v1/order'' \<and> quiet [(a, arep)]"
proof -
  let ?k = "binance_clientOrderID (c_ID c) ''entry''"
  obtain r w' where cancel: "cancelOrderStatus (logged nt) cfg (oi_Symbol oi) ?k w3 = (r, w')" by fastforce
  from signed_logged [OF cancel [unfolded cancelOrderStatus_def]] obtain a arep where
    a: "xlog w' = xlog w3 @ [(a, arep)]" "called a ''DELETE'' ''/fapi/v1/order'' [(''symbol'', oi_Symbol oi), (''origClientOrderId'', ?k)]" .
  have "poll_entry (logged nt) cfg (oi_Symbol oi) ?k d w2 = Some (Inl e, w')" for d
    using assms(5) cancel by (simp add: poll_entry.simps [of "logged nt" cfg _ _ d w2])
  then have "executeOpen (logged nt) cfg c w = Some (Inl (wrap_err ''place entry order'' e), w')"
    using assms by (simp add: executeOpen_def makerFirstEntry_def Let_def)
  moreover have "quiet [(a, arep)]" using quiet_called [OF a(2)] by simp
  ultimately show ?thesis using a called_path [OF a(2)] by blast
qed

text \<open>The exchange fills 0.4 of the order before the poll fails.\<close>

definition poll_script :: "(string + int \<times> http_body) list" where
  "poll_script = [script_info, ok_reply plain_body, ok_reply plain_body, order_reply ''PARTIALLY_FILLED'' ''0.4'', Inl ''timeout'', order_reply ''CANCELED'' ''0.4'']"

definition poll_world :: "((int \<times> (string + int \<times> http_body) list) \<times> exchange_log) xworld" where
  "poll_world = snd (open_setup (logged script_net) script_config script_open (script_world poll_script))"

definition poll_plan :: open_plan where
  "poll_plan = \<lparr>op_Entry = dec_NewFromInt 100, op_StopLoss = dec_NewFromInt 90, op_TakeProfit = dec_NewFromInt 120, op_Quantity = dec_NewFromInt 1\<rparr>"

lemma poll_script_runs:
  "fst (open_setup (logged script_net) script_config script_open (script_world poll_script)) = Inr poll_plan"
  "case newOrder (logged script_net) script_config (limit_params ''BTCUSDT'' ''BUY'' (dec_NewFromInt 100) (dec_NewFromInt 1) ''tb_c1_entry'') poll_world of
     (Inr _, w2) \<Rightarrow> (case queryOrder (logged script_net) script_config ''BTCUSDT'' ''tb_c1_entry'' w2 of (Inl _, w3) \<Rightarrow> length (xlog w3) = 5 | _ \<Rightarrow> False) | _ \<Rightarrow> False"
  by code_simp+

theorem failed_poll_leaves_entry_witness:
  "\<exists>w' e. executeOpen (logged script_net) script_config script_opening (script_world poll_script) = Some (Inl e, w') \<and> length (xlog w') = 6"
proof -
  let ?net = "logged script_net" and ?k = "binance_clientOrderID (c_ID script_opening) ''entry''"
  have c: "i_Open (c_Intent script_opening) = Some script_open" "oi_TakeProfits script_open \<noteq> []" "oi_Symbol script_open = ''BTCUSDT''"
    "fst (orderSides (oi_Side script_open)) = ''BUY''" "?k = ''tb_c1_entry''"
    by (simp_all add: script_opening_def script_confirmation_def script_open_def orderSides_def SideLong_def SideShort_def binance_clientOrderID_def)
  have pre: "open_setup ?net script_config script_open (script_world poll_script) = (Inr poll_plan, poll_world)"
    using poll_script_runs(1) unfolding poll_world_def by (metis prod.collapse)
  obtain resp w2 e w3 where run: "newOrder ?net script_config (limit_params (oi_Symbol script_open) (fst (orderSides (oi_Side script_open)))
      (op_Entry poll_plan) (op_Quantity poll_plan) ?k) poll_world = (Inr resp, w2)"
    "queryOrder ?net script_config (oi_Symbol script_open) ?k w2 = (Inl e, w3)" "length (xlog w3) = 5"
    using poll_script_runs(2) unfolding c by (auto simp: poll_plan_def split: prod.splits sum.splits)
  from failed_poll_leaves_entry [OF c(1,2) pre run(1,2)] run(3) show ?thesis by auto
qed

end
