(* ===== verification/Binance_Results.thy ===== *)
theory Binance_Results
  imports Binance_Trace "HOL-Library.Sublist"
begin

text \<open>
  What the Binance executor answers: nothing happens while a gate is shut, the quantities and prices of
  an open are the intent's rounded down to the exchange's steps, an entry that stays unfilled comes to
  an end, and a realized trade accounts for exactly the entry quantity.
\<close>

section \<open>The gates\<close>

text \<open>With real trading switched on, without the testnet flag, or without both keys, no operation of the
  executor sends a request: each answers with an error and leaves the exchange and the executor as they were.\<close>
theorem executor_testnet_only:
  assumes "xc_RealTradingEnabled cfg \<or> \<not> xc_Testnet cfg \<or> trim_space (xc_APIKey cfg) = [] \<or> trim_space (xc_APISecret cfg) = []"
  shows "(\<exists>e. executor_Execute nt cfg c w = Some (Inl e, w)) \<and> (\<exists>e. executor_Positions nt cfg w = (Inl e, w)) \<and>
    (\<exists>e. executor_RealizedTrade nt cfg symbol sd since qty w = (Inl e, w)) \<and>
    (\<exists>e. executor_CurrentStop nt cfg symbol w = (Inl e, w)) \<and>
    (\<exists>e. executor_MoveStopLoss nt cfg symbol sd stop old new w = (Inl e, w))"
proof -
  have "\<exists>e. validateConfig cfg = Some e" using assms by (auto simp: validateConfig_def)
  then show ?thesis
    by (auto simp: executor_Execute_def executor_Positions_def executor_RealizedTrade_def executor_CurrentStop_def
        executor_MoveStopLoss_def)
qed

theorem executor_testnet_only_witness:
  "\<exists>e. executor_Execute (logged script_net) (script_config\<lparr>xc_Testnet := False\<rparr>) script_opening (script_world open_script)
     = Some (Inl e, script_world open_script)"
  using executor_testnet_only [where cfg = "script_config\<lparr>xc_Testnet := False\<rparr>" and nt = "logged script_net"
      and c = script_opening and w = "script_world open_script"] by simp

section \<open>The plan of an open\<close>

definition multiple_of :: "decimal \<Rightarrow> decimal \<Rightarrow> bool" where
  "multiple_of d step \<longleftrightarrow> (\<exists>k::int. dval d = of_int k * dval step)"

lemma floor_step:
  assumes "dec_FloorToStep d step = Inr r"
  shows "multiple_of r step" "0 \<le> dval r" "dval r \<le> dval d" "dval d < dval r + dval step" "0 < dval step"
  using dec_FloorToStep_Inr [OF assms] dec_FloorToStep_bounds [OF assms] by (auto simp: multiple_of_def)

text \<open>The prices of an open are the intent's, rounded down to the tick by less than one tick; its quantity is a
  positive multiple of the lot step, not below the exchange's minimum, not above what the user asked for,
  and a size in USDT is never exceeded at the rounded entry price.\<close>
theorem open_plan_bounds:
  assumes "plan_open oi f = Inr p"
  shows "multiple_of (op_Entry p) (sf_TickSize f) \<and> dval (op_Entry p) \<le> dval (oi_Entry oi) \<and> dval (oi_Entry oi) < dval (op_Entry p) + dval (sf_TickSize f) \<and>
    multiple_of (op_StopLoss p) (sf_TickSize f) \<and> dval (op_StopLoss p) \<le> dval (oi_StopLoss oi) \<and>
    multiple_of (op_TakeProfit p) (sf_TickSize f) \<and> dval (op_TakeProfit p) \<le> dval (hd (oi_TakeProfits oi)) \<and>
    multiple_of (op_Quantity p) (sf_StepSize f) \<and> 0 < dval (op_Quantity p) \<and> dval (sf_MinQty f) \<le> dval (op_Quantity p) \<and>
    (os_Kind (oi_Size oi) = SizeQty \<longrightarrow> dval (op_Quantity p) \<le> dval (os_Amount (oi_Size oi))) \<and>
    (os_Kind (oi_Size oi) = SizeUSDT \<longrightarrow> dval (op_Quantity p) * dval (op_Entry p) \<le> dval (os_Amount (oi_Size oi))) \<and>
    (0 < dval (sf_MinNotional f) \<longrightarrow> dval (sf_MinNotional f) \<le> dval (op_Quantity p) * dval (op_Entry p))"
proof -
  from assms have fl: "dec_FloorToStep (oi_Entry oi) (sf_TickSize f) = Inr (op_Entry p)"
    "dec_FloorToStep (oi_StopLoss oi) (sf_TickSize f) = Inr (op_StopLoss p)"
    "dec_FloorToStep (hd (oi_TakeProfits oi)) (sf_TickSize f) = Inr (op_TakeProfit p)"
    and q: "openQuantity oi (op_Entry p) f = Inr (op_Quantity p)"
    and v: "validateQuantityAndNotional (op_Quantity p) (op_Entry p) f = None"
    by (auto simp: plan_open_def or_fail_def split: option.splits)
  have ok: "0 < dval (op_Quantity p)" "dval (sf_MinQty f) \<le> dval (op_Quantity p)"
    "0 < dval (sf_MinNotional f) \<longrightarrow> dval (sf_MinNotional f) \<le> dval (op_Quantity p) * dval (op_Entry p)"
    and size: "\<exists>d. dec_FloorToStep d (sf_StepSize f) = Inr (op_Quantity p) \<and>
      (os_Kind (oi_Size oi) = SizeQty \<longrightarrow> d = os_Amount (oi_Size oi)) \<and>
      (os_Kind (oi_Size oi) = SizeUSDT \<longrightarrow> dec_QuoFloor (os_Amount (oi_Size oi)) (op_Entry p) 16 = Inr d)"
  proof -
    show size: "\<exists>d. dec_FloorToStep d (sf_StepSize f) = Inr (op_Quantity p) \<and>
      (os_Kind (oi_Size oi) = SizeQty \<longrightarrow> d = os_Amount (oi_Size oi)) \<and>
      (os_Kind (oi_Size oi) = SizeUSDT \<longrightarrow> dec_QuoFloor (os_Amount (oi_Size oi)) (op_Entry p) 16 = Inr d)"
      using q by (auto simp: openQuantity_def or_fail_def split: size_kind.splits)
    then have "0 \<le> dval (op_Quantity p)" using floor_step by blast
    with v show "0 < dval (op_Quantity p)" "dval (sf_MinQty f) \<le> dval (op_Quantity p)"
      "0 < dval (sf_MinNotional f) \<longrightarrow> dval (sf_MinNotional f) \<le> dval (op_Quantity p) * dval (op_Entry p)"
      by (auto simp: validateQuantityAndNotional_def Let_def dec_simps split: if_splits)
  qed
  then obtain d where d: "dec_FloorToStep d (sf_StepSize f) = Inr (op_Quantity p)"
    "os_Kind (oi_Size oi) = SizeQty \<Longrightarrow> d = os_Amount (oi_Size oi)"
    "os_Kind (oi_Size oi) = SizeUSDT \<Longrightarrow> dec_QuoFloor (os_Amount (oi_Size oi)) (op_Entry p) 16 = Inr d" by blast
  have usdt: "dval (op_Quantity p) * dval (op_Entry p) \<le> dval (os_Amount (oi_Size oi))" if "os_Kind (oi_Size oi) = SizeUSDT"
  proof -
    note dq = d(3) [OF that]
    have e: "0 < dval (op_Entry p)" using floor_step(2) [OF fl(1)] dec_QuoFloor_Inr(1) [OF dq] by simp
    have "0 < dval d" using floor_step(3) [OF d(1)] ok(1) by simp
    have a: "0 \<le> dval (os_Amount (oi_Size oi))"
    proof (rule ccontr)
      assume "\<not> 0 \<le> dval (os_Amount (oi_Size oi))"
      then have "dval (os_Amount (oi_Size oi)) / dval (op_Entry p) * 10 ^ nat 16 \<le> 0"
        using e by (simp add: divide_nonpos_pos mult_nonpos_nonneg)
      from trunc_sign(2) [OF this] have "dval d \<le> 0"
        unfolding dec_QuoFloor_Inr(4) [OF dq] by (intro divide_nonpos_pos) simp_all
      with \<open>0 < dval d\<close> show False by simp
    qed
    have "dval (op_Quantity p) \<le> dval (os_Amount (oi_Size oi)) / dval (op_Entry p)"
      using floor_step(3) [OF d(1)] dec_QuoFloor_bounds(2) [OF dq a e] by simp
    with e show ?thesis by (simp add: field_simps)
  qed
  show ?thesis
    using floor_step [OF fl(1)] floor_step [OF fl(2)] floor_step [OF fl(3)] floor_step [OF d(1)] ok d(2) usdt by auto
qed

definition script_filters :: symbol_filters where
  "script_filters = \<lparr>sf_TickSize = \<lparr>d_value = Some 1, d_scale = 1\<rparr>, sf_StepSize = \<lparr>d_value = Some 1, d_scale = 2\<rparr>,
     sf_MinQty = \<lparr>d_value = Some 1, d_scale = 2\<rparr>, sf_MinNotional = dec_NewFromInt 5\<rparr>"

definition script_usdt :: open_intent where
  "script_usdt = script_open\<lparr>oi_Entry := \<lparr>d_value = Some 9999, d_scale = 2\<rparr>, oi_Size := \<lparr>os_Kind = SizeUSDT, os_Amount = dec_NewFromInt 10\<rparr>\<rparr>"

theorem open_plan_bounds_witness:
  "\<exists>p. plan_open script_usdt script_filters = Inr p \<and> multiple_of (op_Quantity p) (sf_StepSize script_filters) \<and>
     0 < dval (op_Quantity p) \<and> dval (op_Quantity p) * dval (op_Entry p) \<le> 10"
proof -
  have "case plan_open script_usdt script_filters of Inr p \<Rightarrow> True | Inl _ \<Rightarrow> False" by code_simp
  then obtain p where "plan_open script_usdt script_filters = Inr p" by (auto split: sum.splits)
  with open_plan_bounds [OF this] show ?thesis by (simp add: script_usdt_def)
qed

section \<open>The entry comes to an end\<close>

text \<open>
  The poll waits for a deadline, so it ends when the clock moves: each pause takes time and no request
  takes the clock back. The measure is the number of pauses until the deadline.
\<close>

definition clock_runs :: "'n net \<Rightarrow> duration \<Rightarrow> bool" where
  "clock_runs nt step \<longleftrightarrow> 0 < step \<and> (\<forall>n. nt_Now nt n + step \<le> nt_Now nt (snd (nt_Pause nt n))) \<and>
     (\<forall>q n. nt_Now nt n \<le> nt_Now nt (snd (nt_Do nt q n)))"

lemma http_do_clock:
  assumes "clock_runs nt step" "http_do nt q decode w = (r, w')"
  shows "nt_Now nt (xw_Net w) \<le> nt_Now nt (xw_Net w')"
proof -
  obtain rep n where d: "nt_Do nt q (xw_Net w) = (rep, n)" by fastforce
  then have "nt_Now nt (xw_Net w) \<le> nt_Now nt n" using assms(1) unfolding clock_runs_def by (metis snd_conv)
  with http_do_result [OF d, of decode] assms(2) show ?thesis by auto
qed

lemma poll_ends:
  assumes clock: "clock_runs nt step"
  shows "\<exists>x. poll_entry nt cfg symbol k deadline w = Some x"
proof (induction "nat ((deadline - nt_Now nt (xw_Net w)) div step + 1)" arbitrary: w rule: less_induct)
  case less
  obtain r w1 where q: "queryOrder nt cfg symbol k w = (r, w1)" by fastforce
  have mono: "nt_Now nt (xw_Net w) \<le> nt_Now nt (xw_Net w1)"
    using http_do_clock [OF clock] q unfolding queryOrder_def signedRequest_def Let_def by blast
  obtain e n where p: "nt_Pause nt (xw_Net w1) = (e, n)" by fastforce
  have later: "nt_Now nt (xw_Net w1) + step \<le> nt_Now nt n" and step: "0 < step"
    using clock p unfolding clock_runs_def by (metis snd_conv)+
  consider e2 where "r = Inl e2" | st where "r = Inr st" "or_Status st = ''FILLED'' \<or> nt_Now nt (xw_Net w1) > deadline \<or> e \<noteq> None"
    | st where "r = Inr st" "or_Status st \<noteq> ''FILLED''" "nt_Now nt (xw_Net w1) \<le> deadline" "e = None"
    using not_le by (cases r) blast+
  then show ?case
  proof cases
    case 1
    then show ?thesis using q by (auto simp: poll_entry.simps [of nt cfg symbol k deadline w])
  next
    case 2
    then show ?thesis using q p by (auto simp: poll_entry.simps [of nt cfg symbol k deadline w])
  next
    case 3
    have "(deadline - nt_Now nt n) div step \<le> (deadline - nt_Now nt (xw_Net w) - step) div step"
      using mono later step by (intro zdiv_mono1) auto
    also have "\<dots> = (deadline - nt_Now nt (xw_Net w)) div step - 1"
      using step div_mult_self1 [of step "deadline - nt_Now nt (xw_Net w)" "- 1"] by simp
    finally have fewer: "(deadline - nt_Now nt n) div step + 1 < (deadline - nt_Now nt (xw_Net w)) div step + 1" by simp
    have "0 \<le> (deadline - nt_Now nt (xw_Net w)) div step"
      using 3 mono step by (simp add: pos_imp_zdiv_nonneg_iff)
    with fewer have "nat ((deadline - nt_Now nt (xw_Net (w1\<lparr>xw_Net := n\<rparr>))) div step + 1)
        < nat ((deadline - nt_Now nt (xw_Net w)) div step + 1)" by simp
    from less [OF this] obtain x where "poll_entry nt cfg symbol k deadline (w1\<lparr>xw_Net := n\<rparr>) = Some x" ..
    then show ?thesis using q p 3 by (auto simp: poll_entry.simps [of nt cfg symbol k deadline w])
  qed
qed

text \<open>C27. Executing a confirmation always comes back with a result or an error, whatever the exchange answers to
  the polls of a resting entry, if every pause between two polls lets some time pass.\<close>
theorem execute_returns:
  assumes "clock_runs nt step"
  shows "\<exists>r w'. executor_Execute nt cfg c w = Some (r, w')"
proof -
  have entry: "\<exists>x. makerFirstEntry nt cfg symbol sd price quantity cid v = Some x" for symbol sd price quantity cid v
    using poll_ends [OF assms] by (auto simp: makerFirstEntry_def Let_def split: prod.split sum.split xerror.split poll_end.split option.split)
      (metis option.distinct(1))+
  have "\<exists>x. executeOpen nt cfg c w = Some x"
    using entry by (auto simp: executeOpen_def split: prod.split sum.split option.split) (metis option.distinct(1))+
  then show ?thesis
    by (auto simp: executor_Execute_def split: option.split intent_type.split)
qed

theorem execute_returns_witness:
  "clock_runs script_net (seconds 3) \<and> (\<exists>r w'. executor_Execute script_net script_config script_opening
     \<lparr>xw_Filters = (\<lambda>_. None), xw_Refreshed = 0, xw_Net = (0, open_script)\<rparr> = Some (r, w'))"
proof -
  have "clock_runs script_net (seconds 3)"
    by (auto simp: clock_runs_def script_net_def split: list.split)
  with execute_returns [OF this] show ?thesis by blast
qed

section \<open>Realized trades\<close>

text \<open>Trimming and lowering a text twice changes nothing more.\<close>

definition clean_ends :: "string \<Rightarrow> bool" where
  "clean_ends s \<longleftrightarrow> (s \<noteq> [] \<longrightarrow> \<not> is_space (hd s) \<and> \<not> is_space (last s))"

lemma trim_space_clean: "clean_ends s \<Longrightarrow> trim_space s = s"
proof -
  have keep: "dropWhile is_space t = t" if "t \<noteq> [] \<Longrightarrow> \<not> is_space (hd t)" for t
    using that by (cases t) auto
  assume "clean_ends s"
  then show ?thesis
    using keep [of s] keep [of "rev s"] by (simp add: clean_ends_def trim_space_def trim_left_def hd_rev)
qed

lemma clean_trim_space: "clean_ends (trim_space s)"
proof -
  define t where "t = dropWhile is_space s"
  define u where "u = dropWhile is_space (rev t)"
  have "clean_ends (rev u)"
  proof (cases "u = []")
    case False
    then have "\<not> is_space (hd u)" unfolding u_def by (rule hd_dropWhile)
    moreover obtain v where v: "rev t = v @ u" unfolding u_def by (metis takeWhile_dropWhile_id)
    then have t: "t = rev u @ rev v" by (metis rev_append rev_rev_ident)
    with False have "hd t = last u" by (simp add: hd_rev)
    moreover have "\<not> is_space (hd t)" using t False unfolding t_def by (intro hd_dropWhile) auto
    ultimately show ?thesis using False by (simp add: clean_ends_def hd_rev last_rev)
  qed (simp add: clean_ends_def)
  then show ?thesis by (simp add: trim_space_def trim_left_def t_def u_def)
qed

lemma is_space_lower [simp]: "is_space (lower_char c) = is_space c"
proof (cases "is_upper c")
  case True
  then have "code (char_of (code c + 32)) = code c + 32" by (intro code_char_of) (simp add: is_upper_def)
  with True show ?thesis by (simp add: lower_char_def is_upper_def is_space_def)
qed (simp add: lower_char_def)

lemma trim_lower_trim [simp]: "trim_space (to_lower (trim_space s)) = to_lower (trim_space s)"
  using clean_trim_space [of s] by (intro trim_space_clean) (auto simp: clean_ends_def to_lower_def hd_map last_map)

text \<open>A fill of the exit side and what of it is accounted: its price, and the quantity, profit and commission taken.\<close>

record accounted =
  ac_Price :: rat
  ac_Qty :: rat
  ac_PnL :: rat
  ac_Commission :: rat

definition accounts :: "string \<Rightarrow> string \<Rightarrow> user_trade \<Rightarrow> accounted \<Rightarrow> bool" where
  "accounts symbol exitSide t a \<longleftrightarrow> equal_fold (ut_Symbol t) symbol \<and> equal_fold (ut_Side t) exitSide \<and>
     (\<exists>qty price pnl commission. exit_fill symbol t = Inr (Some (qty, price, pnl, commission)) \<and> ac_Price a = dval price \<and>
        0 < ac_Qty a \<and>
        (ac_Qty a = dval qty \<and> ac_PnL a = dval pnl \<and> ac_Commission a = dval commission \<or>
         ac_Qty a < dval qty \<and> (\<exists>ratio. ratio \<le> ac_Qty a / dval qty \<and> ac_Qty a / dval qty < ratio + 1 / 10 ^ 16 \<and>
           ac_PnL a = dval pnl * ratio \<and> ac_Commission a = dval commission * ratio)))"

definition exit_quantity :: "string \<Rightarrow> string \<Rightarrow> user_trade \<Rightarrow> rat" where
  "exit_quantity symbol exitSide t =
     (if equal_fold (ut_Symbol t) symbol \<and> equal_fold (ut_Side t) exitSide
      then (case exit_fill symbol t of Inr (Some (qty, _)) \<Rightarrow> dval qty | _ \<Rightarrow> 0) else 0)"

lemma exit_fill_positive: "exit_fill symbol t = Inr (Some (qty, price, pnl, commission)) \<Longrightarrow> 0 < dval qty \<and> 0 < dval price \<and> 0 \<le> dval commission"
  by (auto simp: exit_fill_def or_fail_def dec_simps split: if_splits)

lemma take_fill_accounts:
  assumes "take_fill symbol t (qty, price, pnl, commission) st = Inr st'" "0 < dval (rs_Remaining st)"
    and fill: "exit_fill symbol t = Inr (Some (qty, price, pnl, commission))"
    and side: "equal_fold (ut_Symbol t) symbol" "equal_fold (ut_Side t) exitSide"
  obtains a where "accounts symbol exitSide t a" "0 \<le> dval (rs_Remaining st')"
    "dval (rs_Remaining st) = dval (rs_Remaining st') + ac_Qty a" "dval (rs_Qty st') = dval (rs_Qty st) + ac_Qty a"
    "dval (rs_Notional st') = dval (rs_Notional st) + ac_Price a * ac_Qty a"
    "dval (rs_Net st') = dval (rs_Net st) + (ac_PnL a - ac_Commission a)"
    "0 < dval (rs_Remaining st') \<Longrightarrow> ac_Qty a = dval qty"
proof (cases "dval qty > dval (rs_Remaining st)")
  case True
  with assms(1) obtain ratio where r: "dec_QuoFloor (rs_Remaining st) qty 16 = Inr ratio"
    and st': "st' = \<lparr>rs_Net = dec_Sub (dec_Add (rs_Net st) (dec_Mul pnl ratio)) (dec_Mul commission ratio),
      rs_Qty = dec_Add (rs_Qty st) (rs_Remaining st), rs_Notional = dec_Add (rs_Notional st) (dec_Mul price (rs_Remaining st)),
      rs_Remaining = dec_Sub (rs_Remaining st) (rs_Remaining st), rs_ClosedAt = unixMillis (ut_Time t)\<rparr>"
    by (auto simp: take_fill_def or_fail_def dec_simps)
  have b: "dval ratio \<le> dval (rs_Remaining st) / dval qty" "dval (rs_Remaining st) / dval qty < dval ratio + 1 / 10 ^ 16"
    using dec_QuoFloor_bounds [OF r] True assms(2) by simp_all
  show ?thesis
    by (rule that [of "\<lparr>ac_Price = dval price, ac_Qty = dval (rs_Remaining st), ac_PnL = dval pnl * dval ratio,
        ac_Commission = dval commission * dval ratio\<rparr>"])
      (use b fill side assms(2) True in \<open>auto simp: st' dec_simps accounts_def\<close>)
next
  case False
  with assms(1) have st': "st' = \<lparr>rs_Net = dec_Sub (dec_Add (rs_Net st) pnl) commission, rs_Qty = dec_Add (rs_Qty st) qty,
      rs_Notional = dec_Add (rs_Notional st) (dec_Mul price qty), rs_Remaining = dec_Sub (rs_Remaining st) qty,
      rs_ClosedAt = unixMillis (ut_Time t)\<rparr>"
    by (auto simp: take_fill_def dec_simps)
  show ?thesis
    by (rule that [of "\<lparr>ac_Price = dval price, ac_Qty = dval qty, ac_PnL = dval pnl, ac_Commission = dval commission\<rparr>"])
      (use exit_fill_positive [OF fill] fill side False in \<open>auto simp: st' dec_simps accounts_def\<close>)
qed

definition accounted_from :: "string \<Rightarrow> string \<Rightarrow> user_trade list \<Rightarrow> realized_state \<Rightarrow> realized_state \<Rightarrow> accounted list \<Rightarrow> bool" where
  "accounted_from symbol exitSide ts st st' as \<longleftrightarrow>
     (\<exists>us. subseq us ts \<and> list_all2 (accounts symbol exitSide) us as) \<and> 0 \<le> dval (rs_Remaining st') \<and>
     dval (rs_Remaining st) = dval (rs_Remaining st') + sum_list (map ac_Qty as) \<and>
     dval (rs_Qty st') = dval (rs_Qty st) + sum_list (map ac_Qty as) \<and>
     dval (rs_Notional st') = dval (rs_Notional st) + (\<Sum>a\<leftarrow>as. ac_Price a * ac_Qty a) \<and>
     dval (rs_Net st') = dval (rs_Net st) + (\<Sum>a\<leftarrow>as. ac_PnL a - ac_Commission a) \<and>
     (0 < dval (rs_Remaining st') \<longrightarrow> (\<Sum>t\<leftarrow>ts. exit_quantity symbol exitSide t) = sum_list (map ac_Qty as))"

lemma realized_loop_accounts:
  "realized_loop symbol exitSide ts st = Inr st' \<Longrightarrow> 0 < dval (rs_Remaining st) \<Longrightarrow>
     \<exists>as. accounted_from symbol exitSide ts st st' as"
proof (induction ts arbitrary: st)
  case Nil
  then show ?case by (intro exI [of _ "[]"]) (auto simp: accounted_from_def)
next
  case (Cons t ts)
  have skip: ?case if "realized_loop symbol exitSide ts st = Inr st'" "exit_quantity symbol exitSide t = 0"
  proof -
    from Cons.IH [OF that(1) Cons.prems(2)] obtain as where "accounted_from symbol exitSide ts st st' as" ..
    then have "accounted_from symbol exitSide (t # ts) st st' as"
      using that(2) unfolding accounted_from_def by (auto intro: list_emb_Cons)
    then show ?case ..
  qed
  show ?case
  proof (cases "equal_fold (ut_Symbol t) symbol \<and> equal_fold (ut_Side t) exitSide")
    case False
    with Cons.prems(1) show ?thesis by (intro skip) (auto simp: exit_quantity_def)
  next
    case True
    then obtain x where x: "exit_fill symbol t = Inr x" using Cons.prems(1) by auto
    show ?thesis
    proof (cases x)
      case None
      with True x Cons.prems(1) show ?thesis by (intro skip) (auto simp: exit_quantity_def)
    next
      case (Some y)
      obtain qty price pnl commission where y: "y = (qty, price, pnl, commission)" by (cases y)
      obtain st1 where st1: "take_fill symbol t y st = Inr st1"
        "(if \<not> dec_IsPositive (rs_Remaining st1) then Inr st1 else realized_loop symbol exitSide ts st1) = Inr st'"
        using Cons.prems(1) True x Some by auto
      obtain a where a: "accounts symbol exitSide t a" "0 \<le> dval (rs_Remaining st1)"
        "dval (rs_Remaining st) = dval (rs_Remaining st1) + ac_Qty a" "dval (rs_Qty st1) = dval (rs_Qty st) + ac_Qty a"
        "dval (rs_Notional st1) = dval (rs_Notional st) + ac_Price a * ac_Qty a"
        "dval (rs_Net st1) = dval (rs_Net st) + (ac_PnL a - ac_Commission a)"
        "0 < dval (rs_Remaining st1) \<Longrightarrow> ac_Qty a = dval qty"
        using take_fill_accounts [OF st1(1) [unfolded y] Cons.prems(2)] x Some y True by metis
      show ?thesis
      proof (cases "0 < dval (rs_Remaining st1)")
        case False
        with st1(2) have "st' = st1" by (simp add: dec_simps)
        with a False have "accounted_from symbol exitSide (t # ts) st st' [a]"
          unfolding accounted_from_def by (auto intro!: exI [of _ "[t]"])
        then show ?thesis ..
      next
        case pos: True
        with st1(2) have "realized_loop symbol exitSide ts st1 = Inr st'" by (simp add: dec_simps)
        from Cons.IH [OF this pos] obtain as where as: "accounted_from symbol exitSide ts st1 st' as" ..
        then obtain us where us: "subseq us ts" "list_all2 (accounts symbol exitSide) us as" by (auto simp: accounted_from_def)
        have "\<exists>us. subseq us (t # ts) \<and> list_all2 (accounts symbol exitSide) us (a # as)"
          using us a(1) by (intro exI [of _ "t # us"]) simp
        moreover have "exit_quantity symbol exitSide t = ac_Qty a"
          using True x Some y a(7) [OF pos] by (simp add: exit_quantity_def)
        ultimately have "accounted_from symbol exitSide (t # ts) st st' (a # as)"
          using as a unfolding accounted_from_def by simp
        then show ?thesis ..
      qed
    qed
  qed
qed

lemma accounts_notional: "list_all2 (accounts symbol exitSide) us as \<Longrightarrow> 0 \<le> (\<Sum>a\<leftarrow>as. ac_Price a * ac_Qty a)"
proof (induction rule: list_all2_induct)
  case (Cons t ts a as)
  then have "0 \<le> ac_Price a" "0 < ac_Qty a" using exit_fill_positive by (force simp: accounts_def)+
  with Cons.IH show ?case by simp
qed simp

lemma realized_loop_none:
  assumes "realized_loop symbol exitSide (sort_key ut_Time trades) (realized_start Q) = Inr st" "0 < dval Q"
    "realized_result symbol sd now st = None"
  shows "(\<Sum>t\<leftarrow>trades. exit_quantity symbol exitSide t) < dval Q"
proof -
  from realized_loop_accounts [OF assms(1)] assms(2) obtain as
    where a: "accounted_from symbol exitSide (sort_key ut_Time trades) (realized_start Q) st as" by (auto simp: realized_start_def)
  have "(\<Sum>t\<leftarrow>sort_key ut_Time trades. exit_quantity symbol exitSide t) = (\<Sum>t\<leftarrow>trades. exit_quantity symbol exitSide t)"
    by (metis mset_map mset_sort sum_mset_sum_list)
  then show ?thesis
    using a assms(3) by (auto simp: accounted_from_def realized_start_def realized_result_def dec_simps split: if_splits)
qed

lemma realized_loop_some:
  assumes "realized_loop symbol exitSide ts (realized_start Q) = Inr st" "0 < dval Q" "realized_result symbol sd now st = Some t"
  shows "\<exists>us as. subseq us ts \<and> list_all2 (accounts symbol exitSide) us as \<and> sum_list (map ac_Qty as) = dval Q \<and>
    dval (rt_RealizedPnL t) = (\<Sum>a\<leftarrow>as. ac_PnL a - ac_Commission a) \<and>
    dval (rt_ExitPrice t) \<le> (\<Sum>a\<leftarrow>as. ac_Price a * ac_Qty a) / dval Q \<and>
    (\<Sum>a\<leftarrow>as. ac_Price a * ac_Qty a) / dval Q < dval (rt_ExitPrice t) + 1 / 10 ^ 8"
proof -
  from realized_loop_accounts [OF assms(1)] assms(2) obtain as us
    where a: "accounted_from symbol exitSide ts (realized_start Q) st as"
      and us: "subseq us ts" "list_all2 (accounts symbol exitSide) us as"
    by (auto simp: realized_start_def accounted_from_def)
  have r: "dval (rs_Remaining st) = 0" using a assms(3)
    by (auto simp: accounted_from_def realized_result_def dec_simps split: if_splits)
  have v: "dval (rs_Qty st) = dval Q" "dval (rs_Notional st) = (\<Sum>a\<leftarrow>as. ac_Price a * ac_Qty a)"
    "dval (rs_Net st) = (\<Sum>a\<leftarrow>as. ac_PnL a - ac_Commission a)" "sum_list (map ac_Qty as) = dval Q"
    using a r by (auto simp: accounted_from_def realized_start_def)
  obtain avg where q: "dec_QuoFloor (rs_Notional st) (rs_Qty st) 8 = Inr avg"
    using dec_QuoFloor_val [of "rs_Qty st" 8 "rs_Notional st"] v(1) assms(2) by auto
  have "rt_ExitPrice t = avg" "rt_RealizedPnL t = rs_Net st"
    using assms(2,3) q v(1) by (auto simp: realized_result_def dec_simps split: if_splits)
  with dec_QuoFloor_bounds [OF q] accounts_notional [OF us(2)] v us assms(2) show ?thesis by auto
qed


definition script_fill :: "string \<Rightarrow> string \<Rightarrow> string \<Rightarrow> int \<Rightarrow> user_trade" where
  "script_fill qty price pnl t = \<lparr>ut_Symbol = ''BTCUSDT'', ut_Side = ''SELL'', ut_Price = price, ut_Qty = qty, ut_RealizedPnL = pnl,
     ut_Commission = ''-0.1'', ut_Time = t\<rparr>"

definition realized_script :: "(string + int \<times> http_body) list" where
  "realized_script = [ok_reply (plain_body\<lparr>hb_Trades := Inr [script_fill ''1'' ''110'' ''10'' 6, script_fill ''0.5'' ''100'' ''4'' 5]\<rparr>)]"

lemma realized_script_runs:
  "case executor_RealizedTrade (logged script_net) script_config ''BTCUSDT'' ''long'' 0 (dec_NewFromInt 1) (script_world realized_script) of
     (Inr (Some t), w) \<Rightarrow> True | _ \<Rightarrow> False"
  by code_simp


end
