(* ===== verification/Binance_Stops.thy ===== *)
theory Binance_Stops
  imports Trail_Contract Binance_Results
begin

text \<open>
  The Binance executor as the exchange of the trailing monitor. \<open>covered\<close> says of a log that no stop is
  cancelled before its replacement is acknowledged; it is the contract of \<open>Trail_Contract\<close>, so it holds
  of everything the monitor does through the executor.
\<close>

definition is_stop_cancel :: "http_request \<Rightarrow> bool" where
  "is_stop_cancel q \<longleftrightarrow> hq_Method q = ''DELETE'' \<and> hq_Path q = ''/fapi/v1/algoOrder''"

definition is_new_stop :: "http_request \<Rightarrow> bool" where
  "is_new_stop q \<longleftrightarrow> is_algo q \<and> map_of (hq_Query q) ''type'' = Some ''STOP_MARKET'' \<and> map_of (hq_Query q) ''closePosition'' = Some ''true''"

definition covered :: "exchange_log \<Rightarrow> bool" where
  "covered l \<longleftrightarrow> (\<forall>i<length l. is_stop_cancel (fst (l ! i)) \<longrightarrow>
     0 < i \<and> is_new_stop (fst (l ! (i - 1))) \<and> answered (snd (l ! (i - 1))))"

lemma covered_Nil [simp]: "covered []"
  by (simp add: covered_def)

lemma covered_append: "covered a \<Longrightarrow> covered b \<Longrightarrow> covered (a @ b)"
  unfolding covered_def
proof (intro allI impI)
  fix i
  assume a: "\<forall>i<length a. is_stop_cancel (fst (a ! i)) \<longrightarrow> 0 < i \<and> is_new_stop (fst (a ! (i - 1))) \<and> answered (snd (a ! (i - 1)))"
    and b: "\<forall>i<length b. is_stop_cancel (fst (b ! i)) \<longrightarrow> 0 < i \<and> is_new_stop (fst (b ! (i - 1))) \<and> answered (snd (b ! (i - 1)))"
    and i: "i < length (a @ b)" "is_stop_cancel (fst ((a @ b) ! i))"
  show "0 < i \<and> is_new_stop (fst ((a @ b) ! (i - 1))) \<and> answered (snd ((a @ b) ! (i - 1)))"
  proof (cases "i < length a")
    case True
    with a i(2) show ?thesis by (simp add: nth_append less_imp_diff_less)
  next
    case False
    then obtain j where j: "i = length a + j" by (metis le_Suc_ex not_le)
    with b [rule_format, of j] i have bj: "0 < j" "is_new_stop (fst (b ! (j - 1)))" "answered (snd (b ! (j - 1)))"
      by (simp_all add: nth_append)
    then obtain k where "j = Suc k" by (cases j) auto
    with bj j show ?thesis by (simp add: nth_append)
  qed
qed

lemma covered_calm: "\<forall>x\<in>set l. \<not> is_stop_cancel (fst x) \<Longrightarrow> covered l"
  by (simp add: covered_def)

definition covered_step :: "('n \<times> exchange_log) xworld \<Rightarrow> ('n \<times> exchange_log) xworld \<Rightarrow> bool" where
  "covered_step w w' \<longleftrightarrow> (\<exists>new. xlog w' = xlog w @ new \<and> covered new)"

lemma covered_step_refl: "covered_step w w"
  by (simp add: covered_step_def)

lemma covered_step_trans: "covered_step w w1 \<Longrightarrow> covered_step w1 w2 \<Longrightarrow> covered_step w w2"
  unfolding covered_step_def using covered_append by fastforce

lemma covered_called:
  assumes "called q verb path params" "verb \<noteq> ''DELETE''" "xlog w' = xlog w @ [(q, rep)]"
  shows "covered_step w w'"
proof -
  have "covered [(q, rep)]"
    using assms(1,2) by (intro covered_calm) (simp add: called_path is_stop_cancel_def)
  with assms(3) show ?thesis unfolding covered_step_def by blast
qed

lemma covered_signed:
  assumes "signedRequest (logged nt) cfg verb path params decode w = (r, w')" "verb \<noteq> ''DELETE''"
  shows "covered_step w w'"
proof -
  from signed_logged [OF assms(1)] obtain q rep where "xlog w' = xlog w @ [(q, rep)]" "called q verb path params" by metis
  with assms(2) show ?thesis by (intro covered_called)
qed

lemma covered_filters: "covered_step w (snd (symbolFilters (logged nt) cfg symbol w))"
proof -
  obtain r w' where f: "symbolFilters (logged nt) cfg symbol w = (r, w')" by fastforce
  consider "xlog w' = xlog w"
    | w1 r1 where "publicRequest (logged nt) cfg ''GET'' ''/fapi/v1/exchangeInfo'' [] hb_Info w = (r1, w1)" "xlog w' = xlog w1"
    using f unfolding symbolFilters_def Let_def
    by (auto split: option.splits prod.splits sum.splits if_splits simp: xlog_def)
  then show ?thesis
  proof cases
    case 2
    from public_logged [OF 2(1)] obtain q rep where "xlog w1 = xlog w @ [(q, rep)]" "called q ''GET'' ''/fapi/v1/exchangeInfo'' []" by metis
    with 2(2) f covered_called [of q "''GET''" _ _ w' w rep] show ?thesis by simp
  qed (simp add: f covered_step_def)
qed

lemma stop_params_new: "called q ''POST'' ''/fapi/v1/algoOrder'' (stop_params symbol sd ''STOP_MARKET'' stop k) \<Longrightarrow> is_new_stop q"
proof -
  assume call: "called q ''POST'' ''/fapi/v1/algoOrder'' (stop_params symbol sd ''STOP_MARKET'' stop k)"
  then have "map_of (hq_Query q) ''type'' = map_of (stop_params symbol sd ''STOP_MARKET'' stop k) ''type''"
    "map_of (hq_Query q) ''closePosition'' = map_of (stop_params symbol sd ''STOP_MARKET'' stop k) ''closePosition''"
    unfolding called_def by simp_all
  with is_algo_called [OF call] show ?thesis by (simp add: is_new_stop_def stop_params_def)
qed

lemma covered_move: "covered_step w (snd (executor_MoveStopLoss (logged nt) cfg symbol sd stop old new w))"
proof (cases "validateConfig cfg")
  case (Some e)
  then show ?thesis by (simp add: executor_MoveStopLoss_def covered_step_refl)
next
  case None
  obtain rf w1 where f: "symbolFilters (logged nt) cfg symbol w = (rf, w1)" by fastforce
  have w1: "covered_step w w1" using covered_filters [of w nt cfg symbol] f by simp
  let ?w = "snd (executor_MoveStopLoss (logged nt) cfg symbol sd stop old new w)"
  define exitSide where "exitSide = (if sd = SideShort then ''BUY'' else ''SELL'')"
  have "?w = w1 \<or> (\<exists>price r2 w2. newAlgoOrder (logged nt) cfg (stop_params symbol exitSide ''STOP_MARKET'' price new) w1 = (r2, w2) \<and>
      (?w = w2 \<and> isl r2 \<or> (\<not> isl r2 \<and> ?w = snd (cancelAlgoOrder (logged nt) cfg old w2))))"
  proof (cases rf)
    case (Inl e)
    with None f show ?thesis by (simp add: executor_MoveStopLoss_def andThen_def)
  next
    case (Inr fl)
    show ?thesis
    proof (cases "or_fail ''round stop loss: '' (dec_FloorToStep stop (sf_TickSize fl))")
      case (Inl e)
      with None f Inr show ?thesis by (simp add: executor_MoveStopLoss_def andThen_def)
    next
      case price: (Inr price)
      obtain r2 w2 where n: "newAlgoOrder (logged nt) cfg (stop_params symbol exitSide ''STOP_MARKET'' price new) w1 = (r2, w2)" by fastforce
      have "?w = w2 \<and> isl r2 \<or> (\<not> isl r2 \<and> ?w = snd (cancelAlgoOrder (logged nt) cfg old w2))"
        using None f Inr price n
        by (cases r2) (simp_all add: executor_MoveStopLoss_def andThen_def exitSide_def [symmetric])
      with n show ?thesis by blast
    qed
  qed
  then consider "?w = w1"
    | price r2 w2 where "newAlgoOrder (logged nt) cfg (stop_params symbol exitSide ''STOP_MARKET'' price new) w1 = (r2, w2)"
      "?w = w2 \<and> isl r2 \<or> (\<not> isl r2 \<and> ?w = snd (cancelAlgoOrder (logged nt) cfg old w2))" by blast
  then show ?thesis
  proof cases
    case 2
    from newAlgo_logged [OF 2(1)] obtain q rep where
      w2: "xlog w2 = xlog w1 @ [(q, rep)]" and call: "called q ''POST'' ''/fapi/v1/algoOrder'' (stop_params symbol exitSide ''STOP_MARKET'' price new)"
      and rep: "r2 = result_of hb_Algo rep" .
    have q: "is_new_stop q" "\<not> is_stop_cancel q"
      using stop_params_new [OF call] called_path [OF call] by (simp_all add: is_stop_cancel_def)
    have step2: "covered_step w1 w2" by (rule covered_called [OF call _ w2]) simp
    show ?thesis
    proof (cases "isl r2")
      case True
      with 2(2) w1 step2 covered_step_trans show ?thesis by auto
    next
      case False
      then obtain y where "r2 = Inr y" by (cases r2) auto
      then have ans: "answered rep" using result_of_Inr [of hb_Algo rep y] rep by simp
      obtain r3 w3 where c: "cancelAlgoOrder (logged nt) cfg old w2 = (r3, w3)" by fastforce
      from signed_logged [OF c [unfolded cancelAlgoOrder_def]] obtain a arep where "xlog w3 = xlog w2 @ [(a, arep)]" by metis
      then have "xlog w3 = xlog w1 @ [(q, rep), (a, arep)]" using w2 by simp
      moreover have "covered [(q, rep), (a, arep)]"
        using q ans by (auto simp: covered_def less_Suc_eq nth_Cons')
      ultimately have "covered_step w1 w3" by (auto simp: covered_step_def)
      with False 2(2) c w1 covered_step_trans show ?thesis by auto
    qed
  qed (use w1 in simp)
qed

interpretation binance_stops: stop_exchange "binance_trail (logged nt) cfg" covered_step
proof
  fix w w1 w2 :: "('a \<times> exchange_log) xworld" and symbol sd stop old new
  show "covered_step w w" by (rule covered_step_refl)
  show "covered_step w w1 \<Longrightarrow> covered_step w1 w2 \<Longrightarrow> covered_step w w2" by (rule covered_step_trans)
  show "covered_step w (snd (tx_Positions (binance_trail (logged nt) cfg) w))"
  proof (cases "validateConfig cfg")
    case None
    obtain r v where r: "positionRisk (logged nt) cfg [] w = (r, v)" by fastforce
    then have "covered_step w v" unfolding positionRisk_def by (rule covered_signed) simp
    then show ?thesis using None r
      by (auto simp: binance_trail_def outcome_text_def executor_Positions_def andThen_def split: sum.split)
  qed (simp add: binance_trail_def outcome_text_def executor_Positions_def covered_step_refl)
  show "covered_step w (snd (tx_CurrentStop (binance_trail (logged nt) cfg) symbol w))"
  proof (cases "validateConfig cfg")
    case None
    obtain r v where r: "signedRequest (logged nt) cfg ''GET'' ''/fapi/v1/openAlgoOrders'' [(''symbol'', symbol)] hb_Stops w = (r, v)" by fastforce
    then have "covered_step w v" by (rule covered_signed) simp
    then show ?thesis using None r
      by (auto simp: binance_trail_def outcome_text_def executor_CurrentStop_def andThen_def split: sum.split)
  qed (simp add: binance_trail_def outcome_text_def executor_CurrentStop_def covered_step_refl)
  show "covered_step w (snd (tx_MoveStopLoss (binance_trail (logged nt) cfg) symbol sd stop old new w))"
    using covered_move [of w nt cfg symbol sd stop old new]
    by (auto simp: binance_trail_def split: prod.split sum.split)
qed

text \<open>C29. Whatever the exchange answers, a tick of the trailing monitor over the Binance executor cancels a stop
  only right after the exchange has acknowledged a new stop that closes the position: a position is never
  left without its stop by a failed call.\<close>
theorem trailing_never_uncovers:
  assumes "Runner_Tick policy (binance_trail (logged nt) cfg) (seq, w) = (e, seq', w')"
  shows "\<exists>new. xlog w' = xlog w @ new \<and> covered new"
  using binance_stops.tick_safe [OF assms] by (simp add: covered_step_def)

definition trail_script :: "(string + int \<times> http_body) list" where
  "trail_script = [script_risk ''1'', ok_reply (plain_body\<lparr>hb_Stops := Inr [\<lparr>ao_ClientAlgoID = ''old'', ao_OrderType = ''STOP_MARKET'',
     ao_Symbol = ''BTCUSDT'', ao_TriggerPrice = ''90''\<rparr>]\<rparr>), script_info, ok_reply plain_body, ok_reply plain_body]"

definition script_policy :: trail_policy where
  "script_policy = \<lparr>tp_ActivatePct = \<lparr>d_value = Some 5, d_scale = 1\<rparr>, tp_TrailGapPct = \<lparr>d_value = Some 5, d_scale = 1\<rparr>\<rparr>"

lemma trail_script_runs:
  "case Runner_Tick script_policy (binance_trail (logged script_net) script_config) (0, script_world trail_script) of
     (e, seq, w) \<Rightarrow> length (xlog w) = 5 \<and> is_stop_cancel (fst (last (xlog w)))"
  by code_simp

theorem trailing_never_uncovers_witness:
  "\<exists>e seq w'. Runner_Tick script_policy (binance_trail (logged script_net) script_config) (0, script_world trail_script) = (e, seq, w') \<and>
     is_stop_cancel (fst (last (xlog w'))) \<and> covered (xlog w')"
proof -
  obtain e seq w' where run: "Runner_Tick script_policy (binance_trail (logged script_net) script_config) (0, script_world trail_script) = (e, seq, w')"
    "is_stop_cancel (fst (last (xlog w')))"
    using trail_script_runs by (auto split: prod.splits)
  have "xlog (script_world trail_script) = []" by (simp add: xlog_def script_world_def)
  with trailing_never_uncovers [OF run(1)] run show ?thesis by auto
qed

end
