(* ===== verification/Campaign.thy ===== *)
theory Campaign
  imports Signals
begin

text \<open>
  \<open>internal/campaign\<close> without its paper trading, and the resolver and signal source of
  \<open>internal/campaignexec\<close>: a profit goal is read from text, planned, previewed, and pursued by an
  engine that asks an advisor, trades and stops by rule. What the engine calls outside (market data,
  advisor, trader, the context's cancellation) acts on a world \<open>'w\<close> it is given; the loop is a partial
  function, so that a campaign that never ends is the value \<open>None\<close>.
\<close>

section \<open>Goals\<close>

record goal =
  gl_CapitalUSDT :: decimal
  gl_TargetProfitUSDT :: decimal
  gl_RewardPerTradeUSDT :: decimal
  gl_RiskPerTradeUSDT :: decimal
  gl_AssumedWinRate :: int
  gl_MaxTrades :: int
  gl_MaxDrawdownUSDT :: decimal

datatype goal_error =
    WinRateRange int | TargetNotPositive | NoExpectancy | GoalDecimal decimal_error | GoalCount | TargetMissing

definition ExpectedPerTrade :: "goal \<Rightarrow> decimal" where
  "ExpectedPerTrade g =
     (let win = dec_NewFromInt (gl_AssumedWinRate g); lose = dec_NewFromInt (100 - gl_AssumedWinRate g);
          gross = dec_Sub (dec_Mul (gl_RewardPerTradeUSDT g) win) (dec_Mul (gl_RiskPerTradeUSDT g) lose)
      in case dec_QuoFloor gross (dec_NewFromInt 100) 8 of Inl _ \<Rightarrow> dec_Zero | Inr v \<Rightarrow> v)"

definition EstimateTrades :: "goal \<Rightarrow> goal_error + int" where
  "EstimateTrades g =
     (if gl_AssumedWinRate g < 0 \<or> gl_AssumedWinRate g > 100 then Inl (WinRateRange (gl_AssumedWinRate g))
      else if \<not> dec_IsPositive (gl_TargetProfitUSDT g) then Inl TargetNotPositive
      else let expected = ExpectedPerTrade g
      in if \<not> dec_IsPositive expected then Inl NoExpectancy
         else case dec_QuoFloor (gl_TargetProfitUSDT g) expected 0 of
           Inl e \<Rightarrow> Inl (GoalDecimal e)
         | Inr floor1 \<Rightarrow>
             (case atoi (dec_String floor1) of
                None \<Rightarrow> Inl GoalCount
              | Some n \<Rightarrow>
                  if dec_Cmp (dec_Mul expected (dec_NewFromInt n)) (gl_TargetProfitUSDT g) < 0
                  then Inr (if n = 2 ^ 63 - 1 then - (2 ^ 63) else n + 1) else Inr n))"

datatype verdict = Continue | StopTargetReached | StopMaxDrawdown | StopMaxTrades | StopStrategyRule

record campaign_state =
  cst_Goal :: goal
  cst_RealizedPnL :: decimal
  cst_TradesClosed :: int

definition campaign_Evaluate :: "campaign_state \<Rightarrow> verdict" where
  "campaign_Evaluate st =
     (let g = cst_Goal st
      in if dec_Cmp (cst_RealizedPnL st) (gl_TargetProfitUSDT g) \<ge> 0 then StopTargetReached
         else if dec_IsPositive (gl_MaxDrawdownUSDT g) \<and> dec_Cmp (cst_RealizedPnL st) (dec_Neg (gl_MaxDrawdownUSDT g)) \<le> 0
         then StopMaxDrawdown
         else if gl_MaxTrades g > 0 \<and> cst_TradesClosed st \<ge> gl_MaxTrades g then StopMaxTrades
         else Continue)"

section \<open>Reading a goal\<close>

definition campaign_percentOf :: "decimal \<Rightarrow> int \<Rightarrow> decimal" where
  "campaign_percentOf amount pct =
     (case dec_QuoFloor (dec_Mul amount (dec_NewFromInt pct)) (dec_NewFromInt 100) 8 of Inl _ \<Rightarrow> dec_Zero | Inr v \<Rightarrow> v)"

definition parseUSDT :: "string \<Rightarrow> decimal option" where
  "parseUSDT s =
     (case dec_Parse (trim_suffix (trim_suffix (to_lower (trim_space s)) ''usdt'') ''$'') of
        Inl _ \<Rightarrow> None | Inr v \<Rightarrow> if dec_Cmp v dec_Zero < 0 then None else Some v)"

text \<open>The Thai words for profit, capital and risk, as the bytes of their UTF-8 text.\<close>

definition thai_profit :: string where
  "thai_profit = [CHR 0xE0, CHR 0xB8, CHR 0x81, CHR 0xE0, CHR 0xB8, CHR 0xB3, CHR 0xE0, CHR 0xB9, CHR 0x84, CHR 0xE0, CHR 0xB8, CHR 0xA3]"

definition thai_capital :: string where
  "thai_capital = [CHR 0xE0, CHR 0xB8, CHR 0x97, CHR 0xE0, CHR 0xB8, CHR 0xB8, CHR 0xE0, CHR 0xB8, CHR 0x99]"

definition thai_risk :: string where
  "thai_risk = [CHR 0xE0, CHR 0xB9, CHR 0x80, CHR 0xE0, CHR 0xB8, CHR 0xAA, CHR 0xE0, CHR 0xB8, CHR 0xB5, CHR 0xE0, CHR 0xB9, CHR 0x88,
     CHR 0xE0, CHR 0xB8, CHR 0xA2, CHR 0xE0, CHR 0xB8, CHR 0x87]"

record goal_scan =
  gs_goal :: goal
  gs_target :: bool
  gs_capital :: bool
  gs_risk :: int

definition goal_word :: "string \<Rightarrow> string \<Rightarrow> goal_scan \<Rightarrow> goal_scan" where
  "goal_word tok nxt s =
     (let key = to_lower (trim_right_char (CHR '':'') tok)
      in if key = ''profit'' \<or> key = ''target'' \<or> key = thai_profit then
           (case parseUSDT nxt of None \<Rightarrow> s
            | Some v \<Rightarrow> s\<lparr>gs_goal := (gs_goal s)\<lparr>gl_TargetProfitUSDT := v\<rparr>, gs_target := True\<rparr>)
         else if key = ''capital'' \<or> key = thai_capital then
           (case parseUSDT nxt of None \<Rightarrow> s
            | Some v \<Rightarrow> s\<lparr>gs_goal := (gs_goal s)\<lparr>gl_CapitalUSDT := v\<rparr>, gs_capital := True\<rparr>)
         else if key = ''risk'' \<or> key = thai_risk then
           (case atoi (trim_suffix nxt ''%'') of None \<Rightarrow> s | Some n \<Rightarrow> if n > 0 then s\<lparr>gs_risk := n\<rparr> else s)
         else if key = ''winrate'' \<or> key = ''wr'' then
           (case atoi (trim_suffix nxt ''%'') of None \<Rightarrow> s | Some n \<Rightarrow> s\<lparr>gs_goal := (gs_goal s)\<lparr>gl_AssumedWinRate := n\<rparr>\<rparr>)
         else if key = ''maxtrades'' \<or> key = ''trades'' then
           (case atoi nxt of None \<Rightarrow> s | Some n \<Rightarrow> s\<lparr>gs_goal := (gs_goal s)\<lparr>gl_MaxTrades := n\<rparr>\<rparr>)
         else s)"

fun goal_words :: "string list \<Rightarrow> goal_scan \<Rightarrow> goal_scan" where
  "goal_words [] s = s"
| "goal_words [tok] s = goal_word tok [] s"
| "goal_words (tok # nxt # toks) s = goal_words (nxt # toks) (goal_word tok nxt s)"

fun first_amount :: "string list \<Rightarrow> decimal option" where
  "first_amount [] = None"
| "first_amount (tok # toks) =
     (if has_suffix (to_lower tok) ''usdt'' then (case parseUSDT tok of Some v \<Rightarrow> Some v | None \<Rightarrow> first_amount toks)
      else first_amount toks)"

definition new_scan :: goal_scan where
  "new_scan = \<lparr>gs_goal = \<lparr>gl_CapitalUSDT = dec_unset, gl_TargetProfitUSDT = dec_unset, gl_RewardPerTradeUSDT = dec_unset,
     gl_RiskPerTradeUSDT = dec_unset, gl_AssumedWinRate = 55, gl_MaxTrades = 50, gl_MaxDrawdownUSDT = dec_unset\<rparr>,
     gs_target = False, gs_capital = False, gs_risk = 30\<rparr>"

definition ParseGoal :: "string \<Rightarrow> goal_error + goal" where
  "ParseGoal text1 =
     (let tokens = str_fields (fst (snd (cut_at (CHR '' '') (trim_space text1))));
          s = goal_words tokens new_scan;
          s = (if gs_target s then s else case first_amount tokens of None \<Rightarrow> s
               | Some v \<Rightarrow> s\<lparr>gs_goal := (gs_goal s)\<lparr>gl_TargetProfitUSDT := v\<rparr>, gs_target := True\<rparr>);
          g = gs_goal s
      in if \<not> gs_target s \<or> \<not> dec_IsPositive (gl_TargetProfitUSDT g) then Inl TargetMissing
         else let g = (if gs_capital s then g else g\<lparr>gl_CapitalUSDT := dec_NewFromInt 100\<rparr>)
         in Inr (g\<lparr>gl_RewardPerTradeUSDT := campaign_percentOf (gl_CapitalUSDT g) 2,
                   gl_RiskPerTradeUSDT := campaign_percentOf (gl_CapitalUSDT g) 1,
                   gl_MaxDrawdownUSDT := campaign_percentOf (gl_CapitalUSDT g) (gs_risk s)\<rparr>))"

definition RiskPercent :: "goal \<Rightarrow> int" where
  "RiskPercent g =
     (if \<not> dec_IsPositive (gl_CapitalUSDT g) \<or> \<not> dec_IsPositive (gl_MaxDrawdownUSDT g) then 0
      else case dec_QuoFloor (dec_Mul (gl_MaxDrawdownUSDT g) (dec_NewFromInt 100)) (gl_CapitalUSDT g) 0 of
        Inl _ \<Rightarrow> 0 | Inr pct \<Rightarrow> (case atoi (dec_String pct) of None \<Rightarrow> 0 | Some n \<Rightarrow> n))"

section \<open>The preview\<close>

record trade_outcome =
  to_Index :: int
  to_Win :: bool
  to_PnL :: decimal
  to_RunningPnL :: decimal
  to_TradesSoFar :: int

record simulation =
  sim_Goal :: goal
  sim_Outcomes :: "trade_outcome list"
  sim_State :: campaign_state
  sim_Verdict :: verdict

definition winsByNow :: "int \<Rightarrow> int \<Rightarrow> int" where
  "winsByNow n rate = (if rate \<le> 0 then 0 else if rate \<ge> 100 then n else (n * rate) sdiv 100)"

definition preview_trade :: "goal \<Rightarrow> int \<Rightarrow> campaign_state \<Rightarrow> trade_outcome" where
  "preview_trade g i st =
     (let win = winsByNow (i + 1) (gl_AssumedWinRate g) > winsByNow i (gl_AssumedWinRate g);
          pnl = (if win then gl_RewardPerTradeUSDT g else dec_Neg (gl_RiskPerTradeUSDT g))
      in \<lparr>to_Index = i + 1, to_Win = win, to_PnL = pnl, to_RunningPnL = dec_Add (cst_RealizedPnL st) pnl,
          to_TradesSoFar = cst_TradesClosed st + 1\<rparr>)"

fun preview_loop :: "goal \<Rightarrow> nat \<Rightarrow> int \<Rightarrow> campaign_state \<Rightarrow> trade_outcome list \<Rightarrow> trade_outcome list \<times> campaign_state" where
  "preview_loop g 0 i st out = (out, st)"
| "preview_loop g (Suc n) i st out =
     (if campaign_Evaluate st \<noteq> Continue then (out, st)
      else let o1 = preview_trade g i st
      in preview_loop g n (i + 1) (st\<lparr>cst_RealizedPnL := to_RunningPnL o1, cst_TradesClosed := to_TradesSoFar o1\<rparr>) (out @ [o1]))"

definition new_campaign :: "goal \<Rightarrow> campaign_state" where
  "new_campaign g = \<lparr>cst_Goal = g, cst_RealizedPnL = dec_unset, cst_TradesClosed = 0\<rparr>"

definition Simulate :: "goal \<Rightarrow> simulation" where
  "Simulate g =
     (let (out, st) = preview_loop g 1000 0 (new_campaign g) []
      in \<lparr>sim_Goal = g, sim_Outcomes = out, sim_State = st, sim_Verdict = campaign_Evaluate st\<rparr>)"

section \<open>The engine\<close>

text \<open>\<open>eg_Cancelled\<close> is \<open>ctx.Err()\<close>.\<close>

record 'w engine_config =
  eg_Goal :: goal
  eg_Symbol :: string
  eg_Signal :: "string \<Rightarrow> 'w \<Rightarrow> (string + market_signal) \<times> 'w"
  eg_Decide :: "market_signal \<Rightarrow> 'w \<Rightarrow> (string + decision) \<times> 'w"
  eg_Trade :: "decision \<Rightarrow> 'w \<Rightarrow> (string + decimal) \<times> 'w"
  eg_Cancelled :: "'w \<Rightarrow> string option"
  eg_MaxConsecutiveSkips :: int

definition NewEngine ::
    "goal \<Rightarrow> string \<Rightarrow> (string \<Rightarrow> 'w \<Rightarrow> (string + market_signal) \<times> 'w) option \<Rightarrow>
     (market_signal \<Rightarrow> 'w \<Rightarrow> (string + decision) \<times> 'w) option \<Rightarrow> (decision \<Rightarrow> 'w \<Rightarrow> (string + decimal) \<times> 'w) option \<Rightarrow>
     ('w \<Rightarrow> string option) \<Rightarrow> int \<Rightarrow> string + 'w engine_config" where
  "NewEngine g symbol sig adv trd cancelled skips =
     (case (sig, adv, trd) of
        (Some sg, Some ad, Some tr) \<Rightarrow>
          Inr \<lparr>eg_Goal = g, eg_Symbol = symbol, eg_Signal = sg, eg_Decide = ad, eg_Trade = tr, eg_Cancelled = cancelled,
               eg_MaxConsecutiveSkips = skips\<rparr>
      | _ \<Rightarrow> Inl ''campaign: signals, advisor and trader are required'')"

definition skipExhausted :: "'w engine_config \<Rightarrow> int \<Rightarrow> bool" where
  "skipExhausted cfg skips \<longleftrightarrow> eg_MaxConsecutiveSkips cfg > 0 \<and> skips \<ge> eg_MaxConsecutiveSkips cfg"

type_synonym 'w engine_result = "(campaign_state \<times> verdict \<times> string option) \<times> 'w"

text \<open>One round of the loop: what it returns, or the state, the skips and the world it goes on with.\<close>

definition engine_step ::
    "'w engine_config \<Rightarrow> campaign_state \<times> int \<times> 'w \<Rightarrow> 'w engine_result + (campaign_state \<times> int \<times> 'w)" where
  "engine_step cfg x =
     (case x of (st, skips, w) \<Rightarrow>
        if campaign_Evaluate st \<noteq> Continue then Inl ((st, campaign_Evaluate st, None), w)
        else case eg_Cancelled cfg w of
          Some e \<Rightarrow> Inl ((st, Continue, Some e), w)
        | None \<Rightarrow>
            (case eg_Signal cfg (eg_Symbol cfg) w of
               (Inl e, w) \<Rightarrow> Inl ((st, Continue, Some (''campaign: signal: '' @ e)), w)
             | (Inr sig, w) \<Rightarrow>
                 (case eg_Decide cfg sig w of
                    (Inl _, w) \<Rightarrow>
                      if skipExhausted cfg (skips + 1) then Inl ((st, Continue, None), w) else Inr (st, skips + 1, w)
                  | (Inr d, w) \<Rightarrow>
                      if dn_Action d \<noteq> ''open'' then
                        if skipExhausted cfg (skips + 1) then Inl ((st, Continue, None), w) else Inr (st, skips + 1, w)
                      else case eg_Trade cfg d w of
                        (Inl _, w) \<Rightarrow> Inr (st, 0, w)
                      | (Inr pnl, w) \<Rightarrow>
                          Inr (st\<lparr>cst_RealizedPnL := dec_Add (cst_RealizedPnL st) pnl,
                                  cst_TradesClosed := cst_TradesClosed st + 1\<rparr>, 0, w))))"

partial_function (option) engine_run :: "'w engine_config \<Rightarrow> campaign_state \<times> int \<times> 'w \<Rightarrow> 'w engine_result option" where
  "engine_run cfg x = (case engine_step cfg x of Inl r \<Rightarrow> Some r | Inr y \<Rightarrow> engine_run cfg y)"

definition Engine_Run :: "'w engine_config \<Rightarrow> 'w \<Rightarrow> 'w engine_result option" where
  "Engine_Run cfg w = engine_run cfg (new_campaign (eg_Goal cfg), 0, w)"

section \<open>The live trader\<close>

definition LiveTrader_Trade ::
    "int \<Rightarrow> (int \<Rightarrow> decision \<Rightarrow> 'w \<Rightarrow> (string + string) \<times> 'w) \<Rightarrow> (string \<Rightarrow> 'w \<Rightarrow> (string + decimal) \<times> 'w) \<Rightarrow>
     decision \<Rightarrow> 'w \<Rightarrow> (string + decimal) \<times> 'w" where
  "LiveTrader_Trade userID place await d w =
     (if dn_Action d \<noteq> ''open'' then (Inr dec_Zero, w)
      else case place userID d w of
        (Inl e, w) \<Rightarrow> (Inl (''campaign: place order: '' @ e), w)
      | (Inr _, w) \<Rightarrow>
          (case await (dn_Symbol d) w of
             (Inl e, w) \<Rightarrow> (Inl (''campaign: await close for '' @ dn_Symbol d @ '': '' @ e), w)
           | (Inr pnl, w) \<Rightarrow> (Inr pnl, w)))"

text \<open>
  The resolver's loop reads one ready channel at a time: the context, the timer, or the event stream
  (\<open>StreamEnd\<close> when it is closed). An event counts when it closes a position on the symbol.
\<close>

datatype resolver_input = CtxDone string | TimerFired | StreamEvent bool string decimal | StreamEnd

fun AwaitClose :: "string \<Rightarrow> resolver_input list \<Rightarrow> (string + decimal) option" where
  "AwaitClose symbol [] = None"
| "AwaitClose symbol (CtxDone e # xs) = Some (Inl e)"
| "AwaitClose symbol (TimerFired # xs) = Some (Inl (''campaignexec: timed out waiting for '' @ symbol @ '' to close''))"
| "AwaitClose symbol (StreamEnd # xs) = Some (Inl (''campaignexec: stream closed before '' @ symbol @ '' resolved''))"
| "AwaitClose symbol (StreamEvent isClose sy pnl # xs) =
     (if isClose \<and> equal_fold sy symbol then Some (Inr pnl) else AwaitClose symbol xs)"

definition MarketDataSignals_Signal :: "(string \<Rightarrow> string + decimal) \<Rightarrow> time \<Rightarrow> string \<Rightarrow> string + market_signal" where
  "MarketDataSignals_Signal mark now symbol =
     (case mark symbol of
        Inl e \<Rightarrow> Inl e
      | Inr price \<Rightarrow> Inr \<lparr>ms_Source = ''campaign'', ms_Symbol = symbol, ms_Interval = [], ms_Price = dec_String price, ms_Strategy = [],
          ms_ActionHint = [], ms_SideHint = [], ms_Message = [], ms_Indicators = None, ms_ReceivedAt = now\<rparr>)"

section \<open>How a campaign ends\<close>

lemma Evaluate_Continue:
  "campaign_Evaluate st = Continue \<longleftrightarrow>
     dval (cst_RealizedPnL st) < dval (gl_TargetProfitUSDT (cst_Goal st)) \<and>
     (0 < dval (gl_MaxDrawdownUSDT (cst_Goal st)) \<longrightarrow> - dval (gl_MaxDrawdownUSDT (cst_Goal st)) < dval (cst_RealizedPnL st)) \<and>
     (0 < gl_MaxTrades (cst_Goal st) \<longrightarrow> cst_TradesClosed st < gl_MaxTrades (cst_Goal st))"
  by (auto simp: campaign_Evaluate_def Let_def dec_simps)

text \<open>An invariant of the rounds holds in the result.\<close>

lemma engine_run_invariant:
  assumes "\<And>x r. inv1 x \<Longrightarrow> engine_step cfg x = Inl r \<Longrightarrow> post r"
    and "\<And>x y. inv1 x \<Longrightarrow> engine_step cfg x = Inr y \<Longrightarrow> inv1 y"
    and "engine_run cfg x = Some r" "inv1 x"
  shows "post r"
proof -
  have step: "c = cfg \<longrightarrow> inv1 y \<longrightarrow> post z"
    if run: "\<And>c y z. f c y = Some z \<Longrightarrow> c = cfg \<longrightarrow> inv1 y \<longrightarrow> post z"
      and body: "(case engine_step c y of Inl r \<Rightarrow> Some r | Inr y \<Rightarrow> f c y) = Some z" for f c y z
  proof (cases "engine_step c y")
    case (Inl r)
    then show ?thesis using body assms(1) [of y r] by auto
  next
    case (Inr y')
    then show ?thesis using body run [of c y' z] assms(2) [of y y'] by auto
  qed
  have "(case (cfg, x) of (c, y) \<Rightarrow> (\<lambda>z. c = cfg \<longrightarrow> inv1 y \<longrightarrow> post z)) r"
    by (rule engine_run.raw_induct [of "\<lambda>c y z. c = cfg \<longrightarrow> inv1 y \<longrightarrow> post z" "(cfg, x)" r, OF step])
      (use assms(3) in simp_all)
  then show ?thesis using assms(4) by simp
qed


text \<open>What a round that goes on did, and what a round that ends answers.\<close>

lemma engine_step_on:
  assumes "engine_step cfg (st, k, w) = Inr (st', k', w')"
  shows "campaign_Evaluate st = Continue \<and>
    (st' = st \<and> k' = k + 1 \<and> \<not> skipExhausted cfg k' \<or>
     (\<exists>d w1 e. dn_Action d = ''open'' \<and> eg_Trade cfg d w1 = (Inl e, w') \<and> st' = st \<and> k' = 0) \<or>
     (\<exists>d w1 pnl. dn_Action d = ''open'' \<and> eg_Trade cfg d w1 = (Inr pnl, w') \<and> k' = 0 \<and>
        st' = st\<lparr>cst_RealizedPnL := dec_Add (cst_RealizedPnL st) pnl, cst_TradesClosed := cst_TradesClosed st + 1\<rparr>))"
  using assms unfolding engine_step_def by (auto split: if_splits option.splits prod.splits sum.splits)

lemma engine_step_end:
  assumes "engine_step cfg (st, k, w) = Inl ((st', v, e), w')"
  shows "st' = st \<and> v = campaign_Evaluate st \<and> (v \<noteq> Continue \<longrightarrow> e = None \<and> w' = w)"
  using assms unfolding engine_step_def by (auto split: if_splits option.splits prod.splits sum.splits)

text \<open>A run unfolds along its rounds.\<close>

lemma engine_run_unfold:
  "engine_step cfg x = Inl r \<Longrightarrow> engine_run cfg x = Some r"
  "engine_step cfg x = Inr y \<Longrightarrow> engine_run cfg x = engine_run cfg y"
  by (simp_all add: engine_run.simps [of cfg x])

definition loss_bounded :: "goal \<Rightarrow> rat \<Rightarrow> campaign_state \<times> int \<times> 'w \<Rightarrow> bool" where
  "loss_bounded g l x \<longleftrightarrow>
     (case x of (st, _, _) \<Rightarrow>
        cst_Goal st = g \<and> - dval (gl_MaxDrawdownUSDT g) - l < dval (cst_RealizedPnL st) \<and>
        (0 < gl_MaxTrades g \<longrightarrow> cst_TradesClosed st \<le> gl_MaxTrades g))"

lemma loss_bounded_step:
  assumes "\<And>d w pnl w'. eg_Trade cfg d w = (Inr pnl, w') \<Longrightarrow> - l \<le> dval pnl" and "0 < dval (gl_MaxDrawdownUSDT g)"
    and "loss_bounded g l (st, k, w)" and "engine_step cfg (st, k, w) = Inr (st', k', w')"
  shows "loss_bounded g l (st', k', w')"
proof -
  have c: "campaign_Evaluate st = Continue" using engine_step_on [OF assms(4)] by simp
  have "cst_Goal st = g" using assms(3) by (simp add: loss_bounded_def)
  then have "- dval (gl_MaxDrawdownUSDT g) < dval (cst_RealizedPnL st)" "0 < gl_MaxTrades g \<Longrightarrow> cst_TradesClosed st < gl_MaxTrades g"
    using c assms(2) by (auto simp: Evaluate_Continue)
  then show ?thesis
    using engine_step_on [OF assms(4)] assms(3) assms(1) by (fastforce simp: loss_bounded_def dec_simps)
qed

text \<open>The number of rounds that can still go on.\<close>

definition rounds_left :: "'w engine_config \<Rightarrow> campaign_state \<times> int \<times> 'w \<Rightarrow> nat" where
  "rounds_left cfg x =
     (case x of (st, k, _) \<Rightarrow>
        nat (gl_MaxTrades (cst_Goal st) - cst_TradesClosed st) * nat (eg_MaxConsecutiveSkips cfg + 1) +
        nat (eg_MaxConsecutiveSkips cfg - k))"

lemma rounds_left_step:
  assumes "\<And>d w. \<exists>pnl w'. eg_Trade cfg d w = (Inr pnl, w')" and "0 < gl_MaxTrades (cst_Goal st)" "0 < eg_MaxConsecutiveSkips cfg"
    and "0 \<le> k" and "engine_step cfg (st, k, w) = Inr (st', k', w')"
  shows "rounds_left cfg (st', k', w') < rounds_left cfg (st, k, w)" and "cst_Goal st' = cst_Goal st" and "0 \<le> k'"
proof -
  let ?m = "gl_MaxTrades (cst_Goal st)" and ?s = "eg_MaxConsecutiveSkips cfg"
  have ok: "eg_Trade cfg d w1 \<noteq> (Inl e, w2)" for d w1 e w2 using assms(1) [of d w1] by auto
  have c: "cst_TradesClosed st < ?m" using engine_step_on [OF assms(5)] assms(2) by (auto simp: Evaluate_Continue)
  consider "st' = st" "k' = k + 1" "k' < ?s"
    | "k' = 0" "cst_Goal st' = cst_Goal st" "cst_TradesClosed st' = cst_TradesClosed st + 1"
    using engine_step_on [OF assms(5)] ok assms(3) by (auto simp: skipExhausted_def)
  then have *: "rounds_left cfg (st', k', w') < rounds_left cfg (st, k, w) \<and> cst_Goal st' = cst_Goal st \<and> 0 \<le> k'"
  proof cases
    case 2
    have "nat (?m - cst_TradesClosed st) = Suc (nat (?m - cst_TradesClosed st'))" using c 2 by simp
    then show ?thesis using 2 assms(3) by (simp add: rounds_left_def)
  qed (use assms(3,4) in \<open>auto simp: rounds_left_def\<close>)
  then show "rounds_left cfg (st', k', w') < rounds_left cfg (st, k, w)" "cst_Goal st' = cst_Goal st" "0 \<le> k'" by auto
qed

lemma engine_run_ends:
  assumes "\<And>d w. \<exists>pnl w'. eg_Trade cfg d w = (Inr pnl, w')" and "0 < eg_MaxConsecutiveSkips cfg"
  shows "0 < gl_MaxTrades (cst_Goal (fst x)) \<Longrightarrow> 0 \<le> fst (snd x) \<Longrightarrow> \<exists>r. engine_run cfg x = Some r"
proof (induction x rule: measure_induct_rule [of "rounds_left cfg"])
  case (less x)
  obtain st k w where x: "x = (st, k, w)" by (cases x)
  show ?case
  proof (cases "engine_step cfg x")
    case (Inl r)
    then show ?thesis by (simp add: engine_run_unfold)
  next
    case (Inr y)
    obtain st' k' w' where y: "y = (st', k', w')" by (cases y)
    have pos: "0 < gl_MaxTrades (cst_Goal st)" "0 \<le> k" using less.prems by (auto simp: x)
    note l = rounds_left_step [OF assms(1) pos(1) assms(2) pos(2) Inr [unfolded x y]]
    have "\<exists>r. engine_run cfg y = Some r"
      using l pos by (intro less.IH) (simp_all add: x y)
    then show ?thesis using Inr by (simp add: engine_run_unfold)
  qed
qed


section \<open>Planning and previewing\<close>

lemma atoi_show_int_Some:
  assumes "atoi (show_int i) = Some n"
  shows "n = i"
proof (cases "i < 0")
  case True
  then show ?thesis using assms by (auto simp: atoi_def show_int_def split: if_splits)
next
  case False
  obtain c cs where "show_nat (nat i) = c # cs" "is_digit c" using show_nat_hd by blast
  then show ?thesis
    using False assms nat_of_digits_show_nat [of "nat i"] by (auto simp: atoi_def show_int_def split: if_splits)
qed

lemma digit_char_zero: "digit_char 0 = CHR ''0''" by code_simp

lemma whole_quotient_String:
  assumes "dec_QuoFloor d e 0 = Inr r"
  shows "dec_String r = show_int (trunc (dval d / dval e))"
proof -
  note q = dec_QuoFloor_Inr [OF assms]
  let ?n = "trunc (dval d / dval e)"
  have "normalized (dec_normalize \<lparr>d_value = Some ?n, d_scale = 0\<rparr>)" "dval (dec_normalize \<lparr>d_value = Some ?n, d_scale = 0\<rparr>) = of_int ?n"
    by simp_all
  then have r: "r = dec_normalize \<lparr>d_value = Some ?n, d_scale = 0\<rparr>"
    using q(3,4) normalized_unique by (metis div_by_1 mult.right_neutral nat_0 power_0)
  have "dec_String (dec_normalize \<lparr>d_value = Some ?n, d_scale = 0\<rparr>) = show_int ?n"
  proof (cases "?n = 0")
    case False
    then have "dec_normalize \<lparr>d_value = Some ?n, d_scale = 0\<rparr> = \<lparr>d_value = Some ?n, d_scale = 0\<rparr>" by (simp add: dec_normalize_def)
    then show ?thesis using False by (simp add: dec_String_def Let_def show_int_def)
  qed (simp add: dec_String_def dec_normalize_def dec_Zero_def show_int_def show_nat.simps digit_char_zero)
  then show ?thesis using r by simp
qed

definition wins_among :: "trade_outcome list \<Rightarrow> int" where
  "wins_among os = int (length (filter to_Win os))"

lemma winsByNow_step: "0 \<le> n \<Longrightarrow> 0 \<le> winsByNow (n + 1) r - winsByNow n r \<and> winsByNow (n + 1) r - winsByNow n r \<le> 1"
proof -
  assume n: "0 \<le> n"
  have "(n * r) div 100 \<le> ((n + 1) * r) div 100 \<and> ((n + 1) * r) div 100 \<le> (n * r + 100) div 100" if "0 < r" "r < 100"
    using that n by (intro conjI zdiv_mono1) (auto simp: algebra_simps)
  then show ?thesis using n by (auto simp: winsByNow_def sdiv_pos_int)
qed

text \<open>The outcomes so far: their wins are the wins due by now, and the running total is their sum.\<close>

definition preview_ok :: "goal \<Rightarrow> int \<Rightarrow> campaign_state \<Rightarrow> trade_outcome list \<Rightarrow> bool" where
  "preview_ok g i st os \<longleftrightarrow>
     0 \<le> i \<and> int (length os) = i \<and> cst_TradesClosed st = i \<and> cst_Goal st = g \<and> wins_among os = winsByNow i (gl_AssumedWinRate g) \<and>
     dval (cst_RealizedPnL st) = of_int (winsByNow i (gl_AssumedWinRate g)) * dval (gl_RewardPerTradeUSDT g) -
       of_int (i - winsByNow i (gl_AssumedWinRate g)) * dval (gl_RiskPerTradeUSDT g)"

lemma preview_ok_step:
  assumes "preview_ok g i st os"
  defines "o1 \<equiv> preview_trade g i st"
  shows "preview_ok g (i + 1) (st\<lparr>cst_RealizedPnL := to_RunningPnL o1, cst_TradesClosed := to_TradesSoFar o1\<rparr>) (os @ [o1])"
proof -
  have "winsByNow (i + 1) (gl_AssumedWinRate g) = winsByNow i (gl_AssumedWinRate g) + (if to_Win o1 then 1 else 0)"
    using assms(1) winsByNow_step [of i "gl_AssumedWinRate g"] by (auto simp: o1_def preview_trade_def preview_ok_def Let_def)
  then show ?thesis using assms(1)
    by (auto simp: preview_ok_def wins_among_def o1_def preview_trade_def Let_def dec_simps algebra_simps)
qed

lemma preview_loop_ok:
  assumes "preview_loop g n i st os = (os', st')" "preview_ok g i st os"
  shows "preview_ok g (int (length os')) st' os' \<and> length os' \<le> length os + n \<and>
    (length os' < length os + n \<longrightarrow> campaign_Evaluate st' \<noteq> Continue)"
  using assms
proof (induction g n i st os rule: preview_loop.induct)
  case (2 g n i st os)
  show ?case
  proof (cases "campaign_Evaluate st = Continue")
    case True
    then show ?thesis using 2 preview_ok_step [OF 2(3)] by (simp add: Let_def)
  qed (use 2 in \<open>auto simp: preview_ok_def\<close>)
qed (auto simp: preview_ok_def)

lemma preview_start: "preview_ok g 0 (new_campaign g) []"
  by (simp add: preview_ok_def new_campaign_def wins_among_def winsByNow_def)

section \<open>Properties\<close>

text \<open>C22. A campaign obeys its rules: when it returns, the verdict is the rule that holds of its final state (or no
  rule holds and it stopped for another reason), no more trades were closed than the goal allows, and
  with a drawdown limit and trades that never lose more than \<open>l\<close> the total loss stays below the limit
  plus the one trade that crossed it.\<close>

theorem campaign_rules:
  assumes "Engine_Run cfg w = Some ((st, v, e), w')"
    and "\<And>d w pnl w'. eg_Trade cfg d w = (Inr pnl, w') \<Longrightarrow> - l \<le> dval pnl" and "0 \<le> l"
    and "0 < dval (gl_MaxDrawdownUSDT (eg_Goal cfg))"
  shows "v = campaign_Evaluate st \<and> (v \<noteq> Continue \<longrightarrow> e = None) \<and>
    - dval (gl_MaxDrawdownUSDT (eg_Goal cfg)) - l < dval (cst_RealizedPnL st) \<and>
    (0 < gl_MaxTrades (eg_Goal cfg) \<longrightarrow> cst_TradesClosed st \<le> gl_MaxTrades (eg_Goal cfg))"
proof -
  define post where "post r \<longleftrightarrow> (case r of ((st, v, e), w') \<Rightarrow> v = campaign_Evaluate st \<and> (v \<noteq> Continue \<longrightarrow> e = None) \<and>
    loss_bounded (eg_Goal cfg) l (st, 0, w'))" for r :: "'a engine_result"
  have "post ((st, v, e), w')"
  proof (rule engine_run_invariant [where post = post and ?inv1.0 = "loss_bounded (eg_Goal cfg) l"])
    show "post r" if "loss_bounded (eg_Goal cfg) l x" "engine_step cfg x = Inl r" for x r
      using that engine_step_end by (cases x; cases r) (fastforce simp: post_def loss_bounded_def)
    show "loss_bounded (eg_Goal cfg) l y" if "loss_bounded (eg_Goal cfg) l x" "engine_step cfg x = Inr y" for x y
      using that loss_bounded_step [OF assms(2,4)] by (cases x; cases y) auto
    show "engine_run cfg (new_campaign (eg_Goal cfg), 0, w) = Some ((st, v, e), w')" using assms(1) by (simp add: Engine_Run_def)
    show "loss_bounded (eg_Goal cfg) l (new_campaign (eg_Goal cfg), 0, w)"
      using assms(3,4) by (simp add: loss_bounded_def new_campaign_def)
  qed
  then show ?thesis by (simp add: post_def loss_bounded_def)
qed

text \<open>A world of three trades that lose 2 each, for a goal of 10 with a drawdown limit of 3.\<close>

definition ex_goal :: goal where
  "ex_goal = \<lparr>gl_CapitalUSDT = dec_NewFromInt 10, gl_TargetProfitUSDT = dec_NewFromInt 10, gl_RewardPerTradeUSDT = dec_NewFromInt 2,
     gl_RiskPerTradeUSDT = dec_NewFromInt 1, gl_AssumedWinRate = 55, gl_MaxTrades = 50, gl_MaxDrawdownUSDT = dec_NewFromInt 3\<rparr>"

definition ex_engine :: "(decision \<Rightarrow> nat \<Rightarrow> (string + decimal) \<times> nat) \<Rightarrow> nat engine_config" where
  "ex_engine trade = \<lparr>eg_Goal = ex_goal, eg_Symbol = ''BTCUSDT'',
     eg_Signal = (\<lambda>sy w. (MarketDataSignals_Signal (\<lambda>_. Inr (dec_NewFromInt 100)) 900 sy, w)),
     eg_Decide = (\<lambda>_ w. (Inr (no_decision\<lparr>dn_Action := ''open''\<rparr>), w)), eg_Trade = trade, eg_Cancelled = (\<lambda>_. None),
     eg_MaxConsecutiveSkips = 20\<rparr>"

declare engine_run.simps [code]

lemma ex_losing_run:
  "Engine_Run (ex_engine (\<lambda>_ w. (Inr (dec_NewFromInt (- 2)), Suc w))) 0 =
     Some ((\<lparr>cst_Goal = ex_goal, cst_RealizedPnL = dec_NewFromInt (- 4), cst_TradesClosed = 2\<rparr>, StopMaxDrawdown, None), 2)"
  by code_simp

theorem campaign_rules_witness:
  "- dval (gl_MaxDrawdownUSDT ex_goal) - 2 < dval (dec_NewFromInt (- 4))"
proof -
  have "- dval (gl_MaxDrawdownUSDT (eg_Goal (ex_engine (\<lambda>_ w. (Inr (dec_NewFromInt (- 2)), Suc w))))) - 2
      < dval (cst_RealizedPnL \<lparr>cst_Goal = ex_goal, cst_RealizedPnL = dec_NewFromInt (- 4), cst_TradesClosed = 2\<rparr>)"
    using campaign_rules [OF ex_losing_run, of 2] by (auto simp: ex_engine_def ex_goal_def)
  then show ?thesis by (simp add: ex_engine_def)
qed

text \<open>A campaign with a cap on its trades and on consecutive skips ends, if its trades do not fail: whatever the
  market data and the advisor answer, the loop returns.\<close>

theorem campaign_returns:
  assumes "\<And>d w. \<exists>pnl w'. eg_Trade cfg d w = (Inr pnl, w')"
    and "0 < gl_MaxTrades (eg_Goal cfg)" and "0 < eg_MaxConsecutiveSkips cfg"
  shows "\<exists>r. Engine_Run cfg w = Some r"
  unfolding Engine_Run_def using assms by (intro engine_run_ends) (auto simp: new_campaign_def)

theorem campaign_returns_witness:
  "\<exists>r. Engine_Run (ex_engine (\<lambda>_ w. (Inr (dec_NewFromInt (- 2)), Suc w))) 7 = Some r"
  by (rule campaign_returns) (simp_all add: ex_engine_def ex_goal_def)

text \<open>A campaign whose trades cannot be resolved never stops and keeps placing orders. When every order is
  accepted and every wait for its close fails (a timeout, a closed stream), no trade is counted, so
  neither the cap on trades nor the drawdown rule nor the guard on skips ever fires: the run does not
  return, and for every \<open>n\<close> its first \<open>n\<close> rounds have placed \<open>n\<close> orders.\<close>

theorem failed_trades_unbounded:
  fixes placed :: "'w \<Rightarrow> nat"
  assumes "eg_Trade cfg = LiveTrader_Trade userID place await"
    and "\<And>d w. \<exists>ref w'. place userID d w = (Inr ref, w') \<and> placed w' = placed w + 1"
    and "\<And>sy w. \<exists>e w'. await sy w = (Inl e, w') \<and> placed w' = placed w"
    and "\<And>w. eg_Cancelled cfg w = None"
    and "\<And>sy w. \<exists>sig w'. eg_Signal cfg sy w = (Inr sig, w') \<and> placed w' = placed w"
    and "\<And>sig w. \<exists>d w'. eg_Decide cfg sig w = (Inr d, w') \<and> dn_Action d = ''open'' \<and> placed w' = placed w"
    and "0 < dval (gl_TargetProfitUSDT (eg_Goal cfg))"
  shows "Engine_Run cfg w = None \<and>
    (\<exists>w'. ((\<lambda>x. case engine_step cfg x of Inl _ \<Rightarrow> x | Inr y \<Rightarrow> y) ^^ n) (new_campaign (eg_Goal cfg), 0, w) =
            (new_campaign (eg_Goal cfg), 0, w') \<and> placed w' = placed w + n)"
proof -
  let ?st = "new_campaign (eg_Goal cfg)"
  have c: "campaign_Evaluate ?st = Continue" using assms(7) by (simp add: Evaluate_Continue new_campaign_def)
  have step: "\<exists>w'. engine_step cfg (?st, 0, w) = Inr (?st, 0, w') \<and> placed w' = placed w + 1" for w
  proof -
    obtain sig w1 where 1: "eg_Signal cfg (eg_Symbol cfg) w = (Inr sig, w1)" "placed w1 = placed w" using assms(5) by blast
    obtain d w2 where 2: "eg_Decide cfg sig w1 = (Inr d, w2)" "dn_Action d = ''open''" "placed w2 = placed w1" using assms(6) by blast
    obtain ref w3 where 3: "place userID d w2 = (Inr ref, w3)" "placed w3 = placed w2 + 1" using assms(2) by blast
    obtain e w4 where 4: "await (dn_Symbol d) w3 = (Inl e, w4)" "placed w4 = placed w3" using assms(3) by blast
    show ?thesis using 1 2 3 4 by (simp add: engine_step_def c assms(1,4) LiveTrader_Trade_def)
  qed
  have never: "engine_run cfg (?st, 0, w) \<noteq> Some r" for r w
  proof
    assume run: "engine_run cfg (?st, 0, w) = Some r"
    have i: "False" if x: "\<exists>w. x = (?st, 0, w)" and s: "engine_step cfg x = Inl r" for x r
    proof -
      obtain w where "x = (?st, 0, w)" using x by blast
      then show False using step [of w] s by auto
    qed
    have o: "\<exists>w. y = (?st, 0, w)" if x: "\<exists>w. x = (?st, 0, w)" and s: "engine_step cfg x = Inr y" for x y
    proof -
      obtain w where "x = (?st, 0, w)" using x by blast
      then show ?thesis using step [of w] s by auto
    qed
    show False
      by (rule engine_run_invariant [where post = "\<lambda>_. False" and ?inv1.0 = "\<lambda>x. \<exists>w. x = (?st, 0, w)", OF i o run]) auto
  qed
  have "\<exists>w'. ((\<lambda>x. case engine_step cfg x of Inl _ \<Rightarrow> x | Inr y \<Rightarrow> y) ^^ n) (?st, 0, w) = (?st, 0, w') \<and> placed w' = placed w + n"
  proof (induction n)
    case (Suc n)
    then obtain w1 where 1: "((\<lambda>x. case engine_step cfg x of Inl _ \<Rightarrow> x | Inr y \<Rightarrow> y) ^^ n) (?st, 0, w) = (?st, 0, w1)" "placed w1 = placed w + n" by blast
    obtain w2 where "engine_step cfg (?st, 0, w1) = Inr (?st, 0, w2)" "placed w2 = placed w1 + 1" using step by blast
    then show ?case using 1 by simp
  qed simp
  then show ?thesis using never [of w] unfolding Engine_Run_def by (cases "engine_run cfg (?st, 0, w)") auto
qed

theorem failed_trades_unbounded_witness:
  "Engine_Run (ex_engine (LiveTrader_Trade 7 (\<lambda>_ _ w. (Inr ''ref'', Suc w)) (\<lambda>_ w. (Inl ''timed out'', w)))) 0 = None"
proof -
  let ?cfg = "ex_engine (LiveTrader_Trade 7 (\<lambda>_ _ w. (Inr ''ref'', Suc w)) (\<lambda>_ w. (Inl ''timed out'', w)))"
  have "eg_Trade ?cfg = LiveTrader_Trade 7 (\<lambda>_ _ w. (Inr ''ref'', Suc w)) (\<lambda>_ w. (Inl ''timed out'', w))" by (simp add: ex_engine_def)
  from failed_trades_unbounded [OF this, of "\<lambda>w. w" 0 3]
  show ?thesis by (simp add: ex_engine_def ex_goal_def MarketDataSignals_Signal_def)
qed


text \<open>The planner's estimate is the least number of trades that reaches the target under the assumed edge, when it
  gives one; a goal without a positive expectancy is refused.\<close>

theorem estimate_trades_least:
  assumes "EstimateTrades g = Inr n" and "0 \<le> n"
  shows "0 < dval (ExpectedPerTrade g) \<and> dval (gl_TargetProfitUSDT g) \<le> of_int n * dval (ExpectedPerTrade g) \<and>
    (\<forall>m. dval (gl_TargetProfitUSDT g) \<le> of_int m * dval (ExpectedPerTrade g) \<longrightarrow> n \<le> m)"
proof -
  define t where "t = dval (gl_TargetProfitUSDT g)"
  define x where "x = dval (ExpectedPerTrade g)"
  have pos: "0 < t" "0 < x" using assms(1) by (auto simp: EstimateTrades_def Let_def dec_simps t_def x_def split: if_splits)
  obtain r where r: "dec_QuoFloor (gl_TargetProfitUSDT g) (ExpectedPerTrade g) 0 = Inr r"
    using assms(1) by (auto simp: EstimateTrades_def Let_def split: if_splits sum.splits)
  define k where "k = \<lfloor>t / x\<rfloor>"
  have k: "of_int k * x \<le> t" "t < (of_int k + 1) * x"
    using floor_divide_lower [OF pos(2), of t] floor_divide_upper [OF pos(2), of t] by (simp_all add: k_def)
  have "trunc (t / x) = k" using pos by (simp add: trunc_nonneg k_def)
  then have s: "dec_String r = show_int k" using whole_quotient_String [OF r] by (simp add: t_def x_def)
  obtain a where "atoi (show_int k) = Some a"
    using assms(1) by (auto simp: EstimateTrades_def Let_def r s split: if_splits option.splits)
  with atoi_show_int_Some have a: "atoi (show_int k) = Some k" by blast
  have n: "n = (if of_int k * x < t then k + 1 else k)"
    using assms a pos by (auto simp: EstimateTrades_def Let_def r s dec_simps t_def x_def mult.commute split: if_splits)
  have "t \<le> of_int n * x" using n k by (auto simp: algebra_simps)
  moreover have "n \<le> m" if "t \<le> of_int m * x" for m
  proof (rule ccontr)
    assume "\<not> n \<le> m"
    then have "m \<le> n - 1" by simp
    then have "of_int m * x \<le> of_int (n - 1) * x" using pos by (intro mult_right_mono) auto
    moreover have "of_int (n - 1) * x < t" using n k pos by (auto simp: algebra_simps split: if_splits)
    ultimately show False using that by simp
  qed
  ultimately show ?thesis using pos by (simp add: t_def x_def)
qed

theorem estimate_trades_least_witness:
  "EstimateTrades ex_goal = Inr 16 \<and> dval (gl_TargetProfitUSDT ex_goal) \<le> of_int 16 * dval (ExpectedPerTrade ex_goal)"
proof -
  have e: "EstimateTrades ex_goal = Inr 16" by code_simp
  show ?thesis using estimate_trades_least [OF e] e by simp
qed

text \<open>The preview trades the assumed win rate: after its trades the wins are the whole number the rate allows, the
  total is the rewards of the wins less the risks of the losses, and it stopped by the same rules as a
  campaign, or at its ceiling of a thousand trades.\<close>

theorem preview_faithful:
  fixes g :: goal
  defines "s \<equiv> Simulate g" and "n \<equiv> int (length (sim_Outcomes (Simulate g)))"
  shows "wins_among (sim_Outcomes s) = winsByNow n (gl_AssumedWinRate g) \<and> cst_TradesClosed (sim_State s) = n \<and> n \<le> 1000 \<and>
    sim_Verdict s = campaign_Evaluate (sim_State s) \<and> (n < 1000 \<longrightarrow> sim_Verdict s \<noteq> Continue) \<and>
    dval (cst_RealizedPnL (sim_State s)) =
      of_int (wins_among (sim_Outcomes s)) * dval (gl_RewardPerTradeUSDT g) -
      of_int (n - wins_among (sim_Outcomes s)) * dval (gl_RiskPerTradeUSDT g)"
proof -
  obtain os st where l: "preview_loop g 1000 0 (new_campaign g) [] = (os, st)" by fastforce
  from preview_loop_ok [OF l preview_start] show ?thesis
    by (auto simp: s_def n_def Simulate_def l preview_ok_def)
qed

end
