(* ===== verification/Campaign_Manager.thy ===== *)
theory Campaign_Manager
  imports Campaign
begin

text \<open>
  \<open>internal/campaignexec/manager.go\<close>: one autonomous campaign per user, behind the runtime gates. The
  state is the map of running campaigns, the contexts that were cancelled and the goroutines that are
  still running; the calls and the end of a goroutine are its steps. \<open>ctxErr\<close> reads a context.
\<close>

section \<open>The manager\<close>

record safety =
  sf_Enabled :: bool
  sf_Testnet :: bool
  sf_RealTradingEnabled :: bool
  sf_DryRun :: bool

definition permit :: "safety \<Rightarrow> string option" where
  "permit s =
     (if \<not> sf_Enabled s then Some ''autonomous campaigns are disabled (set CAMPAIGN_LIVE_ENABLED=true)''
      else if \<not> sf_Testnet s then Some ''autonomous campaigns run on testnet only (BINANCE_TESTNET must be true)''
      else if sf_RealTradingEnabled s then Some ''refusing to run: REAL_TRADING_ENABLED is true''
      else if sf_DryRun s then Some ''autonomous campaigns need live testnet execution (DRY_RUN must be false)''
      else None)"

record 'w manager_deps =
  md_Signals :: "(string \<Rightarrow> 'w \<Rightarrow> (string + market_signal) \<times> 'w) option"
  md_Advisor :: "(market_signal \<Rightarrow> 'w \<Rightarrow> (string + decision) \<times> 'w) option"
  md_Placer :: "(int \<Rightarrow> decision \<Rightarrow> 'w \<Rightarrow> (string + string) \<times> 'w) option"
  md_Resolver :: "(string \<Rightarrow> 'w \<Rightarrow> (string + decimal) \<times> 'w) option"

record 'w campaign_run =
  rn_ctx :: nat
  rn_user :: int
  rn_symbol :: string
  rn_engine :: "'w engine_config"

record 'w manager =
  mg_running :: "int \<Rightarrow> nat option"
  mg_cancelled :: "nat list"
  mg_next :: nat
  mg_live :: "'w campaign_run list"

definition NewManager :: "'w manager" where
  "NewManager = \<lparr>mg_running = (\<lambda>_. None), mg_cancelled = [], mg_next = 0, mg_live = []\<rparr>"

definition mgr_IsRunning :: "int \<Rightarrow> 'w manager \<Rightarrow> bool" where
  "mgr_IsRunning u m \<longleftrightarrow> mg_running m u \<noteq> None"

definition mgr_Start ::
    "safety \<Rightarrow> 'w manager_deps \<Rightarrow> (nat \<Rightarrow> 'w \<Rightarrow> string option) \<Rightarrow> int \<Rightarrow> string \<Rightarrow> goal \<Rightarrow> 'w manager \<Rightarrow>
     string option \<times> 'w manager" where
  "mgr_Start sf deps ctxErr u symbol g m =
     (case permit sf of
        Some e \<Rightarrow> (Some e, m)
      | None \<Rightarrow>
          (case (md_Advisor deps, md_Signals deps, md_Placer deps, md_Resolver deps) of
             (Some ad, Some sg, Some pl, Some rs) \<Rightarrow>
               if mg_running m u \<noteq> None then (Some ''a campaign is already running; send /campaign stop first'', m)
               else (case NewEngine g symbol (Some sg) (Some ad) (Some (LiveTrader_Trade u pl rs)) (ctxErr (mg_next m)) 20 of
                       Inl e \<Rightarrow> (Some e, m)
                     | Inr engine \<Rightarrow>
                         (None, m\<lparr>mg_running := (mg_running m)(u \<mapsto> mg_next m), mg_next := mg_next m + 1,
                                  mg_live := mg_live m @ [\<lparr>rn_ctx = mg_next m, rn_user = u, rn_symbol = symbol, rn_engine = engine\<rparr>]\<rparr>))
           | _ \<Rightarrow> (Some ''autonomous campaigns are not configured'', m)))"

definition mgr_Stop :: "int \<Rightarrow> 'w manager \<Rightarrow> bool \<times> 'w manager" where
  "mgr_Stop u m =
     (case mg_running m u of
        None \<Rightarrow> (False, m)
      | Some c \<Rightarrow> (True, m\<lparr>mg_cancelled := c # mg_cancelled m\<rparr>))"

text \<open>The deferred end of a campaign's goroutine.\<close>

definition mgr_exit :: "'w campaign_run \<Rightarrow> 'w manager \<Rightarrow> 'w manager" where
  "mgr_exit r m = m\<lparr>mg_running := (mg_running m)(rn_user r := None), mg_live := filter (\<lambda>x. rn_ctx x \<noteq> rn_ctx r) (mg_live m)\<rparr>"

definition verdict_text :: "verdict \<Rightarrow> string" where
  "verdict_text v =
     (case v of Continue \<Rightarrow> ''continue'' | StopTargetReached \<Rightarrow> ''target_reached'' | StopMaxDrawdown \<Rightarrow> ''max_drawdown''
      | StopMaxTrades \<Rightarrow> ''max_trades'' | StopStrategyRule \<Rightarrow> ''strategy_rule'')"

definition robot :: string where "robot = [CHR 0xF0, CHR 0x9F, CHR 0xA4, CHR 0x96, CHR '' '']"
definition stop_sign :: string where "stop_sign = [CHR 0xE2, CHR 0x8F, CHR 0xB9, CHR '' '']"
definition warning :: string where "warning = [CHR 0xE2, CHR 0x9A, CHR 0xA0, CHR 0xEF, CHR 0xB8, CHR 0x8F, CHR '' '']"
definition flag :: string where "flag = [CHR 0xF0, CHR 0x9F, CHR 0x8F, CHR 0x81, CHR '' '']"

text \<open>The notifications of a run: one when it starts, one when the engine has returned.\<close>

definition start_message :: "string \<Rightarrow> goal \<Rightarrow> string" where
  "start_message symbol g =
     robot @ ''Autonomous campaign started on '' @ symbol @ '' (testnet): target '' @ dec_String (gl_TargetProfitUSDT g) @
     '' USDT, max '' @ show_int (gl_MaxTrades g) @ '' trades. Send /campaign stop to halt.''"

definition end_message :: "bool \<Rightarrow> campaign_state \<times> verdict \<times> string option \<Rightarrow> string" where
  "end_message stopped r =
     (case r of
        (st, _, Some e) \<Rightarrow>
          if stopped then stop_sign @ ''Campaign stopped. Closed '' @ show_int (cst_TradesClosed st) @ '' trades, PnL '' @
               dec_String (cst_RealizedPnL st) @ '' USDT.''
          else warning @ ''Campaign error: '' @ e
      | (st, v, None) \<Rightarrow>
          flag @ ''Campaign finished ('' @ verdict_text v @ ''): '' @ show_int (cst_TradesClosed st) @ '' trades, PnL '' @
          dec_String (cst_RealizedPnL st) @ '' USDT.'')"

definition manager_run ::
    "(nat \<Rightarrow> 'w \<Rightarrow> string option) \<Rightarrow> 'w campaign_run \<Rightarrow> 'w \<Rightarrow> (string list \<times> 'w) option" where
  "manager_run ctxErr r w =
     (case Engine_Run (rn_engine r) w of
        None \<Rightarrow> None
      | Some (res, w') \<Rightarrow>
          Some ([start_message (rn_symbol r) (eg_Goal (rn_engine r)), end_message (ctxErr (rn_ctx r) w' \<noteq> None) res], w'))"

section \<open>Its steps\<close>

inductive mgr_step ::
    "safety \<Rightarrow> 'w manager_deps \<Rightarrow> (nat \<Rightarrow> 'w \<Rightarrow> string option) \<Rightarrow> 'w manager \<Rightarrow> 'w manager \<Rightarrow> bool"
  for sf :: safety and deps :: "'w manager_deps" and ctxErr :: "nat \<Rightarrow> 'w \<Rightarrow> string option" where
  start: "mgr_Start sf deps ctxErr u symbol g m = (r, m') \<Longrightarrow> mgr_step sf deps ctxErr m m'"
| stop: "mgr_Stop u m = (b, m') \<Longrightarrow> mgr_step sf deps ctxErr m m'"
| ended: "r \<in> set (mg_live m) \<Longrightarrow> mgr_step sf deps ctxErr m (mgr_exit r m)"

inductive_cases mgr_stepE: "mgr_step sf deps ctxErr m m'"

text \<open>
  Every goroutine is the registered one of its user, on a context of its own, and every engine was built
  behind the gates as a live trader for that user.
\<close>

definition run_built :: "safety \<Rightarrow> 'w manager_deps \<Rightarrow> 'w campaign_run \<Rightarrow> bool" where
  "run_built sf deps r \<longleftrightarrow>
     permit sf = None \<and> eg_MaxConsecutiveSkips (rn_engine r) = 20 \<and>
     (\<exists>pl rs. md_Placer deps = Some pl \<and> md_Resolver deps = Some rs \<and> eg_Trade (rn_engine r) = LiveTrader_Trade (rn_user r) pl rs)"

definition mgr_ok :: "safety \<Rightarrow> 'w manager_deps \<Rightarrow> 'w manager \<Rightarrow> bool" where
  "mgr_ok sf deps m \<longleftrightarrow>
     distinct (map rn_ctx (mg_live m)) \<and>
     (\<forall>r\<in>set (mg_live m). mg_running m (rn_user r) = Some (rn_ctx r) \<and> rn_ctx r < mg_next m \<and> run_built sf deps r) \<and>
     (\<forall>u c. mg_running m u = Some c \<longrightarrow> (\<exists>r\<in>set (mg_live m). rn_user r = u \<and> rn_ctx r = c))"

lemma mgr_Start_ok:
  assumes "mgr_ok sf deps m" and "mgr_Start sf deps ctxErr u symbol g m = (r, m')"
  shows "mgr_ok sf deps m'"
proof (cases "r = None")
  case True
  then obtain ad sg pl rs where d: "md_Advisor deps = Some ad" "md_Signals deps = Some sg" "md_Placer deps = Some pl" "md_Resolver deps = Some rs"
      "permit sf = None" "mg_running m u = None"
    using assms(2) by (auto simp: mgr_Start_def split: option.splits if_splits)
  have m': "m' = m\<lparr>mg_running := (mg_running m)(u \<mapsto> mg_next m), mg_next := mg_next m + 1,
      mg_live := mg_live m @ [\<lparr>rn_ctx = mg_next m, rn_user = u, rn_symbol = symbol, rn_engine =
        \<lparr>eg_Goal = g, eg_Symbol = symbol, eg_Signal = sg, eg_Decide = ad, eg_Trade = LiveTrader_Trade u pl rs,
         eg_Cancelled = ctxErr (mg_next m), eg_MaxConsecutiveSkips = 20\<rparr>\<rparr>]\<rparr>"
    using assms(2) d by (simp add: mgr_Start_def NewEngine_def)
  have "\<forall>x\<in>set (mg_live m). rn_user x \<noteq> u \<and> rn_ctx x \<noteq> mg_next m" using assms(1) d(6) by (auto simp: mgr_ok_def)
  then show ?thesis using assms(1) d unfolding m' by (auto simp: mgr_ok_def run_built_def less_Suc_eq)
next
  case False
  then have "m' = m" using assms(2) by (auto simp: mgr_Start_def NewEngine_def split: option.splits if_splits)
  then show ?thesis using assms(1) by simp
qed

lemma mgr_exit_ok:
  assumes "mgr_ok sf deps m" and "r \<in> set (mg_live m)"
  shows "mgr_ok sf deps (mgr_exit r m)"
proof -
  have run: "mg_running m (rn_user x) = Some (rn_ctx x)" if "x \<in> set (mg_live m)" for x
    using assms(1) that by (simp add: mgr_ok_def)
  have same: "rn_user x = rn_user r \<Longrightarrow> rn_ctx x = rn_ctx r" if "x \<in> set (mg_live m)" for x
    using run [OF that] run [OF assms(2)] by simp
  have "distinct (map rn_ctx (filter (\<lambda>x. rn_ctx x \<noteq> rn_ctx r) (mg_live m)))"
    using assms(1) by (simp add: mgr_ok_def distinct_map_filter)
  moreover have "\<exists>x\<in>set (mg_live (mgr_exit r m)). rn_user x = u \<and> rn_ctx x = c"
    if reg: "mg_running m u = Some c" and other: "u \<noteq> rn_user r" for u c
  proof -
    obtain x where x: "x \<in> set (mg_live m)" "rn_user x = u" "rn_ctx x = c" using assms(1) reg unfolding mgr_ok_def by blast
    have "distinct (map rn_ctx (mg_live m))" using assms(1) by (simp add: mgr_ok_def)
    then have "rn_ctx x = rn_ctx r \<Longrightarrow> x = r" using x(1) assms(2) by (auto simp: distinct_map inj_on_def)
    then show ?thesis using x other by (auto simp: mgr_exit_def)
  qed
  moreover have "mg_running (mgr_exit r m) (rn_user x) = Some (rn_ctx x) \<and> rn_ctx x < mg_next (mgr_exit r m) \<and> run_built sf deps x"
    if "x \<in> set (mg_live (mgr_exit r m))" for x
    using that same [of x] assms(1) by (auto simp: mgr_exit_def mgr_ok_def)
  ultimately show ?thesis by (auto simp: mgr_ok_def mgr_exit_def split: if_splits)
qed

lemma mgr_Stop_ok: "mgr_ok sf deps m \<Longrightarrow> mgr_Stop u m = (b, m') \<Longrightarrow> mgr_ok sf deps m'"
  by (auto simp: mgr_Stop_def mgr_ok_def split: option.splits)

lemma mgr_step_ok: "mgr_step sf deps ctxErr m m' \<Longrightarrow> mgr_ok sf deps m \<Longrightarrow> mgr_ok sf deps m'"
  by (elim mgr_stepE) (auto intro: mgr_Start_ok mgr_Stop_ok mgr_exit_ok)

section \<open>Properties\<close>

text \<open>One gated campaign per user: in every state the manager can reach, no two goroutines run for the same user,
  each is the one that \<open>Stop\<close> would cancel, and each is a live trader for its own user that was started
  with every runtime gate open.\<close>

theorem one_campaign_per_user:
  assumes "(mgr_step sf deps ctxErr)\<^sup>*\<^sup>* NewManager m"
  shows "(\<forall>r\<in>set (mg_live m). mg_running m (rn_user r) = Some (rn_ctx r) \<and> run_built sf deps r) \<and>
    (\<forall>r\<in>set (mg_live m). \<forall>x\<in>set (mg_live m). rn_user r = rn_user x \<longrightarrow> r = x)"
proof -
  have "mgr_ok sf deps m"
    using assms
  proof (induction rule: rtranclp_induct)
    case base
    show ?case by (simp add: mgr_ok_def NewManager_def)
  qed (rule mgr_step_ok)
  then show ?thesis unfolding mgr_ok_def distinct_map inj_on_def by (metis option.inject)
qed

definition ex_deps :: "nat manager_deps" where
  "ex_deps = \<lparr>md_Signals = Some (eg_Signal (ex_engine (\<lambda>_ w. (Inr dec_Zero, w)))), md_Advisor = Some (eg_Decide (ex_engine (\<lambda>_ w. (Inr dec_Zero, w)))),
     md_Placer = Some (\<lambda>_ _ w. (Inr ''ref'', Suc w)), md_Resolver = Some (\<lambda>_ w. (Inr dec_Zero, w))\<rparr>"

definition ex_safety :: safety where
  "ex_safety = \<lparr>sf_Enabled = True, sf_Testnet = True, sf_RealTradingEnabled = False, sf_DryRun = False\<rparr>"

theorem one_campaign_per_user_witness:
  "\<exists>m. (mgr_step ex_safety ex_deps (\<lambda>_ _. None))\<^sup>*\<^sup>* NewManager m \<and> length (mg_live m) = 1 \<and>
     (\<forall>r\<in>set (mg_live m). run_built ex_safety ex_deps r)"
proof -
  let ?m = "snd (mgr_Start ex_safety ex_deps (\<lambda>_ _. None) 7 ''BTCUSDT'' ex_goal NewManager)"
  have s: "mgr_step ex_safety ex_deps (\<lambda>_ _. None) NewManager ?m" by (rule mgr_step.start) (rule surjective_pairing)
  have "length (mg_live ?m) = 1"
    by (simp add: mgr_Start_def ex_safety_def ex_deps_def permit_def NewManager_def NewEngine_def)
  moreover have r: "(mgr_step ex_safety ex_deps (\<lambda>_ _. None))\<^sup>*\<^sup>* NewManager ?m" using s by (rule r_into_rtranclp)
  ultimately show ?thesis using one_campaign_per_user [OF r] by blast
qed

end
