(* ===== verification/Ensemble.thy ===== *)
theory Ensemble
  imports Signals
begin

text \<open>
  \<open>internal/ai/ensemble.go\<close>: a panel of advisors votes on a market signal. An advisor is a function
  argument; \<open>Inl\<close> is a failing model, which abstains.
\<close>

datatype aggregation = PolicyMajority | PolicyConsensus

record named_advisor =
  na_Name :: string
  na_Advisor :: "(market_signal \<Rightarrow> string + decision) option"

record ensemble =
  en_Advisors :: "named_advisor list"
  en_Policy :: aggregation
  en_MinVotes :: int

definition policy_text :: "aggregation \<Rightarrow> string" where
  "policy_text p = (case p of PolicyMajority \<Rightarrow> ''majority'' | PolicyConsensus \<Rightarrow> ''consensus'')"

fun check_panel :: "named_advisor list \<Rightarrow> string option" where
  "check_panel [] = None"
| "check_panel (a # rest1) =
     (if na_Advisor a = None then Some ''ensemble: advisor is nil''
      else if trim_space (na_Name a) = [] then Some ''ensemble: advisor name is required''
      else check_panel rest1)"

text \<open>\<open>policy\<close> is \<open>None\<close> for the empty text.\<close>

definition NewEnsembleAdvisor :: "named_advisor list \<Rightarrow> aggregation option \<Rightarrow> int \<Rightarrow> string + ensemble" where
  "NewEnsembleAdvisor advisors policy minVotes =
     (if advisors = [] then Inl ''ensemble: at least one advisor is required''
      else case check_panel advisors of
        Some e \<Rightarrow> Inl e
      | None \<Rightarrow>
          let p = (case policy of None \<Rightarrow> PolicyMajority | Some p \<Rightarrow> p); n = int (length advisors);
              k = (if minVotes \<le> 0 then n sdiv 2 + 1 else minVotes);
              k = (if p = PolicyConsensus \<and> k < n then n else k)
          in Inr \<lparr>en_Advisors = advisors, en_Policy = p, en_MinVotes = k\<rparr>)"

record vote =
  vt_name :: string
  vt_decision :: decision

definition panel_votes :: "ensemble \<Rightarrow> market_signal \<Rightarrow> vote list" where
  "panel_votes e sig =
     concat (map (\<lambda>a. case na_Advisor a of None \<Rightarrow> []
       | Some f \<Rightarrow> (case f sig of Inl _ \<Rightarrow> [] | Inr d \<Rightarrow> [\<lparr>vt_name = na_Name a, vt_decision = d\<rparr>])) (en_Advisors e))"

definition bySide :: "vote list \<Rightarrow> string \<Rightarrow> vote list" where
  "bySide votes sd = filter (\<lambda>v. dn_Action (vt_decision v) = ''open'' \<and> (dn_Side (vt_decision v) = ''long'' \<or> dn_Side (vt_decision v) = ''short'') \<and>
     dn_Side (vt_decision v) = sd) votes"

definition leadingSide :: "(string \<Rightarrow> vote list) \<Rightarrow> string \<times> vote list" where
  "leadingSide by1 =
     fold (\<lambda>sd x. if length (by1 sd) > length (snd x) then (sd, by1 sd) else x) [''long'', ''short''] ([], [])"

definition averageConfidence :: "vote list \<Rightarrow> int" where
  "averageConfidence votes =
     (if votes = [] then 0 else sum_list (map (\<lambda>v. dn_ConfidencePercent (vt_decision v)) votes) sdiv int (length votes))"

definition modelNames :: "vote list \<Rightarrow> string list" where
  "modelNames votes = map vt_name votes"

definition ensemble_hold :: "ensemble \<Rightarrow> market_signal \<Rightarrow> int \<Rightarrow> decision" where
  "ensemble_hold e sig n = no_decision\<lparr>dn_Action := ''hold'', dn_Symbol := ms_Symbol sig,
     dn_Reason := ''ensemble ('' @ policy_text (en_Policy e) @ ''): no agreement on a side from '' @ show_int n @ '' advisors''\<rparr>"

definition by_confidence :: "vote \<Rightarrow> vote \<Rightarrow> bool" where
  "by_confidence v u \<longleftrightarrow> dn_ConfidencePercent (vt_decision v) > dn_ConfidencePercent (vt_decision u)"

definition ensemble_Decide :: "ensemble \<Rightarrow> market_signal \<Rightarrow> decision" where
  "ensemble_Decide e sig =
     (let votes = panel_votes e sig; (best, winners) = leadingSide (bySide votes)
      in if best = [] \<or> int (length winners) < en_MinVotes e then ensemble_hold e sig (int (length votes))
         else let winners = insertion_sort by_confidence winners
         in (vt_decision (hd winners))\<lparr>dn_ConfidencePercent := averageConfidence winners, dn_Models := modelNames winners,
              dn_Reason := ''ensemble ('' @ policy_text (en_Policy e) @ ''): '' @ show_int (int (length winners)) @ ''/'' @
                show_int (int (length votes)) @ '' agree '' @ best @ '' ['' @ join_with '', '' (modelNames winners) @ '']''\<rparr>)"

section \<open>Agreement\<close>

lemma leadingSide_eq:
  "leadingSide by1 =
     (if length (by1 ''short'') > length (by1 ''long'') then (''short'', by1 ''short'')
      else if by1 ''long'' \<noteq> [] then (''long'', by1 ''long'') else ([], []))"
  by (auto simp: leadingSide_def)

text \<open>The advisors that vote to open on a side.\<close>

definition agrees :: "market_signal \<Rightarrow> string \<Rightarrow> named_advisor \<Rightarrow> bool" where
  "agrees sig sd a \<longleftrightarrow>
     (case na_Advisor a of None \<Rightarrow> False
      | Some f \<Rightarrow> (case f sig of Inl _ \<Rightarrow> False | Inr d \<Rightarrow> dn_Action d = ''open'' \<and> dn_Side d = sd))"

lemma votes_count:
  assumes "sd = ''long'' \<or> sd = ''short''"
  shows "length (bySide (panel_votes e sig) sd) = length (filter (agrees sig sd) (en_Advisors e))"
proof -
  have "length (bySide (concat (map (\<lambda>a. case na_Advisor a of None \<Rightarrow> []
       | Some f \<Rightarrow> (case f sig of Inl _ \<Rightarrow> [] | Inr d \<Rightarrow> [\<lparr>vt_name = na_Name a, vt_decision = d\<rparr>])) as)) sd)
     = length (filter (agrees sig sd) as)" for as
    using assms by (induction as) (auto simp: bySide_def agrees_def split: option.splits sum.splits)
  then show ?thesis by (simp add: panel_votes_def)
qed

lemma hold_not_open: "dn_Action (ensemble_hold e sig n) \<noteq> ''open''"
  by (simp add: ensemble_hold_def)

lemma hd_insertion_sort: "xs \<noteq> [] \<Longrightarrow> hd (insertion_sort before1 xs) \<in> set xs"
  by (metis hd_in_set set_empty set_insertion_sort)

lemma filter_all: "length xs \<le> length (filter p xs) \<Longrightarrow> \<forall>x\<in>set xs. p x"
  by (metis filter_id_conv length_filter_less linorder_not_less)

section \<open>Properties\<close>

text \<open>The ensemble trades only on agreement: a decision to open has the votes its configuration asks for on its own
  side and no fewer than the other side has; a consensus panel opens only when every advisor answered
  and voted to open on that side, and by default a majority panel needs more than half of the panel.\<close>

theorem ensemble_agreement:
  assumes "NewEnsembleAdvisor advisors policy minVotes = Inr e" and "dn_Action (ensemble_Decide e sig) = ''open''"
  defines "sd \<equiv> dn_Side (ensemble_Decide e sig)"
  shows "(sd = ''long'' \<or> sd = ''short'') \<and>
    en_MinVotes e \<le> int (length (filter (agrees sig sd) advisors)) \<and>
    (\<forall>other. other = ''long'' \<or> other = ''short'' \<longrightarrow>
       length (filter (agrees sig other) advisors) \<le> length (filter (agrees sig sd) advisors)) \<and>
    (policy = Some PolicyConsensus \<longrightarrow> (\<forall>a\<in>set advisors. agrees sig sd a)) \<and>
    (minVotes \<le> 0 \<longrightarrow> int (length advisors) < 2 * int (length (filter (agrees sig sd) advisors)))"
proof -
  have e: "en_Advisors e = advisors" "policy = Some PolicyConsensus \<longrightarrow> int (length advisors) \<le> en_MinVotes e"
    "minVotes \<le> 0 \<longrightarrow> int (length advisors) < 2 * en_MinVotes e"
    using assms(1) by (auto simp: NewEnsembleAdvisor_def Let_def sdiv_pos_int split: if_splits option.splits aggregation.splits)
  define votes where "votes = panel_votes e sig"
  obtain best winners where l: "leadingSide (bySide votes) = (best, winners)" by fastforce
  have w: "best \<noteq> []" "en_MinVotes e \<le> int (length winners)"
    using assms(2) hold_not_open by (auto simp: ensemble_Decide_def l votes_def [symmetric] Let_def split: if_splits)
  then have d: "ensemble_Decide e sig = (vt_decision (hd (insertion_sort by_confidence winners)))
      \<lparr>dn_ConfidencePercent := averageConfidence (insertion_sort by_confidence winners), dn_Models := modelNames (insertion_sort by_confidence winners),
       dn_Reason := dn_Reason (ensemble_Decide e sig)\<rparr>"
    by (simp add: ensemble_Decide_def l votes_def [symmetric] Let_def)
  have best: "best = ''long'' \<or> best = ''short''" "winners = bySide votes best" "winners \<noteq> []"
    "other = ''long'' \<or> other = ''short'' \<Longrightarrow> length (bySide votes other) \<le> length winners" for other
    using l w(1) by (auto simp: leadingSide_eq split: if_splits)
  have "hd (insertion_sort by_confidence winners) \<in> set (bySide votes best)"
    using hd_insertion_sort [OF best(3)] best(2) by metis
  then have "dn_Side (vt_decision (hd (insertion_sort by_confidence winners))) = best" by (simp add: bySide_def)
  then have sd: "sd = best" unfolding sd_def by (subst d) simp
  have c: "length winners = length (filter (agrees sig sd) advisors)"
    using votes_count [OF best(1), of e sig] best(2) by (simp add: votes_def e(1) sd)
  have o: "length (filter (agrees sig other) advisors) \<le> length winners" if "other = ''long'' \<or> other = ''short''" for other
    using votes_count [OF that, of e sig] best(4) [OF that] by (simp add: votes_def e(1))
  have "policy = Some PolicyConsensus \<Longrightarrow> \<forall>a\<in>set advisors. agrees sig sd a"
    using e(2) w(2) c by (intro filter_all) simp
  moreover have "minVotes \<le> 0 \<longrightarrow> int (length advisors) < 2 * int (length (filter (agrees sig sd) advisors))"
    using e(3) w(2) c by linarith
  ultimately show ?thesis using best(1) sd w(2) c o by simp
qed

definition ex_advisor :: "string \<Rightarrow> string \<Rightarrow> named_advisor" where
  "ex_advisor name sd = \<lparr>na_Name = name, na_Advisor = Some (\<lambda>_. Inr (no_decision\<lparr>dn_Action := ''open'', dn_Side := sd, dn_ConfidencePercent := 80\<rparr>))\<rparr>"

definition ex_signal :: market_signal where
  "ex_signal = \<lparr>ms_Source = [], ms_Symbol = ''BTCUSDT'', ms_Interval = [], ms_Price = ''100'', ms_Strategy = [], ms_ActionHint = [],
     ms_SideHint = [], ms_Message = [], ms_Indicators = None, ms_ReceivedAt = 0\<rparr>"

theorem ensemble_agreement_witness:
  "\<exists>e. NewEnsembleAdvisor [ex_advisor ''a'' ''long'', ex_advisor ''b'' ''short'', ex_advisor ''c'' ''long''] None 0 = Inr e \<and>
     en_MinVotes e \<le> 2 \<and> dn_Side (ensemble_Decide e ex_signal) = ''long''"
proof -
  let ?p = "[ex_advisor ''a'' ''long'', ex_advisor ''b'' ''short'', ex_advisor ''c'' ''long'']"
  define e where "e = \<lparr>en_Advisors = ?p, en_Policy = PolicyMajority, en_MinVotes = 2\<rparr>"
  have names: "trim_space ''a'' \<noteq> []" "trim_space ''b'' \<noteq> []" "trim_space ''c'' \<noteq> []" by code_simp+
  have n: "NewEnsembleAdvisor ?p None 0 = Inr e"
    by (simp add: NewEnsembleAdvisor_def ex_advisor_def e_def sdiv_pos_int names)
  have d: "dn_Action (ensemble_Decide e ex_signal) = ''open'' \<and> dn_Side (ensemble_Decide e ex_signal) = ''long''"
    unfolding e_def by code_simp
  show ?thesis using ensemble_agreement [OF n, of ex_signal] d n by (auto simp: e_def)
qed

end
