(* ===== verification/Backtest.thy ===== *)
theory Backtest
  imports Indicators
begin

text \<open>
  \<open>internal/backtest/backtest.go\<close>: the strategies that turn a series of closes into a wanted exposure,
  and the bar-by-bar replay that books one position at a time. The arithmetic is \<open>float64\<close> of theory
  \<open>Floats\<close>, so it is that of the code for positive closes, where no quotient is by zero.
\<close>

section \<open>Strategies\<close>

datatype exposure = ExpFlat | ExpLong | ExpShort

datatype strategy =
    EMACrossStrategy int int
  | RSIReversionStrategy int rat rat
  | MACDStrategy int int int
  | SMACrossStrategy int int
  | BreakoutStrategy int
  | AutoVoteStrategy "strategy list"

definition sma :: "rat list \<Rightarrow> int \<Rightarrow> rat option" where
  "sma values period =
     (if period \<le> 0 \<or> int (length values) < period then None
      else Some (fdiv (fsum (drop (length values - nat period) values)) (of_int period)))"

definition by_order :: "rat \<Rightarrow> rat \<Rightarrow> exposure" where
  "by_order fast slow = (if fast > slow then ExpLong else if fast < slow then ExpShort else ExpFlat)"

definition ema_cross :: "int \<Rightarrow> int \<Rightarrow> rat list \<Rightarrow> exposure" where
  "ema_cross fast slow history =
     (case (EMA history fast, EMA history slow) of (Inr f, Inr s) \<Rightarrow> by_order f s | _ \<Rightarrow> ExpFlat)"

definition rsi_reversion :: "int \<Rightarrow> rat \<Rightarrow> rat \<Rightarrow> rat list \<Rightarrow> exposure" where
  "rsi_reversion period low high history =
     (case RSI history period of
        Inl _ \<Rightarrow> ExpFlat
      | Inr rsi \<Rightarrow> if rsi \<le> low then ExpLong else if rsi \<ge> high then ExpShort else ExpFlat)"

definition macd_side :: "int \<Rightarrow> int \<Rightarrow> int \<Rightarrow> rat list \<Rightarrow> exposure" where
  "macd_side fast slow signalPeriod history =
     (case MACD history fast slow signalPeriod of Inl _ \<Rightarrow> ExpFlat | Inr (_, _, hist) \<Rightarrow> by_order hist 0)"

definition sma_cross :: "int \<Rightarrow> int \<Rightarrow> rat list \<Rightarrow> exposure" where
  "sma_cross fast slow history =
     (case (sma history fast, sma history slow) of (Some f, Some s) \<Rightarrow> by_order f s | _ \<Rightarrow> ExpFlat)"

definition breakout :: "int \<Rightarrow> rat list \<Rightarrow> exposure" where
  "breakout n history =
     (if n < 2 \<or> int (length history) < n + 1 then ExpFlat
      else let lst = last history; window = drop (length history - 1 - nat n) (butlast history);
               hi = foldl max (hd window) window; lo = foldl min (hd window) window
      in if lst \<ge> hi then ExpLong else if lst \<le> lo then ExpShort else ExpFlat)"

definition votes_for :: "exposure \<Rightarrow> exposure list \<Rightarrow> nat" where
  "votes_for e es = length (filter (\<lambda>x. x = e) es)"

fun strategy_Evaluate :: "strategy \<Rightarrow> rat list \<Rightarrow> exposure" where
  "strategy_Evaluate (EMACrossStrategy fast slow) history = ema_cross fast slow history"
| "strategy_Evaluate (RSIReversionStrategy period low high) history = rsi_reversion period low high history"
| "strategy_Evaluate (MACDStrategy fast slow signalPeriod) history = macd_side fast slow signalPeriod history"
| "strategy_Evaluate (SMACrossStrategy fast slow) history = sma_cross fast slow history"
| "strategy_Evaluate (BreakoutStrategy n) history = breakout n history"
| "strategy_Evaluate (AutoVoteStrategy members) history =
     (let votes = map (\<lambda>m. strategy_Evaluate m history) members; longs = votes_for ExpLong votes; shorts = votes_for ExpShort votes
      in if longs > shorts then ExpLong else if shorts > longs then ExpShort else ExpFlat)"

fun strategy_Name :: "strategy \<Rightarrow> string" where
  "strategy_Name (EMACrossStrategy _ _) = ''ema_cross''"
| "strategy_Name (RSIReversionStrategy _ _ _) = ''rsi_reversion''"
| "strategy_Name (MACDStrategy _ _ _) = ''macd''"
| "strategy_Name (SMACrossStrategy _ _) = ''sma_cross''"
| "strategy_Name (BreakoutStrategy _) = ''breakout''"
| "strategy_Name (AutoVoteStrategy _) = ''auto''"

definition DefaultEnsemble :: strategy where
  "DefaultEnsemble = AutoVoteStrategy [EMACrossStrategy 12 26, RSIReversionStrategy 14 30 70, MACDStrategy 12 26 9,
     SMACrossStrategy 10 30, BreakoutStrategy 20]"

section \<open>The replay\<close>

datatype backtest_error = NoStrategy | TooFewCloses | NegativeFee

record backtest_result =
  br_Strategy :: string
  br_Bars :: int
  br_Trades :: int
  br_Wins :: int
  br_Losses :: int
  br_WinRatePct :: rat
  br_ReturnPct :: rat
  br_MaxDrawdownPct :: rat
  br_FinalEquity :: rat

record replay =
  ry_Equity :: rat
  ry_Peak :: rat
  ry_Position :: exposure
  ry_Entry :: rat
  ry_Trades :: int
  ry_Wins :: int
  ry_Losses :: int
  ry_Drawdown :: rat

definition replay_start :: replay where
  "replay_start = \<lparr>ry_Equity = 1, ry_Peak = 1, ry_Position = ExpFlat, ry_Entry = 0, ry_Trades = 0, ry_Wins = 0, ry_Losses = 0,
     ry_Drawdown = 0\<rparr>"

definition position_return :: "exposure \<Rightarrow> rat \<Rightarrow> rat \<Rightarrow> rat" where
  "position_return pos entry price =
     (let ret = fdiv (fsub price entry) entry in if pos = ExpShort then - ret else ret)"

text \<open>The drawdown of an equity value below the highest one, which it may raise.\<close>

definition note_equity :: "rat \<Rightarrow> replay \<Rightarrow> replay" where
  "note_equity v r =
     (let peak = (if v > ry_Peak r then v else ry_Peak r); dd = fdiv (fsub peak v) peak
      in r\<lparr>ry_Peak := peak, ry_Drawdown := (if dd > ry_Drawdown r then dd else ry_Drawdown r)\<rparr>)"

definition closePosition :: "rat \<Rightarrow> rat \<Rightarrow> replay \<Rightarrow> replay" where
  "closePosition feeRate exitPrice r =
     (if ry_Position r = ExpFlat then r
      else let ret = fsub (position_return (ry_Position r) (ry_Entry r) exitPrice) (fmul 2 feeRate);
               equity = fmul (ry_Equity r) (fadd 1 ret);
               r = r\<lparr>ry_Equity := equity, ry_Trades := ry_Trades r + 1, ry_Wins := ry_Wins r + (if ret > 0 then 1 else 0),
                     ry_Losses := ry_Losses r + (if ret > 0 then 0 else 1)\<rparr>
           in (note_equity equity r)\<lparr>ry_Position := ExpFlat\<rparr>)"

definition replay_bar :: "rat \<Rightarrow> (rat list \<Rightarrow> exposure) \<Rightarrow> rat list \<Rightarrow> nat \<Rightarrow> replay \<Rightarrow> replay" where
  "replay_bar feeRate evaluate closes i r =
     (let want = evaluate (take i closes); price = closes ! i;
          r = (if want \<noteq> ry_Position r
               then (let r = closePosition feeRate price r in if want \<noteq> ExpFlat then r\<lparr>ry_Position := want, ry_Entry := price\<rparr> else r)
               else r);
          mark = (if ry_Position r \<noteq> ExpFlat
                  then fmul (ry_Equity r) (fadd 1 (position_return (ry_Position r) (ry_Entry r) price)) else ry_Equity r)
      in note_equity mark r)"

definition replay_bars :: "rat \<Rightarrow> (rat list \<Rightarrow> exposure) \<Rightarrow> rat list \<Rightarrow> nat \<Rightarrow> replay" where
  "replay_bars feeRate evaluate closes n = fold (replay_bar feeRate evaluate closes) [1..<n] replay_start"

definition backtest_Run :: "rat list \<Rightarrow> (string \<times> (rat list \<Rightarrow> exposure)) option \<Rightarrow> rat \<Rightarrow> backtest_error + backtest_result" where
  "backtest_Run closes strat feeRate =
     (case strat of
        None \<Rightarrow> Inl NoStrategy
      | Some (name, evaluate) \<Rightarrow>
          if length closes < 2 then Inl TooFewCloses
          else if feeRate < 0 then Inl NegativeFee
          else let r = closePosition feeRate (last closes) (replay_bars feeRate evaluate closes (length closes))
          in Inr \<lparr>br_Strategy = name, br_Bars = int (length closes), br_Trades = ry_Trades r, br_Wins = ry_Wins r, br_Losses = ry_Losses r,
               br_WinRatePct = (if ry_Trades r > 0 then fmul (fdiv (of_int (ry_Wins r)) (of_int (ry_Trades r))) 100 else 0),
               br_ReturnPct = fmul (fsub (ry_Equity r) 1) 100, br_MaxDrawdownPct = fmul (ry_Drawdown r) 100, br_FinalEquity = ry_Equity r\<rparr>)"

section \<open>The accounts of a replay\<close>

text \<open>The replay of the first bars does not depend on the later ones.\<close>

lemma replay_causal: "n \<le> length closes \<Longrightarrow> replay_bars fee evaluate (closes @ later) n = replay_bars fee evaluate closes n"
  unfolding replay_bars_def
  by (rule fold_cong) (auto simp: replay_bar_def nth_append fun_eq_iff Let_def)

definition replay_ok :: "nat \<Rightarrow> replay \<Rightarrow> bool" where
  "replay_ok n r \<longleftrightarrow> ry_Trades r = ry_Wins r + ry_Losses r \<and> 0 \<le> ry_Wins r \<and> 0 \<le> ry_Losses r \<and>
     ry_Trades r + (if ry_Position r = ExpFlat then 0 else 1) \<le> int n \<and> 0 \<le> ry_Drawdown r \<and> 1 \<le> ry_Peak r"

lemma note_equity_ok: "replay_ok n r \<Longrightarrow> replay_ok n (note_equity v r)"
  by (auto simp: replay_ok_def note_equity_def Let_def)

lemma close_ok: "replay_ok n r \<Longrightarrow> replay_ok n (closePosition fee price r) \<and> ry_Position (closePosition fee price r) = ExpFlat"
proof (cases "ry_Position r = ExpFlat")
  case True
  moreover assume "replay_ok n r"
  ultimately show ?thesis by (simp add: closePosition_def)
next
  case False
  assume "replay_ok n r"
  with False show ?thesis
    by (auto simp: closePosition_def replay_ok_def note_equity_def Let_def)
qed

lemma bar_ok:
  assumes "replay_ok n r"
  shows "replay_ok (Suc n) (replay_bar fee evaluate closes i r)"
proof -
  define want where "want = evaluate (take i closes)"
  define c where "c = closePosition fee (closes ! i) r"
  define r' where "r' = (if want \<noteq> ry_Position r then (if want \<noteq> ExpFlat then c\<lparr>ry_Position := want, ry_Entry := closes ! i\<rparr> else c) else r)"
  have c: "replay_ok n c" "ry_Position c = ExpFlat" using close_ok [OF assms] by (simp_all add: c_def)
  then have "replay_ok (Suc n) r'" using assms by (auto simp: r'_def replay_ok_def)
  moreover have "\<exists>v. replay_bar fee evaluate closes i r = note_equity v r'"
    by (auto simp: replay_bar_def Let_def want_def c_def r'_def)
  ultimately show ?thesis using note_equity_ok by auto
qed

lemma replay_bars_ok: "replay_ok (n - 1) (replay_bars fee evaluate closes n)"
proof (induction n)
  case 0
  show ?case by (simp add: replay_bars_def replay_ok_def replay_start_def)
next
  case (Suc n)
  show ?case
  proof (cases "n = 0")
    case True
    then show ?thesis by (simp add: replay_bars_def replay_ok_def replay_start_def)
  next
    case False
    then have "replay_bars fee evaluate closes (Suc n) = replay_bar fee evaluate closes n (replay_bars fee evaluate closes n)"
      by (simp add: replay_bars_def)
    with bar_ok [OF Suc, of fee evaluate closes n] False show ?thesis by simp
  qed
qed

text \<open>A backtest books one position at a time and sees only the past: every trade is a win or a loss, there is at
  most one trade per bar after the first, the drawdown is never negative, and the trades and the equity up
  to a bar are those of the replay of the bars up to it, whatever closes follow.\<close>
theorem backtest_accounts:
  assumes "backtest_Run closes (Some (name, evaluate)) fee = Inr r"
  shows "br_Trades r = br_Wins r + br_Losses r \<and> 0 \<le> br_Wins r \<and> 0 \<le> br_Losses r \<and> br_Trades r \<le> br_Bars r - 1 \<and>
    0 \<le> br_MaxDrawdownPct r \<and> br_Bars r = int (length closes) \<and>
    (\<forall>n\<le>length closes. \<forall>later. replay_bars fee evaluate (take n closes @ later) n = replay_bars fee evaluate closes n)"
proof -
  let ?r = "closePosition fee (last closes) (replay_bars fee evaluate closes (length closes))"
  have ok: "replay_ok (length closes - 1) ?r"
    using close_ok [OF replay_bars_ok [of "length closes" fee evaluate closes]] by blast
  have len: "2 \<le> length closes" using assms by (auto simp: backtest_Run_def split: if_splits)
  have causal: "replay_bars fee evaluate (take n closes @ later) n = replay_bars fee evaluate closes n" if "n \<le> length closes" for n later
    using replay_causal [of n "take n closes" fee evaluate] that by (metis append_take_drop_id length_take min.absorb2 order_refl)
  have "br_Trades r = ry_Trades ?r" "br_Wins r = ry_Wins ?r" "br_Losses r = ry_Losses ?r" "br_Bars r = int (length closes)"
    "br_MaxDrawdownPct r = fmul (ry_Drawdown ?r) 100"
    using assms by (auto simp: backtest_Run_def Let_def split: if_splits)
  moreover have "0 \<le> fmul (ry_Drawdown ?r) 100"
    using ok by (simp add: replay_ok_def fmul_def f64_nonneg)
  ultimately show ?thesis using ok len causal by (auto simp: replay_ok_def split: if_splits)
qed

theorem backtest_accounts_witness:
  "\<exists>r. backtest_Run [100, 110, 105, 120] (Some (''sma_cross'', strategy_Evaluate (SMACrossStrategy 1 2))) 0 = Inr r \<and>
     br_Trades r = br_Wins r + br_Losses r \<and> br_Trades r \<le> br_Bars r - 1"
proof -
  obtain r where r: "backtest_Run [100, 110, 105, 120] (Some (''sma_cross'', strategy_Evaluate (SMACrossStrategy 1 2))) 0 = Inr r"
    by (simp add: backtest_Run_def Let_def)
  with backtest_accounts [OF r] show ?thesis by simp
qed

text \<open>A mixed strategy takes a side only with more votes for it than against it, and its name is the one asked for.\<close>

lemma auto_majority:
  assumes "strategy_Evaluate (AutoVoteStrategy ms) history = e" "e \<noteq> ExpFlat"
  shows "\<exists>m\<in>set ms. strategy_Evaluate m history = e"
proof (rule ccontr)
  assume "\<not> ?thesis"
  then have "votes_for e (map (\<lambda>m. strategy_Evaluate m history) ms) = 0"
    by (auto simp: votes_for_def filter_empty_conv)
  with assms show False by (auto simp: Let_def split: if_splits)
qed

end
