(* ===== verification/Paper.thy ===== *)
theory Paper
  imports Backtest Campaign Armed_Mission "HOL-Library.List_Lexorder" "HOL-Library.Char_ord" "HOL-Library.AList" "HOL-Library.Code_Target_Nat"
begin

text \<open>
  \<open>internal/campaign/paper.go\<close>: a goal's strategy run over past candles, each trade resolved from the highs
  and lows that follow it. Prices are positive \<open>float64\<close>; overflow to infinity, which the code also
  guards against, does not occur in theory \<open>Floats\<close>. The run is a recursion over the bar index, which
  every round moves forward.
\<close>

section \<open>Configuration and results\<close>

datatype paper_bias = BiasBoth | BiasLong | BiasShort

record paper_config =
  pp_Goal :: goal
  pp_Symbol :: string
  pp_Strategy :: string
  pp_Bias :: "paper_bias option"
  pp_StopLossPct :: rat
  pp_FeeRate :: rat
  pp_EntryFeeRate :: rat
  pp_ExitFeeRate :: rat
  pp_MaxHoldBars :: int
  pp_WarmupBars :: int
  pp_PlanBars :: int
  pp_MainCandles :: "candle list"
  pp_AtrLookback :: int
  pp_AtrStopMult :: rat
  pp_MinStopPct :: rat
  pp_MaxStopPct :: rat

record paper_trade =
  pt_Index :: int
  pt_Side :: string
  pt_EntryIndex :: nat
  pt_EntryPrice :: rat
  pt_ExitPrice :: rat
  pt_StopLoss :: rat
  pt_TakeProfit :: rat
  pt_Outcome :: string
  pt_Win :: bool
  pt_PnLUSDT :: decimal
  pt_RunningPnL :: decimal

record diagnostics =
  dg_ObservedBars :: int
  dg_SetupsFound :: int
  dg_BiasRejected :: int
  dg_Blocked :: "(string \<times> int) list"
  dg_TopBlocker :: string
  dg_topBlockCount :: int

definition no_diagnostics :: diagnostics where
  "no_diagnostics = \<lparr>dg_ObservedBars = 0, dg_SetupsFound = 0, dg_BiasRejected = 0, dg_Blocked = [], dg_TopBlocker = [], dg_topBlockCount = 0\<rparr>"

record paper_result =
  pu_Goal :: goal
  pu_Symbol :: string
  pu_Strategy :: string
  pu_Bias :: paper_bias
  pu_Bars :: int
  pu_Trades :: "paper_trade list"
  pu_State :: campaign_state
  pu_Verdict :: verdict
  pu_Wins :: int
  pu_Losses :: int
  pu_WinRatePct :: rat
  pu_MaxDrawdownUSDT :: decimal
  pu_Diagnostics :: diagnostics

datatype paper_error = PaperNoMainCandles | PaperFewCandles int int | PaperSizing

definition StrategyFor :: "string \<Rightarrow> strategy" where
  "StrategyFor name =
     (if name = ''rsi'' \<or> name = ''rsi_reversion'' then RSIReversionStrategy 14 30 70
      else if name = ''macd'' then MACDStrategy 12 26 9
      else if name = ''sma'' \<or> name = ''sma_cross'' then SMACrossStrategy 10 30
      else if name = ''breakout'' \<or> name = ''donchian'' then BreakoutStrategy 20
      else if name = ''auto'' \<or> name = ''mix'' \<or> name = ''ensemble'' then DefaultEnsemble
      else EMACrossStrategy 12 26)"

definition positive_or :: "rat \<Rightarrow> rat \<Rightarrow> rat" where
  "positive_or d v = (if v \<le> 0 then d else v)"

definition positive_int_or :: "int \<Rightarrow> int \<Rightarrow> int" where
  "positive_int_or d v = (if v \<le> 0 then d else v)"

definition paper_defaults :: "paper_config \<Rightarrow> paper_config" where
  "paper_defaults cfg =
     (let fee = (if pp_FeeRate cfg < 0 then 0 else if pp_FeeRate cfg = 0 then f64 (4 / 10000) else pp_FeeRate cfg) in
      cfg\<lparr>pp_StopLossPct := (if pp_StopLossPct cfg < 0 then 0 else pp_StopLossPct cfg),
          pp_AtrLookback := positive_int_or 14 (pp_AtrLookback cfg), pp_AtrStopMult := positive_or (3 / 2) (pp_AtrStopMult cfg),
          pp_MinStopPct := positive_or (f64 (5 / 1000)) (pp_MinStopPct cfg), pp_MaxStopPct := positive_or (f64 (6 / 100)) (pp_MaxStopPct cfg),
          pp_FeeRate := fee, pp_EntryFeeRate := positive_or (f64 (2 / 10000)) (pp_EntryFeeRate cfg),
          pp_ExitFeeRate := positive_or fee (pp_ExitFeeRate cfg), pp_MaxHoldBars := positive_int_or 24 (pp_MaxHoldBars cfg),
          pp_WarmupBars := positive_int_or 30 (pp_WarmupBars cfg), pp_Bias := Some (case pp_Bias cfg of None \<Rightarrow> BiasBoth | Some b \<Rightarrow> b)\<rparr>)"

section \<open>Diagnostics\<close>

definition blocked_count :: "(string \<times> int) list \<Rightarrow> string \<Rightarrow> int" where
  "blocked_count bl reason = (case map_of bl reason of None \<Rightarrow> 0 | Some n \<Rightarrow> n)"

definition top_update :: "string \<Rightarrow> int \<Rightarrow> diagnostics \<Rightarrow> diagnostics" where
  "top_update reason n d =
     (if n > dg_topBlockCount d \<or> (n = dg_topBlockCount d \<and> (dg_TopBlocker d = [] \<or> reason < dg_TopBlocker d))
      then d\<lparr>dg_TopBlocker := reason, dg_topBlockCount := n\<rparr> else d)"

definition recordBlock :: "string \<Rightarrow> diagnostics \<Rightarrow> diagnostics" where
  "recordBlock reason d =
     (let reason = trim_space reason; reason = (if reason = [] then ''no actionable setup'' else reason);
          n = blocked_count (dg_Blocked d) reason + 1
      in top_update reason n (d\<lparr>dg_Blocked := AList.update reason n (dg_Blocked d)\<rparr>))"

definition diagnostics_finalize :: "diagnostics \<Rightarrow> diagnostics" where
  "diagnostics_finalize d =
     fold (\<lambda>reason d. top_update reason (blocked_count (dg_Blocked d) reason) d)
       (insertion_sort (\<lambda>a b. a < b) (map fst (dg_Blocked d))) d"

section \<open>One trade\<close>

definition biasAllows :: "paper_bias \<Rightarrow> string \<Rightarrow> bool" where
  "biasAllows b sd = (case b of BiasLong \<Rightarrow> sd = ''long'' | BiasShort \<Rightarrow> sd = ''short'' | BiasBoth \<Rightarrow> True)"

definition signalSide :: "exposure \<Rightarrow> string" where
  "signalSide e = (case e of ExpLong \<Rightarrow> ''long'' | ExpShort \<Rightarrow> ''short'' | ExpFlat \<Rightarrow> [])"

definition anny_side_text :: "anny_side \<Rightarrow> string" where
  "anny_side_text sd = (case sd of anny_side.SideNone \<Rightarrow> [] | anny_side.SideLong \<Rightarrow> ''long'' | anny_side.SideShort \<Rightarrow> ''short'')"

definition bracket :: "string \<Rightarrow> rat \<Rightarrow> rat \<Rightarrow> rat \<Rightarrow> rat \<times> rat" where
  "bracket sd entry slPct rr =
     (if sd = ''long'' then (fmul entry (fsub 1 slPct), fmul entry (fadd 1 (fmul slPct rr)))
      else (fmul entry (fadd 1 slPct), fmul entry (fsub 1 (fmul slPct rr))))"

text \<open>The true range of bar \<open>j\<close>, as a fraction of its close.\<close>

definition range_pct :: "candle list \<Rightarrow> nat \<Rightarrow> rat" where
  "range_pct cs j =
     (let c = cs ! j; prev = k_Close (cs ! (j - 1)); tr = fsub (k_High c) (k_Low c);
          tr = max tr \<bar>fsub (k_High c) prev\<bar>; tr = max tr \<bar>fsub (k_Low c) prev\<bar>
      in fdiv tr (k_Close c))"

definition atrPct :: "candle list \<Rightarrow> nat \<Rightarrow> int \<Rightarrow> rat" where
  "atrPct cs idx lookback =
     (let lookback = (if lookback < 1 then 14 else lookback); start = int idx - lookback + 1; start = (if start < 1 then 1 else start);
          js = filter (\<lambda>j. j < length cs \<and> k_Close (cs ! j) > 0) (map nat [start .. int idx])
      in if js = [] then 0 else fdiv (fsum (map (range_pct cs) js)) (of_nat (length js)))"

definition stopPct :: "paper_config \<Rightarrow> candle list \<Rightarrow> nat \<Rightarrow> rat" where
  "stopPct cfg cs idx =
     (if pp_StopLossPct cfg > 0 then pp_StopLossPct cfg
      else let sl = fmul (pp_AtrStopMult cfg) (atrPct cs idx (pp_AtrLookback cfg));
               sl = (if sl < pp_MinStopPct cfg then pp_MinStopPct cfg else sl)
           in if sl > pp_MaxStopPct cfg then pp_MaxStopPct cfg else sl)"

text \<open>What the bar does to an open trade.\<close>

definition bar_exit :: "string \<Rightarrow> rat \<Rightarrow> rat \<Rightarrow> candle \<Rightarrow> (rat \<times> string) option" where
  "bar_exit sd sl tp c =
     (if sd = ''long'' then
        (if k_Low c \<le> sl then Some (sl, ''sl'') else if k_High c \<ge> tp then Some (tp, ''tp'') else None)
      else (if k_High c \<ge> sl then Some (sl, ''sl'') else if k_Low c \<le> tp then Some (tp, ''tp'') else None))"

fun resolve_scan :: "string \<Rightarrow> rat \<Rightarrow> rat \<Rightarrow> candle list \<Rightarrow> nat \<Rightarrow> nat \<Rightarrow> nat \<Rightarrow> rat \<times> string \<times> nat" where
  "resolve_scan sd sl tp cs lst j 0 = (k_Close (cs ! lst), ''timeout'', lst)"
| "resolve_scan sd sl tp cs lst j (Suc n) =
     (case bar_exit sd sl tp (cs ! j) of
        Some (price, outcome) \<Rightarrow> (price, outcome, j)
      | None \<Rightarrow> resolve_scan sd sl tp cs j (j + 1) n)"

definition resolve :: "string \<Rightarrow> rat \<Rightarrow> rat \<Rightarrow> candle list \<Rightarrow> nat \<Rightarrow> int \<Rightarrow> rat \<times> string \<times> nat" where
  "resolve sd sl tp cs start maxHold =
     resolve_scan sd sl tp cs start start (nat (min (int (length cs)) (int start + maxHold) - int start))"

definition floatOf :: "decimal \<Rightarrow> rat \<Rightarrow> rat" where
  "floatOf d def = (if \<not> dec_IsPositive d then def else f64 (dval d))"

definition usdt :: "rat \<Rightarrow> decimal" where
  "usdt f = (case dec_Parse (format_fixed 4 f) of Inl _ \<Rightarrow> dec_Zero | Inr d \<Rightarrow> d)"

text \<open>The raw profit of a resolved trade: the bracket's, or the clamped move of a timeout.\<close>

definition raw_profit :: "string \<Rightarrow> rat \<Rightarrow> rat \<Rightarrow> rat \<Rightarrow> string \<Rightarrow> rat \<Rightarrow> rat \<Rightarrow> rat" where
  "raw_profit sd risk reward notional outcome entry exitPrice =
     (if outcome = ''tp'' then reward
      else if outcome = ''sl'' then - risk
      else let move = fdiv (fsub exitPrice entry) entry; move = (if sd = ''short'' then - move else move);
               raw = fmul move notional
           in if raw > reward then reward else if raw < - risk then - risk else raw)"

definition paper_pnl :: "paper_config \<Rightarrow> string \<Rightarrow> rat \<Rightarrow> rat \<Rightarrow> rat \<Rightarrow> string \<Rightarrow> rat \<Rightarrow> rat \<Rightarrow> rat" where
  "paper_pnl cfg sd risk reward notional outcome entry exitPrice =
     fsub (raw_profit sd risk reward notional outcome entry exitPrice)
       (fmul (fadd (pp_EntryFeeRate cfg) (pp_ExitFeeRate cfg)) notional)"

text \<open>The trade noted in the result, with whether it won and the bar to go on with.\<close>

definition paper_book :: "nat \<Rightarrow> string \<Rightarrow> rat \<Rightarrow> rat \<times> rat \<Rightarrow> rat \<times> string \<times> nat \<Rightarrow> decimal \<Rightarrow> bool \<Rightarrow> paper_result \<Rightarrow> paper_result \<times> bool \<times> nat" where
  "paper_book i sd entry levels exit pnlDec win res =
     (let (sl, tp) = levels; (exitPrice, outcome, exitIdx) = exit;
          st = (pu_State res)\<lparr>cst_RealizedPnL := dec_Add (cst_RealizedPnL (pu_State res)) pnlDec,
                              cst_TradesClosed := cst_TradesClosed (pu_State res) + 1\<rparr>
      in (res\<lparr>pu_State := st, pu_Wins := pu_Wins res + (if win then 1 else 0), pu_Losses := pu_Losses res + (if win then 0 else 1),
            pu_Trades := pu_Trades res @ [\<lparr>pt_Index = int (length (pu_Trades res)) + 1, pt_Side = sd, pt_EntryIndex = i, pt_EntryPrice = entry,
              pt_ExitPrice = exitPrice, pt_StopLoss = sl, pt_TakeProfit = tp, pt_Outcome = outcome, pt_Win = win, pt_PnLUSDT = pnlDec,
              pt_RunningPnL = cst_RealizedPnL st\<rparr>]\<rparr>,
          win, if exitIdx > i then exitIdx + 1 else i + 1))"

definition paper_book_pnl :: "nat \<Rightarrow> string \<Rightarrow> rat \<Rightarrow> rat \<times> rat \<Rightarrow> rat \<times> string \<times> nat \<Rightarrow> rat \<Rightarrow> paper_result \<Rightarrow> paper_result \<times> bool \<times> nat" where
  "paper_book_pnl i sd entry levels exit pnl res = paper_book i sd entry levels exit (usdt pnl) (pnl > 0) res"

definition paper_levels :: "string \<Rightarrow> rat \<Rightarrow> rat \<Rightarrow> rat \<Rightarrow> rat \<times> rat" where
  "paper_levels sd entry slPct rr = bracket sd entry slPct (if rr \<le> 0 then 2 else rr)"

definition paper_settle ::
    "paper_config \<Rightarrow> candle list \<Rightarrow> rat \<Rightarrow> rat \<Rightarrow> string \<Rightarrow> nat \<Rightarrow> paper_result \<Rightarrow> rat \<Rightarrow> rat \<times> rat \<Rightarrow> rat \<times> string \<times> nat \<Rightarrow> paper_result \<times> bool \<times> nat" where
  "paper_settle cfg cs risk reward sd i res notional levels exit =
     paper_book_pnl i sd (k_Close (cs ! i)) levels exit
       (paper_pnl cfg sd risk reward notional (fst (snd exit)) (k_Close (cs ! i)) (fst exit)) res"

definition paper_exit :: "paper_config \<Rightarrow> candle list \<Rightarrow> string \<Rightarrow> nat \<Rightarrow> rat \<times> rat \<Rightarrow> rat \<times> string \<times> nat" where
  "paper_exit cfg cs sd i levels = resolve sd (fst levels) (snd levels) cs (i + 1) (pp_MaxHoldBars cfg)"

definition paper_play ::
    "paper_config \<Rightarrow> candle list \<Rightarrow> rat \<Rightarrow> rat \<Rightarrow> string \<Rightarrow> nat \<Rightarrow> paper_result \<Rightarrow> rat \<Rightarrow> rat \<times> rat \<Rightarrow> paper_result \<times> bool \<times> nat" where
  "paper_play cfg cs risk reward sd i res notional levels =
     paper_settle cfg cs risk reward sd i res notional levels (paper_exit cfg cs sd i levels)"

definition paper_enter :: "paper_config \<Rightarrow> candle list \<Rightarrow> rat \<Rightarrow> rat \<Rightarrow> string \<Rightarrow> nat \<Rightarrow> paper_result \<Rightarrow> paper_result \<times> bool \<times> nat" where
  "paper_enter cfg cs risk reward sd i res =
     paper_play cfg cs risk reward sd i res (fdiv risk (stopPct cfg cs i))
       (paper_levels sd (k_Close (cs ! i)) (stopPct cfg cs i) (fdiv reward risk))"

section \<open>The run\<close>

definition maxDrawdownUSDT :: "paper_trade list \<Rightarrow> decimal" where
  "maxDrawdownUSDT ts =
     snd (fold (\<lambda>t (peak, worst).
       if dec_Cmp (pt_RunningPnL t) peak > 0 then (pt_RunningPnL t, worst)
       else let dd = dec_Sub peak (pt_RunningPnL t) in (peak, if dec_Cmp dd worst > 0 then dd else worst)) ts (dec_Zero, dec_Zero))"

definition paper_finalize :: "paper_result \<Rightarrow> paper_result" where
  "paper_finalize r =
     r\<lparr>pu_WinRatePct := (if pu_Wins r + pu_Losses r > 0 then fmul (fdiv (of_int (pu_Wins r)) (of_int (pu_Wins r + pu_Losses r))) 100
                         else pu_WinRatePct r),
       pu_MaxDrawdownUSDT := maxDrawdownUSDT (pu_Trades r), pu_Diagnostics := diagnostics_finalize (pu_Diagnostics r)\<rparr>"

text \<open>What a bar asks for: nothing (with the diagnostics noted), the end of the run, or a trade on a side.\<close>

datatype bar_choice = ChooseNothing diagnostics | ChooseStop diagnostics | ChooseSide string diagnostics

definition choose_side :: "paper_config \<Rightarrow> candle list \<Rightarrow> int \<Rightarrow> nat \<Rightarrow> paper_result \<Rightarrow> bar_choice" where
  "choose_side cfg cs losses i res =
     (let d = pu_Diagnostics res in
      if pp_Strategy cfg = ''anny_basic'' then
        (case ObserveAt (pp_MainCandles cfg) cs (int i) of
           Inl _ \<Rightarrow> ChooseNothing (recordBlock ''indicator warmup'' d)
         | Inr obs \<Rightarrow>
             let d = d\<lparr>dg_ObservedBars := dg_ObservedBars d + 1\<rparr>;
                 m = anny_Evaluate obs \<lparr>as_TradesClosed = cst_TradesClosed (pu_State res), as_ConsecutiveLosses = losses,
                       as_RealizedPnLUSDT = cst_RealizedPnL (pu_State res)\<rparr> 100
             in if ad_Stop m then ChooseStop d
                else let sd = anny_side_text (ad_Side m)
                in if sd = [] then ChooseNothing (recordBlock (ad_Reason m) d)
                   else ChooseSide sd (d\<lparr>dg_SetupsFound := dg_SetupsFound d + 1\<rparr>))
      else let sd = signalSide (strategy_Evaluate (StrategyFor (pp_Strategy cfg)) (map k_Close (take (i + 1) cs)))
           in if sd = [] then ChooseNothing d else ChooseSide sd d)"

text \<open>One round at bar \<open>i\<close>: the end of the run, or its new state and the next bar.\<close>

definition paper_round ::
    "paper_config \<Rightarrow> candle list \<Rightarrow> rat \<Rightarrow> rat \<Rightarrow> paper_bias \<Rightarrow> nat \<Rightarrow> int \<Rightarrow> paper_result \<Rightarrow> paper_result + (nat \<times> int \<times> paper_result)" where
  "paper_round cfg cs risk reward b i losses res =
     (if campaign_Evaluate (pu_State res) \<noteq> Continue then
        Inl (res\<lparr>pu_Verdict := campaign_Evaluate (pu_State res)\<rparr>)
      else case choose_side cfg cs losses i res of
        ChooseNothing d \<Rightarrow> Inr (i + 1, losses, res\<lparr>pu_Diagnostics := d\<rparr>)
      | ChooseStop d \<Rightarrow> Inl (res\<lparr>pu_Diagnostics := d, pu_Verdict := StopStrategyRule\<rparr>)
      | ChooseSide sd d \<Rightarrow>
          if \<not> biasAllows b sd then
            Inr (i + 1, losses, res\<lparr>pu_Diagnostics := recordBlock ''AI side filter'' (d\<lparr>dg_BiasRejected := dg_BiasRejected d + 1\<rparr>)\<rparr>)
          else if fdiv risk (stopPct cfg cs i) \<le> 0 then Inr (i + 1, losses, res\<lparr>pu_Diagnostics := d\<rparr>)
          else (case paper_enter cfg cs risk reward sd i (res\<lparr>pu_Diagnostics := d\<rparr>) of
                  (res, win, next1) \<Rightarrow> Inr (next1, if win then 0 else losses + 1, res)))"

lemma paper_round_forward: "paper_round cfg cs risk reward b i losses res = Inr (j, losses', res') \<Longrightarrow> i < j"
  by (auto simp: paper_round_def paper_enter_def paper_play_def paper_settle_def paper_book_pnl_def paper_book_def Let_def
      split: if_splits bar_choice.splits prod.splits)

function paper_run ::
    "paper_config \<Rightarrow> candle list \<Rightarrow> rat \<Rightarrow> rat \<Rightarrow> paper_bias \<Rightarrow> nat \<Rightarrow> int \<Rightarrow> paper_result \<Rightarrow> paper_result" where
  "paper_run cfg cs risk reward b i losses res =
     (if i + 1 < length cs then
        (case paper_round cfg cs risk reward b i losses res of
           Inl res \<Rightarrow> res
         | Inr (j, losses, res) \<Rightarrow> paper_run cfg cs risk reward b j losses res)
      else res\<lparr>pu_Verdict := campaign_Evaluate (pu_State res)\<rparr>)"
  by pat_completeness auto
termination
  by (relation "measure (\<lambda>(cfg, cs, risk, reward, b, i, losses, res). length cs - i)")
    (auto dest!: paper_round_forward intro: diff_less_mono2)

declare paper_run.simps [simp del]

text \<open>The run of a complete configuration with its risk and reward.\<close>

definition run_sized :: "string \<Rightarrow> paper_config \<Rightarrow> candle list \<Rightarrow> rat \<Rightarrow> rat \<Rightarrow> paper_error + paper_result" where
  "run_sized name cfg cs risk reward =
     (if risk \<le> 0 \<or> reward \<le> 0 then Inl PaperSizing
      else Inr (paper_finalize (paper_run cfg cs risk reward (the (pp_Bias cfg))
        (nat (if pp_PlanBars cfg > 0 \<and> int (length cs) - pp_PlanBars cfg > pp_WarmupBars cfg
              then int (length cs) - pp_PlanBars cfg else pp_WarmupBars cfg)) 0
        \<lparr>pu_Goal = pp_Goal cfg, pu_Symbol = pp_Symbol cfg, pu_Strategy = name, pu_Bias = the (pp_Bias cfg), pu_Bars = int (length cs),
         pu_Trades = [], pu_State = \<lparr>cst_Goal = pp_Goal cfg, cst_RealizedPnL = dec_unset, cst_TradesClosed = 0\<rparr>,
         pu_Verdict = Continue, pu_Wins = 0, pu_Losses = 0, pu_WinRatePct = 0, pu_MaxDrawdownUSDT = dec_unset,
         pu_Diagnostics = no_diagnostics\<rparr>)))"

definition run_configured :: "string \<Rightarrow> paper_config \<Rightarrow> candle list \<Rightarrow> paper_error + paper_result" where
  "run_configured name cfg cs =
     (if int (length cs) < pp_WarmupBars cfg + 2 then Inl (PaperFewCandles (pp_WarmupBars cfg + 2) (int (length cs)))
      else run_sized name cfg cs (floatOf (gl_RiskPerTradeUSDT (pp_Goal cfg)) 1) (floatOf (gl_RewardPerTradeUSDT (pp_Goal cfg)) 2))"

definition RunPaper :: "paper_config \<Rightarrow> candle list \<Rightarrow> paper_error + paper_result" where
  "RunPaper cfg cs =
     (if pp_Strategy cfg = ''anny_basic'' \<and> pp_MainCandles cfg = [] then Inl PaperNoMainCandles
      else run_configured
        (if pp_Strategy cfg = ''anny_basic'' then ''anny_basic_v1.2'' else strategy_Name (StrategyFor (pp_Strategy cfg)))
        (paper_defaults cfg) cs)"

lemmas RunPaper_defs = RunPaper_def run_configured_def run_sized_def

section \<open>The rules of a paper run\<close>

definition state_after :: "goal \<Rightarrow> paper_trade list \<Rightarrow> campaign_state" where
  "state_after g ts = \<lparr>cst_Goal = g, cst_RealizedPnL = foldl dec_Add dec_unset (map pt_PnLUSDT ts), cst_TradesClosed = int (length ts)\<rparr>"

text \<open>The bar on which a trade was closed.\<close>

definition exit_bar :: "paper_config \<Rightarrow> candle list \<Rightarrow> paper_trade \<Rightarrow> nat" where
  "exit_bar cfg cs t = snd (snd (resolve (pt_Side t) (pt_StopLoss t) (pt_TakeProfit t) cs (pt_EntryIndex t + 1) (pp_MaxHoldBars cfg)))"

definition trade_ok :: "paper_config \<Rightarrow> candle list \<Rightarrow> rat \<Rightarrow> rat \<Rightarrow> paper_bias \<Rightarrow> nat \<Rightarrow> paper_trade \<Rightarrow> bool" where
  "trade_ok cfg cs risk reward b from t \<longleftrightarrow>
     biasAllows b (pt_Side t) \<and> from \<le> pt_EntryIndex t \<and> pt_EntryIndex t + 1 < length cs \<and>
     pt_EntryPrice t = k_Close (cs ! pt_EntryIndex t) \<and>
     (\<exists>raw fee. - risk \<le> raw \<and> raw \<le> reward \<and> pt_PnLUSDT t = usdt (fsub raw fee) \<and> (pt_Win t \<longleftrightarrow> fsub raw fee > 0) \<and>
        (pt_Outcome t = ''tp'' \<longrightarrow> raw = reward) \<and> (pt_Outcome t = ''sl'' \<longrightarrow> raw = - risk))"

definition run_ok :: "paper_config \<Rightarrow> candle list \<Rightarrow> rat \<Rightarrow> rat \<Rightarrow> paper_bias \<Rightarrow> nat \<Rightarrow> paper_result \<Rightarrow> bool" where
  "run_ok cfg cs risk reward b from res \<longleftrightarrow>
     pu_State res = state_after (pp_Goal cfg) (pu_Trades res) \<and>
     (\<forall>k<length (pu_Trades res). campaign_Evaluate (state_after (pp_Goal cfg) (take k (pu_Trades res))) = Continue) \<and>
     pu_Wins res = int (length (filter pt_Win (pu_Trades res))) \<and>
     pu_Losses res = int (length (filter (\<lambda>t. \<not> pt_Win t) (pu_Trades res))) \<and>
     sorted_wrt (\<lambda>t u. exit_bar cfg cs t < pt_EntryIndex u) (pu_Trades res) \<and>
     (\<forall>t\<in>set (pu_Trades res). trade_ok cfg cs risk reward b from t)"

lemma raw_profit_within:
  assumes "0 < risk" "0 < reward"
  shows "- risk \<le> raw_profit sd risk reward notional outcome entry price \<and>
    raw_profit sd risk reward notional outcome entry price \<le> reward"
  using assms by (auto simp: raw_profit_def Let_def)

lemma resolve_scan_bar: "k \<le> lst \<Longrightarrow> k \<le> j \<Longrightarrow> k \<le> snd (snd (resolve_scan sd sl tp cs lst j n))"
  by (induction n arbitrary: lst j) (auto split: option.split)

text \<open>A trade is closed no earlier than the bar after its entry.\<close>

lemma resolve_bar: "start \<le> snd (snd (resolve sd sl tp cs start maxHold))"
  by (simp add: resolve_def resolve_scan_bar)

lemma paper_enter_result:
  assumes "paper_enter cfg cs risk reward sd i res = (res', win, j)"
  obtains t where "pu_Trades res' = pu_Trades res @ [t]" "pt_Side t = sd" "pt_EntryIndex t = i" "pt_EntryPrice t = k_Close (cs ! i)"
    "pt_Win t = win" "exit_bar cfg cs t < j" "i < j"
    "pu_State res' = (pu_State res)\<lparr>cst_RealizedPnL := dec_Add (cst_RealizedPnL (pu_State res)) (pt_PnLUSDT t),
       cst_TradesClosed := cst_TradesClosed (pu_State res) + 1\<rparr>"
    "pu_Wins res' = pu_Wins res + (if win then 1 else 0)" "pu_Losses res' = pu_Losses res + (if win then 0 else 1)"
    "0 < risk \<Longrightarrow> 0 < reward \<Longrightarrow> \<exists>raw fee. - risk \<le> raw \<and> raw \<le> reward \<and> pt_PnLUSDT t = usdt (fsub raw fee) \<and> (pt_Win t \<longleftrightarrow> fsub raw fee > 0) \<and>
        (pt_Outcome t = ''tp'' \<longrightarrow> raw = reward) \<and> (pt_Outcome t = ''sl'' \<longrightarrow> raw = - risk)"
proof -
  obtain sl tp where b: "paper_levels sd (k_Close (cs ! i)) (stopPct cfg cs i) (fdiv reward risk) = (sl, tp)" by fastforce
  obtain price outcome e where e: "resolve sd sl tp cs (i + 1) (pp_MaxHoldBars cfg) = (price, outcome, e)"
    by (cases "resolve sd sl tp cs (i + 1) (pp_MaxHoldBars cfg)")
  have late: "i < e" using resolve_bar [of "i + 1" sd sl tp cs "pp_MaxHoldBars cfg"] e by simp
  define notional where "notional = fdiv risk (stopPct cfg cs i)"
  define raw where "raw = raw_profit sd risk reward notional outcome (k_Close (cs ! i)) price"
  define fee where "fee = fmul (fadd (pp_EntryFeeRate cfg) (pp_ExitFeeRate cfg)) notional"
  define t where "t = \<lparr>pt_Index = int (length (pu_Trades res)) + 1, pt_Side = sd, pt_EntryIndex = i, pt_EntryPrice = k_Close (cs ! i),
    pt_ExitPrice = price, pt_StopLoss = sl, pt_TakeProfit = tp, pt_Outcome = outcome, pt_Win = (fsub raw fee > 0),
    pt_PnLUSDT = usdt (fsub raw fee), pt_RunningPnL = dec_Add (cst_RealizedPnL (pu_State res)) (usdt (fsub raw fee))\<rparr>"
  note d = assms [unfolded paper_enter_def notional_def [symmetric] b paper_play_def paper_exit_def fst_conv snd_conv e paper_settle_def
    paper_pnl_def raw_def [symmetric] fee_def [symmetric] paper_book_pnl_def paper_book_def Let_def prod.case, symmetric]
  have raw: "0 < risk \<Longrightarrow> 0 < reward \<Longrightarrow> - risk \<le> raw \<and> raw \<le> reward" unfolding raw_def by (rule raw_profit_within)
  have "outcome = ''tp'' \<longrightarrow> raw = reward" "outcome = ''sl'' \<longrightarrow> raw = - risk" by (auto simp: raw_def raw_profit_def)
  then show thesis using d raw late e by (intro that [of t]) (auto simp: t_def exit_bar_def)
qed

definition closed_before :: "paper_config \<Rightarrow> candle list \<Rightarrow> nat \<Rightarrow> paper_result \<Rightarrow> bool" where
  "closed_before cfg cs i res \<longleftrightarrow> (\<forall>t\<in>set (pu_Trades res). exit_bar cfg cs t < i)"

lemma state_after_snoc:
  "state_after g (ts @ [t]) = (state_after g ts)\<lparr>cst_RealizedPnL := dec_Add (cst_RealizedPnL (state_after g ts)) (pt_PnLUSDT t),
     cst_TradesClosed := cst_TradesClosed (state_after g ts) + 1\<rparr>"
  by (simp add: state_after_def)

lemma paper_enter_ok:
  assumes "paper_enter cfg cs risk reward sd i res = (res', win, j)" "run_ok cfg cs risk reward b from res" "closed_before cfg cs i res"
    "campaign_Evaluate (pu_State res) = Continue" "biasAllows b sd" "from \<le> i" "i + 1 < length cs" "0 < risk" "0 < reward"
  shows "run_ok cfg cs risk reward b from res' \<and> closed_before cfg cs j res'"
proof (rule paper_enter_result [OF assms(1)])
  fix t
  assume t: "pu_Trades res' = pu_Trades res @ [t]" "pt_Side t = sd" "pt_EntryIndex t = i" "pt_EntryPrice t = k_Close (cs ! i)"
    "pt_Win t = win" "exit_bar cfg cs t < j" "i < j"
    "pu_State res' = (pu_State res)\<lparr>cst_RealizedPnL := dec_Add (cst_RealizedPnL (pu_State res)) (pt_PnLUSDT t),
       cst_TradesClosed := cst_TradesClosed (pu_State res) + 1\<rparr>"
    "pu_Wins res' = pu_Wins res + (if win then 1 else 0)" "pu_Losses res' = pu_Losses res + (if win then 0 else 1)"
    and raw: "0 < risk \<Longrightarrow> 0 < reward \<Longrightarrow> \<exists>raw fee. - risk \<le> raw \<and> raw \<le> reward \<and> pt_PnLUSDT t = usdt (fsub raw fee) \<and>
        (pt_Win t \<longleftrightarrow> fsub raw fee > 0) \<and> (pt_Outcome t = ''tp'' \<longrightarrow> raw = reward) \<and> (pt_Outcome t = ''sl'' \<longrightarrow> raw = - risk)"
  have ok: "trade_ok cfg cs risk reward b from t" unfolding trade_ok_def using t(2-4) raw assms(5-9) by simp
  have st: "pu_State res = state_after (pp_Goal cfg) (pu_Trades res)" using assms(2) by (simp add: run_ok_def)
  have "run_ok cfg cs risk reward b from res'"
    unfolding run_ok_def t(1) state_after_snoc t(8) st
    using assms(2-4) ok t by (auto simp: run_ok_def closed_before_def sorted_wrt_append nth_append less_Suc_eq)
  moreover have "closed_before cfg cs j res'" using assms(3) t by (auto simp: closed_before_def)
  ultimately show ?thesis by simp
qed

lemma run_ok_diagnostics [simp]:
  "run_ok cfg cs risk reward b from (res\<lparr>pu_Diagnostics := d\<rparr>) = run_ok cfg cs risk reward b from res"
  "closed_before cfg cs i (res\<lparr>pu_Diagnostics := d\<rparr>) = closed_before cfg cs i res"
  "run_ok cfg cs risk reward b from (res\<lparr>pu_Verdict := v\<rparr>) = run_ok cfg cs risk reward b from res"
  by (simp_all add: run_ok_def closed_before_def)

lemma paper_round_ok:
  assumes "run_ok cfg cs risk reward b from res" "closed_before cfg cs i res" "from \<le> i" "i + 1 < length cs" "0 < risk" "0 < reward"
  shows "case paper_round cfg cs risk reward b i losses res of
      Inl res' \<Rightarrow> run_ok cfg cs risk reward b from res' \<and>
        (pu_Verdict res' = StopStrategyRule \<or> pu_Verdict res' = campaign_Evaluate (pu_State res'))
    | Inr (j, _, res') \<Rightarrow> run_ok cfg cs risk reward b from res' \<and> closed_before cfg cs j res' \<and> i < j"
proof (cases "campaign_Evaluate (pu_State res) = Continue")
  case False
  then show ?thesis using assms(1) by (simp add: paper_round_def)
next
  case True
  have later: "closed_before cfg cs (Suc i) res" using assms(2) by (auto simp: closed_before_def)
  show ?thesis
  proof (cases "choose_side cfg cs losses i res")
    case (ChooseSide sd d)
    show ?thesis
    proof (cases "biasAllows b sd \<and> \<not> fdiv risk (stopPct cfg cs i) \<le> 0")
      case enters: True
      obtain res' win j where e: "paper_enter cfg cs risk reward sd i (res\<lparr>pu_Diagnostics := d\<rparr>) = (res', win, j)"
        by (cases "paper_enter cfg cs risk reward sd i (res\<lparr>pu_Diagnostics := d\<rparr>)")
      have "i < j" by (rule paper_enter_result [OF e])
      then show ?thesis
        using paper_enter_ok [OF e, of b "from"] assms enters True ChooseSide e by (simp add: paper_round_def)
    qed (use True ChooseSide assms(1) later in \<open>auto simp: paper_round_def\<close>)
  qed (use True assms(1) later in \<open>auto simp: paper_round_def\<close>)
qed

lemma paper_run_ok:
  assumes "run_ok cfg cs risk reward b from res" "closed_before cfg cs i res" "from \<le> i" "0 < risk" "0 < reward"
  shows "run_ok cfg cs risk reward b from (paper_run cfg cs risk reward b i losses res) \<and>
    (let r = paper_run cfg cs risk reward b i losses res in pu_Verdict r = StopStrategyRule \<or> pu_Verdict r = campaign_Evaluate (pu_State r))"
  using assms
proof (induction cfg cs risk reward b i losses res rule: paper_run.induct)
  case (1 cfg cs risk reward b i losses res)
  show ?case
  proof (cases "i + 1 < length cs")
    case False
    then show ?thesis using 1 by (simp add: paper_run.simps [of cfg cs risk reward b i])
  next
    case True
    note round = paper_round_ok [OF 1(2,3,4) True 1(5,6), of losses]
    show ?thesis
    proof (cases "paper_round cfg cs risk reward b i losses res")
      case (Inl res')
      then show ?thesis using round True by (simp add: paper_run.simps [of cfg cs risk reward b i])
    next
      case (Inr x)
      obtain j l res' where x: "x = (j, l, res')" by (cases x)
      then show ?thesis
        using round True Inr 1(1) [OF True Inr [unfolded x] refl refl] 1(4-6) by (simp add: paper_run.simps [of cfg cs risk reward b i losses])
    qed
  qed
qed

definition first_bar :: "paper_config \<Rightarrow> candle list \<Rightarrow> nat" where
  "first_bar cfg cs =
     nat (if pp_PlanBars cfg > 0 \<and> int (length cs) - pp_PlanBars cfg > pp_WarmupBars cfg
          then int (length cs) - pp_PlanBars cfg else pp_WarmupBars cfg)"

lemma finalize_fields [simp]:
  "pu_Trades (paper_finalize r) = pu_Trades r" "pu_State (paper_finalize r) = pu_State r" "pu_Verdict (paper_finalize r) = pu_Verdict r"
  "pu_Wins (paper_finalize r) = pu_Wins r" "pu_Losses (paper_finalize r) = pu_Losses r"
  "run_ok c cs risk reward b start (paper_finalize r) = run_ok c cs risk reward b start r"
  by (simp_all add: paper_finalize_def run_ok_def)

lemma RunPaper_ok:
  assumes "RunPaper cfg cs = Inr r"
  shows "run_ok (paper_defaults cfg) cs (floatOf (gl_RiskPerTradeUSDT (pp_Goal cfg)) 1) (floatOf (gl_RewardPerTradeUSDT (pp_Goal cfg)) 2)
      (the (pp_Bias (paper_defaults cfg))) (first_bar (paper_defaults cfg) cs) r"
    "pu_Verdict r = StopStrategyRule \<or> pu_Verdict r = campaign_Evaluate (pu_State r)"
proof -
  let ?c = "paper_defaults cfg" and ?risk = "floatOf (gl_RiskPerTradeUSDT (pp_Goal cfg)) 1"
    and ?reward = "floatOf (gl_RewardPerTradeUSDT (pp_Goal cfg)) 2"
  have g: "pp_Goal ?c = pp_Goal cfg" by (simp add: paper_defaults_def Let_def)
  obtain start where s: "pu_Trades start = []" "pu_State start = state_after (pp_Goal cfg) []" "pu_Wins start = 0" "pu_Losses start = 0"
    and r: "r = paper_finalize (paper_run ?c cs ?risk ?reward (the (pp_Bias ?c)) (first_bar ?c cs) 0 start)"
    and pos: "0 < ?risk" "0 < ?reward"
    using assms by (force simp: RunPaper_defs Let_def g first_bar_def state_after_def split: if_splits)
  have "run_ok ?c cs ?risk ?reward (the (pp_Bias ?c)) (first_bar ?c cs) start" "closed_before ?c cs (first_bar ?c cs) start"
    using s by (simp_all add: run_ok_def closed_before_def g)
  from paper_run_ok [OF this order_refl pos, of 0]
  show "run_ok ?c cs ?risk ?reward (the (pp_Bias ?c)) (first_bar ?c cs) r"
    "pu_Verdict r = StopStrategyRule \<or> pu_Verdict r = campaign_Evaluate (pu_State r)"
    unfolding r by (simp_all add: Let_def)
qed


text \<open>A rising price, a goal with one dollar of risk and two of reward a trade, and the breakout strategy.\<close>

definition paper_bar :: "rat \<Rightarrow> candle" where
  "paper_bar c = \<lparr>k_OpenTime = 0, k_Open = c, k_High = c + 2, k_Low = c - 1, k_Close = c, k_Volume = 1\<rparr>"

definition paper_goal_ex :: goal where
  "paper_goal_ex = \<lparr>gl_CapitalUSDT = dec_NewFromInt 100, gl_TargetProfitUSDT = dec_NewFromInt 1, gl_RewardPerTradeUSDT = dec_NewFromInt 2,
     gl_RiskPerTradeUSDT = dec_NewFromInt 1, gl_AssumedWinRate = 50, gl_MaxTrades = 5, gl_MaxDrawdownUSDT = dec_NewFromInt 10\<rparr>"

definition paper_config_ex :: paper_config where
  "paper_config_ex = \<lparr>pp_Goal = paper_goal_ex, pp_Symbol = ''BTCUSDT'', pp_Strategy = ''breakout'', pp_Bias = None, pp_StopLossPct = 1 / 8,
     pp_FeeRate = 0, pp_EntryFeeRate = 0, pp_ExitFeeRate = 0, pp_MaxHoldBars = 0, pp_WarmupBars = 20, pp_PlanBars = 0, pp_MainCandles = [],
     pp_AtrLookback = 0, pp_AtrStopMult = 0, pp_MinStopPct = 0, pp_MaxStopPct = 0\<rparr>"

definition paper_candles_ex :: "candle list" where
  "paper_candles_ex = map paper_bar (replicate 19 10 @ [11, 12, 16, 18])"

lemma paper_run_example:
  "case RunPaper paper_config_ex paper_candles_ex of Inr r \<Rightarrow>
     map (\<lambda>t. (pt_EntryIndex t, pt_Outcome t, pt_Win t)) (pu_Trades r) = [(20, ''tp'', True)] | _ \<Rightarrow> False"
  by code_simp


end
