(* ===== verification/Walkforward.thy ===== *)
theory Walkforward
  imports Paper
begin

text \<open>
  \<open>internal/campaign/walkforward.go\<close>: the rolling validation of a paper configuration. The candles are cut into
  consecutive blocks, each with its own warm-up, and every block is an independent paper run. Positions
  in the candles are natural numbers; the block sizes come from constants of the code, so the products
  stay far inside \<open>int64\<close>.
\<close>

section \<open>Windows\<close>

record wf_config =
  wf_FoldCount :: int
  wf_FoldBars :: int

record wf_window =
  ww_Index :: int
  ww_WarmupStart :: nat
  ww_TestStart :: nat
  ww_End :: nat
  ww_WarmupBars :: int
  ww_TestBars :: int
  ww_StartTime :: time
  ww_EndTime :: time

datatype wf_error = WFFewCandles int int | WFNoFolds | WFFewForFolds int int int int | WFFold int paper_error

definition candleWindowEnd :: "candle list \<Rightarrow> time" where
  "candleWindowEnd cs =
     (if cs = [] then 0
      else let lst = k_OpenTime (last cs) in
        if length cs = 1 then lst
        else let step = lst - k_OpenTime (cs ! (length cs - 2)) in lst + (if step \<le> 0 then 1 else step))"

definition window_slice :: "nat \<Rightarrow> nat \<Rightarrow> 'a list \<Rightarrow> 'a list" where
  "window_slice a b xs = drop a (take b xs)"

definition newWalkForwardWindow :: "int \<Rightarrow> nat \<Rightarrow> nat \<Rightarrow> nat \<Rightarrow> candle list \<Rightarrow> wf_window" where
  "newWalkForwardWindow index warmupStart testStart stop cs =
     \<lparr>ww_Index = index, ww_WarmupStart = warmupStart, ww_TestStart = testStart, ww_End = stop,
      ww_WarmupBars = int testStart - int warmupStart, ww_TestBars = int stop - int testStart,
      ww_StartTime = k_OpenTime (cs ! warmupStart), ww_EndTime = candleWindowEnd (window_slice warmupStart stop cs)\<rparr>"

definition filterCandlesByTime :: "candle list \<Rightarrow> time \<Rightarrow> time \<Rightarrow> candle list" where
  "filterCandlesByTime cs start stop =
     (if is_zero_time start \<or> is_zero_time stop \<or> \<not> stop > start then cs
      else filter (\<lambda>c. \<not> (k_OpenTime c < start \<or> \<not> k_OpenTime c < stop)) cs)"

text \<open>Blocks of a fixed number of test bars; the last one may be shorter.\<close>

function block_windows :: "candle list \<Rightarrow> nat \<Rightarrow> nat \<Rightarrow> nat \<Rightarrow> int \<Rightarrow> wf_window list" where
  "block_windows cs warmup foldBars start index =
     (if start + warmup + 2 \<le> length cs then
        (let stop = min (start + (warmup + foldBars)) (length cs)
         in if stop \<le> start then []
            else newWalkForwardWindow index start (start + warmup) stop cs # block_windows cs warmup foldBars stop (index + 1))
      else [])"
  by pat_completeness auto
termination
  by (relation "measure (\<lambda>(cs, warmup, foldBars, start, index). length cs - start)") auto

declare block_windows.simps [simp del]

text \<open>A given number of blocks, the first ones a bar longer when the bars do not divide evenly.\<close>

fun even_windows :: "candle list \<Rightarrow> nat \<Rightarrow> nat \<Rightarrow> nat \<Rightarrow> nat \<Rightarrow> nat \<Rightarrow> nat \<Rightarrow> wf_window list" where
  "even_windows cs warmup base remainder start i 0 = []"
| "even_windows cs warmup base remainder start i (Suc n) =
     (let stop = start + (if i < remainder then base + 1 else base)
      in newWalkForwardWindow (int i + 1) start (start + warmup) stop cs # even_windows cs warmup base remainder stop (i + 1) n)"

definition wf_warmup :: "paper_config \<Rightarrow> nat" where
  "wf_warmup cfg = nat (if pp_WarmupBars cfg \<le> 0 then 30 else pp_WarmupBars cfg)"

definition wf_folds :: "wf_config \<Rightarrow> nat" where
  "wf_folds conf = nat (if wf_FoldCount conf \<le> 0 then 4 else wf_FoldCount conf)"

definition SplitWalkForwardFolds :: "candle list \<Rightarrow> paper_config \<Rightarrow> wf_config \<Rightarrow> wf_error + wf_window list" where
  "SplitWalkForwardFolds cs cfg conf =
     (let warmup = wf_warmup cfg; foldCount = wf_folds conf; minFoldBars = warmup + 2 in
      if length cs < minFoldBars then Inl (WFFewCandles (int minFoldBars) (int (length cs)))
      else if wf_FoldBars conf > 0 then
        (let ws = block_windows cs warmup (nat (wf_FoldBars conf)) 0 1 in if ws = [] then Inl WFNoFolds else Inr ws)
      else if length cs < foldCount * minFoldBars then
        Inl (WFFewForFolds (int (foldCount * minFoldBars)) (int foldCount) (int warmup) (int (length cs)))
      else Inr (even_windows cs warmup (length cs div foldCount) (length cs mod foldCount) 0 0 foldCount))"

section \<open>The validation\<close>

definition record_blocks :: "string \<times> int \<Rightarrow> diagnostics \<Rightarrow> diagnostics" where
  "record_blocks p d = (recordBlock (fst p) ^^ nat (snd p)) d"

definition add_diagnostics :: "diagnostics \<Rightarrow> diagnostics \<Rightarrow> diagnostics" where
  "add_diagnostics r d =
     fold record_blocks (dg_Blocked r)
       (d\<lparr>dg_ObservedBars := dg_ObservedBars d + dg_ObservedBars r, dg_SetupsFound := dg_SetupsFound d + dg_SetupsFound r,
          dg_BiasRejected := dg_BiasRejected d + dg_BiasRejected r\<rparr>)"

definition aggregate_fold :: "paper_config \<Rightarrow> wf_window \<times> paper_result \<Rightarrow> paper_result \<Rightarrow> paper_result" where
  "aggregate_fold cfg f agg =
     (let r = snd f in
      agg\<lparr>pu_Symbol := (if pu_Symbol agg = [] then pu_Symbol r else pu_Symbol agg),
          pu_Strategy := (if pu_Strategy agg = [] \<or> pu_Strategy agg = pp_Strategy cfg then pu_Strategy r else pu_Strategy agg),
          pu_Bars := pu_Bars agg + ww_TestBars (fst f), pu_Wins := pu_Wins agg + pu_Wins r, pu_Losses := pu_Losses agg + pu_Losses r,
          pu_State := (pu_State agg)\<lparr>cst_TradesClosed := cst_TradesClosed (pu_State agg) + cst_TradesClosed (pu_State r),
                                     cst_RealizedPnL := dec_Add (cst_RealizedPnL (pu_State agg)) (cst_RealizedPnL (pu_State r))\<rparr>,
          pu_Diagnostics := add_diagnostics (pu_Diagnostics r) (pu_Diagnostics agg),
          pu_MaxDrawdownUSDT := (if dec_Cmp (pu_MaxDrawdownUSDT r) (pu_MaxDrawdownUSDT agg) > 0 then pu_MaxDrawdownUSDT r else pu_MaxDrawdownUSDT agg)\<rparr>)"

definition aggregate_start :: "paper_config \<Rightarrow> paper_result" where
  "aggregate_start cfg =
     \<lparr>pu_Goal = pp_Goal cfg, pu_Symbol = pp_Symbol cfg, pu_Strategy = pp_Strategy cfg,
      pu_Bias = (case pp_Bias cfg of None \<Rightarrow> BiasBoth | Some b \<Rightarrow> b), pu_Bars = 0, pu_Trades = [],
      pu_State = \<lparr>cst_Goal = pp_Goal cfg, cst_RealizedPnL = dec_unset, cst_TradesClosed = 0\<rparr>, pu_Verdict = Continue, pu_Wins = 0,
      pu_Losses = 0, pu_WinRatePct = 0, pu_MaxDrawdownUSDT = dec_unset, pu_Diagnostics = no_diagnostics\<rparr>"

definition aggregateWalkForward :: "paper_config \<Rightarrow> (wf_window \<times> paper_result) list \<Rightarrow> paper_result" where
  "aggregateWalkForward cfg folds =
     (let agg = fold (aggregate_fold cfg) folds (aggregate_start cfg)
      in agg\<lparr>pu_WinRatePct := (if pu_Wins agg + pu_Losses agg > 0
                                then fmul (fdiv (of_int (pu_Wins agg)) (of_int (pu_Wins agg + pu_Losses agg))) 100 else pu_WinRatePct agg),
             pu_Verdict := campaign_Evaluate (pu_State agg), pu_Diagnostics := diagnostics_finalize (pu_Diagnostics agg)\<rparr>)"

definition fold_config :: "paper_config \<Rightarrow> wf_window \<Rightarrow> paper_config" where
  "fold_config cfg w =
     cfg\<lparr>pp_WarmupBars := ww_WarmupBars w, pp_PlanBars := ww_TestBars w,
         pp_MainCandles := (if pp_MainCandles cfg \<noteq> [] then filterCandlesByTime (pp_MainCandles cfg) (ww_StartTime w) (ww_EndTime w)
                            else pp_MainCandles cfg)\<rparr>"

fun run_folds :: "paper_config \<Rightarrow> candle list \<Rightarrow> wf_window list \<Rightarrow> wf_error + (wf_window \<times> paper_result) list" where
  "run_folds cfg cs [] = Inr []"
| "run_folds cfg cs (w # ws) =
     (case RunPaper (fold_config cfg w) (window_slice (ww_WarmupStart w) (ww_End w) cs) of
        Inl e \<Rightarrow> Inl (WFFold (ww_Index w) e)
      | Inr r \<Rightarrow> (case run_folds cfg cs ws of Inl e \<Rightarrow> Inl e | Inr rs \<Rightarrow> Inr ((w, r) # rs)))"

definition RunPaperWalkForward :: "paper_config \<Rightarrow> candle list \<Rightarrow> wf_config \<Rightarrow> wf_error + (wf_window \<times> paper_result) list \<times> paper_result" where
  "RunPaperWalkForward cfg cs conf =
     (case SplitWalkForwardFolds cs cfg conf of
        Inl e \<Rightarrow> Inl e
      | Inr ws \<Rightarrow> (case run_folds cfg cs ws of Inl e \<Rightarrow> Inl e | Inr folds \<Rightarrow> Inr (folds, aggregateWalkForward cfg folds)))"

section \<open>No fold sees another's test bars\<close>

text \<open>Windows that follow each other without a gap from \<open>start\<close>, each with its own warm-up and some test bars.\<close>

fun chained :: "candle list \<Rightarrow> nat \<Rightarrow> nat \<Rightarrow> wf_window list \<Rightarrow> bool" where
  "chained cs warmup start [] \<longleftrightarrow> True"
| "chained cs warmup start (w # ws) \<longleftrightarrow>
     ww_WarmupStart w = start \<and> ww_TestStart w = start + warmup \<and> ww_WarmupBars w = int warmup \<and>
     ww_TestBars w = int (ww_End w) - int (ww_TestStart w) \<and> ww_TestStart w < ww_End w \<and> ww_End w \<le> length cs \<and>
     chained cs warmup (ww_End w) ws"

lemma window_fields [simp]:
  "ww_Index (newWalkForwardWindow k a b c cs) = k" "ww_WarmupStart (newWalkForwardWindow k a b c cs) = a"
  "ww_TestStart (newWalkForwardWindow k a b c cs) = b" "ww_End (newWalkForwardWindow k a b c cs) = c"
  "ww_WarmupBars (newWalkForwardWindow k a b c cs) = int b - int a" "ww_TestBars (newWalkForwardWindow k a b c cs) = int c - int b"
  by (simp_all add: newWalkForwardWindow_def)

lemma block_windows_chained: "0 < foldBars \<Longrightarrow> chained cs warmup start (block_windows cs warmup foldBars start k)"
proof (induction cs warmup foldBars start k rule: block_windows.induct)
  case (1 cs warmup foldBars start k)
  show ?case
  proof (cases "start + warmup + 2 \<le> length cs")
    case True
    define stop where "stop = min (start + (warmup + foldBars)) (length cs)"
    have "start < stop" "start + warmup < stop" "stop \<le> length cs" using True 1(2) by (auto simp: stop_def)
    then show ?thesis
      using True 1(1) [OF True stop_def _ 1(2)]
      by (simp add: block_windows.simps [of cs warmup foldBars start k] Let_def stop_def [symmetric])
  qed (simp add: block_windows.simps [of cs warmup foldBars start k])
qed

definition even_pos :: "nat \<Rightarrow> nat \<Rightarrow> nat \<Rightarrow> nat" where
  "even_pos base remainder i = i * base + min i remainder"

lemma even_step: "even_pos base remainder i + (if i < remainder then base + 1 else base) = even_pos base remainder (Suc i)"
  by (simp add: even_pos_def)

lemma even_mono: "i \<le> j \<Longrightarrow> even_pos base remainder i \<le> even_pos base remainder j"
  by (auto simp: even_pos_def intro!: add_mono)

lemma even_windows_chained:
  assumes "even_pos base remainder (i + n) \<le> length cs" "warmup < base"
  shows "chained cs warmup (even_pos base remainder i) (even_windows cs warmup base remainder (even_pos base remainder i) i n) \<and>
    (n > 0 \<longrightarrow> even_windows cs warmup base remainder (even_pos base remainder i) i n \<noteq> [] \<and>
       ww_End (last (even_windows cs warmup base remainder (even_pos base remainder i) i n)) = even_pos base remainder (i + n))"
  using assms
proof (induction n arbitrary: i)
  case (Suc n)
  have stop: "even_pos base remainder i + (if i < remainder then base + 1 else base) = even_pos base remainder (Suc i)" by (rule even_step)
  have "even_pos base remainder (Suc i) \<le> length cs" using Suc.prems(1) even_mono [of "Suc i" "i + Suc n" base remainder] by linarith
  moreover have "even_pos base remainder i + warmup < even_pos base remainder (Suc i)" using Suc.prems(2) stop by (auto split: if_splits)
  ultimately show ?case using Suc.IH [of "Suc i"] Suc.prems unfolding even_windows.simps Let_def stop by (cases n) auto
qed simp

lemma even_pos_all: "0 < n \<Longrightarrow> even_pos (m div n) (m mod n) n = m"
  by (simp add: even_pos_def mult.commute min_absorb2 less_imp_le)

lemma split_chained:
  assumes "SplitWalkForwardFolds cs cfg conf = Inr ws"
  shows "ws \<noteq> [] \<and> chained cs (wf_warmup cfg) 0 ws \<and> (wf_FoldBars conf \<le> 0 \<longrightarrow> ww_End (last ws) = length cs)"
proof (cases "wf_FoldBars conf > 0")
  case True
  then show ?thesis
    using assms block_windows_chained [of "nat (wf_FoldBars conf)" cs "wf_warmup cfg" 0 1]
    by (auto simp: SplitWalkForwardFolds_def Let_def split: if_splits)
next
  case False
  let ?n = "wf_folds conf"
  have n: "0 < ?n" by (simp add: wf_folds_def)
  have len: "?n * (wf_warmup cfg + 2) \<le> length cs"
    and ws: "ws = even_windows cs (wf_warmup cfg) (length cs div ?n) (length cs mod ?n) 0 0 ?n"
    using assms False by (auto simp: SplitWalkForwardFolds_def Let_def split: if_splits)
  have "wf_warmup cfg + 2 \<le> length cs div ?n" using len n by (simp add: less_eq_div_iff_mult_less_eq mult.commute)
  then show ?thesis
    using even_windows_chained [of "length cs div ?n" "length cs mod ?n" 0 ?n cs "wf_warmup cfg"] even_pos_all [OF n, of "length cs"] n False
    by (simp add: ws) (simp add: even_pos_def)
qed

lemma run_folds_runs:
  "run_folds cfg cs ws = Inr folds \<Longrightarrow>
     map fst folds = ws \<and> (\<forall>f\<in>set folds. RunPaper (fold_config cfg (fst f)) (window_slice (ww_WarmupStart (fst f)) (ww_End (fst f)) cs) = Inr (snd f))"
  by (induction ws arbitrary: folds) (auto split: sum.splits)

lemma RunPaper_length: "RunPaper cfg cs = Inr r \<Longrightarrow> pp_WarmupBars (paper_defaults cfg) + 2 \<le> int (length cs)"
  by (auto simp: RunPaper_defs Let_def split: if_splits)

lemma chained_member:
  "chained cs warmup start ws \<Longrightarrow> w \<in> set ws \<Longrightarrow>
     start \<le> ww_WarmupStart w \<and> ww_TestStart w = ww_WarmupStart w + warmup \<and> ww_WarmupBars w = int warmup \<and>
     ww_TestBars w = int (ww_End w) - int (ww_TestStart w) \<and> ww_TestStart w < ww_End w \<and> ww_End w \<le> length cs"
  by (induction cs warmup start ws rule: chained.induct) auto

text \<open>The entries of a fold lie in its test window.\<close>

lemma fold_entries:
  assumes "chained cs warmup start ws" "w \<in> set ws" "0 < warmup"
    and run: "RunPaper (fold_config cfg w) (window_slice (ww_WarmupStart w) (ww_End w) cs) = Inr r"
  shows "2 \<le> ww_TestBars w \<and> (\<forall>t\<in>set (pu_Trades r).
    ww_TestStart w \<le> ww_WarmupStart w + pt_EntryIndex t \<and> ww_WarmupStart w + pt_EntryIndex t + 1 < ww_End w)"
proof -
  note w = chained_member [OF assms(1,2)]
  let ?c = "paper_defaults (fold_config cfg w)" and ?cs = "window_slice (ww_WarmupStart w) (ww_End w) cs"
  have c: "pp_WarmupBars ?c = int warmup" "pp_PlanBars ?c = ww_TestBars w"
    using w assms(3) by (auto simp: paper_defaults_def fold_config_def positive_int_or_def Let_def)
  have len: "length ?cs = ww_End w - ww_WarmupStart w" using w by (simp add: window_slice_def)
  have "first_bar ?c ?cs = warmup" using w len by (simp add: first_bar_def c)
  with RunPaper_ok(1) [OF run] have "\<forall>t\<in>set (pu_Trades r). warmup \<le> pt_EntryIndex t \<and> pt_EntryIndex t + 1 < length ?cs"
    by (auto simp: run_ok_def trade_ok_def)
  moreover have "2 \<le> ww_TestBars w" using RunPaper_length [OF run] w len by (simp add: c)
  ultimately show ?thesis using w len by force
qed

lemma add_diagnostics_state [simp]: "pu_State (agg\<lparr>pu_Diagnostics := d\<rparr>) = pu_State agg"
  by simp

lemma aggregate_sums:
  "cst_TradesClosed (pu_State (fold (aggregate_fold cfg) fs agg)) = cst_TradesClosed (pu_State agg) + (\<Sum>f\<leftarrow>fs. cst_TradesClosed (pu_State (snd f)))"
  "dval (cst_RealizedPnL (pu_State (fold (aggregate_fold cfg) fs agg))) =
     dval (cst_RealizedPnL (pu_State agg)) + (\<Sum>f\<leftarrow>fs. dval (cst_RealizedPnL (pu_State (snd f))))"
  "pu_Wins (fold (aggregate_fold cfg) fs agg) = pu_Wins agg + (\<Sum>f\<leftarrow>fs. pu_Wins (snd f))"
  "pu_Losses (fold (aggregate_fold cfg) fs agg) = pu_Losses agg + (\<Sum>f\<leftarrow>fs. pu_Losses (snd f))"
  "cst_Goal (pu_State (fold (aggregate_fold cfg) fs agg)) = cst_Goal (pu_State agg)"
  by (induction fs arbitrary: agg) (auto simp: aggregate_fold_def Let_def dec_simps)

text \<open>C31. A walk-forward validation does not leak. Its folds follow each other without a gap, each opens with its own
  warm-up, none reaches into the next, and the paper run of a fold is given the fold's candles only, so
  that every trade is entered within the fold's own test bars; the aggregate closes as many trades and
  realises as much as the folds together and is judged by the stop rules on that sum.\<close>
theorem walk_forward_no_leakage:
  assumes "RunPaperWalkForward cfg cs conf = Inr (folds, agg)"
  shows "folds \<noteq> [] \<and> chained cs (wf_warmup cfg) 0 (map fst folds) \<and>
    (wf_FoldBars conf \<le> 0 \<longrightarrow> ww_End (fst (last folds)) = length cs) \<and>
    (\<forall>f\<in>set folds. RunPaper (fold_config cfg (fst f)) (window_slice (ww_WarmupStart (fst f)) (ww_End (fst f)) cs) = Inr (snd f) \<and>
       2 \<le> ww_TestBars (fst f) \<and> (\<forall>t\<in>set (pu_Trades (snd f)).
         ww_TestStart (fst f) \<le> ww_WarmupStart (fst f) + pt_EntryIndex t \<and> ww_WarmupStart (fst f) + pt_EntryIndex t + 1 < ww_End (fst f))) \<and>
    cst_TradesClosed (pu_State agg) = (\<Sum>f\<leftarrow>folds. int (length (pu_Trades (snd f)))) \<and>
    pu_Wins agg + pu_Losses agg = cst_TradesClosed (pu_State agg) \<and>
    dval (cst_RealizedPnL (pu_State agg)) = (\<Sum>f\<leftarrow>folds. dval (cst_RealizedPnL (pu_State (snd f)))) \<and>
    pu_Verdict agg = campaign_Evaluate (pu_State agg)"
proof -
  obtain ws where ws: "SplitWalkForwardFolds cs cfg conf = Inr ws" "run_folds cfg cs ws = Inr folds" "agg = aggregateWalkForward cfg folds"
    using assms by (auto simp: RunPaperWalkForward_def split: sum.splits)
  note runs = run_folds_runs [OF ws(2)] and split = split_chained [OF ws(1)]
  have fst: "map fst folds = ws" using runs by simp
  have ne: "folds \<noteq> []" using split fst by auto
  have last: "fst (last folds) = last ws" using ne by (simp add: fst [symmetric] last_map)
  have pos: "0 < wf_warmup cfg" by (simp add: wf_warmup_def)
  have each: "\<forall>f\<in>set folds. 2 \<le> ww_TestBars (fst f) \<and> (\<forall>t\<in>set (pu_Trades (snd f)).
         ww_TestStart (fst f) \<le> ww_WarmupStart (fst f) + pt_EntryIndex t \<and> ww_WarmupStart (fst f) + pt_EntryIndex t + 1 < ww_End (fst f))"
  proof
    fix f assume f: "f \<in> set folds"
    then have "fst f \<in> set ws" using fst by force
    with fold_entries [of cs "wf_warmup cfg" 0 ws "fst f" cfg "snd f"] split runs f pos
    show "2 \<le> ww_TestBars (fst f) \<and> (\<forall>t\<in>set (pu_Trades (snd f)).
         ww_TestStart (fst f) \<le> ww_WarmupStart (fst f) + pt_EntryIndex t \<and> ww_WarmupStart (fst f) + pt_EntryIndex t + 1 < ww_End (fst f))" by blast
  qed
  have counts: "\<forall>f\<in>set folds. cst_TradesClosed (pu_State (snd f)) = int (length (pu_Trades (snd f))) \<and>
      pu_Wins (snd f) + pu_Losses (snd f) = int (length (pu_Trades (snd f)))"
  proof
    fix f assume "f \<in> set folds"
    then have "RunPaper (fold_config cfg (fst f)) (window_slice (ww_WarmupStart (fst f)) (ww_End (fst f)) cs) = Inr (snd f)" using runs by simp
    from RunPaper_ok(1) [OF this] sum_length_filter_compl [of pt_Win "pu_Trades (snd f)"]
    show "cst_TradesClosed (pu_State (snd f)) = int (length (pu_Trades (snd f))) \<and>
      pu_Wins (snd f) + pu_Losses (snd f) = int (length (pu_Trades (snd f)))"
      by (simp add: run_ok_def state_after_def flip: of_nat_add)
  qed
  then have sum: "(\<Sum>f\<leftarrow>folds. cst_TradesClosed (pu_State (snd f))) = (\<Sum>f\<leftarrow>folds. int (length (pu_Trades (snd f))))"
    "(\<Sum>f\<leftarrow>folds. pu_Wins (snd f) + pu_Losses (snd f)) = (\<Sum>f\<leftarrow>folds. int (length (pu_Trades (snd f))))"
    by (intro arg_cong [of _ _ sum_list] map_cong; simp)+
  have "cst_TradesClosed (pu_State agg) = (\<Sum>f\<leftarrow>folds. int (length (pu_Trades (snd f))))"
    "pu_Wins agg + pu_Losses agg = (\<Sum>f\<leftarrow>folds. int (length (pu_Trades (snd f))))"
    "dval (cst_RealizedPnL (pu_State agg)) = (\<Sum>f\<leftarrow>folds. dval (cst_RealizedPnL (pu_State (snd f))))"
    "pu_Verdict agg = campaign_Evaluate (pu_State agg)"
    using sum by (simp_all add: ws(3) aggregateWalkForward_def Let_def aggregate_sums aggregate_start_def sum_list_addf dec_simps)
  with ne split each fst last runs show ?thesis by simp
qed

lemma walk_forward_example:
  "case RunPaperWalkForward paper_config_ex (paper_candles_ex @ paper_candles_ex) \<lparr>wf_FoldCount = 2, wf_FoldBars = 0\<rparr> of
     Inr (folds, agg) \<Rightarrow> map (\<lambda>f. (ww_WarmupStart (fst f), ww_End (fst f), map pt_EntryIndex (pu_Trades (snd f)))) folds = [(0, 23, [20]), (23, 46, [20])]
   | _ \<Rightarrow> False"
  by code_simp

theorem walk_forward_no_leakage_witness:
  "\<exists>folds agg. RunPaperWalkForward paper_config_ex (paper_candles_ex @ paper_candles_ex) \<lparr>wf_FoldCount = 2, wf_FoldBars = 0\<rparr> = Inr (folds, agg) \<and>
     map (\<lambda>f. map pt_EntryIndex (pu_Trades (snd f))) folds = [[20], [20]] \<and> cst_TradesClosed (pu_State agg) = 2"
proof -
  obtain folds agg where r: "RunPaperWalkForward paper_config_ex (paper_candles_ex @ paper_candles_ex) \<lparr>wf_FoldCount = 2, wf_FoldBars = 0\<rparr> = Inr (folds, agg)"
    and f: "map (\<lambda>f. (ww_WarmupStart (fst f), ww_End (fst f), map pt_EntryIndex (pu_Trades (snd f)))) folds = [(0, 23, [20]), (23, 46, [20])]"
    using walk_forward_example by (auto split: sum.splits)
  have "\<exists>a b x y. folds = [a, b] \<and> pu_Trades (snd a) = [x] \<and> pu_Trades (snd b) = [y] \<and> pt_EntryIndex x = 20 \<and> pt_EntryIndex y = 20" using f by auto
  then obtain a b x y where "folds = [a, b]" "pu_Trades (snd a) = [x]" "pu_Trades (snd b) = [y]" "pt_EntryIndex x = 20" "pt_EntryIndex y = 20" by blast
  with walk_forward_no_leakage [OF r] r show ?thesis by simp
qed

end
