(* ===== verification/Credentials.thy ===== *)
theory Credentials
  imports Go_Text
begin

text \<open>
  \<open>internal/auth\<close> (\<open>credentials.go\<close>, \<open>crypto.go\<close>) and \<open>internal/storage/mongo/credentials.go\<close>: a user's
  encrypted exchange keys in named profiles, one of which is active. The AEAD cipher of the standard
  library and the MongoDB driver are arguments; a driver call that fails answers \<open>Some\<close> error, and what
  it answers when it succeeds is a law of the locale \<open>cred_driver\<close>.
\<close>

section \<open>Sealed values\<close>

record sealed =
  sl_KeyID :: string
  sl_Nonce :: string
  sl_Ciphertext :: string

text \<open>An AEAD: the nonce size, \<open>Seal\<close> and \<open>Open\<close>.\<close>

record aead =
  ad_NonceSize :: nat
  ad_Seal :: "string \<Rightarrow> string \<Rightarrow> string"
  ad_Open :: "string \<Rightarrow> string \<Rightarrow> string option"

record keyring =
  kr_ciphers :: "string \<Rightarrow> aead option"
  kr_activeID :: string

definition NewKeyring :: "(string \<Rightarrow> aead) \<Rightarrow> (string \<times> string) list \<Rightarrow> string \<Rightarrow> string + keyring" where
  "NewKeyring cipher keys activeID =
     (if keys = [] then Inl ''auth: at least one master key is required''
      else if map_of keys activeID = None then Inl (''auth: active key id '' @ activeID @ '' is not in the keyring'')
      else if list_ex (\<lambda>(_, key). length key \<noteq> 32) keys then Inl ''auth: master key must be 32 bytes''
      else Inr \<lparr>kr_ciphers = map_option cipher \<circ> map_of keys, kr_activeID = activeID\<rparr>)"

text \<open>\<open>nonce\<close> is what the random source yields, \<open>Inl\<close> when it fails. The active key is always in the ring.\<close>

definition Encrypt :: "keyring \<Rightarrow> string + string \<Rightarrow> string \<Rightarrow> string + sealed" where
  "Encrypt k nonce plaintext =
     (case (nonce, kr_ciphers k (kr_activeID k)) of
        (Inr n, Some a) \<Rightarrow> Inr \<lparr>sl_KeyID = kr_activeID k, sl_Nonce = n, sl_Ciphertext = ad_Seal a n plaintext\<rparr>
      | (Inl e, _) \<Rightarrow> Inl (''auth: read nonce: '' @ e)
      | (_, None) \<Rightarrow> Inl ''nil cipher'')"

definition Decrypt :: "keyring \<Rightarrow> sealed \<Rightarrow> string + string" where
  "Decrypt k s =
     (case kr_ciphers k (sl_KeyID s) of
        None \<Rightarrow> Inl (''auth: unknown key id '' @ sl_KeyID s)
      | Some a \<Rightarrow>
          if length (sl_Nonce s) \<noteq> ad_NonceSize a then Inl ''auth: nonce size''
          else (case ad_Open a (sl_Nonce s) (sl_Ciphertext s) of None \<Rightarrow> Inl ''auth: decrypt'' | Some p \<Rightarrow> Inr p))"

section \<open>Profiles and their repository\<close>

record binance_keys =
  bk_APIKey :: string
  bk_APISecret :: string
  bk_Testnet :: bool

record credential =
  cr_UserID :: string
  cr_Profile :: string
  cr_APIKey :: sealed
  cr_APISecret :: sealed
  cr_Testnet :: bool
  cr_Active :: bool

record profile_info =
  pi_Profile :: string
  pi_Testnet :: bool
  pi_Active :: bool
  pi_APIKeyTail :: string

datatype cred_error = CredError string | ErrNoCredential

record 's cred_repo =
  rp_Save :: "credential \<Rightarrow> 's \<Rightarrow> string option \<times> 's"
  rp_List :: "string \<Rightarrow> 's \<Rightarrow> string + credential list"
  rp_FindActive :: "string \<Rightarrow> 's \<Rightarrow> cred_error + credential"
  rp_Remove :: "string \<Rightarrow> string \<Rightarrow> 's \<Rightarrow> string option \<times> 's"
  rp_SetActive :: "string \<Rightarrow> string \<Rightarrow> 's \<Rightarrow> string option \<times> 's"

section \<open>The service\<close>

definition normalizeProfile :: "string \<Rightarrow> string" where
  "normalizeProfile profile = (let p = to_lower (trim_space profile) in if p = [] then ''default'' else p)"

text \<open>\<open>nonces\<close> are the two random nonces a call draws.\<close>

definition StoreProfile ::
    "keyring \<Rightarrow> 's cred_repo \<Rightarrow> (nat \<Rightarrow> string + string) \<Rightarrow> string \<Rightarrow> string \<Rightarrow> binance_keys \<Rightarrow> 's \<Rightarrow> string option \<times> 's" where
  "StoreProfile kr rp nonces userID profile keys s =
     (if trim_space userID = [] then (Some ''auth: user id is required'', s)
      else let profile = normalizeProfile profile in
      if trim_space (bk_APIKey keys) = [] \<or> trim_space (bk_APISecret keys) = [] then (Some ''auth: api key and secret are required'', s)
      else case rp_List rp userID s of
        Inl e \<Rightarrow> (Some e, s)
      | Inr existing \<Rightarrow>
          let active = (existing = [] \<or> list_ex (\<lambda>c. cr_Profile c = profile \<and> cr_Active c) existing)
          in case Encrypt kr (nonces 0) (bk_APIKey keys) of
            Inl e \<Rightarrow> (Some (''auth: seal api key: '' @ e), s)
          | Inr sealedKey \<Rightarrow>
              (case Encrypt kr (nonces 1) (bk_APISecret keys) of
                 Inl e \<Rightarrow> (Some (''auth: seal api secret: '' @ e), s)
               | Inr sealedSecret \<Rightarrow>
                   (case rp_Save rp \<lparr>cr_UserID = userID, cr_Profile = profile, cr_APIKey = sealedKey, cr_APISecret = sealedSecret,
                           cr_Testnet = bk_Testnet keys, cr_Active = active\<rparr> s of
                      (Some e, s) \<Rightarrow> (Some e, s)
                    | (None, s) \<Rightarrow> if active then rp_SetActive rp userID profile s else (None, s))))"

definition credentials_Load :: "keyring \<Rightarrow> 's cred_repo \<Rightarrow> string \<Rightarrow> 's \<Rightarrow> cred_error + binance_keys" where
  "credentials_Load kr rp userID s =
     (case rp_FindActive rp userID s of
        Inl e \<Rightarrow> Inl e
      | Inr cred \<Rightarrow>
          (case Decrypt kr (cr_APIKey cred) of
             Inl e \<Rightarrow> Inl (CredError (''auth: open api key: '' @ e))
           | Inr apiKey \<Rightarrow>
               (case Decrypt kr (cr_APISecret cred) of
                  Inl e \<Rightarrow> Inl (CredError (''auth: open api secret: '' @ e))
                | Inr apiSecret \<Rightarrow> Inr \<lparr>bk_APIKey = apiKey, bk_APISecret = apiSecret, bk_Testnet = cr_Testnet cred\<rparr>)))"

definition ellipsis :: string where
  "ellipsis = [CHR 0xE2, CHR 0x80, CHR 0xA6]"

definition maskKeyTail :: "string \<Rightarrow> string" where
  "maskKeyTail apiKey =
     (let k = trim_space apiKey in if length k \<le> 4 then ''set'' else ellipsis @ drop (length k - 4) k)"

definition Profiles :: "keyring \<Rightarrow> 's cred_repo \<Rightarrow> string \<Rightarrow> 's \<Rightarrow> string + profile_info list" where
  "Profiles kr rp userID s =
     (case rp_List rp userID s of
        Inl e \<Rightarrow> Inl e
      | Inr creds \<Rightarrow> Inr (map (\<lambda>c. \<lparr>pi_Profile = cr_Profile c, pi_Testnet = cr_Testnet c, pi_Active = cr_Active c,
          pi_APIKeyTail = (case Decrypt kr (cr_APIKey c) of Inl _ \<Rightarrow> [] | Inr k \<Rightarrow> maskKeyTail k)\<rparr>) creds))"

definition service_SetActive :: "'s cred_repo \<Rightarrow> string \<Rightarrow> string \<Rightarrow> 's \<Rightarrow> string option \<times> 's" where
  "service_SetActive rp userID profile s = rp_SetActive rp userID (normalizeProfile profile) s"

definition DeleteProfile :: "'s cred_repo \<Rightarrow> string \<Rightarrow> string \<Rightarrow> 's \<Rightarrow> string option \<times> 's" where
  "DeleteProfile rp userID profile s =
     (case rp_Remove rp userID (trim_space profile) s of
        (Some e, s) \<Rightarrow> (Some e, s)
      | (None, s) \<Rightarrow>
          (case rp_List rp userID s of
             Inl e \<Rightarrow> (Some e, s)
           | Inr [] \<Rightarrow> (None, s)
           | Inr (c # cs) \<Rightarrow> if list_ex cr_Active (c # cs) then (None, s) else rp_SetActive rp userID (cr_Profile c) s))"

fun remove_all :: "'s cred_repo \<Rightarrow> string \<Rightarrow> credential list \<Rightarrow> 's \<Rightarrow> string option \<times> 's" where
  "remove_all rp userID [] s = (None, s)"
| "remove_all rp userID (c # cs) s =
     (case rp_Remove rp userID (cr_Profile c) s of (Some e, s) \<Rightarrow> (Some e, s) | (None, s) \<Rightarrow> remove_all rp userID cs s)"

definition credentials_Delete :: "'s cred_repo \<Rightarrow> string \<Rightarrow> 's \<Rightarrow> string option \<times> 's" where
  "credentials_Delete rp userID s =
     (case rp_List rp userID s of Inl e \<Rightarrow> (Some e, s) | Inr creds \<Rightarrow> remove_all rp userID creds s)"

section \<open>The MongoDB repository\<close>

record 'c cred_driver =
  cd_ReplaceOne :: "(credential \<Rightarrow> bool) \<Rightarrow> credential \<Rightarrow> 'c \<Rightarrow> string option \<times> 'c"
  cd_Find :: "(credential \<Rightarrow> bool) \<Rightarrow> 'c \<Rightarrow> string + credential list"
  cd_DeleteOne :: "(credential \<Rightarrow> bool) \<Rightarrow> 'c \<Rightarrow> string option \<times> 'c"
  cd_UpdateMany :: "(credential \<Rightarrow> bool) \<Rightarrow> (credential \<Rightarrow> credential) \<Rightarrow> 'c \<Rightarrow> string option \<times> 'c"
  cd_UpdateOne :: "(credential \<Rightarrow> bool) \<Rightarrow> (credential \<Rightarrow> credential) \<Rightarrow> 'c \<Rightarrow> string option \<times> 'c"

text \<open>A document without the profile field decodes to the empty name.\<close>

definition profileFilter :: "string \<Rightarrow> string \<Rightarrow> credential \<Rightarrow> bool" where
  "profileFilter userID profile c \<longleftrightarrow> cr_UserID c = userID \<and> cr_Profile c = profile"

definition gcr_Save :: "'c cred_driver \<Rightarrow> credential \<Rightarrow> 'c \<Rightarrow> string option \<times> 'c" where
  "gcr_Save d cred s =
     (case cd_ReplaceOne d (\<lambda>c. cr_UserID c = cr_UserID cred \<and> cr_Profile c = cr_Profile cred) cred s of
        (Some e, s) \<Rightarrow> (Some (''save credential: '' @ e), s) | (None, s) \<Rightarrow> (None, s))"

definition gcr_List :: "'c cred_driver \<Rightarrow> string \<Rightarrow> 'c \<Rightarrow> string + credential list" where
  "gcr_List d userID s =
     (case cd_Find d (\<lambda>c. cr_UserID c = userID) s of Inl e \<Rightarrow> Inl (''list credentials: '' @ e) | Inr cs \<Rightarrow> Inr cs)"

definition gcr_FindActive :: "'c cred_driver \<Rightarrow> string \<Rightarrow> 'c \<Rightarrow> cred_error + credential" where
  "gcr_FindActive d userID s =
     (case cd_Find d (\<lambda>c. cr_UserID c = userID \<and> cr_Active c) s of
        Inl e \<Rightarrow> Inl (CredError (''find active credential: '' @ e))
      | Inr [] \<Rightarrow> Inl ErrNoCredential
      | Inr (c # _) \<Rightarrow> Inr c)"

definition gcr_Remove :: "'c cred_driver \<Rightarrow> string \<Rightarrow> string \<Rightarrow> 'c \<Rightarrow> string option \<times> 'c" where
  "gcr_Remove d userID profile s =
     (case cd_DeleteOne d (profileFilter userID profile) s of
        (Some e, s) \<Rightarrow> (Some (''remove credential: '' @ e), s) | (None, s) \<Rightarrow> (None, s))"

definition gcr_SetActive :: "'c cred_driver \<Rightarrow> string \<Rightarrow> string \<Rightarrow> 'c \<Rightarrow> string option \<times> 'c" where
  "gcr_SetActive d userID profile s =
     (case cd_UpdateMany d (\<lambda>c. cr_UserID c = userID) (\<lambda>c. c\<lparr>cr_Active := False\<rparr>) s of
        (Some e, s) \<Rightarrow> (Some (''clear active credential: '' @ e), s)
      | (None, s) \<Rightarrow>
          (case cd_UpdateOne d (profileFilter userID profile) (\<lambda>c. c\<lparr>cr_Active := True\<rparr>) s of
             (Some e, s) \<Rightarrow> (Some (''set active credential: '' @ e), s) | (None, s) \<Rightarrow> (None, s)))"

definition mongo_credentials :: "'c cred_driver \<Rightarrow> 'c cred_repo" where
  "mongo_credentials d =
     \<lparr>rp_Save = gcr_Save d, rp_List = gcr_List d, rp_FindActive = gcr_FindActive d, rp_Remove = gcr_Remove d, rp_SetActive = gcr_SetActive d\<rparr>"

section \<open>The contract of the repository\<close>

text \<open>The documents are keyed by user and profile; \<open>cred_at\<close> is the map of one user's profiles.\<close>

definition set_active :: "string \<Rightarrow> (string \<Rightarrow> credential option) \<Rightarrow> string \<Rightarrow> credential option" where
  "set_active p m = (\<lambda>q. map_option (\<lambda>c. c\<lparr>cr_Active := (q = p)\<rparr>) (m q))"

lemma ran_empty_iff: "ran m = {} \<longleftrightarrow> m = Map.empty"
  by (auto simp: ran_def fun_eq_iff) (meson not_None_eq)

text \<open>A user has no profile, or exactly one active profile.\<close>

definition one_active :: "(string \<Rightarrow> credential option) \<Rightarrow> bool" where
  "one_active m \<longleftrightarrow> m = Map.empty \<or> (\<exists>!p. \<exists>c. m p = Some c \<and> cr_Active c)"

locale credential_repo =
  fixes rp :: "'s cred_repo" and creds :: "'s \<Rightarrow> string \<Rightarrow> string \<Rightarrow> credential option"
  assumes save: "rp_Save rp c s = (None, s') \<Longrightarrow> creds s' (cr_UserID c) = (creds s (cr_UserID c))(cr_Profile c \<mapsto> c)"
    and list: "rp_List rp u s = Inr cs \<Longrightarrow> set cs = ran (creds s u)"
    and named: "creds s u p = Some c \<Longrightarrow> cr_Profile c = p"
    and find: "rp_FindActive rp u s = Inr c \<Longrightarrow> c \<in> ran (creds s u) \<and> cr_Active c"
    and remove: "rp_Remove rp u p s = (None, s') \<Longrightarrow> creds s' u = (creds s u)(p := None)"
    and activate: "rp_SetActive rp u p s = (None, s') \<Longrightarrow> creds s' u = set_active p (creds s u)"
begin

lemma activate_one:
  assumes "rp_SetActive rp u p s = (None, s')" "creds s u p \<noteq> None"
  shows "one_active (creds s' u)"
proof -
  obtain c where c: "creds s u p = Some c" using assms(2) by blast
  have "\<exists>!q. \<exists>c. set_active p (creds s u) q = Some c \<and> cr_Active c"
    by (rule ex1I [of _ p]) (use c in \<open>auto simp: set_active_def\<close>)
  then show ?thesis by (simp add: one_active_def activate [OF assms(1)])
qed

lemma store_one_active:
  assumes "StoreProfile kr rp nonces u p keys s = (None, s')" and "one_active (creds s u)"
  shows "one_active (creds s' u)"
proof -
  let ?p = "normalizeProfile p"
  obtain existing sk ss where l: "rp_List rp u s = Inr existing" "Encrypt kr (nonces 0) (bk_APIKey keys) = Inr sk"
      "Encrypt kr (nonces 1) (bk_APISecret keys) = Inr ss"
    using assms(1) by (auto simp: StoreProfile_def Let_def split: if_splits sum.splits)
  define active where "active \<longleftrightarrow> existing = [] \<or> list_ex (\<lambda>c. cr_Profile c = ?p \<and> cr_Active c) existing"
  define cred where "cred = \<lparr>cr_UserID = u, cr_Profile = ?p, cr_APIKey = sk, cr_APISecret = ss, cr_Testnet = bk_Testnet keys, cr_Active = active\<rparr>"
  obtain s1 where s1: "rp_Save rp cred s = (None, s1)" "(if active then rp_SetActive rp u ?p s1 else (None, s1)) = (None, s')"
    using assms(1) l unfolding StoreProfile_def Let_def active_def cred_def by (auto split: if_splits prod.splits option.splits)
  have c1: "creds s1 u = (creds s u)(?p \<mapsto> cred)" using save [OF s1(1)] by (simp add: cred_def)
  show ?thesis
  proof (cases active)
    case True
    then show ?thesis using s1(2) c1 by (intro activate_one [of u ?p s1]) auto
  next
    case False
    then obtain c0 where "c0 \<in> set existing" by (cases existing) (auto simp: active_def)
    then have "creds s u \<noteq> Map.empty" using list [OF l(1)] by (auto simp: ran_def)
    then obtain q where q: "\<exists>c. creds s u q = Some c \<and> cr_Active c" "\<And>r. \<exists>c. creds s u r = Some c \<and> cr_Active c \<Longrightarrow> r = q"
      using assms(2) unfolding one_active_def by blast
    have "\<not> (\<exists>c. creds s u ?p = Some c \<and> cr_Active c)"
    proof
      assume "\<exists>c. creds s u ?p = Some c \<and> cr_Active c"
      then obtain c where c: "creds s u ?p = Some c" "cr_Active c" by blast
      then have "c \<in> ran (creds s u)" "cr_Profile c = ?p" using named by (auto intro: ranI)
      then have "c \<in> set existing" "cr_Profile c = ?p" using list [OF l(1)] by simp_all
      then have "list_ex (\<lambda>c. cr_Profile c = ?p \<and> cr_Active c) existing" using c(2) by (auto simp: list_ex_iff)
      then show False using False by (simp add: active_def)
    qed
    then have "q \<noteq> ?p" using q(1) by auto
    have "\<not> cr_Active cred" using False by (simp add: cred_def)
    then have other: "r \<noteq> ?p" if "\<exists>c. creds s1 u r = Some c \<and> cr_Active c" for r
      using that by (auto simp: c1)
    have "\<exists>!r. \<exists>c. creds s1 u r = Some c \<and> cr_Active c"
    proof (rule ex1I [of _ q])
      show "\<exists>c. creds s1 u q = Some c \<and> cr_Active c" using q(1) \<open>q \<noteq> ?p\<close> by (simp add: c1)
      show "r = q" if "\<exists>c. creds s1 u r = Some c \<and> cr_Active c" for r
        using other [OF that] that by (intro q(2)) (simp add: c1)
    qed
    then show ?thesis using s1(2) False by (simp add: one_active_def)
  qed
qed

lemma delete_one_active:
  assumes "DeleteProfile rp u p s = (None, s')" and "one_active (creds s u)"
  shows "one_active (creds s' u)"
proof -
  obtain s1 cs where s1: "rp_Remove rp u (trim_space p) s = (None, s1)" "rp_List rp u s1 = Inr cs"
    using assms(1) by (auto simp: DeleteProfile_def split: prod.splits option.splits sum.splits)
  have c1: "creds s1 u = (creds s u)(trim_space p := None)" by (rule remove [OF s1(1)])
  show ?thesis
  proof (cases cs)
    case Nil
    then have "creds s1 u = Map.empty" using list [OF s1(2)] by (simp flip: ran_empty_iff)
    then show ?thesis using assms(1) s1 Nil by (simp add: DeleteProfile_def one_active_def)
  next
    case (Cons c rest1)
    have mem: "c \<in> ran (creds s1 u)" using list [OF s1(2)] Cons by auto
    then have prof: "creds s1 u (cr_Profile c) = Some c" using named by (auto simp: ran_def)
    show ?thesis
    proof (cases "list_ex cr_Active cs")
      case True
      then obtain a where "a \<in> ran (creds s1 u)" "cr_Active a" using list [OF s1(2)] by (auto simp: list_ex_iff)
      then obtain q where q: "creds s1 u q = Some a" "cr_Active a" by (auto simp: ran_def)
      then have "creds s u \<noteq> Map.empty" using c1 by (auto split: if_splits)
      then have "\<exists>!r. \<exists>c. creds s u r = Some c \<and> cr_Active c" using assms(2) by (simp add: one_active_def)
      then have "\<exists>!r. \<exists>c. creds s1 u r = Some c \<and> cr_Active c"
        using q unfolding c1 by (intro ex1I [of _ q]) (auto split: if_splits)
      then show ?thesis using assms(1) s1 Cons True by (simp add: DeleteProfile_def one_active_def)
    next
      case False
      then have "rp_SetActive rp u (cr_Profile c) s1 = (None, s')" using assms(1) s1 Cons by (simp add: DeleteProfile_def)
      then show ?thesis using prof by (intro activate_one) auto
    qed
  qed
qed

lemma unknown_profile:
  assumes "service_SetActive rp u p s = (None, s')" and "creds s u (normalizeProfile p) = None"
  shows "\<forall>c\<in>ran (creds s' u). \<not> cr_Active c"
  using activate [OF assms(1) [unfolded service_SetActive_def]] assms(2) by (auto simp: set_active_def ran_def)

lemma store_first_loads:
  assumes "StoreProfile kr rp nonces u p keys s = (None, s')" and "creds s u = Map.empty"
    and "credentials_Load kr rp u s' = Inr keys'"
    and "\<And>a n m. kr_ciphers kr (kr_activeID kr) = Some a \<Longrightarrow> length n = ad_NonceSize a \<Longrightarrow> ad_Open a n (ad_Seal a n m) = Some m"
  shows "keys' = keys"
proof -
  let ?p = "normalizeProfile p"
  obtain existing sk ss where l: "rp_List rp u s = Inr existing" "Encrypt kr (nonces 0) (bk_APIKey keys) = Inr sk"
      "Encrypt kr (nonces 1) (bk_APISecret keys) = Inr ss"
    using assms(1) by (auto simp: StoreProfile_def Let_def split: if_splits sum.splits)
  have e: "existing = []" using list [OF l(1)] assms(2) by simp
  define cred where "cred = \<lparr>cr_UserID = u, cr_Profile = ?p, cr_APIKey = sk, cr_APISecret = ss, cr_Testnet = bk_Testnet keys, cr_Active = True\<rparr>"
  obtain s1 where s1: "rp_Save rp cred s = (None, s1)" "rp_SetActive rp u ?p s1 = (None, s')"
    using assms(1) l e unfolding StoreProfile_def Let_def cred_def by (auto split: if_splits prod.splits option.splits)
  have "creds s' u = [?p \<mapsto> cred]"
    using save [OF s1(1)] activate [OF s1(2)] assms(2) by (auto simp: cred_def set_active_def)
  moreover obtain c where c: "rp_FindActive rp u s' = Inr c" using assms(3) by (auto simp: credentials_Load_def split: sum.splits)
  ultimately have "c = cred" using find [OF c] by (auto simp: ran_def split: if_splits)
  have d: "Decrypt kr x = Inr m' \<Longrightarrow> m' = m" if "Encrypt kr n m = Inr x" for n m x m'
    using that assms(4) by (auto simp: Encrypt_def Decrypt_def split: sum.splits option.splits if_splits)
  show ?thesis
    using assms(3) d [OF l(2)] d [OF l(3)] unfolding credentials_Load_def c \<open>c = cred\<close> cred_def
    by (cases keys; cases keys') (auto split: sum.splits)
qed

end


section \<open>The driver and the repository on it\<close>

text \<open>
  What the code relies on of the driver: the unique index keys the documents by user and profile, and a
  call that reports success has done what MongoDB documents of it; a failed call may have done anything.
\<close>

definition cred_key :: "credential \<Rightarrow> string \<times> string" where
  "cred_key c = (cr_UserID c, cr_Profile c)"

definition upd_matching :: "(credential \<Rightarrow> bool) \<Rightarrow> (credential \<Rightarrow> credential option) \<Rightarrow> ('k \<Rightarrow> credential option) \<Rightarrow> 'k \<Rightarrow> credential option" where
  "upd_matching p f m = (\<lambda>k. case m k of None \<Rightarrow> None | Some c \<Rightarrow> if p c then f c else Some c)"

definition single :: "(credential \<Rightarrow> bool) \<Rightarrow> (string \<times> string) \<Rightarrow> bool" where
  "single p k \<longleftrightarrow> (\<forall>c. p c \<longrightarrow> cred_key c = k)"

locale cred_driver =
  fixes d :: "'c cred_driver" and docs :: "'c \<Rightarrow> string \<times> string \<Rightarrow> credential option"
  assumes keyed: "docs s k = Some c \<Longrightarrow> cred_key c = k"
    and replace: "cd_ReplaceOne d p c s = (None, s') \<Longrightarrow> single p (cred_key c) \<Longrightarrow> docs s' = (docs s)(cred_key c \<mapsto> c)"
    and find: "cd_Find d p s = Inr cs \<Longrightarrow> set cs = {c \<in> ran (docs s). p c}"
    and delete_one: "cd_DeleteOne d p s = (None, s') \<Longrightarrow> single p k \<Longrightarrow> docs s' = upd_matching p (\<lambda>_. None) (docs s)"
    and update_many: "cd_UpdateMany d p f s = (None, s') \<Longrightarrow> (\<And>c. cred_key (f c) = cred_key c) \<Longrightarrow>
      docs s' = upd_matching p (\<lambda>c. Some (f c)) (docs s)"
    and update_one: "cd_UpdateOne d p f s = (None, s') \<Longrightarrow> (\<And>c. cred_key (f c) = cred_key c) \<Longrightarrow> single p k \<Longrightarrow>
      docs s' = upd_matching p (\<lambda>c. Some (f c)) (docs s)"

lemma single_profile: "single (profileFilter u p) (u, p)" "single (\<lambda>c. cr_UserID c = u \<and> cr_Profile c = p) (u, p)"
  by (auto simp: single_def profileFilter_def cred_key_def)

context cred_driver
begin

lemma mongo_repo: "credential_repo (mongo_credentials d) (\<lambda>s u p. docs s (u, p))"
proof
  show "rp_Save (mongo_credentials d) c s = (None, s') \<Longrightarrow>
      (\<lambda>p. docs s' (cr_UserID c, p)) = (\<lambda>p. docs s (cr_UserID c, p))(cr_Profile c \<mapsto> c)" for c s s'
    using replace [OF _ single_profile(2) [of "cr_UserID c" "cr_Profile c", folded cred_key_def]]
    by (fastforce simp: mongo_credentials_def gcr_Save_def cred_key_def split: prod.splits option.splits)
  show "rp_List (mongo_credentials d) u s = Inr cs \<Longrightarrow> set cs = ran (\<lambda>p. docs s (u, p))" for u s cs
    using find keyed by (fastforce simp: mongo_credentials_def gcr_List_def ran_def cred_key_def split: sum.splits)
  show "docs s (u, p) = Some c \<Longrightarrow> cr_Profile c = p" for s u p c
    using keyed by (fastforce simp: cred_key_def)
  show "rp_FindActive (mongo_credentials d) u s = Inr c \<Longrightarrow> c \<in> ran (\<lambda>p. docs s (u, p)) \<and> cr_Active c" for u s c
  proof -
    assume "rp_FindActive (mongo_credentials d) u s = Inr c"
    then obtain cs where "cd_Find d (\<lambda>c. cr_UserID c = u \<and> cr_Active c) s = Inr (c # cs)"
      by (auto simp: mongo_credentials_def gcr_FindActive_def split: sum.splits list.splits)
    from find [OF this] have "c \<in> ran (docs s)" "cr_UserID c = u" "cr_Active c" by auto
    then show ?thesis using keyed by (fastforce simp: ran_def cred_key_def)
  qed
  show "rp_Remove (mongo_credentials d) u p s = (None, s') \<Longrightarrow> (\<lambda>q. docs s' (u, q)) = (\<lambda>q. docs s (u, q))(p := None)" for u p s s'
  proof -
    assume "rp_Remove (mongo_credentials d) u p s = (None, s')"
    then have "cd_DeleteOne d (profileFilter u p) s = (None, s')"
      by (auto simp: mongo_credentials_def gcr_Remove_def split: prod.splits option.splits)
    from delete_one [OF this single_profile(1)] have "docs s' (u, q) = ((\<lambda>q. docs s (u, q))(p := None)) q" for q
      using keyed [of s "(u, q)"] by (cases "docs s (u, q)") (simp_all add: upd_matching_def profileFilter_def cred_key_def)
    then show ?thesis by (rule ext)
  qed
  show "rp_SetActive (mongo_credentials d) u p s = (None, s') \<Longrightarrow> (\<lambda>q. docs s' (u, q)) = set_active p (\<lambda>q. docs s (u, q))" for u p s s'
  proof -
    assume "rp_SetActive (mongo_credentials d) u p s = (None, s')"
    then obtain s1 where s1: "cd_UpdateMany d (\<lambda>c. cr_UserID c = u) (\<lambda>c. c\<lparr>cr_Active := False\<rparr>) s = (None, s1)"
        "cd_UpdateOne d (profileFilter u p) (\<lambda>c. c\<lparr>cr_Active := True\<rparr>) s1 = (None, s')"
      by (auto simp: mongo_credentials_def gcr_SetActive_def split: prod.splits option.splits)
    have "docs s1 = upd_matching (\<lambda>c. cr_UserID c = u) (\<lambda>c. Some (c\<lparr>cr_Active := False\<rparr>)) (docs s)"
      by (rule update_many [OF s1(1)]) (simp add: cred_key_def)
    moreover have "docs s' = upd_matching (profileFilter u p) (\<lambda>c. Some (c\<lparr>cr_Active := True\<rparr>)) (docs s1)"
      by (rule update_one [OF s1(2) _ single_profile(1)]) (simp add: cred_key_def)
    ultimately have "docs s' (u, q) = set_active p (\<lambda>q. docs s (u, q)) q" for q
      using keyed [of s "(u, q)"]
      by (cases "docs s (u, q)") (simp_all add: upd_matching_def set_active_def profileFilter_def cred_key_def)
    then show ?thesis by (rule ext)
  qed
qed

end

sublocale cred_driver \<subseteq> mongo: credential_repo "mongo_credentials d" "\<lambda>s u p. docs s (u, p)"
  by (rule mongo_repo)

text \<open>A server as the maps of its documents and the order they were inserted in.\<close>

type_synonym cred_map = "(string \<times> string) list \<times> (string \<times> string \<Rightarrow> credential option)"

definition cred_view :: "cred_map \<Rightarrow> string \<times> string \<Rightarrow> credential option" where
  "cred_view s k = (if k \<in> set (fst s) then (case snd s k of None \<Rightarrow> None | Some c \<Rightarrow> if cred_key c = k then Some c else None) else None)"

definition map_creds :: "cred_map cred_driver" where
  "map_creds =
     \<lparr>cd_ReplaceOne = (\<lambda>p c s. (None, (fst s @ [cred_key c], (cred_view s)(cred_key c \<mapsto> c)))),
      cd_Find = (\<lambda>p s. Inr (concat (map (\<lambda>k. case cred_view s k of None \<Rightarrow> [] | Some c \<Rightarrow> if p c then [c] else []) (remdups (fst s))))),
      cd_DeleteOne = (\<lambda>p s. (None, (fst s, upd_matching p (\<lambda>_. None) (cred_view s)))),
      cd_UpdateMany = (\<lambda>p f s. (None, (fst s, upd_matching p (\<lambda>c. Some (f c)) (cred_view s)))),
      cd_UpdateOne = (\<lambda>p f s. (None, (fst s, upd_matching p (\<lambda>c. Some (f c)) (cred_view s))))\<rparr>"

lemma cred_view_Some: "cred_view s k = Some c \<Longrightarrow> k \<in> set (fst s) \<and> cred_key c = k"
  by (auto simp: cred_view_def split: if_splits option.splits)

lemma cred_view_upd:
  assumes "\<And>c c'. f c = Some c' \<Longrightarrow> cred_key c' = cred_key c"
  shows "cred_view (fst s, upd_matching p f (cred_view s)) = upd_matching p f (cred_view s)"
proof
  fix k
  show "cred_view (fst s, upd_matching p f (cred_view s)) k = upd_matching p f (cred_view s) k"
  proof (cases "cred_view s k")
    case (Some c)
    then have k: "k \<in> set (fst s)" "cred_key c = k" using cred_view_Some by auto
    then show ?thesis using Some assms [of c] by (cases "f c") (auto simp: cred_view_def [of "(fst s, x)" for x] upd_matching_def)
  qed (simp add: cred_view_def [of "(fst s, x)" for x] upd_matching_def)
qed

interpretation cred_server: cred_driver map_creds cred_view
proof
  show "cred_view s k = Some c \<Longrightarrow> cred_key c = k" for s k c using cred_view_Some by blast
  show "cd_ReplaceOne map_creds p c s = (None, s') \<Longrightarrow> single p (cred_key c) \<Longrightarrow> cred_view s' = (cred_view s)(cred_key c \<mapsto> c)" for p c s s'
  proof -
    assume "cd_ReplaceOne map_creds p c s = (None, s')"
    then have s': "s' = (fst s @ [cred_key c], (cred_view s)(cred_key c \<mapsto> c))" by (simp add: map_creds_def)
    have "cred_view s' k = ((cred_view s)(cred_key c \<mapsto> c)) k" for k
      using cred_view_Some [of s k] by (cases "cred_view s k") (auto simp: s' cred_view_def [of "(a, x)" for a x])
    then show ?thesis by (rule ext)
  qed
  show "cd_Find map_creds p s = Inr cs \<Longrightarrow> set cs = {c \<in> ran (cred_view s). p c}" for p s cs
  proof -
    assume f: "cd_Find map_creds p s = Inr cs"
    have "c \<in> set cs \<longleftrightarrow> (\<exists>k. k \<in> set (fst s) \<and> cred_view s k = Some c \<and> p c)" for c
      using f by (force simp: map_creds_def split: option.splits if_splits)
    moreover have "c \<in> ran (cred_view s) \<longleftrightarrow> (\<exists>k. k \<in> set (fst s) \<and> cred_view s k = Some c)" for c
      using cred_view_Some unfolding ran_def by blast
    ultimately show ?thesis by blast
  qed
  show "cd_DeleteOne map_creds p s = (None, s') \<Longrightarrow> single p k \<Longrightarrow> cred_view s' = upd_matching p (\<lambda>_. None) (cred_view s)" for p s s' k
    using cred_view_upd [of "\<lambda>_. None" s p] by (auto simp: map_creds_def)
  show "cd_UpdateMany map_creds p f s = (None, s') \<Longrightarrow> (\<And>c. cred_key (f c) = cred_key c) \<Longrightarrow>
      cred_view s' = upd_matching p (\<lambda>c. Some (f c)) (cred_view s)" for p f s s'
    using cred_view_upd [of "\<lambda>c. Some (f c)" s p] by (auto simp: map_creds_def)
  show "cd_UpdateOne map_creds p f s = (None, s') \<Longrightarrow> (\<And>c. cred_key (f c) = cred_key c) \<Longrightarrow> single p k \<Longrightarrow>
      cred_view s' = upd_matching p (\<lambda>c. Some (f c)) (cred_view s)" for p f s s' k
    using cred_view_upd [of "\<lambda>c. Some (f c)" s p] by (auto simp: map_creds_def)
qed

section \<open>Properties\<close>

text \<open>C24. Exactly one of a user's key profiles is active: over the MongoDB repository, storing a profile and deleting one
  keep it so, when they report success.\<close>

theorem credentials_one_active:
  assumes "cred_driver d docs" and "one_active (\<lambda>p. docs s (u, p))"
    and "StoreProfile kr (mongo_credentials d) nonces u p keys s = (None, s') \<or> DeleteProfile (mongo_credentials d) u p s = (None, s')"
  shows "one_active (\<lambda>p. docs s' (u, p))"
proof -
  have "credential_repo (mongo_credentials d) (\<lambda>s u p. docs s (u, p))" by (rule cred_driver.mongo_repo [OF assms(1)])
  then show ?thesis using assms(2,3) credential_repo.store_one_active credential_repo.delete_one_active by fast
qed

text \<open>Activating a profile that does not exist takes the active key away: the call reports success and leaves the
  user without any active profile, although the others are still stored.\<close>

theorem activate_unknown_profile:
  assumes "cred_driver d docs" and "service_SetActive (mongo_credentials d) u p s = (None, s')"
    and "docs s (u, normalizeProfile p) = None"
  shows "(\<forall>q c. docs s' (u, q) = Some c \<longrightarrow> \<not> cr_Active c) \<and> (\<forall>q. docs s (u, q) \<noteq> None \<longrightarrow> docs s' (u, q) \<noteq> None)"
proof -
  note r = cred_driver.mongo_repo [OF assms(1)]
  have "(\<lambda>q. docs s' (u, q)) = set_active (normalizeProfile p) (\<lambda>q. docs s (u, q))"
    using credential_repo.activate [OF r] assms(2) by (simp add: service_SetActive_def)
  then have "docs s' (u, q) = set_active (normalizeProfile p) (\<lambda>q. docs s (u, q)) q" for q by metis
  then show ?thesis using assms(3) by (auto simp: set_active_def)
qed

text \<open>What is stored is what trades: the keys of a user's first profile, sealed and written, are the keys that are
  loaded, for any cipher that opens what it seals.\<close>

theorem credentials_roundtrip:
  assumes "cred_driver d docs" and "StoreProfile kr (mongo_credentials d) nonces u p keys s = (None, s')"
    and "(\<lambda>q. docs s (u, q)) = Map.empty" and "credentials_Load kr (mongo_credentials d) u s' = Inr keys'"
    and "\<And>a n m. kr_ciphers kr (kr_activeID kr) = Some a \<Longrightarrow> length n = ad_NonceSize a \<Longrightarrow> ad_Open a n (ad_Seal a n m) = Some m"
  shows "keys' = keys"
  using credential_repo.store_first_loads [OF cred_driver.mongo_repo [OF assms(1)] assms(2,3,4,5)] by simp

text \<open>A cipher that prepends the nonce, a keyring of it, a user's first keys.\<close>

definition ex_aead :: aead where
  "ex_aead = \<lparr>ad_NonceSize = 1, ad_Seal = (\<lambda>n m. n @ rev m), ad_Open = (\<lambda>n c. if take 1 c = n then Some (rev (drop 1 c)) else None)\<rparr>"

definition ex_keyring :: keyring where
  "ex_keyring = \<lparr>kr_ciphers = [''k1'' \<mapsto> ex_aead], kr_activeID = ''k1''\<rparr>"

definition ex_keys :: binance_keys where
  "ex_keys = \<lparr>bk_APIKey = ''key'', bk_APISecret = ''secret'', bk_Testnet = True\<rparr>"

definition ex_stored :: cred_map where
  "ex_stored = snd (StoreProfile ex_keyring (mongo_credentials map_creds) (\<lambda>_. Inr ''n'') ''u'' ''main'' ex_keys ([], \<lambda>_. None))"

lemma ex_store: "StoreProfile ex_keyring (mongo_credentials map_creds) (\<lambda>_. Inr ''n'') ''u'' ''main'' ex_keys ([], \<lambda>_. None) = (None, ex_stored)"
proof -
  have "fst (StoreProfile ex_keyring (mongo_credentials map_creds) (\<lambda>_. Inr ''n'') ''u'' ''main'' ex_keys ([], \<lambda>_. None)) = None" by code_simp
  then show ?thesis unfolding ex_stored_def by (metis prod.collapse)
qed

theorem credentials_one_active_witness:
  "one_active (\<lambda>p. cred_view ex_stored (''u'', p))"
  by (rule credentials_one_active [OF cred_server.cred_driver_axioms _ disjI1 [OF ex_store]]) (simp add: one_active_def cred_view_def fun_eq_iff)

definition ex_live :: credential where
  "ex_live = \<lparr>cr_UserID = ''u'', cr_Profile = ''main'', cr_APIKey = \<lparr>sl_KeyID = ''k1'', sl_Nonce = ''n'', sl_Ciphertext = ''nyek''\<rparr>,
     cr_APISecret = \<lparr>sl_KeyID = ''k1'', sl_Nonce = ''n'', sl_Ciphertext = ''nterces''\<rparr>, cr_Testnet = True, cr_Active = True\<rparr>"

theorem activate_unknown_profile_witness:
  "\<exists>s'. service_SetActive (mongo_credentials map_creds) ''u'' ''typo'' ([(''u'', ''main'')], [(''u'', ''main'') \<mapsto> ex_live]) = (None, s') \<and>
     cred_view s' (''u'', ''main'') \<noteq> None \<and> (\<forall>q c. cred_view s' (''u'', q) = Some c \<longrightarrow> \<not> cr_Active c)"
proof -
  let ?s = "([(''u'', ''main'')], [(''u'', ''main'') \<mapsto> ex_live])"
  define s' where "s' = snd (service_SetActive (mongo_credentials map_creds) ''u'' ''typo'' ?s)"
  have "fst (service_SetActive (mongo_credentials map_creds) ''u'' ''typo'' ?s) = None"
    by (simp add: service_SetActive_def mongo_credentials_def gcr_SetActive_def map_creds_def)
  then have a: "service_SetActive (mongo_credentials map_creds) ''u'' ''typo'' ?s = (None, s')" unfolding s'_def by (metis prod.collapse)
  have "normalizeProfile ''typo'' = ''typo''" by code_simp
  then have n: "cred_view ?s (''u'', normalizeProfile ''typo'') = None" by (simp add: cred_view_def)
  have "cred_view ?s (''u'', ''main'') \<noteq> None" by (simp add: cred_view_def cred_key_def ex_live_def)
  then show ?thesis using activate_unknown_profile [OF cred_server.cred_driver_axioms, OF a, OF n] a by blast
qed

theorem credentials_roundtrip_witness:
  "credentials_Load ex_keyring (mongo_credentials map_creds) ''u'' ex_stored = Inr ex_keys"
proof -
  obtain keys' where l: "credentials_Load ex_keyring (mongo_credentials map_creds) ''u'' ex_stored = Inr keys'"
  proof -
    have "\<not> isl (credentials_Load ex_keyring (mongo_credentials map_creds) ''u'' ex_stored)" by code_simp
    then show thesis using that by (cases "credentials_Load ex_keyring (mongo_credentials map_creds) ''u'' ex_stored") auto
  qed
  have "keys' = ex_keys"
    by (rule credentials_roundtrip [OF cred_server.cred_driver_axioms ex_store _ l])
      (auto simp: cred_view_def ex_keyring_def ex_aead_def fun_eq_iff split: if_splits)
  then show ?thesis using l by simp
qed

end
