(* ===== verification/AI_Keys.thy ===== *)
theory AI_Keys
  imports Credentials Signals
begin

text \<open>
  \<open>internal/api/aikey.go\<close>: a user's own AI key, sealed under the user's subject, and the advisor built from
  it. The store is a record of its three calls; \<open>anthropic\<close> and \<open>openai\<close> stand for the two constructors of
  \<open>internal/ai\<close>, which only wrap their configuration.
\<close>

record ai_secret =
  as_Subject :: string
  as_Provider :: string
  as_Model :: string
  as_BaseURL :: string
  as_Sealed :: sealed

record 's ai_store =
  ais_Get :: "string \<Rightarrow> 's \<Rightarrow> string + ai_secret option"
  ais_Save :: "ai_secret \<Rightarrow> 's \<Rightarrow> string option \<times> 's"
  ais_Delete :: "string \<Rightarrow> 's \<Rightarrow> string option \<times> 's"

section \<open>The in-process store\<close>

type_synonym mem_secrets = "string \<Rightarrow> ai_secret option"

definition mais_Get :: "string \<Rightarrow> mem_secrets \<Rightarrow> string + ai_secret option" where
  "mais_Get subject m = Inr (m subject)"

definition mais_Save :: "ai_secret \<Rightarrow> mem_secrets \<Rightarrow> string option \<times> mem_secrets" where
  "mais_Save doc m = (None, m(as_Subject doc \<mapsto> doc))"

definition mais_Delete :: "string \<Rightarrow> mem_secrets \<Rightarrow> string option \<times> mem_secrets" where
  "mais_Delete subject m = (None, m(subject := None))"

definition memAISecrets :: "mem_secrets ai_store" where
  "memAISecrets = \<lparr>ais_Get = mais_Get, ais_Save = mais_Save, ais_Delete = mais_Delete\<rparr>"

section \<open>The advisor of a user\<close>

record ai_config =
  aic_APIKey :: string
  aic_Model :: string
  aic_BaseURL :: string

type_synonym advisor = "market_signal \<Rightarrow> string + decision"

definition userAdvisor ::
    "(ai_config \<Rightarrow> advisor) \<Rightarrow> (ai_config \<Rightarrow> advisor) \<Rightarrow> 's ai_store option \<Rightarrow> keyring option \<Rightarrow> string \<Rightarrow> 's \<Rightarrow> advisor option" where
  "userAdvisor anthropic openai store kr subject s =
     (case (store, kr) of
        (Some st, Some k) \<Rightarrow>
          if subject = [] then None
          else (case ais_Get st subject s of
                  Inr (Some doc) \<Rightarrow>
                    (case Decrypt k (as_Sealed doc) of
                       Inl _ \<Rightarrow> None
                     | Inr key \<Rightarrow>
                         if key = [] then None
                         else let cfg = \<lparr>aic_APIKey = key, aic_Model = as_Model doc, aic_BaseURL = as_BaseURL doc\<rparr>
                              in Some (if as_Provider doc = ''anthropic'' then anthropic cfg else openai cfg))
                | _ \<Rightarrow> None)
      | _ \<Rightarrow> None)"

section \<open>Handlers\<close>

record ai_key_body =
  akb_Provider :: string
  akb_APIKey :: string
  akb_Model :: string
  akb_BaseURL :: string

datatype ai_key_reply = AIKeyError int string | AIKeySaved | AIKeyUnset | AIKeySet string string | AIKeyDeleted

definition handleStoreAIKey ::
    "'s ai_store option \<Rightarrow> keyring option \<Rightarrow> string + string \<Rightarrow> string \<Rightarrow> ai_key_body option \<Rightarrow> 's \<Rightarrow> ai_key_reply \<times> 's" where
  "handleStoreAIKey store kr nonce subject body s =
     (case (store, kr) of
        (Some st, Some k) \<Rightarrow>
          (case body of
             None \<Rightarrow> (AIKeyError 400 ''invalid JSON body'', s)
           | Some b \<Rightarrow>
               if trim_space (akb_APIKey b) = [] \<or> trim_space (akb_Model b) = [] then (AIKeyError 400 ''api_key and model are required'', s)
               else (case Encrypt k nonce (trim_space (akb_APIKey b)) of
                       Inl _ \<Rightarrow> (AIKeyError 500 ''could not secure the key'', s)
                     | Inr sealed \<Rightarrow>
                         (case ais_Save st \<lparr>as_Subject = subject,
                                 as_Provider = (if akb_Provider b = ''anthropic'' then ''anthropic'' else ''openai_compatible''),
                                 as_Model = trim_space (akb_Model b), as_BaseURL = trim_space (akb_BaseURL b), as_Sealed = sealed\<rparr> s of
                            (Some _, s) \<Rightarrow> (AIKeyError 500 ''could not save the key'', s)
                          | (None, s) \<Rightarrow> (AIKeySaved, s))))
      | _ \<Rightarrow> (AIKeyError 501 ''AI keys are not enabled (set CREDENTIAL_ENCRYPTION_KEY)'', s))"

definition handleGetAIKey :: "'s ai_store option \<Rightarrow> string \<Rightarrow> 's \<Rightarrow> ai_key_reply" where
  "handleGetAIKey store subject s =
     (case store of
        None \<Rightarrow> AIKeyUnset
      | Some st \<Rightarrow> (case ais_Get st subject s of Inr (Some doc) \<Rightarrow> AIKeySet (as_Provider doc) (as_Model doc) | _ \<Rightarrow> AIKeyUnset))"

definition handleDeleteAIKey :: "'s ai_store option \<Rightarrow> string \<Rightarrow> 's \<Rightarrow> ai_key_reply \<times> 's" where
  "handleDeleteAIKey store subject s =
     (case store of
        None \<Rightarrow> (AIKeyError 501 ''AI keys are not enabled'', s)
      | Some st \<Rightarrow> (case ais_Delete st subject s of (Some _, s) \<Rightarrow> (AIKeyError 500 ''could not remove the key'', s) | (None, s) \<Rightarrow> (AIKeyDeleted, s)))"

section \<open>One user's key\<close>

text \<open>The laws of a store of keyed documents, and what the handlers make of them.\<close>

locale ai_secrets =
  fixes st :: "'s ai_store" and docs :: "'s \<Rightarrow> string \<Rightarrow> ai_secret option"
  assumes get_law: "ais_Get st subject s = Inr d \<Longrightarrow> d = docs s subject"
    and save_law: "ais_Save st doc s = (None, s') \<Longrightarrow> docs s' = (docs s)(as_Subject doc \<mapsto> doc)"
    and save_error: "ais_Save st doc s = (Some e, s') \<Longrightarrow> \<forall>u. u \<noteq> as_Subject doc \<longrightarrow> docs s' u = docs s u"
    and delete_law: "ais_Delete st subject s = (None, s') \<Longrightarrow> docs s' = (docs s)(subject := None)"
    and delete_error: "ais_Delete st subject s = (Some e, s') \<Longrightarrow> \<forall>u. u \<noteq> subject \<longrightarrow> docs s' u = docs s u"
begin

lemma store_key_others:
  "handleStoreAIKey (Some st) kr nonce subject body s = (r, s') \<Longrightarrow> u \<noteq> subject \<Longrightarrow> docs s' u = docs s u"
  using save_law save_error
  by (fastforce simp: handleStoreAIKey_def split: option.splits if_splits sum.splits prod.splits)

lemma delete_key_others:
  "handleDeleteAIKey (Some st) subject s = (r, s') \<Longrightarrow> u \<noteq> subject \<Longrightarrow> docs s' u = docs s u"
  using delete_law delete_error
  by (fastforce simp: handleDeleteAIKey_def split: option.splits prod.splits)

lemma stored_key:
  assumes "handleStoreAIKey (Some st) (Some k) nonce subject (Some b) s = (AIKeySaved, s')"
  obtains sealed where "Encrypt k nonce (trim_space (akb_APIKey b)) = Inr sealed" "trim_space (akb_APIKey b) \<noteq> []"
    "docs s' subject = Some \<lparr>as_Subject = subject, as_Provider = (if akb_Provider b = ''anthropic'' then ''anthropic'' else ''openai_compatible''),
       as_Model = trim_space (akb_Model b), as_BaseURL = trim_space (akb_BaseURL b), as_Sealed = sealed\<rparr>"
  using assms save_law by (auto simp: handleStoreAIKey_def split: if_splits sum.splits prod.splits option.splits)

end

lemma memory_secrets: "ai_secrets memAISecrets (\<lambda>s. s)"
  by unfold_locales (auto simp: memAISecrets_def mais_Get_def mais_Save_def mais_Delete_def)

interpretation mem_keys: ai_secrets memAISecrets "\<lambda>s. s"
  by (rule memory_secrets)

lemma decrypt_encrypt:
  assumes "Encrypt k (Inr n) p = Inr sealed" "\<forall>a. kr_ciphers k (kr_activeID k) = Some a \<longrightarrow> length n = ad_NonceSize a \<and> ad_Open a n (ad_Seal a n p) = Some p"
  shows "Decrypt k sealed = Inr p"
  using assms by (auto simp: Encrypt_def Decrypt_def split: option.splits)

text \<open>Calls of the key handlers, each with the subject of its caller.\<close>

datatype ai_key_call = StoreKey string "string + string" "ai_key_body option" | DeleteKey string

fun key_caller :: "ai_key_call \<Rightarrow> string" where
  "key_caller (StoreKey subject _ _) = subject"
| "key_caller (DeleteKey subject) = subject"

fun key_step :: "'s ai_store \<Rightarrow> keyring \<Rightarrow> ai_key_call \<Rightarrow> 's \<Rightarrow> 's" where
  "key_step st k (StoreKey subject nonce body) s = snd (handleStoreAIKey (Some st) (Some k) nonce subject body s)"
| "key_step st k (DeleteKey subject) s = snd (handleDeleteAIKey (Some st) subject s)"

definition key_calls :: "'s ai_store \<Rightarrow> keyring \<Rightarrow> ai_key_call list \<Rightarrow> 's \<Rightarrow> 's" where
  "key_calls st k cs s = fold (key_step st k) cs s"

context ai_secrets
begin

lemma key_step_others: "key_caller c \<noteq> u \<Longrightarrow> docs (key_step st k c s) u = docs s u"
  using store_key_others delete_key_others by (cases c) (auto simp: prod_eq_iff)

lemma key_calls_others: "\<forall>c\<in>set cs. key_caller c \<noteq> u \<Longrightarrow> docs (key_calls st k cs s) u = docs s u"
  unfolding key_calls_def by (induction cs arbitrary: s) (simp_all add: key_step_others)

end

text \<open>A user's own AI key is the one that was stored and nobody else touches it. After a store call that reports
  success, whatever calls other users make, the user's advisor is built from the trimmed key, model and
  address that were sent, for the provider that was named; for any cipher that opens what it seals.\<close>
theorem own_ai_key:
  assumes "handleStoreAIKey (Some memAISecrets) (Some k) (Inr n) u (Some b) s = (AIKeySaved, s')"
    and "\<forall>c\<in>set cs. key_caller c \<noteq> u" and "u \<noteq> []"
    and "\<forall>a. kr_ciphers k (kr_activeID k) = Some a \<longrightarrow> length n = ad_NonceSize a \<and> (\<forall>m. ad_Open a n (ad_Seal a n m) = Some m)"
  shows "userAdvisor anthropic openai (Some memAISecrets) (Some k) u (key_calls memAISecrets k cs s') =
    Some ((if akb_Provider b = ''anthropic'' then anthropic else openai)
      \<lparr>aic_APIKey = trim_space (akb_APIKey b), aic_Model = trim_space (akb_Model b), aic_BaseURL = trim_space (akb_BaseURL b)\<rparr>)"
proof -
  obtain sealed where sealed: "Encrypt k (Inr n) (trim_space (akb_APIKey b)) = Inr sealed" "trim_space (akb_APIKey b) \<noteq> []"
    and doc: "s' u = Some \<lparr>as_Subject = u, as_Provider = (if akb_Provider b = ''anthropic'' then ''anthropic'' else ''openai_compatible''),
       as_Model = trim_space (akb_Model b), as_BaseURL = trim_space (akb_BaseURL b), as_Sealed = sealed\<rparr>"
    using mem_keys.stored_key [OF assms(1)] by metis
  have "Decrypt k sealed = Inr (trim_space (akb_APIKey b))" using decrypt_encrypt [OF sealed(1)] assms(4) by blast
  moreover have "key_calls memAISecrets k cs s' u = s' u" using mem_keys.key_calls_others [OF assms(2)] by simp
  ultimately show ?thesis using sealed(2) doc assms(3) by (simp add: userAdvisor_def memAISecrets_def mais_Get_def)
qed

definition ex_key_body :: ai_key_body where
  "ex_key_body = \<lparr>akb_Provider = ''anthropic'', akb_APIKey = '' sk '', akb_Model = ''m'', akb_BaseURL = []\<rparr>"

theorem own_ai_key_witness:
  "userAdvisor (\<lambda>cfg _. Inl (aic_APIKey cfg)) (\<lambda>_ _. Inl []) (Some memAISecrets) (Some ex_keyring) ''u''
     (key_calls memAISecrets ex_keyring [DeleteKey ''v'']
       (snd (handleStoreAIKey (Some memAISecrets) (Some ex_keyring) (Inr ''n'') ''u'' (Some ex_key_body) Map.empty))) = Some (\<lambda>_. Inl ''sk'')"
proof -
  let ?r = "handleStoreAIKey (Some memAISecrets) (Some ex_keyring) (Inr ''n'') ''u'' (Some ex_key_body) Map.empty"
  have "fst ?r = AIKeySaved" by code_simp
  then have r: "?r = (AIKeySaved, snd ?r)" by (simp add: prod_eq_iff)
  have t: "trim_space '' sk '' = ''sk''" by code_simp
  show ?thesis
    using own_ai_key [OF r, of "[DeleteKey ''v'']" "\<lambda>cfg _. Inl (aic_APIKey cfg)" "\<lambda>_ _. Inl []"]
    by (simp add: ex_keyring_def ex_aead_def ex_key_body_def t)
qed

end
