(* ===== verification/Goal_Runs.thy ===== *)
theory Goal_Runs
  imports Walkforward AI_Keys Access Order_Text
begin

text \<open>
  \<open>internal/api/goal.go\<close> and \<open>internal/app/goalruns.go\<close>: the paper runs a user asks for from the dashboard. The
  request becomes a goal through the grammar of the bot, its bracket is sized by the leverage slider, the
  goal is run over past candles, and the summary decides whether the plan may be launched. Market data, the
  advisors and the clock are arguments; a text with a character outside ASCII is its UTF-8 bytes.
\<close>

section \<open>Requests and records\<close>

record goal_request =
  gq_Profit :: string
  gq_Capital :: string
  gq_Risk :: int
  gq_CapitalRiskPct :: int
  gq_LeverageUsePct :: int
  gq_Duration :: string
  gq_Symbol :: string
  gq_Strategy :: string
  gq_UseAI :: bool

record fold_metric =
  fm_Index :: int
  fm_WarmupBars :: int
  fm_TestBars :: int
  fm_Trades :: int
  fm_Wins :: int
  fm_Losses :: int
  fm_WinRatePct :: rat
  fm_RealizedPnL :: string
  fm_ExpectancyUSDT :: string
  fm_MaxDrawdownUSDT :: string
  fm_Verdict :: string

record walk_evidence =
  we_FoldCount :: int
  we_Folds :: "fold_metric list"
  we_Aggregate :: fold_metric

record goal_run =
  gr_UserKey :: string
  gr_Symbol :: string
  gr_Strategy :: string
  gr_Interval :: string
  gr_Duration :: string
  gr_Bias :: string
  gr_UsedAI :: bool
  gr_ProfitTarget :: string
  gr_Capital :: string
  gr_RiskPct :: int
  gr_LeverageUsePct :: int
  gr_Trades :: int
  gr_Wins :: int
  gr_Losses :: int
  gr_WinRatePct :: rat
  gr_RealizedPnL :: string
  gr_MaxDrawdownUSDT :: string
  gr_Verdict :: string
  gr_Validation :: string
  gr_EstimatedEntries :: int
  gr_SignalSetups :: int
  gr_ExpectancyUSDT :: string
  gr_RewardRisk :: string
  gr_Launchable :: bool
  gr_Actionable :: bool
  gr_NeedsPlanEdit :: bool
  gr_BlockedReason :: string
  gr_TopBlocker :: string
  gr_PlanHint :: string
  gr_WalkForward :: "walk_evidence option"
  gr_CreatedAt :: time

record 'g goal_store =
  gst_Save :: "goal_run \<Rightarrow> 'g \<Rightarrow> string option \<times> 'g"
  gst_List :: "string \<Rightarrow> int \<Rightarrow> 'g \<Rightarrow> string + goal_run list"
  gst_Community :: "int \<Rightarrow> 'g \<Rightarrow> string + goal_run list"

text \<open>The execution interval and the bars of a plan, by duration.\<close>

definition durationSpec :: "string \<Rightarrow> (string \<times> int) option" where
  "durationSpec = map_of
     [(''15m'', ''1m'', 15), (''1h'', ''1m'', 60), (''2h'', ''1m'', 120), (''4h'', ''5m'', 48), (''8h'', ''5m'', 96),
      (''12h'', ''5m'', 144), (''24h'', ''15m'', 96), (''48h'', ''15m'', 192), (''1w'', ''1h'', 168)]"

definition goalHistoryMax :: int where "goalHistoryMax = 500"
definition annyBasicPaperExecutionBars :: int where "annyBasicPaperExecutionBars = 10080"
definition annyBasicPaperMainBars :: int where "annyBasicPaperMainBars = 1000"
definition annyBasicWalkForwardFolds :: int where "annyBasicWalkForwardFolds = 4"
definition annyBasicWalkForwardWarmupBars :: int where "annyBasicWalkForwardWarmupBars = 76 * 15"
definition goalAIDirectionalConfidence :: int where "goalAIDirectionalConfidence = 50"
definition minLaunchSample :: int where "minLaunchSample = 2"
definition minLaunchTrades :: int where "minLaunchTrades = 5"
definition unlimitedPaperBars :: int where "unlimitedPaperBars = 3000"

section \<open>From the request to a sized goal\<close>

datatype goal_req_error = ProfitNotPositive | ProfitTooLarge | CapitalNotPositive | CapitalTooLarge | GoalText goal_error

definition maxUSDT :: decimal where
  "maxUSDT = dec_NewFromInt 1000000000"

definition goal_text :: "decimal \<Rightarrow> decimal \<Rightarrow> int \<Rightarrow> string" where
  "goal_text profit capital risk =
     ''goal profit '' @ dec_String profit @ '' capital '' @ dec_String capital @ '' risk '' @ show_int risk"

definition goal_risk :: "goal_request \<Rightarrow> int" where
  "goal_risk req =
     (let risk = (if gq_CapitalRiskPct req = 0 then gq_Risk req else gq_CapitalRiskPct req); risk = (if risk \<le> 0 then 30 else risk)
      in if risk > 100 then 100 else risk)"

definition buildGoal :: "goal_request \<Rightarrow> goal_req_error + goal" where
  "buildGoal req =
     (case dec_Parse (trim_space (gq_Profit req)) of
        Inl _ \<Rightarrow> Inl ProfitNotPositive
      | Inr profit \<Rightarrow>
          if \<not> dec_IsPositive profit then Inl ProfitNotPositive
          else if dec_Cmp profit maxUSDT > 0 then Inl ProfitTooLarge
          else let capitalStr = trim_space (gq_Capital req); capitalStr = (if capitalStr = [] then ''100'' else capitalStr)
          in (case dec_Parse capitalStr of
                Inl _ \<Rightarrow> Inl CapitalNotPositive
              | Inr capital \<Rightarrow>
                  if \<not> dec_IsPositive capital then Inl CapitalNotPositive
                  else if dec_Cmp capital maxUSDT > 0 then Inl CapitalTooLarge
                  else (case ParseGoal (goal_text profit capital (goal_risk req)) of Inl e \<Rightarrow> Inl (GoalText e) | Inr g \<Rightarrow> Inr g)))"

definition applyLeverageSizing :: "goal \<Rightarrow> int \<Rightarrow> goal" where
  "applyLeverageSizing g pct =
     (if pct \<le> 0 \<or> \<not> dec_IsPositive (gl_CapitalUSDT g) then g
      else let riskBp = pct * 4; riskBp = (if riskBp > 2000 then 2000 else riskBp)
      in case dec_QuoFloor (dec_Mul (gl_CapitalUSDT g) (dec_NewFromInt riskBp)) (dec_NewFromInt 10000) 8 of
        Inl _ \<Rightarrow> g
      | Inr risk \<Rightarrow>
          if \<not> dec_IsPositive risk then g
          else let risk = (if dec_IsPositive (gl_MaxDrawdownUSDT g) \<and> dec_Cmp risk (gl_MaxDrawdownUSDT g) > 0 then gl_MaxDrawdownUSDT g else risk)
          in g\<lparr>gl_RiskPerTradeUSDT := risk, gl_RewardPerTradeUSDT := dec_Mul risk (dec_NewFromInt 2)\<rparr>)"

section \<open>The summary\<close>

definition verdict_string :: "verdict \<Rightarrow> string" where
  "verdict_string v = (case v of Continue \<Rightarrow> ''continue'' | StopTargetReached \<Rightarrow> ''target_reached'' | StopMaxDrawdown \<Rightarrow> ''max_drawdown''
     | StopMaxTrades \<Rightarrow> ''max_trades'' | StopStrategyRule \<Rightarrow> ''strategy_rule'')"

definition bias_text :: "paper_bias \<Rightarrow> string" where
  "bias_text b = (case b of BiasBoth \<Rightarrow> ''both'' | BiasLong \<Rightarrow> ''long'' | BiasShort \<Rightarrow> ''short'')"

definition expectancyPerTrade :: "paper_result \<Rightarrow> string" where
  "expectancyPerTrade r =
     (if cst_TradesClosed (pu_State r) \<le> 0 then []
      else case dec_QuoFloor (cst_RealizedPnL (pu_State r)) (dec_NewFromInt (cst_TradesClosed (pu_State r))) 4 of
        Inl _ \<Rightarrow> [] | Inr e \<Rightarrow> dec_String e)"

definition rewardRiskRatio :: "goal \<Rightarrow> string" where
  "rewardRiskRatio g =
     (if \<not> dec_IsPositive (gl_RiskPerTradeUSDT g) then []
      else case dec_QuoFloor (gl_RewardPerTradeUSDT g) (gl_RiskPerTradeUSDT g) 1 of Inl _ \<Rightarrow> [] | Inr q \<Rightarrow> dec_String q)"

text \<open>The reasons with which the market gate of ANNY Basic blocks.\<close>

definition market_blockers :: "string list" where
  "market_blockers = [''no-trade market condition'', ''abnormal volatility'', ''sideways market'', ''entry extended from trend'',
     ''execution not aligned'']"

definition annyBasicBlockedReason :: "paper_result \<Rightarrow> string" where
  "annyBasicBlockedReason r =
     (let d = pu_Diagnostics r; t = dg_TopBlocker d in
      if dg_SetupsFound d > 0 \<and> dg_BiasRejected d > 0 then ''AI side filter rejected all launchable ANNY Basic setups''
      else if t \<in> set market_blockers then ''ANNY Basic market-condition filter blocked this validation window''
      else if t = ''CDC and QQE are not aligned'' then ''CDC/QQE did not align in this validation window''
      else if t = ''indicator warmup'' then ''ANNY Basic indicator warmup left no launchable setup''
      else if t = ''AI side filter'' then ''AI side filter rejected all launchable ANNY Basic setups''
      else ''No launchable ANNY Basic setup in this validation window'')"

definition noSetupReason :: "paper_result \<Rightarrow> string" where
  "noSetupReason r =
     (if has_prefix (pu_Strategy r) ''anny_basic'' then annyBasicBlockedReason r else ''No trade setup in this validation window'')"

definition planEditHint :: "paper_result \<Rightarrow> string" where
  "planEditHint r =
     (let d = pu_Diagnostics r; t = dg_TopBlocker d in
      if \<not> has_prefix (pu_Strategy r) ''anny_basic'' then ''Try another duration, another symbol, or another strategy, then assess again.''
      else if dg_SetupsFound d > 0 \<and> dg_BiasRejected d > 0 then
        ''The model found a setup, but the AI side filter rejected it. Try disabling AI side pick or reassess when AI confidence is higher.''
      else if t = ''CDC and QQE are not aligned'' then
        ''Wait for CDC/QQE alignment, try another symbol, or use Auto/RSI for paper assessment while ANNY Basic waits.''
      else if t \<in> set market_blockers then
        ''Try another symbol, use Auto/RSI for paper assessment, or wait for a cleaner, less extended move.''
      else if t = ''indicator warmup'' then
        ''Market data loaded but the model needed more aligned 15m/1m warmup. Reassess in a moment or try a longer duration.''
      else if t = [] then ''Try another symbol, longer duration, or a non-ANNY Basic paper strategy before launching.''
      else ''Top blocker: '' @ t @ ''. Edit the symbol, duration, or side filter, then assess again.'')"

definition summarize :: "string \<Rightarrow> goal_request \<Rightarrow> string \<Rightarrow> string \<Rightarrow> string \<Rightarrow> time \<Rightarrow> paper_result \<Rightarrow> goal_run" where
  "summarize userKey req duration interval validation now r =
     (let trades = cst_TradesClosed (pu_State r); none = (trades = 0) in
      \<lparr>gr_UserKey = userKey, gr_Symbol = pu_Symbol r, gr_Strategy = pu_Strategy r, gr_Interval = interval, gr_Duration = duration,
       gr_Bias = bias_text (pu_Bias r), gr_UsedAI = gq_UseAI req, gr_ProfitTarget = dec_String (gl_TargetProfitUSDT (pu_Goal r)),
       gr_Capital = dec_String (gl_CapitalUSDT (pu_Goal r)), gr_RiskPct = RiskPercent (pu_Goal r), gr_LeverageUsePct = gq_LeverageUsePct req,
       gr_Trades = trades, gr_Wins = pu_Wins r, gr_Losses = pu_Losses r, gr_WinRatePct = pu_WinRatePct r,
       gr_RealizedPnL = dec_String (cst_RealizedPnL (pu_State r)), gr_MaxDrawdownUSDT = dec_String (pu_MaxDrawdownUSDT r),
       gr_Verdict = verdict_string (pu_Verdict r), gr_Validation = validation,
       gr_EstimatedEntries = (case EstimateTrades (pu_Goal r) of Inl _ \<Rightarrow> 0 | Inr n \<Rightarrow> n),
       gr_SignalSetups = dg_SetupsFound (pu_Diagnostics r), gr_ExpectancyUSDT = expectancyPerTrade r, gr_RewardRisk = rewardRiskRatio (pu_Goal r),
       gr_Launchable = (dec_IsPositive (cst_RealizedPnL (pu_State r)) \<and> trades \<ge> minLaunchSample \<and>
          (pu_Verdict r = StopTargetReached \<or> trades \<ge> minLaunchTrades)),
       gr_Actionable = (if none then False else trades > 0), gr_NeedsPlanEdit = none,
       gr_BlockedReason = (if none then noSetupReason r else []), gr_TopBlocker = (if none then dg_TopBlocker (pu_Diagnostics r) else []),
       gr_PlanHint = (if none then planEditHint r else []), gr_WalkForward = None, gr_CreatedAt = now\<rparr>)"

definition foldMetric :: "int \<Rightarrow> int \<Rightarrow> int \<Rightarrow> paper_result \<Rightarrow> fold_metric" where
  "foldMetric index warmupBars testBars r =
     \<lparr>fm_Index = index, fm_WarmupBars = warmupBars, fm_TestBars = testBars, fm_Trades = cst_TradesClosed (pu_State r), fm_Wins = pu_Wins r,
      fm_Losses = pu_Losses r, fm_WinRatePct = pu_WinRatePct r, fm_RealizedPnL = dec_String (cst_RealizedPnL (pu_State r)),
      fm_ExpectancyUSDT = expectancyPerTrade r, fm_MaxDrawdownUSDT = dec_String (pu_MaxDrawdownUSDT r), fm_Verdict = verdict_string (pu_Verdict r)\<rparr>"

definition attachWalkForwardEvidence :: "(wf_window \<times> paper_result) list \<Rightarrow> paper_result \<Rightarrow> goal_run \<Rightarrow> goal_run" where
  "attachWalkForwardEvidence folds agg stats =
     (if folds = [] then stats
      else stats\<lparr>gr_WalkForward := Some \<lparr>we_FoldCount = int (length folds),
        we_Folds = map (\<lambda>(w, r). foldMetric (ww_Index w) (ww_WarmupBars w) (ww_TestBars w) r) folds,
        we_Aggregate = foldMetric 0 0 (pu_Bars agg) agg\<rparr>\<rparr>)"

definition actionableGoalRun :: "goal_run \<Rightarrow> bool" where
  "actionableGoalRun r \<longleftrightarrow> gr_Trades r > 0 \<and> \<not> gr_NeedsPlanEdit r"

definition filterActionableGoalRuns :: "goal_run list \<Rightarrow> goal_run list" where
  "filterActionableGoalRuns runs = filter actionableGoalRun runs"

section \<open>The stores\<close>

text \<open>Newest first. \<open>sort.Slice\<close> leaves open how runs of the same instant are ordered.\<close>

definition newest_first :: "goal_run list \<Rightarrow> goal_run list" where
  "newest_first runs = insertion_sort (\<lambda>a b. gr_CreatedAt a > gr_CreatedAt b) runs"

definition limited :: "int \<Rightarrow> 'a list \<Rightarrow> 'a list" where
  "limited limit xs = (if limit > 0 \<and> int (length xs) > limit then take (nat limit) xs else xs)"

type_synonym mem_runs = "string \<Rightarrow> goal_run list"

definition mgr_Save :: "nat \<Rightarrow> goal_run \<Rightarrow> mem_runs \<Rightarrow> string option \<times> mem_runs" where
  "mgr_Save cap run m =
     (let runs = m (gr_UserKey run) @ [run]; runs = (if length runs > cap then drop (length runs - cap) runs else runs)
      in (None, m(gr_UserKey run := runs)))"

definition mgr_List :: "string \<Rightarrow> int \<Rightarrow> mem_runs \<Rightarrow> string + goal_run list" where
  "mgr_List userKey limit m = Inr (limited limit (newest_first (m userKey)))"

text \<open>\<open>users\<close> is the order in which the map is ranged over.\<close>

definition mgr_Community :: "string list \<Rightarrow> int \<Rightarrow> mem_runs \<Rightarrow> string + goal_run list" where
  "mgr_Community users limit m = Inr (limited limit (newest_first (concat (map m users))))"

definition memGoalRuns :: "string list \<Rightarrow> nat \<Rightarrow> mem_runs goal_store" where
  "memGoalRuns users capacity =
     (let cap = (if capacity = 0 then 100 else capacity)
      in \<lparr>gst_Save = mgr_Save cap, gst_List = mgr_List, gst_Community = mgr_Community users\<rparr>)"

text \<open>The MongoDB store: an insertion, and finds sorted by the time of creation; \<open>query\<close> stands for the driver's query.\<close>

definition mongoGoalRuns ::
    "(goal_run \<Rightarrow> 'c \<Rightarrow> string option \<times> 'c) \<Rightarrow> (string option \<Rightarrow> int \<Rightarrow> 'c \<Rightarrow> string + goal_run list) \<Rightarrow> 'c goal_store" where
  "mongoGoalRuns insertOne query =
     \<lparr>gst_Save = insertOne,
      gst_List = (\<lambda>userKey limit c. query (Some userKey) (if limit \<le> 0 then 50 else limit) c),
      gst_Community = (\<lambda>limit c. query None (if limit \<le> 0 then 1000 else limit) c)\<rparr>"

section \<open>The advisor's lean\<close>

text \<open>
  \<open>strconv.FormatFloat(v, 'f', -1, 64)\<close>: the fewest significant digits that read back as the value, rounded
  to nearest.
\<close>

definition format_shortest :: "rat \<Rightarrow> string" where
  "format_shortest v =
     (case find_first (\<lambda>n. f64 (dval (sig_round n v)) = v) [1..<18] of None \<Rightarrow> format_sig 17 v | Some n \<Rightarrow> format_sig n v)"

definition target_sign :: string where "target_sign = [CHR 0xF0, CHR 0x9F, CHR 0x8E, CHR 0xAF]"
definition chart_sign :: string where "chart_sign = [CHR 0xF0, CHR 0x9F, CHR 0x93, CHR 0x8A]"
definition lock_sign :: string where "lock_sign = [CHR 0xF0, CHR 0x9F, CHR 0x94, CHR 0x92]"

text \<open>The advisors of the server, the user's own one and the shared one, and the metering of the shared one.\<close>

record 's ai_desk =
  dk_own :: "advisor option"
  dk_shared :: "advisor option"
  dk_access :: "access_config"
  dk_store :: "'s access_store"
  dk_day :: string
  dk_now :: time

definition lean_of :: "string \<Rightarrow> decision \<Rightarrow> paper_bias \<times> string" where
  "lean_of who d =
     (let pct = show_int (dn_ConfidencePercent d); sd = to_lower (dn_Side d) in
      if dn_ConfidencePercent d > 0 \<and> dn_ConfidencePercent d < goalAIDirectionalConfidence then
        (BiasBoth, who @ '' confidence '' @ pct @ ''% is low - used both sides.'')
      else if sd = ''long'' then (BiasLong, who @ '' leans long (confidence '' @ pct @ ''%).'')
      else if sd = ''short'' then (BiasShort, who @ '' leans short (confidence '' @ pct @ ''%).'')
      else (BiasBoth, who @ '' was neutral '' @ emdash @ '' used both sides.''))"

definition goal_signal :: "string \<Rightarrow> rat \<Rightarrow> time \<Rightarrow> market_signal" where
  "goal_signal symbol price now =
     \<lparr>ms_Source = ''goal'', ms_Symbol = symbol, ms_Interval = [], ms_Price = format_shortest price, ms_Strategy = [], ms_ActionHint = [],
      ms_SideHint = [], ms_Message = [], ms_Indicators = None, ms_ReceivedAt = now\<rparr>"

definition aiBias :: "'s ai_desk \<Rightarrow> string \<Rightarrow> string \<Rightarrow> rat \<Rightarrow> 's \<Rightarrow> usage \<Rightarrow> (paper_bias \<times> string) \<times> usage" where
  "aiBias dk subject symbol price s u =
     (let byo = dk_own dk \<noteq> None in
      case (if byo then dk_own dk else dk_shared dk) of
        None \<Rightarrow>
          ((BiasBoth, ''AI is not configured '' @ emdash @ '' add your own AI key in Settings, or it falls back to the rule-based strategy.''), u)
      | Some ask \<Rightarrow>
          let meter = (\<not> byo \<and> \<not> aiFreeForSubject (dk_access dk) (dk_store dk) subject s);
              (allowed, msg) = allow (dk_access dk) (Some (dk_store dk)) (dk_day dk) u subject ''ai'' s
          in if meter \<and> \<not> allowed then ((BiasBoth, lock_sign @ '' '' @ msg @ '' (used the rule-based strategy).''), u)
             else (case ask (goal_signal symbol price (dk_now dk)) of
                     Inl e \<Rightarrow>
                       ((BiasBoth, if isAdminSubject (dk_access dk) subject
                                   then ''AI error (admin): '' @ e @ '' '' @ emdash @ '' used the rule-based strategy.''
                                   else ''AI was unavailable '' @ emdash @ '' used the rule-based strategy (both sides).''), u)
                   | Inr d \<Rightarrow>
                       (lean_of (if byo then ''Your AI'' else ''AI'') d, if meter then usage_Incr (dk_day dk) u subject ''ai'' else u)))"

section \<open>The text of an answer\<close>

definition verdict_line :: "verdict \<Rightarrow> string" where
  "verdict_line v =
     (case v of StopTargetReached \<Rightarrow> target_sign @ '' target reached''
      | StopMaxDrawdown \<Rightarrow> [CHR 0xF0, CHR 0x9F, CHR 0x9B, CHR 0x91] @ '' stopped: max drawdown''
      | StopMaxTrades \<Rightarrow> [CHR 0xE2, CHR 0x8F, CHR 0xB9] @ '' stopped: max trades''
      | StopStrategyRule \<Rightarrow> ''stopped: strategy risk rule''
      | Continue \<Rightarrow> ''target not reached in this window'')"

definition goalSummaryText :: "goal \<Rightarrow> paper_result \<Rightarrow> goal_run \<Rightarrow> string \<Rightarrow> string" where
  "goalSummaryText g r stats aiNote =
     (let head = target_sign @ '' Goal: make '' @ dec_String (gl_TargetProfitUSDT g) @ '' USDT from '' @ dec_String (gl_CapitalUSDT g) @
            '' USDT capital'' @ nl @ ''Strategy: '' @ pu_Strategy r @ '' '' @ middot @ '' '' @ pu_Symbol r @ '' '' @ middot @ '' risk '' @
            show_int (RiskPercent g) @ ''%'' @ nl @ (if aiNote \<noteq> [] then aiNote @ nl else [])
      in if gr_NeedsPlanEdit stats then
           head @ nl @ chart_sign @ '' Plan assessment on real '' @ pu_Symbol r @ '' candles: edit plan'' @ nl @ gr_BlockedReason stats @
             ''. Market data loaded, but no paper result is launchable from this window. Entries needed by goal math: '' @
             show_int (gr_EstimatedEntries stats) @ ''. Launchable setups found: '' @ show_int (gr_SignalSetups stats) @ ''.'' @
             (if gr_TopBlocker stats \<noteq> [] then '' Top blocker: '' @ gr_TopBlocker stats @ ''.'' else []) @
             (if gr_PlanHint stats \<noteq> [] then '' Next edit: '' @ gr_PlanHint stats else [])
         else
           head @ nl @ chart_sign @ '' Paper run on real '' @ pu_Symbol r @ '' candles (no real orders): '' @ verdict_line (pu_Verdict r) @ nl @
             (if gr_EstimatedEntries stats > 0 then ''Entries needed by goal math: '' @ show_int (gr_EstimatedEntries stats) @ nl else []) @
             ''Trades: '' @ show_int (cst_TradesClosed (pu_State r)) @ '' ('' @ show_int (pu_Wins r) @ '' win / '' @ show_int (pu_Losses r) @
             '' loss) '' @ middot @ '' Win rate: '' @ format_fixed 0 (pu_WinRatePct r) @ ''% '' @ middot @ '' Final PnL: '' @
             dec_String (cst_RealizedPnL (pu_State r)) @ '' USDT'')"

section \<open>The run\<close>

text \<open>
  What the handler answers: an error with its status, or the stored summary with the curve and the trades.
  \<open>GoalPanic\<close> is the index out of range of a run that asks the advisor about an empty series.
\<close>

record goal_trade_view =
  tv_Side :: string
  tv_Outcome :: string
  tv_Entry :: rat
  tv_Exit :: rat
  tv_PnL :: string
  tv_Win :: bool

record goal_answer =
  ga_output :: string
  ga_ai :: string
  ga_curve :: "string list"
  ga_stats :: goal_run
  ga_trades :: "goal_trade_view list"

datatype goal_reply =
    GoalBadBody | GoalBadRequest goal_req_error | GoalNoMarket string | GoalNoModel string | GoalPaper paper_error | GoalPanic
  | GoalDone goal_answer

record goal_plan =
  gp_duration :: string
  gp_interval :: string
  gp_bars :: int
  gp_planBars :: int
  gp_validation :: string
  gp_strategy :: string
  gp_goal :: goal
  gp_pct :: int

definition goal_strategy :: "string \<Rightarrow> string" where
  "goal_strategy name = (if name \<in> {''rsi'', ''macd'', ''sma'', ''breakout'', ''auto'', ''anny_basic''} then name else ''ema'')"

definition slider :: "int \<Rightarrow> int" where
  "slider pct = (let p = (if pct \<le> 0 then 25 else pct) in if p > 100 then 100 else p)"

text \<open>The plan of a request: duration, interval and bars, and the sized goal.\<close>

definition plan_goal :: "goal_request \<Rightarrow> goal \<Rightarrow> goal_plan" where
  "plan_goal req g =
     (let duration = to_lower (trim_space (gq_Duration req));
          unlimited = (duration = ''unlimited'' \<or> duration = [CHR 0xE2, CHR 0x88, CHR 0x9E]);
          duration = (if durationSpec duration = None \<and> \<not> unlimited then ''1h'' else duration);
          (interval, planBars) = (case durationSpec duration of None \<Rightarrow> ([], 0) | Some s \<Rightarrow> s);
          strategy = goal_strategy (gq_Strategy req); g = applyLeverageSizing g (slider (gq_LeverageUsePct req));
          p = (if unlimited then
                 \<lparr>gp_duration = ''unlimited'', gp_interval = ''5m'', gp_bars = unlimitedPaperBars, gp_planBars = 0,
                  gp_validation = ''until target or stop'', gp_strategy = strategy, gp_goal = g\<lparr>gl_MaxTrades := 0\<rparr>,
                  gp_pct = slider (gq_LeverageUsePct req)\<rparr>
               else \<lparr>gp_duration = duration, gp_interval = interval, gp_bars = planBars + 40, gp_planBars = planBars, gp_validation = duration,
                     gp_strategy = strategy, gp_goal = g, gp_pct = slider (gq_LeverageUsePct req)\<rparr>)
      in if strategy = ''anny_basic''
         then p\<lparr>gp_interval := ''1m'', gp_bars := annyBasicPaperExecutionBars, gp_planBars := 0,
                gp_validation := show_int annyBasicPaperExecutionBars @ '' x 1m''\<rparr>
         else p)"

definition goal_paper_config :: "goal_plan \<Rightarrow> string \<Rightarrow> paper_bias \<Rightarrow> candle list \<Rightarrow> paper_config" where
  "goal_paper_config p symbol bias mainCandles =
     \<lparr>pp_Goal = gp_goal p, pp_Symbol = symbol, pp_Strategy = gp_strategy p, pp_Bias = Some bias, pp_StopLossPct = 0, pp_FeeRate = 0,
      pp_EntryFeeRate = 0, pp_ExitFeeRate = 0, pp_MaxHoldBars = 0, pp_WarmupBars = 0, pp_PlanBars = gp_planBars p,
      pp_MainCandles = mainCandles, pp_AtrLookback = 0, pp_AtrStopMult = 0, pp_MinStopPct = 0, pp_MaxStopPct = 0\<rparr>"

definition trade_view :: "paper_trade \<Rightarrow> goal_trade_view" where
  "trade_view t = \<lparr>tv_Side = pt_Side t, tv_Outcome = pt_Outcome t, tv_Entry = pt_EntryPrice t, tv_Exit = pt_ExitPrice t,
     tv_PnL = dec_String (pt_PnLUSDT t), tv_Win = pt_Win t\<rparr>"

text \<open>The summary of a finished run, with the walk-forward evidence of an ANNY Basic plan when there is any.\<close>

definition goal_stats :: "string \<Rightarrow> goal_request \<Rightarrow> goal_plan \<Rightarrow> paper_config \<Rightarrow> candle list \<Rightarrow> time \<Rightarrow> paper_result \<Rightarrow> goal_run" where
  "goal_stats userKey req p cfg cs now result =
     (let anny = (gp_strategy p = ''anny_basic'');
          validation = (if anny then show_int (int (length cs)) @ '' x '' @ gp_interval p else gp_validation p);
          stats = summarize userKey (req\<lparr>gq_LeverageUsePct := gp_pct p\<rparr>) (gp_duration p) (gp_interval p) validation now result
      in if anny
         then (case RunPaperWalkForward (cfg\<lparr>pp_WarmupBars := annyBasicWalkForwardWarmupBars\<rparr>) cs
                      \<lparr>wf_FoldCount = annyBasicWalkForwardFolds, wf_FoldBars = 0\<rparr> of
                 Inl _ \<Rightarrow> stats
               | Inr (folds, agg) \<Rightarrow> attachWalkForwardEvidence folds agg stats)
         else stats)"

definition finish_goal ::
    "'g goal_store \<Rightarrow> string \<Rightarrow> goal_request \<Rightarrow> goal_plan \<Rightarrow> string \<Rightarrow> candle list \<Rightarrow> candle list \<Rightarrow> time \<Rightarrow> paper_bias \<times> string \<Rightarrow> 'g \<Rightarrow> goal_reply \<times> 'g" where
  "finish_goal st userKey req p symbol cs mainCandles now lean g =
     (let cfg = goal_paper_config p symbol (fst lean) mainCandles in
      case RunPaper cfg cs of
        Inl e \<Rightarrow> (GoalPaper e, g)
      | Inr result \<Rightarrow>
          let stats = goal_stats userKey req p cfg cs now result;
              g = (if userKey \<noteq> [] \<and> actionableGoalRun stats then snd (gst_Save st stats g) else g)
          in (GoalDone \<lparr>ga_output = goalSummaryText (gp_goal p) result stats (snd lean), ga_ai = snd lean, ga_curve = map (\<lambda>t. dec_String (pt_RunningPnL t)) (pu_Trades result), ga_stats = stats,
                        ga_trades = map trade_view (pu_Trades result)\<rparr>, g))"

definition handleGoalRun ::
    "(string \<Rightarrow> string \<Rightarrow> int \<Rightarrow> string + candle list) \<Rightarrow> 's ai_desk \<Rightarrow> 'g goal_store \<Rightarrow> string \<Rightarrow> goal_request option \<Rightarrow> 's \<Rightarrow> usage \<Rightarrow> 'g \<Rightarrow>
     goal_reply \<times> usage \<times> 'g" where
  "handleGoalRun market dk st userKey body s u g =
     (case body of
        None \<Rightarrow> (GoalBadBody, u, g)
      | Some req \<Rightarrow>
        (case buildGoal req of
           Inl e \<Rightarrow> (GoalBadRequest e, u, g)
         | Inr gl \<Rightarrow>
           let symbol = api_normalizeSymbol (gq_Symbol req); p = plan_goal req gl; anny = (gp_strategy p = ''anny_basic'') in
           (case market symbol (gp_interval p) (gp_bars p) of
              Inl _ \<Rightarrow> (GoalNoMarket symbol, u, g)
            | Inr cs \<Rightarrow>
              (case (if anny then market symbol ''15m'' annyBasicPaperMainBars else Inr []) of
                 Inl _ \<Rightarrow> (GoalNoModel symbol, u, g)
               | Inr mainCandles \<Rightarrow>
                 if gq_UseAI req \<and> cs = [] then (GoalPanic, u, g)
                 else let (lean, u) = (if gq_UseAI req then aiBias dk userKey symbol (k_Close (last cs)) s u else ((BiasBoth, []), u));
                          (reply, g) = finish_goal st userKey req p symbol cs mainCandles (dk_now dk) lean g
                 in (reply, u, g)))))"

definition handleGoalHistory :: "'g goal_store \<Rightarrow> string \<Rightarrow> 'g \<Rightarrow> string + goal_run list" where
  "handleGoalHistory st userKey g =
     (if userKey = [] then Inr []
      else case gst_List st userKey goalHistoryMax g of Inl _ \<Rightarrow> Inl ''could not load goal history'' | Inr runs \<Rightarrow> Inr (filterActionableGoalRuns runs))"

end
