(* ===== verification/Goal_Properties.thy ===== *)
theory Goal_Properties
  imports Goal_Runs
begin

text \<open>
  What a goal run keeps: the goal is exactly the one the request asks for although it passes through the text
  grammar of the bot, the bracket stays inside the drawdown budget, and a plan is only stored or called
  launchable on the strength of the trades of its own run.
\<close>

section \<open>Words\<close>

lemma str_fields_join: "\<forall>w\<in>set ws. plain_word w \<Longrightarrow> str_fields (join_with '' '' ws) = ws"
proof (induction ws rule: join_with.induct [of _ "''x''"])
  case (2 sep w)
  then show ?case using fields_acc_word [of w "[]" "[]"] by (simp add: str_fields_def plain_word_def)
next
  case (3 sep w v ws)
  then show ?case
    using fields_acc_word [of w "[]" "CHR '' '' # join_with '' '' (v # ws)"] by (simp add: str_fields_def plain_word_def)
qed (simp add: str_fields_def)

lemma trim_left_head: "s \<noteq> [] \<Longrightarrow> \<not> is_space (hd s) \<Longrightarrow> trim_left s = s"
  by (cases s) (simp_all add: trim_left_def)

lemma trim_space_ends: "s \<noteq> [] \<Longrightarrow> \<not> is_space (hd s) \<Longrightarrow> \<not> is_space (last s) \<Longrightarrow> trim_space s = s"
  by (simp add: trim_space_def trim_left_head hd_rev)

lemma join_ends: "ws \<noteq> [] \<Longrightarrow> \<forall>w\<in>set ws. plain_word w \<Longrightarrow>
    join_with '' '' ws \<noteq> [] \<and> \<not> is_space (hd (join_with '' '' ws)) \<and> \<not> is_space (last (join_with '' '' ws))"
proof (induction ws rule: join_with.induct [of _ "''x''"])
  case (2 sep w)
  then show ?case by (simp add: plain_word_def)
next
  case (3 sep w v ws)
  then show ?case by (auto simp: plain_word_def)
qed simp

lemma cut_at_word: "CHR '' '' \<notin> set w \<Longrightarrow> cut_at (CHR '' '') (w @ CHR '' '' # s) = (w, s, True)"
  by (induction w) auto

section \<open>Numbers as words\<close>

definition num_char :: "char \<Rightarrow> bool" where
  "num_char c \<longleftrightarrow> is_digit c \<or> c = CHR ''.'' \<or> c = CHR ''-''"

definition num_text :: "string \<Rightarrow> bool" where
  "num_text s \<longleftrightarrow> s \<noteq> [] \<and> (\<forall>c\<in>set s. num_char c)"

lemma digits_num: "all_digits s \<Longrightarrow> c \<in> set s \<Longrightarrow> num_char c"
  by (auto simp: all_digits_def list_all_iff num_char_def)

lemma show_nat_num: "num_text (show_nat n)"
  using digits_num [OF all_digits_show_nat] show_nat_nonempty by (auto simp: num_text_def)

lemma show_int_num: "num_text (show_int i)"
  using show_nat_num by (auto simp: show_int_def num_text_def num_char_def)

lemma dec_String_num: "num_text (dec_String d)"
proof -
  let ?n = "dec_normalize d"
  define digits where "digits = (if length (show_nat (nat \<bar>coeff ?n\<bar>)) \<le> d_scale ?n
      then replicate (d_scale ?n - length (show_nat (nat \<bar>coeff ?n\<bar>)) + 1) (CHR ''0'') @ show_nat (nat \<bar>coeff ?n\<bar>) else show_nat (nat \<bar>coeff ?n\<bar>))"
  have "all_digits digits" by (simp add: digits_def)
  then have "num_char c" if "c \<in> set digits" for c using digits_num that by blast
  moreover have "num_char (CHR ''0'')" by code_simp
  moreover have "num_char (CHR ''.'')" "num_char (CHR ''-'')" by (simp_all add: num_char_def)
  ultimately show ?thesis
    using show_nat_num [of "nat \<bar>coeff ?n\<bar>"]
    by (auto simp: dec_String_def Let_def num_text_def digits_def [symmetric] dest: in_set_takeD in_set_dropD)
qed

lemma num_char_facts:
  assumes "num_char c"
  shows "\<not> is_space c" "lower_char c = c" "c \<noteq> CHR '':''" "c \<noteq> CHR ''t''" "c \<noteq> CHR ''$''" "c \<noteq> CHR ''%''"
  using assms by (auto simp: num_char_def lower_char_def is_upper_def is_digit_def is_space_def code_def)

lemma num_plain: "num_text s \<Longrightarrow> plain_word s"
  by (auto simp: num_text_def plain_word_def dest: num_char_facts(1))

lemma num_lower: "num_text s \<Longrightarrow> to_lower s = s"
  by (auto simp: num_text_def to_lower_def map_idI num_char_facts(2))

lemma suffix_last: "has_suffix s suf \<Longrightarrow> suf \<noteq> [] \<Longrightarrow> last suf \<in> set s"
  by (auto elim!: has_suffixE)

lemma num_no_suffix: "num_text s \<Longrightarrow> trim_suffix s ''usdt'' = s" "num_text s \<Longrightarrow> trim_suffix s ''$'' = s" "num_text s \<Longrightarrow> trim_suffix s ''%'' = s"
  using suffix_last [of s "''usdt''"] suffix_last [of s "''$''"] suffix_last [of s "''%''"]
  by (auto simp: trim_suffix_def num_text_def dest: num_char_facts)

lemma num_no_colon: "num_text s \<Longrightarrow> trim_right_char (CHR '':'') s = s"
proof -
  assume n: "num_text s"
  then have "last s \<noteq> CHR '':''" by (metis num_text_def last_in_set num_char_facts(3))
  then show ?thesis using n by (cases "rev s") (auto simp: trim_right_char_def num_text_def)
qed

lemma num_trim: "num_text s \<Longrightarrow> trim_space s = s"
  by (rule trim_space_nonspace) (auto simp: num_text_def dest: num_char_facts(1))

lemma parseUSDT_String: "0 < dval d \<Longrightarrow> parseUSDT (dec_String d) = Some (dec_normalize d)"
  using dec_String_num [of d]
  by (simp add: parseUSDT_def num_trim num_lower num_no_suffix dec_Parse_String dec_simps)

lemma num_not_word: "num_text s \<Longrightarrow> \<not> num_char (hd w) \<Longrightarrow> w \<noteq> [] \<Longrightarrow> s \<noteq> w"
  by (auto simp: num_text_def)

text \<open>A number in the place of a keyword changes nothing.\<close>

lemma goal_word_number: "num_text s \<Longrightarrow> goal_word s nxt st = st"
proof -
  assume n: "num_text s"
  have "\<not> num_char (CHR ''p'')" "\<not> num_char (CHR ''t'')" "\<not> num_char (CHR 0xE0)" "\<not> num_char (CHR ''c'')"
    "\<not> num_char (CHR ''r'')" "\<not> num_char (CHR ''w'')" "\<not> num_char (CHR ''m'')"
    by code_simp+
  then have "s \<noteq> ''profit'' \<and> s \<noteq> ''target'' \<and> s \<noteq> thai_profit \<and> s \<noteq> ''capital'' \<and> s \<noteq> thai_capital \<and> s \<noteq> ''risk'' \<and> s \<noteq> thai_risk \<and>
      s \<noteq> ''winrate'' \<and> s \<noteq> ''wr'' \<and> s \<noteq> ''maxtrades'' \<and> s \<noteq> ''trades''"
    using num_not_word [OF n] by (auto simp: thai_profit_def thai_capital_def thai_risk_def)
  then show ?thesis unfolding goal_word_def Let_def num_no_colon [OF n] num_lower [OF n] by simp
qed

lemma key_words [simp]:
  "to_lower (trim_right_char (CHR '':'') ''profit'') = ''profit''" "to_lower (trim_right_char (CHR '':'') ''capital'') = ''capital''"
  "to_lower (trim_right_char (CHR '':'') ''risk'') = ''risk''"
  "''capital'' \<noteq> thai_profit" "''risk'' \<noteq> thai_profit" "''risk'' \<noteq> thai_capital"
  by code_simp+

section \<open>The goal of a request\<close>

lemma goal_text_words:
  "goal_text profit capital risk = join_with '' '' [''goal'', ''profit'', dec_String profit, ''capital'', dec_String capital, ''risk'', show_int risk]"
  by (simp add: goal_text_def)

lemma keyword_plain: "plain_word ''goal''" "plain_word ''profit''" "plain_word ''capital''" "plain_word ''risk''"
  by code_simp+

lemma goal_text_tokens:
  "str_fields (fst (snd (cut_at (CHR '' '') (trim_space (goal_text profit capital risk))))) =
     [''profit'', dec_String profit, ''capital'', dec_String capital, ''risk'', show_int risk]"
proof -
  let ?ws = "[''profit'', dec_String profit, ''capital'', dec_String capital, ''risk'', show_int risk]"
  have p: "\<forall>w\<in>set (''goal'' # ?ws). plain_word w" using keyword_plain num_plain dec_String_num show_int_num by auto
  have t: "goal_text profit capital risk = ''goal'' @ CHR '' '' # join_with '' '' ?ws" by (simp add: goal_text_def)
  have "trim_space (goal_text profit capital risk) = goal_text profit capital risk"
    using join_ends [of "''goal'' # ?ws"] p unfolding goal_text_words by (intro trim_space_ends) auto
  moreover have "CHR '' '' \<notin> set ''goal''" by simp
  ultimately show ?thesis using cut_at_word [of "''goal''" "join_with '' '' ?ws"] str_fields_join [of ?ws] p unfolding t by auto
qed

lemma ParseGoal_text:
  assumes "0 < dval profit" "0 < dval capital" "0 < risk" "in_int64 risk"
  shows "ParseGoal (goal_text profit capital risk) = Inr
    \<lparr>gl_CapitalUSDT = dec_normalize capital, gl_TargetProfitUSDT = dec_normalize profit,
     gl_RewardPerTradeUSDT = campaign_percentOf (dec_normalize capital) 2, gl_RiskPerTradeUSDT = campaign_percentOf (dec_normalize capital) 1,
     gl_AssumedWinRate = 55, gl_MaxTrades = 50, gl_MaxDrawdownUSDT = campaign_percentOf (dec_normalize capital) risk\<rparr>"
proof -
  have n: "num_text (dec_String profit)" "num_text (dec_String capital)" "num_text (show_int risk)" by (rule dec_String_num show_int_num)+
  have "goal_words [''profit'', dec_String profit, ''capital'', dec_String capital, ''risk'', show_int risk] new_scan =
    \<lparr>gs_goal = (gs_goal new_scan)\<lparr>gl_CapitalUSDT := dec_normalize capital, gl_TargetProfitUSDT := dec_normalize profit\<rparr>,
     gs_target = True, gs_capital = True, gs_risk = risk\<rparr>"
    using assms n
    by (simp add: goal_word_number goal_word_def [of "''profit''"] goal_word_def [of "''capital''"] goal_word_def [of "''risk''"]
        parseUSDT_String num_no_suffix atoi_show_int new_scan_def Let_def)
  then show ?thesis unfolding ParseGoal_def Let_def goal_text_tokens using assms by (simp add: dec_simps new_scan_def)
qed

lemma goal_risk_range: "1 \<le> goal_risk req \<and> goal_risk req \<le> 100"
  by (simp add: goal_risk_def Let_def)

text \<open>C32. The goal a request turns into is exactly the one that was asked for, although it is printed as a command of the bot
  and read back: the profit and the capital are the numbers of the request (a capital of 100 when there is none), both
  positive and at most a billion, the bracket is two to one percent of the capital and the drawdown budget is
  the requested share of it, between one and a hundred percent.\<close>
theorem buildGoal_exact:
  assumes "buildGoal req = Inr g"
  shows "\<exists>profit capital. dec_Parse (trim_space (gq_Profit req)) = Inr profit \<and>
    dec_Parse (if trim_space (gq_Capital req) = [] then ''100'' else trim_space (gq_Capital req)) = Inr capital \<and>
    0 < dval profit \<and> dval profit \<le> 10 ^ 9 \<and> 0 < dval capital \<and> dval capital \<le> 10 ^ 9 \<and> 1 \<le> goal_risk req \<and> goal_risk req \<le> 100 \<and>
    g = \<lparr>gl_CapitalUSDT = dec_normalize capital, gl_TargetProfitUSDT = dec_normalize profit,
     gl_RewardPerTradeUSDT = campaign_percentOf (dec_normalize capital) 2, gl_RiskPerTradeUSDT = campaign_percentOf (dec_normalize capital) 1,
     gl_AssumedWinRate = 55, gl_MaxTrades = 50, gl_MaxDrawdownUSDT = campaign_percentOf (dec_normalize capital) (goal_risk req)\<rparr>"
proof -
  obtain profit capital where p: "dec_Parse (trim_space (gq_Profit req)) = Inr profit" "0 < dval profit" "dval profit \<le> 10 ^ 9"
    and c: "dec_Parse (if trim_space (gq_Capital req) = [] then ''100'' else trim_space (gq_Capital req)) = Inr capital"
      "0 < dval capital" "dval capital \<le> 10 ^ 9"
    and g: "ParseGoal (goal_text profit capital (goal_risk req)) = Inr g"
    using assms by (auto simp: buildGoal_def Let_def maxUSDT_def dec_simps split: sum.splits if_splits)
  have "in_int64 (goal_risk req)" using goal_risk_range [of req] by (simp add: in_int64_def)
  then have "ParseGoal (goal_text profit capital (goal_risk req)) = Inr
    \<lparr>gl_CapitalUSDT = dec_normalize capital, gl_TargetProfitUSDT = dec_normalize profit,
     gl_RewardPerTradeUSDT = campaign_percentOf (dec_normalize capital) 2, gl_RiskPerTradeUSDT = campaign_percentOf (dec_normalize capital) 1,
     gl_AssumedWinRate = 55, gl_MaxTrades = 50, gl_MaxDrawdownUSDT = campaign_percentOf (dec_normalize capital) (goal_risk req)\<rparr>"
    using goal_risk_range [of req] p(2) c(2) by (intro ParseGoal_text) auto
  then show ?thesis using p c g goal_risk_range [of req] by auto
qed

section \<open>The bracket\<close>

lemma slider_range: "1 \<le> slider pct \<and> slider pct \<le> 100"
  by (simp add: slider_def Let_def)

lemma percentOf_value:
  assumes "0 \<le> dval d" "0 \<le> pct"
  shows "dval (campaign_percentOf d pct) \<le> dval d * of_int pct / 100 \<and> dval d * of_int pct / 100 < dval (campaign_percentOf d pct) + 1 / 10 ^ 8"
proof -
  obtain q where q: "dec_QuoFloor (dec_Mul d (dec_NewFromInt pct)) (dec_NewFromInt 100) 8 = Inr q"
    using dec_QuoFloor_val [of "dec_NewFromInt 100" 8 "dec_Mul d (dec_NewFromInt pct)"] by auto
  have "0 \<le> dval (dec_Mul d (dec_NewFromInt pct))" using assms by (simp add: dec_simps)
  from dec_QuoFloor_bounds [OF q this] show ?thesis using q by (simp add: campaign_percentOf_def dec_simps)
qed

definition sized :: "goal \<Rightarrow> int \<Rightarrow> goal \<Rightarrow> bool" where
  "sized g pct g' \<longleftrightarrow> 0 < dval (gl_RiskPerTradeUSDT g') \<and> dval (gl_RiskPerTradeUSDT g') \<le> dval (gl_MaxDrawdownUSDT g') \<and>
     dval (gl_RiskPerTradeUSDT g') \<le> dval (gl_CapitalUSDT g) * of_int (4 * pct) / 10000 \<and>
     dval (gl_RewardPerTradeUSDT g') = 2 * dval (gl_RiskPerTradeUSDT g') \<and>
     gl_CapitalUSDT g' = gl_CapitalUSDT g \<and> gl_TargetProfitUSDT g' = gl_TargetProfitUSDT g \<and> gl_MaxDrawdownUSDT g' = gl_MaxDrawdownUSDT g"

lemma leverage_sized:
  assumes "1 \<le> dval (gl_CapitalUSDT g)" "1 \<le> pct" "pct \<le> 100" "0 < dval (gl_MaxDrawdownUSDT g)"
  shows "sized g pct (applyLeverageSizing g pct)"
proof -
  have bp: "\<not> pct * 4 > 2000" using assms(3) by simp
  obtain q where q: "dec_QuoFloor (dec_Mul (gl_CapitalUSDT g) (dec_NewFromInt (pct * 4))) (dec_NewFromInt 10000) 8 = Inr q"
    using dec_QuoFloor_val [of "dec_NewFromInt 10000" 8 "dec_Mul (gl_CapitalUSDT g) (dec_NewFromInt (pct * 4))"] by auto
  have "0 \<le> dval (dec_Mul (gl_CapitalUSDT g) (dec_NewFromInt (pct * 4)))" using assms by (simp add: dec_simps)
  note b = dec_QuoFloor_bounds [OF q this]
  have "1 * 4 \<le> dval (gl_CapitalUSDT g) * of_int (pct * 4)" using assms(1,2) by (intro mult_mono) auto
  then have "4 / 10000 \<le> dval (gl_CapitalUSDT g) * of_int (pct * 4) / 10000" by (simp add: mult.commute)
  then have pos: "0 < dval q" using b(3) by (simp add: dec_simps)
  have le: "dval q \<le> dval (gl_CapitalUSDT g) * of_int (4 * pct) / 10000" using b(2) by (simp add: dec_simps mult.commute)
  have "\<not> pct \<le> 0" "0 < dval (gl_CapitalUSDT g)" using assms by auto
  then show ?thesis using assms(4) q pos le bp by (auto simp: applyLeverageSizing_def sized_def Let_def dec_simps)
qed

lemma plan_goal_goal:
  "gp_goal (plan_goal req g) = applyLeverageSizing g (slider (gq_LeverageUsePct req)) \<or>
   gp_goal (plan_goal req g) = (applyLeverageSizing g (slider (gq_LeverageUsePct req)))\<lparr>gl_MaxTrades := 0\<rparr>"
  by (auto simp: plan_goal_def Let_def split: prod.splits)

lemma built_plan_sized:
  assumes "buildGoal req = Inr g" "1 \<le> dval (gl_CapitalUSDT g)"
  shows "sized g (slider (gq_LeverageUsePct req)) (gp_goal (plan_goal req g))"
proof -
  obtain capital where c: "gl_CapitalUSDT g = dec_normalize capital" "gl_MaxDrawdownUSDT g = campaign_percentOf (dec_normalize capital) (goal_risk req)"
  proof -
    obtain profit capital where "ParseGoal (goal_text profit capital (goal_risk req)) = Inr g" "0 < dval profit" "0 < dval capital"
      using assms by (auto simp: buildGoal_def Let_def dec_simps split: sum.splits if_splits)
    moreover have "in_int64 (goal_risk req)" using goal_risk_range [of req] by (simp add: in_int64_def)
    ultimately show thesis using ParseGoal_text [of profit capital "goal_risk req"] goal_risk_range [of req] that by auto
  qed
  have "1 * 1 \<le> dval (gl_CapitalUSDT g) * of_int (goal_risk req)" using assms(2) goal_risk_range [of req] by (intro mult_mono) auto
  then have "1 / 100 \<le> dval (dec_normalize capital) * of_int (goal_risk req) / 100" by (simp add: c)
  then have "0 < dval (gl_MaxDrawdownUSDT g)"
    using percentOf_value [of "dec_normalize capital" "goal_risk req"] assms(2) goal_risk_range [of req] by (simp add: c)
  from leverage_sized [OF assms(2) _ _ this] slider_range have "sized g (slider (gq_LeverageUsePct req)) (applyLeverageSizing g (slider (gq_LeverageUsePct req)))" by blast
  then show ?thesis using plan_goal_goal [of req g] by (auto simp: sized_def)
qed

section \<open>The answer\<close>

lemma goal_answer_run:
  assumes "handleGoalRun market dk st userKey (Some req) s u g = (GoalDone a, u', g')"
  obtains gl cs mains lean result where "buildGoal req = Inr gl"
    "RunPaper (goal_paper_config (plan_goal req gl) (api_normalizeSymbol (gq_Symbol req)) lean mains) cs = Inr result"
    "ga_stats a = goal_stats userKey req (plan_goal req gl) (goal_paper_config (plan_goal req gl) (api_normalizeSymbol (gq_Symbol req)) lean mains) cs (dk_now dk) result"
    "g' = (if userKey \<noteq> [] \<and> actionableGoalRun (ga_stats a) then snd (gst_Save st (ga_stats a) g) else g)"
  using assms by (auto simp: handleGoalRun_def finish_goal_def Let_def split: sum.splits if_splits prod.splits)

lemma goal_stats_fields:
  "gr_Trades (goal_stats userKey req p cfg cs now r) = cst_TradesClosed (pu_State r)"
  "gr_NeedsPlanEdit (goal_stats userKey req p cfg cs now r) = (cst_TradesClosed (pu_State r) = 0)"
  "gr_Launchable (goal_stats userKey req p cfg cs now r) = (0 < dval (cst_RealizedPnL (pu_State r)) \<and> 2 \<le> cst_TradesClosed (pu_State r) \<and>
     (pu_Verdict r = StopTargetReached \<or> 5 \<le> cst_TradesClosed (pu_State r)))"
  "gr_UserKey (goal_stats userKey req p cfg cs now r) = userKey"
  by (simp_all add: goal_stats_def summarize_def attachWalkForwardEvidence_def Let_def minLaunchSample_def minLaunchTrades_def dec_simps
      split: sum.splits prod.splits)

text \<open>The trades of a run against the budget of its goal.\<close>

lemma run_within_budget:
  assumes "RunPaper cfg cs = Inr r" "0 < dval (gl_RiskPerTradeUSDT (pp_Goal cfg))"
    "dval (gl_RiskPerTradeUSDT (pp_Goal cfg)) \<le> dval (gl_MaxDrawdownUSDT (pp_Goal cfg))" "t \<in> set (pu_Trades r)"
  shows "\<exists>raw fee. - f64 (dval (gl_MaxDrawdownUSDT (pp_Goal cfg))) \<le> raw \<and> pt_PnLUSDT t = usdt (fsub raw fee)"
proof -
  have risk: "floatOf (gl_RiskPerTradeUSDT (pp_Goal cfg)) 1 = f64 (dval (gl_RiskPerTradeUSDT (pp_Goal cfg)))"
    using assms(2) by (simp add: floatOf_def dec_simps)
  have "f64 (dval (gl_RiskPerTradeUSDT (pp_Goal cfg))) \<le> f64 (dval (gl_MaxDrawdownUSDT (pp_Goal cfg)))" using assms(2,3) by (intro f64_mono) auto
  moreover obtain raw fee where "- f64 (dval (gl_RiskPerTradeUSDT (pp_Goal cfg))) \<le> raw" "pt_PnLUSDT t = usdt (fsub raw fee)"
    using RunPaper_ok(1) [OF assms(1)] assms(4) unfolding run_ok_def trade_ok_def risk by blast
  ultimately show ?thesis by (intro exI [of _ raw] exI [of _ fee]) linarith
qed

lemma target_verdict:
  "campaign_Evaluate st = StopTargetReached \<Longrightarrow> dval (gl_TargetProfitUSDT (cst_Goal st)) \<le> dval (cst_RealizedPnL st)"
  by (auto simp: campaign_Evaluate_def Let_def dec_Cmp_val split: if_splits)


definition goal_request_ex :: goal_request where
  "goal_request_ex = \<lparr>gq_Profit = ''10'', gq_Capital = [], gq_Risk = 0, gq_CapitalRiskPct = 50, gq_LeverageUsePct = 100, gq_Duration = ''unlimited'',
     gq_Symbol = ''btc'', gq_Strategy = ''breakout'', gq_UseAI = False\<rparr>"

theorem buildGoal_exact_witness:
  "\<exists>g. buildGoal goal_request_ex = Inr g \<and> dval (gl_TargetProfitUSDT g) = 10 \<and> gl_AssumedWinRate g = 55"
proof -
  have "\<not> isl (buildGoal goal_request_ex)" by code_simp
  then obtain g where g: "buildGoal goal_request_ex = Inr g" by (cases "buildGoal goal_request_ex") auto
  have t: "trim_space (gq_Profit goal_request_ex) = ''10''" by code_simp
  have "dec_Parse ''10'' = Inr (dec_NewFromInt 10)" by code_simp
  with buildGoal_exact [OF g] g show ?thesis unfolding t by auto
qed

text \<open>A price that stays inside its range, so that the strategy finds no trade.\<close>

definition goal_candles_ex :: "candle list" where
  "goal_candles_ex = map paper_bar (replicate 10 9 @ replicate 10 12 @ replicate 5 10 @ replicate 7 11)"

definition goal_desk_ex :: "mem_access ai_desk" where
  "goal_desk_ex = \<lparr>dk_own = None, dk_shared = None, dk_access = \<lparr>cf_AdminUserID = 0, cf_PrivateBeta = True, cf_AccessOpen = True\<rparr>,
     dk_store = memory_access [], dk_day = ''2026-01-01'', dk_now = 1\<rparr>"

definition goal_answer_ex :: "goal_reply \<times> usage \<times> mem_runs" where
  "goal_answer_ex = handleGoalRun (\<lambda>_ _ _. Inr goal_candles_ex) goal_desk_ex (memGoalRuns [] 10) ''tg:7'' (Some goal_request_ex)
     Map.empty (\<lambda>_. 0) (\<lambda>_. [])"

definition answer_trades :: "goal_reply \<Rightarrow> int option" where
  "answer_trades r = (case r of GoalDone a \<Rightarrow> Some (gr_Trades (ga_stats a)) | _ \<Rightarrow> None)"

lemma goal_answer_trades: "answer_trades (fst goal_answer_ex) = Some 0"
  by code_simp


end
