(* ===== verification/Market_Data.thy ===== *)
theory Market_Data
  imports Armed_Mission Binance_Net "HOL-Library.List_Lexorder" "HOL-Library.Char_ord"
begin

text \<open>
  \<open>internal/marketdata/provider.go\<close> and \<open>binance.go\<close>: the market data of one symbol, collected from four endpoints,
  and Binance's public REST client with its two caches and its paging of candles. The transport is an argument: \<open>net n\<close>
  answers the \<open>n\<close>-th request of a call. A JSON body is known by what \<open>encoding/json\<close> makes of it, so the decoded
  rows, or its error, come with the reply. Decoding a kline field is \<open>strconv.ParseFloat\<close> on decimal text.
\<close>

section \<open>What is read\<close>

record funding =
  fu_Symbol :: string
  fu_MarkPrice :: decimal
  fu_IndexPrice :: decimal
  fu_LastFundingRate :: decimal
  fu_NextFundingTime :: time
  fu_At :: time

record open_interest =
  ot_Symbol :: string
  ot_OpenInterest :: decimal
  ot_At :: time

record long_short =
  ls_Symbol :: string
  ls_Period :: string
  ls_Ratio :: decimal
  ls_LongAccount :: decimal
  ls_ShortAccount :: decimal
  ls_At :: time

record taker_flow =
  tf_Symbol :: string
  tf_Period :: string
  tf_BuySellRatio :: decimal
  tf_BuyVolume :: decimal
  tf_SellVolume :: decimal
  tf_At :: time

record ticker =
  tk_Symbol :: string
  tk_LastPrice :: decimal
  tk_PriceChangePct :: decimal
  tk_At :: time

record market_snapshot =
  sn_Symbol :: string
  sn_Period :: string
  sn_Funding :: funding
  sn_OpenInterest :: open_interest
  sn_LongShort :: long_short
  sn_Taker :: taker_flow
  sn_At :: time

definition no_funding :: funding where
  "no_funding = \<lparr>fu_Symbol = [], fu_MarkPrice = dec_unset, fu_IndexPrice = dec_unset, fu_LastFundingRate = dec_unset,
     fu_NextFundingTime = 0, fu_At = 0\<rparr>"

definition no_open_interest :: open_interest where
  "no_open_interest = \<lparr>ot_Symbol = [], ot_OpenInterest = dec_unset, ot_At = 0\<rparr>"

definition no_long_short :: long_short where
  "no_long_short = \<lparr>ls_Symbol = [], ls_Period = [], ls_Ratio = dec_unset, ls_LongAccount = dec_unset, ls_ShortAccount = dec_unset, ls_At = 0\<rparr>"

definition no_taker_flow :: taker_flow where
  "no_taker_flow = \<lparr>tf_Symbol = [], tf_Period = [], tf_BuySellRatio = dec_unset, tf_BuyVolume = dec_unset, tf_SellVolume = dec_unset, tf_At = 0\<rparr>"

section \<open>Collecting\<close>

record 'e provider =
  pv_Funding :: "string \<Rightarrow> 'e + funding"
  pv_OpenInterest :: "string \<Rightarrow> 'e + open_interest"
  pv_LongShortRatio :: "string \<Rightarrow> string \<Rightarrow> 'e + long_short"
  pv_TakerFlow :: "string \<Rightarrow> string \<Rightarrow> 'e + taker_flow"

text \<open>A metric that is read is filled in, an error is joined to the others.\<close>

definition fill :: "'e + 'v \<Rightarrow> ('v \<Rightarrow> market_snapshot \<Rightarrow> market_snapshot) \<Rightarrow> market_snapshot \<times> 'e list \<Rightarrow> market_snapshot \<times> 'e list" where
  "fill r set_to acc = (case (r, acc) of (Inl e, (s, errs)) \<Rightarrow> (s, errs @ [e]) | (Inr v, (s, errs)) \<Rightarrow> (set_to v s, errs))"

definition Collect_snapshot :: "'e provider \<Rightarrow> string \<Rightarrow> string \<Rightarrow> time \<Rightarrow> market_snapshot \<times> 'e list" where
  "Collect_snapshot p symbol period now =
     (let s = \<lparr>sn_Symbol = symbol, sn_Period = period, sn_Funding = no_funding, sn_OpenInterest = no_open_interest,
               sn_LongShort = no_long_short, sn_Taker = no_taker_flow, sn_At = now\<rparr>;
          acc = fill (pv_Funding p symbol) (\<lambda>v s. s\<lparr>sn_Funding := v\<rparr>) (s, []);
          acc = fill (pv_OpenInterest p symbol) (\<lambda>v s. s\<lparr>sn_OpenInterest := v\<rparr>) acc;
          acc = fill (pv_LongShortRatio p symbol period) (\<lambda>v s. s\<lparr>sn_LongShort := v\<rparr>) acc
      in fill (pv_TakerFlow p symbol period) (\<lambda>v s. s\<lparr>sn_Taker := v\<rparr>) acc)"

text \<open>The provider of the tests and of offline development.\<close>

definition MockProvider :: "funding \<Rightarrow> open_interest \<Rightarrow> long_short \<Rightarrow> taker_flow \<Rightarrow> 'e option \<Rightarrow> 'e provider" where
  "MockProvider f o1 l t err =
     (case err of
        Some e \<Rightarrow> \<lparr>pv_Funding = (\<lambda>_. Inl e), pv_OpenInterest = (\<lambda>_. Inl e), pv_LongShortRatio = (\<lambda>_ _. Inl e), pv_TakerFlow = (\<lambda>_ _. Inl e)\<rparr>
      | None \<Rightarrow> \<lparr>pv_Funding = (\<lambda>_. Inr f), pv_OpenInterest = (\<lambda>_. Inr o1), pv_LongShortRatio = (\<lambda>_ _. Inr l), pv_TakerFlow = (\<lambda>_ _. Inr t)\<rparr>)"

section \<open>The REST client\<close>

datatype md_error =
    MdTransport string | MdStatus string int string | MdDecode string string | MdNoRatio string | MdNoTaker string
  | MdNoKlines string string | MdParseClose string

datatype json_value = JsonNumber rat | JsonString string | JsonOther

text \<open>What the body decodes to at each of the endpoints.\<close>

record symbol_row =
  sr_Symbol :: string
  sr_Status :: string
  sr_ContractType :: string
  sr_QuoteAsset :: string

record premium_body =
  pb_Symbol :: string
  pb_MarkPrice :: string
  pb_IndexPrice :: string
  pb_LastFundingRate :: string
  pb_NextFundingTime :: int
  pb_Time :: int

record md_body =
  bd_Text :: string
  bd_Symbols :: "string + symbol_row list"
  bd_Tickers :: "string + (string \<times> string \<times> string) list"
  bd_Premium :: "string + premium_body"
  bd_Interest :: "string + (string \<times> string \<times> int)"
  bd_Ratios :: "string + (string \<times> string \<times> string \<times> string \<times> int) list"
  bd_Takers :: "string + (string \<times> string \<times> string \<times> int) list"
  bd_Klines :: "string + json_value list list"

datatype md_reply = NoReply string | Reply int md_body

type_synonym md_net = "nat \<Rightarrow> string \<Rightarrow> url_values \<Rightarrow> md_reply"

definition md_get :: "md_net \<Rightarrow> nat \<Rightarrow> string \<Rightarrow> url_values \<Rightarrow> (md_body \<Rightarrow> string + 'a) \<Rightarrow> md_error + 'a" where
  "md_get net n path params decode =
     (case net n path params of
        NoReply e \<Rightarrow> Inl (MdTransport e)
      | Reply status body \<Rightarrow>
          if status \<ge> 400 then Inl (MdStatus path status (trim_space (bd_Text body)))
          else (case decode body of Inl e \<Rightarrow> Inl (MdDecode path e) | Inr x \<Rightarrow> Inr x))"

definition validPeriod :: "string \<Rightarrow> string" where
  "validPeriod period =
     (if period \<in> {''5m'', ''15m'', ''30m'', ''1h'', ''2h'', ''4h'', ''6h'', ''12h'', ''1d''} then period else ''5m'')"

definition parseOrZero :: "string \<Rightarrow> decimal" where
  "parseOrZero value =
     (let value = trim_space value
      in if value = [] then dec_Zero else case dec_Parse value of Inl _ \<Rightarrow> dec_Zero | Inr d \<Rightarrow> d)"

definition msToTime :: "int \<Rightarrow> time" where
  "msToTime ms = (if ms \<le> 0 then 0 else unix_epoch + ms * 1000000)"

text \<open>\<open>time.Time.UnixMilli\<close>.\<close>

definition timeToMs :: "time \<Rightarrow> int" where
  "timeToMs t = (t - unix_epoch) div 1000000"

subsection \<open>Symbols and tickers, cached\<close>

text \<open>\<open>clk 0\<close> is the clock when the cache is looked at, \<open>clk 1\<close> after the request.\<close>

record md_cache =
  mc_symbols :: "string list"
  mc_symbolsAt :: time
  mc_tickers :: "(string \<Rightarrow> ticker option) option"
  mc_tickersAt :: time

definition symbolsTTL :: duration where "symbolsTTL = hours 1"
definition tickersTTL :: duration where "tickersTTL = seconds 5"

definition tradable :: "symbol_row \<Rightarrow> bool" where
  "tradable s \<longleftrightarrow> sr_Status s = ''TRADING'' \<and> sr_ContractType s = ''PERPETUAL'' \<and> sr_QuoteAsset s = ''USDT''"

definition md_Symbols :: "md_net \<Rightarrow> (nat \<Rightarrow> time) \<Rightarrow> md_cache \<Rightarrow> (md_error + string list) \<times> md_cache" where
  "md_Symbols net clk c =
     (if mc_symbols c \<noteq> [] \<and> clk 0 - mc_symbolsAt c < symbolsTTL then (Inr (mc_symbols c), c)
      else case md_get net 0 ''/fapi/v1/exchangeInfo'' [] bd_Symbols of
             Inl e \<Rightarrow> (Inl e, c)
           | Inr rows \<Rightarrow>
               let symbols = sort (map sr_Symbol (filter tradable rows))
               in (Inr symbols, c\<lparr>mc_symbols := symbols, mc_symbolsAt := clk 1\<rparr>))"

fun str_contains :: "string \<Rightarrow> string \<Rightarrow> bool" where
  "str_contains s t = (has_prefix s t \<or> (case s of [] \<Rightarrow> False | _ # s' \<Rightarrow> str_contains s' t))"

declare str_contains.simps [simp del]

text \<open>The search over the loaded list.\<close>

definition search_in :: "string \<Rightarrow> int \<Rightarrow> string list \<Rightarrow> string list" where
  "search_in query limit all_syms =
     (let limit = (if limit \<le> 0 then 20 else limit); query = to_upper (trim_space query);
          prefixed = (\<lambda>s. query = [] \<or> has_prefix s query)
      in take (nat limit) (filter prefixed all_syms @ filter (\<lambda>s. \<not> prefixed s \<and> str_contains s query) all_syms))"

definition SearchSymbols :: "md_net \<Rightarrow> (nat \<Rightarrow> time) \<Rightarrow> string \<Rightarrow> int \<Rightarrow> md_cache \<Rightarrow> (md_error + string list) \<times> md_cache" where
  "SearchSymbols net clk query limit c =
     (case md_Symbols net clk c of (Inl e, c) \<Rightarrow> (Inl e, c) | (Inr syms, c) \<Rightarrow> (Inr (search_in query limit syms), c))"

definition ticker_of :: "time \<Rightarrow> string \<times> string \<times> string \<Rightarrow> ticker" where
  "ticker_of now = (\<lambda>(symbol, price, change).
     \<lparr>tk_Symbol = symbol, tk_LastPrice = parseOrZero price, tk_PriceChangePct = parseOrZero change, tk_At = now\<rparr>)"

definition allTickers :: "md_net \<Rightarrow> (nat \<Rightarrow> time) \<Rightarrow> md_cache \<Rightarrow> (md_error + (string \<Rightarrow> ticker option)) \<times> md_cache" where
  "allTickers net clk c =
     (case (mc_tickers c, clk 0 - mc_tickersAt c < tickersTTL) of
        (Some ts, True) \<Rightarrow> (Inr ts, c)
      | _ \<Rightarrow>
          (case md_get net 0 ''/fapi/v1/ticker/24hr'' [] bd_Tickers of
             Inl e \<Rightarrow> (Inl e, c)
           | Inr rows \<Rightarrow>
               let ts = fold (\<lambda>r m. m(fst r \<mapsto> ticker_of (clk 1) r)) rows (\<lambda>_. None)
               in (Inr ts, c\<lparr>mc_tickers := Some ts, mc_tickersAt := clk 1\<rparr>)))"

definition Tickers :: "md_net \<Rightarrow> (nat \<Rightarrow> time) \<Rightarrow> string list \<Rightarrow> md_cache \<Rightarrow> (md_error + (string \<Rightarrow> ticker option)) \<times> md_cache" where
  "Tickers net clk symbols c =
     (case allTickers net clk c of
        (Inl e, c) \<Rightarrow> (Inl e, c)
      | (Inr ts, c) \<Rightarrow>
          if symbols = [] then (Inr ts, c)
          else (Inr (fold (\<lambda>sym out. let key = to_upper (trim_space sym)
                                  in case ts key of None \<Rightarrow> out | Some t \<Rightarrow> out(key \<mapsto> t)) symbols (\<lambda>_. None)), c))"

subsection \<open>The four metrics\<close>

definition md_Funding :: "md_net \<Rightarrow> string \<Rightarrow> md_error + funding" where
  "md_Funding net symbol =
     bindE (md_get net 0 ''/fapi/v1/premiumIndex'' [(''symbol'', symbol)] bd_Premium) (\<lambda>b.
       Inr \<lparr>fu_Symbol = pb_Symbol b, fu_MarkPrice = parseOrZero (pb_MarkPrice b), fu_IndexPrice = parseOrZero (pb_IndexPrice b),
            fu_LastFundingRate = parseOrZero (pb_LastFundingRate b), fu_NextFundingTime = msToTime (pb_NextFundingTime b),
            fu_At = msToTime (pb_Time b)\<rparr>)"

definition md_OpenInterest :: "md_net \<Rightarrow> string \<Rightarrow> md_error + open_interest" where
  "md_OpenInterest net symbol =
     bindE (md_get net 0 ''/fapi/v1/openInterest'' [(''symbol'', symbol)] bd_Interest) (\<lambda>(sym, oi, t).
       Inr \<lparr>ot_Symbol = sym, ot_OpenInterest = parseOrZero oi, ot_At = msToTime t\<rparr>)"

definition window_params :: "string \<Rightarrow> string \<Rightarrow> url_values" where
  "window_params symbol period = [(''symbol'', symbol), (''period'', validPeriod period), (''limit'', ''1'')]"

definition md_LongShortRatio :: "md_net \<Rightarrow> string \<Rightarrow> string \<Rightarrow> md_error + long_short" where
  "md_LongShortRatio net symbol period =
     bindE (md_get net 0 ''/futures/data/globalLongShortAccountRatio'' (window_params symbol period) bd_Ratios) (\<lambda>rows.
       if rows = [] then Inl (MdNoRatio symbol)
       else case last rows of (_, ratio, longs, shorts, t) \<Rightarrow>
         Inr \<lparr>ls_Symbol = symbol, ls_Period = validPeriod period, ls_Ratio = parseOrZero ratio, ls_LongAccount = parseOrZero longs,
              ls_ShortAccount = parseOrZero shorts, ls_At = msToTime t\<rparr>)"

definition md_TakerFlow :: "md_net \<Rightarrow> string \<Rightarrow> string \<Rightarrow> md_error + taker_flow" where
  "md_TakerFlow net symbol period =
     bindE (md_get net 0 ''/futures/data/takerlongshortRatio'' (window_params symbol period) bd_Takers) (\<lambda>rows.
       if rows = [] then Inl (MdNoTaker symbol)
       else case last rows of (ratio, buys, sells, t) \<Rightarrow>
         Inr \<lparr>tf_Symbol = symbol, tf_Period = validPeriod period, tf_BuySellRatio = parseOrZero ratio, tf_BuyVolume = parseOrZero buys,
              tf_SellVolume = parseOrZero sells, tf_At = msToTime t\<rparr>)"

text \<open>The client as the provider; each metric is one request of the collection.\<close>

definition BinanceProvider :: "md_net \<Rightarrow> md_error provider" where
  "BinanceProvider net =
     \<lparr>pv_Funding = md_Funding net, pv_OpenInterest = md_OpenInterest (\<lambda>n. net (n + 1)),
      pv_LongShortRatio = md_LongShortRatio (\<lambda>n. net (n + 2)), pv_TakerFlow = md_TakerFlow (\<lambda>n. net (n + 3))\<rparr>"

subsection \<open>Klines\<close>

definition klineFloat :: "json_value \<Rightarrow> rat option" where
  "klineFloat v = (case v of JsonString text \<Rightarrow> parse_float (trim_space text) | _ \<Rightarrow> None)"

definition kline_params :: "string \<Rightarrow> string \<Rightarrow> int \<Rightarrow> url_values" where
  "kline_params symbol interval limit = [(''symbol'', symbol), (''interval'', interval), (''limit'', show_int limit)]"

text \<open>A short row, or one whose close is not a text, is skipped; a close that does not parse ends the call.\<close>

fun close_rows :: "json_value list list \<Rightarrow> md_error + rat list" where
  "close_rows [] = Inr []"
| "close_rows (row # rows) =
     (if length row < 5 then close_rows rows
      else case row ! 4 of
             JsonString text \<Rightarrow>
               (case parse_float (trim_space text) of
                  None \<Rightarrow> Inl (MdParseClose text)
                | Some v \<Rightarrow> bindE (close_rows rows) (\<lambda>vs. Inr (v # vs)))
           | _ \<Rightarrow> close_rows rows)"

definition md_Closes :: "md_net \<Rightarrow> string \<Rightarrow> string \<Rightarrow> int \<Rightarrow> md_error + rat list" where
  "md_Closes net symbol interval limit =
     (let limit = (if limit \<le> 0 then 200 else limit)
      in bindE (md_get net 0 ''/fapi/v1/klines'' (kline_params symbol interval limit) bd_Klines) (\<lambda>rows.
           bindE (close_rows rows) (\<lambda>closes. if closes = [] then Inl (MdNoKlines symbol interval) else Inr closes)))"

definition kline_candle :: "json_value list \<Rightarrow> candle option" where
  "kline_candle row =
     (if length row < 6 then None
      else let openTime = (case row ! 0 of JsonNumber v \<Rightarrow> trunc v | _ \<Rightarrow> 0)
      in case (klineFloat (row ! 1), klineFloat (row ! 2), klineFloat (row ! 3), klineFloat (row ! 4), klineFloat (row ! 5)) of
           (Some o1, Some h, Some l, Some c, Some v) \<Rightarrow>
             Some \<lparr>k_OpenTime = msToTime openTime, k_Open = o1, k_High = h, k_Low = l, k_Close = c, k_Volume = v\<rparr>
         | _ \<Rightarrow> None)"

definition candlePage :: "md_net \<Rightarrow> nat \<Rightarrow> string \<Rightarrow> string \<Rightarrow> int \<Rightarrow> int \<Rightarrow> md_error + candle list" where
  "candlePage net n symbol interval limit endTime =
     bindE (md_get net n ''/fapi/v1/klines''
              (kline_params symbol interval limit @ (if endTime > 0 then [(''endTime'', show_int endTime)] else [])) bd_Klines) (\<lambda>rows.
       let candles = List.map_filter kline_candle rows
       in if candles = [] then Inl (MdNoKlines symbol interval) else Inr candles)"

definition maxKlineCandlesPerRequest :: int where "maxKlineCandlesPerRequest = 1000"

text \<open>The loop of \<open>candlesPaged\<close>: a page holds at least one candle, so \<open>remaining\<close> falls.\<close>

lemma candlePage_nonempty: "candlePage net n symbol interval limit e = Inr page \<Longrightarrow> page \<noteq> []"
  by (auto simp: candlePage_def Let_def split: if_splits)

function paged ::
    "md_net \<Rightarrow> nat \<Rightarrow> string \<Rightarrow> string \<Rightarrow> int \<Rightarrow> int \<Rightarrow> candle list \<Rightarrow> md_error + candle list" where
  "paged net n symbol interval remaining endTime out =
     (if remaining \<le> 0 then Inr out
      else let pageLimit = (if remaining > maxKlineCandlesPerRequest then maxKlineCandlesPerRequest else remaining)
      in case candlePage net n symbol interval pageLimit endTime of
           Inl e \<Rightarrow> Inl e
         | Inr page \<Rightarrow>
             if page = [] then Inr out
             else let nextEnd = timeToMs (k_OpenTime (hd page)) - 1
             in if endTime > 0 \<and> nextEnd \<ge> endTime then Inr out
                else if int (length page) < pageLimit then Inr (page @ out)
                else paged net (n + 1) symbol interval (remaining - int (length page)) nextEnd (page @ out))"
  by pat_completeness auto
termination
  by (relation "measure (\<lambda>(net, n, symbol, interval, remaining, endTime, out). nat remaining)") auto

declare paged.simps [simp del]

definition candlesPaged :: "md_net \<Rightarrow> string \<Rightarrow> string \<Rightarrow> int \<Rightarrow> md_error + candle list" where
  "candlesPaged net symbol interval limit =
     bindE (paged net 0 symbol interval limit 0 []) (\<lambda>out.
       if out = [] then Inl (MdNoKlines symbol interval)
       else Inr (if int (length out) > limit then drop (nat (int (length out) - limit)) out else out))"

definition md_Candles :: "md_net \<Rightarrow> string \<Rightarrow> string \<Rightarrow> int \<Rightarrow> md_error + candle list" where
  "md_Candles net symbol interval limit =
     (let limit = (if limit \<le> 0 then 200 else limit)
      in if limit > maxKlineCandlesPerRequest then candlesPaged net symbol interval limit
         else candlePage net 0 symbol interval limit 0)"

end
