(* ===== verification/Market_Properties.thy ===== *)
theory Market_Properties
  imports Market_Data
begin

text \<open>The properties of the market-data client (\<open>Market_Data\<close>): its paging of candles against the history the exchange serves.\<close>

section \<open>The last elements of a list\<close>

definition last_n :: "nat \<Rightarrow> 'a list \<Rightarrow> 'a list" where
  "last_n n xs = drop (length xs - n) xs"

lemma last_n_all [simp]: "length xs \<le> n \<Longrightarrow> last_n n xs = xs"
  by (simp add: last_n_def)

lemma length_last_n [simp]: "length (last_n n xs) = min n (length xs)"
  by (simp add: last_n_def)

lemma drop_take_drop: "a \<le> b \<Longrightarrow> drop a (take b xs) @ drop b xs = drop a xs"
proof -
  assume "a \<le> b"
  then have "drop a xs = drop a (take b xs @ drop b xs)" by simp
  also have "\<dots> = drop a (take b xs) @ drop b xs"
    using \<open>a \<le> b\<close> by (cases "b \<le> length xs") (simp_all add: min_def del: append_take_drop_id)
  finally show ?thesis by simp
qed

lemma last_n_split:
  assumes "m \<le> n"
  shows "last_n (n - m) (take (length xs - m) xs) @ last_n m xs = last_n n xs"
  using assms drop_take_drop [of "length xs - n" "length xs - m" xs] by (simp add: last_n_def)

section \<open>Histories\<close>

definition open_ms :: "candle \<Rightarrow> int" where
  "open_ms c = timeToMs (k_OpenTime c)"

definition history :: "candle list \<Rightarrow> bool" where
  "history H \<longleftrightarrow> sorted_wrt (\<lambda>a b. open_ms a < open_ms b) H \<and> (\<forall>c\<in>set H. 1 < open_ms c)"

lemma history_before:
  assumes "history H" "j < length H"
  shows "filter (\<lambda>c. open_ms c \<le> open_ms (H ! j) - 1) H = take j H"
proof -
  have H: "H = take j H @ drop j H" by simp
  have s: "sorted_wrt (\<lambda>a b. open_ms a < open_ms b) H" using assms(1) by (simp add: history_def)
  have "open_ms c < open_ms (H ! j)" if "c \<in> set (take j H)" for c
    using that s assms(2) by (auto simp: in_set_conv_nth sorted_wrt_iff_nth_less)
  moreover have "open_ms (H ! j) \<le> open_ms c" if c: "c \<in> set (drop j H)" for c
  proof -
    from c obtain i where i: "i < length H - j" "c = H ! (j + i)" by (auto simp: in_set_conv_nth)
    then show ?thesis using s assms(2) by (cases "i = 0") (auto simp: sorted_wrt_iff_nth_less less_imp_le)
  qed
  ultimately have "filter (\<lambda>c. open_ms c \<le> open_ms (H ! j) - 1) (take j H) = take j H"
    "filter (\<lambda>c. open_ms c \<le> open_ms (H ! j) - 1) (drop j H) = []"
    by (fastforce simp: filter_id_conv filter_empty_conv)+
  then show ?thesis by (subst H) (simp only: filter_append append_Nil2)
qed

text \<open>
  The documented behaviour of the kline endpoint: the latest \<open>limit\<close> bars, or the latest ones that opened no later than
  \<open>endTime\<close>. Only the requests a paging call makes matter: an end just before some bar.
\<close>

definition serves :: "md_net \<Rightarrow> string \<Rightarrow> string \<Rightarrow> candle list \<Rightarrow> bool" where
  "serves net symbol interval H \<longleftrightarrow>
     (\<forall>n limit e. 0 < limit \<longrightarrow> limit \<le> 1000 \<longrightarrow> (e = 0 \<or> (\<exists>j<length H. e = open_ms (H ! j) - 1)) \<longrightarrow>
        (\<exists>body rows. net n ''/fapi/v1/klines''
             (kline_params symbol interval limit @ (if e > 0 then [(''endTime'', show_int e)] else [])) = Reply 200 body \<and>
           bd_Klines body = Inr rows \<and>
           List.map_filter kline_candle rows = last_n (nat limit) (if e > 0 then filter (\<lambda>c. open_ms c \<le> e) H else H)))"

text \<open>The end time of the request that must return the bars before the \<open>k\<close>-th.\<close>

definition end_before :: "candle list \<Rightarrow> nat \<Rightarrow> int" where
  "end_before H k = (if k = length H then 0 else open_ms (H ! k) - 1)"

lemma page_of:
  assumes "serves net symbol interval H" "history H" "0 < limit" "limit \<le> 1000" "k \<le> length H"
  shows "candlePage net n symbol interval limit (end_before H k) =
    (if k = 0 then Inl (MdNoKlines symbol interval) else Inr (last_n (nat limit) (take k H)))"
proof -
  let ?e = "end_before H k"
  have e: "?e = 0 \<or> (\<exists>j<length H. ?e = open_ms (H ! j) - 1)" 
    using assms(5) by (cases "k = length H") (auto simp: end_before_def intro!: exI [of _ k])
  have f: "(if ?e > 0 then filter (\<lambda>c. open_ms c \<le> ?e) H else H) = take k H"
  proof (cases "k = length H")
    case False
    then have k: "k < length H" using assms(5) by simp
    then have "1 < open_ms (H ! k)" using assms(2) by (simp add: history_def)
    then show ?thesis using history_before [OF assms(2) k] False by (simp add: end_before_def)
  qed (simp add: end_before_def)
  obtain body rows where r: "net n ''/fapi/v1/klines''
        (kline_params symbol interval limit @ (if ?e > 0 then [(''endTime'', show_int ?e)] else [])) = Reply 200 body"
      "bd_Klines body = Inr rows" "List.map_filter kline_candle rows = last_n (nat limit) (take k H)"
    using assms(1) [unfolded serves_def, rule_format, OF assms(3,4) e, of n] unfolding f by blast
  have "last_n (nat limit) (take k H) = [] \<longleftrightarrow> k = 0"
    using assms(3,5) by (auto simp: last_n_def)
  then show ?thesis using r by (simp add: candlePage_def md_get_def Let_def)
qed

lemma paged_step:
  assumes "0 < r" "pl = (if r > 1000 then 1000 else r)"
  shows "paged net n symbol interval r e out =
    (case candlePage net n symbol interval pl e of
       Inl err \<Rightarrow> Inl err
     | Inr page \<Rightarrow>
         if page = [] then Inr out
         else let nextEnd = timeToMs (k_OpenTime (hd page)) - 1
         in if e > 0 \<and> nextEnd \<ge> e then Inr out
            else if int (length page) < pl then Inr (page @ out)
            else paged net (n + 1) symbol interval (r - int (length page)) nextEnd (page @ out))"
  using assms(1) unfolding assms(2) by (subst paged.simps) (simp only: Let_def maxKlineCandlesPerRequest_def not_le if_False split: if_splits, simp)

lemma paged_history:
  assumes "serves net symbol interval H" "history H"
  shows "0 < r \<Longrightarrow> k \<le> length H \<Longrightarrow>
    paged net n symbol interval r (end_before H k) (drop k H) =
      (if nat r \<le> k then Inr (last_n (nat r) (take k H) @ drop k H)
       else if k mod 1000 = 0 then Inl (MdNoKlines symbol interval) else Inr H)"
proof (induction "nat r" arbitrary: r k n rule: less_induct)
  case less
  define pl where "pl = (if r > 1000 then 1000 else r)"
  have pl: "0 < pl" "pl \<le> 1000" "pl \<le> r" "r > 1000 \<Longrightarrow> pl = 1000" "r \<le> 1000 \<Longrightarrow> pl = r" using less.prems(1) by (auto simp: pl_def)
  define P where "P = last_n (nat pl) (take k H)"
  have lenP: "length P = min (nat pl) k" using less.prems(2) by (simp add: P_def)
  note page = page_of [OF assms pl(1,2) less.prems(2), of n, folded P_def]
  show ?case
  proof (cases "k = 0")
    case True
    then show ?thesis using page less.prems(1) by (simp add: paged_step [OF less.prems(1) pl_def])
  next
    case False
    define j where "j = k - nat pl"
    have j: "j < k" "j < length H" using False pl(1) less.prems(2) by (auto simp: j_def)
    have dj: "P = drop j (take k H)" using less.prems(2) by (simp add: P_def last_n_def j_def min_absorb2)
    have ne: "P \<noteq> []" using j less.prems(2) by (simp add: dj)
    have hd: "hd P = H ! j" using j less.prems(2) by (simp add: dj hd_drop_conv_nth)
    have joined: "P @ drop k H = drop j H"
      using j less.prems(2) unfolding dj by (metis append_take_drop_id drop_append drop_all le_eq_less_or_eq length_take min_absorb2 diff_is_0_eq drop0 take_drop drop_drop le_add_diff_inverse2 add.commute)
    have nextEnd: "timeToMs (k_OpenTime (hd P)) - 1 = end_before H j"
      using j by (simp add: hd end_before_def open_ms_def)
    have less_end: "\<not> (end_before H k > 0 \<and> end_before H j \<ge> end_before H k)"
    proof (cases "k = length H")
      case False
      then have "k < length H" using less.prems(2) by simp
      then have "open_ms (H ! j) < open_ms (H ! k)"
        using assms(2) j(1) by (simp add: history_def sorted_wrt_iff_nth_less)
      then show ?thesis using False j by (simp add: end_before_def)
    qed (simp add: end_before_def)
    have step: "paged net n symbol interval r (end_before H k) (drop k H) =
        (if int (length P) < pl then Inr (drop j H)
         else paged net (n + 1) symbol interval (r - int (length P)) (end_before H j) (drop j H))"
      unfolding paged_step [OF less.prems(1) pl_def] Let_def
      using page ne False less_end nextEnd joined by (simp only: sum.case if_False)
    show ?thesis
    proof (cases "int k < pl")
      case True
      then have "j = 0" "int (length P) < pl" "\<not> nat r \<le> k" "k mod 1000 \<noteq> 0"
        using pl False less.prems(2) by (auto simp: j_def lenP mod_if)
      then show ?thesis unfolding step by simp
    next
      case big: False
      then have len: "int (length P) = pl" using pl(1) by (simp add: lenP)
      show ?thesis
      proof (cases "r \<le> 1000")
        case True
        then have "pl = r" "nat r \<le> k" using pl big by auto
        then show ?thesis unfolding step len using joined by (simp add: paged.simps [of net _ _ _ 0] P_def)
      next
        case False
        then have p: "pl = 1000" using pl by simp
        then have k: "1000 \<le> k" "j = k - 1000" "0 < r - 1000" "nat (r - 1000) < nat r" using big False by (auto simp: j_def)
        have "paged net (n + 1) symbol interval (r - 1000) (end_before H j) (drop j H) =
            (if nat (r - 1000) \<le> j then Inr (last_n (nat (r - 1000)) (take j H) @ drop j H)
             else if j mod 1000 = 0 then Inl (MdNoKlines symbol interval) else Inr H)"
          using less.hyps [OF k(4) k(3), of j "n + 1"] j by simp
        moreover have "nat (r - 1000) \<le> j \<longleftrightarrow> nat r \<le> k" "j mod 1000 = k mod 1000"
          using k False by (auto simp: mod_if nat_le_iff le_mod_geq)
        moreover have "last_n (nat (r - 1000)) (take j H) @ drop j H = last_n (nat r) (take k H) @ drop k H"
        proof -
          have "take j H = take (length (take k H) - 1000) (take k H)" using k less.prems(2) by (simp add: min_def)
          moreover have "nat (r - 1000) = nat r - 1000" "1000 \<le> nat r" using False by auto
          ultimately have "last_n (nat (r - 1000)) (take j H) @ last_n 1000 (take k H) = last_n (nat r) (take k H)"
            using last_n_split [of 1000 "nat r" "take k H"] by simp
          moreover have "P = last_n 1000 (take k H)" by (simp add: P_def p)
          ultimately show ?thesis using joined by (metis append_assoc)
        qed
        ultimately show ?thesis unfolding step len p by simp
      qed
    qed
  qed
qed

text \<open>C4. Paging is invisible, but for one case. Against an exchange that serves a history of bars as documented, asking for
  \<open>limit\<close> candles (200 when not positive) gives the latest \<open>limit\<close> of them, the same as one request without a cap
  would, and the whole history when it is shorter; but above 1000 candles a shorter history whose length is a multiple
  of 1000 is answered with an error, because the page after the last bar is empty and an empty page is an error.\<close>

theorem candles_paging_exact:
  assumes "serves net symbol interval H" and "history H"
  shows "md_Candles net symbol interval limit =
    (let want = nat (if limit \<le> 0 then 200 else limit)
     in if H = [] \<or> 1000 < want \<and> length H < want \<and> length H mod 1000 = 0 then Inl (MdNoKlines symbol interval)
        else Inr (last_n want H))"
proof -
  define w where "w = (if limit \<le> 0 then 200 else limit)"
  have w: "0 < w" by (simp add: w_def)
  show ?thesis
  proof (cases "w > 1000")
    case False
    then show ?thesis
      using page_of [OF assms w, of "length H" 0]
      by (auto simp: md_Candles_def Let_def maxKlineCandlesPerRequest_def w_def [symmetric] end_before_def)
  next
    case True
    have "paged net 0 symbol interval w 0 [] =
      (if nat w \<le> length H then Inr (last_n (nat w) H)
       else if length H mod 1000 = 0 then Inl (MdNoKlines symbol interval) else Inr H)"
      using paged_history [OF assms w, of "length H" 0] by (simp add: end_before_def)
    then show ?thesis using True
      by (auto simp: md_Candles_def candlesPaged_def Let_def maxKlineCandlesPerRequest_def w_def [symmetric] last_n_def)
  qed
qed

definition kline_row :: "json_value list" where
  "kline_row = [JsonNumber 1700000000000, JsonString ''1'', JsonString ''3'', JsonString ''1'', JsonString ''2'', JsonString ''9'']"

definition kline_bar :: candle where
  "kline_bar = \<lparr>k_OpenTime = msToTime 1700000000000, k_Open = 1, k_High = 3, k_Low = 1, k_Close = 2, k_Volume = 9\<rparr>"

definition no_md_body :: md_body where
  "no_md_body = \<lparr>bd_Text = [], bd_Symbols = Inl [], bd_Tickers = Inl [], bd_Premium = Inl [], bd_Interest = Inl [],
     bd_Ratios = Inl [], bd_Takers = Inl [], bd_Klines = Inl []\<rparr>"

definition one_bar_net :: md_net where
  "one_bar_net n path params =
     Reply 200 (no_md_body\<lparr>bd_Klines := Inr (if ''endTime'' \<in> fst ` set params then [] else [kline_row])\<rparr>)"

lemma kline_row_bar: "kline_candle kline_row = Some kline_bar" by code_simp

lemma kline_bar_ms: "open_ms kline_bar = 1700000000000" by code_simp

lemma one_bar_served: "serves one_bar_net ''BTCUSDT'' ''1h'' [kline_bar]" "history [kline_bar]"
proof -
  have p: "''endTime'' \<notin> fst ` set (kline_params s i l)" for s i l by (simp add: kline_params_def)
  show "serves one_bar_net ''BTCUSDT'' ''1h'' [kline_bar]"
    by (auto simp: serves_def one_bar_net_def p kline_bar_ms kline_row_bar last_n_def List.map_filter_def)
  show "history [kline_bar]" by (simp add: history_def kline_bar_ms)
qed

theorem candles_paging_exact_witness:
  "md_Candles one_bar_net ''BTCUSDT'' ''1h'' 2500 = Inr [kline_bar]"
  using candles_paging_exact [OF one_bar_served, of 2500] by simp

end
