(* ===== verification/Bot_Text.thy ===== *)
theory Bot_Text
  imports Market_Data Backtest Campaign Order_Text
begin

text \<open>
  The texts of the bot and of the web console: market snapshots, plan previews, backtests, plans, durations and
  times as Go's \<open>time\<close> package prints them. Emoji are their UTF-8 bytes.
\<close>

section \<open>Durations and times\<close>

definition frac_text :: "nat \<Rightarrow> int \<Rightarrow> string" where
  "frac_text prec v =
     (let digits = trim_right_char (CHR ''0'') (fixed_digits prec (nat (v mod 10 ^ prec)))
      in if digits = [] then [] else ''.'' @ digits)"

text \<open>\<open>time.Duration.String\<close>.\<close>

definition duration_text :: "duration \<Rightarrow> string" where
  "duration_text d =
     (let u = \<bar>d\<bar>; sign = (if d < 0 then ''-'' else [])
      in if u = 0 then ''0s''
         else if u < 1000 then sign @ show_int u @ ''ns''
         else if u < 1000000 then sign @ show_int (u div 1000) @ frac_text 3 u @ [CHR 0xC2, CHR 0xB5] @ ''s''
         else if u < 1000000000 then sign @ show_int (u div 1000000) @ frac_text 6 u @ ''ms''
         else let s = u div 1000000000; m = s div 60; h = m div 60
         in sign @ (if h > 0 then show_int h @ ''h'' else []) @ (if m > 0 then show_int (m mod 60) @ ''m'' else []) @
            show_int (s mod 60) @ frac_text 9 u @ ''s'')"

text \<open>The day, month and year of a day number counted from 1 January of year 1.\<close>

definition civil_date :: "int \<Rightarrow> int \<times> int \<times> int" where
  "civil_date days =
     (let z = days + 306; era = z div 146097; doe = z mod 146097;
          yoe = (doe - doe div 1460 + doe div 36524 - doe div 146096) div 365;
          doy = doe - (365 * yoe + yoe div 4 - yoe div 100); mp = (5 * doy + 2) div 153;
          month = (if mp < 10 then mp + 3 else mp - 9)
      in (yoe + era * 400 + (if month \<le> 2 then 1 else 0), month, doy - (153 * mp + 2) div 5 + 1))"

definition two :: "int \<Rightarrow> string" where "two n = fixed_digits 2 (nat n)"

text \<open>\<open>Format(time.RFC3339)\<close> of a UTC time.\<close>

definition rfc3339 :: "time \<Rightarrow> string" where
  "rfc3339 t =
     (let s = t div 1000000000; (y, m, d) = civil_date (s div 86400); r = s mod 86400
      in fixed_digits 4 (nat y) @ ''-'' @ two m @ ''-'' @ two d @ ''T'' @ two (r div 3600) @ '':'' @ two (r div 60 mod 60) @ '':'' @
         two (r mod 60) @ ''Z'')"

lemma time_texts:
  "rfc3339 unix_epoch = ''1970-01-01T00:00:00Z''" "rfc3339 (unix_epoch + seconds 1709210096) = ''2024-02-29T12:34:56Z''" "rfc3339 0 = ''0001-01-01T00:00:00Z''"
  "duration_text (minutes 5) = ''5m0s''" "duration_text (hours 26 + 1500000000) = ''26h0m1.5s''" "duration_text 2500000 = ''2.5ms''"
  by code_simp+

section \<open>Plans\<close>

text \<open>\<open>internal/plans/service.go\<close>.\<close>

record plan_status =
  ps_PlanID :: string
  ps_IntentCount :: int
  ps_Symbols :: "string list"
  ps_LastUpdated :: time

type_synonym plan_provider = "int \<Rightarrow> string \<Rightarrow> string + plan_status"

definition EmptyStatusProvider :: plan_provider where
  "EmptyStatusProvider userID planID = Inr \<lparr>ps_PlanID = planID, ps_IntentCount = 0, ps_Symbols = [], ps_LastUpdated = 0\<rparr>"

definition plan_text :: "plan_provider \<Rightarrow> int \<Rightarrow> string \<Rightarrow> string" where
  "plan_text provider userID planID =
     (case provider userID planID of
        Inl e \<Rightarrow> ''Plan '' @ planID @ '' status lookup failed: '' @ e
      | Inr status \<Rightarrow>
          if ps_IntentCount status = 0 then ''Plan '' @ planID @ '' has no recorded intents yet.''
          else
            ''Plan '' @ ps_PlanID status @ nl @ ''Recorded intents: '' @ show_int (ps_IntentCount status) @ nl @
            ''Symbols: '' @ (if ps_Symbols status \<noteq> [] then join_with '', '' (ps_Symbols status) else ''-'') @ nl @
            ''Last updated: '' @ (if is_zero_time (ps_LastUpdated status) then ''-'' else rfc3339 (ps_LastUpdated status)))"

section \<open>Market\<close>

definition chart :: string where "chart = [CHR 0xF0, CHR 0x9F, CHR 0x93, CHR 0x8A]"
definition warning :: string where "warning = [CHR 0xE2, CHR 0x9A, CHR 0xA0, CHR 0xEF, CHR 0xB8, CHR 0x8F]"
definition tick_mark :: string where "tick_mark = [CHR 0xE2, CHR 0x9C, CHR 0x85]"

definition formatMarketSnapshot :: "market_snapshot \<Rightarrow> string" where
  "formatMarketSnapshot s =
     (let f = sn_Funding s; o1 = sn_OpenInterest s; l = sn_LongShort s; t = sn_Taker s
      in chart @ '' '' @ sn_Symbol s @ '' market data ('' @ sn_Period s @ '')'' @
         (if dec_IsPositive (fu_MarkPrice f)
          then nl @ ''Mark price: '' @ dec_String (fu_MarkPrice f) @ nl @ ''Funding rate: '' @ dec_String (fu_LastFundingRate f) @ '' (per 8h)''
          else []) @
         (if dec_IsPositive (ot_OpenInterest o1) then nl @ ''Open interest: '' @ dec_String (ot_OpenInterest o1) else []) @
         (if dec_IsPositive (ls_Ratio l)
          then nl @ ''Long/Short accounts: '' @ dec_String (ls_Ratio l) @ '' (long '' @ dec_String (ls_LongAccount l) @ '' / short '' @
               dec_String (ls_ShortAccount l) @ '')''
          else []) @
         (if dec_IsPositive (tf_BuySellRatio t) then nl @ ''Taker buy/sell: '' @ dec_String (tf_BuySellRatio t) else []))"

section \<open>Goals\<close>

definition preview_verdict :: "verdict \<Rightarrow> string" where
  "preview_verdict v =
     (case v of
        StopTargetReached \<Rightarrow> [CHR 0xF0, CHR 0x9F, CHR 0x8E, CHR 0xAF] @ '' target reached''
      | StopMaxDrawdown \<Rightarrow> [CHR 0xF0, CHR 0x9F, CHR 0x9B, CHR 0x91] @ '' stopped: max drawdown''
      | StopMaxTrades \<Rightarrow> [CHR 0xE2, CHR 0x8F, CHR 0xB9] @ '' stopped: max trades''
      | StopStrategyRule \<Rightarrow> ''strategy_rule'' | Continue \<Rightarrow> ''continue'')"

definition goal_preview :: "goal \<Rightarrow> int \<Rightarrow> simulation \<Rightarrow> string" where
  "goal_preview g estimate r =
     (let wins = int (length (filter to_Win (sim_Outcomes r))); n = cst_TradesClosed (sim_State r)
      in [CHR 0xF0, CHR 0x9F, CHR 0x8E, CHR 0xAF] @ '' Goal: make '' @ dec_String (gl_TargetProfitUSDT g) @ '' USDT from '' @
         dec_String (gl_CapitalUSDT g) @ '' USDT capital'' @ nl @
         ''Risk: up to '' @ show_int (RiskPercent g) @ ''% of capital (stop at -'' @ dec_String (gl_MaxDrawdownUSDT g) @
         '' USDT), assumed win-rate '' @ show_int (gl_AssumedWinRate g) @ ''%'' @ nl @
         ''Expectancy: '' @ dec_String (ExpectedPerTrade g) @ '' USDT/trade '' @ [CHR 0xE2, CHR 0x86, CHR 0x92] @ '' ~'' @ show_int estimate @
         '' trades needed'' @ nl @ nl @
         chart @ '' Simulation (no real orders): '' @ preview_verdict (sim_Verdict r) @ nl @
         ''Trades: '' @ show_int n @ '' ('' @ show_int wins @ '' win / '' @ show_int (n - wins) @ '' loss) '' @ middot @ '' Final PnL: '' @
         dec_String (cst_RealizedPnL (sim_State r)) @ '' USDT'')"

definition formatGoal :: "goal \<Rightarrow> int \<Rightarrow> simulation \<Rightarrow> string" where
  "formatGoal g estimate r =
     goal_preview g estimate r @ nl @ nl @ warning @
     '' This is a planning preview. Autonomous live execution is gated until testnet-validated; for now place trades yourself with [Confirm].''"

section \<open>Backtests\<close>

definition backtest_error_text :: "backtest_error \<Rightarrow> string" where
  "backtest_error_text e =
     (case e of NoStrategy \<Rightarrow> ''backtest: strategy is required'' | TooFewCloses \<Rightarrow> ''backtest: need at least two closes''
      | NegativeFee \<Rightarrow> ''backtest: fee rate must be non-negative'')"

definition chat_strategies :: "strategy list" where
  "chat_strategies = [EMACrossStrategy 12 26, RSIReversionStrategy 14 30 70]"

definition backtest_line :: "rat list \<Rightarrow> strategy \<Rightarrow> string" where
  "backtest_line closes st =
     nl @ nl @
     (case backtest_Run closes (Some (strategy_Name st, strategy_Evaluate st)) (f64 (4 / 10000)) of
        Inl e \<Rightarrow> strategy_Name st @ '': '' @ backtest_error_text e
      | Inr r \<Rightarrow>
          br_Strategy r @ nl @ ''Trades: '' @ show_int (br_Trades r) @ '' | Win rate: '' @ format_fixed 0 (br_WinRatePct r) @ ''%'' @ nl @
          ''Return: '' @ format_fixed 2 (br_ReturnPct r) @ ''% | Max DD: '' @ format_fixed 2 (br_MaxDrawdownPct r) @ ''%'')"

definition backtest_text :: "string \<Rightarrow> rat list \<Rightarrow> string" where
  "backtest_text symbol closes =
     [CHR 0xF0, CHR 0x9F, CHR 0xA7, CHR 0xAA] @ '' Backtest '' @ symbol @ '' (1h, '' @ show_int (int (length closes)) @ '' bars, fee 0.04%/side)'' @
     concat (map (backtest_line closes) chat_strategies) @ nl @ nl @ ''Past performance is not indicative of future results.''"

end
