(* ===== verification/Realtime.thy ===== *)
theory Realtime
  imports Campaign
begin

text \<open>
  \<open>internal/realtime\<close>: the gateway that turns snapshots of the open positions into events, the broadcaster
  that fans them out to bounded queues, and the decoding of the exchange's user-data messages. Go
  ranges over a map in any order: the order is an argument. A channel is the list of what it buffers.
\<close>

section \<open>Events\<close>

datatype event_type = EventPositionUpdate | EventTradeClosed

record event =
  ev_Type :: event_type
  ev_UserID :: int
  ev_Symbol :: string
  ev_Side :: string
  ev_Amount :: decimal
  ev_EntryPrice :: decimal
  ev_MarkPrice :: decimal
  ev_UnrealizedPnL :: decimal
  ev_RealizedPnL :: decimal
  ev_At :: time

definition no_event :: event where
  "no_event = \<lparr>ev_Type = EventPositionUpdate, ev_UserID = 0, ev_Symbol = [], ev_Side = [], ev_Amount = dec_unset,
     ev_EntryPrice = dec_unset, ev_MarkPrice = dec_unset, ev_UnrealizedPnL = dec_unset, ev_RealizedPnL = dec_unset, ev_At = 0\<rparr>"

record user_order =
  uo_Symbol :: string
  uo_Side :: string
  uo_ExecutionType :: string
  uo_OrderStatus :: string
  uo_RealizedPnL :: string
  uo_AveragePrice :: string
  uo_ReduceOnly :: bool

record user_envelope =
  ue_EventType :: string
  ue_EventTime :: int
  ue_Order :: "user_order option"

definition parseDecimalOrZero :: "string \<Rightarrow> decimal" where
  "parseDecimalOrZero value =
     (if trim_space value = [] then dec_Zero
      else case dec_Parse (trim_space value) of Inl _ \<Rightarrow> dec_Zero | Inr d \<Rightarrow> d)"

text \<open>\<open>ParseUserDataEvent\<close> on what \<open>json.Unmarshal\<close> makes of the message.\<close>

definition ParseUserDataEvent :: "string + user_envelope \<Rightarrow> time \<Rightarrow> string + event option" where
  "ParseUserDataEvent decoded now =
     (case decoded of
        Inl e \<Rightarrow> Inl e
      | Inr env \<Rightarrow>
          if ue_EventType env \<noteq> ''ORDER_TRADE_UPDATE'' then Inr None
          else case ue_Order env of
            None \<Rightarrow> Inr None
          | Some o1 \<Rightarrow>
              if \<not> equal_fold (uo_ExecutionType o1) ''TRADE'' \<or> \<not> equal_fold (uo_OrderStatus o1) ''FILLED'' then Inr None
              else let ts = (if ue_EventTime env > 0 then ue_EventTime env * (seconds 1 div 1000) else now);
                       realized = parseDecimalOrZero (uo_RealizedPnL o1)
              in if uo_ReduceOnly o1 \<or> \<not> dec_IsZero realized then
                   Inr (Some (no_event\<lparr>ev_Type := EventTradeClosed, ev_Symbol := uo_Symbol o1, ev_Side := to_lower (uo_Side o1),
                     ev_MarkPrice := parseDecimalOrZero (uo_AveragePrice o1), ev_RealizedPnL := realized, ev_At := ts\<rparr>))
                 else Inr (Some (no_event\<lparr>ev_Type := EventPositionUpdate, ev_Symbol := uo_Symbol o1, ev_Side := to_lower (uo_Side o1),
                     ev_MarkPrice := parseDecimalOrZero (uo_AveragePrice o1), ev_At := ts\<rparr>)))"

section \<open>The broadcaster\<close>

record broadcaster =
  bc_next :: int
  bc_subs :: "int \<Rightarrow> event list option"
  bc_buffer :: int

definition NewBroadcaster :: "int \<Rightarrow> broadcaster" where
  "NewBroadcaster bufSize = \<lparr>bc_next = 0, bc_subs = (\<lambda>_. None), bc_buffer = (if bufSize \<le> 0 then 16 else bufSize)\<rparr>"

definition Subscribe :: "broadcaster \<Rightarrow> int \<times> broadcaster" where
  "Subscribe b = (bc_next b, b\<lparr>bc_next := bc_next b + 1, bc_subs := (bc_subs b)(bc_next b \<mapsto> [])\<rparr>)"

definition Unsubscribe :: "int \<Rightarrow> broadcaster \<Rightarrow> broadcaster" where
  "Unsubscribe k b = b\<lparr>bc_subs := (bc_subs b)(k := None)\<rparr>"

definition Publish :: "event \<Rightarrow> broadcaster \<Rightarrow> broadcaster" where
  "Publish e b =
     b\<lparr>bc_subs := (\<lambda>k. map_option (\<lambda>q. if int (length q) < bc_buffer b then q @ [e] else q) (bc_subs b k))\<rparr>"

section \<open>The gateway\<close>

type_synonym snapshot = "string \<Rightarrow> position option"

definition indexBySymbol :: "position list \<Rightarrow> snapshot" where
  "indexBySymbol ps = fold (\<lambda>p m. if dec_IsZero (p_Amount p) then m else m(p_Symbol p \<mapsto> p)) ps (\<lambda>_. None)"

definition gw_changed :: "position \<Rightarrow> position \<Rightarrow> bool" where
  "gw_changed previous current \<longleftrightarrow>
     \<not> dec_Equal (p_Amount previous) (p_Amount current) \<or> \<not> dec_Equal (p_MarkPrice previous) (p_MarkPrice current)"

definition update_event :: "int \<Rightarrow> time \<Rightarrow> string \<Rightarrow> position \<Rightarrow> event" where
  "update_event userID ts symbol p =
     no_event\<lparr>ev_Type := EventPositionUpdate, ev_UserID := userID, ev_Symbol := symbol, ev_Side := p_Side p, ev_Amount := p_Amount p,
       ev_EntryPrice := p_EntryPrice p, ev_MarkPrice := p_MarkPrice p, ev_UnrealizedPnL := p_UnrealizedProfit p, ev_At := ts\<rparr>"

definition closed_event :: "int \<Rightarrow> time \<Rightarrow> string \<Rightarrow> position \<Rightarrow> event" where
  "closed_event userID ts symbol p =
     no_event\<lparr>ev_Type := EventTradeClosed, ev_UserID := userID, ev_Symbol := symbol, ev_Side := p_Side p,
       ev_EntryPrice := p_EntryPrice p, ev_MarkPrice := p_MarkPrice p, ev_RealizedPnL := p_UnrealizedProfit p, ev_At := ts\<rparr>"

text \<open>The events of a tick: \<open>opened\<close> and \<open>gone\<close> are the orders the two maps are ranged over.\<close>

definition tick_updates :: "int \<Rightarrow> time \<Rightarrow> string list \<Rightarrow> snapshot \<Rightarrow> snapshot \<Rightarrow> event list" where
  "tick_updates userID ts opened last1 current =
     concat (map (\<lambda>symbol. case current symbol of
       None \<Rightarrow> []
     | Some p \<Rightarrow> (case last1 symbol of
          None \<Rightarrow> [update_event userID ts symbol p]
        | Some q \<Rightarrow> if gw_changed q p then [update_event userID ts symbol p] else [])) opened)"

definition tick_closes :: "int \<Rightarrow> time \<Rightarrow> string list \<Rightarrow> snapshot \<Rightarrow> snapshot \<Rightarrow> event list" where
  "tick_closes userID ts gone last1 current =
     concat (map (\<lambda>symbol. case last1 symbol of
       None \<Rightarrow> []
     | Some q \<Rightarrow> if current symbol \<noteq> None then [] else [closed_event userID ts symbol q]) gone)"

definition gw_seed :: "string + position list \<Rightarrow> snapshot \<Rightarrow> string option \<times> snapshot" where
  "gw_seed positions last1 = (case positions of Inl e \<Rightarrow> (Some e, last1) | Inr ps \<Rightarrow> (None, indexBySymbol ps))"

definition gw_Tick ::
    "int \<Rightarrow> time \<Rightarrow> string + position list \<Rightarrow> string list \<Rightarrow> string list \<Rightarrow> snapshot \<times> broadcaster \<Rightarrow>
     string option \<times> snapshot \<times> broadcaster" where
  "gw_Tick userID ts positions opened gone x =
     (case x of (last1, b) \<Rightarrow>
        (case positions of
           Inl e \<Rightarrow> (Some e, last1, b)
         | Inr ps \<Rightarrow>
             let current = indexBySymbol ps
             in (None, current, fold Publish (tick_updates userID ts opened last1 current @ tick_closes userID ts gone last1 current) b)))"

section \<open>What a subscriber sees\<close>

lemma publish_queue:
  "bc_subs b k = Some q \<Longrightarrow> bc_subs (fold Publish es b) k = Some (q @ take (nat (bc_buffer b) - length q) es) \<and>
     bc_buffer (fold Publish es b) = bc_buffer b"
proof (induction es arbitrary: b q)
  case (Cons e es)
  let ?b = "Publish e b"
  have b: "bc_buffer ?b = bc_buffer b" by (simp add: Publish_def)
  show ?case
  proof (cases "int (length q) < bc_buffer b")
    case True
    then have "bc_subs ?b k = Some (q @ [e])" using Cons.prems by (simp add: Publish_def)
    moreover have "nat (bc_buffer b) - length q = Suc (nat (bc_buffer b) - Suc (length q))" using True by simp
    ultimately show ?thesis using Cons.IH [of ?b "q @ [e]"] b by simp
  next
    case False
    then have "bc_subs ?b k = Some q" using Cons.prems by (simp add: Publish_def)
    from Cons.IH [OF this] False b show ?thesis by (cases "nat (bc_buffer b) - length q") auto
  qed
qed simp

text \<open>What the resolver reads of the queue.\<close>

definition resolver_reads :: "event list \<Rightarrow> resolver_input list" where
  "resolver_reads es = map (\<lambda>e. StreamEvent (ev_Type e = EventTradeClosed) (ev_Symbol e) (ev_RealizedPnL e)) es"

lemma AwaitClose_skip:
  "\<forall>e\<in>set es. \<not> (ev_Type e = EventTradeClosed \<and> equal_fold (ev_Symbol e) symbol) \<Longrightarrow>
     AwaitClose symbol (resolver_reads es @ xs) = AwaitClose symbol xs"
  by (induction es) (auto simp: resolver_reads_def)

lemma tick_updates_open: "e \<in> set (tick_updates u t os l c) \<Longrightarrow> ev_Type e = EventPositionUpdate"
  by (auto simp: tick_updates_def update_event_def split: option.splits if_splits)

lemma AwaitClose_first:
  assumes "find_first (\<lambda>e. ev_Type e = EventTradeClosed \<and> equal_fold (ev_Symbol e) symbol) es = Some e"
  shows "AwaitClose symbol (resolver_reads es @ xs) = Some (Inr (ev_RealizedPnL e))"
  using assms by (induction es) (auto simp: resolver_reads_def split: if_splits)

lemma closes_member:
  "e \<in> set (tick_closes u t gone l c) \<longleftrightarrow>
     (\<exists>s q. s \<in> set gone \<and> l s = Some q \<and> c s = None \<and> e = closed_event u t s q)"
  unfolding tick_closes_def by (force split: option.splits if_splits)

section \<open>Properties\<close>

text \<open>A close the gateway observes resolves the trade that waits for it: when a position on the symbol was in the
  last snapshot and a poll no longer shows it, a resolver that subscribed before the poll and whose
  queue takes the poll's events returns the last profit seen on that symbol, whatever order the maps
  are ranged over and whatever else the poll reports.\<close>

theorem gateway_resolves:
  assumes "gw_Tick u t (Inr ps) opened gone (last1, b) = (r, current, b')"
    and "Subscribe b0 = (k, b)" and "last1 s = Some q" and "indexBySymbol ps s = None" and "s \<in> set gone"
    and "\<forall>s'. last1 s' \<noteq> None \<longrightarrow> equal_fold s' s \<longrightarrow> s' = s"
    and "int (length (tick_updates u t opened last1 (indexBySymbol ps) @ tick_closes u t gone last1 (indexBySymbol ps))) \<le> bc_buffer b"
  shows "\<exists>es. bc_subs b' k = Some es \<and> AwaitClose s (resolver_reads es @ xs) = Some (Inr (p_UnrealizedProfit q))"
proof -
  let ?c = "indexBySymbol ps"
  let ?es = "tick_updates u t opened last1 ?c @ tick_closes u t gone last1 ?c"
  let ?hit = "\<lambda>e. ev_Type e = EventTradeClosed \<and> equal_fold (ev_Symbol e) s"
  have "bc_subs b k = Some []" using assms(2) by (auto simp: Subscribe_def)
  moreover have b': "b' = fold Publish ?es b" using assms(1) by (auto simp: gw_Tick_def Let_def)
  ultimately have queue: "bc_subs b' k = Some ?es"
    using publish_queue [of b k "[]" ?es] assms(7) unfolding b' by simp
  have mem: "closed_event u t s q \<in> set ?es" "?hit (closed_event u t s q)"
    using assms(3-5) closes_member [of "closed_event u t s q"] by (auto simp: closed_event_def)
  then obtain e where e: "find_first ?hit ?es = Some e" using find_first_None [of ?hit ?es] by (cases "find_first ?hit ?es") auto
  from find_first_Some [OF this] have "e \<in> set ?es" "?hit e" by auto
  then obtain s' q' where e': "last1 s' = Some q'" "e = closed_event u t s' q'"
    using tick_updates_open closes_member by fastforce
  then have "s' = s" using assms(6) \<open>?hit e\<close> by (auto simp: closed_event_def)
  then have "ev_RealizedPnL e = p_UnrealizedProfit q" using e' assms(3) by (simp add: closed_event_def)
  then show ?thesis using queue AwaitClose_first [OF e, of xs] by auto
qed

text \<open>A position that turns within one poll is never reported closed: when the poll shows the symbol open on the
  other side, no close event is published for it, so a trade that waits for its close keeps waiting.\<close>

theorem flip_not_reported:
  assumes "gw_Tick u t (Inr ps) opened gone (last1, b) = (r, current, b')"
    and "Subscribe b0 = (k, b)" and "last1 s = Some q" "indexBySymbol ps s = Some p" "p_Side p \<noteq> p_Side q"
    and "\<forall>s'. last1 s' \<noteq> None \<longrightarrow> equal_fold s' s \<longrightarrow> s' = s"
  shows "\<exists>es. bc_subs b' k = Some es \<and> AwaitClose s (resolver_reads es) = None"
proof -
  let ?c = "indexBySymbol ps"
  let ?es = "tick_updates u t opened last1 ?c @ tick_closes u t gone last1 ?c"
  have "bc_subs b k = Some []" using assms(2) by (auto simp: Subscribe_def)
  moreover have b': "b' = fold Publish ?es b" using assms(1) by (auto simp: gw_Tick_def Let_def)
  ultimately have queue: "bc_subs b' k = Some (take (nat (bc_buffer b)) ?es)"
    using publish_queue [of b k "[]" ?es] unfolding b' by simp
  have "\<not> (ev_Type e = EventTradeClosed \<and> equal_fold (ev_Symbol e) s)" if "e \<in> set ?es" for e
    using that tick_updates_open assms(4,6) by (fastforce simp: closes_member closed_event_def)
  then have "AwaitClose s (resolver_reads (take (nat (bc_buffer b)) ?es) @ []) = AwaitClose s []"
    by (intro AwaitClose_skip) (meson in_set_takeD)
  then show ?thesis using queue by simp
qed

definition ex_open :: position where
  "ex_open = \<lparr>p_Symbol = ''BTCUSDT'', p_Side = ''long'', p_Amount = dec_NewFromInt 2, p_EntryPrice = dec_NewFromInt 100,
     p_MarkPrice = dec_NewFromInt 101, p_UnrealizedProfit = dec_NewFromInt 2, p_Leverage = 3, p_MarginType = ''isolated''\<rparr>"

theorem gateway_resolves_witness:
  "\<exists>es. bc_subs (snd (snd (gw_Tick 7 900 (Inr []) [] [''BTCUSDT''] ([''BTCUSDT'' \<mapsto> ex_open], snd (Subscribe (NewBroadcaster 0)))))) 0 = Some es \<and>
     AwaitClose ''BTCUSDT'' (resolver_reads es @ [TimerFired]) = Some (Inr (dec_NewFromInt 2))"
proof -
  let ?b = "snd (Subscribe (NewBroadcaster 0))"
  let ?g = "gw_Tick 7 900 (Inr []) [] [''BTCUSDT''] ([''BTCUSDT'' \<mapsto> ex_open], ?b)"
  have g: "?g = (fst ?g, fst (snd ?g), snd (snd ?g))" "Subscribe (NewBroadcaster 0) = (0, ?b)"
    by (simp_all add: Subscribe_def NewBroadcaster_def)
  have "\<exists>es. bc_subs (snd (snd ?g)) 0 = Some es \<and>
      AwaitClose ''BTCUSDT'' (resolver_reads es @ [TimerFired]) = Some (Inr (p_UnrealizedProfit ex_open))"
    by (rule gateway_resolves [OF g]) (simp_all add: indexBySymbol_def tick_updates_def tick_closes_def Subscribe_def NewBroadcaster_def)
  then show ?thesis by (simp add: ex_open_def)
qed

theorem flip_not_reported_witness:
  "\<exists>es. bc_subs (snd (snd (gw_Tick 7 900 (Inr [ex_open\<lparr>p_Side := ''short''\<rparr>]) [''BTCUSDT''] [''BTCUSDT'']
     ([''BTCUSDT'' \<mapsto> ex_open], snd (Subscribe (NewBroadcaster 0)))))) 0 = Some es \<and> AwaitClose ''BTCUSDT'' (resolver_reads es) = None"
proof -
  let ?b = "snd (Subscribe (NewBroadcaster 0))"
  let ?g = "gw_Tick 7 900 (Inr [ex_open\<lparr>p_Side := ''short''\<rparr>]) [''BTCUSDT''] [''BTCUSDT''] ([''BTCUSDT'' \<mapsto> ex_open], ?b)"
  have g: "?g = (fst ?g, fst (snd ?g), snd (snd ?g))" "Subscribe (NewBroadcaster 0) = (0, ?b)"
    by (simp_all add: Subscribe_def NewBroadcaster_def)
  have p: "indexBySymbol [ex_open\<lparr>p_Side := ''short''\<rparr>] ''BTCUSDT'' = Some (ex_open\<lparr>p_Side := ''short''\<rparr>)"
    by (simp add: indexBySymbol_def ex_open_def dec_simps)
  show ?thesis
    by (rule flip_not_reported [OF g _ p, where q = ex_open]) (simp_all add: ex_open_def)
qed

end
