(* ===== verification/Telegram_Bot.thy ===== *)
theory Telegram_Bot
  imports Bot_Text Orders Access Campaign_Manager Realtime
begin

text \<open>
  The Telegram bot: \<open>internal/telegram/handler.go\<close>, \<open>messages.go\<close> and the alerts of \<open>runner.go\<close>. An update is a message or a
  pressed button; the handler answers with calls of the Bot API, whose \<open>n\<close>-th call in an update may fail
  (\<open>be_send\<close>). The order service, the access store behind the crew commands, the campaign manager and the market
  data are those of their components. The three long fixed texts are constructors.
\<close>

section \<open>Buttons and messages\<close>

datatype button = CallbackButton string string | WebAppButton string string

type_synonym keyboard = "button list list"

datatype bot_text = StartText | OnboardText | HelpText | Said string

datatype bot_call =
    SendMessage int bot_text "keyboard option"
  | AnswerCallback string string
  | EditMessage int int string "keyboard option"

definition positionActionCallbackData :: "string \<Rightarrow> string \<Rightarrow> string" where
  "positionActionCallbackData action symbol = ''tbact:'' @ action @ '':'' @ symbol"

definition confirmationCallbackData :: "string \<Rightarrow> string \<Rightarrow> string" where
  "confirmationCallbackData action k = ''tb:'' @ action @ '':'' @ k"

definition confirmationKeyboard :: "string \<Rightarrow> keyboard" where
  "confirmationKeyboard k =
     [[CallbackButton ''Confirm'' (confirmationCallbackData ''confirm'' k), CallbackButton ''Cancel'' (confirmationCallbackData ''cancel'' k)]]"

definition webAppKeyboard :: "string \<Rightarrow> keyboard" where
  "webAppKeyboard url = [[WebAppButton ([CHR 0xF0, CHR 0x9F, CHR 0xA4, CHR 0x96] @ '' Open ANNY'') url]]"

definition positionActionKeyboard :: "position list \<Rightarrow> keyboard" where
  "positionActionKeyboard ps =
     concat (map (\<lambda>p. let symbol = p_Symbol p in
       [[CallbackButton (''BE '' @ symbol) (positionActionCallbackData ''be'' symbol),
         CallbackButton ''Trail 0.5%'' (positionActionCallbackData ''trail05'' symbol)],
        [CallbackButton ''Close 50%'' (positionActionCallbackData ''close50'' symbol),
         CallbackButton ''Close'' (positionActionCallbackData ''close100'' symbol)]]) ps)"

text \<open>\<open>strings.CutPrefix\<close>.\<close>

definition cut_prefix :: "string \<Rightarrow> string \<Rightarrow> string option" where
  "cut_prefix s pre = (if has_prefix s pre then Some (drop (length pre) s) else None)"

definition parseConfirmationCallback :: "string \<Rightarrow> (string \<times> string) option" where
  "parseConfirmationCallback data =
     (case cut_prefix data ''tb:'' of
        None \<Rightarrow> None
      | Some value \<Rightarrow>
          (case cut_at (CHR '':'') value of (action, k, ok) \<Rightarrow>
             if \<not> ok \<or> k = [] then None
             else if action \<noteq> ''confirm'' \<and> action \<noteq> ''cancel'' then None
             else Some (action, k)))"

definition parsePositionActionCallback :: "string \<Rightarrow> (string \<times> string) option" where
  "parsePositionActionCallback data =
     (case cut_prefix data ''tbact:'' of
        None \<Rightarrow> None
      | Some value \<Rightarrow>
          (case cut_at (CHR '':'') value of (action, symbol, ok) \<Rightarrow>
             if \<not> ok \<or> symbol = [] then None
             else if action \<in> {''be'', ''trail05'', ''close50'', ''close100''} then Some (action, symbol)
             else None))"

definition positionActionIntent :: "string \<Rightarrow> string \<Rightarrow> intent option" where
  "positionActionIntent action symbol =
     (let c = \<lparr>ci_Symbol = symbol, ci_All = False, ci_Percent = dec_unset, ci_HasPercent = False,
               ci_ResolvedPercent = dec_NewFromInt 100, ci_EntryConfirmationID = []\<rparr>; half = \<lparr>d_value = Some 50, d_scale = 0\<rparr>
      in if action = ''be'' then Some (no_intent\<lparr>i_Type := IntentBreakeven, i_Breakeven := Some symbol\<rparr>)
         else if action = ''trail05'' then
           Some (no_intent\<lparr>i_Type := IntentTrail, i_Trail := Some \<lparr>ti_Symbol = symbol, ti_CallbackRate = \<lparr>d_value = Some 5, d_scale = 1\<rparr>\<rparr>\<rparr>)
         else if action = ''close50'' then
           Some (no_intent\<lparr>i_Type := IntentClose,
             i_Close := Some (c\<lparr>ci_Percent := half, ci_HasPercent := True, ci_ResolvedPercent := half\<rparr>)\<rparr>)
         else if action = ''close100'' then Some (no_intent\<lparr>i_Type := IntentClose, i_Close := Some c\<rparr>)
         else None)"

section \<open>Commands\<close>

definition commandName :: "string \<Rightarrow> string" where
  "commandName text1 =
     (let t = trim_space text1
      in if t = [] then []
         else let first = to_lower (trim_space (fst (cut_at (CHR '' '') t)))
         in if has_prefix first ''/'' then fst (cut_at (CHR ''@'') first) else first)"

definition commandRest :: "string \<Rightarrow> string" where
  "commandRest text1 = (case cut_at (CHR '' '') (trim_space text1) of (_, rest, found) \<Rightarrow> if found then trim_space rest else [])"

definition commandArg :: "string \<Rightarrow> string" where
  "commandArg text1 =
     (case cut_at (CHR '' '') (trim_space text1) of (_, rest, found) \<Rightarrow>
        if found then trim_space (fst (cut_at (CHR '' '') (trim_space rest))) else [])"

definition marketSymbol :: "string \<Rightarrow> string" where
  "marketSymbol arg =
     (let value = remove_char (CHR ''/'') (to_upper (trim_space arg))
      in if value = [] then ''BTCUSDT'' else if \<not> has_suffix value ''USDT'' then value @ ''USDT'' else value)"

text \<open>The word after the first \<open>symbol\<close> that has one.\<close>

fun symbol_after :: "string list \<Rightarrow> string" where
  "symbol_after (tok # next # rest) = (if equal_fold tok ''symbol'' then next else symbol_after (next # rest))"
| "symbol_after _ = []"

definition symbolArg :: "string \<Rightarrow> string" where
  "symbolArg text1 = symbol_after (str_fields text1)"

definition humanizeSince :: "duration \<Rightarrow> string" where
  "humanizeSince d =
     (if d < minutes 1 then ''just now''
      else if d < hours 1 then show_int (d div minutes 1) @ ''m ago''
      else if d < hours 24 then show_int (d div hours 1) @ ''h ago''
      else show_int (d div hours 24) @ ''d ago'')"

definition callbackErrorText :: "order_error \<Rightarrow> string" where
  "callbackErrorText e =
     (case e of
        ErrConfirmationNotFound \<Rightarrow> ''confirmation not found.''
      | ErrConfirmationForbidden \<Rightarrow> ''this confirmation belongs to another user.''
      | ErrConfirmationExpired \<Rightarrow> ''confirmation expired. Send the command again.''
      | ErrConfirmationCancelled \<Rightarrow> ''already cancelled.''
      | ErrConfirmationExecuted \<Rightarrow> ''already executed.''
      | ErrConfirmationExecuting \<Rightarrow> ''already executing.''
      | ErrConfirmationFailed \<Rightarrow> ''previous execution failed. Send the command again.''
      | _ \<Rightarrow> order_error_text e)"

section \<open>The handler\<close>

text \<open>
  The texts of the errors of the parser and of the goal grammar are functions of the environment, since the models of
  those packages name the errors and not their texts.
\<close>

record ('a, 's, 'i, 'j, 'x) bot =
  bh_admin :: int
  bh_allowed :: "int list"
  bh_maxLeverage :: int
  bh_orders :: "('s, 'i, 'j, 'x) service"
  bh_status :: "'x \<Rightarrow> string + position list"
  bh_plans :: plan_provider
  bh_market :: "(md_error provider \<times> string) option"
  bh_klines :: "(string \<Rightarrow> string \<Rightarrow> int \<Rightarrow> md_error + rat list) option"
  bh_campaigns :: "(safety \<times> ('s, 'i, 'j, 'x) world manager_deps \<times> (nat \<Rightarrow> ('s, 'i, 'j, 'x) world \<Rightarrow> string option)) option"
  bh_webAppURL :: string
  bh_crew :: "('a access_store \<times> bool) option"

record bot_env =
  be_send :: "nat \<Rightarrow> string option"
  be_rnd :: "nat \<Rightarrow> string + string"
  be_hash :: "intent \<Rightarrow> string + string"
  be_clk :: "nat \<Rightarrow> time"
  be_now :: time
  be_parseError :: "parse_error \<Rightarrow> string"
  be_goalError :: "goal_error \<Rightarrow> string"

record ('a, 's, 'i, 'j, 'x) bot_world =
  bw_orders :: "('s, 'i, 'j, 'x) world"
  bw_crew :: 'a
  bw_campaigns :: "('s, 'i, 'j, 'x) world manager"

type_synonym ('a, 's, 'i, 'j, 'x) bot_result = "string option \<times> bot_call list \<times> ('a, 's, 'i, 'j, 'x) bot_world"

definition isAllowed :: "('a, 's, 'i, 'j, 'x) bot \<Rightarrow> int \<Rightarrow> bool" where
  "isAllowed h u \<longleftrightarrow> bh_admin h \<noteq> 0 \<and> u = bh_admin h \<or> u \<in> set (bh_allowed h)"

definition sendWithKeyboard ::
    "bot_env \<Rightarrow> int \<Rightarrow> bot_text \<Rightarrow> keyboard option \<Rightarrow> ('a, 's, 'i, 'j, 'x) bot_world \<Rightarrow> ('a, 's, 'i, 'j, 'x) bot_result" where
  "sendWithKeyboard env chat t kb w =
     (map_option (\<lambda>e. ''send telegram message: '' @ e) (be_send env 0), [SendMessage chat t kb], w)"

abbreviation sendText ::
    "bot_env \<Rightarrow> int \<Rightarrow> bot_text \<Rightarrow> ('a, 's, 'i, 'j, 'x) bot_world \<Rightarrow> ('a, 's, 'i, 'j, 'x) bot_result" where
  "sendText env chat t w \<equiv> sendWithKeyboard env chat t None w"

abbreviation say ::
    "bot_env \<Rightarrow> int \<Rightarrow> string \<Rightarrow> ('a, 's, 'i, 'j, 'x) bot_world \<Rightarrow> ('a, 's, 'i, 'j, 'x) bot_result" where
  "say env chat t w \<equiv> sendWithKeyboard env chat (Said t) None w"

definition sendStatus :: "('a, 's, 'i, 'j, 'x) bot \<Rightarrow> bot_env \<Rightarrow> int \<Rightarrow> ('a, 's, 'i, 'j, 'x) bot_world \<Rightarrow> ('a, 's, 'i, 'j, 'x) bot_result" where
  "sendStatus h env chat w =
     (let r = bh_status h (w_exch (bw_orders w));
          kb = (case r of Inr (p # ps) \<Rightarrow> Some (positionActionKeyboard (p # ps)) | _ \<Rightarrow> None)
      in sendWithKeyboard env chat (Said (formatStatusText r)) kb w)"

definition sendMarket ::
    "('a, 's, 'i, 'j, 'x) bot \<Rightarrow> bot_env \<Rightarrow> int \<Rightarrow> string \<Rightarrow> ('a, 's, 'i, 'j, 'x) bot_world \<Rightarrow> ('a, 's, 'i, 'j, 'x) bot_result" where
  "sendMarket h env chat arg w =
     (case bh_market h of
        None \<Rightarrow> say env chat ''Market data is not configured.'' w
      | Some (provider, period) \<Rightarrow>
          let symbol = marketSymbol arg; (s, errs) = Collect_snapshot provider symbol period (be_now env)
          in if errs \<noteq> [] \<and> dec_IsZero (fu_MarkPrice (sn_Funding s)) \<and> dec_IsZero (ot_OpenInterest (sn_OpenInterest s)) \<and>
                dec_IsZero (ls_Ratio (sn_LongShort s)) \<and> dec_IsZero (tf_BuySellRatio (sn_Taker s))
             then say env chat (''Could not fetch market data for '' @ symbol @ ''.'') w
             else say env chat (formatMarketSnapshot s) w)"

definition sendBacktest ::
    "('a, 's, 'i, 'j, 'x) bot \<Rightarrow> bot_env \<Rightarrow> int \<Rightarrow> string \<Rightarrow> ('a, 's, 'i, 'j, 'x) bot_world \<Rightarrow> ('a, 's, 'i, 'j, 'x) bot_result" where
  "sendBacktest h env chat arg w =
     (case bh_klines h of
        None \<Rightarrow> say env chat ''Backtesting is not configured.'' w
      | Some closes_of \<Rightarrow>
          let symbol = marketSymbol arg
          in case closes_of symbol ''1h'' 500 of
               Inl _ \<Rightarrow> say env chat (''Could not fetch history for '' @ symbol @ ''.'') w
             | Inr closes \<Rightarrow> say env chat (backtest_text symbol closes) w)"

definition goalUsage :: string where
  "goalUsage = ''Set a profit goal and preview the plan (simulation '' @ emdash @ '' no real orders):'' @ nl @ ''/goal profit 10 capital 100'' @ nl @
     ''Optional: winrate 55 reward 2 risk 1 maxtrades 50 drawdown 30''"

definition sendGoal :: "bot_env \<Rightarrow> int \<Rightarrow> string \<Rightarrow> ('a, 's, 'i, 'j, 'x) bot_world \<Rightarrow> ('a, 's, 'i, 'j, 'x) bot_result" where
  "sendGoal env chat text1 w =
     (case ParseGoal text1 of
        Inl e \<Rightarrow> say env chat (be_goalError env e @ nl @ nl @ goalUsage) w
      | Inr g \<Rightarrow>
          (case EstimateTrades g of
             Inl e \<Rightarrow> say env chat (warning @ '' '' @ be_goalError env e) w
           | Inr n \<Rightarrow> say env chat (formatGoal g n (Simulate g)) w))"

definition campaignUsage :: string where
  "campaignUsage = ''Autonomous campaign (testnet):'' @ nl @ ''/campaign start profit 10 capital 100 symbol BTC'' @ nl @ ''/campaign stop''"

text \<open>Starting sends nothing itself; the campaign's goroutine says that it started.\<close>

definition handleCampaign ::
    "('a, 's, 'i, 'j, 'x) bot \<Rightarrow> bot_env \<Rightarrow> int \<Rightarrow> int \<Rightarrow> string \<Rightarrow> ('a, 's, 'i, 'j, 'x) bot_world \<Rightarrow> ('a, 's, 'i, 'j, 'x) bot_result" where
  "handleCampaign h env chat userID text1 w =
     (case bh_campaigns h of
        None \<Rightarrow> say env chat ''Autonomous campaigns are not enabled on this deployment.'' w
      | Some (sf, deps, ctxErr) \<Rightarrow>
          let verb = to_lower (commandArg text1)
          in if verb = ''stop'' then
               (case mgr_Stop userID (bw_campaigns w) of
                  (True, m) \<Rightarrow> say env chat ([CHR 0xE2, CHR 0x8F, CHR 0xB9] @ '' Stopping your campaign after the current trade resolves'' @
                                 [CHR 0xE2, CHR 0x80, CHR 0xA6]) (w\<lparr>bw_campaigns := m\<rparr>)
                | (False, m) \<Rightarrow> say env chat ''No campaign is running.'' (w\<lparr>bw_campaigns := m\<rparr>))
             else if verb = ''start'' then
               (case ParseGoal text1 of
                  Inl e \<Rightarrow> say env chat (be_goalError env e @ nl @ nl @ campaignUsage) w
                | Inr g \<Rightarrow>
                    (case EstimateTrades g of
                       Inl e \<Rightarrow> say env chat (warning @ '' '' @ be_goalError env e) w
                     | Inr _ \<Rightarrow>
                         (case mgr_Start sf deps ctxErr userID (marketSymbol (symbolArg text1)) g (bw_campaigns w) of
                            (Some e, m) \<Rightarrow> say env chat (warning @ '' '' @ e) (w\<lparr>bw_campaigns := m\<rparr>)
                          | (None, m) \<Rightarrow> (None, [], w\<lparr>bw_campaigns := m\<rparr>))))
             else say env chat campaignUsage w)"

subsection \<open>The crew\<close>

text \<open>The gate of every crew command: the admin of the configuration, and a store.\<close>

definition for_admin ::
    "('a, 's, 'i, 'j, 'x) bot \<Rightarrow> bot_env \<Rightarrow> int \<Rightarrow> int \<Rightarrow> ('a, 's, 'i, 'j, 'x) bot_world \<Rightarrow>
     ('a access_store \<Rightarrow> bool \<Rightarrow> ('a, 's, 'i, 'j, 'x) bot_result) \<Rightarrow> ('a, 's, 'i, 'j, 'x) bot_result" where
  "for_admin h env chat userID w act =
     (if bh_admin h = 0 \<or> userID \<noteq> bh_admin h then say env chat ''Admin only.'' w
      else case bh_crew h of
             None \<Rightarrow> say env chat ''Crew approvals are not enabled.'' w
           | Some (ops, privateBeta) \<Rightarrow> act ops privateBeta)"

definition bullet :: string where "bullet = [CHR 0xE2, CHR 0x80, CHR 0xA2]"

definition pending_line :: "time \<Rightarrow> access_record \<Rightarrow> string" where
  "pending_line now m =
     (let k = trim_prefix (ac_Subject m) ''tg:'';
          since = (if is_zero_time (ac_RequestedAt m) then [] else '' '' @ middot @ '' '' @ humanizeSince (now - ac_RequestedAt m))
      in nl @ bullet @ '' '' @ ac_Name m @ '' (tg:'' @ k @ '')'' @ since @ nl @ ''   /approve '' @ k @ '' '' @ middot @ '' /approve '' @ k @
         '' captain '' @ middot @ '' /reject '' @ k)"

definition handlePending ::
    "('a, 's, 'i, 'j, 'x) bot \<Rightarrow> bot_env \<Rightarrow> int \<Rightarrow> int \<Rightarrow> ('a, 's, 'i, 'j, 'x) bot_world \<Rightarrow> ('a, 's, 'i, 'j, 'x) bot_result" where
  "handlePending h env chat userID w = for_admin h env chat userID w (\<lambda>ops _.
     case acs_Pending ops (bw_crew w) of
       Inl _ \<Rightarrow> say env chat ''Could not load requests.'' w
     | Inr [] \<Rightarrow> say env chat (''No pending crew requests. '' @ [CHR 0xF0, CHR 0x9F, CHR 0x8E, CHR 0x89]) w
     | Inr ms \<Rightarrow> say env chat ([CHR 0xF0, CHR 0x9F, CHR 0x9B, CHR 0xA1] @ '' Pending crew requests:'' @ nl @
                   concat (map (pending_line (be_now env)) ms)) w)"

definition member_line :: "access_record \<Rightarrow> string" where
  "member_line m =
     nl @ bullet @ '' '' @ ac_Name m @ '' (tg:'' @ trim_prefix (ac_Subject m) ''tg:'' @ '') '' @ emdash @ '' '' @ ac_Status m @
     (if ac_Tier m \<noteq> [] then '' '' @ middot @ '' '' @ ac_Tier m else []) @
     (if ac_Role m = ''admin'' then '' '' @ middot @ '' '' @ [CHR 0xF0, CHR 0x9F, CHR 0x91, CHR 0x91] @ ''admin'' else [])"

definition handleMembers ::
    "('a, 's, 'i, 'j, 'x) bot \<Rightarrow> bot_env \<Rightarrow> int \<Rightarrow> int \<Rightarrow> ('a, 's, 'i, 'j, 'x) bot_world \<Rightarrow> ('a, 's, 'i, 'j, 'x) bot_result" where
  "handleMembers h env chat userID w = for_admin h env chat userID w (\<lambda>ops _.
     case acs_All ops (bw_crew w) of
       Inl _ \<Rightarrow> say env chat ''Could not load members.'' w
     | Inr [] \<Rightarrow> say env chat ''No members yet.'' w
     | Inr ms \<Rightarrow> say env chat ([CHR 0xF0, CHR 0x9F, CHR 0x91, CHR 0xA5] @ '' Members:'' @ nl @ concat (map member_line ms) @ nl @ nl @
                   ''Actions: /approve <id> [plan] '' @ middot @ '' /tier <id> <plan> '' @ middot @ '' /makeadmin <id> '' @ middot @ '' /reject <id>'') w)"

definition user_key :: "string \<Rightarrow> string" where "user_key k = ''tg:'' @ k"

definition bot_id :: "string \<Rightarrow> string" where "bot_id arg = trim_space (trim_prefix arg ''tg:'')"

definition bot_plans :: "string set" where "bot_plans = {''free'', ''captain'', ''commander''}"

definition handleApprove ::
    "('a, 's, 'i, 'j, 'x) bot \<Rightarrow> bot_env \<Rightarrow> int \<Rightarrow> int \<Rightarrow> string \<Rightarrow> ('a, 's, 'i, 'j, 'x) bot_world \<Rightarrow> ('a, 's, 'i, 'j, 'x) bot_result" where
  "handleApprove h env chat userID arg w = for_admin h env chat userID w (\<lambda>ops privateBeta.
     case str_fields arg of
       [] \<Rightarrow> say env chat ''Usage: /approve <telegram id> [free|captain|commander]  (see /pending)'' w
     | f # fs \<Rightarrow>
         let k = bot_id f
         in if k = [] then say env chat ''Usage: /approve <telegram id> [free|captain|commander]'' w
            else (case crew_Approve ops privateBeta (user_key k) (be_now env) (bw_crew w) of
                    (Some _, a) \<Rightarrow> say env chat ''Could not approve.'' (w\<lparr>bw_crew := a\<rparr>)
                  | (None, a) \<Rightarrow>
                      (case fs of
                         plan # _ \<Rightarrow>
                           let plan = to_lower plan
                           in if plan \<in> bot_plans then
                                (case acs_SetTier ops (user_key k) plan a of
                                   (Some _, a) \<Rightarrow> say env chat ''Approved, but could not set the plan.'' (w\<lparr>bw_crew := a\<rparr>)
                                 | (None, a) \<Rightarrow> say env chat (tick_mark @ '' Approved tg:'' @ k @ '' on the '' @ plan @ '' plan.'') (w\<lparr>bw_crew := a\<rparr>))
                              else say env chat (tick_mark @ '' Approved tg:'' @ k @ '' (plan must be free|captain|commander; ignored).'') (w\<lparr>bw_crew := a\<rparr>)
                       | [] \<Rightarrow> say env chat (tick_mark @ '' Approved tg:'' @ k @ '' '' @ emdash @ '' they now have full access.'') (w\<lparr>bw_crew := a\<rparr>))))"

definition bot_handleRevoke ::
    "('a, 's, 'i, 'j, 'x) bot \<Rightarrow> bot_env \<Rightarrow> int \<Rightarrow> int \<Rightarrow> string \<Rightarrow> ('a, 's, 'i, 'j, 'x) bot_world \<Rightarrow> ('a, 's, 'i, 'j, 'x) bot_result" where
  "bot_handleRevoke h env chat userID arg w = for_admin h env chat userID w (\<lambda>ops _.
     let k = bot_id arg
     in if k = [] then say env chat ''Usage: /unapprove <telegram id>'' w
        else if bh_admin h \<noteq> 0 \<and> k = show_int (bh_admin h) then say env chat (''You can'' @ [CHR 0x27] @ ''t revoke yourself.'') w
        else (case acs_Revoke ops (user_key k) (bw_crew w) of
                (Some _, a) \<Rightarrow> say env chat ''Could not revoke.'' (w\<lparr>bw_crew := a\<rparr>)
              | (None, a) \<Rightarrow> say env chat ([CHR 0xF0, CHR 0x9F, CHR 0x9A, CHR 0xAB] @ '' Revoked tg:'' @ k @ '' '' @ emdash @
                               '' access removed until re-approved.'') (w\<lparr>bw_crew := a\<rparr>)))"

definition handleTier ::
    "('a, 's, 'i, 'j, 'x) bot \<Rightarrow> bot_env \<Rightarrow> int \<Rightarrow> int \<Rightarrow> string \<Rightarrow> ('a, 's, 'i, 'j, 'x) bot_world \<Rightarrow> ('a, 's, 'i, 'j, 'x) bot_result" where
  "handleTier h env chat userID arg w = for_admin h env chat userID w (\<lambda>ops _.
     case str_fields arg of
       [f, plan] \<Rightarrow>
         let k = bot_id f; tier = to_lower (trim_space plan)
         in if tier \<notin> bot_plans then say env chat ''Tier must be free, captain, or commander.'' w
            else if k = [] then say env chat ''Usage: /tier <telegram id> <free|captain|commander>'' w
            else (case acs_SetTier ops (user_key k) tier (bw_crew w) of
                    (Some _, a) \<Rightarrow> say env chat ''Could not set tier.'' (w\<lparr>bw_crew := a\<rparr>)
                  | (None, a) \<Rightarrow> say env chat (tick_mark @ '' tg:'' @ k @ '' is now on the '' @ tier @ '' plan.'') (w\<lparr>bw_crew := a\<rparr>))
     | _ \<Rightarrow> say env chat ''Usage: /tier <telegram id> <free|captain|commander>'' w)"

definition handleMakeAdmin ::
    "('a, 's, 'i, 'j, 'x) bot \<Rightarrow> bot_env \<Rightarrow> int \<Rightarrow> int \<Rightarrow> string \<Rightarrow> bool \<Rightarrow> ('a, 's, 'i, 'j, 'x) bot_world \<Rightarrow> ('a, 's, 'i, 'j, 'x) bot_result" where
  "handleMakeAdmin h env chat userID arg promote w = for_admin h env chat userID w (\<lambda>ops _.
     let k = bot_id arg
     in if k = [] then say env chat ''Usage: /makeadmin <telegram id>'' w
        else (case acs_SetRole ops (user_key k) (if promote then ''admin'' else []) (bw_crew w) of
                (Some _, a) \<Rightarrow> say env chat ''Could not change the role.'' (w\<lparr>bw_crew := a\<rparr>)
              | (None, a) \<Rightarrow>
                  if promote then say env chat ([CHR 0xF0, CHR 0x9F, CHR 0x91, CHR 0x91] @ '' tg:'' @ k @ '' is now an admin '' @ emdash @
                                    '' they can approve crew and manage tiers.'') (w\<lparr>bw_crew := a\<rparr>)
                  else say env chat (''tg:'' @ k @ '' is no longer an admin.'') (w\<lparr>bw_crew := a\<rparr>)))"

subsection \<open>Buttons pressed\<close>

record callback =
  cb_ID :: string
  cb_From :: int
  cb_Data :: string
  cb_Message :: "(int \<times> int) option"

definition answerCallback :: "bot_env \<Rightarrow> string \<Rightarrow> string \<Rightarrow> ('a, 's, 'i, 'j, 'x) bot_world \<Rightarrow> ('a, 's, 'i, 'j, 'x) bot_result" where
  "answerCallback env k t w = (map_option (\<lambda>e. ''answer telegram callback: '' @ e) (be_send env 0), [AnswerCallback k t], w)"

definition finishCallback ::
    "bot_env \<Rightarrow> callback \<Rightarrow> string \<Rightarrow> string \<Rightarrow> keyboard option \<Rightarrow> ('a, 's, 'i, 'j, 'x) bot_world \<Rightarrow> ('a, 's, 'i, 'j, 'x) bot_result" where
  "finishCallback env cb answer editText kb w =
     (case answerCallback env (cb_ID cb) answer w of
        (Some e, calls, w) \<Rightarrow> (Some e, calls, w)
      | (None, calls, w) \<Rightarrow>
          (case (editText = [], cb_Message cb) of
             (False, Some (chat, msg)) \<Rightarrow>
               (map_option (\<lambda>e. ''edit telegram message: '' @ e) (be_send env 1), calls @ [EditMessage chat msg editText kb], w)
           | _ \<Rightarrow> (None, calls, w)))"

definition bot_prepare ::
    "('a, 's, 'i, 'j, 'x) bot \<Rightarrow> bot_env \<Rightarrow> int \<Rightarrow> intent \<Rightarrow> ('a, 's, 'i, 'j, 'x) bot_world \<Rightarrow>
     (order_error + confirmation) \<times> ('a, 's, 'i, 'j, 'x) bot_world" where
  "bot_prepare h env userID i w =
     (case prepare (bh_orders h) (be_hash env) (be_rnd env 0) (be_rnd env 1) (be_clk env) userID i [] (bw_orders w) of
        (r, ow) \<Rightarrow> (r, w\<lparr>bw_orders := ow\<rparr>))"

definition review_text :: "('a, 's, 'i, 'j, 'x) bot \<Rightarrow> intent \<Rightarrow> string" where
  "review_text h i =
     ''Review this action:'' @ nl @ nl @ Summary i @ nl @ nl @ ''Press Confirm within '' @ duration_text (sv_ttl (bh_orders h)) @ ''.''"

definition handlePositionAction ::
    "('a, 's, 'i, 'j, 'x) bot \<Rightarrow> bot_env \<Rightarrow> callback \<Rightarrow> string \<Rightarrow> string \<Rightarrow> ('a, 's, 'i, 'j, 'x) bot_world \<Rightarrow> ('a, 's, 'i, 'j, 'x) bot_result" where
  "handlePositionAction h env cb action symbol w =
     (case positionActionIntent action symbol of
        None \<Rightarrow> answerCallback env (cb_ID cb) ''unknown position action'' w
      | Some i \<Rightarrow>
          (case bot_prepare h env (cb_From cb) i w of
             (Inl e, w) \<Rightarrow> finishCallback env cb (''Cannot prepare: '' @ callbackErrorText e) [] None w
           | (Inr c, w) \<Rightarrow> finishCallback env cb ''Review action.'' (review_text h i) (Some (confirmationKeyboard (c_ID c))) w))"

definition handleCallback ::
    "('a, 's, 'i, 'j, 'x) bot \<Rightarrow> bot_env \<Rightarrow> callback \<Rightarrow> ('a, 's, 'i, 'j, 'x) bot_world \<Rightarrow> ('a, 's, 'i, 'j, 'x) bot_result" where
  "handleCallback h env cb w =
     (if \<not> isAllowed h (cb_From cb) then answerCallback env (cb_ID cb) ''Unauthorized.'' w
      else case parseConfirmationCallback (cb_Data cb) of
        None \<Rightarrow>
          (case parsePositionActionCallback (cb_Data cb) of
             None \<Rightarrow> answerCallback env (cb_ID cb) ''Unknown action.'' w
           | Some (action, symbol) \<Rightarrow> handlePositionAction h env cb action symbol w)
      | Some (action, k) \<Rightarrow>
          if action = ''confirm'' then
            (case confirm (bh_orders h) (be_clk env) (cb_From cb) k False (bw_orders w) of
               (Inl e, ow) \<Rightarrow> finishCallback env cb (''Cannot confirm: '' @ callbackErrorText e) [] None (w\<lparr>bw_orders := ow\<rparr>)
             | (Inr r, ow) \<Rightarrow> finishCallback env cb ''Confirmed.'' (er_Message r @ nl @ nl @ ''Client order ID: '' @ er_ClientOrderID r) None
                                (w\<lparr>bw_orders := ow\<rparr>))
          else if action = ''cancel'' then
            (case service_Cancel (bh_orders h) (be_clk env) (cb_From cb) k (bw_orders w) of
               (Some e, ow) \<Rightarrow> finishCallback env cb (''Cannot cancel: '' @ callbackErrorText e) [] None (w\<lparr>bw_orders := ow\<rparr>)
             | (None, ow) \<Rightarrow> finishCallback env cb ''Cancelled.'' (''Cancelled.'' @ nl @ nl @ ''No order was sent.'') None (w\<lparr>bw_orders := ow\<rparr>))
          else answerCallback env (cb_ID cb) ''Unknown action.'' w)"

subsection \<open>Messages\<close>

record message =
  ms_Chat :: int
  ms_From :: "int option"
  ms_Text :: string

text \<open>A text that is no command of the bot: a status, a plan, or an order to review.\<close>

definition handleOrder ::
    "('a, 's, 'i, 'j, 'x) bot \<Rightarrow> bot_env \<Rightarrow> int \<Rightarrow> int \<Rightarrow> string \<Rightarrow> ('a, 's, 'i, 'j, 'x) bot_world \<Rightarrow> ('a, 's, 'i, 'j, 'x) bot_result" where
  "handleOrder h env chat userID text1 w =
     (case parser_Parse (bh_maxLeverage h) text1 of
        Inl e \<Rightarrow> say env chat (be_parseError env e) w
      | Inr i \<Rightarrow>
          if i_Type i = IntentStatus then sendStatus h env chat w
          else if i_Type i = IntentPlanStatus then
            say env chat (plan_text (bh_plans h) userID (case i_PlanStatus i of None \<Rightarrow> [] | Some p \<Rightarrow> p)) w
          else (case bot_prepare h env userID i w of
                  (Inl e, w) \<Rightarrow> (Some (order_error_text e), [], w)
                | (Inr c, w) \<Rightarrow> sendWithKeyboard env chat (Said (review_text h i)) (Some (confirmationKeyboard (c_ID c))) w))"

definition sendPage ::
    "('a, 's, 'i, 'j, 'x) bot \<Rightarrow> bot_env \<Rightarrow> int \<Rightarrow> bot_text \<Rightarrow> ('a, 's, 'i, 'j, 'x) bot_world \<Rightarrow> ('a, 's, 'i, 'j, 'x) bot_result" where
  "sendPage h env chat t w =
     sendWithKeyboard env chat t (if bh_webAppURL h \<noteq> [] then Some (webAppKeyboard (bh_webAppURL h)) else None) w"

definition handleMessage ::
    "('a, 's, 'i, 'j, 'x) bot \<Rightarrow> bot_env \<Rightarrow> message \<Rightarrow> ('a, 's, 'i, 'j, 'x) bot_world \<Rightarrow> ('a, 's, 'i, 'j, 'x) bot_result" where
  "handleMessage h env m w =
     (case ms_From m of
        None \<Rightarrow> (None, [], w)
      | Some userID \<Rightarrow>
          let t = trim_space (ms_Text m); chat = ms_Chat m; command = commandName t
          in if t = [] then (None, [], w)
             else if \<not> isAllowed h userID \<and> command \<notin> {''/start'', ''/app'', ''/help''} then sendPage h env chat OnboardText w
             else if command = ''/start'' \<or> command = ''/app'' then sendPage h env chat StartText w
             else if command = ''/help'' then sendText env chat HelpText w
             else if command = ''/status'' then sendStatus h env chat w
             else if command = ''/market'' then sendMarket h env chat (commandArg t) w
             else if command = ''/backtest'' then sendBacktest h env chat (commandArg t) w
             else if command = ''/goal'' then sendGoal env chat t w
             else if command = ''/campaign'' then handleCampaign h env chat userID t w
             else if command = ''/pending'' then handlePending h env chat userID w
             else if command = ''/members'' then handleMembers h env chat userID w
             else if command = ''/approve'' then handleApprove h env chat userID (commandRest t) w
             else if command \<in> {''/unapprove'', ''/revoke'', ''/reject''} then bot_handleRevoke h env chat userID (commandArg t) w
             else if command = ''/tier'' then handleTier h env chat userID (commandRest t) w
             else if command = ''/makeadmin'' then handleMakeAdmin h env chat userID (commandArg t) True w
             else if command = ''/removeadmin'' then handleMakeAdmin h env chat userID (commandArg t) False w
             else handleOrder h env chat userID t w)"

datatype update = Pressed callback | Wrote message | OtherUpdate

definition bot_Handle ::
    "('a, 's, 'i, 'j, 'x) bot \<Rightarrow> bot_env \<Rightarrow> update \<Rightarrow> ('a, 's, 'i, 'j, 'x) bot_world \<Rightarrow> ('a, 's, 'i, 'j, 'x) bot_result" where
  "bot_Handle h env u w =
     (case u of Pressed cb \<Rightarrow> handleCallback h env cb w | Wrote m \<Rightarrow> handleMessage h env m w | OtherUpdate \<Rightarrow> (None, [], w))"

section \<open>Setting up\<close>

definition NewHandlerWithServicesAndPlans ::
    "int \<Rightarrow> int list \<Rightarrow> int \<Rightarrow> ('s, 'i, 'j, 'x) service \<Rightarrow> ('x \<Rightarrow> string + position list) option \<Rightarrow> plan_provider option \<Rightarrow> ('a, 's, 'i, 'j, 'x) bot" where
  "NewHandlerWithServicesAndPlans adminUserID allowedUserIDs maxLeverage orderService positions planService =
     \<lparr>bh_admin = adminUserID, bh_allowed = allowedUserIDs, bh_maxLeverage = parser_New maxLeverage, bh_orders = orderService,
      bh_status = (case positions of None \<Rightarrow> (\<lambda>_. Inr []) | Some p \<Rightarrow> p),
      bh_plans = (case planService of None \<Rightarrow> EmptyStatusProvider | Some p \<Rightarrow> p),
      bh_market = None, bh_klines = None, bh_campaigns = None, bh_webAppURL = [], bh_crew = None\<rparr>"

definition WithWebAppURL :: "string \<Rightarrow> ('a, 's, 'i, 'j, 'x) bot \<Rightarrow> ('a, 's, 'i, 'j, 'x) bot" where
  "WithWebAppURL url h = h\<lparr>bh_webAppURL := trim_space url\<rparr>"

definition WithMarketData ::
    "md_error provider \<Rightarrow> (string \<Rightarrow> string \<Rightarrow> int \<Rightarrow> md_error + rat list) option \<Rightarrow> string \<Rightarrow> ('a, 's, 'i, 'j, 'x) bot \<Rightarrow> ('a, 's, 'i, 'j, 'x) bot" where
  "WithMarketData provider klines period h =
     (let h = h\<lparr>bh_market := Some (provider, if trim_space period = [] then ''5m'' else period)\<rparr>
      in case klines of None \<Rightarrow> h | Some k \<Rightarrow> h\<lparr>bh_klines := Some k\<rparr>)"

text \<open>The alert a closed trade is pushed with.\<close>

definition formatRealtimeAlert :: "event \<Rightarrow> string option" where
  "formatRealtimeAlert e =
     (if ev_Type e \<noteq> EventTradeClosed then None
      else let emoji = (if dec_IsPositive (ev_RealizedPnL e) then [CHR 0xF0, CHR 0x9F, CHR 0x9F, CHR 0xA2]
                        else if dec_Cmp (ev_RealizedPnL e) dec_Zero < 0 then [CHR 0xF0, CHR 0x9F, CHR 0x94, CHR 0xB4]
                        else [CHR 0xE2, CHR 0x9A, CHR 0xAA])
      in Some (emoji @ '' '' @ ev_Symbol e @ '' position closed '' @ emdash @ '' realized PnL '' @ dec_String (ev_RealizedPnL e) @ '' USDT''))"

text \<open>The messages pushed for a stream of events, to no one when there is no chat.\<close>

definition StartRealtime :: "int \<Rightarrow> event list \<Rightarrow> (int \<times> string) list" where
  "StartRealtime chatID events = (if chatID = 0 then [] else map (Pair chatID) (List.map_filter formatRealtimeAlert events))"

end
