(* ===== verification/Telegram_Properties.thy ===== *)
theory Telegram_Properties
  imports Telegram_Bot Order_Properties Mission_Close
begin

text \<open>The properties of the Telegram bot (\<open>Telegram_Bot\<close>): its two gates, what a pressed button can do, and the data of its buttons.\<close>

section \<open>What each handler leaves alone\<close>

abbreviation bot_after :: "('a, 's, 'i, 'j, 'x) bot_result \<Rightarrow> ('a, 's, 'i, 'j, 'x) bot_world" where
  "bot_after r \<equiv> snd (snd r)"

abbreviation bot_calls :: "('a, 's, 'i, 'j, 'x) bot_result \<Rightarrow> bot_call list" where
  "bot_calls r \<equiv> fst (snd r)"

named_theorems bot_frame \<open>the parts of the world a handler of the bot does not change\<close>

lemma send_after [bot_frame, simp]: "bot_after (sendWithKeyboard env chat t kb w) = w"
  by (simp add: sendWithKeyboard_def)

lemma page_after [bot_frame]: "bot_after (sendPage h env chat t w) = w" "bot_after (sendStatus h env chat w) = w"
  by (simp_all add: sendPage_def sendStatus_def Let_def)

lemma reading_after [bot_frame]:
  "bot_after (sendMarket h env chat arg w) = w" "bot_after (sendBacktest h env chat arg w) = w" "bot_after (sendGoal env chat t w) = w"
  by (auto simp: sendMarket_def sendBacktest_def sendGoal_def Let_def split: option.splits prod.splits sum.splits)

lemma answer_after [bot_frame, simp]: "bot_after (answerCallback env k t w) = w" "bot_after (finishCallback env cb a t2 kb w) = w"
  by (auto simp: answerCallback_def finishCallback_def split: option.splits bool.splits)

lemma campaign_after [bot_frame]:
  "bw_orders (bot_after (handleCampaign h env chat u t w)) = bw_orders w" "bw_crew (bot_after (handleCampaign h env chat u t w)) = bw_crew w"
  by (auto simp: handleCampaign_def Let_def split: option.splits prod.splits sum.splits bool.splits)

lemma for_admin_after [bot_frame]:
  assumes "\<And>ops beta. bw_orders (bot_after (act ops beta)) = bw_orders w"
  shows "bw_orders (bot_after (for_admin h env chat u w act)) = bw_orders w"
  using assms by (auto simp: for_admin_def split: option.splits)

lemma crew_after [bot_frame]:
  "bw_orders (bot_after (handlePending h env chat u w)) = bw_orders w" "bw_orders (bot_after (handleMembers h env chat u w)) = bw_orders w"
  "bw_orders (bot_after (handleApprove h env chat u arg w)) = bw_orders w" "bw_orders (bot_after (bot_handleRevoke h env chat u arg w)) = bw_orders w"
  "bw_orders (bot_after (handleTier h env chat u arg w)) = bw_orders w" "bw_orders (bot_after (handleMakeAdmin h env chat u arg p w)) = bw_orders w"
  unfolding handlePending_def handleMembers_def handleApprove_def bot_handleRevoke_def handleTier_def handleMakeAdmin_def Let_def
  by (intro for_admin_after, auto split: sum.splits list.splits prod.splits option.splits)+

lemma crew_of_others [bot_frame]:
  assumes "bh_admin h = 0 \<or> u \<noteq> bh_admin h"
  shows "bot_after (for_admin h env chat u w act) = w"
  using assms by (auto simp: for_admin_def)

lemma bot_prepare_keeps:
  "bot_prepare h env u i w = (r, w') \<Longrightarrow> w_exch (bw_orders w') = w_exch (bw_orders w) \<and> bw_crew w' = bw_crew w"
  by (auto simp: bot_prepare_def split: prod.splits dest: prepare_exch')

lemma handleOrder_after [bot_frame]:
  "w_exch (bw_orders (bot_after (handleOrder h env chat u t w))) = w_exch (bw_orders w)" "bw_crew (bot_after (handleOrder h env chat u t w)) = bw_crew w"
  by (auto simp: handleOrder_def page_after split: prod.splits sum.splits dest!: bot_prepare_keeps)

lemma message_exch: "w_exch (bw_orders (bot_after (handleMessage h env m w))) = w_exch (bw_orders w)"
  by (auto simp: handleMessage_def Let_def bot_frame split: option.splits)

lemma message_crew:
  assumes "bw_crew (bot_after (handleMessage h env m w)) \<noteq> bw_crew w"
  shows "ms_From m = Some (bh_admin h) \<and> bh_admin h \<noteq> 0"
proof (rule ccontr)
  assume n: "\<not> ?thesis"
  have "bw_crew (bot_after (handleMessage h env m w)) = bw_crew w"
  proof (cases "ms_From m")
    case (Some u)
    then have a: "bh_admin h = 0 \<or> u \<noteq> bh_admin h" using n by auto
    show ?thesis
      unfolding handleMessage_def handlePending_def handleMembers_def handleApprove_def bot_handleRevoke_def handleTier_def
        handleMakeAdmin_def Some option.case
      by (simp add: Let_def crew_of_others [OF a] page_after reading_after campaign_after handleOrder_after)
  qed (simp add: handleMessage_def)
  then show False using assms by simp
qed

section \<open>The allowlist\<close>

definition sender_of :: "update \<Rightarrow> int option" where
  "sender_of u = (case u of Pressed cb \<Rightarrow> Some (cb_From cb) | Wrote m \<Rightarrow> ms_From m | OtherUpdate \<Rightarrow> None)"

text \<open>C36. A user outside the configured allowlist changes nothing through the bot: whatever he writes or presses, the orders,
  the exchange, the crew and the campaigns are as before and he is sent the onboarding, start or help page or a refusal.
  This holds in every state, also when the admin has approved him in the access store: contrary to what the
  onboarding page promises, an approval unlocks no command.\<close>

theorem bot_strangers_locked_out:
  assumes "sender_of u = Some user" and "user \<notin> set (bh_allowed h)" and "user \<noteq> bh_admin h \<or> bh_admin h = 0"
  shows "bot_after (bot_Handle h env u w) = w \<and>
    (\<forall>call\<in>set (bot_calls (bot_Handle h env u w)).
       case call of SendMessage chat t kb \<Rightarrow> t \<in> {OnboardText, StartText, HelpText}
       | AnswerCallback k t \<Rightarrow> t = ''Unauthorized.'' | EditMessage chat msg t kb \<Rightarrow> False)"
proof (cases u)
  case (Pressed cb)
  have n: "\<not> isAllowed h user" using assms(2,3) by (auto simp: isAllowed_def)
  show ?thesis using assms(1) n Pressed by (simp add: sender_of_def bot_Handle_def handleCallback_def answerCallback_def)
next
  case (Wrote m)
  have n: "\<not> isAllowed h user" using assms(2,3) by (auto simp: isAllowed_def)
  have f: "ms_From m = Some user" using assms(1) Wrote by (simp add: sender_of_def)
  define c where "c = commandName (trim_space (ms_Text m))"
  have "c = ''/start'' \<or> c = ''/app'' \<or> c = ''/help'' \<or> c \<notin> {''/start'', ''/app'', ''/help''}" by blast
  then show ?thesis using f n
    by (elim disjE) (simp_all add: Wrote bot_Handle_def handleMessage_def Let_def c_def [symmetric] sendPage_def sendWithKeyboard_def)
qed (use assms in \<open>simp add: sender_of_def\<close>)

definition ex_bot :: "(mem_access, mem_store, unit, mem_journal, confirmation list) bot" where
  "ex_bot = (NewHandlerWithServicesAndPlans 1 [7] 0 example_service None None)\<lparr>bh_crew := Some (memory_access [], True)\<rparr>"

definition ex_bot_env :: bot_env where
  "ex_bot_env = \<lparr>be_send = (\<lambda>_. None), be_rnd = (\<lambda>_. Inr ''k9''), be_hash = (\<lambda>_. Inr ''h''), be_clk = (\<lambda>_. 5), be_now = 5,
     be_parseError = (\<lambda>_. []), be_goalError = (\<lambda>_. [])\<rparr>"

definition ex_bot_world :: "(mem_access, mem_store, unit, mem_journal, confirmation list) bot_world" where
  "ex_bot_world = \<lparr>bw_orders = example_world, bw_crew = [''tg:8'' \<mapsto> no_access\<lparr>ac_Status := accessApproved\<rparr>], bw_campaigns = NewManager\<rparr>"

theorem bot_strangers_locked_out_witness:
  "bot_after (bot_Handle ex_bot ex_bot_env (Pressed \<lparr>cb_ID = ''q'', cb_From = 8, cb_Data = ''tb:confirm:k1'', cb_Message = None\<rparr>) ex_bot_world) = ex_bot_world \<and>
   approved \<lparr>cf_AdminUserID = 1, cf_PrivateBeta = True, cf_AccessOpen = False\<rparr> (memory_access []) ''tg:8'' (bw_crew ex_bot_world)"
proof -
  have "sender_of (Pressed \<lparr>cb_ID = ''q'', cb_From = 8, cb_Data = ''tb:confirm:k1'', cb_Message = None\<rparr>) = Some 8" by (simp add: sender_of_def)
  moreover have "8 \<notin> set (bh_allowed ex_bot)" "8 \<noteq> bh_admin ex_bot \<or> bh_admin ex_bot = 0" by (simp_all add: ex_bot_def NewHandlerWithServicesAndPlans_def)
  ultimately show ?thesis
    using bot_strangers_locked_out [of _ 8 ex_bot ex_bot_env ex_bot_world] by (simp add: approved_def ex_bot_world_def memory_access_def)
qed

section \<open>The crew\<close>

text \<open>C37. Only the admin of the configuration changes the crew through the bot: an update that changes the access store is a
  message, and it is his. An admin promoted with \<open>/makeadmin\<close> is told that he can approve crew, and is refused here.\<close>

theorem bot_crew_by_admin:
  assumes "bw_crew (bot_after (bot_Handle h env u w)) \<noteq> bw_crew w"
  shows "bh_admin h \<noteq> 0 \<and> sender_of u = Some (bh_admin h) \<and> (\<exists>m. u = Wrote m)"
proof (cases u)
  case (Pressed cb)
  have p: "bw_crew (bot_after (handlePositionAction h env cb a s w)) = bw_crew w" for a s
    by (auto simp: handlePositionAction_def split: option.splits prod.splits sum.splits dest!: bot_prepare_keeps)
  have "bw_crew (bot_after (handleCallback h env cb w)) = bw_crew w"
    by (auto simp: handleCallback_def p split: option.splits prod.splits sum.splits)
  then show ?thesis using assms Pressed by (simp add: bot_Handle_def)
next
  case (Wrote m)
  then show ?thesis using assms message_crew [of h env m w] by (simp add: bot_Handle_def sender_of_def)
qed (use assms in \<open>simp add: bot_Handle_def\<close>)

theorem bot_crew_by_admin_witness:
  "\<exists>m. bw_crew (bot_after (bot_Handle ex_bot ex_bot_env (Wrote m) ex_bot_world)) \<noteq> bw_crew ex_bot_world \<and> ms_From m = Some 1"
proof -
  define m where "m = \<lparr>ms_Chat = 1, ms_From = Some 1, ms_Text = ''/approve tg:9 captain''\<rparr>"
  have "(case bw_crew (bot_after (bot_Handle ex_bot ex_bot_env (Wrote m) ex_bot_world)) ''tg:9'' of None \<Rightarrow> False | Some r \<Rightarrow> ac_Tier r = ''captain'')"
    unfolding m_def by code_simp
  moreover have "bw_crew ex_bot_world ''tg:9'' = None" by (simp add: ex_bot_world_def)
  ultimately have ne: "bw_crew (bot_after (bot_Handle ex_bot ex_bot_env (Wrote m) ex_bot_world)) \<noteq> bw_crew ex_bot_world" by auto
  from bot_crew_by_admin [OF this] ne show ?thesis by (auto simp: sender_of_def ex_bot_def NewHandlerWithServicesAndPlans_def)
qed

section \<open>Orders\<close>

lemma callback_exch:
  assumes "w_exch (bw_orders (bot_after (handleCallback h env cb w))) \<noteq> w_exch (bw_orders w)"
  shows "\<exists>k. isAllowed h (cb_From cb) \<and> parseConfirmationCallback (cb_Data cb) = Some (''confirm'', k) \<and>
    bw_orders (bot_after (handleCallback h env cb w)) = snd (confirm (bh_orders h) (be_clk env) (cb_From cb) k False (bw_orders w))"
proof -
  have p: "w_exch (bw_orders (bot_after (handlePositionAction h env cb a s w))) = w_exch (bw_orders w)" for a s
    by (auto simp: handlePositionAction_def split: option.splits prod.splits sum.splits dest!: bot_prepare_keeps)
  have c: "w_exch (snd (service_Cancel (bh_orders h) (be_clk env) (cb_From cb) k (bw_orders w))) = w_exch (bw_orders w)" for k
    by (auto simp: service_Cancel_def Let_def split: prod.splits)
  have allowed: "isAllowed h (cb_From cb)" using assms by (rule contrapos_np) (simp add: handleCallback_def)
  obtain a k where d: "parseConfirmationCallback (cb_Data cb) = Some (a, k)"
    using assms allowed p by (cases "parseConfirmationCallback (cb_Data cb)") (auto simp: handleCallback_def split: option.splits)
  obtain e ow where ce: "service_Cancel (bh_orders h) (be_clk env) (cb_From cb) k (bw_orders w) = (e, ow)" by fastforce
  then have "w_exch ow = w_exch (bw_orders w)" using c [of k] by simp
  then have "a = ''confirm''" using assms allowed d ce by (cases e) (auto simp: handleCallback_def split: if_splits)
  moreover obtain r ow' where "confirm (bh_orders h) (be_clk env) (cb_From cb) k False (bw_orders w) = (r, ow')" by fastforce
  ultimately show ?thesis using allowed d by (cases r) (auto simp: handleCallback_def)
qed



section \<open>The data of a button\<close>

lemma cut_at_once: "c \<notin> set a \<Longrightarrow> cut_at c (a @ c # b) = (a, b, True)"
  by (induction a) auto

lemma cut_prefix_append: "cut_prefix (pre @ s) pre = Some s"
  by (simp add: cut_prefix_def has_prefix_def)

text \<open>Every button means what it was made for: the data of a Confirm or Cancel button reads back as that action on that
  confirmation, the data of a position button as that action on that symbol, whatever the id or the symbol is
  (also with a colon in it), and neither is read as the other.\<close>

theorem bot_buttons_roundtrip:
  assumes "k \<noteq> []"
  shows "(\<forall>a\<in>{''confirm'', ''cancel''}. parseConfirmationCallback (confirmationCallbackData a k) = Some (a, k) \<and>
      parsePositionActionCallback (confirmationCallbackData a k) = None) \<and>
    (\<forall>a\<in>{''be'', ''trail05'', ''close50'', ''close100''}. parsePositionActionCallback (positionActionCallbackData a k) = Some (a, k) \<and>
      parseConfirmationCallback (positionActionCallbackData a k) = None \<and> positionActionIntent a k \<noteq> None)"
proof -
  have d: "confirmationCallbackData a k = ''tb:'' @ (a @ CHR '':'' # k)" "positionActionCallbackData a k = ''tbact:'' @ (a @ CHR '':'' # k)" for a
    by (simp_all add: confirmationCallbackData_def positionActionCallbackData_def)
  have n: "cut_prefix (''tb:'' @ s) ''tbact:'' = None" "cut_prefix (''tbact:'' @ s) ''tb:'' = None" for s
    by (simp_all add: cut_prefix_def has_prefix_def)
  have c: "parseConfirmationCallback (confirmationCallbackData a k) = Some (a, k)" if "a = ''confirm'' \<or> a = ''cancel''" for a
    unfolding d parseConfirmationCallback_def cut_prefix_append option.case using that assms by (elim disjE) (simp_all del: append.simps add: cut_at_once)
  have p: "parsePositionActionCallback (positionActionCallbackData a k) = Some (a, k)" "positionActionIntent a k \<noteq> None"
    if "a = ''be'' \<or> a = ''trail05'' \<or> a = ''close50'' \<or> a = ''close100''" for a
    unfolding d parsePositionActionCallback_def cut_prefix_append option.case positionActionIntent_def Let_def
    using that assms by (elim disjE; simp del: append.simps add: cut_at_once)+
  have x: "parsePositionActionCallback (confirmationCallbackData a k) = None" "parseConfirmationCallback (positionActionCallbackData a k) = None" for a
    unfolding d parsePositionActionCallback_def parseConfirmationCallback_def n by simp_all
  show ?thesis using c p x by simp
qed

theorem bot_buttons_roundtrip_witness:
  "parsePositionActionCallback (positionActionCallbackData ''be'' ''A:B'') = Some (''be'', ''A:B'')"
  using bot_buttons_roundtrip [of "''A:B''"] by simp

end
