(* ===== verification/Web_Orders.thy ===== *)
theory Web_Orders
  imports Goal_Runs Journal_Report
begin

text \<open>
  The orders of the dashboard: \<open>internal/api/command.go\<close>, \<open>mission.go\<close> and \<open>positions.go\<close>. A trade command, a
  mission or a position's close button only stages a confirmation; \<open>handleConfirm\<close> executes or cancels it. The
  subject of the caller's token is an argument, a request body is \<open>None\<close> when it does not decode, and a
  constructor of a reply stands for the one text the code answers there.
\<close>

section \<open>Callers\<close>

definition webUserID :: "string \<Rightarrow> int option" where
  "webUserID subject = (if has_prefix subject ''tg:'' then atoi (drop 3 subject) else None)"

definition approved_caller :: "('m, 'a, 'c, 's, 'i, 'j, 'x) mission_server \<Rightarrow> 'a \<Rightarrow> string \<Rightarrow> bool" where
  "approved_caller sv a subject \<longleftrightarrow>
     (case msv_access sv of
        None \<Rightarrow> cf_AccessOpen (msv_acl sv) \<or> isAdmin (msv_acl sv) (msv_access sv) subject a
      | Some ops \<Rightarrow> approved (msv_acl sv) ops subject a)"

section \<open>Trade commands\<close>

datatype web_reply =
    WebNotEnabled | WebBadBody | WebUnknown | WebInvalid parse_error | WebNotOnWeb | WebNeedTelegram | WebNeedKey | WebNotApproved
  | WebOrderError order_error | WebReview intent string | WebCancelled | WebExecuted string

text \<open>Preparing one order with the random ids and the clock of the call.\<close>

definition web_Prepare ::
    "('s, 'i, 'j, 'x) service \<Rightarrow> call_env \<Rightarrow> int \<Rightarrow> intent \<Rightarrow> ('s, 'i, 'j, 'x) world \<Rightarrow> (order_error + confirmation) \<times> ('s, 'i, 'j, 'x) world" where
  "web_Prepare svc env userID intent w = prepare svc (en_hash env) (en_rnd env 0) (en_rnd env 1) (en_clk env 0) userID intent [] w"

definition review :: "intent \<Rightarrow> (order_error + confirmation) \<times> 'w \<Rightarrow> web_reply \<times> 'w" where
  "review intent r = (case r of (Inl e, w) \<Rightarrow> (WebOrderError e, w) | (Inr c, w) \<Rightarrow> (WebReview intent (c_ID c), w))"

definition commandTrade ::
    "('c, 's, 'i, 'j, 'x) server \<Rightarrow> int \<Rightarrow> call_env \<Rightarrow> string \<Rightarrow> string \<Rightarrow> ('s, 'i, 'j, 'x) world \<Rightarrow> web_reply \<times> ('s, 'i, 'j, 'x) world" where
  "commandTrade srv maxLeverage env subject text w =
     (case srv_orders srv of
        None \<Rightarrow> (WebNotEnabled, w)
      | Some svc \<Rightarrow>
          (case parser_Parse maxLeverage text of
             Inl e \<Rightarrow> (if e \<noteq> Unrecognized then WebInvalid e else WebUnknown, w)
           | Inr intent \<Rightarrow>
               if \<not> IsExchangeChanging intent then (WebNotOnWeb, w)
               else case webUserID subject of
                      None \<Rightarrow> (WebNeedTelegram, w)
                    | Some userID \<Rightarrow> review intent (web_Prepare svc env userID intent w)))"

definition handleClosePosition ::
    "('m, 'a, 'c, 's, 'i, 'j, 'x) mission_server \<Rightarrow> 'a \<Rightarrow> call_env \<Rightarrow> string \<Rightarrow> string option \<Rightarrow> ('s, 'i, 'j, 'x) world \<Rightarrow>
     web_reply \<times> ('s, 'i, 'j, 'x) world" where
  "handleClosePosition sv a env subject body w =
     (case srv_orders (msv_base sv) of
        None \<Rightarrow> (WebNotEnabled, w)
      | Some svc \<Rightarrow>
          if \<not> approved_caller sv a subject then (WebNotApproved, w)
          else (case webUserID subject of
                  None \<Rightarrow> (WebNeedTelegram, w)
                | Some userID \<Rightarrow>
                    (case body of
                       None \<Rightarrow> (WebBadBody, w)
                     | Some symbol \<Rightarrow>
                         let symbol = api_normalizeSymbol symbol;
                             intent = no_intent\<lparr>i_Type := IntentClose, i_Close := Some \<lparr>ci_Symbol = symbol, ci_All = True, ci_Percent = dec_unset, ci_HasPercent = False,
                               ci_ResolvedPercent = dec_NewFromInt 100, ci_EntryConfirmationID = []\<rparr>\<rparr>
                         in if symbol = [] then (WebBadBody, w) else review intent (web_Prepare svc env userID intent w))))"

section \<open>Positions\<close>

record position_view =
  pv_symbol :: string
  pv_side :: string
  pv_amount :: string
  pv_entry :: string
  pv_mark :: string
  pv_pnl :: string
  pv_leverage :: int
  pv_notional :: string
  pv_margin :: string

definition view_position :: "position \<Rightarrow> position_view" where
  "view_position p =
     (let notional = dec_Mul (dec_Abs (p_Amount p)) (p_MarkPrice p);
          margin = (if p_Leverage p > 0 then (case dec_QuoFloor notional (dec_NewFromInt (p_Leverage p)) 8 of Inl _ \<Rightarrow> dec_Zero | Inr m \<Rightarrow> m)
                    else dec_Zero)
      in \<lparr>pv_symbol = p_Symbol p, pv_side = p_Side p, pv_amount = dec_String (p_Amount p), pv_entry = dec_String (p_EntryPrice p),
          pv_mark = dec_String (p_MarkPrice p), pv_pnl = dec_String (p_UnrealizedProfit p), pv_leverage = p_Leverage p,
          pv_notional = dec_String notional, pv_margin = dec_String margin\<rparr>)"

text \<open>The positions, and whether they could not be read.\<close>

definition handleGetPositions ::
    "('m, 'a, 'c, 's, 'i, 'j, 'x) mission_server \<Rightarrow> 'a \<Rightarrow> string \<Rightarrow> ('s, 'i, 'j, 'x) world \<Rightarrow> position_view list \<times> bool" where
  "handleGetPositions sv a subject w =
     (case srv_orders (msv_base sv) of
        None \<Rightarrow> ([], False)
      | Some svc \<Rightarrow>
          if \<not> approved_caller sv a subject then ([], False)
          else (case webUserID subject of
                  None \<Rightarrow> ([], False)
                | Some userID \<Rightarrow>
                    (case service_Positions svc userID (w_exch w) of
                       Inl _ \<Rightarrow> ([], True)
                     | Inr ps \<Rightarrow> (map view_position (filter (\<lambda>p. \<not> dec_IsZero (p_Amount p)) ps), False))))"

section \<open>Confirming\<close>

definition executed_text :: "exec_result \<Rightarrow> string" where
  "executed_text r =
     (if trim_space (er_Message r) = [] then [CHR 0xE2, CHR 0x9C, CHR 0x85] @ '' '' @ er_Mode r @ '' '' @ er_ClientOrderID r else er_Message r)"

text \<open>\<open>body\<close> is the confirmation's id and whether to cancel it.\<close>

definition handleConfirm ::
    "('c, 's, 'i, 'j, 'x) server \<Rightarrow> call_env \<Rightarrow> string \<Rightarrow> (string \<times> bool) option \<Rightarrow> ('c, 's, 'i, 'j, 'x) sworld \<Rightarrow>
     web_reply \<times> ('c, 's, 'i, 'j, 'x) sworld" where
  "handleConfirm srv env subject body w =
     (case srv_orders srv of
        None \<Rightarrow> (WebNotEnabled, w)
      | Some svc \<Rightarrow>
        (case body of
           None \<Rightarrow> (WebBadBody, w)
         | Some (k, cancel) \<Rightarrow>
           if trim_space k = [] then (WebBadBody, w)
           else (case webUserID subject of
             None \<Rightarrow> (WebNeedTelegram, w)
           | Some userID \<Rightarrow>
             if cancel then
               (let w = w\<lparr>sw_closes := cancelAwaitingScheduledClose srv (en_now env 0) k ''mission cancelled'' (sw_closes w)\<rparr>
                in case service_Cancel svc (en_clk env 0) userID k (sw_orders w) of
                     (Some e, ow) \<Rightarrow> (WebOrderError e, w\<lparr>sw_orders := ow\<rparr>)
                   | (None, ow) \<Rightarrow> (WebCancelled, w\<lparr>sw_orders := ow\<rparr>))
             else
               let live = armedMissionRuntimeAllowed (srv_gate srv) in
               if live \<and> \<not> hasActiveKeyForSubject (en_creds env 0) subject then (WebNeedKey, w)
               else (case confirm svc (en_clk env 0) userID k live (sw_orders w) of
                       (Inl e, ow) \<Rightarrow> (WebOrderError e, w\<lparr>sw_orders := ow\<rparr>)
                     | (Inr result, ow) \<Rightarrow>
                         (WebExecuted (executed_text result),
                          w\<lparr>sw_orders := ow, sw_closes := activateScheduledClose srv (en_now env 0) k (sw_closes w)\<rparr>)))))"

section \<open>Reports\<close>

definition handleHistory :: "(journal_filter \<Rightarrow> string + trade list) option \<Rightarrow> string \<Rightarrow> string + report" where
  "handleHistory list_rows subject =
     (case list_rows of
        None \<Rightarrow> Inl ''reporting is not enabled''
      | Some rows \<Rightarrow>
          let f = (case webUserID subject of None \<Rightarrow> no_filter | Some u \<Rightarrow> no_filter\<lparr>f_UserID := u\<rparr>)
          in case journal_Report rows f of Inl _ \<Rightarrow> Inl ''could not load history'' | Inr r \<Rightarrow> Inr r)"

definition chart_up :: string where "chart_up = [CHR 0xF0, CHR 0x9F, CHR 0x93, CHR 0x88]"

definition commandReport :: "(journal_filter \<Rightarrow> string + trade list) option \<Rightarrow> string \<Rightarrow> string" where
  "commandReport list_rows subject =
     (case list_rows of
        None \<Rightarrow> ''Reporting is not enabled.''
      | Some rows \<Rightarrow>
          let f = (case webUserID subject of None \<Rightarrow> no_filter | Some u \<Rightarrow> no_filter\<lparr>f_UserID := u\<rparr>)
          in case journal_Report rows (f\<lparr>f_ClosedOnly := True\<rparr>) of
               Inl _ \<Rightarrow> ''Could not load your report.''
             | Inr r \<Rightarrow>
                 chart_up @ '' Your performance'' @ nl @ ''Trades: '' @ show_int (rp_Trades r) @ '' ('' @ show_int (rp_Wins r) @ '' win / '' @
                 show_int (rp_Losses r) @ '' loss)'' @ nl @ ''Win rate: '' @ dec_String (rp_WinRate r) @ ''%'' @ nl @
                 ''Total PnL: '' @ dec_String (rp_TotalPnL r) @ '' USDT'' @ nl @ ''Expectancy: '' @ dec_String (rp_Expectancy r))"

end
