(* ===== verification/Web_Mission.thy ===== *)
theory Web_Mission
  imports Web_Orders
begin

text \<open>
  \<open>internal/api/mission.go\<close>: staging a live mission. The handler chooses a side from the strategy and the
  advisor, sizes the order inside the mission's caps, prepares it in the order service, attaches a timed
  close and answers with the confirmation to press; an ANNY Basic mission without a setup is armed instead.
\<close>

record staged_mission =
  sg_intent :: intent
  sg_confirm_id :: string
  sg_timedClose :: bool
  sg_symbol :: string
  sg_side :: string
  sg_entry :: string
  sg_stopLoss :: string
  sg_takeProfit :: string
  sg_leverage :: int
  sg_duration :: string
  sg_sizeUSDT :: string

datatype mission_reply =
    MissionNotEnabled | MissionNotApproved | MissionNeedTelegram | MissionNeedKey | MissionOverLimit string | MissionBadBody
  | MissionNoMarket string | MissionNoAssessment string | MissionArmed_reply arm_reply | MissionAIConflict | MissionNoSetup
  | MissionInvalid decision_error | MissionRefused order_error | MissionNoTimedClose | MissionStaged staged_mission

definition mission_strategy :: "string \<Rightarrow> string" where
  "mission_strategy name = (if name \<in> {''rsi'', ''macd'', ''sma'', ''breakout'', ''auto'', ''anny_basic''} then name else ''ema'')"

definition missionSpecFor :: "string \<Rightarrow> string \<times> string" where
  "missionSpecFor value =
     (let key = missionDurationKey value in (key, case durationSpec key of None \<Rightarrow> [] | Some (interval, _) \<Rightarrow> interval))"

definition mission_arm_request :: "goal_request \<Rightarrow> arm_request" where
  "mission_arm_request req =
     \<lparr>rqm_Capital = gq_Capital req, rqm_Risk = gq_Risk req, rqm_CapitalRiskPct = gq_CapitalRiskPct req,
      rqm_LeverageUsePct = gq_LeverageUsePct req, rqm_Duration = gq_Duration req, rqm_UseAI = gq_UseAI req\<rparr>"

text \<open>What the strategy says: an error, an ANNY Basic plan to arm, or a side with its reason and leverage ceiling.\<close>

datatype strategy_view = ViewFailed | ViewArm string | ViewSide string string int

definition mission_view ::
    "('m, 'a, 'c, 's, 'i, 'j, 'x) mission_server \<Rightarrow> 'a arm_env \<Rightarrow> string \<Rightarrow> string \<Rightarrow> candle list \<Rightarrow> strategy_view" where
  "mission_view sv env strategyName symbol cs =
     (if strategyName = ''anny_basic'' then
        (case annyBasicLiveDecision sv env symbol cs of
           Inl _ \<Rightarrow> ViewFailed
         | Inr d \<Rightarrow>
             if ad_Stop d \<or> ad_Side d = anny_side.SideNone then ViewArm (ad_Reason d)
             else ViewSide (side_text (ad_Side d)) (trigger_reason d) (ad_MaxLeverage d))
      else ViewSide (signalSide (strategy_Evaluate (StrategyFor strategyName) (map k_Close cs))) strategyName missionMaxLeverage)"

text \<open>The advisor's word on the side: \<open>None\<close> when it conflicts with ANNY Basic.\<close>

definition lean_side :: "string \<Rightarrow> string \<Rightarrow> paper_bias \<Rightarrow> string option" where
  "lean_side strategyName sd bias =
     (if strategyName = ''anny_basic'' then
        (if bias = BiasLong \<and> sd = ''short'' \<or> bias = BiasShort \<and> sd = ''long'' then None else Some sd)
      else Some (case bias of BiasLong \<Rightarrow> ''long'' | BiasShort \<Rightarrow> ''short'' | BiasBoth \<Rightarrow> sd))"

definition live_decision :: "int \<Rightarrow> goal_request \<Rightarrow> string \<Rightarrow> string \<Rightarrow> string \<Rightarrow> rat \<Rightarrow> int \<Rightarrow> string \<Rightarrow> decision" where
  "live_decision maxLeverage req symbol strategyName sd entry modelLeverageCap reason =
     (let (sl, tp) = missionBracket sd entry
      in no_decision\<lparr>dn_Action := ''open'', dn_Symbol := symbol, dn_Strategy := missionStrategyID strategyName, dn_Side := sd,
           dn_Leverage := missionLeverageFor (gq_LeverageUsePct req) (minPositive maxLeverage modelLeverageCap),
           dn_Entry := trimPrice entry, dn_StopLoss := trimPrice sl, dn_TakeProfit := trimPrice tp,
           dn_SizeUSDT := format_fixed 2 (missionSize (gq_Capital req)), dn_Reason := reason\<rparr>)"

definition live_intent :: "decision \<Rightarrow> decision_error + intent" where
  "live_intent d =
     bindE (DecisionToIntent d missionMaxLeverage) (\<lambda>i.
       Inr (case i_Open i of None \<Rightarrow> i | Some oi \<Rightarrow> i\<lparr>i_Open := Some (oi\<lparr>oi_CampaignID := ''mission''\<rparr>)\<rparr>))"

text \<open>The mission staged from a decision: prepared, with its close persisted, or taken back.\<close>

definition stage_mission ::
    "('m, 'a, 'c, 's, 'i, 'j, 'x) mission_server \<Rightarrow> ('s, 'i, 'j, 'x) service \<Rightarrow> 'a arm_env \<Rightarrow> string \<Rightarrow> int \<Rightarrow> string \<Rightarrow> decision \<Rightarrow>
     ('m, 'c, 's, 'i, 'j, 'x) mission_world \<Rightarrow> mission_reply \<times> ('m, 'c, 's, 'i, 'j, 'x) mission_world" where
  "stage_mission sv svc env subject userID durationKey d w =
     (case live_intent d of
        Inl e \<Rightarrow> (MissionInvalid e, w)
      | Inr intent \<Rightarrow>
        (case web_Prepare svc (av_call env) userID intent (sw_orders (mw_server w)) of
           (Inl e, ow) \<Rightarrow> (MissionRefused e, set_orders ow w)
         | (Inr c, ow) \<Rightarrow>
           let w = set_orders ow w in
           (case scheduleTimedMissionClose (msv_base sv) (en_now (av_call env) 0) (en_rnd (av_call env) 2)
                   \<lparr>tm_UserID = userID, tm_Symbol = dn_Symbol d, tm_Side = dn_Side d, tm_Duration = planDuration durationKey\<rparr>
                   (c_ID c) (sw_closes (mw_server w)) of
              (Inl _, cl) \<Rightarrow> (MissionNoTimedClose, drop_confirmation svc (en_clk (av_call env) 1) userID (c_ID c) (set_closes cl w))
            | (Inr job, cl) \<Rightarrow>
              (MissionStaged \<lparr>sg_intent = intent, sg_confirm_id = c_ID c, sg_timedClose = (sc_ID job \<noteq> []), sg_symbol = dn_Symbol d,
                 sg_side = dn_Side d, sg_entry = dn_Entry d, sg_stopLoss = dn_StopLoss d, sg_takeProfit = dn_TakeProfit d,
                 sg_leverage = dn_Leverage d, sg_duration = durationKey, sg_sizeUSDT = dn_SizeUSDT d\<rparr>,
               (set_closes cl w)\<lparr>mw_usage := usage_Incr (av_day env 0) (mw_usage w) subject ''mission''\<rparr>))))"

text \<open>From the strategy's view on: the advisor's lean, and the decision.\<close>

definition decide_mission ::
    "('m, 'a, 'c, 's, 'i, 'j, 'x) mission_server \<Rightarrow> 'a ai_desk \<Rightarrow> ('s, 'i, 'j, 'x) service \<Rightarrow> 'a arm_env \<Rightarrow> string \<Rightarrow> int \<Rightarrow> goal_request \<Rightarrow>
     string \<Rightarrow> string \<Rightarrow> candle list \<Rightarrow> string \<Rightarrow> string \<Rightarrow> int \<Rightarrow>
     ('m, 'c, 's, 'i, 'j, 'x) mission_world \<Rightarrow> mission_reply \<times> ('m, 'c, 's, 'i, 'j, 'x) mission_world" where
  "decide_mission sv dk svc env subject userID req symbol strategyName cs sd reason modelLeverageCap w =
     (let entry = k_Close (last cs);
          (lean, u) = (if gq_UseAI req then (case aiBias dk subject symbol entry (av_access env 1) (mw_usage w) of (l, u) \<Rightarrow> (Some l, u))
                       else (None, mw_usage w));
          w = w\<lparr>mw_usage := u\<rparr>;
          reason = (case lean of None \<Rightarrow> reason | Some (_, note) \<Rightarrow> trim_space (reason @ '' '' @ middot @ '' '' @ note))
      in case (case lean of None \<Rightarrow> Some sd | Some (bias, _) \<Rightarrow> lean_side strategyName sd bias) of
           None \<Rightarrow> (MissionAIConflict, w)
         | Some sd \<Rightarrow>
             if sd = [] then (MissionNoSetup, w)
             else stage_mission sv svc env subject userID (missionDurationKey (gq_Duration req))
                    (live_decision (msv_maxLeverage sv) req symbol strategyName sd entry modelLeverageCap reason) w)"

definition handleMissionPrepare ::
    "('m, 'a, 'c, 's, 'i, 'j, 'x) mission_server \<Rightarrow> 'a ai_desk \<Rightarrow> 'a arm_env \<Rightarrow> string \<Rightarrow> goal_request option \<Rightarrow>
     ('m, 'c, 's, 'i, 'j, 'x) mission_world \<Rightarrow> mission_reply \<times> ('m, 'c, 's, 'i, 'j, 'x) mission_world" where
  "handleMissionPrepare sv dk env subject body w =
     (case srv_orders (msv_base sv) of
        None \<Rightarrow> (MissionNotEnabled, w)
      | Some svc \<Rightarrow>
        if \<not> approved_caller sv (av_access env 0) subject then (MissionNotApproved, w)
        else (case webUserID subject of
          None \<Rightarrow> (MissionNeedTelegram, w)
        | Some userID \<Rightarrow>
          if en_creds (av_call env) 0 \<noteq> None \<and> \<not> hasActiveKeyForSubject (en_creds (av_call env) 0) subject then (MissionNeedKey, w)
          else (case allow (msv_acl sv) (msv_access sv) (av_day env 0) (mw_usage w) subject ''mission'' (av_access env 0) of
            (False, msg) \<Rightarrow> (MissionOverLimit msg, w)
          | (True, _) \<Rightarrow>
            (case body of
               None \<Rightarrow> (MissionBadBody, w)
             | Some req \<Rightarrow>
               let symbol = api_normalizeSymbol (gq_Symbol req); strategyName = mission_strategy (gq_Strategy req);
                   interval = (if strategyName = ''anny_basic'' then ''1m'' else snd (missionSpecFor (gq_Duration req)))
               in (case av_candles env symbol interval 120 of
                     Inl _ \<Rightarrow> (MissionNoMarket symbol, w)
                   | Inr cs \<Rightarrow>
                     if cs = [] then (MissionNoMarket symbol, w)
                     else (case mission_view sv env strategyName symbol cs of
                         ViewFailed \<Rightarrow> (MissionNoAssessment symbol, w)
                       | ViewArm reason \<Rightarrow>
                           (case armANNYBasicMission sv env subject userID (mission_arm_request req) symbol reason
                                   (en_now (av_call env) 0) (mw_missions w) of
                              (r, m) \<Rightarrow> (MissionArmed_reply r, w\<lparr>mw_missions := m\<rparr>))
                       | ViewSide sd reason cap \<Rightarrow>
                           decide_mission sv dk svc env subject userID req symbol strategyName cs sd reason cap w))))))"

end
