(* ===== verification/Web_Properties.thy ===== *)
theory Web_Properties
  imports Web_Mission Order_Properties Armed_Properties
begin

text \<open>
  The properties of the dashboard's orders (\<open>Web_Orders\<close>, \<open>Web_Mission\<close>): what a confirm may do, what a
  refused cancel does to the timed close, whose trades a history counts, and what staging a mission leaves behind.
\<close>

section \<open>Frames\<close>

lemma fst_prepare_core:
  assumes "prepare sv h r1 r2 clk u i key w = (Inr c, w')"
  shows "c_UserID c = u" "c_Intent c = i" "c_Status c = StatusPending" "w_exch w' = w_exch w" "w_journal w' = w_journal w"
  using assms by (auto simp: prepare_def Let_def split: if_splits sum.splits option.splits prod.splits)

lemma prepare_journal: "prepare sv h r1 r2 clk u i key w = (res, w') \<Longrightarrow> w_journal w' = w_journal w"
  by (auto simp: prepare_def Let_def split: if_splits sum.splits option.splits prod.splits)

lemma service_Cancel_journal [simp]:
  "w_journal (snd (service_Cancel sv clk u k w)) = w_journal w" "w_exch (snd (service_Cancel sv clk u k w)) = w_exch w"
  by (auto simp: service_Cancel_def Let_def split: prod.splits)

lemma service_Cancel_store: "w_store (snd (service_Cancel sv clk u k w)) = snd (cs_Cancel (sv_store sv) u k (clk 0) (w_store w))"
  by (auto simp: service_Cancel_def Let_def split: prod.splits)

lemma service_Cancel_err: "fst (service_Cancel sv clk u k w) = fst (cs_Cancel (sv_store sv) u k (clk 0) (w_store w))"
  by (auto simp: service_Cancel_def Let_def split: prod.splits)

section \<open>Confirming\<close>

text \<open>Only a confirm reaches the confirmation it names, and only through \<open>orders.Confirm\<close>.\<close>

lemma handleConfirm_confirms:
  assumes "w_exch (sw_orders (snd (handleConfirm srv env subject body w))) \<noteq> w_exch (sw_orders w)"
  shows "\<exists>svc k u. srv_orders srv = Some svc \<and> body = Some (k, False) \<and> webUserID subject = Some u \<and>
    (armedMissionRuntimeAllowed (srv_gate srv) \<longrightarrow> hasActiveKeyForSubject (en_creds env 0) subject) \<and>
    w_exch (sw_orders (snd (handleConfirm srv env subject body w))) =
      w_exch (snd (confirm svc (en_clk env 0) u k (armedMissionRuntimeAllowed (srv_gate srv)) (sw_orders w)))"
proof -
  note d = handleConfirm_def Let_def
  obtain svc where svc: "srv_orders srv = Some svc" using assms by (cases "srv_orders srv") (simp_all add: d)
  obtain k ca where k: "body = Some (k, ca)" using assms svc by (cases body) (auto simp: d)
  have k1: "trim_space k \<noteq> []" using assms svc k by (auto simp: d)
  obtain u where u: "webUserID subject = Some u" using assms svc k k1 by (cases "webUserID subject") (simp_all add: d)
  obtain e ow where c: "service_Cancel svc (en_clk env 0) u k (sw_orders w) = (e, ow)" by fastforce
  then have "w_exch ow = w_exch (sw_orders w)" using service_Cancel_journal(2) [of svc "en_clk env 0" u k "sw_orders w"] by simp
  then have "\<not> ca" using assms svc k k1 u c by (cases e) (auto simp: d)
  moreover obtain res ow' where r: "confirm svc (en_clk env 0) u k (armedMissionRuntimeAllowed (srv_gate srv)) (sw_orders w) = (res, ow')"
    by fastforce
  ultimately show ?thesis using assms svc k k1 u by (cases res) (auto simp: d split: if_splits)
qed


definition web_sworld :: "(mem_closes, mem_store, unit, mem_journal, confirmation list) sworld" where
  "web_sworld = ex_sworld\<lparr>sw_orders := (sw_orders ex_sworld)\<lparr>w_store := [''k1'' \<mapsto> example_record]\<rparr>\<rparr>"

definition web_env :: call_env where "web_env = ex_env\<lparr>en_clk := (\<lambda>_ _. 5)\<rparr>"

definition web_service :: "(mem_store, unit, mem_journal, confirmation list) service" where
  "web_service = NewServiceWithRepositories 0 None (memory_conf_store []) None None (Some (\<lambda>_. Inr (Some ex_executor, True))) None"

lemma web_service_of: "srv_orders ex_server = Some web_service" "sv_store web_service = memory_conf_store []"
  by (simp_all add: ex_server_def web_service_def NewServiceWithRepositories_def)

lemma web_confirm_sends:
  "length (w_exch (sw_orders (snd (handleConfirm ex_server web_env ''tg:7'' (Some (''k1'', False)) web_sworld)))) = 1"
  by code_simp


section \<open>A refused cancel\<close>


definition pending_sworld :: "(mem_closes, mem_store, unit, mem_journal, confirmation list) sworld" where
  "pending_sworld = ex_sworld\<lparr>sw_closes := [''j1'' \<mapsto> ex_close\<lparr>sc_EntryConfirmationID := ''k1''\<rparr>],
     sw_orders := (sw_orders ex_sworld)\<lparr>w_store := [''k1'' \<mapsto> set_status StatusExecuted example_record]\<rparr>\<rparr>"

definition pending_server :: "(mem_closes, mem_store, unit, mem_journal, confirmation list) server" where
  "pending_server = ex_server\<lparr>srv_closes := Some (memory_close_store [''j1''])\<rparr>"


section \<open>Whose trades\<close>

lemma mem_List_length:
  assumes "distinct ks" "set ks = dom j"
  shows "length (mem_List ks f j) = card {k \<in> dom j. filter_matches f (the (j k))}"
proof -
  have "mem_List ks f j = map (\<lambda>k. the (j k)) (filter (\<lambda>k. filter_matches f (the (j k))) ks)" if "set ks \<subseteq> dom j" for ks
    using that by (induction ks) (auto simp: mem_List_def)
  then have "length (mem_List ks f j) = card (set (filter (\<lambda>k. filter_matches f (the (j k))) ks))"
    using assms by (metis distinct_card distinct_filter length_map order_refl)
  then show ?thesis using assms(2) by simp
qed

text \<open>The history of a signed-in user counts his own trades, except that a user without a Telegram id (one who signs
  in with a password), and the user id 0, are given the report of every user's trades.\<close>

theorem history_scope:
  assumes "handleHistory (Some (\<lambda>f. Inr (mem_List ks f j))) subject = Inr r" and "distinct ks" and "set ks = dom j"
  shows "rp_Trades r = int (card {k \<in> dom j.
    case webUserID subject of None \<Rightarrow> True | Some u \<Rightarrow> u = 0 \<or> t_UserID (the (j k)) = u})"
proof -
  define f where "f = (case webUserID subject of None \<Rightarrow> no_filter | Some u \<Rightarrow> no_filter\<lparr>f_UserID := u\<rparr>)"
  have r: "r = aggregate (mem_List ks f j)" using assms(1) by (simp add: handleHistory_def journal_Report_def Let_def f_def)
  have m: "filter_matches f t \<longleftrightarrow> (case webUserID subject of None \<Rightarrow> True | Some u \<Rightarrow> u = 0 \<or> t_UserID t = u)" for t
    by (auto simp: f_def filter_matches_def no_filter_def split: option.splits)
  show ?thesis unfolding r aggregate_def report_finish_def
    by (simp add: fold_report_counts report_init_def mem_List_length [OF assms(2,3)] m)
qed

definition two_users :: mem_journal where
  "two_users = [''a'' \<mapsto> no_trade\<lparr>t_UserID := 7\<rparr>, ''b'' \<mapsto> no_trade\<lparr>t_UserID := 8\<rparr>]"

theorem history_scope_witness:
  "\<exists>r. handleHistory (Some (\<lambda>f. Inr (mem_List [''a'', ''b''] f two_users))) ''admin'' = Inr r \<and> rp_Trades r = 2"
proof -
  obtain r where r: "handleHistory (Some (\<lambda>f. Inr (mem_List [''a'', ''b''] f two_users))) ''admin'' = Inr r"
    by (simp add: handleHistory_def journal_Report_def Let_def)
  have u: "webUserID ''admin'' = None" by code_simp
  have d: "dom two_users = {''a'', ''b''}" by (auto simp: two_users_def)
  have "distinct [''a'', ''b'']" "set [''a'', ''b''] = dom two_users" by (auto simp: d)
  from history_scope [OF r this] have "rp_Trades r = int (card (dom two_users))" by (simp add: u)
  with r show ?thesis by (simp add: d)
qed

section \<open>Staging a mission\<close>

text \<open>What a reply and the state it leaves say about one another; \<open>u\<close> is the caller's id.\<close>

definition staged_ok ::
    "('m, 'a, 'c, 's, 'i, 'j, 'x) mission_server \<Rightarrow> 'a arm_env \<Rightarrow> int \<Rightarrow> staged_mission \<Rightarrow> ('m, 'c, 's, 'i, 'j, 'x) mission_world \<Rightarrow> bool" where
  "staged_ok sv env u s w' \<longleftrightarrow>
     i_Type (sg_intent s) = IntentOpen \<and> valid_intent 100 (sg_intent s) \<and> sg_leverage s \<in> {1..100} \<and>
     (\<exists>v. 5 \<le> v \<and> v \<le> 200 \<and> sg_sizeUSDT s = format_fixed 2 v) \<and>
     (\<exists>svc c ow ow'. srv_orders (msv_base sv) = Some svc \<and> web_Prepare svc (av_call env) u (sg_intent s) ow = (Inr c, ow') \<and>
        sw_orders (mw_server w') = ow' \<and> c_ID c = sg_confirm_id s \<and> c_UserID c = u \<and> c_Intent c = sg_intent s \<and>
        c_Status c = StatusPending) \<and>
     (armedMissionRuntimeAllowed (srv_gate (msv_base sv)) \<and> trim_space (sg_confirm_id s) \<noteq> [] \<longrightarrow>
        (\<exists>st (job::sclose) cl. srv_closes (msv_base sv) = Some st \<and> st_Save st job cl = (None, sw_closes (mw_server w')) \<and>
           sc_EntryConfirmationID job = sg_confirm_id s \<and> sc_Status job = CloseAwaitingEntry))"

abbreviation mw_journal :: "('m, 'c, 's, 'i, 'j, 'x) mission_world \<Rightarrow> 'j" where
  "mw_journal w \<equiv> w_journal (sw_orders (mw_server w))"

lemma missionSize_range: "5 \<le> missionSize v \<and> missionSize v \<le> 200"
  by (simp add: missionSize_def Let_def)

lemma sdiv_100_le: "n \<le> 10099 \<Longrightarrow> n sdiv 100 \<le> (100::int)"
  by (simp add: signed_divide_int_def sgn_if) linarith

lemma missionLeverageFor_range: "missionLeverageFor up m \<in> {1..100}"
proof -
  define p where "p = (if up \<le> 0 then 25 else if up > 100 then 100 else up)"
  define n where "n = (if m \<le> 0 \<or> m > 100 then 100 else m)"
  have r: "0 \<le> p" "p \<le> 100" "0 \<le> n" "n \<le> 100" by (auto simp: p_def n_def)
  have "n * p \<le> 100 * 100" using r by (intro mult_mono) auto
  then have "(n * p + 99) sdiv 100 \<le> 100" by (intro sdiv_100_le) simp
  moreover have "missionLeverageFor up m = (let l = (n * p + 99) sdiv 100 in if l < 1 then 1 else l)"
    by (simp add: missionLeverageFor_def missionMaxLeverage_def p_def n_def Let_def)
  ultimately show ?thesis by (simp add: Let_def)
qed

lemma parseOpen_type: "parseOpen m raw ts = Inr i \<Longrightarrow> i_Type i = IntentOpen"
  by (auto simp: parseOpen_def Let_def split: if_splits sum.splits option.splits prod.splits)

lemma open_command_opens:
  assumes "parse_command (open_command sd d sz) m = Inr i" "sd = ''long'' \<or> sd = ''short''"
  shows "i_Type i = IntentOpen"
proof -
  have w: "plain_word sd" "to_lower sd = sd" using assms(2) by (auto simp: plain_word_def is_space_def code_def to_lower_def lower_char_def is_upper_def)
  obtain rest where o: "open_command sd d sz = sd @ '' '' @ rest" by (simp add: open_command_def)
  obtain ts where ts: "str_fields (trim_space (open_command sd d sz)) = sd # ts" using first_field [OF w(1)] unfolding o by blast
  then have "trim_space (open_command sd d sz) \<noteq> []" by (auto simp: str_fields_def)
  then have "parseOpen (parser_New m) (trim_space (open_command sd d sz)) (sd # ts) = Inr i"
    using assms w ts by (auto simp: parse_command_def parser_Parse_def Let_def)
  then show ?thesis by (rule parseOpen_type)
qed

lemma open_decision_opens:
  assumes "openDecisionToIntent d m = Inr i"
  shows "i_Type i = IntentOpen"
  using assms by (auto simp: openDecisionToIntent_def Let_def split: if_splits option.splits dest!: open_command_opens)

lemma live_intent_open:
  assumes "live_intent d = Inr i" "dn_Action d = ''open''"
  shows "i_Type i = IntentOpen \<and> valid_intent 100 i"
proof -
  obtain j where j: "DecisionToIntent d missionMaxLeverage = Inr j"
      "i = (case i_Open j of None \<Rightarrow> j | Some oi \<Rightarrow> j\<lparr>i_Open := Some (oi\<lparr>oi_CampaignID := ''mission''\<rparr>)\<rparr>)"
    using assms(1) by (auto simp: live_intent_def)
  have a: "to_lower (trim_space (dn_Action d)) = ''open''" unfolding assms(2) by code_simp
  then have v: "valid_intent 100 j"
    using DecisionToIntent_valid [OF j(1)] by (simp add: missionMaxLeverage_def parser_New_def)
  have "i_Type j = IntentOpen" using j(1) a by (auto simp: DecisionToIntent_def intro: open_decision_opens)
  then show ?thesis using j(2) v valid_intent_campaign by (auto split: option.splits)
qed

lemma stage_frame:
  "mw_exch (snd (stage_mission sv svc env subject u dur d w)) = mw_exch w \<and> mw_journal (snd (stage_mission sv svc env subject u dur d w)) = mw_journal w"
  unfolding stage_mission_def Let_def web_Prepare_def
  by (auto simp: set_orders_def set_closes_def drop_confirmation_def dest: prepare_exch' prepare_journal split: prod.splits sum.splits)

lemma stage_ok:
  assumes "stage_mission sv svc env subject u dur d w = (MissionStaged s, w')" "srv_orders (msv_base sv) = Some svc"
    and "dn_Action d = ''open''" "dn_Leverage d \<in> {1..100}" "dn_SizeUSDT d = format_fixed 2 v" "5 \<le> v" "v \<le> 200"
  shows "staged_ok sv env u s w'"
proof -
  obtain i where i: "live_intent d = Inr i"
    using assms(1) by (cases "live_intent d") (auto simp: stage_mission_def)
  obtain p ow where p: "web_Prepare svc (av_call env) u i (sw_orders (mw_server w)) = (p, ow)" by (meson surj_pair)
  obtain c where c: "p = Inr c" using assms(1) i p by (cases p) (auto simp: stage_mission_def)
  let ?m = "\<lparr>tm_UserID = u, tm_Symbol = dn_Symbol d, tm_Side = dn_Side d, tm_Duration = planDuration dur\<rparr>"
  obtain q cl where q: "scheduleTimedMissionClose (msv_base sv) (en_now (av_call env) 0) (en_rnd (av_call env) 2) ?m (c_ID c)
      (sw_closes (mw_server (set_orders ow w))) = (q, cl)" by (meson surj_pair)
  obtain job where job: "q = Inr job" using assms(1) i p c q by (cases q) (auto simp: stage_mission_def Let_def)
  have s: "sg_intent s = i" "sg_confirm_id s = c_ID c" "sg_leverage s = dn_Leverage d" "sg_sizeUSDT s = dn_SizeUSDT d"
    "sw_orders (mw_server w') = ow" "sw_closes (mw_server w') = cl"
    using assms(1) i p c q job by (auto simp: stage_mission_def Let_def set_orders_def set_closes_def)
  have cc: "c_UserID c = u" "c_Intent c = i" "c_Status c = StatusPending"
    using p c fst_prepare_core by (auto simp: web_Prepare_def)
  have "armedMissionRuntimeAllowed (srv_gate (msv_base sv)) \<and> trim_space (c_ID c) \<noteq> [] \<longrightarrow>
      (\<exists>st (job::sclose) cl0. srv_closes (msv_base sv) = Some st \<and> st_Save st job cl0 = (None, cl) \<and>
         sc_EntryConfirmationID job = c_ID c \<and> sc_Status job = CloseAwaitingEntry)"
    using scheduled_saved [OF q [unfolded job]] planDuration_pos by fastforce
  moreover have "\<exists>svc c ow ow'. srv_orders (msv_base sv) = Some svc \<and> web_Prepare svc (av_call env) u i ow = (Inr c, ow') \<and>
        sw_orders (mw_server w') = ow' \<and> c_ID c = sg_confirm_id s \<and> c_UserID c = u \<and> c_Intent c = i \<and> c_Status c = StatusPending"
    using p c cc s assms(2) by auto
  ultimately show ?thesis
    using live_intent_open [OF i assms(3)] assms(4-7) unfolding staged_ok_def s by auto
qed

lemma live_decision_fields:
  "dn_Action (live_decision m req symb nm sd entry cap rs) = ''open''" "dn_Leverage (live_decision m req symb nm sd entry cap rs) \<in> {1..100}"
  "dn_SizeUSDT (live_decision m req symb nm sd entry cap rs) = format_fixed 2 (missionSize (gq_Capital req))"
  using missionLeverageFor_range by (auto simp: live_decision_def Let_def split: prod.splits)

lemma decide_frame:
  "mw_exch (snd (decide_mission sv dk svc env subject u req symb nm cs sd rs cap w)) = mw_exch w \<and>
   mw_journal (snd (decide_mission sv dk svc env subject u req symb nm cs sd rs cap w)) = mw_journal w"
  by (auto simp: decide_mission_def Let_def stage_frame split: prod.splits option.splits)

lemma handleMissionPrepare_frame:
  "mw_exch (snd (handleMissionPrepare sv dk env subject body w)) = mw_exch w \<and>
   mw_journal (snd (handleMissionPrepare sv dk env subject body w)) = mw_journal w"
  by (auto simp: handleMissionPrepare_def Let_def decide_frame split: prod.splits option.splits sum.splits bool.splits strategy_view.splits)

lemma decide_ok:
  assumes "decide_mission sv dk svc env subject u req symb nm cs sd rs cap w = (MissionStaged s, w')" "srv_orders (msv_base sv) = Some svc"
  shows "staged_ok sv env u s w'"
proof -
  obtain sd' dur rs' w1 where "stage_mission sv svc env subject u dur
      (live_decision (msv_maxLeverage sv) req symb nm sd' (k_Close (last cs)) cap rs') w1 = (MissionStaged s, w')"
    using assms(1) by (auto simp: decide_mission_def Let_def split: prod.splits option.splits if_splits)
  then show ?thesis
    using stage_ok [OF _ assms(2) live_decision_fields] missionSize_range by blast
qed


definition mission_body :: goal_request where
  "mission_body = \<lparr>gq_Profit = [], gq_Capital = ''5'', gq_Risk = 0, gq_CapitalRiskPct = 50, gq_LeverageUsePct = 25,
     gq_Duration = ''1h'', gq_Symbol = ''BTC'', gq_Strategy = ''anny_basic'', gq_UseAI = False\<rparr>"

definition mission_desk :: "mem_access ai_desk" where
  "mission_desk = \<lparr>dk_own = None, dk_shared = None, dk_access = ex_acl, dk_store = memory_access [], dk_day = ''2026-01-01'', dk_now = 1\<rparr>"

definition mission_env :: "mem_access arm_env" where
  "mission_env = ex_arm_env\<lparr>av_access := (\<lambda>_. [''tg:7'' \<mapsto> no_access\<lparr>ac_Status := accessApproved\<rparr>])\<rparr>"

lemma mission_stages:
  "case fst (handleMissionPrepare ex_msv mission_desk mission_env ''tg:7'' (Some mission_body) ex_mworld) of
     MissionStaged s \<Rightarrow> sg_side s = ''long'' \<and> sg_stopLoss s = ''49.5'' | _ \<Rightarrow> False"
  by code_simp


end
