(* ===== verification/Web_Commands.thy ===== *)
theory Web_Commands
  imports Web_Orders Bot_Text
begin

text \<open>
  The console of the dashboard, \<open>internal/api/command.go\<close>: a command is read, an order is staged by \<open>commandTrade\<close>
  (\<open>Web_Orders\<close>), and nothing is executed. Also the symbols and prices the dashboard asks for. The text of a goal
  error is a function of the environment.
\<close>

definition commandMarket :: "md_error provider \<Rightarrow> string \<Rightarrow> time \<Rightarrow> string \<Rightarrow> string" where
  "commandMarket provider period now arg =
     (let symbol = api_normalizeSymbol arg; (s, errs) = Collect_snapshot provider symbol period now
      in if errs \<noteq> [] \<and> dec_IsZero (fu_MarkPrice (sn_Funding s)) then ''Could not fetch market data for '' @ symbol @ ''.''
         else formatMarketSnapshot s)"

text \<open>The preview and the running profit after each trade.\<close>

definition commandGoal :: "(goal_error \<Rightarrow> string) \<Rightarrow> string \<Rightarrow> string \<times> string list" where
  "commandGoal goalError text1 =
     (case ParseGoal text1 of
        Inl e \<Rightarrow> (goalError e @ nl @ nl @ ''Example: goal profit 10 risk 50'', [])
      | Inr g \<Rightarrow>
          (case EstimateTrades g of
             Inl e \<Rightarrow> (warning @ '' '' @ goalError e, [])
           | Inr n \<Rightarrow>
               let r = Simulate g
               in (goal_preview g n r, map (\<lambda>o1. dec_String (to_RunningPnL o1)) (sim_Outcomes r))))"

definition commandBacktest :: "(string \<Rightarrow> string \<Rightarrow> int \<Rightarrow> md_error + rat list) \<Rightarrow> string \<Rightarrow> string" where
  "commandBacktest closes_of arg =
     (let symbol = api_normalizeSymbol arg
      in case closes_of symbol ''1h'' 500 of
           Inl _ \<Rightarrow> ''Could not fetch history for '' @ symbol @ ''.''
         | Inr closes \<Rightarrow> backtest_text symbol closes)"

record console =
  co_provider :: "md_error provider"
  co_period :: string
  co_closes :: "string \<Rightarrow> string \<Rightarrow> int \<Rightarrow> md_error + rat list"
  co_report :: "(journal_filter \<Rightarrow> string + trade list) option"
  co_maxLeverage :: int
  co_goalError :: "goal_error \<Rightarrow> string"

datatype command_reply = CommandBadBody | CommandHelp | CommandOutput string | CommandGoal string "string list" | CommandTrade web_reply

definition handleCommand ::
    "console \<Rightarrow> ('c, 's, 'i, 'j, 'x) server \<Rightarrow> call_env \<Rightarrow> string \<Rightarrow> string option \<Rightarrow> ('s, 'i, 'j, 'x) world \<Rightarrow>
     command_reply \<times> ('s, 'i, 'j, 'x) world" where
  "handleCommand co srv env subject body w =
     (case body of
        None \<Rightarrow> (CommandBadBody, w)
      | Some command \<Rightarrow>
          let t = trim_prefix (trim_space command) ''/'';
              (word, rest0, _) = cut_at (CHR '' '') t; rest = trim_space rest0; verb = to_lower word
          in if verb = [] \<or> verb = ''help'' then (CommandHelp, w)
             else if verb = ''market'' then (CommandOutput (commandMarket (co_provider co) (co_period co) (en_now env 0) rest), w)
             else if verb = ''goal'' then (case commandGoal (co_goalError co) t of (out, curve) \<Rightarrow> (CommandGoal out curve, w))
             else if verb = ''backtest'' then (CommandOutput (commandBacktest (co_closes co) rest), w)
             else if verb = ''report'' then (CommandOutput (commandReport (co_report co) subject), w)
             else (case commandTrade srv (co_maxLeverage co) env subject t w of (r, w) \<Rightarrow> (CommandTrade r, w)))"

definition handleSymbols :: "md_net \<Rightarrow> (nat \<Rightarrow> time) \<Rightarrow> string \<Rightarrow> md_cache \<Rightarrow> (md_error + string list) \<times> md_cache" where
  "handleSymbols net clk q c = SearchSymbols net clk q 25 c"

definition handlePrices :: "md_net \<Rightarrow> (nat \<Rightarrow> time) \<Rightarrow> string \<Rightarrow> md_cache \<Rightarrow> (md_error + (string \<Rightarrow> ticker option)) \<times> md_cache" where
  "handlePrices net clk q c =
     (let symbols = filter (\<lambda>v. v \<noteq> []) (map (\<lambda>part. to_upper (trim_space part)) (split_on (CHR '','') q))
      in Tickers net clk (take 50 symbols) c)"

lemma commandTrade_exch: "commandTrade srv ml env subject t w = (r, w') \<Longrightarrow> w_exch w' = w_exch w"
  by (auto simp: commandTrade_def review_def web_Prepare_def split: option.splits sum.splits prod.splits if_splits dest: prepare_exch')

text \<open>No command reaches the exchange.\<close>

lemma handleCommand_exch: "w_exch (snd (handleCommand co srv env subject body w)) = w_exch w"
  by (auto simp: handleCommand_def Let_def split: option.splits prod.splits dest: commandTrade_exch)

end
