(* ===== verification/Sessions.thy ===== *)
theory Sessions
  imports Binance_Net
begin

text \<open>
  \<open>internal/auth\<close> (\<open>token.go\<close>, \<open>telegram.go\<close>): session tokens and the two Telegram logins. A byte string is a
  \<open>string\<close>. HMAC-SHA256 and SHA256 are functions of \<open>crypto\<close>; \<open>encoding/json\<close> is known by the text it makes of the
  claims and by what it reads from a text. Unpadded base64 and the parsing of a query are written out, since what
  they accept decides which tokens are accepted.
\<close>

section \<open>Unpadded URL base64\<close>

definition b64_char :: "nat \<Rightarrow> char" where
  "b64_char n =
     (if n < 26 then char_of (65 + n) else if n < 52 then char_of (71 + n) else if n < 62 then char_of (n - 4)
      else if n = 62 then CHR ''-'' else CHR ''_'')"

definition b64_val :: "char \<Rightarrow> nat option" where
  "b64_val c =
     (if is_upper c then Some (code c - 65) else if is_lower c then Some (code c - 71)
      else if is_digit c then Some (code c + 4) else if c = CHR ''-'' then Some 62 else if c = CHR ''_'' then Some 63 else None)"

fun b64_sextets :: "nat list \<Rightarrow> nat list" where
  "b64_sextets [] = []"
| "b64_sextets [a] = [a div 4, (a mod 4) * 16]"
| "b64_sextets [a, b] = [a div 4, (a mod 4) * 16 + b div 16, (b mod 16) * 4]"
| "b64_sextets (a # b # c # s) = a div 4 # ((a mod 4) * 16 + b div 16) # ((b mod 16) * 4 + c div 64) # c mod 64 # b64_sextets s"

text \<open>A last group of one character is an error; the spare bits of a short group are not looked at.\<close>

fun b64_octets :: "nat list \<Rightarrow> nat list option" where
  "b64_octets [] = Some []"
| "b64_octets [p] = None"
| "b64_octets [p, q] = Some [p * 4 + q div 16]"
| "b64_octets [p, q, r] = Some [p * 4 + q div 16, (q mod 16) * 16 + r div 4]"
| "b64_octets (p # q # r # t # s) =
     map_option (\<lambda>u. (p * 4 + q div 16) # ((q mod 16) * 16 + r div 4) # ((r mod 4) * 64 + t) # u) (b64_octets s)"

definition encodeSegment :: "string \<Rightarrow> string" where
  "encodeSegment s = map b64_char (b64_sextets (map code s))"

text \<open>The decoder skips line breaks.\<close>

definition decodeSegment :: "string \<Rightarrow> string option" where
  "decodeSegment s =
     (case those (map b64_val (filter (\<lambda>c. c \<noteq> CHR 0x0A \<and> c \<noteq> CHR 0x0D) s)) of
        None \<Rightarrow> None
      | Some ns \<Rightarrow> map_option (map char_of) (b64_octets ns))"

lemma b64_val_char: "n < 64 \<Longrightarrow> b64_val (b64_char n) = Some n"
  by (auto simp: b64_val_def b64_char_def is_upper_def is_lower_def is_digit_def code_def)

lemma b64_char_plain: "n < 64 \<Longrightarrow> b64_char n \<noteq> CHR 0x0A \<and> b64_char n \<noteq> CHR 0x0D \<and> b64_char n \<noteq> CHR ''.''"
  using b64_val_char [of n] by (auto simp: b64_val_def is_upper_def is_lower_def is_digit_def code_def)

lemma b64_sextets_small: "\<forall>a\<in>set s. a < 256 \<Longrightarrow> \<forall>p\<in>set (b64_sextets s). p < 64"
proof (induction s rule: b64_sextets.induct)
  case (2 a) then show ?case by (auto simp: div_less_iff_less_mult)
next
  case (3 a b) then show ?case using mod_less_divisor [of 4 a] mod_less_divisor [of 16 b] by auto
next
  case (4 a b c s)
  then show ?case using mod_less_divisor [of 4 a] mod_less_divisor [of 16 b] mod_less_divisor [of 64 c] by auto
qed simp

lemma b64_octets_sextets: "\<forall>a\<in>set s. a < 256 \<Longrightarrow> b64_octets (b64_sextets s) = Some s"
proof (induction s rule: b64_sextets.induct)
  case (2 a) then show ?case by simp
next
  case (3 a b)
  have "((a mod 4) * 16 + b div 16) div 16 = a mod 4" "((a mod 4) * 16 + b div 16) mod 16 = b div 16" using 3 by auto
  then show ?case by simp
next
  case (4 a b c s)
  have "((a mod 4) * 16 + b div 16) div 16 = a mod 4" "((a mod 4) * 16 + b div 16) mod 16 = b div 16"
    "((b mod 16) * 4 + c div 64) div 4 = b mod 16" "((b mod 16) * 4 + c div 64) mod 4 = c div 64" using 4 by auto
  then show ?case using 4 by simp
qed simp

lemma code_byte: "code c < 256"
  by (simp add: code_def)

lemma char_of_code [simp]: "char_of (code c) = c"
  by (simp add: code_def)

lemma those_b64: "\<forall>n\<in>set ns. n < 64 \<Longrightarrow> those (map (b64_val \<circ> b64_char) ns) = Some ns"
  by (induction ns) (auto simp: b64_val_char)

lemma decode_encode [simp]: "decodeSegment (encodeSegment s) = Some s"
proof -
  let ?ns = "b64_sextets (map code s)"
  have n: "\<forall>n\<in>set ?ns. n < 64" by (rule b64_sextets_small) (auto simp: code_byte)
  have f: "filter (\<lambda>c. c \<noteq> CHR 0x0A \<and> c \<noteq> CHR 0x0D) (map b64_char ?ns) = map b64_char ?ns"
    using n b64_char_plain by (auto intro!: filter_True)
  have o: "b64_octets ?ns = Some (map code s)" by (rule b64_octets_sextets) (auto simp: code_byte)
  have "map (char_of \<circ> code) s = s" by (rule map_idI) simp
  then show ?thesis by (simp add: decodeSegment_def encodeSegment_def f those_b64 [OF n] o)
qed

lemma encode_no_dot: "CHR ''.'' \<notin> set (encodeSegment s)"
proof -
  have n: "\<forall>n\<in>set (b64_sextets (map code s)). n < 64" by (rule b64_sextets_small) (auto simp: code_byte)
  have "b64_char p \<noteq> CHR ''.''" if "p < 64" for p using b64_char_plain [OF that] by blast
  then show ?thesis using n by (auto simp: encodeSegment_def) metis
qed

section \<open>Session tokens\<close>

record claims =
  cl_Subject :: string
  cl_Username :: string
  cl_Role :: string
  cl_IssuedAt :: int
  cl_ExpiresAt :: int

datatype token_error = ErrTokenInvalid | ErrTokenExpired

text \<open>What the package takes from \<open>crypto\<close> and \<open>encoding/json\<close>.\<close>

record auth_lib =
  al_HMAC :: "string \<Rightarrow> string \<Rightarrow> string"
  al_SHA256 :: "string \<Rightarrow> string"
  al_Marshal :: "claims \<Rightarrow> string option"
  al_Unmarshal :: "string \<Rightarrow> claims option"

record tokenizer =
  tk_secret :: string
  tk_ttl :: duration

definition MinSecretSize :: nat where "MinSecretSize = 32"

definition NewTokenizer :: "string \<Rightarrow> duration \<Rightarrow> string + tokenizer" where
  "NewTokenizer secret ttl =
     (if length secret < MinSecretSize then Inl ''auth: token secret must be at least 32 bytes''
      else Inr \<lparr>tk_secret = secret, tk_ttl = (if ttl \<le> 0 then hours 24 else ttl)\<rparr>)"

definition unix :: "time \<Rightarrow> int" where
  "unix t = (t - unix_epoch) div seconds 1"

definition token_sign :: "auth_lib \<Rightarrow> tokenizer \<Rightarrow> string \<Rightarrow> string" where
  "token_sign lib t input = al_HMAC lib (tk_secret t) input"

definition jwt_header :: string where
  "jwt_header =
     [CHR 0x7B, CHR 0x22] @ ''alg'' @ [CHR 0x22] @ '':'' @ [CHR 0x22] @ ''HS256'' @ [CHR 0x22] @ '','' @
     [CHR 0x22] @ ''typ'' @ [CHR 0x22] @ '':'' @ [CHR 0x22] @ ''JWT'' @ [CHR 0x22, CHR 0x7D]"

definition Issue :: "auth_lib \<Rightarrow> tokenizer \<Rightarrow> time \<Rightarrow> string \<Rightarrow> string \<Rightarrow> string \<Rightarrow> string option" where
  "Issue lib t now subject username role =
     (let c = \<lparr>cl_Subject = subject, cl_Username = username, cl_Role = role, cl_IssuedAt = unix now, cl_ExpiresAt = unix (now + tk_ttl t)\<rparr>
      in case al_Marshal lib c of
           None \<Rightarrow> None
         | Some payload \<Rightarrow>
             let signingInput = encodeSegment jwt_header @ ''.'' @ encodeSegment payload
             in Some (signingInput @ ''.'' @ encodeSegment (token_sign lib t signingInput)))"

definition Verify :: "auth_lib \<Rightarrow> tokenizer \<Rightarrow> time \<Rightarrow> string \<Rightarrow> token_error + claims" where
  "Verify lib t now token =
     (case split_on (CHR ''.'') token of
        [h, p, s] \<Rightarrow>
          if decodeSegment s \<noteq> Some (token_sign lib t (h @ ''.'' @ p)) then Inl ErrTokenInvalid
          else (case decodeSegment p of
                  None \<Rightarrow> Inl ErrTokenInvalid
                | Some payload \<Rightarrow>
                    (case al_Unmarshal lib payload of
                       None \<Rightarrow> Inl ErrTokenInvalid
                     | Some c \<Rightarrow> if unix now \<ge> cl_ExpiresAt c then Inl ErrTokenExpired else Inr c))
      | _ \<Rightarrow> Inl ErrTokenInvalid)"

text \<open>A token that is accepted is three segments, the last one the MAC of the first two under the server's secret.\<close>

definition signed_token :: "auth_lib \<Rightarrow> tokenizer \<Rightarrow> string \<Rightarrow> claims \<Rightarrow> bool" where
  "signed_token lib t token c \<longleftrightarrow>
     (\<exists>h p s payload. split_on (CHR ''.'') token = [h, p, s] \<and> decodeSegment p = Some payload \<and> al_Unmarshal lib payload = Some c \<and>
        decodeSegment s = Some (al_HMAC lib (tk_secret t) (h @ ''.'' @ p)))"

lemma Verify_iff: "Verify lib t now token = Inr c \<longleftrightarrow> signed_token lib t token c \<and> unix now < cl_ExpiresAt c"
  by (auto simp: Verify_def signed_token_def token_sign_def split: list.splits option.splits if_splits)

lemma split_three:
  "c \<notin> set a \<Longrightarrow> c \<notin> set b \<Longrightarrow> c \<notin> set d \<Longrightarrow> split_on c (a @ c # b @ c # d) = [a, b, d]"
  by (induction a) (auto simp: split_on_once)

text \<open>Any number of line breaks, and any spare bits, in the signature: a token has many accepted spellings.\<close>

lemma signature_spelling: "decodeSegment (s @ [CHR 0x0A]) = decodeSegment s"
  by (simp add: decodeSegment_def)


text \<open>A library with a readable text for the claims, for the concrete runs: fields that contain no line break.\<close>

definition claims_text :: "claims \<Rightarrow> string option" where
  "claims_text c =
     (let fs = [cl_Subject c, cl_Username c, cl_Role c]
      in if (\<forall>f\<in>set fs. CHR 0x0A \<notin> set f) \<and> in_int64 (cl_IssuedAt c) \<and> in_int64 (cl_ExpiresAt c)
         then Some (cl_Subject c @ [CHR 0x0A] @ cl_Username c @ [CHR 0x0A] @ cl_Role c @ [CHR 0x0A] @ show_int (cl_IssuedAt c) @ [CHR 0x0A] @
           show_int (cl_ExpiresAt c)) else None)"

definition claims_read :: "string \<Rightarrow> claims option" where
  "claims_read s =
     (case split_on (CHR 0x0A) s of
        [a, b, c, d, e] \<Rightarrow>
          (case (atoi d, atoi e) of
             (Some i, Some x) \<Rightarrow> Some \<lparr>cl_Subject = a, cl_Username = b, cl_Role = c, cl_IssuedAt = i, cl_ExpiresAt = x\<rparr>
           | _ \<Rightarrow> None)
      | _ \<Rightarrow> None)"

definition ex_lib :: auth_lib where
  "ex_lib = \<lparr>al_HMAC = (\<lambda>k m. k @ m), al_SHA256 = (\<lambda>m. m), al_Marshal = claims_text, al_Unmarshal = claims_read\<rparr>"

definition ex_tokenizer :: tokenizer where
  "ex_tokenizer = \<lparr>tk_secret = replicate 32 (CHR ''k''), tk_ttl = hours 24\<rparr>"

lemma show_nat_no_break: "CHR 0x0A \<notin> set (show_nat n)"
  using show_nat_digits [of n] by (auto simp: list_all_iff is_digit_def code_def)

lemma show_int_no_break: "CHR 0x0A \<notin> set (show_int i)"
  by (auto simp: show_int_def show_nat_no_break)

lemma split_field: "c \<notin> set a \<Longrightarrow> split_on c (a @ c # b) = a # split_on c b"
  by (induction a) auto

lemma claims_text_read: "claims_text c = Some s \<Longrightarrow> claims_read s = Some c"
  by (auto simp: claims_text_def claims_read_def Let_def split_field split_on_absent show_int_no_break atoi_show_int split: if_splits)


end
