(* ===== verification/Logins.thy ===== *)
theory Logins
  imports Sessions
begin

text \<open>
  \<open>internal/auth/telegram.go\<close>: the sign-in data of the Telegram Mini App, a signed query string, and of the Login
  Widget, signed flat fields. \<open>encoding/json\<close> is a function from the text of the user object to what it reads there.
\<close>

section \<open>Query strings\<close>

definition hex_value :: "char \<Rightarrow> nat option" where
  "hex_value c =
     (if is_digit c then Some (digit_val c) else if CHR ''a'' \<le> c \<and> c \<le> CHR ''f'' then Some (code c - 87)
      else if CHR ''A'' \<le> c \<and> c \<le> CHR ''F'' then Some (code c - 55) else None)"

fun query_unescape :: "string \<Rightarrow> string option" where
  "query_unescape [] = Some []"
| "query_unescape (c # s) =
     (if c = CHR ''%'' then
        (case s of
           a # b # s \<Rightarrow>
             (case (hex_value a, hex_value b) of
                (Some x, Some y) \<Rightarrow> map_option (\<lambda>r. char_of (16 * x + y) # r) (query_unescape s)
              | _ \<Rightarrow> None)
         | _ \<Rightarrow> None)
      else map_option (\<lambda>r. (if c = CHR ''+'' then CHR '' '' else c) # r) (query_unescape s))"

text \<open>\<open>url.ParseQuery\<close>: the pairs in their order, \<open>None\<close> when a piece is malformed.\<close>

definition query_pair :: "string \<Rightarrow> (string \<times> string) option" where
  "query_pair piece =
     (if CHR '';'' \<in> set piece then None
      else case cut_at (CHR ''='') piece of (k, v, _) \<Rightarrow>
        (case (query_unescape k, query_unescape v) of (Some k, Some v) \<Rightarrow> Some (k, v) | _ \<Rightarrow> None))"

definition ParseQuery :: "string \<Rightarrow> (string \<times> string) list option" where
  "ParseQuery q = those (map query_pair (filter (\<lambda>p. p \<noteq> []) (split_on (CHR ''&'') q)))"

text \<open>\<open>Get\<close> answers the first value of a key, and the empty string where there is none.\<close>

definition value_of :: "(string \<times> string) list \<Rightarrow> string \<Rightarrow> string" where
  "value_of kvs k = (case map_of kvs k of None \<Rightarrow> [] | Some v \<Rightarrow> v)"

section \<open>The check string\<close>

record telegram_user =
  tu_ID :: int
  tu_Username :: string
  tu_FirstName :: string

datatype telegram_error = NoBotToken | ErrTelegramAuth | StaleAuthDate

text \<open>Every field but the hash, sorted by key, one per line.\<close>

definition check_keys :: "(string \<times> string) list \<Rightarrow> string list" where
  "check_keys kvs = sort (remdups (filter (\<lambda>k. k \<noteq> ''hash'') (map fst kvs)))"

definition dataCheck :: "(string \<times> string) list \<Rightarrow> string" where
  "dataCheck kvs = join_with [CHR 0x0A] (map (\<lambda>k. k @ ''='' @ value_of kvs k) (check_keys kvs))"

text \<open>The number \<open>strconv.ParseInt\<close> gives beside its error: 0 for a text that is no number, the nearest number for one out of range.\<close>

definition parse_int_value :: "string \<Rightarrow> int" where
  "parse_int_value s =
     (case atoi s of
        Some v \<Rightarrow> v
      | None \<Rightarrow>
          let (neg, ds) = (case s of [] \<Rightarrow> (False, []) | c # cs \<Rightarrow> if c = CHR ''-'' then (True, cs) else if c = CHR ''+'' then (False, cs) else (False, s))
          in if ds = [] \<or> \<not> all_digits ds then 0 else if neg then - (2 ^ 63) else 2 ^ 63 - 1)"

text \<open>The age of \<open>time.Unix(authDate, 0)\<close>, whose internal seconds wrap around.\<close>

definition age_of :: "int \<Rightarrow> time \<Rightarrow> duration" where
  "age_of authDate now = now - seconds ((authDate + 62135596800 + 2 ^ 63) mod 2 ^ 64 - 2 ^ 63)"

definition stale :: "string \<Rightarrow> duration \<Rightarrow> time \<Rightarrow> bool" where
  "stale auth_date maxAge now \<longleftrightarrow>
     maxAge > 0 \<and> (parse_int_value auth_date = 0 \<or> age_of (parse_int_value auth_date) now > maxAge)"

section \<open>The two logins\<close>

definition VerifyTelegramInitData ::
    "auth_lib \<Rightarrow> (string \<Rightarrow> telegram_user option) \<Rightarrow> string \<Rightarrow> string \<Rightarrow> duration \<Rightarrow> time \<Rightarrow> telegram_error + telegram_user" where
  "VerifyTelegramInitData lib read_user initData botToken maxAge now =
     (if trim_space botToken = [] then Inl NoBotToken
      else case ParseQuery initData of
        None \<Rightarrow> Inl ErrTelegramAuth
      | Some kvs \<Rightarrow>
          let hash = value_of kvs ''hash''
          in if hash = [] then Inl ErrTelegramAuth
             else let secret = al_HMAC lib ''WebAppData'' botToken
             in if hex_encode (al_HMAC lib secret (dataCheck kvs)) \<noteq> hash then Inl ErrTelegramAuth
             else if stale (value_of kvs ''auth_date'') maxAge now then Inl StaleAuthDate
             else (case read_user (value_of kvs ''user'') of
                     None \<Rightarrow> Inl ErrTelegramAuth
                   | Some u \<Rightarrow> if tu_ID u = 0 then Inl ErrTelegramAuth else Inr u))"

text \<open>The widget's fields are a Go map: at most one value per key.\<close>

definition VerifyTelegramLoginWidget ::
    "auth_lib \<Rightarrow> (string \<times> string) list \<Rightarrow> string \<Rightarrow> duration \<Rightarrow> time \<Rightarrow> telegram_error + telegram_user" where
  "VerifyTelegramLoginWidget lib fs botToken maxAge now =
     (if trim_space botToken = [] then Inl NoBotToken
      else let hash = value_of fs ''hash''
      in if hash = [] then Inl ErrTelegramAuth
         else let secret = al_SHA256 lib botToken
         in if hex_encode (al_HMAC lib secret (dataCheck fs)) \<noteq> hash then Inl ErrTelegramAuth
         else if stale (value_of fs ''auth_date'') maxAge now then Inl StaleAuthDate
         else (case atoi (value_of fs ''id'') of
                 None \<Rightarrow> Inl ErrTelegramAuth
               | Some k \<Rightarrow>
                   if k = 0 then Inl ErrTelegramAuth
                   else Inr \<lparr>tu_ID = k, tu_Username = value_of fs ''username'', tu_FirstName = value_of fs ''first_name''\<rparr>))"

text \<open>Who gets in, in one line each: the fields are signed with a key that is made of the bot's token, and they are fresh.\<close>

lemma init_data_login:
  "VerifyTelegramInitData lib read_user initData botToken maxAge now = Inr u \<longleftrightarrow>
   (\<exists>kvs. ParseQuery initData = Some kvs \<and> trim_space botToken \<noteq> [] \<and> value_of kvs ''hash'' \<noteq> [] \<and>
      value_of kvs ''hash'' = hex_encode (al_HMAC lib (al_HMAC lib ''WebAppData'' botToken) (dataCheck kvs)) \<and>
      \<not> stale (value_of kvs ''auth_date'') maxAge now \<and> read_user (value_of kvs ''user'') = Some u \<and> tu_ID u \<noteq> 0)"
  by (auto simp: VerifyTelegramInitData_def Let_def split: option.splits)

lemma widget_login:
  "VerifyTelegramLoginWidget lib fs botToken maxAge now = Inr u \<longleftrightarrow>
   trim_space botToken \<noteq> [] \<and> value_of fs ''hash'' \<noteq> [] \<and>
   value_of fs ''hash'' = hex_encode (al_HMAC lib (al_SHA256 lib botToken) (dataCheck fs)) \<and>
   \<not> stale (value_of fs ''auth_date'') maxAge now \<and> atoi (value_of fs ''id'') = Some (tu_ID u) \<and> tu_ID u \<noteq> 0 \<and>
   tu_Username u = value_of fs ''username'' \<and> tu_FirstName u = value_of fs ''first_name''"
  by (cases u) (auto simp: VerifyTelegramLoginWidget_def Let_def split: option.splits)

text \<open>
  The check string does not say where a field ends. A first name with line breaks in it can spell an \<open>id\<close> line, and
  the fields split at that line have the same check string, so the same hash is good for another user's id. The
  scheme is safe only because Telegram lets nobody have such a name.
\<close>

definition own_fields :: "string \<Rightarrow> (string \<times> string) list" where
  "own_fields hash =
     [(''auth_date'', ''1700000000''), (''first_name'', ''x'' @ [CHR 0x0A] @ ''id=999'' @ [CHR 0x0A] @ ''last_name=y''), (''id'', ''1''), (''hash'', hash)]"

definition other_fields :: "string \<Rightarrow> (string \<times> string) list" where
  "other_fields hash =
     [(''auth_date'', ''1700000000''), (''first_name'', ''x''), (''id'', ''999''), (''last_name'', ''y'' @ [CHR 0x0A] @ ''id=1''), (''hash'', hash)]"

lemma check_ambiguous: "dataCheck (own_fields hash) = dataCheck (other_fields hash)"
proof -
  have own: "check_keys (own_fields hash) = [''auth_date'', ''first_name'', ''id'']"
    and other: "check_keys (other_fields hash) = [''auth_date'', ''first_name'', ''id'', ''last_name'']"
    unfolding check_keys_def own_fields_def other_fields_def list.map filter.simps fst_conv by code_simp+
  have v: "value_of (own_fields hash) ''auth_date'' = ''1700000000''" "value_of (own_fields hash) ''id'' = ''1''"
    "value_of (own_fields hash) ''first_name'' = ''x'' @ [CHR 0x0A] @ ''id=999'' @ [CHR 0x0A] @ ''last_name=y''"
    "value_of (other_fields hash) ''auth_date'' = ''1700000000''" "value_of (other_fields hash) ''id'' = ''999''"
    "value_of (other_fields hash) ''first_name'' = ''x''" "value_of (other_fields hash) ''last_name'' = ''y'' @ [CHR 0x0A] @ ''id=1''"
    by (simp_all add: value_of_def own_fields_def other_fields_def)
  show ?thesis by (simp add: dataCheck_def own other v)
qed

end
