(* ===== verification/Accounts.thy ===== *)
theory Accounts
  imports Mongo_Driver
begin

text \<open>
  \<open>internal/users\<close> (\<open>users.go\<close>, \<open>memory.go\<close>) and \<open>internal/storage/mongo/users.go\<close>: accounts with a password, the service
  and its two stores. bcrypt is third-party code: its two functions are arguments.
\<close>

section \<open>Users\<close>

definition RoleUser :: string where "RoleUser = ''user''"
definition minPasswordLength :: nat where "minPasswordLength = 8"

record user =
  us_ID :: string
  us_Username :: string
  us_PasswordHash :: string
  us_Role :: string
  us_CreatedAt :: time

datatype users_error = UsersText string | ErrUserNotFound | ErrUsernameTaken | ErrInvalidLogin

record 's user_repo =
  ur_Create :: "user \<Rightarrow> 's \<Rightarrow> users_error option \<times> 's"
  ur_FindByUsername :: "string \<Rightarrow> 's \<Rightarrow> users_error + user"

text \<open>\<open>bc_Generate\<close> takes the password and the salt it draws; \<open>bc_Compare\<close> a hash and a password.\<close>

record bcrypt =
  bc_Generate :: "string \<Rightarrow> string \<Rightarrow> string + string"
  bc_Compare :: "string \<Rightarrow> string \<Rightarrow> bool"

definition normalizeUsername :: "string \<Rightarrow> string" where
  "normalizeUsername u = to_lower (trim_space u)"

definition users_Register ::
    "'s user_repo \<Rightarrow> bcrypt \<Rightarrow> string \<Rightarrow> string \<Rightarrow> time \<Rightarrow> string \<Rightarrow> string \<Rightarrow> 's \<Rightarrow> (users_error + user) \<times> 's" where
  "users_Register repo bc salt k now username password s =
     (let username = normalizeUsername username
      in if username = [] then (Inl (UsersText ''users: username is required''), s)
         else if length password < minPasswordLength then (Inl (UsersText ''users: password must be at least 8 characters''), s)
         else (case ur_FindByUsername repo username s of
             Inr _ \<Rightarrow> (Inl ErrUsernameTaken, s)
           | Inl e \<Rightarrow>
               if e \<noteq> ErrUserNotFound then (Inl e, s)
               else (case bc_Generate bc password salt of
                   Inl m \<Rightarrow> (Inl (UsersText (''users: hash password: '' @ m)), s)
                 | Inr hash \<Rightarrow>
                     let u = \<lparr>us_ID = k, us_Username = username, us_PasswordHash = hash, us_Role = RoleUser, us_CreatedAt = now\<rparr>
                     in (case ur_Create repo u s of (Some e, s) \<Rightarrow> (Inl e, s) | (None, s) \<Rightarrow> (Inr u, s)))))"

definition Authenticate :: "'s user_repo \<Rightarrow> bcrypt \<Rightarrow> string \<Rightarrow> string \<Rightarrow> 's \<Rightarrow> users_error + user" where
  "Authenticate repo bc username password s =
     (case ur_FindByUsername repo (normalizeUsername username) s of
        Inl e \<Rightarrow> Inl (if e = ErrUserNotFound then ErrInvalidLogin else e)
      | Inr u \<Rightarrow> if bc_Compare bc (us_PasswordHash u) password then Inr u else Inl ErrInvalidLogin)"

subsection \<open>The two repositories\<close>

type_synonym mem_users = "string \<Rightarrow> user option"

definition mus_Create :: "user \<Rightarrow> mem_users \<Rightarrow> users_error option \<times> mem_users" where
  "mus_Create u s = (case s (us_Username u) of Some _ \<Rightarrow> (Some ErrUsernameTaken, s) | None \<Rightarrow> (None, s(us_Username u \<mapsto> u)))"

definition mus_FindByUsername :: "string \<Rightarrow> mem_users \<Rightarrow> users_error + user" where
  "mus_FindByUsername n s = (case s n of None \<Rightarrow> Inl ErrUserNotFound | Some u \<Rightarrow> Inr u)"

definition memory_users :: "mem_users user_repo" where
  "memory_users = \<lparr>ur_Create = mus_Create, ur_FindByUsername = mus_FindByUsername\<rparr>"

text \<open>\<open>FindOne\<close> with a filter on other fields than the id: some document it accepts.\<close>

definition find_one :: "('c, 'd) driver \<Rightarrow> ('d \<Rightarrow> bool) \<Rightarrow> 'c \<Rightarrow> string + 'd option" where
  "find_one drv flt c =
     (case dr_FindSorted drv flt (\<lambda>_. 0) 1 c of Inl e \<Rightarrow> Inl e | Inr ds \<Rightarrow> Inr (case ds of [] \<Rightarrow> None | d # _ \<Rightarrow> Some d))"

context mongo_driver
begin

lemma find_one_ok: "find_one drv flt c = Inr (Some d) \<Longrightarrow> flt d \<and> (\<exists>k. docs c k = Some d)"
  using find_sorted [of flt "\<lambda>_. 0" 1 c] by (fastforce simp: find_one_def matches_def split: sum.splits list.splits)

lemma find_one_none: "find_one drv flt c = Inr None \<Longrightarrow> docs c k = Some d \<Longrightarrow> \<not> flt d"
  using find_sorted [of flt "\<lambda>_. 0" 1 c] by (auto simp: find_one_def matches_def split: sum.splits list.splits)

end

text \<open>\<open>is_dup\<close> is \<open>IsDuplicateKeyError\<close>: the id or, by the unique index, the name is there already.\<close>

definition gus_Create :: "(string \<Rightarrow> bool) \<Rightarrow> ('c, user) driver \<Rightarrow> user \<Rightarrow> 'c \<Rightarrow> users_error option \<times> 'c" where
  "gus_Create is_dup drv u c =
     (case dr_InsertOne drv u c of
        (Some e, c) \<Rightarrow> (Some (if is_dup e then ErrUsernameTaken else UsersText (''insert user: '' @ e)), c)
      | (None, c) \<Rightarrow> (None, c))"

definition gus_FindByUsername :: "('c, user) driver \<Rightarrow> string \<Rightarrow> 'c \<Rightarrow> users_error + user" where
  "gus_FindByUsername drv n c =
     (case find_one drv (\<lambda>u. us_Username u = n) c of
        Inl e \<Rightarrow> Inl (UsersText (''find user: '' @ e)) | Inr None \<Rightarrow> Inl ErrUserNotFound | Inr (Some u) \<Rightarrow> Inr u)"

definition mongo_users :: "(string \<Rightarrow> bool) \<Rightarrow> ('c, user) driver \<Rightarrow> 'c user_repo" where
  "mongo_users is_dup drv = \<lparr>ur_Create = gus_Create is_dup drv, ur_FindByUsername = gus_FindByUsername drv\<rparr>"

subsection \<open>The contract of a repository\<close>

definition distinct_names :: "user set \<Rightarrow> bool" where
  "distinct_names us \<longleftrightarrow> (\<forall>u\<in>us. \<forall>v\<in>us. us_Username u = us_Username v \<longrightarrow> u = v)"

text \<open>
  \<open>holds\<close> are the stored accounts. A create that reports an error may still have stored the account, but never
  beside another one with its name.
\<close>

locale user_repository =
  fixes repo :: "'s user_repo" and holds :: "'s \<Rightarrow> user set" and ok :: "'s \<Rightarrow> bool"
  assumes find_found: "ok s \<Longrightarrow> ur_FindByUsername repo n s = Inr u \<Longrightarrow> u \<in> holds s \<and> us_Username u = n"
    and find_missing: "ok s \<Longrightarrow> ur_FindByUsername repo n s = Inl ErrUserNotFound \<Longrightarrow> u \<in> holds s \<Longrightarrow> us_Username u \<noteq> n"
    and create_ok: "ok s \<Longrightarrow> ur_Create repo u s = (None, s') \<Longrightarrow> holds s' = insert u (holds s) \<and> (\<forall>v\<in>holds s. us_Username v \<noteq> us_Username u)"
    and create_err: "ok s \<Longrightarrow> ur_Create repo u s = (Some e, s') \<Longrightarrow>
      holds s' = holds s \<or> holds s' = insert u (holds s) \<and> (\<forall>v\<in>holds s. us_Username v \<noteq> us_Username u)"
    and create_stays_ok: "ok s \<Longrightarrow> ur_Create repo u s = (r, s') \<Longrightarrow> ok s'"
    and find_error: "ur_FindByUsername repo n s \<noteq> Inl ErrInvalidLogin"
begin

lemma create_cases:
  assumes "ok s" and "ur_Create repo u s = (r, s')"
  shows "holds s' = holds s \<or> holds s' = insert u (holds s) \<and> (\<forall>v\<in>holds s. us_Username v \<noteq> us_Username u)"
  using assms create_ok [OF assms(1), of u s'] create_err [OF assms(1), of u _ s'] by (cases r) blast+

text \<open>Registration only adds, under a name nobody has.\<close>

lemma register_adds:
  assumes "ok s" and "users_Register repo bc salt k now username password s = (r, s')"
  shows "holds s' = holds s \<or>
    (\<exists>u. holds s' = insert u (holds s) \<and> us_Username u = normalizeUsername username \<and> us_Role u = RoleUser \<and> us_ID u = k \<and>
       bc_Generate bc password salt = Inr (us_PasswordHash u) \<and> minPasswordLength \<le> length password \<and>
       (\<forall>v\<in>holds s. us_Username v \<noteq> us_Username u))"
  using assms
  by (auto simp: users_Register_def Let_def split: if_splits sum.splits prod.splits option.splits dest!: create_cases)

lemma register_ok:
  assumes "ok s" and "users_Register repo bc salt k now username password s = (Inr u, s')"
  shows "holds s' = insert u (holds s) \<and> us_Username u = normalizeUsername username \<and> us_Username u \<noteq> [] \<and> us_Role u = RoleUser \<and> us_ID u = k \<and>
    bc_Generate bc password salt = Inr (us_PasswordHash u) \<and> minPasswordLength \<le> length password \<and>
    (\<forall>v\<in>holds s. us_Username v \<noteq> us_Username u)"
  using assms
  by (auto simp: users_Register_def Let_def split: if_splits sum.splits prod.splits option.splits dest: create_ok)

lemma register_stays_ok:
  assumes "ok s" and "users_Register repo bc salt k now username password s = (r, s')"
  shows "ok s'"
  using assms by (auto simp: users_Register_def Let_def split: if_splits sum.splits prod.splits option.splits dest: create_stays_ok)

lemma register_distinct:
  assumes "ok s" and "users_Register repo bc salt k now username password s = (r, s')" and "distinct_names (holds s)"
  shows "distinct_names (holds s')"
  using register_adds [OF assms(1,2)]
proof (elim disjE exE conjE)
  fix u assume "holds s' = insert u (holds s)" "\<forall>v\<in>holds s. us_Username v \<noteq> us_Username u"
  then show ?thesis using assms(3) by (fastforce simp: distinct_names_def)
qed (use assms(3) in \<open>simp add: distinct_names_def\<close>)

text \<open>In a store with distinct names, signing in finds the account by its name, whatever case and space surround it.\<close>

lemma authenticate_found:
  assumes "ok s" and "distinct_names (holds s)" and "u \<in> holds s" and "us_Username u = normalizeUsername username"
  shows "Authenticate repo bc username password s =
    (case ur_FindByUsername repo (normalizeUsername username) s of
       Inl e \<Rightarrow> Inl e | Inr _ \<Rightarrow> if bc_Compare bc (us_PasswordHash u) password then Inr u else Inl ErrInvalidLogin)"
proof (cases "ur_FindByUsername repo (normalizeUsername username) s")
  case (Inl e)
  then have "e \<noteq> ErrUserNotFound" using find_missing [OF assms(1)] assms(3,4) by auto
  then show ?thesis using Inl by (simp add: Authenticate_def)
next
  case (Inr v)
  then have "v = u" using find_found [OF assms(1) Inr] assms by (auto simp: distinct_names_def)
  then show ?thesis using Inr by (simp add: Authenticate_def)
qed

lemma authenticate_ok:
  "ok s \<Longrightarrow> Authenticate repo bc username password s = Inr u \<Longrightarrow>
   u \<in> holds s \<and> us_Username u = normalizeUsername username \<and> bc_Compare bc (us_PasswordHash u) password"
  by (auto simp: Authenticate_def split: sum.splits if_splits dest: find_found)

end

text \<open>The map of the memory store is keyed by the name.\<close>

definition mus_keyed :: "mem_users \<Rightarrow> bool" where
  "mus_keyed s \<longleftrightarrow> (\<forall>n u. s n = Some u \<longrightarrow> us_Username u = n)"

lemma keyedD: "mus_keyed s \<Longrightarrow> s n = Some u \<Longrightarrow> us_Username u = n"
  by (simp add: mus_keyed_def)

lemma keyed_upd: "mus_keyed s \<Longrightarrow> mus_keyed (s(us_Username u \<mapsto> u))"
  by (simp add: mus_keyed_def)

interpretation mem_user: user_repository memory_users ran mus_keyed
proof (unfold_locales, goal_cases)
  case (1 s n u) then show ?case by (auto simp: memory_users_def mus_FindByUsername_def ranI dest: keyedD split: option.splits)
next
  case (2 s n u)
  then have "s n = None" by (auto simp: memory_users_def mus_FindByUsername_def split: option.splits)
  with 2 show ?case using keyedD [OF 2(1)] by (auto simp: ran_def)
next
  case (3 s u s')
  then have n: "s (us_Username u) = None" "s' = s(us_Username u \<mapsto> u)"
    by (auto simp: memory_users_def mus_Create_def split: option.splits)
  then show ?case using keyedD [OF 3(1)] by (auto simp: ran_map_upd) (auto simp: ran_def)
next
  case (4 s u e s') then show ?case by (auto simp: memory_users_def mus_Create_def split: option.splits)
next
  case (5 s u r s') then show ?case by (auto simp: memory_users_def mus_Create_def keyed_upd split: option.splits)
next
  case (6 n s) then show ?case by (auto simp: memory_users_def mus_FindByUsername_def split: option.splits)
qed

text \<open>
  A collection with a unique index on the name: an insert, also one whose answer is lost, stores nothing beside an
  account of the same name.
\<close>

locale user_collection = mongo_driver drv us_ID "\<lambda>u v. us_Username u = us_Username v" docs
  for drv :: "('c, user) driver" and docs +
  assumes unique_index: "dr_InsertOne drv u c = (r, c') \<Longrightarrow> docs c' \<noteq> docs c \<Longrightarrow> docs c k = Some v \<Longrightarrow> us_Username v \<noteq> us_Username u"

sublocale user_collection \<subseteq> mongo_user: user_repository "mongo_users is_dup drv" "\<lambda>c. ran (docs c)" "\<lambda>_. True"
proof
  fix n s u
  show "ur_FindByUsername (mongo_users is_dup drv) n s = Inr u \<Longrightarrow> u \<in> ran (docs s) \<and> us_Username u = n"
    using find_one_ok [of "\<lambda>u. us_Username u = n" s u]
    by (auto simp: mongo_users_def gus_FindByUsername_def split: sum.splits option.splits intro: ranI)
  show "ur_FindByUsername (mongo_users is_dup drv) n s = Inl ErrUserNotFound \<Longrightarrow> u \<in> ran (docs s) \<Longrightarrow> us_Username u \<noteq> n"
    using find_one_none [of "\<lambda>u. us_Username u = n" s]
    by (auto simp: mongo_users_def gus_FindByUsername_def ran_def split: sum.splits option.splits)
next
  fix u s s'
  assume a: "ur_Create (mongo_users is_dup drv) u s = (None, s')"
  then have i: "dr_InsertOne drv u s = (None, s')" by (auto simp: mongo_users_def gus_Create_def split: prod.splits option.splits)
  show "ran (docs s') = insert u (ran (docs s)) \<and> (\<forall>v\<in>ran (docs s). us_Username v \<noteq> us_Username u)"
    using insert_ok [OF i] by (auto simp: ran_map_upd) (auto simp: ran_def dest: sym)
next
  fix u s e s'
  assume a: "ur_Create (mongo_users is_dup drv) u s = (Some e, s')"
  then obtain m where i: "dr_InsertOne drv u s = (Some m, s')" by (auto simp: mongo_users_def gus_Create_def split: prod.splits option.splits)
  show "ran (docs s') = ran (docs s) \<or>
    ran (docs s') = insert u (ran (docs s)) \<and> (\<forall>v\<in>ran (docs s). us_Username v \<noteq> us_Username u)"
  proof (cases "docs s' = docs s")
    case False
    then have d: "docs s (us_ID u) = None" "docs s' = (docs s)(us_ID u \<mapsto> u)" using insert_err [OF i] by auto
    have "us_Username v \<noteq> us_Username u" if "v \<in> ran (docs s)" for v
      using that unique_index [OF i False] by (auto simp: ran_def)
    then show ?thesis using d by (simp add: ran_map_upd)
  qed simp
qed (auto simp: mongo_users_def gus_FindByUsername_def split: sum.splits option.splits)

interpretation map_users: user_collection "map_driver us_ID (\<lambda>u v. us_Username u = us_Username v)" map_of
proof (unfold_locales, goal_cases)
  case (1 u c r c' k v)
  then show ?case using map_of_SomeD [OF 1(3)] by (auto simp: map_driver_def list_ex_iff split: if_splits)
qed

section \<open>Registering and signing in\<close>

text \<open>C39. An account belongs to its name. On every store that keeps the repository's contract, a registration changes no
  account and leaves the names distinct; when it succeeds the new account is an ordinary user under a trimmed, lower-case
  name nobody had, its password signs in to it under any spelling of that name, and no password signs in to
  another account there. Whatever fails, a registration that reports an error may have added that account, never more.\<close>

theorem register_then_login:
  assumes "user_repository repo holds ok" and "ok s" and "distinct_names (holds s)"
    and "users_Register repo bc salt k now username password s = (r, s')"
    and "\<And>p slt h. bc_Generate bc p slt = Inr h \<Longrightarrow> bc_Compare bc h p"
  shows "ok s' \<and> distinct_names (holds s') \<and> (\<exists>u. holds s' = holds s \<or> holds s' = insert u (holds s)) \<and>
    (case r of
       Inl _ \<Rightarrow> True
     | Inr u \<Rightarrow> u \<in> holds s' \<and> us_Role u = RoleUser \<and> us_Username u = normalizeUsername username \<and>
         (\<forall>v\<in>holds s. us_Username v \<noteq> us_Username u) \<and>
         (\<forall>spelling. normalizeUsername spelling = us_Username u \<longrightarrow>
            Authenticate repo bc spelling password s' \<noteq> Inl ErrInvalidLogin \<and>
            (\<forall>p v. Authenticate repo bc spelling p s' = Inr v \<longrightarrow> v = u \<and> bc_Compare bc (us_PasswordHash u) p)))"
proof -
  note L = assms(1)
  have ok: "ok s'" by (rule user_repository.register_stays_ok [OF L assms(2,4)])
  have dn: "distinct_names (holds s')" by (rule user_repository.register_distinct [OF L assms(2,4,3)])
  have new: "\<exists>u. holds s' = holds s \<or> holds s' = insert u (holds s)"
    using user_repository.register_adds [OF L assms(2,4)] by blast
  have "u \<in> holds s' \<and> us_Role u = RoleUser \<and> us_Username u = normalizeUsername username \<and>
      (\<forall>v\<in>holds s. us_Username v \<noteq> us_Username u) \<and>
      (\<forall>spelling. normalizeUsername spelling = us_Username u \<longrightarrow>
         Authenticate repo bc spelling password s' \<noteq> Inl ErrInvalidLogin \<and>
         (\<forall>p v. Authenticate repo bc spelling p s' = Inr v \<longrightarrow> v = u \<and> bc_Compare bc (us_PasswordHash u) p))" if r: "r = Inr u" for u
  proof -
    note new = user_repository.register_ok [OF L assms(2), OF assms(4) [unfolded r]]
    have m: "u \<in> holds s'" using new by auto
    have "Authenticate repo bc spelling p s' =
        (case ur_FindByUsername repo (normalizeUsername spelling) s' of
           Inl e \<Rightarrow> Inl e | Inr _ \<Rightarrow> if bc_Compare bc (us_PasswordHash u) p then Inr u else Inl ErrInvalidLogin)"
      and "ur_FindByUsername repo (normalizeUsername spelling) s' \<noteq> Inl ErrUserNotFound"
      if "normalizeUsername spelling = us_Username u" for spelling p
      using user_repository.authenticate_found [OF L ok dn m that [symmetric]] user_repository.find_missing [OF L ok _ m] that by auto
    then show ?thesis using new m assms(5) user_repository.find_error [OF L] by (auto split: sum.splits if_splits)
  qed
  then show ?thesis using ok dn new by (auto split: sum.splits)
qed

definition plain_bcrypt :: bcrypt where
  "plain_bcrypt = \<lparr>bc_Generate = (\<lambda>p salt. if length p > 72 then Inl ''too long'' else Inr p), bc_Compare = (=)\<rparr>"

theorem register_then_login_witness:
  "\<exists>u s'. users_Register memory_users plain_bcrypt [] ''u1'' 5 '' Ann '' ''password'' Map.empty = (Inr u, s') \<and>
     us_Username u = ''ann'' \<and> Authenticate memory_users plain_bcrypt ''ANN'' ''password'' s' \<noteq> Inl ErrInvalidLogin"
proof -
  have c: "case users_Register memory_users plain_bcrypt [] ''u1'' 5 '' Ann '' ''password'' Map.empty of
      (Inr u, s') \<Rightarrow> us_Username u = ''ann'' | _ \<Rightarrow> False" by code_simp
  then obtain u s' where r: "users_Register memory_users plain_bcrypt [] ''u1'' 5 '' Ann '' ''password'' Map.empty = (Inr u, s')"
    and n: "us_Username u = ''ann''" by (auto split: prod.splits sum.splits)
  have sp: "normalizeUsername ''ANN'' = ''ann''" by code_simp
  have ok: "mus_keyed Map.empty" "distinct_names (ran (Map.empty :: mem_users))" by (simp_all add: mus_keyed_def distinct_names_def)
  have bc: "bc_Generate plain_bcrypt p slt = Inr h \<Longrightarrow> bc_Compare plain_bcrypt h p" for p slt h
    by (auto simp: plain_bcrypt_def split: if_splits)
  from register_then_login [OF mem_user.user_repository_axioms ok r bc] n sp r show ?thesis by auto
qed

end
