(* ===== verification/Interest.thy ===== *)
theory Interest
  imports Accounts
begin

text \<open>
  \<open>internal/interest\<close> (\<open>interest.go\<close>, \<open>memory.go\<close>) and \<open>internal/storage/mongo/interest.go\<close>: the addresses of people who
  want an account, and their invitations. \<open>parse_address\<close> is \<open>mail.ParseAddress\<close>: the address it finds. In MongoDB the
  address is unique by an index, so it stands for the document's key.
\<close>

record interest =
  it_Email :: string
  it_Reason :: string
  it_Source :: string
  it_Status :: string
  it_InviteHash :: string
  it_InviteExpiresAt :: time
  it_InvitedAt :: time
  it_CreatedAt :: time

datatype interest_error = InterestText string | ErrAlreadyRegistered

record 's interest_repo =
  ir_Create :: "interest \<Rightarrow> 's \<Rightarrow> interest_error option \<times> 's"
  ir_All :: "'s \<Rightarrow> string + interest list"
  ir_SetInvite :: "string \<Rightarrow> string \<Rightarrow> time \<Rightarrow> time \<Rightarrow> 's \<Rightarrow> string option \<times> 's"
  ir_FindByInviteHash :: "string \<Rightarrow> 's \<Rightarrow> string + interest"
  ir_MarkRegistered :: "string \<Rightarrow> 's \<Rightarrow> string option \<times> 's"
  ir_MarkWaitlisted :: "string \<Rightarrow> time \<Rightarrow> 's \<Rightarrow> string option \<times> 's"

section \<open>The service\<close>

definition interest_Register ::
    "'s interest_repo \<Rightarrow> (string \<Rightarrow> string option) \<Rightarrow> time \<Rightarrow> string \<Rightarrow> string \<Rightarrow> string \<Rightarrow> 's \<Rightarrow> (interest_error + interest) \<times> 's" where
  "interest_Register repo parse_address now email reason source s =
     (let email = to_lower (trim_space email); source = trim_space source;
          source = (if source = [] then ''login'' else source); reason = trim_space reason
      in if parse_address email \<noteq> Some email \<or> length email > 254 then (Inl (InterestText ''interest: valid email is required''), s)
         else if length source > 50 then (Inl (InterestText ''interest: invalid source''), s)
         else if length reason > 1000 then (Inl (InterestText ''interest: reason is too long''), s)
         else let r = \<lparr>it_Email = email, it_Reason = reason, it_Source = source, it_Status = ''new'', it_InviteHash = [],
                       it_InviteExpiresAt = 0, it_InvitedAt = 0, it_CreatedAt = now\<rparr>
              in (case ir_Create repo r s of
                    (Some (InterestText e), s) \<Rightarrow> (Inl (InterestText (''save interest: '' @ e)), s)
                  | (Some ErrAlreadyRegistered, s) \<Rightarrow> (Inl ErrAlreadyRegistered, s)
                  | (None, s) \<Rightarrow> (Inr r, s)))"

definition FindInvite :: "'s interest_repo \<Rightarrow> time \<Rightarrow> string \<Rightarrow> 's \<Rightarrow> string + interest" where
  "FindInvite repo now hash s =
     (case ir_FindByInviteHash repo hash s of
        Inl e \<Rightarrow> Inl e
      | Inr r \<Rightarrow> if it_InviteExpiresAt r < now then Inl ''interest: invite expired'' else Inr r)"

section \<open>In memory\<close>

type_synonym mem_interest = "string \<Rightarrow> interest option"

definition no_interest :: interest where
  "no_interest = \<lparr>it_Email = [], it_Reason = [], it_Source = [], it_Status = [], it_InviteHash = [], it_InviteExpiresAt = 0,
     it_InvitedAt = 0, it_CreatedAt = 0\<rparr>"

definition invited :: "string \<Rightarrow> time \<Rightarrow> time \<Rightarrow> interest \<Rightarrow> interest" where
  "invited hash expires tm r = r\<lparr>it_InviteHash := hash, it_InviteExpiresAt := expires, it_InvitedAt := tm, it_Status := ''invited''\<rparr>"

definition registered :: "interest \<Rightarrow> interest" where
  "registered r = r\<lparr>it_Status := ''registered'', it_InviteHash := []\<rparr>"

definition redeemable :: "string \<Rightarrow> interest \<Rightarrow> bool" where
  "redeemable hash r \<longleftrightarrow> it_InviteHash r = hash \<and> it_Status r = ''invited''"

definition mis_Create :: "interest \<Rightarrow> mem_interest \<Rightarrow> interest_error option \<times> mem_interest" where
  "mis_Create r s = (case s (it_Email r) of Some _ \<Rightarrow> (Some ErrAlreadyRegistered, s) | None \<Rightarrow> (None, s(it_Email r \<mapsto> r)))"

text \<open>\<open>order\<close> is the order in which the map is visited.\<close>

definition mis_rows :: "string list \<Rightarrow> mem_interest \<Rightarrow> interest list" where
  "mis_rows order s = concat (map (\<lambda>k. case s k of None \<Rightarrow> [] | Some r \<Rightarrow> [r]) order)"

definition mis_All :: "string list \<Rightarrow> mem_interest \<Rightarrow> string + interest list" where
  "mis_All order s = Inr (sort_key (\<lambda>r. - it_CreatedAt r) (mis_rows order s))"

definition mis_SetInvite :: "string \<Rightarrow> string \<Rightarrow> time \<Rightarrow> time \<Rightarrow> mem_interest \<Rightarrow> string option \<times> mem_interest" where
  "mis_SetInvite email hash expires tm s =
     (case s email of None \<Rightarrow> (Some ''interest: not found'', s) | Some r \<Rightarrow> (None, s(email \<mapsto> invited hash expires tm r)))"

definition mis_FindByInviteHash :: "string list \<Rightarrow> string \<Rightarrow> mem_interest \<Rightarrow> string + interest" where
  "mis_FindByInviteHash order hash s =
     (case find_first (redeemable hash) (mis_rows order s) of None \<Rightarrow> Inl ''interest: invite not found'' | Some r \<Rightarrow> Inr r)"

definition mis_MarkRegistered :: "string \<Rightarrow> mem_interest \<Rightarrow> string option \<times> mem_interest" where
  "mis_MarkRegistered email s = (None, s(email \<mapsto> registered (case s email of None \<Rightarrow> no_interest | Some r \<Rightarrow> r)))"

definition mis_MarkWaitlisted :: "string \<Rightarrow> time \<Rightarrow> mem_interest \<Rightarrow> string option \<times> mem_interest" where
  "mis_MarkWaitlisted email tm s =
     (case s email of
        None \<Rightarrow> (Some ''interest: not found'', s)
      | Some r \<Rightarrow> (None, s(email \<mapsto> r\<lparr>it_Status := ''waitlisted'', it_InviteHash := []\<rparr>)))"

definition memory_interest :: "string list \<Rightarrow> mem_interest interest_repo" where
  "memory_interest order =
     \<lparr>ir_Create = mis_Create, ir_All = mis_All order, ir_SetInvite = mis_SetInvite, ir_FindByInviteHash = mis_FindByInviteHash order,
      ir_MarkRegistered = mis_MarkRegistered, ir_MarkWaitlisted = mis_MarkWaitlisted\<rparr>"

section \<open>In MongoDB\<close>

text \<open>\<open>UpdateOne\<close> with no document to update reports no error.\<close>

type_synonym 'c interest_driver = "('c, interest) driver"

definition gis_update :: "'c interest_driver \<Rightarrow> string \<Rightarrow> (interest \<Rightarrow> interest) \<Rightarrow> 'c \<Rightarrow> string option \<times> 'c" where
  "gis_update drv email f c = (case dr_UpdateOne drv email (\<lambda>_. True) f c of (Inl e, c) \<Rightarrow> (Some e, c) | (Inr _, c) \<Rightarrow> (None, c))"

definition gis_Create :: "(string \<Rightarrow> bool) \<Rightarrow> 'c interest_driver \<Rightarrow> interest \<Rightarrow> 'c \<Rightarrow> interest_error option \<times> 'c" where
  "gis_Create is_dup drv r c =
     (case dr_InsertOne drv r c of
        (Some e, c) \<Rightarrow> (Some (if is_dup e then ErrAlreadyRegistered else InterestText (''insert interest: '' @ e)), c)
      | (None, c) \<Rightarrow> (None, c))"

definition gis_All :: "'c interest_driver \<Rightarrow> 'c \<Rightarrow> string + interest list" where
  "gis_All drv c = dr_FindSorted drv (\<lambda>_. True) (\<lambda>r. - it_CreatedAt r) 500 c"

definition gis_SetInvite :: "'c interest_driver \<Rightarrow> string \<Rightarrow> string \<Rightarrow> time \<Rightarrow> time \<Rightarrow> 'c \<Rightarrow> string option \<times> 'c" where
  "gis_SetInvite drv email hash expires tm c = gis_update drv email (invited hash expires tm) c"

definition gis_FindByInviteHash :: "'c interest_driver \<Rightarrow> string \<Rightarrow> 'c \<Rightarrow> string + interest" where
  "gis_FindByInviteHash drv hash c =
     (case find_one drv (redeemable hash) c of
        Inl e \<Rightarrow> Inl e | Inr None \<Rightarrow> Inl ''interest: invite not found'' | Inr (Some r) \<Rightarrow> Inr r)"

definition gis_MarkRegistered :: "'c interest_driver \<Rightarrow> string \<Rightarrow> 'c \<Rightarrow> string option \<times> 'c" where
  "gis_MarkRegistered drv email c = gis_update drv email registered c"

definition gis_MarkWaitlisted :: "'c interest_driver \<Rightarrow> string \<Rightarrow> time \<Rightarrow> 'c \<Rightarrow> string option \<times> 'c" where
  "gis_MarkWaitlisted drv email tm c =
     gis_update drv email (\<lambda>r. r\<lparr>it_Status := ''waitlisted'', it_InviteHash := [], it_InviteExpiresAt := 0\<rparr>) c"

definition mongo_interest :: "(string \<Rightarrow> bool) \<Rightarrow> 'c interest_driver \<Rightarrow> 'c interest_repo" where
  "mongo_interest is_dup drv =
     \<lparr>ir_Create = gis_Create is_dup drv, ir_All = gis_All drv, ir_SetInvite = gis_SetInvite drv,
      ir_FindByInviteHash = gis_FindByInviteHash drv, ir_MarkRegistered = gis_MarkRegistered drv,
      ir_MarkWaitlisted = gis_MarkWaitlisted drv\<rparr>"

section \<open>The contract of a repository\<close>

text \<open>What redeeming an invitation relies on.\<close>

locale invite_repository =
  fixes repo :: "'s interest_repo" and recs :: "'s \<Rightarrow> string \<Rightarrow> interest option" and keyed :: "'s \<Rightarrow> bool"
  assumes found: "keyed s \<Longrightarrow> ir_FindByInviteHash repo hash s = Inr r \<Longrightarrow> recs s (it_Email r) = Some r \<and> redeemable hash r"
    and marked: "keyed s \<Longrightarrow> recs s email = Some r \<Longrightarrow> ir_MarkRegistered repo email s = (None, s') \<Longrightarrow>
      keyed s' \<and> recs s' = (recs s)(email \<mapsto> registered r)"
    and not_marked: "keyed s \<Longrightarrow> recs s email = Some r \<Longrightarrow> ir_MarkRegistered repo email s = (Some e, s') \<Longrightarrow>
      keyed s' \<and> (recs s' = recs s \<or> recs s' = (recs s)(email \<mapsto> registered r))"
begin

text \<open>A redeemed invitation is found no more: what its hash still finds is another person's.\<close>

lemma redeemed_once:
  assumes "keyed s" and "ir_FindByInviteHash repo hash s = Inr r" and "ir_MarkRegistered repo (it_Email r) s = (None, s')"
    and "ir_FindByInviteHash repo hash' s' = Inr r'"
  shows "it_Email r' \<noteq> it_Email r"
proof
  assume "it_Email r' = it_Email r"
  moreover have "keyed s' \<and> recs s' = (recs s)(it_Email r \<mapsto> registered r)" using marked [OF assms(1) _ assms(3)] found [OF assms(1,2)] by blast
  moreover from this have "recs s' (it_Email r') = Some r'" "redeemable hash' r'" using found [OF _ assms(4)] by auto
  ultimately show False by (auto simp: redeemable_def registered_def)
qed

end

definition mis_keyed :: "mem_interest \<Rightarrow> bool" where
  "mis_keyed s \<longleftrightarrow> (\<forall>k r. s k = Some r \<longrightarrow> it_Email r = k)"

lemma mis_rowsD: "r \<in> set (mis_rows order s) \<Longrightarrow> \<exists>k. s k = Some r"
  by (auto simp: mis_rows_def split: option.splits)

lemma keyed_registered:
  "\<forall>k r. m k = Some r \<longrightarrow> it_Email r = k \<Longrightarrow> m email = Some q \<Longrightarrow> (m(email \<mapsto> registered q)) k = Some r \<Longrightarrow> it_Email r = k"
  by (auto simp: registered_def split: if_splits)

interpretation mem_invite: invite_repository "memory_interest order" "\<lambda>s. s" mis_keyed
proof (unfold_locales, goal_cases)
  case (1 s hash r)
  then have f: "find_first (redeemable hash) (mis_rows order s) = Some r"
    by (auto simp: memory_interest_def mis_FindByInviteHash_def split: option.splits)
  obtain k where "s k = Some r" using mis_rowsD find_first_Some [OF f] by blast
  then show ?case using 1(1) find_first_Some [OF f] by (auto simp: mis_keyed_def)
next
  case (2 s email r s')
  then have s': "s' = s(email \<mapsto> registered r)" by (simp add: memory_interest_def mis_MarkRegistered_def)
  have "mis_keyed s'" unfolding mis_keyed_def s' using keyed_registered [OF 2(1) [unfolded mis_keyed_def] 2(2)] by blast
  then show ?case using s' by simp
next
  case (3 s email r e s') then show ?case by (simp add: memory_interest_def mis_MarkRegistered_def)
qed

text \<open>Over the driver, whose contract says what an update does.\<close>

locale interest_collection = mongo_driver drv it_Email "\<lambda>_ _. False" docs for drv :: "'c interest_driver" and docs

sublocale interest_collection \<subseteq> mongo_invite: invite_repository "mongo_interest is_dup drv" docs "\<lambda>c. \<forall>k r. docs c k = Some r \<longrightarrow> it_Email r = k"
proof (unfold_locales, goal_cases)
  case (1 s hash r)
  then have "find_one drv (redeemable hash) s = Inr (Some r)"
    by (auto simp: mongo_interest_def gis_FindByInviteHash_def split: sum.splits option.splits)
  then show ?case using find_one_ok [of "redeemable hash" s r] 1(1) by auto
next
  case (2 s email r s')
  then obtain n where "dr_UpdateOne drv email (\<lambda>_. True) registered s = (Inr n, s')"
    by (auto simp: mongo_interest_def gis_MarkRegistered_def gis_update_def split: prod.splits sum.splits)
  from update_ok [OF this] 2(2) have "docs s' = (docs s)(email \<mapsto> registered r)" by (simp add: upd_where_def)
  then show ?case using keyed_registered [OF 2(1,2)] by (simp del: fun_upd_apply)
next
  case (3 s email r e s')
  then obtain m where "dr_UpdateOne drv email (\<lambda>_. True) registered s = (Inl m, s')"
    by (auto simp: mongo_interest_def gis_MarkRegistered_def gis_update_def split: prod.splits sum.splits)
  from update_err [OF this] 3(2) have "docs s' = docs s \<or> docs s' = (docs s)(email \<mapsto> registered r)" by (simp add: upd_where_def)
  then show ?case using keyed_registered [OF 3(1,2)] 3(1) by (elim disjE) (simp_all del: fun_upd_apply)
qed

interpretation map_interests: interest_collection "map_driver it_Email (\<lambda>_ _. False)" map_of
  by unfold_locales

text \<open>An invitation to an address nobody has left is an error in memory, and in MongoDB a success that invites nobody.\<close>

lemma mongo_invites_nobody:
  assumes "mongo_driver drv it_Email clash docs" and "docs c email = None"
  shows "docs (snd (gis_SetInvite drv email hash expires tm c)) = docs c"
proof -
  obtain r c' where u: "dr_UpdateOne drv email (\<lambda>_. True) (invited hash expires tm) c = (r, c')" by fastforce
  from mongo_driver.update_cases [OF assms(1) u] assms(2) have "docs c' = docs c" by (simp add: upd_where_def)
  then show ?thesis by (simp add: gis_SetInvite_def gis_update_def u split: sum.splits)
qed

end
