(* ===== verification/Web_Accounts.thy ===== *)
theory Web_Accounts
  imports Logins Interest Access Bot_Text
begin

text \<open>
  The public half of \<open>internal/api/server.go\<close> and \<open>internal/email\<close>: signing in with a password, with the Telegram Mini App
  or with the Login Widget, the interest list and its invitations, and the session every other route asks for.
  A body is what \<open>encoding/json\<close> reads, \<open>None\<close> when it fails.
\<close>

section \<open>Sessions on a request\<close>

definition bearerToken :: "string \<Rightarrow> string" where
  "bearerToken authorization =
     (let header = trim_space authorization
      in if length header > 7 \<and> equal_fold (take 7 header) ''Bearer '' then trim_space (drop 7 header) else [])"

datatype 'r guarded = AuthNotEnabled | Unauthorized | Handled 'r

text \<open>The middleware: the handler sees the claims of a session that has just been verified.\<close>

definition requireAuth ::
    "auth_lib \<Rightarrow> tokenizer option \<Rightarrow> time \<Rightarrow> string \<Rightarrow> (claims \<Rightarrow> 'w \<Rightarrow> 'r \<times> 'w) \<Rightarrow> 'w \<Rightarrow> 'r guarded \<times> 'w" where
  "requireAuth lib tok now authorization next_handler w =
     (case tok of
        None \<Rightarrow> (AuthNotEnabled, w)
      | Some t \<Rightarrow>
          (case Verify lib t now (bearerToken authorization) of
             Inl _ \<Rightarrow> (Unauthorized, w)
           | Inr c \<Rightarrow> (case next_handler c w of (r, w) \<Rightarrow> (Handled r, w))))"

record login_reply =
  lr_id :: string
  lr_username :: string
  lr_role :: string
  lr_token :: "string option"

definition loginResponse :: "auth_lib \<Rightarrow> tokenizer option \<Rightarrow> time \<Rightarrow> string \<Rightarrow> string \<Rightarrow> string \<Rightarrow> login_reply" where
  "loginResponse lib tok now k username role =
     \<lparr>lr_id = k, lr_username = username, lr_role = role,
      lr_token = (case tok of None \<Rightarrow> None | Some t \<Rightarrow> Issue lib t now k username role)\<rparr>"

section \<open>Mail\<close>

datatype mail = InviteMail string string | WaitlistMail string

definition quote1 :: string where "quote1 = [CHR 0x22]"

definition mail_subject :: "mail \<Rightarrow> string" where
  "mail_subject m = (case m of InviteMail _ _ \<Rightarrow> ''Your ANNY early-access invitation'' | WaitlistMail _ \<Rightarrow> ''Thank you for your interest in ANNY'')"

definition mail_html :: "mail \<Rightarrow> string" where
  "mail_html m =
     (case m of
        InviteMail _ link \<Rightarrow>
          ''<h2>Welcome to ANNY early access</h2><p>Your invitation is ready.</p><p><a href='' @ quote1 @ link @ quote1 @
          ''>Create your account</a></p><p>After registration, access remains pending until an admin approves your member account.</p>''
      | WaitlistMail _ \<Rightarrow>
          ''<h2>Thank you for your interest in ANNY</h2><p>Our early-access group has now reached capacity, so registration is currently closed.</p>'' @
          ''<p>We have saved your interest and will contact you again when ANNY opens to a wider audience.</p>'' @
          ''<p>We appreciate your support and hope to see you at launch soon.</p><p>'' @ emdash @ '' The ANNY team</p>'')"

definition mail_to :: "mail \<Rightarrow> string" where
  "mail_to m = (case m of InviteMail a _ \<Rightarrow> a | WaitlistMail a \<Rightarrow> a)"

text \<open>\<open>http key from to subject html\<close> is the answer of the mail service: an error or a status.\<close>

definition resend_send :: "(string \<Rightarrow> string \<Rightarrow> string \<Rightarrow> string \<Rightarrow> string \<Rightarrow> string + int) \<Rightarrow> string \<Rightarrow> string \<Rightarrow> mail \<Rightarrow> string option" where
  "resend_send http key sender m =
     (case http key sender (mail_to m) (mail_subject m) (mail_html m) of
        Inl e \<Rightarrow> Some e | Inr status \<Rightarrow> if status \<ge> 300 then Some (''resend returned status '' @ show_int status) else None)"

definition NewResendSender ::
    "(string \<Rightarrow> string \<Rightarrow> string \<Rightarrow> string \<Rightarrow> string \<Rightarrow> string + int) \<Rightarrow> string \<Rightarrow> string \<Rightarrow> (mail \<Rightarrow> string option) option" where
  "NewResendSender http key sender =
     (if trim_space key = [] \<or> trim_space sender = [] then None else Some (resend_send http key sender))"

section \<open>Handlers\<close>

record ('u, 'i, 'a) account_server =
  wa_users :: "'u user_repo option"
  wa_bcrypt :: bcrypt
  wa_interest :: "'i interest_repo option"
  wa_parseAddress :: "string \<Rightarrow> string option"
  wa_email :: "(mail \<Rightarrow> string option) option"
  wa_access :: "'a access_store"
  wa_acl :: access_config
  wa_lib :: auth_lib
  wa_readUser :: "string \<Rightarrow> telegram_user option"
  wa_tokenizer :: "tokenizer option"
  wa_botToken :: string
  wa_botUsername :: string
  wa_webAppURL :: string

text \<open>The clock at the successive points a request reads it, the salt, the new id, the random bytes and the host it was sent to.\<close>

record account_env =
  ae_now :: "nat \<Rightarrow> time"
  ae_salt :: string
  ae_id :: string
  ae_random :: "string + string"
  ae_host :: string

record ('u, 'i, 'a) account_world =
  aw_users :: 'u
  aw_interest :: 'i
  aw_access :: 'a
  aw_mails :: "mail list"
  aw_notices :: "string list"

datatype account_reply =
    AccountError int string | AccountCreated string string string | LoggedIn int login_reply | InterestSaved int
  | InterestRows "interest list" | InviteSent bool string time | InviteNotSent string | WaitlistSent | NilService

definition users_error_text :: "users_error \<Rightarrow> string" where
  "users_error_text e =
     (case e of UsersText t \<Rightarrow> t | ErrUserNotFound \<Rightarrow> ''users: user not found'' | ErrUsernameTaken \<Rightarrow> ''users: username already taken''
      | ErrInvalidLogin \<Rightarrow> ''users: invalid username or password'')"

definition handleRegister ::
    "('u, 'i, 'a) account_server \<Rightarrow> account_env \<Rightarrow> (string \<times> string) option \<Rightarrow> ('u, 'i, 'a) account_world \<Rightarrow> account_reply \<times> ('u, 'i, 'a) account_world" where
  "handleRegister sv env body w =
     (case wa_users sv of
        None \<Rightarrow> (AccountError 501 ''registration is not enabled'', w)
      | Some repo \<Rightarrow>
          (case body of
             None \<Rightarrow> (AccountError 400 ''invalid JSON body'', w)
           | Some (username, password) \<Rightarrow>
               (case users_Register repo (wa_bcrypt sv) (ae_salt env) (ae_id env) (ae_now env 0) username password (aw_users w) of
                  (Inl e, s) \<Rightarrow>
                    (if e = ErrUsernameTaken then AccountError 409 ''username already taken'' else AccountError 400 (users_error_text e), w\<lparr>aw_users := s\<rparr>)
                | (Inr u, s) \<Rightarrow> (AccountCreated (us_ID u) (us_Username u) (us_Role u), w\<lparr>aw_users := s\<rparr>))))"

definition handleLogin :: "('u, 'i, 'a) account_server \<Rightarrow> account_env \<Rightarrow> (string \<times> string) option \<Rightarrow> ('u, 'i, 'a) account_world \<Rightarrow> account_reply" where
  "handleLogin sv env body w =
     (case wa_users sv of
        None \<Rightarrow> AccountError 501 ''login is not enabled''
      | Some repo \<Rightarrow>
          (case body of
             None \<Rightarrow> AccountError 400 ''invalid JSON body''
           | Some (username, password) \<Rightarrow>
               (case Authenticate repo (wa_bcrypt sv) username password (aw_users w) of
                  Inl _ \<Rightarrow> AccountError 401 ''invalid username or password''
                | Inr u \<Rightarrow> LoggedIn 200 (loginResponse (wa_lib sv) (wa_tokenizer sv) (ae_now env 0) (us_ID u) (us_Username u) (us_Role u)))))"

definition telegram_session :: "('u, 'i, 'a) account_server \<Rightarrow> time \<Rightarrow> telegram_user \<Rightarrow> account_reply" where
  "telegram_session sv now u =
     LoggedIn 200 (loginResponse (wa_lib sv) (wa_tokenizer sv) now (''tg:'' @ show_int (tu_ID u))
       (if tu_Username u = [] then tu_FirstName u else tu_Username u) ''user'')"

definition handleTelegramAuth :: "('u, 'i, 'a) account_server \<Rightarrow> account_env \<Rightarrow> string option \<Rightarrow> account_reply" where
  "handleTelegramAuth sv env body =
     (case wa_tokenizer sv of
        None \<Rightarrow> AccountError 501 ''auth is not enabled''
      | Some _ \<Rightarrow>
          (case body of
             None \<Rightarrow> AccountError 400 ''invalid JSON body''
           | Some initData \<Rightarrow>
               (case VerifyTelegramInitData (wa_lib sv) (wa_readUser sv) initData (wa_botToken sv) (hours 24) (ae_now env 0) of
                  Inl _ \<Rightarrow> AccountError 401 ''invalid telegram login'' | Inr u \<Rightarrow> telegram_session sv (ae_now env 1) u)))"

text \<open>The widget's object, with every number in its original text; \<open>JsonOther\<close> is what \<open>%v\<close> prints of a nested value.\<close>

datatype json_field = JsonString string | JsonNumber string | JsonBool bool | JsonNull | JsonOther string

definition widget_field :: "string \<times> json_field \<Rightarrow> (string \<times> string) list" where
  "widget_field f =
     (case f of (k, v) \<Rightarrow>
        case v of JsonString s \<Rightarrow> [(k, s)] | JsonNumber s \<Rightarrow> [(k, s)] | JsonBool b \<Rightarrow> [(k, if b then ''true'' else ''false'')]
        | JsonNull \<Rightarrow> [] | JsonOther s \<Rightarrow> [(k, s)])"

definition handleTelegramLogin :: "('u, 'i, 'a) account_server \<Rightarrow> account_env \<Rightarrow> (string \<times> json_field) list option \<Rightarrow> account_reply" where
  "handleTelegramLogin sv env body =
     (case wa_tokenizer sv of
        None \<Rightarrow> AccountError 501 ''auth is not enabled''
      | Some _ \<Rightarrow>
          (case body of
             None \<Rightarrow> AccountError 400 ''invalid JSON body''
           | Some raw \<Rightarrow>
               (case VerifyTelegramLoginWidget (wa_lib sv) (concat (map widget_field raw)) (wa_botToken sv) (hours 24) (ae_now env 0) of
                  Inl _ \<Rightarrow> AccountError 401 ''invalid telegram login'' | Inr u \<Rightarrow> telegram_session sv (ae_now env 1) u)))"

definition handleAuthConfig :: "('u, 'i, 'a) account_server \<Rightarrow> string \<times> bool" where
  "handleAuthConfig sv =
     (wa_botUsername sv, wa_tokenizer sv \<noteq> None \<and> trim_space (wa_botUsername sv) \<noteq> [] \<and> trim_space (wa_botToken sv) \<noteq> [])"

subsection \<open>Interest and invitations\<close>

definition handleInterest ::
    "('u, 'i, 'a) account_server \<Rightarrow> account_env \<Rightarrow> (string \<times> string \<times> string) option \<Rightarrow> ('u, 'i, 'a) account_world \<Rightarrow>
     account_reply \<times> ('u, 'i, 'a) account_world" where
  "handleInterest sv env body w =
     (case wa_interest sv of
        None \<Rightarrow> (AccountError 501 ''interest registration is not enabled'', w)
      | Some repo \<Rightarrow>
          (case body of
             None \<Rightarrow> (AccountError 400 ''invalid JSON body'', w)
           | Some (email, reason, source) \<Rightarrow>
               (case interest_Register repo (wa_parseAddress sv) (ae_now env 0) email reason source (aw_interest w) of
                  (Inl e, s) \<Rightarrow>
                    (if e = ErrAlreadyRegistered then InterestSaved 200 else AccountError 400 ''please enter a valid email'', w\<lparr>aw_interest := s\<rparr>)
                | (Inr _, s) \<Rightarrow> (InterestSaved 201, w\<lparr>aw_interest := s\<rparr>))))"

definition inviteHash :: "auth_lib \<Rightarrow> string \<Rightarrow> string" where
  "inviteHash lib token = encodeSegment (al_SHA256 lib token)"

abbreviation web_admin :: "('u, 'i, 'a) account_server \<Rightarrow> string \<Rightarrow> ('u, 'i, 'a) account_world \<Rightarrow> bool" where
  "web_admin sv subject w \<equiv> isAdmin (wa_acl sv) (Some (wa_access sv)) subject (aw_access w)"

text \<open>These three handlers use the interest service without asking whether there is one: a nil dereference when there is none.\<close>

definition handleAdminInterests :: "('u, 'i, 'a) account_server \<Rightarrow> string \<Rightarrow> ('u, 'i, 'a) account_world \<Rightarrow> account_reply" where
  "handleAdminInterests sv subject w =
     (if \<not> web_admin sv subject w then AccountError 403 ''admin only''
      else case wa_interest sv of
             None \<Rightarrow> NilService
           | Some repo \<Rightarrow> (case ir_All repo (aw_interest w) of Inl _ \<Rightarrow> AccountError 500 ''could not load interests'' | Inr rows \<Rightarrow> InterestRows rows))"

definition handleAdminInterestInvite ::
    "('u, 'i, 'a) account_server \<Rightarrow> account_env \<Rightarrow> string \<Rightarrow> string option \<Rightarrow> ('u, 'i, 'a) account_world \<Rightarrow> account_reply \<times> ('u, 'i, 'a) account_world" where
  "handleAdminInterestInvite sv env subject body w =
     (if \<not> web_admin sv subject w then (AccountError 403 ''admin only'', w)
      else case body of
        None \<Rightarrow> (AccountError 400 ''email is required'', w)
      | Some email \<Rightarrow>
          if trim_space email = [] then (AccountError 400 ''email is required'', w)
          else (case ae_random env of
              Inl _ \<Rightarrow> (AccountError 500 ''could not create invite'', w)
            | Inr raw \<Rightarrow>
                let token = encodeSegment raw; expires = ae_now env 0 + hours (7 * 24)
                in (case wa_interest sv of
                      None \<Rightarrow> (NilService, w)
                    | Some repo \<Rightarrow>
                        (case ir_SetInvite repo (to_lower (trim_space email)) (inviteHash (wa_lib sv) token) expires (ae_now env 1) (aw_interest w) of
                           (Some _, s) \<Rightarrow> (AccountError 500 ''could not save invite'', w\<lparr>aw_interest := s\<rparr>)
                         | (None, s) \<Rightarrow>
                             let w = w\<lparr>aw_interest := s\<rparr>; base = trim_right_char (CHR ''/'') (wa_webAppURL sv);
                                 base = (if base = [] then ''https://'' @ ae_host env else base); link = base @ ''/?invite='' @ token
                             in (case wa_email sv of
                                   None \<Rightarrow> (InviteSent False link expires, w)
                                 | Some send \<Rightarrow>
                                     let w = w\<lparr>aw_mails := aw_mails w @ [InviteMail email link]\<rparr>
                                     in (case send (InviteMail email link) of
                                           Some _ \<Rightarrow> (InviteNotSent link, w) | None \<Rightarrow> (InviteSent True link expires, w)))))))"

definition handleAdminInterestWaitlist ::
    "('u, 'i, 'a) account_server \<Rightarrow> account_env \<Rightarrow> string \<Rightarrow> string option \<Rightarrow> ('u, 'i, 'a) account_world \<Rightarrow> account_reply \<times> ('u, 'i, 'a) account_world" where
  "handleAdminInterestWaitlist sv env subject body w =
     (if \<not> web_admin sv subject w then (AccountError 403 ''admin only'', w)
      else case body of
        None \<Rightarrow> (AccountError 400 ''email is required'', w)
      | Some email \<Rightarrow>
          if trim_space email = [] then (AccountError 400 ''email is required'', w)
          else let email = to_lower (trim_space email)
          in (case wa_email sv of
                None \<Rightarrow> (AccountError 501 ''email is not configured'', w)
              | Some send \<Rightarrow>
                  let w = w\<lparr>aw_mails := aw_mails w @ [WaitlistMail email]\<rparr>
                  in (case send (WaitlistMail email) of
                        Some _ \<Rightarrow> (AccountError 502 ''email could not be sent; status was not changed'', w)
                      | None \<Rightarrow>
                          (case wa_interest sv of
                             None \<Rightarrow> (NilService, w)
                           | Some repo \<Rightarrow>
                               (case ir_MarkWaitlisted repo email (ae_now env 0) (aw_interest w) of
                                  (Some _, s) \<Rightarrow> (AccountError 500 ''email sent but waitlist status could not be saved'', w\<lparr>aw_interest := s\<rparr>)
                                | (None, s) \<Rightarrow> (WaitlistSent, w\<lparr>aw_interest := s\<rparr>))))))"

definition notifyAdmin :: "('u, 'i, 'a) account_server \<Rightarrow> string \<Rightarrow> string list \<Rightarrow> string list" where
  "notifyAdmin sv t notices = (if wa_botToken sv = [] \<or> cf_AdminUserID (wa_acl sv) = 0 then notices else notices @ [t])"

text \<open>What follows a registration by invitation: the request for access and the mark, whose failures are only logged.\<close>

definition after_invite ::
    "('u, 'i, 'a) account_server \<Rightarrow> account_env \<Rightarrow> 'i interest_repo \<Rightarrow> interest \<Rightarrow> user \<Rightarrow> ('u, 'i, 'a) account_world \<Rightarrow> account_reply \<times> ('u, 'i, 'a) account_world" where
  "after_invite sv env ir r u w =
     (let w = w\<lparr>aw_access := snd (acs_Request (wa_access sv) (us_ID u) (us_Username u) (ae_now env 2) (aw_access w)),
                aw_interest := snd (ir_MarkRegistered ir (it_Email r) (aw_interest w)),
                aw_notices := notifyAdmin sv (''New invited member waiting for approval: '' @ us_Username u @ '' ('' @ us_ID u @ '')'') (aw_notices w)\<rparr>
      in (LoggedIn 201 (loginResponse (wa_lib sv) (wa_tokenizer sv) (ae_now env 3) (us_ID u) (us_Username u) (us_Role u)), w))"

definition handleInviteRegister ::
    "('u, 'i, 'a) account_server \<Rightarrow> account_env \<Rightarrow> (string \<times> string \<times> string) option \<Rightarrow> ('u, 'i, 'a) account_world \<Rightarrow>
     account_reply \<times> ('u, 'i, 'a) account_world" where
  "handleInviteRegister sv env body w =
     (case (wa_users sv, wa_interest sv, wa_tokenizer sv) of
        (Some repo, Some ir, Some _) \<Rightarrow>
          (case body of
             None \<Rightarrow> (AccountError 400 ''invalid JSON body'', w)
           | Some (token, username, password) \<Rightarrow>
               (case FindInvite ir (ae_now env 0) (inviteHash (wa_lib sv) token) (aw_interest w) of
                  Inl _ \<Rightarrow> (AccountError 400 ''invite is invalid or expired'', w)
                | Inr r \<Rightarrow>
                    (case users_Register repo (wa_bcrypt sv) (ae_salt env) (ae_id env) (ae_now env 1) username password (aw_users w) of
                       (Inl e, s) \<Rightarrow>
                         (if e = ErrUsernameTaken then AccountError 409 ''username already taken'' else AccountError 400 (users_error_text e), w\<lparr>aw_users := s\<rparr>)
                     | (Inr u, s) \<Rightarrow> after_invite sv env ir r u (w\<lparr>aw_users := s\<rparr>))))
      | _ \<Rightarrow> (AccountError 501 ''invite registration is not enabled'', w))"

end
