(* ===== verification/Account_Properties.thy ===== *)
theory Account_Properties
  imports Web_Accounts
begin

text \<open>
  What the public routes of \<open>internal/api/server.go\<close> give away: an account is made for an invitation only, an invitation
  is used up, and a session is for somebody who has shown who he is.
\<close>

section \<open>Invitations\<close>

lemma invite_looked_up:
  assumes "handleInviteRegister sv env body w = (reply, w')" and "wa_users sv = Some repo" and "wa_interest sv = Some ir"
    and "aw_users w' \<noteq> aw_users w \<or> aw_interest w' \<noteq> aw_interest w \<or> reply = LoggedIn n l"
  obtains token username password r where "body = Some (token, username, password)"
    and "FindInvite ir (ae_now env 0) (inviteHash (wa_lib sv) token) (aw_interest w) = Inr r"
  using assms
  by (auto simp: handleInviteRegister_def split: option.splits prod.splits sum.splits if_splits)

lemma after_invite_world:
  "after_invite sv env ir r u w = (reply, w') \<Longrightarrow>
   aw_users w' = aw_users w \<and> aw_interest w' = snd (ir_MarkRegistered ir (it_Email r) (aw_interest w)) \<and>
   aw_access w' = snd (acs_Request (wa_access sv) (us_ID u) (us_Username u) (ae_now env 2) (aw_access w)) \<and>
   reply = LoggedIn 201 (loginResponse (wa_lib sv) (wa_tokenizer sv) (ae_now env 3) (us_ID u) (us_Username u) (us_Role u))"
  by (auto simp: after_invite_def Let_def)

lemma FindInvite_ok:
  "FindInvite repo now hash s = Inr r \<Longrightarrow> ir_FindByInviteHash repo hash s = Inr r \<and> now \<le> it_InviteExpiresAt r"
  by (auto simp: FindInvite_def split: sum.splits if_splits)

lemma invite_runs:
  assumes "handleInviteRegister sv env (Some (token, username, password)) w = (reply, w')" and "wa_users sv = Some repo"
    and "wa_interest sv = Some ir" and "wa_tokenizer sv = Some tk"
    and "FindInvite ir (ae_now env 0) (inviteHash (wa_lib sv) token) (aw_interest w) = Inr r"
    and "users_Register repo (wa_bcrypt sv) (ae_salt env) (ae_id env) (ae_now env 1) username password (aw_users w) = (res, s)"
  shows "aw_users w' = s \<and>
    (case res of
       Inl _ \<Rightarrow> aw_interest w' = aw_interest w \<and> aw_access w' = aw_access w \<and> (\<exists>n t. reply = AccountError n t)
     | Inr u \<Rightarrow> aw_interest w' = snd (ir_MarkRegistered ir (it_Email r) (aw_interest w)) \<and>
         aw_access w' = snd (acs_Request (wa_access sv) (us_ID u) (us_Username u) (ae_now env 2) (aw_access w)) \<and>
         reply = LoggedIn 201 (loginResponse (wa_lib sv) (Some tk) (ae_now env 3) (us_ID u) (us_Username u) (us_Role u)))"
  using assms by (auto simp: handleInviteRegister_def split: sum.splits if_splits dest: after_invite_world)

text \<open>C38. An invitation makes one member. On stores that keep their contracts, the invitation route adds at most one account,
  under a name nobody had and as an ordinary user; it adds one, or signs somebody in, only for a token whose hash is on
  an invited, unexpired address, and a member it signs in is only put on the list of those who ask for
  access. If the address could be marked as registered, no hash finds that address again.\<close>

theorem invite_registers_once:
  assumes "wa_users sv = Some repo" and "user_repository repo holds ok" and "ok (aw_users w)"
    and "wa_interest sv = Some ir" and "invite_repository ir recs keyed" and "keyed (aw_interest w)"
    and "handleInviteRegister sv env body w = (reply, w')"
    and "holds (aw_users w') \<noteq> holds (aw_users w) \<or> reply = LoggedIn n l"
  shows "\<exists>token username password r u.
    body = Some (token, username, password) \<and> recs (aw_interest w) (it_Email r) = Some r \<and>
    redeemable (inviteHash (wa_lib sv) token) r \<and> ae_now env 0 \<le> it_InviteExpiresAt r \<and>
    holds (aw_users w') = insert u (holds (aw_users w)) \<and> us_Username u = normalizeUsername username \<and> us_Role u = RoleUser \<and>
    (\<forall>v\<in>holds (aw_users w). us_Username v \<noteq> us_Username u) \<and>
    (reply = LoggedIn n l \<longrightarrow>
       lr_id l = us_ID u \<and> lr_role l = RoleUser \<and>
       aw_access w' = snd (acs_Request (wa_access sv) (us_ID u) (us_Username u) (ae_now env 2) (aw_access w)) \<and>
       (fst (ir_MarkRegistered ir (it_Email r) (aw_interest w)) = None \<longrightarrow>
          (\<forall>hash q. ir_FindByInviteHash ir hash (aw_interest w') = Inr q \<longrightarrow> it_Email q \<noteq> it_Email r)))"
proof -
  have "aw_users w' \<noteq> aw_users w \<or> reply = LoggedIn n l" using assms(8) by auto
  then obtain token username password r where b: "body = Some (token, username, password)"
    and f: "FindInvite ir (ae_now env 0) (inviteHash (wa_lib sv) token) (aw_interest w) = Inr r"
    using invite_looked_up [OF assms(7,1,4)] by metis
  note fi = FindInvite_ok [OF f]
  have r: "recs (aw_interest w) (it_Email r) = Some r" "redeemable (inviteHash (wa_lib sv) token) r"
    using invite_repository.found [OF assms(5,6)] fi by blast+
  obtain tk where tk: "wa_tokenizer sv = Some tk"
    using assms(1,4,7,8) by (cases "wa_tokenizer sv") (auto simp: handleInviteRegister_def)
  obtain res s where u: "users_Register repo (wa_bcrypt sv) (ae_salt env) (ae_id env) (ae_now env 1) username password (aw_users w) = (res, s)"
    by fastforce
  note run = invite_runs [OF assms(7) [unfolded b] assms(1,4) tk f u]
  show ?thesis
  proof (cases res)
    case (Inl e)
    then have "holds s \<noteq> holds (aw_users w)" using run assms(8) by auto
    then obtain v where v: "holds s = insert v (holds (aw_users w))" "us_Username v = normalizeUsername username" "us_Role v = RoleUser"
        "\<forall>z\<in>holds (aw_users w). us_Username z \<noteq> us_Username v"
      using user_repository.register_adds [OF assms(2,3) u] by blast
    have "reply \<noteq> LoggedIn n l" using run Inl by auto
    then show ?thesis using b r fi v run
      by (intro exI [of _ token] exI [of _ username] exI [of _ password] exI [of _ r] exI [of _ v]) simp
  next
    case (Inr v)
    have v: "holds s = insert v (holds (aw_users w))" "us_Username v = normalizeUsername username" "us_Role v = RoleUser"
        "\<forall>z\<in>holds (aw_users w). us_Username z \<noteq> us_Username v"
      using user_repository.register_ok [OF assms(2,3) u [unfolded Inr]] by auto
    have once: "it_Email q \<noteq> it_Email r"
      if "fst (ir_MarkRegistered ir (it_Email r) (aw_interest w)) = None" "ir_FindByInviteHash ir hash (aw_interest w') = Inr q" for hash q
    proof (rule invite_repository.redeemed_once [OF assms(5,6) _ _ that(2)])
      show "ir_FindByInviteHash ir (inviteHash (wa_lib sv) token) (aw_interest w) = Inr r" using fi by simp
      show "ir_MarkRegistered ir (it_Email r) (aw_interest w) = (None, aw_interest w')"
        using that(1) run Inr by (cases "ir_MarkRegistered ir (it_Email r) (aw_interest w)") auto
    qed
    have "reply = LoggedIn n l \<longrightarrow> lr_id l = us_ID v \<and> lr_role l = RoleUser"
      using run Inr v(3) by (auto simp: loginResponse_def)
    then show ?thesis using b r fi v run Inr once
      by (intro exI [of _ token] exI [of _ username] exI [of _ password] exI [of _ r] exI [of _ v]) simp
  qed
qed

definition ex_interest :: mem_interest where
  "ex_interest = [''a@b.c'' \<mapsto> no_interest\<lparr>it_Email := ''a@b.c'', it_Status := ''invited'', it_InviteHash := inviteHash ex_lib ''t'',
     it_InviteExpiresAt := 9\<rparr>]"

definition ex_accounts :: "(mem_users, mem_interest, mem_access) account_server" where
  "ex_accounts =
     \<lparr>wa_users = Some memory_users, wa_bcrypt = plain_bcrypt, wa_interest = Some (memory_interest [''a@b.c'']), wa_parseAddress = Some,
      wa_email = None, wa_access = memory_access [], wa_acl = \<lparr>cf_AdminUserID = 1, cf_PrivateBeta = True, cf_AccessOpen = False\<rparr>,
      wa_lib = ex_lib, wa_readUser = (\<lambda>_. None), wa_tokenizer = Some ex_tokenizer, wa_botToken = ''b'', wa_botUsername = [], wa_webAppURL = []\<rparr>"

definition ex_account_env :: account_env where
  "ex_account_env = \<lparr>ae_now = (\<lambda>_. 5), ae_salt = [], ae_id = ''u1'', ae_random = Inr ''r'', ae_host = ''h''\<rparr>"

definition ex_account_world :: "(mem_users, mem_interest, mem_access) account_world" where
  "ex_account_world = \<lparr>aw_users = Map.empty, aw_interest = ex_interest, aw_access = Map.empty, aw_mails = [], aw_notices = []\<rparr>"

theorem invite_registers_once_witness:
  "\<exists>u. us_Username u = ''ann'' \<and>
     u \<in> ran (aw_users (snd (handleInviteRegister ex_accounts ex_account_env (Some (''t'', ''Ann'', ''password'')) ex_account_world)))"
proof -
  let ?h = "handleInviteRegister ex_accounts ex_account_env (Some (''t'', ''Ann'', ''password'')) ex_account_world"
  have "case fst ?h of LoggedIn n l \<Rightarrow> True | _ \<Rightarrow> False" by code_simp
  then obtain n l where f: "fst ?h = LoggedIn n l" by (auto split: account_reply.splits)
  have h: "?h = (fst ?h, snd ?h)" by simp
  have r: "wa_users ex_accounts = Some memory_users" "wa_interest ex_accounts = Some (memory_interest [''a@b.c''])"
    by (simp_all add: ex_accounts_def)
  have ok: "mus_keyed (aw_users ex_account_world)" "mis_keyed (aw_interest ex_account_world)"
    by (simp_all add: ex_account_world_def mus_keyed_def mis_keyed_def ex_interest_def)
  from invite_registers_once [OF r(1) mem_user.user_repository_axioms ok(1) r(2) mem_invite.invite_repository_axioms ok(2) h disjI2 [OF f]]
  obtain tk username pw u where "Some (''t'', ''Ann'', ''password'') = Some (tk, username, pw)" "us_Username u = normalizeUsername username"
    "ran (aw_users (snd ?h)) = insert u (ran (aw_users ex_account_world))" by blast
  moreover have "normalizeUsername ''Ann'' = ''ann''" by code_simp
  ultimately show ?thesis by auto
qed

section \<open>Sessions\<close>

datatype login_request =
    PasswordLogin "(string \<times> string) option" | MiniAppLogin "string option" | WidgetLogin "(string \<times> json_field) list option"
  | InviteLogin "(string \<times> string \<times> string) option"

definition login_step ::
    "('u, 'i, 'a) account_server \<Rightarrow> account_env \<Rightarrow> login_request \<Rightarrow> ('u, 'i, 'a) account_world \<Rightarrow> account_reply \<times> ('u, 'i, 'a) account_world" where
  "login_step sv env q w =
     (case q of
        PasswordLogin body \<Rightarrow> (handleLogin sv env body w, w)
      | MiniAppLogin body \<Rightarrow> (handleTelegramAuth sv env body, w)
      | WidgetLogin body \<Rightarrow> (handleTelegramLogin sv env body, w)
      | InviteLogin body \<Rightarrow> handleInviteRegister sv env body w)"

text \<open>The data of a Telegram login: what was signed, and for whom.\<close>

definition telegram_signed :: "auth_lib \<Rightarrow> string \<Rightarrow> (string \<times> string) list \<Rightarrow> bool" where
  "telegram_signed lib key kvs \<longleftrightarrow> value_of kvs ''hash'' = hex_encode (al_HMAC lib key (dataCheck kvs))"

text \<open>C12. A session is for somebody who has shown who he is. Whatever the four login routes are sent, a session is answered
  for an account whose password was given, for the account an invitation has just made, or for the Telegram user
  named by data that carries a hash under a key made of the bot's token and is at most a day old; a Telegram session
  never has a role of its own.\<close>

theorem sessions_are_earned:
  assumes "login_step sv env q w = (LoggedIn n l, w')"
    and "wa_users sv = Some repo" and "user_repository repo holds ok" and "ok (aw_users w)"
  shows "(\<exists>username password u. q = PasswordLogin (Some (username, password)) \<and> u \<in> holds (aw_users w) \<and>
            us_Username u = normalizeUsername username \<and> bc_Compare (wa_bcrypt sv) (us_PasswordHash u) password \<and>
            lr_id l = us_ID u \<and> lr_role l = us_Role u) \<or>
    (\<exists>body u. q = InviteLogin (Some body) \<and> u \<notin> holds (aw_users w) \<and> u \<in> holds (aw_users w') \<and> lr_id l = us_ID u \<and> lr_role l = RoleUser) \<or>
    (\<exists>kvs k. ((\<exists>body. q = MiniAppLogin (Some body) \<and> ParseQuery body = Some kvs \<and>
                 telegram_signed (wa_lib sv) (al_HMAC (wa_lib sv) ''WebAppData'' (wa_botToken sv)) kvs \<and>
                 map_option tu_ID (wa_readUser sv (value_of kvs ''user'')) = Some k) \<or>
             (\<exists>raw. q = WidgetLogin (Some raw) \<and> kvs = concat (map widget_field raw) \<and>
                 telegram_signed (wa_lib sv) (al_SHA256 (wa_lib sv) (wa_botToken sv)) kvs \<and> atoi (value_of kvs ''id'') = Some k)) \<and>
       k \<noteq> 0 \<and> trim_space (wa_botToken sv) \<noteq> [] \<and> \<not> stale (value_of kvs ''auth_date'') (hours 24) (ae_now env 0) \<and>
       lr_id l = ''tg:'' @ show_int k \<and> lr_role l = ''user'' \<and> w' = w)"
proof (cases q)
  case (PasswordLogin body)
  with assms(1,2) obtain username password u where b: "body = Some (username, password)"
    and a: "Authenticate repo (wa_bcrypt sv) username password (aw_users w) = Inr u" "lr_id l = us_ID u" "lr_role l = us_Role u"
    by (auto simp: login_step_def handleLogin_def loginResponse_def split: option.splits sum.splits)
  from user_repository.authenticate_ok [OF assms(3,4) a(1)] b a PasswordLogin show ?thesis by blast
next
  case (MiniAppLogin body)
  with assms(1) obtain initData u where b: "body = Some initData" "w' = w"
    and v: "VerifyTelegramInitData (wa_lib sv) (wa_readUser sv) initData (wa_botToken sv) (hours 24) (ae_now env 0) = Inr u"
    and l: "lr_id l = ''tg:'' @ show_int (tu_ID u)" "lr_role l = ''user''"
    by (auto simp: login_step_def handleTelegramAuth_def telegram_session_def loginResponse_def split: option.splits sum.splits)
  from v [unfolded init_data_login] b l MiniAppLogin show ?thesis by (auto simp: telegram_signed_def)
next
  case (WidgetLogin body)
  with assms(1) obtain raw u where b: "body = Some raw" "w' = w"
    and v: "VerifyTelegramLoginWidget (wa_lib sv) (concat (map widget_field raw)) (wa_botToken sv) (hours 24) (ae_now env 0) = Inr u"
    and l: "lr_id l = ''tg:'' @ show_int (tu_ID u)" "lr_role l = ''user''"
    by (auto simp: login_step_def handleTelegramLogin_def telegram_session_def loginResponse_def split: option.splits sum.splits)
  from v [unfolded widget_login] b l WidgetLogin show ?thesis by (auto simp: telegram_signed_def)
next
  case (InviteLogin body)
  with assms(1,2) obtain t username password ir r u s where b: "body = Some (t, username, password)"
    and g: "users_Register repo (wa_bcrypt sv) (ae_salt env) (ae_id env) (ae_now env 1) username password (aw_users w) = (Inr u, s)"
    and a: "after_invite sv env ir r u (w\<lparr>aw_users := s\<rparr>) = (LoggedIn n l, w')"
    by (auto simp: login_step_def handleInviteRegister_def split: option.splits sum.splits prod.splits if_splits)
  from user_repository.register_ok [OF assms(3,4) g] after_invite_world [OF a] b InviteLogin show ?thesis
    by (auto simp: loginResponse_def)
qed

theorem sessions_are_earned_witness:
  "fst (login_step ex_accounts ex_account_env (InviteLogin (Some (''t'', ''Ann'', ''password''))) ex_account_world) =
     LoggedIn 201 (loginResponse ex_lib (Some ex_tokenizer) 5 ''u1'' ''ann'' ''user'') \<and>
   (\<exists>u. u \<notin> ran (aw_users ex_account_world) \<and> ''u1'' = us_ID u)"
proof -
  let ?q = "InviteLogin (Some (''t'', ''Ann'', ''password''))"
  have f: "fst (login_step ex_accounts ex_account_env ?q ex_account_world) = LoggedIn 201 (loginResponse ex_lib (Some ex_tokenizer) 5 ''u1'' ''ann'' ''user'')"
    by code_simp
  have h: "login_step ex_accounts ex_account_env ?q ex_account_world =
      (LoggedIn 201 (loginResponse ex_lib (Some ex_tokenizer) 5 ''u1'' ''ann'' ''user''), snd (login_step ex_accounts ex_account_env ?q ex_account_world))"
    using f by (metis prod.collapse)
  have r: "wa_users ex_accounts = Some memory_users" "mus_keyed (aw_users ex_account_world)"
    by (simp_all add: ex_accounts_def ex_account_world_def mus_keyed_def)
  from sessions_are_earned [where ok = mus_keyed, OF h r(1) mem_user.user_repository_axioms r(2)] f show ?thesis
    by (auto simp: loginResponse_def)
qed

end
