(* ===== verification/Web_Server.thy ===== *)
theory Web_Server
  imports Web_Properties Web_Commands Credentials Realtime Account_Properties
begin

text \<open>
  The rest of \<open>internal/api/server.go\<close>: the status and stream endpoints with their tokens, the public report, the
  credential routes, the TradingView webhook, and the routes that touch orders behind the session check. A body is
  what \<open>encoding/json\<close> reads, \<open>None\<close> when it fails.
\<close>

section \<open>Operations\<close>

record flags =
  fl_tradingview :: bool
  fl_ai :: bool
  fl_autotrade :: bool
  fl_dryRun :: bool

datatype status_reply = StatusDisabled | StatusUnauthorized | StatusFlags flags

definition handleStatus :: "string \<Rightarrow> flags \<Rightarrow> string \<Rightarrow> status_reply" where
  "handleStatus statusToken fl authorization =
     (if statusToken = [] then StatusDisabled
      else if bearerToken authorization \<noteq> statusToken then StatusUnauthorized
      else StatusFlags fl)"

datatype stream_reply = StreamDisabled | StreamUnauthorized | StreamOpen

text \<open>The token is the bearer token or, since a browser's event source cannot set one, the query's.\<close>

definition handleStream :: "bool \<Rightarrow> string \<Rightarrow> auth_lib \<Rightarrow> tokenizer option \<Rightarrow> time \<Rightarrow> string \<Rightarrow> string \<Rightarrow> stream_reply" where
  "handleStream wired statusToken lib tok now authorization query_token =
     (if \<not> wired then StreamDisabled
      else if statusToken = [] \<and> tok = None then StreamDisabled
      else let b = bearerToken authorization; provided = (if b = [] then trim_space query_token else b)
      in if statusToken \<noteq> [] \<and> provided = statusToken
            \<or> (case tok of None \<Rightarrow> False | Some t \<Rightarrow> (case Verify lib t now provided of Inl _ \<Rightarrow> False | Inr _ \<Rightarrow> True))
         then StreamOpen else StreamUnauthorized)"

text \<open>What the writer's \<open>select\<close> picks: an event with its JSON (\<open>None\<close> when it has none), the closed channel or the heartbeat.\<close>

datatype stream_pick = PickEvent string "string option" | PickClosed | PickHeartbeat

definition sse_comment :: "string \<Rightarrow> string" where "sse_comment t = '': '' @ t @ nl @ nl"
definition sse_event :: "string \<Rightarrow> string \<Rightarrow> string" where "sse_event ty data = ''event: '' @ ty @ nl @ ''data: '' @ data @ nl @ nl"

text \<open>\<open>writes i\<close> says whether the \<open>i\<close>th frame goes out; the first one that does not ends the stream.\<close>

fun stream_loop :: "(nat \<Rightarrow> bool) \<Rightarrow> nat \<Rightarrow> stream_pick list \<Rightarrow> string list" where
  "stream_loop writes i [] = []"
| "stream_loop writes i (PickClosed # ps) = []"
| "stream_loop writes i (PickEvent ty None # ps) = stream_loop writes i ps"
| "stream_loop writes i (PickEvent ty (Some data) # ps) =
     (if writes i then sse_event ty data # stream_loop writes (i + 1) ps else [])"
| "stream_loop writes i (PickHeartbeat # ps) =
     (if writes i then sse_comment ''ping'' # stream_loop writes (i + 1) ps else [])"

definition stream_frames :: "(nat \<Rightarrow> bool) \<Rightarrow> stream_pick list \<Rightarrow> string list" where
  "stream_frames writes ps = (if writes 0 then sse_comment ''connected'' # stream_loop writes 1 ps else [])"

text \<open>The report of a user named in the query; there is no session check on this route.\<close>

definition handleReport ::
    "(journal_filter \<Rightarrow> string + trade list) option \<Rightarrow> string \<Rightarrow> string \<Rightarrow> string \<Rightarrow> string \<Rightarrow> string + report" where
  "handleReport list_rows user mode strategy symbol =
     (case list_rows of
        None \<Rightarrow> Inl ''reporting is not enabled''
      | Some rows \<Rightarrow>
          journal_Report rows (no_filter\<lparr>f_ClosedOnly := True,
            f_UserID := (case atoi (trim_space user) of None \<Rightarrow> 0 | Some n \<Rightarrow> n),
            f_Mode := trim_space mode, f_Strategy := trim_space strategy, f_Symbol := trim_space symbol\<rparr>))"

section \<open>Credentials\<close>

datatype credential_reply =
    CredentialError int string | CredentialSaved | CredentialProfiles "profile_info list" | CredentialActive string | CredentialDeleted string

definition handleStoreCredential ::
    "(keyring \<times> 's cred_repo) option \<Rightarrow> (nat \<Rightarrow> string + string) \<Rightarrow> string \<Rightarrow> (string \<times> binance_keys) option \<Rightarrow> 's \<Rightarrow> credential_reply \<times> 's" where
  "handleStoreCredential svc nonces subject body s =
     (case svc of
        None \<Rightarrow> (CredentialError 501 ''credentials are not enabled (set CREDENTIAL_ENCRYPTION_KEY)'', s)
      | Some (kr, rp) \<Rightarrow>
          (case body of
             None \<Rightarrow> (CredentialError 400 ''invalid JSON body'', s)
           | Some (profile, keys) \<Rightarrow>
               (case StoreProfile kr rp nonces subject profile keys s of
                  (Some e, s) \<Rightarrow> (CredentialError 400 e, s) | (None, s) \<Rightarrow> (CredentialSaved, s))))"

definition handleGetCredential :: "(keyring \<times> 's cred_repo) option \<Rightarrow> string \<Rightarrow> 's \<Rightarrow> credential_reply" where
  "handleGetCredential svc subject s =
     (case svc of
        None \<Rightarrow> CredentialError 501 ''credentials are not enabled''
      | Some (kr, rp) \<Rightarrow>
          (case Profiles kr rp subject s of Inl _ \<Rightarrow> CredentialError 500 ''could not read credentials'' | Inr ps \<Rightarrow> CredentialProfiles ps))"

definition handleSetActiveCredential ::
    "(keyring \<times> 's cred_repo) option \<Rightarrow> string \<Rightarrow> string option \<Rightarrow> 's \<Rightarrow> credential_reply \<times> 's" where
  "handleSetActiveCredential svc subject body s =
     (case svc of
        None \<Rightarrow> (CredentialError 501 ''credentials are not enabled'', s)
      | Some (kr, rp) \<Rightarrow>
          (case body of
             None \<Rightarrow> (CredentialError 400 ''profile is required'', s)
           | Some profile \<Rightarrow>
               if trim_space profile = [] then (CredentialError 400 ''profile is required'', s)
               else (case service_SetActive rp subject profile s of
                       (Some _, s) \<Rightarrow> (CredentialError 500 ''could not set active profile'', s)
                     | (None, s) \<Rightarrow> (CredentialActive profile, s))))"

definition handleDeleteCredential ::
    "(keyring \<times> 's cred_repo) option \<Rightarrow> string \<Rightarrow> string \<Rightarrow> string \<Rightarrow> 's \<Rightarrow> credential_reply \<times> 's" where
  "handleDeleteCredential svc subject profile unnamed s =
     (case svc of
        None \<Rightarrow> (CredentialError 501 ''credentials are not enabled'', s)
      | Some (kr, rp) \<Rightarrow>
          let profile = trim_space profile
          in if profile = [] \<and> unnamed \<noteq> ''1'' then (CredentialError 400 ''profile query param is required'', s)
             else (case DeleteProfile rp subject profile s of
                     (Some _, s) \<Rightarrow> (CredentialError 500 ''could not delete profile'', s)
                   | (None, s) \<Rightarrow> (CredentialDeleted profile, s)))"

definition maskTail :: "string \<Rightarrow> string" where
  "maskTail s = (if length s \<le> 4 then ''****'' else ellipsis @ drop (length s - 4) s)"

section \<open>The webhook\<close>

record tradingview_payload =
  tv_Secret :: string
  tv_Source :: string
  tv_Symbol :: string
  tv_Ticker :: string
  tv_Interval :: string
  tv_Timeframe :: string
  tv_Price :: string
  tv_Close :: string
  tv_Strategy :: string
  tv_ActionHint :: string
  tv_Action :: string
  tv_SideHint :: string
  tv_Message :: string
  tv_Indicators :: "string \<Rightarrow> string option"

fun firstNonEmpty :: "string list \<Rightarrow> string" where
  "firstNonEmpty [] = []"
| "firstNonEmpty (v # vs) = (if trim_space v \<noteq> [] then v else firstNonEmpty vs)"

text \<open>The indicators are given as \<open>fmt.Sprint\<close> prints them.\<close>

definition payload_Signal :: "time \<Rightarrow> tradingview_payload \<Rightarrow> market_signal" where
  "payload_Signal now p =
     \<lparr>ms_Source = tv_Source p, ms_Symbol = firstNonEmpty [tv_Symbol p, tv_Ticker p],
      ms_Interval = firstNonEmpty [tv_Interval p, tv_Timeframe p], ms_Price = firstNonEmpty [tv_Price p, tv_Close p],
      ms_Strategy = tv_Strategy p, ms_ActionHint = firstNonEmpty [tv_ActionHint p, tv_Action p], ms_SideHint = tv_SideHint p,
      ms_Message = tv_Message p, ms_Indicators = Some (tv_Indicators p), ms_ReceivedAt = now\<rparr>"

datatype webhook_reply =
    WebhookDisabled | WebhookNoProcessor | WebhookBadPayload | WebhookUnauthorized | WebhookError decision_error | WebhookResult process_result

text \<open>The two headers come before the payload's own secret.\<close>

definition webhook_secret :: "string \<Rightarrow> string \<Rightarrow> tradingview_payload \<Rightarrow> string" where
  "webhook_secret h1 h2 p =
     (if trim_space h1 \<noteq> [] then trim_space h1 else if trim_space h2 \<noteq> [] then trim_space h2 else trim_space (tv_Secret p))"

definition handleTradingViewWebhook ::
    "bool \<Rightarrow> string \<Rightarrow> ('s, 'i, 'j, 'x) processor option \<Rightarrow> process_env \<Rightarrow> time \<Rightarrow> string \<Rightarrow> string \<Rightarrow> tradingview_payload option \<Rightarrow>
     signal_record list \<times> ('s, 'i, 'j, 'x) world \<Rightarrow> webhook_reply \<times> signal_record list \<times> ('s, 'i, 'j, 'x) world" where
  "handleTradingViewWebhook enabled secret processor env now h1 h2 body st =
     (if \<not> enabled then (WebhookDisabled, st)
      else case processor of
        None \<Rightarrow> (WebhookNoProcessor, st)
      | Some p \<Rightarrow>
          (case body of
             None \<Rightarrow> (WebhookBadPayload, st)
           | Some pl \<Rightarrow>
               if webhook_secret h1 h2 pl \<noteq> secret then (WebhookUnauthorized, st)
               else (case Process p env (payload_Signal now pl) st of
                       (Inl e, st) \<Rightarrow> (WebhookError e, st) | (Inr r, st) \<Rightarrow> (WebhookResult r, st))))"

section \<open>The routes that touch orders\<close>

record ('m, 'a, 'c, 's, 'i, 'j, 'x) web =
  wb_sv :: "('m, 'a, 'c, 's, 'i, 'j, 'x) mission_server"
  wb_console :: console
  wb_desk :: "'a ai_desk"
  wb_lib :: auth_lib
  wb_tokenizer :: "tokenizer option"
  wb_hookEnabled :: bool
  wb_hookSecret :: string
  wb_processor :: "('s, 'i, 'j, 'x) processor option"

record ('m, 'c, 's, 'i, 'j, 'x) web_world =
  ww_mission :: "('m, 'c, 's, 'i, 'j, 'x) mission_world"
  ww_signals :: "signal_record list"

text \<open>A request to one of them, with its decoded body; \<open>authorization\<close> is the header every request carries or lacks.\<close>

datatype web_request =
    CommandRequest "string option" | ConfirmRequest "(string \<times> bool) option" | HistoryRequest | PositionsRequest
  | ClosePositionRequest "string option" | PrepareRequest "goal_request option" | ArmedRequest | DisarmRequest "string option"
  | WebhookRequest string string "tradingview_payload option"

datatype web_answer =
    CommandAnswer command_reply | OrderAnswer web_reply | HistoryAnswer "string + report" | PositionsAnswer "position_view list" bool
  | MissionAnswer mission_reply | ArmedAnswer "string + armed list" | DisarmAnswer disarm_reply | WebhookAnswer webhook_reply

text \<open>The handler of a route, for the user of the session; the webhook has none.\<close>

definition in_orders ::
    "(('s, 'i, 'j, 'x) world \<Rightarrow> 'r \<times> ('s, 'i, 'j, 'x) world) \<Rightarrow> ('m, 'c, 's, 'i, 'j, 'x) mission_world \<Rightarrow> 'r \<times> ('m, 'c, 's, 'i, 'j, 'x) mission_world" where
  "in_orders f w = (case f (sw_orders (mw_server w)) of (r, ow) \<Rightarrow> (r, set_orders ow w))"

definition route ::
    "('m, 'a, 'c, 's, 'i, 'j, 'x) web \<Rightarrow> 'a arm_env \<Rightarrow> web_request \<Rightarrow> string \<Rightarrow> ('m, 'c, 's, 'i, 'j, 'x) mission_world \<Rightarrow>
     web_answer \<times> ('m, 'c, 's, 'i, 'j, 'x) mission_world" where
  "route wb env q subject w =
     (let sv = wb_sv wb; srv = msv_base sv in
      case q of
        CommandRequest body \<Rightarrow> apfst CommandAnswer (in_orders (handleCommand (wb_console wb) srv (av_call env) subject body) w)
      | ConfirmRequest body \<Rightarrow>
          (case handleConfirm srv (av_call env) subject body (mw_server w) of (r, s) \<Rightarrow> (OrderAnswer r, w\<lparr>mw_server := s\<rparr>))
      | HistoryRequest \<Rightarrow> (HistoryAnswer (handleHistory (co_report (wb_console wb)) subject), w)
      | PositionsRequest \<Rightarrow> (case handleGetPositions sv (av_access env 0) subject (sw_orders (mw_server w)) of (ps, e) \<Rightarrow> (PositionsAnswer ps e, w))
      | ClosePositionRequest body \<Rightarrow> apfst OrderAnswer (in_orders (handleClosePosition sv (av_access env 0) (av_call env) subject body) w)
      | PrepareRequest body \<Rightarrow> apfst MissionAnswer (handleMissionPrepare sv (wb_desk wb) env subject body w)
      | ArmedRequest \<Rightarrow> (ArmedAnswer (handleArmedMissions (msv_missions sv) subject (mw_missions w)), w)
      | DisarmRequest body \<Rightarrow>
          (case handleDisarmMission (msv_missions sv) subject body (en_now (av_call env) 0) (mw_missions w) of
             (r, m) \<Rightarrow> (DisarmAnswer r, w\<lparr>mw_missions := m\<rparr>))
      | WebhookRequest _ _ _ \<Rightarrow> (WebhookAnswer WebhookDisabled, w))"

text \<open>The webhook's route has no session check; every other one runs behind \<open>requireAuth\<close>.\<close>

definition web_step ::
    "('m, 'a, 'c, 's, 'i, 'j, 'x) web \<Rightarrow> 'a arm_env \<Rightarrow> process_env \<Rightarrow> time \<Rightarrow> string \<Rightarrow> web_request \<Rightarrow> ('m, 'c, 's, 'i, 'j, 'x) web_world \<Rightarrow>
     web_answer guarded \<times> ('m, 'c, 's, 'i, 'j, 'x) web_world" where
  "web_step wb env penv now authorization q w =
     (case q of
        WebhookRequest h1 h2 body \<Rightarrow>
          (case handleTradingViewWebhook (wb_hookEnabled wb) (wb_hookSecret wb) (wb_processor wb) penv now h1 h2 body
                  (ww_signals w, sw_orders (mw_server (ww_mission w))) of
             (r, recs, ow) \<Rightarrow> (Handled (WebhookAnswer r), w\<lparr>ww_signals := recs, ww_mission := set_orders ow (ww_mission w)\<rparr>))
      | _ \<Rightarrow>
          (case requireAuth (wb_lib wb) (wb_tokenizer wb) now authorization (\<lambda>c. route wb env q (cl_Subject c)) (ww_mission w) of
             (r, m) \<Rightarrow> (r, w\<lparr>ww_mission := m\<rparr>)))"

section \<open>Who can trade over HTTP\<close>

lemma process_needs_auto:
  assumes "w_exch (snd (snd (Process p env sig (recs, w)))) \<noteq> w_exch w"
  shows "ps_autoTrade p"
proof (rule ccontr)
  assume n: "\<not> ps_autoTrade p"
  have "w_exch (snd (snd (process_intent p env r i (recs, w)))) = w_exch w" for r i using process_intent_acts [of p env r i recs w] n by blast
  then have "w_exch (snd (snd (Process p env sig (recs, w)))) = w_exch w"
    by (auto simp: Process_def Let_def split: option.splits sum.splits)
  then show False using assms by simp
qed

lemma webhook_acts:
  assumes "w_exch (snd (snd (handleTradingViewWebhook en secret pr env now h1 h2 body (recs, w)))) \<noteq> w_exch w"
  shows "\<exists>pl p. en \<and> body = Some pl \<and> webhook_secret h1 h2 pl = secret \<and> pr = Some p \<and> ps_autoTrade p"
proof -
  note d = handleTradingViewWebhook_def
  have en: en using assms by (cases en) (simp_all add: d)
  obtain p where p: "pr = Some p" using assms en by (cases pr) (simp_all add: d)
  obtain pl where b: "body = Some pl" using assms en p by (cases body) (simp_all add: d)
  have s: "webhook_secret h1 h2 pl = secret" using assms en p b by (cases "webhook_secret h1 h2 pl = secret") (simp_all add: d)
  have "w_exch (snd (snd (Process p env (payload_Signal now pl) (recs, w)))) \<noteq> w_exch w"
    using assms en p b s by (auto simp: d split: prod.splits sum.splits)
  then show ?thesis using en p b s process_needs_auto by blast
qed

lemma handleClosePosition_exch: "w_exch (snd (handleClosePosition sv a env subject body w)) = w_exch w"
  by (auto simp: handleClosePosition_def review_def web_Prepare_def Let_def split: option.splits prod.splits sum.splits dest!: prepare_exch')

lemma in_orders_exch: "w_exch (snd (f (sw_orders (mw_server w)))) = w_exch (sw_orders (mw_server w)) \<Longrightarrow> mw_exch (snd (in_orders f w)) = mw_exch w"
  by (cases "f (sw_orders (mw_server w))") (simp add: in_orders_def set_orders_def)

text \<open>Behind the session check, only the confirm route changes the exchange.\<close>

lemma route_acts:
  assumes "mw_exch (snd (route wb env q subject w)) \<noteq> mw_exch w"
  shows "\<exists>body. q = ConfirmRequest body \<and>
    w_exch (sw_orders (snd (handleConfirm (msv_base (wb_sv wb)) (av_call env) subject body (mw_server w)))) \<noteq> mw_exch w"
proof (cases q)
  case (CommandRequest body)
  have "mw_exch (snd (in_orders (handleCommand (wb_console wb) (msv_base (wb_sv wb)) (av_call env) subject body) w)) = mw_exch w"
    by (rule in_orders_exch) (rule handleCommand_exch)
  then show ?thesis using assms CommandRequest by (simp add: route_def)
next
  case (ClosePositionRequest body)
  have "mw_exch (snd (in_orders (handleClosePosition (wb_sv wb) (av_access env 0) (av_call env) subject body) w)) = mw_exch w"
    by (rule in_orders_exch) (rule handleClosePosition_exch)
  then show ?thesis using assms ClosePositionRequest by (simp add: route_def)
next
  case (PrepareRequest body)
  then show ?thesis using assms handleMissionPrepare_frame [of "wb_sv wb" "wb_desk wb" env subject body w] by (simp add: route_def)
qed (use assms in \<open>auto simp: route_def split: prod.splits\<close>)

lemma requireAuth_acts:
  assumes "snd (requireAuth lib tok now authorization h w) \<noteq> w"
  shows "\<exists>t c. tok = Some t \<and> Verify lib t now (bearerToken authorization) = Inr c \<and> snd (requireAuth lib tok now authorization h w) = snd (h c w)"
  using assms by (auto simp: requireAuth_def split: option.splits sum.splits prod.splits)

text \<open>C2. Nothing on the web trades without a secret. A request to any of these routes, with any header, changes the exchange
  only in one of two ways: it confirms, with an unexpired token that the server's own key has signed, an unexpired
  confirmation of the user that token names; or it is a TradingView alert that carries the configured secret, while
  the webhook and automatic trading are on.\<close>

theorem web_trades_need_secret:
  assumes "mw_exch (ww_mission (snd (web_step wb env penv now authorization q w))) \<noteq> mw_exch (ww_mission w)"
    and "srv_orders (msv_base (wb_sv wb)) = Some svc" and "confirmation_store (sv_store svc) purge avail core"
  shows "(\<exists>k tk c u cf. q = ConfirmRequest (Some (k, False)) \<and> wb_tokenizer wb = Some tk \<and>
            signed_token (wb_lib wb) tk (bearerToken authorization) c \<and> unix now < cl_ExpiresAt c \<and> webUserID (cl_Subject c) = Some u \<and>
            fst (cs_Take (sv_store svc) u k (en_clk (av_call env) 0 0) (w_store (sw_orders (mw_server (ww_mission w))))) = Inr (TakenToExecute cf) \<and>
            c_UserID cf = u \<and> en_clk (av_call env) 0 0 < c_ExpiresAt cf) \<or>
    (\<exists>h1 h2 pl p. q = WebhookRequest h1 h2 (Some pl) \<and> wb_hookEnabled wb \<and> webhook_secret h1 h2 pl = wb_hookSecret wb \<and>
            wb_processor wb = Some p \<and> ps_autoTrade p)"
proof (cases "\<exists>h1 h2 body. q = WebhookRequest h1 h2 body")
  case True
  then obtain h1 h2 body where q: "q = WebhookRequest h1 h2 body" by blast
  have "w_exch (snd (snd (handleTradingViewWebhook (wb_hookEnabled wb) (wb_hookSecret wb) (wb_processor wb) penv now h1 h2 body
      (ww_signals w, sw_orders (mw_server (ww_mission w)))))) \<noteq> w_exch (sw_orders (mw_server (ww_mission w)))"
    using assms(1) by (auto simp: q web_step_def set_orders_def split: prod.splits)
  from webhook_acts [OF this] q show ?thesis by blast
next
  case False
  let ?m = "ww_mission w" and ?env = "av_call env"
  define h where "h = (\<lambda>c :: claims. route wb env q (cl_Subject c))"
  have st: "ww_mission (snd (web_step wb env penv now authorization q w)) = snd (requireAuth (wb_lib wb) (wb_tokenizer wb) now authorization h ?m)"
    using False by (auto simp: web_step_def h_def split: web_request.splits prod.splits)
  then have "snd (requireAuth (wb_lib wb) (wb_tokenizer wb) now authorization h ?m) \<noteq> ?m" using assms(1) by auto
  from requireAuth_acts [OF this] obtain tk c where tk: "wb_tokenizer wb = Some tk"
    and v: "Verify (wb_lib wb) tk now (bearerToken authorization) = Inr c"
    and r: "snd (requireAuth (wb_lib wb) (wb_tokenizer wb) now authorization h ?m) = snd (route wb env q (cl_Subject c) ?m)"
    by (auto simp: h_def)
  from route_acts [of wb env q "cl_Subject c" ?m] assms(1) st r obtain body where q: "q = ConfirmRequest body"
    and ch: "w_exch (sw_orders (snd (handleConfirm (msv_base (wb_sv wb)) ?env (cl_Subject c) body (mw_server ?m)))) \<noteq> mw_exch ?m" by auto
  from handleConfirm_confirms [OF ch] assms(2) obtain k u where k: "body = Some (k, False)" "webUserID (cl_Subject c) = Some u"
    and e: "w_exch (snd (confirm svc (en_clk ?env 0) u k (armedMissionRuntimeAllowed (srv_gate (msv_base (wb_sv wb)))) (sw_orders (mw_server ?m)))) \<noteq> mw_exch ?m"
    using ch by auto
  from confirm_took [OF e] obtain cf s' where t:
    "cs_Take (sv_store svc) u k (en_clk ?env 0 0) (w_store (sw_orders (mw_server ?m))) = (Inr (TakenToExecute cf), s')" by blast
  from confirmation_store.take_out [OF assms(3) t] t tk q k v show ?thesis by (auto simp: Verify_iff)
qed

text \<open>A signed-in user confirms his order.\<close>

definition ex_web :: "(mem_missions, mem_access, mem_closes, mem_store, unit, mem_journal, confirmation list) web" where
  "ex_web = \<lparr>wb_sv = ex_msv, wb_console = \<lparr>co_provider = MockProvider no_funding no_open_interest no_long_short no_taker_flow None, co_period = [],
     co_closes = (\<lambda>_ _ _. Inr []), co_report = None, co_maxLeverage = 20, co_goalError = (\<lambda>_. [])\<rparr>, wb_desk = mission_desk, wb_lib = ex_lib,
     wb_tokenizer = Some ex_tokenizer, wb_hookEnabled = False, wb_hookSecret = [], wb_processor = None\<rparr>"

definition ex_web_world :: "(mem_missions, mem_closes, mem_store, unit, mem_journal, confirmation list) web_world" where
  "ex_web_world = \<lparr>ww_mission = ex_mworld\<lparr>mw_server := web_sworld\<rparr>, ww_signals = []\<rparr>"

definition ex_header :: string where
  "ex_header = ''bearer '' @ the (Issue ex_lib ex_tokenizer unix_epoch ''tg:7'' ''ann'' ''user'')"

definition ex_web_env :: "mem_access arm_env" where "ex_web_env = mission_env\<lparr>av_call := web_env\<rparr>"

definition ex_claims :: claims where
  "ex_claims = \<lparr>cl_Subject = ''tg:7'', cl_Username = ''ann'', cl_Role = ''user'', cl_IssuedAt = 0, cl_ExpiresAt = 86400\<rparr>"

lemma ex_header_verifies: "Verify ex_lib ex_tokenizer (unix_epoch + 5) (bearerToken ex_header) = Inr ex_claims"
  by code_simp

lemma web_confirm_trades:
  "length (mw_exch (ww_mission (snd (web_step ex_web ex_web_env ex_process_env (unix_epoch + 5) ex_header (ConfirmRequest (Some (''k1'', False))) ex_web_world)))) = 1"
proof -
  let ?h = "handleConfirm ex_server web_env ''tg:7'' (Some (''k1'', False)) web_sworld"
  obtain r s where h: "?h = (r, s)" by (cases ?h)
  have "msv_base (wb_sv ex_web) = ex_server" by (simp add: ex_web_def ex_msv_def)
  then show ?thesis using web_confirm_sends ex_header_verifies h
    by (simp add: web_step_def requireAuth_def route_def ex_web_def ex_web_env_def ex_web_world_def ex_claims_def)
qed

theorem web_trades_need_secret_witness:
  "\<exists>c u. signed_token ex_lib ex_tokenizer (bearerToken ex_header) c \<and> unix (unix_epoch + 5) < cl_ExpiresAt c \<and> webUserID (cl_Subject c) = Some u"
proof -
  have ne: "mw_exch (ww_mission (snd (web_step ex_web ex_web_env ex_process_env (unix_epoch + 5) ex_header (ConfirmRequest (Some (''k1'', False))) ex_web_world)))
      \<noteq> mw_exch (ww_mission ex_web_world)"
    using web_confirm_trades by (auto simp: ex_web_world_def web_sworld_def ex_sworld_def)
  have b: "srv_orders (msv_base (wb_sv ex_web)) = Some web_service"
    using web_service_of by (simp add: ex_web_def ex_msv_def)
  have st: "confirmation_store (sv_store web_service) (\<lambda>_ _. False) mem_avail mem_core"
    unfolding web_service_of by (rule mem_conf.confirmation_store_axioms)
  from web_trades_need_secret [OF ne b st] show ?thesis by (auto simp: ex_web_def)
qed

end
