(* ===== verification/Config.thy ===== *)
theory Config
  imports Sessions
begin

text \<open>
  \<open>internal/config\<close> (\<open>config.go\<close>, \<open>dotenv.go\<close>): the settings from the environment and the \<open>.env\<close> file, and the rules a set of
  settings must pass before anything starts. The environment is a function from names to texts; \<open>url.Parse\<close> is known by
  the scheme and host it finds, \<open>json.Unmarshal\<close> by what it reads of the AI panel, and the file system by its contents.
\<close>

section \<open>Settings\<close>

record app_config =
  cfa_Env :: string
  cfa_LogLevel :: string
  cfa_DryRun :: bool
  cfa_RealTradingEnabled :: bool
  cfa_OrderSizingMode :: string
  cfa_DefaultMarginMode :: string
  cfa_MaxLeverage :: int
  cfa_ConfirmationTTL :: duration
  cfa_TrailActivatePct :: string
  cfa_TrailGapPct :: string
  cfa_RealtimeEnabled :: bool
  cfa_RealtimePollSeconds :: int
  cfa_CampaignLiveEnabled :: bool
  cfa_AccessOpen :: bool
  cfa_PrivateBeta :: bool

record telegram_config =
  cft_BotToken :: string
  cft_BotUsername :: string
  cft_AdminUserID :: int
  cft_AllowedUserIDs :: "int list"
  cft_Mode :: string
  cft_PublicWebhookURL :: string
  cft_WebAppURL :: string
  cft_PollingBackoffMin :: duration
  cft_PollingBackoffMax :: duration

record http_config =
  cfh_Addr :: string
  cfh_Enabled :: bool
  cfh_StatusToken :: string

record binance_config =
  cfb_APIKey :: string
  cfb_APISecret :: string
  cfb_Testnet :: bool
  cfb_FuturesBaseURL :: string
  cfb_RequestTimeout :: duration
  cfb_ExchangeInfoCacheTTL :: duration

record tradingview_config =
  cfv_Enabled :: bool
  cfv_WebhookSecret :: string

record ai_provider =
  aip_Name :: string
  aip_Provider :: string
  aip_APIKey :: string
  aip_BaseURL :: string
  aip_Model :: string

record ai_settings =
  cfi_Enabled :: bool
  cfi_Provider :: string
  cfi_APIKey :: string
  cfi_BaseURL :: string
  cfi_Model :: string
  cfi_SystemPrompt :: string
  cfi_RequestTimeout :: duration
  cfi_MinConfidencePercent :: int
  cfi_AutoTradeEnabled :: bool
  cfi_Providers :: "ai_provider list"
  cfi_EnsemblePolicy :: string
  cfi_EnsembleMinVotes :: int
  cfi_MarketDataEnabled :: bool
  cfi_MarketDataBaseURL :: string
  cfi_MarketDataPeriod :: string
  cfi_KlineInterval :: string
  cfi_FearGreedEnabled :: bool
  cfi_FearGreedBaseURL :: string
  cfi_NewsAPIKey :: string
  cfi_NewsBaseURL :: string

record mongodb_config =
  cfm_URI :: string
  cfm_Database :: string

record stripe_config =
  cfs_SecretKey :: string
  cfs_WebhookSecret :: string
  cfs_PriceID :: string
  cfs_Enabled :: bool

record s3_config =
  cf3_Endpoint :: string
  cf3_Region :: string
  cf3_Bucket :: string
  cf3_AccessKeyID :: string
  cf3_SecretAccessKey :: string
  cf3_ForcePathStyle :: bool
  cf3_Enabled :: bool

record auth_config =
  cfu_EncryptionKeyID :: string
  cfu_EncryptionKey :: string
  cfu_Enabled :: bool
  cfu_TokenSecret :: string
  cfu_TokenTTL :: duration

record email_config =
  cfe_ResendAPIKey :: string
  cfe_From :: string

record config =
  cfg_App :: app_config
  cfg_Telegram :: telegram_config
  cfg_HTTP :: http_config
  cfg_Binance :: binance_config
  cfg_TradingView :: tradingview_config
  cfg_AI :: ai_settings
  cfg_MongoDB :: mongodb_config
  cfg_Stripe :: stripe_config
  cfg_S3 :: s3_config
  cfg_Auth :: auth_config
  cfg_Email :: email_config

section \<open>Reading one setting\<close>

text \<open>Each reader gives the value and the problems it reports.\<close>

type_synonym lookup = "string \<Rightarrow> string option"
type_synonym 'a read = "'a \<times> string list"

text \<open>A setting that is missing or blank counts as not set.\<close>

definition setting :: "lookup \<Rightarrow> string \<Rightarrow> string option" where
  "setting lk name = (case lk name of None \<Rightarrow> None | Some raw \<Rightarrow> if trim_space raw = [] then None else Some raw)"

definition env_string :: "lookup \<Rightarrow> string \<Rightarrow> string \<Rightarrow> string" where
  "env_string lk name fallback = (case setting lk name of None \<Rightarrow> fallback | Some raw \<Rightarrow> trim_space raw)"

text \<open>\<open>strconv.ParseBool\<close>.\<close>

definition ParseBool :: "string \<Rightarrow> bool option" where
  "ParseBool s =
     (if s \<in> {''1'', ''t'', ''T'', ''TRUE'', ''true'', ''True''} then Some True
      else if s \<in> {''0'', ''f'', ''F'', ''FALSE'', ''false'', ''False''} then Some False else None)"

text \<open>A setting that has to be parsed: with a problem and the fallback when it cannot be.\<close>

definition env_parsed :: "(string \<Rightarrow> 'a option) \<Rightarrow> string \<Rightarrow> lookup \<Rightarrow> string \<Rightarrow> 'a \<Rightarrow> 'a read" where
  "env_parsed parse complaint lk name fallback =
     (case setting lk name of
        None \<Rightarrow> (fallback, [])
      | Some raw \<Rightarrow> (case parse raw of None \<Rightarrow> (fallback, [name @ complaint]) | Some v \<Rightarrow> (v, [])))"

definition env_bool :: "lookup \<Rightarrow> string \<Rightarrow> bool \<Rightarrow> bool read" where
  "env_bool = env_parsed (\<lambda>raw. ParseBool (trim_space raw)) '' must be a boolean''"

definition env_int :: "lookup \<Rightarrow> string \<Rightarrow> int \<Rightarrow> int read" where
  "env_int = env_parsed (\<lambda>raw. atoi (trim_space raw)) '' must be an integer''"

text \<open>The product with a second wraps around.\<close>

definition wrap_int64 :: "int \<Rightarrow> int" where
  "wrap_int64 n = (n + 2 ^ 63) mod 2 ^ 64 - 2 ^ 63"

definition env_seconds :: "lookup \<Rightarrow> string \<Rightarrow> duration \<Rightarrow> duration read" where
  "env_seconds =
     env_parsed (\<lambda>raw. map_option (\<lambda>n. wrap_int64 (seconds n)) (atoi (trim_space raw))) '' must be an integer number of seconds''"

definition env_aiProviders :: "(string \<Rightarrow> ai_provider list option) \<Rightarrow> lookup \<Rightarrow> string \<Rightarrow> ai_provider list read" where
  "env_aiProviders json lk name = env_parsed json '' must be a JSON array of {name,provider,api_key,base_url,model}'' lk name []"

text \<open>\<open>base64.StdEncoding\<close>: padded to groups of four, line breaks skipped.\<close>

definition std_b64_val :: "char \<Rightarrow> nat option" where
  "std_b64_val c =
     (if c = CHR ''+'' then Some 62 else if c = CHR ''/'' then Some 63 else if c = CHR ''-'' \<or> c = CHR ''_'' then None else b64_val c)"

definition std_b64_decode :: "string \<Rightarrow> string option" where
  "std_b64_decode text1 =
     (let s = filter (\<lambda>c. c \<noteq> CHR 0x0A \<and> c \<noteq> CHR 0x0D) text1; body = trim_right_char (CHR ''='') s
      in if length s mod 4 \<noteq> 0 \<or> length s - length body > 2 then None
         else (case those (map std_b64_val body) of None \<Rightarrow> None | Some ns \<Rightarrow> map_option (map char_of) (b64_octets ns)))"

definition env_base64 :: "lookup \<Rightarrow> string \<Rightarrow> string read" where
  "env_base64 lk name = env_parsed (\<lambda>raw. std_b64_decode (trim_space raw)) '' must be valid base64'' lk name []"

definition positive_id :: "string \<Rightarrow> int option" where
  "positive_id s = (case atoi (trim_space s) of None \<Rightarrow> None | Some n \<Rightarrow> if n \<le> 0 then None else Some n)"

definition env_userID :: "lookup \<Rightarrow> string \<Rightarrow> int read" where
  "env_userID lk name = env_parsed positive_id '' must be a positive Telegram user id'' lk name 0"

fun user_ids :: "string \<Rightarrow> int list \<Rightarrow> string list \<Rightarrow> int list read" where
  "user_ids name seen [] = ([], [])"
| "user_ids name seen (part # parts) =
     (if trim_space part = [] then apsnd ((#) (name @ '' contains an empty user id'')) (user_ids name seen parts)
      else case positive_id part of
             None \<Rightarrow> apsnd ((#) (name @ '' contains an invalid user id'')) (user_ids name seen parts)
           | Some n \<Rightarrow> if n \<in> set seen then user_ids name seen parts else apfst ((#) n) (user_ids name (n # seen) parts))"

definition env_userIDs :: "lookup \<Rightarrow> string \<Rightarrow> int list read" where
  "env_userIDs lk name = (case setting lk name of None \<Rightarrow> ([], []) | Some raw \<Rightarrow> user_ids name [] (split_on (CHR '','') raw))"

definition anySet :: "string list \<Rightarrow> bool" where
  "anySet values = list_ex (\<lambda>v. trim_space v \<noteq> []) values"

section \<open>Reading all of them\<close>

definition load_app :: "lookup \<Rightarrow> app_config read" where
  "load_app lk =
     (let access = env_bool lk ''ACCESS_OPEN'' False; free = env_bool lk ''FREE_SUB_OPEN'' (fst access);
          beta = env_bool lk ''PRIVATE_BETA'' True; dry = env_bool lk ''DRY_RUN'' True; real = env_bool lk ''REAL_TRADING_ENABLED'' False;
          leverage = env_int lk ''MAX_LEVERAGE'' 20; ttl = env_seconds lk ''CONFIRMATION_TTL_SECONDS'' (seconds 300);
          realtime = env_bool lk ''REALTIME_ENABLED'' True; poll = env_int lk ''REALTIME_POLL_SECONDS'' 3;
          campaign = env_bool lk ''CAMPAIGN_LIVE_ENABLED'' False
      in (\<lparr>cfa_Env = env_string lk ''APP_ENV'' ''local'', cfa_LogLevel = to_lower (env_string lk ''LOG_LEVEL'' ''info''),
           cfa_DryRun = fst dry, cfa_RealTradingEnabled = fst real,
           cfa_OrderSizingMode = to_lower (env_string lk ''ORDER_SIZING_MODE'' ''explicit''),
           cfa_DefaultMarginMode = to_lower (env_string lk ''DEFAULT_MARGIN_MODE'' ''isolated''),
           cfa_MaxLeverage = fst leverage, cfa_ConfirmationTTL = fst ttl, cfa_TrailActivatePct = env_string lk ''TRAIL_ACTIVATE_PCT'' [],
           cfa_TrailGapPct = env_string lk ''TRAIL_GAP_PCT'' [], cfa_RealtimeEnabled = fst realtime, cfa_RealtimePollSeconds = fst poll,
           cfa_CampaignLiveEnabled = fst campaign, cfa_AccessOpen = fst free, cfa_PrivateBeta = fst beta\<rparr>,
          snd access @ snd free @ snd beta @ snd dry @ snd real @ snd leverage @ snd ttl @ snd realtime @ snd poll @ snd campaign))"

definition load_telegram :: "lookup \<Rightarrow> telegram_config read" where
  "load_telegram lk =
     (let admin1 = env_userID lk ''TELEGRAM_ADMIN_USER_ID'';
          admin2 = (if fst admin1 = 0 then env_userID lk ''TELEGRAM_ALLOWED_USER_ID'' else (fst admin1, []));
          allowed = env_userIDs lk ''TELEGRAM_ALLOWED_USER_IDS'';
          admin = (if fst admin2 = 0 \<and> fst allowed \<noteq> [] then hd (fst allowed) else fst admin2);
          least = env_seconds lk ''TELEGRAM_POLLING_BACKOFF_MIN_SECONDS'' (seconds 1);
          most = env_seconds lk ''TELEGRAM_POLLING_BACKOFF_MAX_SECONDS'' (seconds 30)
      in (\<lparr>cft_BotToken = env_string lk ''TELEGRAM_BOT_TOKEN'' [], cft_BotUsername = trim_prefix (env_string lk ''TELEGRAM_BOT_USERNAME'' []) ''@'',
           cft_AdminUserID = admin, cft_AllowedUserIDs = fst allowed, cft_Mode = to_lower (env_string lk ''TELEGRAM_MODE'' ''polling''),
           cft_PublicWebhookURL = env_string lk ''PUBLIC_WEBHOOK_URL'' [], cft_WebAppURL = env_string lk ''WEBAPP_URL'' [],
           cft_PollingBackoffMin = fst least, cft_PollingBackoffMax = fst most\<rparr>,
          snd admin1 @ snd admin2 @ snd allowed @ snd least @ snd most))"

definition load_http :: "lookup \<Rightarrow> http_config read" where
  "load_http lk =
     (let enabled = env_bool lk ''HTTP_ENABLED'' False
      in (\<lparr>cfh_Addr = env_string lk ''HTTP_ADDR'' '':8080'', cfh_Enabled = fst enabled, cfh_StatusToken = env_string lk ''HTTP_STATUS_TOKEN'' []\<rparr>,
          snd enabled))"

definition load_binance :: "lookup \<Rightarrow> binance_config read" where
  "load_binance lk =
     (let testnet = env_bool lk ''BINANCE_TESTNET'' True; url = env_string lk ''BINANCE_FUTURES_BASE_URL'' [];
          url = (if url = [] then (if fst testnet then ''https://demo-fapi.binance.com'' else ''https://fapi.binance.com'') else url);
          timeout = env_seconds lk ''BINANCE_REQUEST_TIMEOUT_SECONDS'' (seconds 10); ttl = env_seconds lk ''EXCHANGE_INFO_CACHE_TTL_SECONDS'' (seconds 900)
      in (\<lparr>cfb_APIKey = env_string lk ''BINANCE_API_KEY'' [], cfb_APISecret = env_string lk ''BINANCE_API_SECRET'' [], cfb_Testnet = fst testnet,
           cfb_FuturesBaseURL = url, cfb_RequestTimeout = fst timeout, cfb_ExchangeInfoCacheTTL = fst ttl\<rparr>,
          snd testnet @ snd timeout @ snd ttl))"

definition load_tradingview :: "lookup \<Rightarrow> tradingview_config read" where
  "load_tradingview lk =
     (let secret = env_string lk ''TRADINGVIEW_WEBHOOK_SECRET'' []; enabled = env_bool lk ''TRADINGVIEW_ENABLED'' (anySet [secret])
      in (\<lparr>cfv_Enabled = fst enabled, cfv_WebhookSecret = secret\<rparr>, snd enabled))"

definition load_ai :: "(string \<Rightarrow> ai_provider list option) \<Rightarrow> lookup \<Rightarrow> ai_settings read" where
  "load_ai json lk =
     (let provider = to_lower (env_string lk ''AI_PROVIDER'' ''disabled''); key = env_string lk ''AI_API_KEY'' [];
          url = env_string lk ''AI_BASE_URL'' ''https://api.openai.com/v1'';
          url = (if provider = ''anthropic'' \<and> url = ''https://api.openai.com/v1'' then ''https://api.anthropic.com/v1'' else url);
          model = env_string lk ''AI_MODEL'' []; timeout = env_seconds lk ''AI_REQUEST_TIMEOUT_SECONDS'' (seconds 20);
          confidence = env_int lk ''AI_MIN_CONFIDENCE_PERCENT'' 70; auto1 = env_bool lk ''AI_AUTOTRADE_ENABLED'' False;
          enabled = env_bool lk ''AI_ENABLED'' (provider \<noteq> ''disabled'' \<or> anySet [key, model]);
          providers = env_aiProviders json lk ''AI_PROVIDERS''; votes = env_int lk ''AI_ENSEMBLE_MIN_VOTES'' 0;
          on = (fst providers \<noteq> [] \<or> fst enabled); data = env_bool lk ''MARKETDATA_ENABLED'' on; fear = env_bool lk ''FEAR_GREED_ENABLED'' (fst data)
      in (\<lparr>cfi_Enabled = on, cfi_Provider = provider, cfi_APIKey = key, cfi_BaseURL = url, cfi_Model = model,
           cfi_SystemPrompt = env_string lk ''AI_SYSTEM_PROMPT'' [], cfi_RequestTimeout = fst timeout, cfi_MinConfidencePercent = fst confidence,
           cfi_AutoTradeEnabled = fst auto1, cfi_Providers = fst providers, cfi_EnsemblePolicy = to_lower (env_string lk ''AI_ENSEMBLE_POLICY'' []),
           cfi_EnsembleMinVotes = fst votes, cfi_MarketDataEnabled = fst data,
           cfi_MarketDataBaseURL = env_string lk ''MARKETDATA_BASE_URL'' ''https://fapi.binance.com'',
           cfi_MarketDataPeriod = env_string lk ''MARKETDATA_PERIOD'' ''5m'', cfi_KlineInterval = env_string lk ''MARKETDATA_KLINE_INTERVAL'' ''1h'',
           cfi_FearGreedEnabled = fst fear, cfi_FearGreedBaseURL = env_string lk ''FEAR_GREED_BASE_URL'' ''https://api.alternative.me'',
           cfi_NewsAPIKey = env_string lk ''NEWS_API_KEY'' [], cfi_NewsBaseURL = env_string lk ''NEWS_API_BASE_URL'' []\<rparr>,
          snd timeout @ snd confidence @ snd auto1 @ snd enabled @ snd providers @ snd votes @ snd data @ snd fear))"

definition load_mongodb :: "lookup \<Rightarrow> mongodb_config" where
  "load_mongodb lk = \<lparr>cfm_URI = env_string lk ''MONGODB_URI'' [], cfm_Database = env_string lk ''MONGODB_DATABASE'' ''tradebot''\<rparr>"

definition load_stripe :: "lookup \<Rightarrow> stripe_config" where
  "load_stripe lk =
     (let key = env_string lk ''STRIPE_SECRET_KEY'' []; secret = env_string lk ''STRIPE_WEBHOOK_SECRET'' []; price = env_string lk ''STRIPE_PRICE_ID'' []
      in \<lparr>cfs_SecretKey = key, cfs_WebhookSecret = secret, cfs_PriceID = price, cfs_Enabled = anySet [key, secret, price]\<rparr>)"

definition load_s3 :: "lookup \<Rightarrow> s3_config read" where
  "load_s3 lk =
     (let endpoint = env_string lk ''S3_ENDPOINT'' []; region = env_string lk ''S3_REGION'' []; bucket = env_string lk ''S3_BUCKET'' [];
          key = env_string lk ''S3_ACCESS_KEY_ID'' []; secret = env_string lk ''S3_SECRET_ACCESS_KEY'' []; path = env_bool lk ''S3_FORCE_PATH_STYLE'' False
      in (\<lparr>cf3_Endpoint = endpoint, cf3_Region = region, cf3_Bucket = bucket, cf3_AccessKeyID = key, cf3_SecretAccessKey = secret,
           cf3_ForcePathStyle = fst path, cf3_Enabled = anySet [endpoint, region, bucket, key, secret]\<rparr>, snd path))"

definition load_auth :: "lookup \<Rightarrow> auth_config read" where
  "load_auth lk =
     (let key = env_base64 lk ''CREDENTIAL_ENCRYPTION_KEY''; secret = env_base64 lk ''AUTH_JWT_SECRET'';
          ttl = env_seconds lk ''AUTH_JWT_TTL_SECONDS'' (hours 24)
      in (\<lparr>cfu_EncryptionKeyID = env_string lk ''CREDENTIAL_ENCRYPTION_KEY_ID'' ''v1'', cfu_EncryptionKey = fst key,
           cfu_Enabled = (fst key \<noteq> []), cfu_TokenSecret = fst secret, cfu_TokenTTL = fst ttl\<rparr>,
          snd key @ snd secret @ snd ttl))"

definition load_email :: "lookup \<Rightarrow> email_config" where
  "load_email lk = \<lparr>cfe_ResendAPIKey = env_string lk ''RESEND_API_KEY'' [], cfe_From = env_string lk ''EMAIL_FROM'' []\<rparr>"

definition load_config :: "(string \<Rightarrow> ai_provider list option) \<Rightarrow> lookup \<Rightarrow> config read" where
  "load_config json lk =
     (\<lparr>cfg_App = fst (load_app lk), cfg_Telegram = fst (load_telegram lk), cfg_HTTP = fst (load_http lk), cfg_Binance = fst (load_binance lk),
       cfg_TradingView = fst (load_tradingview lk), cfg_AI = fst (load_ai json lk), cfg_MongoDB = load_mongodb lk, cfg_Stripe = load_stripe lk,
       cfg_S3 = fst (load_s3 lk), cfg_Auth = fst (load_auth lk), cfg_Email = load_email lk\<rparr>,
      snd (load_app lk) @ snd (load_telegram lk) @ snd (load_http lk) @ snd (load_binance lk) @ snd (load_tradingview lk) @
      snd (load_ai json lk) @ snd (load_s3 lk) @ snd (load_auth lk))"

section \<open>The rules\<close>

text \<open>\<open>url v\<close> is the scheme and the host \<open>url.Parse\<close> finds in a text, \<open>None\<close> when it fails.\<close>

type_synonym url_parser = "string \<Rightarrow> (string \<times> string) option"

definition validHTTPURL :: "url_parser \<Rightarrow> string \<Rightarrow> bool" where
  "validHTTPURL url v = (case url v of None \<Rightarrow> False | Some (scheme, host) \<Rightarrow> host \<noteq> [] \<and> (scheme = ''http'' \<or> scheme = ''https''))"

definition validMongoURI :: "url_parser \<Rightarrow> string \<Rightarrow> bool" where
  "validMongoURI url v = (case url v of None \<Rightarrow> False | Some (scheme, host) \<Rightarrow> host \<noteq> [] \<and> (scheme = ''mongodb'' \<or> scheme = ''mongodb+srv''))"

definition problem_if :: "bool \<Rightarrow> string \<Rightarrow> string list" where
  "problem_if b t = (if b then [t] else [])"

definition requireNonEmpty :: "string \<Rightarrow> string \<Rightarrow> string list" where
  "requireNonEmpty field1 v = problem_if (trim_space v = []) (field1 @ '' is required'')"

lemma problem_if_Nil [simp]: "problem_if b t = [] \<longleftrightarrow> \<not> b"
  by (simp add: problem_if_def)

lemma requireNonEmpty_Nil [simp]: "requireNonEmpty f v = [] \<longleftrightarrow> trim_space v \<noteq> []"
  by (simp add: requireNonEmpty_def)

definition validate_app :: "app_config \<Rightarrow> string list" where
  "validate_app a =
     problem_if (cfa_LogLevel a \<notin> {''debug'', ''info'', ''warn'', ''error''}) ''LOG_LEVEL must be one of debug, info, warn, error'' @
     problem_if (cfa_OrderSizingMode a \<noteq> ''explicit'') ''ORDER_SIZING_MODE must be explicit in Phase 1'' @
     problem_if (cfa_DefaultMarginMode a \<noteq> ''isolated'') ''DEFAULT_MARGIN_MODE must be isolated in Phase 1'' @
     problem_if (cfa_MaxLeverage a < 1 \<or> cfa_MaxLeverage a > 125) ''MAX_LEVERAGE must be between 1 and 125'' @
     problem_if (cfa_ConfirmationTTL a \<le> 0) ''CONFIRMATION_TTL_SECONDS must be greater than 0''"

definition validate_telegram :: "url_parser \<Rightarrow> config \<Rightarrow> string list" where
  "validate_telegram url cfg =
     (let t = cfg_Telegram cfg; hook = (cft_Mode t = ''webhook'')
      in problem_if (cft_Mode t \<notin> {''polling'', ''webhook''}) ''TELEGRAM_MODE must be polling or webhook'' @
         problem_if (hook \<and> \<not> validHTTPURL url (cft_PublicWebhookURL t)) ''PUBLIC_WEBHOOK_URL must be a valid http or https URL when TELEGRAM_MODE=webhook'' @
         problem_if (hook \<and> \<not> cfh_Enabled (cfg_HTTP cfg)) ''HTTP_ENABLED=true is required when TELEGRAM_MODE=webhook'' @
         problem_if (cft_PollingBackoffMin t \<le> 0) ''TELEGRAM_POLLING_BACKOFF_MIN_SECONDS must be greater than 0'' @
         problem_if (cft_PollingBackoffMax t \<le> 0) ''TELEGRAM_POLLING_BACKOFF_MAX_SECONDS must be greater than 0'' @
         problem_if (cft_PollingBackoffMin t > cft_PollingBackoffMax t)
           ''TELEGRAM_POLLING_BACKOFF_MIN_SECONDS must be less than or equal to TELEGRAM_POLLING_BACKOFF_MAX_SECONDS'')"

definition validate_binance :: "config \<Rightarrow> string list" where
  "validate_binance cfg =
     (let a = cfg_App cfg; b = cfg_Binance cfg; keyless = (cfb_APIKey b = [] \<or> cfb_APISecret b = []); real = cfa_RealTradingEnabled a
      in problem_if (cfb_RequestTimeout b \<le> 0) ''BINANCE_REQUEST_TIMEOUT_SECONDS must be greater than 0'' @
         problem_if (cfb_ExchangeInfoCacheTTL b \<le> 0) ''EXCHANGE_INFO_CACHE_TTL_SECONDS must be greater than 0'' @
         problem_if (\<not> cfa_DryRun a \<and> \<not> cfu_Enabled (cfg_Auth cfg) \<and> keyless)
           ''BINANCE_API_KEY and BINANCE_API_SECRET are required when DRY_RUN=false (unless per-user credentials are enabled via CREDENTIAL_ENCRYPTION_KEY)'' @
         problem_if (real \<and> cfa_DryRun a) ''REAL_TRADING_ENABLED=true requires DRY_RUN=false'' @
         problem_if (real \<and> cfb_Testnet b) ''REAL_TRADING_ENABLED=true requires BINANCE_TESTNET=false'' @
         problem_if (real \<and> keyless) ''REAL_TRADING_ENABLED=true requires BINANCE_API_KEY and BINANCE_API_SECRET'')"

definition panel_member :: "nat \<times> ai_provider \<Rightarrow> string list" where
  "panel_member m =
     (case m of (i, p) \<Rightarrow>
        let at_i = ''AI_PROVIDERS['' @ show_nat i @ '']''
        in problem_if (aip_Provider p \<noteq> ''anthropic'' \<and> aip_Provider p \<noteq> ''openai_compatible'') (at_i @ ''.provider must be anthropic or openai_compatible'') @
           requireNonEmpty (at_i @ ''.api_key'') (aip_APIKey p) @ requireNonEmpty (at_i @ ''.model'') (aip_Model p))"

definition validate_ai :: "url_parser \<Rightarrow> config \<Rightarrow> string list" where
  "validate_ai url cfg =
     (let a = cfg_AI cfg in
      (if cfi_Enabled a then
         (if cfi_Providers a \<noteq> [] then
            concat (map panel_member (enumerate 0 (cfi_Providers a))) @
            problem_if (cfi_EnsemblePolicy a \<notin> {[], ''majority'', ''consensus''}) ''AI_ENSEMBLE_POLICY must be majority or consensus''
          else
            problem_if (cfi_Provider a \<noteq> ''openai_compatible'' \<and> cfi_Provider a \<noteq> ''anthropic'') ''AI_PROVIDER must be disabled, openai_compatible, or anthropic'' @
            requireNonEmpty ''AI_API_KEY'' (cfi_APIKey a) @ requireNonEmpty ''AI_MODEL'' (cfi_Model a) @
            problem_if (\<not> validHTTPURL url (cfi_BaseURL a)) ''AI_BASE_URL must be a valid http or https URL'') @
         problem_if (cfi_RequestTimeout a \<le> 0) ''AI_REQUEST_TIMEOUT_SECONDS must be greater than 0'' @
         problem_if (cfi_MinConfidencePercent a < 0 \<or> cfi_MinConfidencePercent a > 100) ''AI_MIN_CONFIDENCE_PERCENT must be between 0 and 100''
       else []) @
      problem_if (cfi_AutoTradeEnabled a \<and> \<not> cfi_Enabled a) ''AI_AUTOTRADE_ENABLED=true requires AI_ENABLED=true'' @
      problem_if (cfi_AutoTradeEnabled a \<and> \<not> cfa_DryRun (cfg_App cfg) \<and> \<not> cfb_Testnet (cfg_Binance cfg))
        ''AI_AUTOTRADE_ENABLED=true requires DRY_RUN=true or BINANCE_TESTNET=true in this phase'')"

definition validate_services :: "config \<Rightarrow> string list" where
  "validate_services cfg =
     (let p = cfg_Stripe cfg; s = cfg_S3 cfg; u = cfg_Auth cfg in
      (if cfs_Enabled p
       then requireNonEmpty ''STRIPE_SECRET_KEY'' (cfs_SecretKey p) @ requireNonEmpty ''STRIPE_WEBHOOK_SECRET'' (cfs_WebhookSecret p) @
            requireNonEmpty ''STRIPE_PRICE_ID'' (cfs_PriceID p) else []) @
      (if cf3_Enabled s
       then requireNonEmpty ''S3_REGION'' (cf3_Region s) @ requireNonEmpty ''S3_BUCKET'' (cf3_Bucket s) @
            requireNonEmpty ''S3_ACCESS_KEY_ID'' (cf3_AccessKeyID s) @ requireNonEmpty ''S3_SECRET_ACCESS_KEY'' (cf3_SecretAccessKey s) else []) @
      (if cfu_Enabled u
       then problem_if (length (cfu_EncryptionKey u) \<noteq> 32) ''CREDENTIAL_ENCRYPTION_KEY must decode (base64) to exactly 32 bytes for AES-256'' @
            requireNonEmpty ''CREDENTIAL_ENCRYPTION_KEY_ID'' (cfu_EncryptionKeyID u) else []) @
      problem_if (cfu_TokenSecret u \<noteq> [] \<and> length (cfu_TokenSecret u) < MinSecretSize) ''AUTH_JWT_SECRET must decode (base64) to at least 32 bytes'')"

definition validate :: "url_parser \<Rightarrow> config \<Rightarrow> string list" where
  "validate url cfg =
     requireNonEmpty ''TELEGRAM_BOT_TOKEN'' (cft_BotToken (cfg_Telegram cfg)) @ requireNonEmpty ''MONGODB_URI'' (cfm_URI (cfg_MongoDB cfg)) @
     requireNonEmpty ''MONGODB_DATABASE'' (cfm_Database (cfg_MongoDB cfg)) @ requireNonEmpty ''HTTP_ADDR'' (cfh_Addr (cfg_HTTP cfg)) @
     problem_if (cft_AdminUserID (cfg_Telegram cfg) = 0 \<and> cft_AllowedUserIDs (cfg_Telegram cfg) = [])
       ''TELEGRAM_ADMIN_USER_ID or TELEGRAM_ALLOWED_USER_IDS must contain at least one valid user id'' @
     validate_app (cfg_App cfg) @ validate_telegram url cfg @ validate_binance cfg @
     problem_if (cfm_URI (cfg_MongoDB cfg) \<noteq> [] \<and> \<not> validMongoURI url (cfm_URI (cfg_MongoDB cfg)))
       ''MONGODB_URI must start with mongodb:// or mongodb+srv:// and include a host'' @
     (if cfv_Enabled (cfg_TradingView cfg)
      then requireNonEmpty ''TRADINGVIEW_WEBHOOK_SECRET'' (cfv_WebhookSecret (cfg_TradingView cfg)) @
           problem_if (\<not> cfh_Enabled (cfg_HTTP cfg)) ''HTTP_ENABLED=true is required when TRADINGVIEW_ENABLED=true'' else []) @
     validate_ai url cfg @ validate_services cfg"

text \<open>The settings, or the problems; every problem is reported, the readers' first.\<close>

definition LoadFromLookup :: "(string \<Rightarrow> ai_provider list option) \<Rightarrow> url_parser \<Rightarrow> lookup \<Rightarrow> string list + config" where
  "LoadFromLookup json url lk =
     (case load_config json lk of (cfg, problems) \<Rightarrow>
        let problems = problems @ validate url cfg in if problems = [] then Inr cfg else Inl problems)"

definition validation_error :: "string list \<Rightarrow> string" where
  "validation_error problems = ''config validation failed: '' @ join_with ''; '' problems"

section \<open>The \<open>.env\<close> file\<close>

definition comment_mark :: string where "comment_mark = [CHR '' '', CHR 0x23]"

text \<open>The text before the first \<open>" #"\<close>.\<close>

fun before_comment :: "string \<Rightarrow> string" where
  "before_comment [] = []"
| "before_comment (c # s) = (if has_prefix (c # s) comment_mark then [] else c # before_comment s)"

definition quoted_by :: "char \<Rightarrow> string \<Rightarrow> bool" where
  "quoted_by q v \<longleftrightarrow> length v \<ge> 2 \<and> hd v = q \<and> last v = q"

definition parseEnvValue :: "string \<Rightarrow> string" where
  "parseEnvValue value =
     (let v = trim_space value
      in if v = [] then []
         else if quoted_by (CHR 0x22) v \<or> quoted_by (CHR 0x27) v then butlast (tl v)
         else trim_space (before_comment v))"

definition validEnvKey :: "string \<Rightarrow> bool" where
  "validEnvKey k =
     (case k of [] \<Rightarrow> False
      | c # s \<Rightarrow> (c = CHR ''_'' \<or> is_upper c \<or> is_lower c) \<and> list_all (\<lambda>c. c = CHR ''_'' \<or> is_upper c \<or> is_lower c \<or> is_digit c) s)"

text \<open>One line: nothing, a setting, or an error. A line of 64 KiB or more stops the scanner.\<close>

datatype env_line = EnvNothing | EnvSetting string string | EnvNoSetting | EnvBadKey | EnvTooLong

definition env_line :: "string \<Rightarrow> env_line" where
  "env_line raw =
     (if length raw \<ge> 65536 then EnvTooLong
      else let line = trim_space raw
      in if line = [] \<or> has_prefix line [CHR 0x23] then EnvNothing
         else (case cut_at (CHR ''='') (trim_prefix line ''export '') of
                 (k, v, found) \<Rightarrow>
                   if \<not> found then EnvNoSetting
                   else if \<not> validEnvKey (trim_space k) then EnvBadKey
                   else EnvSetting (trim_space k) (parseEnvValue v)))"

fun env_lines :: "string \<Rightarrow> nat \<Rightarrow> lookup \<Rightarrow> string list \<Rightarrow> string + lookup" where
  "env_lines path n values [] = Inr values"
| "env_lines path n values (raw # rest) =
     (case env_line raw of
        EnvNothing \<Rightarrow> env_lines path (n + 1) values rest
      | EnvSetting k v \<Rightarrow> env_lines path (n + 1) (values(k \<mapsto> v)) rest
      | EnvNoSetting \<Rightarrow> Inl (''read env file '' @ path @ '': line '' @ show_nat n @ '' must be KEY=VALUE'')
      | EnvBadKey \<Rightarrow> Inl (''read env file '' @ path @ '': line '' @ show_nat n @ '' has invalid key'')
      | EnvTooLong \<Rightarrow> Inl (''read env file '' @ path @ '': bufio.Scanner: token too long''))"

text \<open>\<open>files path\<close> is the file system: an error, no such file, or the text.\<close>

definition readEnvFile :: "(string \<Rightarrow> string + string option) \<Rightarrow> string \<Rightarrow> string + lookup" where
  "readEnvFile files path =
     (if trim_space path = [] then Inr Map.empty
      else case files path of
        Inl e \<Rightarrow> Inl (''read env file '' @ path @ '': '' @ e)
      | Inr None \<Rightarrow> Inr Map.empty
      | Inr (Some text1) \<Rightarrow> env_lines path 1 Map.empty (split_on (CHR 0x0A) text1))"

text \<open>The process environment comes before the file, also when it sets a name to nothing.\<close>

definition overlayLookup :: "lookup \<Rightarrow> lookup \<Rightarrow> lookup" where
  "overlayLookup file lk k = (case lk k of Some v \<Rightarrow> Some v | None \<Rightarrow> file k)"

datatype load_error = FileError string | Invalid "string list"

definition LoadFromFile ::
    "(string \<Rightarrow> ai_provider list option) \<Rightarrow> url_parser \<Rightarrow> (string \<Rightarrow> string + string option) \<Rightarrow> string \<Rightarrow> lookup \<Rightarrow> load_error + config" where
  "LoadFromFile json url files path lk =
     (case readEnvFile files path of
        Inl e \<Rightarrow> Inl (FileError e)
      | Inr values \<Rightarrow> (case LoadFromLookup json url (overlayLookup values lk) of Inl ps \<Rightarrow> Inl (Invalid ps) | Inr cfg \<Rightarrow> Inr cfg))"

text \<open>The first of the candidates that is a file; \<open>clean\<close> is \<open>filepath.Clean\<close>.\<close>

fun first_existing :: "(string \<Rightarrow> string) \<Rightarrow> (string \<Rightarrow> bool) \<Rightarrow> string list \<Rightarrow> string list \<Rightarrow> string" where
  "first_existing clean is_file seen [] = ''.env''"
| "first_existing clean is_file seen (c # cs) =
     (if trim_space c = [] then first_existing clean is_file seen cs
      else if clean c \<in> set seen then first_existing clean is_file seen cs
      else if is_file (clean c) then clean c
      else first_existing clean is_file (clean c # seen) cs)"

definition firstExistingPath :: "(string \<Rightarrow> string) \<Rightarrow> (string \<Rightarrow> bool) \<Rightarrow> string list \<Rightarrow> string" where
  "firstExistingPath clean is_file candidates = first_existing clean is_file [] candidates"

section \<open>What the rules guarantee\<close>

lemma LoadFromLookup_ok:
  "LoadFromLookup json url lk = Inr cfg \<longleftrightarrow> cfg = fst (load_config json lk) \<and> snd (load_config json lk) = [] \<and> validate url cfg = []"
  by (auto simp: LoadFromLookup_def Let_def split: prod.splits if_splits)

lemma user_ids_positive: "n \<in> set (fst (user_ids name seen parts)) \<Longrightarrow> 0 < n"
  by (induction name seen parts rule: user_ids.induct) (auto simp: positive_id_def split: option.splits if_splits)

lemma env_userID_nonneg: "0 \<le> fst (env_userID lk name)"
  by (auto simp: env_userID_def env_parsed_def positive_id_def split: option.splits if_splits)

lemma allowed_positive: "n \<in> set (fst (env_userIDs lk name)) \<Longrightarrow> 0 < n"
  by (auto simp: env_userIDs_def user_ids_positive split: option.splits)

lemma admin_positive:
  assumes "\<not> (cft_AdminUserID (fst (load_telegram lk)) = 0 \<and> cft_AllowedUserIDs (fst (load_telegram lk)) = [])"
  shows "0 < cft_AdminUserID (fst (load_telegram lk))"
proof -
  have "0 < hd (fst (env_userIDs lk ''TELEGRAM_ALLOWED_USER_IDS''))" if "fst (env_userIDs lk ''TELEGRAM_ALLOWED_USER_IDS'') \<noteq> []"
    using allowed_positive that by (meson hd_in_set)
  then show ?thesis
    using assms env_userID_nonneg [of lk "''TELEGRAM_ADMIN_USER_ID''"] env_userID_nonneg [of lk "''TELEGRAM_ALLOWED_USER_ID''"]
    by (auto simp: load_telegram_def Let_def split: if_splits)
qed

lemma trim_space_Nil [simp]: "trim_space [] = []"
  by (simp add: trim_space_def trim_left_def)

lemma hours_pos: "0 < hours 24"
  by (simp add: hours_def minutes_def)


definition ex_url :: url_parser where
  "ex_url v = (if has_prefix v ''mongodb://'' then Some (''mongodb'', drop 10 v) else None)"

definition ex_settings :: lookup where
  "ex_settings =
     [''TELEGRAM_BOT_TOKEN'' \<mapsto> ''t'', ''TELEGRAM_ALLOWED_USER_IDS'' \<mapsto> ''7, 8'', ''MONGODB_URI'' \<mapsto> ''mongodb://db'', ''DRY_RUN'' \<mapsto> ''false'',
      ''BINANCE_API_KEY'' \<mapsto> ''k'', ''BINANCE_API_SECRET'' \<mapsto> ''s'']"

lemma ex_settings_load: "case LoadFromLookup (\<lambda>_. None) ex_url ex_settings of Inl _ \<Rightarrow> False | Inr _ \<Rightarrow> True"
  by code_simp


text \<open>A value that is written in double quotes is read back as it is, spaces and comment marks included.\<close>

lemma quoted_value: "parseEnvValue ([CHR 0x22] @ v @ [CHR 0x22]) = v"
proof -
  have "\<not> is_space (CHR 0x22)" by (simp add: is_space_def code_def)
  then have "trim_space ([CHR 0x22] @ v @ [CHR 0x22]) = [CHR 0x22] @ v @ [CHR 0x22]"
    by (simp add: trim_space_def trim_left_def dropWhile_append3)
  then show ?thesis by (simp add: parseEnvValue_def Let_def quoted_by_def)
qed

text \<open>A name that the process environment sets is never looked up in the file.\<close>

lemma overlay_environment: "lk k = Some v \<Longrightarrow> overlayLookup values lk k = Some v"
  by (simp add: overlayLookup_def)

end
