(* ===== verification/Spec2Isabelle.thy ===== *)
theory Spec2Isabelle
  imports Parser Journal_Report Order_Properties Armed_Properties Binance_Stops Campaign_Manager Trailing Transparency Ensemble Goal_Properties Market_Properties Telegram_Properties Web_Server Config
begin

text \<open>
  A model of joinanny, a trading bot for Binance futures: the Go packages under \<open>src/internal\<close>, with the
  properties that make them correct. Where a theory is named below, its own first text says more.

  \<^bold>\<open>The program.\<close> Orders reach the bot from a Telegram chat, a web dashboard, TradingView alerts and autonomous
  campaigns. Whatever their source, they become an intent (\<open>domain\<close>), are prepared by the order service
  (\<open>orders\<close>) under a random key, and reach the exchange when the user who owns the key confirms it in time. Only the
  alert processor and the campaign placer confirm for a user, and both do so behind configuration gates. The
  executor (\<open>exchange/binance\<close>) opens a position, protects it and undoes it when it cannot be protected. A
  confirmed order is journaled (\<open>journal\<close>), may be closed on time (\<open>api/scheduled_close.go\<close>), is trailed by a
  monitor (\<open>monitor\<close>), and is reported in public records (\<open>transparency\<close>). State is kept by stores that exist in
  memory and over MongoDB (\<open>storage/mongo\<close>, \<open>app\<close>).

  \<^bold>\<open>Conventions.\<close> A Go string or byte slice is a list of characters, one per byte. Times and durations are
  nanoseconds as \<open>int\<close>, counted from Go's zero time. A struct is a record, with a prefix for each of its fields; a
  Go map is a map; an error is the left side of a sum; a pointer that may be nil is an option. A panic is an error value of
  its own where the code can reach one (\<open>MissionPanic\<close>, \<open>GoalPanic\<close>, \<open>PanicNilExecutor\<close>). An operation that has effects takes the world it acts on as its last argument and
  returns it updated; a Go interface is a record of such operations (\<open>executor\<close>, \<open>provider\<close>), or a \<open>locale\<close>
  where its clients rely on laws. A call that reads a clock takes the readings as an argument, a function from the
  number of the reading, so that nothing is assumed of two successive readings unless a hypothesis says it.

  \<^bold>\<open>Ground.\<close>
  \<^item> \<open>Prelude\<close>: the fact collections, clocks, Go's 64-bit integers, lists and maps. \<open>Go_Text\<close>: the functions of
    \<open>strings\<close>, \<open>strconv\<close> and \<open>fmt\<close> the program calls, \<open>Floats\<close>: \<open>float64\<close> as rationals, each operation rounded
    to 53 bits, half to even; overflow, infinities and NaN are not values of it.
  \<^item> \<open>Mongo_Driver\<close>: a collection is a parameter whose commands are each one atomic step; the locale of a
    repository states what a filter selects and what an update writes, and it is interpreted on a collection kept as a
    list of documents.

  \<^bold>\<open>Amounts, commands, orders.\<close>
  \<^item> \<open>Decimal\<close> is \<open>decimal/decimal.go\<close>: unbounded integers with a scale, its arithmetic, division to a
    number of places, parsing and printing; the lemmas relate every operation to the rational it computes.
  \<^item> \<open>Domain\<close> is \<open>domain\<close>; \<open>Parser\<close> is \<open>parser/parser.go\<close>, one definition per function, with the type property that
    a parsed command is valid.
  \<^item> \<open>Order_Text\<close>, \<open>Confirmations\<close>, \<open>Orders\<close> are \<open>orders\<close> and \<open>storage/mongo/confirmations.go\<close>. The locale of a
    confirmation store promises that a key is taken to be executed at most once, by its owner, in time and after the
    acknowledgement an order needs; both stores are interpretations. \<open>Order_System\<close> is the abstract specification: any
    number of callers whose store operations interleave, a caller that dies half way, documents that expire.
    \<open>Order_Properties\<close> shows single execution and that the service refines the specification.
  \<^item> \<open>Journal\<close>, \<open>Journal_Report\<close>: the trade journal, its stores (the first journaled result of a trade wins) and the report.

  \<^bold>\<open>The exchange.\<close>
  \<^item> \<open>Binance_Net\<close>, \<open>Binance_Executor\<close> are \<open>exchange/binance\<close>, request by request: signing, filters, rounding, entry, chase
    of a resting entry, protective orders, rollback, close, cancel, the trailing stop's replacement, results. The HTTP
    transport is an argument, a function of the request and a world; a reply is what \<open>encoding/json\<close> makes of it.
  \<^item> \<open>Binance_Trace\<close> puts a recorder before any transport, so that a property is about the list of requests sent, for
    every behaviour of the exchange: an opened position is protected or undone, a resting entry is never doubled,
    a close only reduces. \<open>Binance_Results\<close>: quantities, prices, and the end of every wait. \<open>Trailing\<close> is \<open>monitor\<close>, \<open>Trail_Contract\<close> the locale of the exchange it relies on, and \<open>Binance_Stops\<close> the
    interpretation on the executor: trailing never leaves a position without a stop.
  \<^item> \<open>Market_Data\<close>, \<open>Market_Properties\<close>: \<open>marketdata\<close>, its checks of a reply and the paging of candles, equal to the
    history the exchange serves.

  \<^bold>\<open>Missions and campaigns.\<close>
  \<^item> \<open>Scheduled_Close\<close>, \<open>Mission_Close\<close>: the timed close of a mission, its job states as a locale that both stores interpret,
    claims with a lease, retries until the position is closed. \<open>Armed_Store\<close>, \<open>Armed_Mission\<close>, \<open>Armed_Properties\<close>: missions
    that wait for their signal; the cap per user, the evaluation of a mission, the second look before a confirm.
  \<^item> \<open>Signals\<close>: \<open>signals\<close> and the placer of \<open>campaignexec\<close>. \<open>Ensemble\<close>: \<open>ai/ensemble.go\<close>. \<open>Anny_Basic\<close>, \<open>Indicators\<close>,
    \<open>Backtest\<close>: \<open>strategy/annybasic\<close>, \<open>indicators\<close>, \<open>backtest\<close>, in the arithmetic of \<open>Floats\<close>.
  \<^item> \<open>Campaign\<close>, \<open>Campaign_Manager\<close>: goals, planning, the engine; the manager's goroutines are steps of a relation.
    \<open>Paper\<close>, \<open>Walkforward\<close>: runs over past candles and their rolling validation, with no look at data after the fold.
    \<open>Goal_Runs\<close>, \<open>Goal_Properties\<close>: \<open>api/goal.go\<close>.

  \<^bold>\<open>People and front ends.\<close>
  \<^item> \<open>Access\<close>: \<open>api/access.go\<close>, \<open>api/tiers.go\<close>, \<open>app/access.go\<close>. \<open>Credentials\<close>, \<open>AI_Keys\<close>: sealed keys. \<open>Sessions\<close>,
    \<open>Logins\<close>: \<open>auth\<close>, tokens byte for byte. \<open>Accounts\<close>, \<open>Interest\<close>: \<open>users\<close> and \<open>interest\<close> with their stores.
  \<^item> \<open>Bot_Text\<close>, \<open>Telegram_Bot\<close>, \<open>Telegram_Properties\<close>: \<open>telegram\<close>, an update as a message or a pressed button, each
    handler with the calls it makes.
  \<^item> \<open>Web_Orders\<close>, \<open>Web_Mission\<close>, \<open>Web_Commands\<close>, \<open>Web_Properties\<close>: the orders, live missions and console of the
    dashboard. \<open>Web_Accounts\<close>, \<open>Account_Properties\<close>: login and invitations. \<open>Web_Server\<close>: \<open>api/server.go\<close>, the session check
    and the routes that reach the order service.
  \<^item> \<open>Realtime\<close>: the event gateway. \<open>Transparency\<close>: content hashes and Merkle roots. \<open>Config\<close>: \<open>config\<close>, with the
    property that a configuration that loads cannot trade by accident.

  \<^bold>\<open>Parameters and hypotheses.\<close> Third-party and cryptographic code is an argument: HMAC, SHA-256, AES-GCM and bcrypt, \<open>encoding/json\<close>,
  \<open>net/mail\<close> and \<open>url.Parse\<close>, the MongoDB driver, the HTTP transports, random bytes and the AI advisors. Nothing is
  assumed of an argument but what a property's hypotheses say: that opening undoes sealing under one key, that decoding undoes encoding, that
  sessions are only signed by the server (the forgery a keyed hash excludes is not modelled; the properties say
  \<^emph>\<open>signed with the server's key\<close>), that a fresh random key was not issued
  before. Where a property needs a hash to separate two texts, it names the collision it excludes. Each property with such a hypothesis has a witness on a concrete instance.

  \<^bold>\<open>Loops and bounds.\<close> No definition carries fuel that the code does not have. A loop over a list is structural recursion. The
  paging of candles counts down the bars that remain to be fetched, as the code does; the paper run, the folds of the walk-forward and
  the Merkle tree recurse on the length of what is left. The two loops that wait, the poll of a resting entry and the
  campaign engine, are partial functions with \<open>None\<close> for never returning: that an entry ends is proved for a clock that
  moves on by each pause (\<open>Binance_Results\<close>), and that the engine ends is proved from the rounds the goal allows (\<open>Campaign\<close>).
  Goroutines and tickers that never end are not functions here: their body is a step, and properties hold of every
  sequence of steps. Amounts are unbounded integers, as \<open>math/big\<close> has them; \<open>int\<close>, \<open>int64\<close> and durations are integers whose range
  is checked where the program can leave it (parsing, \<open>float64\<close> conversions).

  \<^bold>\<open>Not modelled.\<close>
  \<^item> \<open>cmd\<close>, \<open>app.go\<close>, \<open>logging\<close>, \<open>version\<close>, \<open>dashboard\<close>, \<open>storage/mongo/store.go\<close>: process start, the wiring of the parts above, log lines,
    the embedded web page, connections and indexes.
  \<^item> The network adapters of \<open>ai\<close> (\<open>advisor.go\<close>, \<open>anthropic.go\<close>, \<open>news.go\<close>, \<open>feargreed.go\<close>, \<open>orderflow.go\<close>, \<open>indicators.go\<close>, \<open>context.go\<close>,
    \<open>build.go\<close>): prompt texts and HTTP calls to third parties. An advisor is a parameter wherever one is consulted.
  \<^item> In \<open>api/server.go\<close>, the framework: listening, shutdown, rate limits, static pages.
\<close>

end
